(* ===== verification/Prelude.thy ===== *)
theory Prelude
  imports Main "HOL-Library.Char_ord" "HOL-Library.List_Lexorder" "HOL-Library.AList" "HOL-Library.Multiset"
begin

text \<open>
  The shared vocabulary of the development: Go's strings as lists of bytes and the functions of
  its \<open>strings\<close>, \<open>strconv\<close> and \<open>sort\<close> packages that the program uses, Go's maps as
  association lists, error returns as sums, and the lemma collections the component theories
  share.
\<close>

section \<open>Errors as values\<close>

text \<open>
  A Go function with results \<open>(T, error)\<close> returns \<open>goerr + T\<close>. An error built by
  \<open>fmt.Errorf\<close> is \<open>Errorf\<close> with the message's key and its operands, one wrapped with
  \<open>%w\<close> is \<open>Wrapf\<close>, and \<open>ExtErr\<close> is an error handed back by code outside the repository.
\<close>

datatype goerr =
    AppEnvRequired
  | BadName string string
  | BadEnvVarName string string
  | BadDomain string string
  | Errorf string "string list"
  | Wrapf string goerr
  | ExtErr string

definition bindR :: "'e + 'a \<Rightarrow> ('a \<Rightarrow> 'e + 'b) \<Rightarrow> 'e + 'b" where
  "bindR m f = (case m of Inl e \<Rightarrow> Inl e | Inr a \<Rightarrow> f a)"

text \<open>A \<open>for\<close> loop over a slice that threads a state and returns at the first error.\<close>

fun foldR :: "('s \<Rightarrow> 'a \<Rightarrow> 'e + 's) \<Rightarrow> 's \<Rightarrow> 'a list \<Rightarrow> 'e + 's" where
  "foldR f s [] = Inr s"
| "foldR f s (x # xs) = bindR (f s x) (\<lambda>s'. foldR f s' xs)"

text \<open>A \<open>for\<close> loop that appends one result per element.\<close>

fun mapR :: "('a \<Rightarrow> 'e + 'b) \<Rightarrow> 'a list \<Rightarrow> 'e + 'b list" where
  "mapR f [] = Inr []"
| "mapR f (x # xs) = bindR (f x) (\<lambda>y. bindR (mapR f xs) (\<lambda>ys. Inr (y # ys)))"

text \<open>
  A sequence of statements \<open>if c { return err }\<close>: the first check that fails decides.
\<close>

fun first_err :: "'e option list \<Rightarrow> 'e option" where
  "first_err [] = None"
| "first_err (None # cs) = first_err cs"
| "first_err (Some e # cs) = Some e"

definition check :: "bool \<Rightarrow> 'e \<Rightarrow> 'e option" where
  "check bad e = (if bad then Some e else None)"

definition err_of :: "'e + 'a \<Rightarrow> 'e option" where
  "err_of r = (case r of Inl e \<Rightarrow> Some e | Inr _ \<Rightarrow> None)"

text \<open>A check performed for every element of a slice.\<close>

definition each :: "('a \<Rightarrow> 'e option) \<Rightarrow> 'a list \<Rightarrow> 'e option" where
  "each f xs = first_err (map f xs)"

lemma bindR_Inl [simp]: "bindR (Inl e) f = Inl e"
  by (simp add: bindR_def)

lemma bindR_Inr [simp]: "bindR (Inr a) f = f a"
  by (simp add: bindR_def)

lemma bindR_eq_Inr: "bindR m f = Inr b \<longleftrightarrow> (\<exists>a. m = Inr a \<and> f a = Inr b)"
  by (cases m) auto

lemma bindR_eq_Inl: "bindR m f = Inl e \<longleftrightarrow> m = Inl e \<or> (\<exists>a. m = Inr a \<and> f a = Inl e)"
  by (cases m) auto

lemma check_None [simp]: "check bad e = None \<longleftrightarrow> \<not> bad"
  by (simp add: check_def)

lemma check_Some [simp]: "check bad e = Some e' \<longleftrightarrow> bad \<and> e' = e"
  by (auto simp: check_def)

lemma first_err_None: "first_err cs = None \<longleftrightarrow> (\<forall>c \<in> set cs. c = None)"
  by (induction cs rule: first_err.induct) auto

lemma first_err_None_Cons [simp]: "first_err (c # cs) = None \<longleftrightarrow> c = None \<and> first_err cs = None"
  by (cases c) auto

lemma first_err_Some: "first_err cs = Some e \<Longrightarrow> Some e \<in> set cs"
  by (induction cs rule: first_err.induct) auto

lemma each_None: "each f xs = None \<longleftrightarrow> (\<forall>x \<in> set xs. f x = None)"
  by (simp add: each_def first_err_None)

lemma err_of_None [simp]: "err_of r = None \<longleftrightarrow> (\<exists>a. r = Inr a)"
  by (cases r) (auto simp: err_of_def)

lemma mapR_Inr: "mapR f xs = Inr ys \<longleftrightarrow> list_all2 (\<lambda>x y. f x = Inr y) xs ys"
  by (induction xs arbitrary: ys) (auto simp: bindR_eq_Inr list_all2_Cons1)

section \<open>Maps and sets\<close>

text \<open>
  A Go map is an association list with distinct keys; the order of the list is one of the orders
  in which \<open>range\<close> may visit the map. A \<open>map[string]bool\<close> whose values are only ever set
  to true is the list of its keys.
\<close>

type_synonym 'v gomap = "(string \<times> 'v) list"

definition gomap_ok :: "'v gomap \<Rightarrow> bool" where
  "gomap_ok m \<longleftrightarrow> distinct (map fst m)"

definition has_key :: "'v gomap \<Rightarrow> string \<Rightarrow> bool" where
  "has_key m k \<longleftrightarrow> map_of m k \<noteq> None"

text \<open>\<open>utils.SortedKeys\<close>, and its two local copies \<open>sortedKeys\<close>.\<close>

definition SortedKeys :: "'v gomap \<Rightarrow> string list" where
  "SortedKeys m = sort (map fst m)"

definition sorted_set :: "string list \<Rightarrow> string list" where
  "sorted_set ks = sort (remdups ks)"

text \<open>\<open>utils.RemovedKeys\<close> and \<open>utils.ReverseSorted\<close>.\<close>

definition RemovedKeys :: "'v gomap \<Rightarrow> 'w gomap \<Rightarrow> string list" where
  "RemovedKeys prev current = filter (\<lambda>k. \<not> has_key current k) (map fst prev)"

definition ReverseSorted :: "string list \<Rightarrow> string list" where
  "ReverseSorted s = rev (sort s)"

lemma has_key_iff: "has_key m k \<longleftrightarrow> k \<in> set (map fst m)"
  by (induction m) (auto simp: has_key_def)

lemma has_key_fst: "has_key m k \<longleftrightarrow> k \<in> fst ` set m"
  by (simp add: has_key_iff)

lemma has_key_dom: "has_key m k \<longleftrightarrow> k \<in> dom (map_of m)"
  by (auto simp: has_key_def)

lemma has_keyE: "has_key m k \<Longrightarrow> (\<And>v. map_of m k = Some v \<Longrightarrow> P) \<Longrightarrow> P"
  by (auto simp: has_key_def)

lemma has_keyI: "map_of m k = Some v \<Longrightarrow> has_key m k"
  by (simp add: has_key_def)

lemma has_key_update [simp]: "has_key (AList.update k v m) k' \<longleftrightarrow> k' = k \<or> has_key m k'"
  by (simp add: has_key_def update_conv')

lemma keys_update: "has_key m k \<Longrightarrow> map fst (AList.update k v m) = map fst m"
  by (simp add: has_key_iff update_keys)

lemma gomap_ok_update [simp]: "gomap_ok m \<Longrightarrow> gomap_ok (AList.update k v m)"
  by (simp add: gomap_ok_def distinct_update)

lemma set_SortedKeys [simp]: "set (SortedKeys m) = fst ` set m"
  by (simp add: SortedKeys_def)

lemma sorted_SortedKeys [simp]: "sorted (SortedKeys m)"
  by (simp add: SortedKeys_def)

lemma distinct_SortedKeys [simp]: "distinct (SortedKeys m) \<longleftrightarrow> gomap_ok m"
  by (simp add: SortedKeys_def gomap_ok_def)

lemma set_sorted_set [simp]: "set (sorted_set ks) = set ks"
  by (simp add: sorted_set_def)

lemma distinct_sorted_set [simp]: "distinct (sorted_set ks)"
  by (simp add: sorted_set_def)

lemma sorted_sorted_set [simp]: "sorted (sorted_set ks)"
  by (simp add: sorted_set_def)

lemma sorted_set_cong: "set xs = set ys \<Longrightarrow> sorted_set xs = sorted_set ys"
  by (rule sorted_distinct_set_unique) simp_all

lemma map_of_memb: "gomap_ok m \<Longrightarrow> map_of m k = Some v \<longleftrightarrow> (k, v) \<in> set m"
  by (simp add: gomap_ok_def map_of_eq_Some_iff)

lemma SortedKeys_mset:
  assumes "mset m = mset m'"
  shows "SortedKeys m = SortedKeys m'"
proof -
  from assms have "mset (map fst m) = mset (map fst m')" by (metis mset_map)
  then show ?thesis
    unfolding SortedKeys_def by (intro properties_for_sort) simp_all
qed

section \<open>Strings\<close>

text \<open>A Go string is its bytes. The functions below are those of Go's \<open>strings\<close> package on
  single-byte separators.\<close>

fun cut :: "char \<Rightarrow> string \<Rightarrow> string \<times> string \<times> bool" where
  "cut c [] = ([], [], False)"
| "cut c (x # xs) =
     (if x = c then ([], xs, True)
      else (case cut c xs of (a, b, ok) \<Rightarrow> (x # a, b, ok)))"

fun index_byte :: "string \<Rightarrow> char \<Rightarrow> nat option" where
  "index_byte [] c = None"
| "index_byte (x # xs) c = (if x = c then Some 0 else map_option Suc (index_byte xs c))"

text \<open>\<open>strings.LastIndex\<close> of a single byte.\<close>

fun last_index_byte :: "string \<Rightarrow> char \<Rightarrow> nat option" where
  "last_index_byte [] c = None"
| "last_index_byte (x # xs) c =
     (case last_index_byte xs c of
        Some i \<Rightarrow> Some (Suc i)
      | None \<Rightarrow> if x = c then Some 0 else None)"

definition has_prefix :: "string \<Rightarrow> string \<Rightarrow> bool" where
  "has_prefix s p \<longleftrightarrow> take (length p) s = p"

definition has_suffix :: "string \<Rightarrow> string \<Rightarrow> bool" where
  "has_suffix s p \<longleftrightarrow> length p \<le> length s \<and> drop (length s - length p) s = p"

text \<open>\<open>strings.Index\<close> and \<open>strings.Contains\<close> of a substring.\<close>

fun index_of :: "string \<Rightarrow> string \<Rightarrow> nat option" where
  "index_of [] p = (if p = [] then Some 0 else None)"
| "index_of (x # xs) p =
     (if has_prefix (x # xs) p then Some 0 else map_option Suc (index_of xs p))"

definition contains :: "string \<Rightarrow> string \<Rightarrow> bool" where
  "contains s p \<longleftrightarrow> index_of s p \<noteq> None"

fun split_on :: "char \<Rightarrow> string \<Rightarrow> string list" where
  "split_on c [] = [[]]"
| "split_on c (x # xs) =
     (if x = c then [] # split_on c xs
      else (case split_on c xs of [] \<Rightarrow> [[x]] | y # ys \<Rightarrow> (x # y) # ys))"

definition is_space :: "char \<Rightarrow> bool" where
  "is_space c \<longleftrightarrow> c \<in> {CHR '' '', CHR 0x09, CHR 0x0A, CHR 0x0B, CHR 0x0C, CHR 0x0D}"

definition trim_space :: "string \<Rightarrow> string" where
  "trim_space s = rev (dropWhile is_space (rev (dropWhile is_space s)))"

text \<open>\<open>strings.Fields\<close>: the maximal runs of non-space bytes.\<close>

function str_fields :: "string \<Rightarrow> string list" where
  "str_fields s = (case dropWhile is_space s of
     [] \<Rightarrow> []
   | c # cs \<Rightarrow> takeWhile (\<lambda>x. \<not> is_space x) (c # cs)
              # str_fields (dropWhile (\<lambda>x. \<not> is_space x) (c # cs)))"
  by pat_completeness auto

lemma dropWhile_lengths:
  assumes "dropWhile is_space s = c # cs"
  shows "length (dropWhile (\<lambda>x. \<not> is_space x) (c # cs)) < length s"
proof -
  have "\<not> is_space c" using assms by (metis dropWhile_eq_Cons_conv)
  moreover have "length (c # cs) \<le> length s" using assms by (metis length_dropWhile_le)
  moreover have "length (dropWhile (\<lambda>x. \<not> is_space x) cs) \<le> length cs"
    by (rule length_dropWhile_le)
  ultimately show ?thesis by auto
qed

termination str_fields
  by (relation "measure length") (auto dest: dropWhile_lengths)

declare str_fields.simps [simp del]

definition is_lower :: "char \<Rightarrow> bool" where
  "is_lower c \<longleftrightarrow> CHR ''a'' \<le> c \<and> c \<le> CHR ''z''"

definition is_upper :: "char \<Rightarrow> bool" where
  "is_upper c \<longleftrightarrow> CHR ''A'' \<le> c \<and> c \<le> CHR ''Z''"

definition is_digit :: "char \<Rightarrow> bool" where
  "is_digit c \<longleftrightarrow> CHR ''0'' \<le> c \<and> c \<le> CHR ''9''"

text \<open>\<open>strings.ToUpper\<close> and \<open>strings.ToLower\<close> on ASCII bytes.\<close>

definition upper_char :: "char \<Rightarrow> char" where
  "upper_char c = (if is_lower c then char_of (of_char c - 32 :: nat) else c)"

definition lower_char :: "char \<Rightarrow> char" where
  "lower_char c = (if is_upper c then char_of (of_char c + 32 :: nat) else c)"

definition to_upper :: "string \<Rightarrow> string" where
  "to_upper s = map upper_char s"

definition to_lower :: "string \<Rightarrow> string" where
  "to_lower s = map lower_char s"

text \<open>\<open>strings.ReplaceAll\<close> of a byte by a byte.\<close>

definition replace_byte :: "char \<Rightarrow> char \<Rightarrow> string \<Rightarrow> string" where
  "replace_byte a b s = map (\<lambda>c. if c = a then b else c) s"

text \<open>\<open>strings.Join\<close>.\<close>

fun join :: "string \<Rightarrow> string list \<Rightarrow> string" where
  "join sep [] = []"
| "join sep [x] = x"
| "join sep (x # y # ys) = x @ sep @ join sep (y # ys)"

section \<open>Numbers\<close>

text \<open>\<open>strconv.Itoa\<close> and the verb \<open>%d\<close>.\<close>

function itoa_nat :: "nat \<Rightarrow> string" where
  "itoa_nat n =
     (if n < 10 then [char_of (48 + n)]
      else itoa_nat (n div 10) @ [char_of (48 + n mod 10)])"
  by pat_completeness auto
termination itoa_nat
  by (relation "measure id") auto

declare itoa_nat.simps [simp del]

definition itoa :: "int \<Rightarrow> string" where
  "itoa i = (if i < 0 then CHR ''-'' # itoa_nat (nat (- i)) else itoa_nat (nat i))"

text \<open>
  \<open>strconv.Atoi\<close> on a 64-bit machine. The result is the value and whether the error is nil: on
  a syntax error the value is 0, on a range error it is the nearest bound.
\<close>

fun digits_val :: "string \<Rightarrow> nat \<Rightarrow> nat option" where
  "digits_val [] acc = Some acc"
| "digits_val (c # cs) acc =
     (if is_digit c then digits_val cs (10 * acc + (of_char c - 48)) else None)"

definition atoi_sign :: "bool \<Rightarrow> string \<Rightarrow> int \<times> bool" where
  "atoi_sign neg ds =
     (if ds = [] then (0, False)
      else (case digits_val ds 0 of
              None \<Rightarrow> (0, False)
            | Some n \<Rightarrow>
                if neg then (if int n \<le> 2 ^ 63 then (- int n, True) else (- (2 ^ 63), False))
                else (if int n < 2 ^ 63 then (int n, True) else (2 ^ 63 - 1, False))))"

fun atoi :: "string \<Rightarrow> int \<times> bool" where
  "atoi [] = (0, False)"
| "atoi (c # cs) =
     (if c = CHR ''-'' then atoi_sign True cs
      else if c = CHR ''+'' then atoi_sign False cs
      else atoi_sign False (c # cs))"

section \<open>Lemmas on strings\<close>

lemma cut_found: "cut c s = (a, b, True) \<Longrightarrow> s = a @ c # b \<and> c \<notin> set a"
  by (induction s arbitrary: a b) (auto split: if_splits prod.splits)

lemma cut_not_found: "cut c s = (a, b, False) \<Longrightarrow> a = s \<and> b = [] \<and> c \<notin> set s"
  by (induction s arbitrary: a b) (auto split: if_splits prod.splits)

lemma cut_append [simp]: "c \<notin> set a \<Longrightarrow> cut c (a @ c # b) = (a, b, True)"
  by (induction a) auto

lemma cut_absent [simp]: "c \<notin> set s \<Longrightarrow> cut c s = (s, [], False)"
  by (induction s) auto

lemma cut_ok_iff: "snd (snd (cut c s)) \<longleftrightarrow> c \<in> set s"
proof (cases "cut c s")
  case (fields a b ok)
  then show ?thesis by (cases ok) (auto dest!: cut_found cut_not_found)
qed

lemma index_byte_None [simp]: "index_byte s c = None \<longleftrightarrow> c \<notin> set s"
  by (induction s) auto

lemma index_byte_absent [simp]: "c \<notin> set s \<Longrightarrow> index_byte s c = None"
  by simp

lemma index_byte_Some: "index_byte s c = Some i \<Longrightarrow> i < length s \<and> s ! i = c \<and> c \<notin> set (take i s)"
  by (induction s arbitrary: i) (auto split: if_splits)

lemma index_byte_append: "c \<notin> set a \<Longrightarrow> index_byte (a @ c # b) c = Some (length a)"
  by (induction a) auto

lemma index_byte_split:
  assumes "index_byte s c = Some i"
  shows "s = take i s @ c # drop (Suc i) s"
  using index_byte_Some [OF assms] by (metis id_take_nth_drop)

lemma last_index_byte_None [simp]: "last_index_byte s c = None \<longleftrightarrow> c \<notin> set s"
  by (induction s) (auto split: option.splits)

lemma last_index_byte_append:
  "c \<notin> set b \<Longrightarrow> last_index_byte (a @ c # b) c = Some (length a)"
proof (induction a)
  case Nil
  then show ?case by (simp split: option.splits)
qed simp

lemma last_index_byte_Some:
  "last_index_byte s c = Some i \<Longrightarrow> s = take i s @ c # drop (Suc i) s \<and> c \<notin> set (drop (Suc i) s)"
proof (induction s arbitrary: i)
  case (Cons x xs)
  then show ?case by (cases "last_index_byte xs c") (auto split: if_splits)
qed simp

lemma has_suffix_append: "has_suffix (s @ p) p"
  by (simp add: has_suffix_def)

lemma has_prefix_append [simp]: "has_prefix (p @ s) p"
  by (simp add: has_prefix_def)

lemma has_prefix_iff: "has_prefix s p \<longleftrightarrow> (\<exists>t. s = p @ t)"
  by (metis append_eq_conv_conj append_take_drop_id has_prefix_def)

lemma has_prefix_byte: "has_prefix s [c] \<longleftrightarrow> s \<noteq> [] \<and> hd s = c"
  by (cases s) (auto simp: has_prefix_def)

lemma has_suffix_iff: "has_suffix s p \<longleftrightarrow> (\<exists>t. s = t @ p)"
proof
  assume "has_suffix s p"
  then show "\<exists>t. s = t @ p" by (metis append_take_drop_id has_suffix_def)
qed (auto simp: has_suffix_def)

lemma index_of_None: "index_of s p = None \<longleftrightarrow> (\<nexists>a b. s = a @ p @ b)"
proof (induction s)
  case (Cons x xs)
  have "(\<exists>a b. x # xs = a @ p @ b) \<longleftrightarrow> has_prefix (x # xs) p \<or> (\<exists>a b. xs = a @ p @ b)"
    by (auto simp: has_prefix_iff Cons_eq_append_conv)
  with Cons show ?case by auto
qed auto

lemma contains_iff: "contains s p \<longleftrightarrow> (\<exists>a b. s = a @ p @ b)"
  using index_of_None [of s p] by (auto simp: contains_def)

lemma contains_byte: "contains s [c] \<longleftrightarrow> c \<in> set s"
  by (auto simp: contains_iff in_set_conv_decomp)

lemma index_of_Some:
  "index_of s p = Some i \<Longrightarrow> \<exists>a b. s = a @ p @ b \<and> length a = i"
proof (induction s arbitrary: i)
  case (Cons x xs)
  show ?case
  proof (cases "has_prefix (x # xs) p")
    case True
    with Cons.prems show ?thesis by (auto simp: has_prefix_iff)
  next
    case False
    with Cons.prems obtain j where "index_of xs p = Some j" "i = Suc j" by auto
    with Cons.IH obtain a b where "xs = a @ p @ b" "length a = j" by blast
    with \<open>i = Suc j\<close> show ?thesis by (metis append_Cons length_Cons)
  qed
qed (auto split: if_splits)

text \<open>The first occurrence is no later than any occurrence.\<close>

lemma index_of_le: "s = a @ p @ b \<Longrightarrow> \<exists>i. index_of s p = Some i \<and> i \<le> length a"
proof (induction s arbitrary: a)
  case (Cons x xs)
  show ?case
  proof (cases "has_prefix (x # xs) p")
    case False
    then obtain a' where "a = x # a'"
      using Cons.prems by (cases a) (auto simp: has_prefix_iff)
    with Cons.prems have "xs = a' @ p @ b" by simp
    from Cons.IH [OF this] obtain i where "index_of xs p = Some i" "i \<le> length a'" by blast
    with False \<open>a = x # a'\<close> show ?thesis by simp
  qed simp
qed auto

lemma split_on_nonempty [simp]: "split_on c s \<noteq> []"
  by (induction s) (auto split: list.splits)

lemma split_on_absent: "c \<notin> set s \<Longrightarrow> split_on c s = [s]"
  by (induction s) auto

lemma split_on_no_sep: "x \<in> set (split_on c s) \<Longrightarrow> c \<notin> set x"
proof (induction s arbitrary: x)
  case (Cons y ys)
  then show ?case by (cases "split_on c ys") (auto split: if_splits)
qed simp

lemma join_snoc: "xs \<noteq> [] \<Longrightarrow> join sep (xs @ [x]) = join sep xs @ sep @ x"
  by (induction sep xs rule: join.induct) auto

lemma join_split_on: "join [c] (split_on c s) = s"
proof (induction s)
  case (Cons x xs)
  show ?case
  proof (cases "split_on c xs")
    case (Cons y ys)
    with Cons.IH show ?thesis by (cases ys) auto
  qed simp
qed simp

lemma length_to_upper [simp]: "length (to_upper s) = length s"
  by (simp add: to_upper_def)

lemma itoa_nat_inj: "itoa_nat m = itoa_nat n \<Longrightarrow> m = n"
proof (induction m arbitrary: n rule: itoa_nat.induct)
  case (1 m)
  have digit: "char_of (48 + a) = (char_of (48 + b) :: char) \<longleftrightarrow> a = b" if "a < 10" "b < 10" for a b :: nat
    using that by (simp add: char_of_eq_iff take_bit_eq_mod)
  have ne: "itoa_nat k \<noteq> []" "[] \<noteq> itoa_nat k" for k
    by (subst itoa_nat.simps, simp)+
  show ?case
  proof (cases "m < 10"; cases "n < 10")
    assume "m < 10" "n < 10"
    with 1(2) digit show ?thesis by (simp add: itoa_nat.simps)
  next
    assume "m < 10" "\<not> n < 10"
    with 1(2) ne show ?thesis by (simp add: itoa_nat.simps [of m] itoa_nat.simps [of n])
  next
    assume "\<not> m < 10" "n < 10"
    with 1(2) ne show ?thesis by (simp add: itoa_nat.simps [of m] itoa_nat.simps [of n])
  next
    assume *: "\<not> m < 10" "\<not> n < 10"
    with 1(2) have "itoa_nat (m div 10) = itoa_nat (n div 10)" "m mod 10 = n mod 10"
      using digit [of "m mod 10" "n mod 10"]
      by (simp_all add: itoa_nat.simps [of m] itoa_nat.simps [of n])
    with 1(1) [OF *(1)] show ?thesis by (metis div_mult_mod_eq)
  qed
qed

end
