(* ===== verification/Regex.thy ===== *)
theory Regex
  imports Prelude
begin

text \<open>
  The regular expressions of \<open>pkg/utils/naming.go\<close> and \<open>internal/reconcile/plan.go\<close>: the
  part of Go's \<open>regexp\<close> syntax they use (classes of byte ranges, concatenation, optional and
  bounded or unbounded repetition) with an executable matcher, and what each construct matches.
\<close>

section \<open>Expressions and their matcher\<close>

text \<open>
  \<open>Cls rs\<close> is a class \<open>[a-z0-9]\<close> given by its ranges; \<open>Upto n r\<close> is \<open>r{0,n}\<close>;
  \<open>Opt r\<close> is \<open>r?\<close>. \<open>re_match r s\<close> is a match of the whole string, as the anchors
  \<open>^\<close> and \<open>$\<close> of the program's expressions ask.
\<close>

datatype re =
    Cls "(char \<times> char) list"
  | Seq re re
  | Opt re
  | Star re
  | Upto nat re

definition in_cls :: "char \<Rightarrow> (char \<times> char) list \<Rightarrow> bool" where
  "in_cls c rs \<longleftrightarrow> (\<exists>(lo, hi) \<in> set rs. lo \<le> c \<and> c \<le> hi)"

function re_match :: "re \<Rightarrow> string \<Rightarrow> bool" where
  "re_match (Cls rs) s \<longleftrightarrow> (case s of [c] \<Rightarrow> in_cls c rs | _ \<Rightarrow> False)"
| "re_match (Seq a b) s \<longleftrightarrow>
     (\<exists>i \<in> set [0..<Suc (length s)]. re_match a (take i s) \<and> re_match b (drop i s))"
| "re_match (Opt r) s \<longleftrightarrow> s = [] \<or> re_match r s"
| "re_match (Star r) s \<longleftrightarrow>
     s = [] \<or> (\<exists>i \<in> set [1..<Suc (length s)]. re_match r (take i s) \<and> re_match (Star r) (drop i s))"
| "re_match (Upto n r) s \<longleftrightarrow>
     s = [] \<or> (0 < n \<and>
       (\<exists>i \<in> set [1..<Suc (length s)]. re_match r (take i s) \<and> re_match (Upto (n - 1) r) (drop i s)))"
  by pat_completeness auto
termination
  by (relation "measures [\<lambda>(r, s). size r, \<lambda>(r, s). length s]") auto

declare re_match.simps [simp del]

text \<open>\<open>r{n}\<close>, \<open>r+\<close>.\<close>

fun Rep :: "nat \<Rightarrow> re \<Rightarrow> re" where
  "Rep 0 r = Upto 0 r"
| "Rep (Suc n) r = Seq r (Rep n r)"

definition Plus :: "re \<Rightarrow> re" where
  "Plus r = Seq r (Star r)"

section \<open>What the constructs match\<close>

lemma split_point:
  "(\<exists>i \<in> set [k..<Suc (length s)]. P (take i s) (drop i s)) \<longleftrightarrow>
   (\<exists>u v. s = u @ v \<and> k \<le> length u \<and> P u v)"
proof
  assume "\<exists>i \<in> set [k..<Suc (length s)]. P (take i s) (drop i s)"
  then obtain i where "k \<le> i" "i \<le> length s" "P (take i s) (drop i s)" by auto
  then have "s = take i s @ drop i s \<and> k \<le> length (take i s) \<and> P (take i s) (drop i s)" by simp
  then show "\<exists>u v. s = u @ v \<and> k \<le> length u \<and> P u v" by blast
next
  assume "\<exists>u v. s = u @ v \<and> k \<le> length u \<and> P u v"
  then obtain u v where "s = u @ v" "k \<le> length u" "P u v" by blast
  then show "\<exists>i \<in> set [k..<Suc (length s)]. P (take i s) (drop i s)"
    by (intro bexI [of _ "length u"]) simp_all
qed

lemma match_Cls: "re_match (Cls rs) s \<longleftrightarrow> (\<exists>c. s = [c] \<and> in_cls c rs)"
  by (auto simp: re_match.simps(1) split: list.splits)

lemma match_Seq: "re_match (Seq a b) s \<longleftrightarrow> (\<exists>u v. s = u @ v \<and> re_match a u \<and> re_match b v)"
  using split_point [of 0 s "\<lambda>u v. re_match a u \<and> re_match b v"]
  by (simp only: re_match.simps(2)) simp

lemma match_Opt: "re_match (Opt r) s \<longleftrightarrow> s = [] \<or> re_match r s"
  by (rule re_match.simps(3))

lemma match_Star:
  "re_match (Star r) s \<longleftrightarrow>
     s = [] \<or> (\<exists>u v. s = u @ v \<and> u \<noteq> [] \<and> re_match r u \<and> re_match (Star r) v)"
  using split_point [of 1 s "\<lambda>u v. re_match r u \<and> re_match (Star r) v"]
  by (simp only: re_match.simps(4) [of r s]) (simp add: Suc_le_eq)

lemma match_Upto:
  "re_match (Upto n r) s \<longleftrightarrow>
     s = [] \<or> (0 < n \<and> (\<exists>u v. s = u @ v \<and> u \<noteq> [] \<and> re_match r u \<and> re_match (Upto (n - 1) r) v))"
  using split_point [of 1 s "\<lambda>u v. re_match r u \<and> re_match (Upto (n - 1) r) v"]
  by (simp only: re_match.simps(5) [of n r s]) (simp add: Suc_le_eq)

lemma match_Star_Nil [simp]: "re_match (Star r) []"
  by (subst match_Star) simp

text \<open>A class under a repetition matches the strings over the class.\<close>

lemma head_Cls:
  "(\<exists>u v. c # cs = u @ v \<and> u \<noteq> [] \<and> re_match (Cls rs) u \<and> P v) \<longleftrightarrow> in_cls c rs \<and> P cs"
proof
  assume "\<exists>u v. c # cs = u @ v \<and> u \<noteq> [] \<and> re_match (Cls rs) u \<and> P v"
  then show "in_cls c rs \<and> P cs" by (auto simp: match_Cls)
next
  assume "in_cls c rs \<and> P cs"
  then have "c # cs = [c] @ cs \<and> [c] \<noteq> [] \<and> re_match (Cls rs) [c] \<and> P cs"
    by (simp add: match_Cls)
  then show "\<exists>u v. c # cs = u @ v \<and> u \<noteq> [] \<and> re_match (Cls rs) u \<and> P v" by blast
qed

lemma match_Star_Cls: "re_match (Star (Cls rs)) s \<longleftrightarrow> (\<forall>c \<in> set s. in_cls c rs)"
proof (induction s)
  case (Cons c cs)
  show ?case
    unfolding match_Star [of "Cls rs" "c # cs"] head_Cls by (simp add: Cons)
qed simp

lemma match_Upto_Cls:
  "re_match (Upto n (Cls rs)) s \<longleftrightarrow> length s \<le> n \<and> (\<forall>c \<in> set s. in_cls c rs)"
proof (induction s arbitrary: n)
  case Nil
  show ?case by (subst match_Upto) simp
next
  case (Cons c cs)
  show ?case
    unfolding match_Upto [of n "Cls rs" "c # cs"] head_Cls by (auto simp: Cons)
qed

lemma match_Rep_Cls:
  "re_match (Rep n (Cls rs)) s \<longleftrightarrow> length s = n \<and> (\<forall>c \<in> set s. in_cls c rs)"
proof (induction n arbitrary: s)
  case 0
  show ?case by (auto simp: match_Upto_Cls)
next
  case (Suc n)
  have "re_match (Rep (Suc n) (Cls rs)) s \<longleftrightarrow>
      (\<exists>c cs. s = c # cs \<and> in_cls c rs \<and> re_match (Rep n (Cls rs)) cs)"
    by (simp add: match_Seq match_Cls) (metis append_Cons append_Nil)
  with Suc show ?case by (auto simp: length_Suc_conv)
qed

lemma match_Star_app:
  "re_match r u \<Longrightarrow> u \<noteq> [] \<Longrightarrow> re_match (Star r) v \<Longrightarrow> re_match (Star r) (u @ v)"
  unfolding match_Star [of r "u @ v"] by blast

lemma match_SeqI: "re_match a u \<Longrightarrow> re_match b v \<Longrightarrow> re_match (Seq a b) (u @ v)"
  by (auto simp: match_Seq)

lemma match_Seq_Cls:
  "re_match (Seq (Cls rs) b) s \<longleftrightarrow> (\<exists>c cs. s = c # cs \<and> in_cls c rs \<and> re_match b cs)"
  unfolding match_Seq match_Cls by (metis append_Cons append_Nil)

lemma match_Seq_Cls_Cons [simp]:
  "re_match (Seq (Cls rs) b) (c # cs) \<longleftrightarrow> in_cls c rs \<and> re_match b cs"
  by (simp add: match_Seq_Cls)

lemma match_Seq_last:
  "re_match (Seq a (Cls rs)) s \<longleftrightarrow> (\<exists>u d. s = u @ [d] \<and> re_match a u \<and> in_cls d rs)"
  unfolding match_Seq match_Cls by blast

end
