(* ===== verification/Naming.thy ===== *)
theory Naming
  imports Regex
begin

text \<open>
  \<open>pkg/utils/naming.go\<close>: the names of every resource, the label sets, the parser of volume
  mounts and the validators of names, environment variables and domains.
\<close>

section \<open>Constants\<close>

definition RoleMaster :: string where "RoleMaster = ''master''"
definition RoleWorker :: string where "RoleWorker = ''worker''"
definition RoleBuilder :: string where "RoleBuilder = ''builder''"

definition LabelAppName :: string where "LabelAppName = ''app.kubernetes.io/name''"
definition LabelAppManagedBy :: string where "LabelAppManagedBy = ''app.kubernetes.io/managed-by''"
definition LabelManagedByKey :: string where "LabelManagedByKey = ''managed-by''"
definition LabelManagedBy :: string where "LabelManagedBy = ''nvoi''"
definition LabelNvoiService :: string where "LabelNvoiService = ''nvoi/service''"
definition LabelNvoiStack :: string where "LabelNvoiStack = ''nvoi/stack''"
definition LabelConfigChecksum :: string where "LabelConfigChecksum = ''nvoi/config-checksum''"
definition LabelNvoiRole :: string where "LabelNvoiRole = ''nvoi-role''"
definition LabelNvoiDeployHash :: string where "LabelNvoiDeployHash = ''nvoi/deploy-hash''"
definition LabelNvoiOwner :: string where "LabelNvoiOwner = ''nvoi/owner''"

definition OwnerServices :: string where "OwnerServices = ''services''"
definition OwnerCrons :: string where "OwnerCrons = ''crons''"
definition OwnerDatabases :: string where "OwnerDatabases = ''databases''"
definition OwnerDatabaseBranches :: string where "OwnerDatabaseBranches = ''database-branches''"
definition OwnerTunnel :: string where "OwnerTunnel = ''tunnel''"
definition OwnerCaddy :: string where "OwnerCaddy = ''caddy''"
definition OwnerRegistries :: string where "OwnerRegistries = ''registries''"

definition BuilderCacheVolumeSizeGB :: int where "BuilderCacheVolumeSizeGB = 50"
definition BuilderCacheMountPath :: string where
  "BuilderCacheMountPath = ''/var/lib/nvoi/builder-cache''"
definition PrivateNetworkCIDR :: string where "PrivateNetworkCIDR = ''10.0.0.0/16''"
definition MasterKey :: string where "MasterKey = ''master''"
definition DefaultUser :: string where "DefaultUser = ''deploy''"

section \<open>Validation of names\<close>

abbreviation (input) "lower_digit \<equiv> Cls [(CHR ''a'', CHR ''z''), (CHR ''0'', CHR ''9'')]"
abbreviation (input) "lower_digit_hyphen \<equiv>
  Cls [(CHR ''a'', CHR ''z''), (CHR ''0'', CHR ''9''), (CHR ''-'', CHR ''-'')]"

text \<open>\<open>^[a-z0-9]([a-z0-9-]{0,61}[a-z0-9])?$\<close>\<close>

definition dns1123 :: re where
  "dns1123 = Seq lower_digit (Opt (Seq (Upto 61 lower_digit_hyphen) lower_digit))"

definition ValidateName :: "string \<Rightarrow> string \<Rightarrow> goerr option" where
  "ValidateName field v = (if \<not> re_match dns1123 v then Some (BadName field v) else None)"

text \<open>\<open>^[A-Z][A-Z0-9_]*$\<close>\<close>

definition envVarName :: re where
  "envVarName = Seq (Cls [(CHR ''A'', CHR ''Z'')])
     (Star (Cls [(CHR ''A'', CHR ''Z''), (CHR ''0'', CHR ''9''), (CHR ''_'', CHR ''_'')]))"

definition ValidateEnvVarName :: "string \<Rightarrow> string \<Rightarrow> goerr option" where
  "ValidateEnvVarName field v =
     (if \<not> re_match envVarName v then Some (BadEnvVarName field v) else None)"

text \<open>\<open>^[a-z0-9]([a-z0-9-]{0,61}[a-z0-9])?(\.[a-z0-9]([a-z0-9-]{0,61}[a-z0-9])?)+$\<close>\<close>

definition validDomain :: re where
  "validDomain = Seq dns1123 (Plus (Seq (Cls [(CHR ''.'', CHR ''.'')]) dns1123))"

definition ValidateDomain :: "string \<Rightarrow> string \<Rightarrow> goerr option" where
  "ValidateDomain field v = (if \<not> re_match validDomain v then Some (BadDomain field v) else None)"

text \<open>
  \<open>sanitize\<close>: \<open>nonAlphaNum.ReplaceAllString(s, "-")\<close> replaces every maximal run of bytes
  outside \<open>[a-z0-9]\<close> by one hyphen.
\<close>

definition alnum :: "char \<Rightarrow> bool" where
  "alnum c \<longleftrightarrow> is_lower c \<or> is_digit c"

fun collapse :: "bool \<Rightarrow> string \<Rightarrow> string" where
  "collapse in_run [] = []"
| "collapse in_run (c # cs) =
     (if alnum c then c # collapse False cs
      else if in_run then collapse True cs
      else CHR ''-'' # collapse True cs)"

definition trim_byte :: "char \<Rightarrow> string \<Rightarrow> string" where
  "trim_byte b s = rev (dropWhile (\<lambda>c. c = b) (rev (dropWhile (\<lambda>c. c = b) s)))"

definition sanitize :: "string \<Rightarrow> string" where
  "sanitize s0 =
     (let s = to_lower s0;
          s = collapse False s;
          s = trim_byte CHR ''-'' s
      in if length s > 63 then take 63 s else s)"

section \<open>Names\<close>

record names =
  nm_app :: string
  nm_env :: string

definition NewNames :: "string \<Rightarrow> string \<Rightarrow> goerr + names" where
  "NewNames app env =
     (if app = [] \<or> env = [] then Inl AppEnvRequired
      else case ValidateName ''app'' app of
        Some e \<Rightarrow> Inl e
      | None \<Rightarrow> (case ValidateName ''env'' env of
          Some e \<Rightarrow> Inl e
        | None \<Rightarrow> Inr \<lparr>nm_app = app, nm_env = env\<rparr>))"

definition Base :: "names \<Rightarrow> string" where
  "Base n = ''nvoi-'' @ nm_app n @ ''-'' @ nm_env n"
definition Firewall :: "names \<Rightarrow> string" where
  "Firewall n = Base n @ ''-fw''"
definition MasterFirewall :: "names \<Rightarrow> string" where
  "MasterFirewall n = Base n @ ''-master-fw''"
definition WorkerFirewall :: "names \<Rightarrow> string" where
  "WorkerFirewall n = Base n @ ''-worker-fw''"
definition BuilderFirewall :: "names \<Rightarrow> string" where
  "BuilderFirewall n = Base n @ ''-builder-fw''"

definition FirewallForRole :: "names \<Rightarrow> string \<Rightarrow> string" where
  "FirewallForRole n role =
     (if role = RoleMaster then MasterFirewall n
      else if role = RoleBuilder then BuilderFirewall n
      else WorkerFirewall n)"

definition BuilderCacheVolume :: "names \<Rightarrow> string \<Rightarrow> string" where
  "BuilderCacheVolume n serverKey = Base n @ ''-'' @ serverKey @ ''-builder-cache''"
definition BuilderCacheVolumeShort :: "names \<Rightarrow> string \<Rightarrow> string" where
  "BuilderCacheVolumeShort n serverKey = serverKey @ ''-builder-cache''"
definition Network :: "names \<Rightarrow> string" where
  "Network n = Base n @ ''-net''"
definition Server :: "names \<Rightarrow> string \<Rightarrow> string" where
  "Server n key = Base n @ ''-'' @ key"
definition Stack :: "names \<Rightarrow> string" where
  "Stack n = Base n"
definition Volume :: "names \<Rightarrow> string \<Rightarrow> string" where
  "Volume n name = Base n @ ''-'' @ name"
definition Bucket :: "names \<Rightarrow> string \<Rightarrow> string" where
  "Bucket n name = Base n @ ''-'' @ name"

definition KubeNamespace :: "names \<Rightarrow> string" where
  "KubeNamespace n = Base n"
definition KubeWorkload :: "names \<Rightarrow> string \<Rightarrow> string" where
  "KubeWorkload n svc = svc"
definition KubeService :: "names \<Rightarrow> string \<Rightarrow> string" where
  "KubeService n svc = svc"
definition KubeSecrets :: "names \<Rightarrow> string" where
  "KubeSecrets n = ''secrets''"
definition KubeServiceSecrets :: "names \<Rightarrow> string \<Rightarrow> string" where
  "KubeServiceSecrets n svc = svc @ ''-secrets''"
definition Database :: "names \<Rightarrow> string \<Rightarrow> string" where
  "Database n name = Base n @ ''-db-'' @ name"
definition KubeDatabaseCredentials :: "names \<Rightarrow> string \<Rightarrow> string" where
  "KubeDatabaseCredentials n name = Database n name @ ''-credentials''"
definition KubeDatabasePVC :: "names \<Rightarrow> string \<Rightarrow> string" where
  "KubeDatabasePVC n name = Database n name @ ''-data''"
definition KubeDatabaseBackupCron :: "names \<Rightarrow> string \<Rightarrow> string" where
  "KubeDatabaseBackupCron n name = Database n name @ ''-backup''"
definition KubeDatabasePod :: "names \<Rightarrow> string \<Rightarrow> string" where
  "KubeDatabasePod n name = Database n name @ ''-0''"
definition KubeDatabaseBackupBucket :: "names \<Rightarrow> string \<Rightarrow> string" where
  "KubeDatabaseBackupBucket n name = Database n name @ ''-backups''"
definition KubeDatabaseBackupCreds :: "names \<Rightarrow> string \<Rightarrow> string" where
  "KubeDatabaseBackupCreds n name = Database n name @ ''-backup-creds''"
definition KubeDatabaseSnapshot :: "names \<Rightarrow> string \<Rightarrow> string \<Rightarrow> string" where
  "KubeDatabaseSnapshot n dbName label = KubeDatabasePVC n dbName @ ''-snap-'' @ label"
definition KubeDatabaseBranch :: "names \<Rightarrow> string \<Rightarrow> string \<Rightarrow> string" where
  "KubeDatabaseBranch n dbName branch = KubeDatabasePVC n dbName @ ''-br-'' @ branch"
definition KubeDatabaseBranchSnapshot :: "names \<Rightarrow> string \<Rightarrow> string \<Rightarrow> string" where
  "KubeDatabaseBranchSnapshot n dbName branch = KubeDatabaseBranch n dbName branch @ ''-snap''"
definition CronJobRunName :: "names \<Rightarrow> string \<Rightarrow> int \<Rightarrow> string" where
  "CronJobRunName n cronName suf = cronName @ ''-run-'' @ itoa suf"

definition Labels :: "names \<Rightarrow> string gomap" where
  "Labels n = [(LabelManagedByKey, LabelManagedBy), (''app'', Base n), (''env'', nm_env n)]"
definition KubeLabels :: "names \<Rightarrow> string gomap" where
  "KubeLabels n = [(LabelAppManagedBy, LabelManagedBy), (''app'', Base n), (''env'', nm_env n)]"

definition VolumeMountPath :: "names \<Rightarrow> string \<Rightarrow> string" where
  "VolumeMountPath n name = ''/mnt/data/'' @ Base n @ ''-'' @ name"
definition NamedVolumeHostPath :: "names \<Rightarrow> string \<Rightarrow> string" where
  "NamedVolumeHostPath n vol = ''/var/lib/nvoi/volumes/'' @ Stack n @ ''/'' @ vol"

definition KubeManifestPath :: string where
  "KubeManifestPath = ''/home/'' @ DefaultUser @ ''/nvoi-k8s.yaml''"
definition EnvFilePath :: string where
  "EnvFilePath = ''/home/'' @ DefaultUser @ ''/.nvoi.env''"
definition DeployKeyPath :: string where
  "DeployKeyPath = ''/home/'' @ DefaultUser @ ''/.ssh/nvoi_deploy_key''"

section \<open>Environment names and volume mounts\<close>

definition StorageEnvPrefix :: "string \<Rightarrow> string" where
  "StorageEnvPrefix bucketName =
     (let upper = to_upper bucketName in ''STORAGE_'' @ replace_byte CHR ''-'' CHR ''_'' upper)"

definition DatabaseEnvName :: "string \<Rightarrow> string" where
  "DatabaseEnvName name =
     (let upper = to_upper name in ''DATABASE_URL_'' @ replace_byte CHR ''-'' CHR ''_'' upper)"

text \<open>The result is \<open>(source, target, named, ok)\<close>.\<close>

definition ParseVolumeMount :: "string \<Rightarrow> string \<times> string \<times> bool \<times> bool" where
  "ParseVolumeMount s =
     (case index_byte s CHR '':'' of
        None \<Rightarrow> ([], [], False, False)
      | Some i \<Rightarrow>
          (let source = take i s; rest = drop (i + 1) s;
               target = (case index_byte rest CHR '':'' of Some j \<Rightarrow> take j rest | None \<Rightarrow> rest)
           in if source = [] then ([], [], False, False)
              else (source, target,
                    source ! 0 \<noteq> CHR ''/'' \<and> source ! 0 \<noteq> CHR ''.'', True)))"

section \<open>What the validators accept\<close>

named_theorems naming_defs \<open>the definitions of the derived names\<close>

lemmas [naming_defs] =
  Base_def MasterFirewall_def WorkerFirewall_def BuilderFirewall_def BuilderCacheVolume_def
  BuilderCacheVolumeShort_def Network_def Server_def Stack_def Volume_def Bucket_def
  KubeNamespace_def KubeServiceSecrets_def Database_def KubeDatabaseCredentials_def
  KubeDatabasePVC_def KubeDatabaseBackupCron_def KubeDatabasePod_def
  KubeDatabaseBackupBucket_def KubeDatabaseBackupCreds_def KubeDatabaseSnapshot_def
  KubeDatabaseBranch_def KubeDatabaseBranchSnapshot_def

lemma in_lower_digit [simp]:
  "in_cls c [(CHR ''a'', CHR ''z''), (CHR ''0'', CHR ''9'')] \<longleftrightarrow> alnum c"
  by (auto simp: in_cls_def alnum_def is_lower_def is_digit_def)

lemma in_lower_digit_hyphen [simp]:
  "in_cls c [(CHR ''a'', CHR ''z''), (CHR ''0'', CHR ''9''), (CHR ''-'', CHR ''-'')] \<longleftrightarrow>
   alnum c \<or> c = CHR ''-''"
  by (auto simp: in_cls_def alnum_def is_lower_def is_digit_def)

lemma in_dot [simp]: "in_cls c [(d, d)] \<longleftrightarrow> c = d"
  by (auto simp: in_cls_def)

text \<open>A DNS-1123 label: what one label of a name or a domain looks like.\<close>

definition dns_label :: "string \<Rightarrow> bool" where
  "dns_label s \<longleftrightarrow> s \<noteq> [] \<and> length s \<le> 63 \<and> alnum (hd s) \<and> alnum (last s) \<and>
     (\<forall>c \<in> set s. alnum c \<or> c = CHR ''-'')"

lemma match_dns1123 [simp]: "re_match dns1123 s \<longleftrightarrow> dns_label s"
proof (cases s)
  case Nil
  then show ?thesis by (simp add: dns1123_def match_Seq_Cls dns_label_def)
next
  case (Cons c cs)
  have "re_match dns1123 s \<longleftrightarrow>
      alnum c \<and> (cs = [] \<or> (\<exists>u d. cs = u @ [d] \<and> length u \<le> 61 \<and>
        (\<forall>x \<in> set u. alnum x \<or> x = CHR ''-'') \<and> alnum d))"
    by (auto simp: Cons dns1123_def match_Seq_last match_Opt match_Upto_Cls)
  also have "\<dots> \<longleftrightarrow> dns_label s"
    by (cases cs rule: rev_cases) (auto simp: Cons dns_label_def)
  finally show ?thesis .
qed

lemma ValidateName_None [simp]: "ValidateName f v = None \<longleftrightarrow> dns_label v"
  by (simp add: ValidateName_def match_dns1123)

lemma ValidateName_Some [simp]: "ValidateName f v = Some e \<longleftrightarrow> \<not> dns_label v \<and> e = BadName f v"
  by (auto simp: ValidateName_def match_dns1123)

definition env_name :: "string \<Rightarrow> bool" where
  "env_name s \<longleftrightarrow> s \<noteq> [] \<and> is_upper (hd s) \<and>
     (\<forall>c \<in> set s. is_upper c \<or> is_digit c \<or> c = CHR ''_'')"

lemma match_envVarName: "re_match envVarName s \<longleftrightarrow> env_name s"
  by (cases s)
     (auto simp: envVarName_def match_Seq_Cls match_Star_Cls env_name_def in_cls_def
        is_upper_def is_digit_def)

lemma ValidateEnvVarName_None [simp]: "ValidateEnvVarName f v = None \<longleftrightarrow> env_name v"
  by (simp add: ValidateEnvVarName_def match_envVarName)

abbreviation (input) "dot_label \<equiv> Seq (Cls [(CHR ''.'', CHR ''.'')]) dns1123"

lemma match_dot_label: "re_match dot_label s \<longleftrightarrow> (\<exists>l. s = CHR ''.'' # l \<and> dns_label l)"
  by (auto simp: match_Seq_Cls match_dns1123)

lemma dns_label_no_dot: "dns_label l \<Longrightarrow> CHR ''.'' \<notin> set l"
  by (auto simp: dns_label_def alnum_def is_lower_def is_digit_def less_eq_char_def)

definition dotted :: "string list \<Rightarrow> string" where
  "dotted ls = concat (map (\<lambda>l. CHR ''.'' # l) ls)"

lemma dotted_simps [simp]: "dotted [] = []" "dotted (l # ls) = CHR ''.'' # l @ dotted ls"
  by (simp_all add: dotted_def)

lemma match_dot_labels:
  "re_match (Star dot_label) s \<longleftrightarrow> (\<exists>ls. s = dotted ls \<and> (\<forall>l \<in> set ls. dns_label l))"
proof
  show "\<exists>ls. s = dotted ls \<and> (\<forall>l \<in> set ls. dns_label l)" if "re_match (Star dot_label) s"
    using that
  proof (induction s rule: length_induct)
    case (1 s)
    show ?case
    proof (cases "s = []")
      case True
      then show ?thesis by (intro exI [of _ "[]"]) simp
    next
      case False
      with 1(2) obtain u v where uv: "s = u @ v" "u \<noteq> []" "re_match dot_label u" "re_match (Star dot_label) v"
        using match_Star [of dot_label s] by blast
      then obtain l where "u = CHR ''.'' # l" "dns_label l" by (auto simp: match_dot_label)
      moreover from 1(1) uv obtain ls where "v = dotted ls" "\<forall>l \<in> set ls. dns_label l" by force
      ultimately show ?thesis using uv by (intro exI [of _ "l # ls"]) simp
    qed
  qed
next
  assume "\<exists>ls. s = dotted ls \<and> (\<forall>l \<in> set ls. dns_label l)"
  then obtain ls where ls: "s = dotted ls" "\<forall>l \<in> set ls. dns_label l" by blast
  have "re_match (Star dot_label) (dotted ls)" using ls(2)
  proof (induction ls)
    case (Cons l ls)
    then have "re_match (Star dot_label) ((CHR ''.'' # l) @ dotted ls)"
      by (intro match_Star_app) (auto simp: match_dot_label)
    then show ?case by simp
  qed simp
  with ls show "re_match (Star dot_label) s" by simp
qed

lemma split_dotted:
  "CHR ''.'' \<notin> set l \<Longrightarrow> \<forall>x \<in> set ls. CHR ''.'' \<notin> set x \<Longrightarrow>
   split_on CHR ''.'' (l @ dotted ls) = l # ls"
proof (induction ls arbitrary: l)
  case Nil
  then show ?case by (simp add: split_on_absent)
next
  case (Cons x xs)
  then have IH: "split_on CHR ''.'' (x @ dotted xs) = x # xs" by simp
  have "split_on CHR ''.'' (l @ CHR ''.'' # (x @ dotted xs)) = l # x # xs"
    using Cons.prems(1) by (induction l) (auto simp: IH)
  then show ?case by simp
qed

lemma join_dotted: "join [CHR ''.''] (l # ls) = l @ dotted ls"
  by (induction ls arbitrary: l) auto

lemma match_validDomain:
  "re_match validDomain s \<longleftrightarrow>
   2 \<le> length (split_on CHR ''.'' s) \<and> (\<forall>l \<in> set (split_on CHR ''.'' s). dns_label l)"
proof
  assume "re_match validDomain s"
  then obtain l u v where s: "s = l @ u @ v" "dns_label l" "re_match dot_label u" "re_match (Star dot_label) v"
    unfolding validDomain_def Plus_def
    by (subst (asm) match_Seq, subst (asm) (2) match_Seq) (auto simp: match_dns1123)
  then obtain l2 ls where "u = CHR ''.'' # l2" "dns_label l2" "v = dotted ls" "\<forall>l \<in> set ls. dns_label l"
    by (auto simp: match_dot_label match_dot_labels)
  with s have "split_on CHR ''.'' s = l # l2 # ls" "\<forall>x \<in> set (l # l2 # ls). dns_label x"
    using split_dotted [of l "l2 # ls"] by (auto simp: dns_label_no_dot)
  then show "2 \<le> length (split_on CHR ''.'' s) \<and> (\<forall>l \<in> set (split_on CHR ''.'' s). dns_label l)"
    by simp
next
  assume *: "2 \<le> length (split_on CHR ''.'' s) \<and> (\<forall>l \<in> set (split_on CHR ''.'' s). dns_label l)"
  then obtain l l2 ls where ls: "split_on CHR ''.'' s = l # l2 # ls"
    by (metis Suc_le_length_iff numeral_2_eq_2)
  then have "s = l @ (CHR ''.'' # l2) @ dotted ls"
    using join_split_on [of "CHR ''.''" s] join_dotted [of l "l2 # ls"] by simp
  moreover from * ls have "re_match dns1123 l" "re_match dot_label (CHR ''.'' # l2)"
    "re_match (Star dot_label) (dotted ls)"
    by (auto simp: match_dns1123 match_dot_label match_dot_labels)
  ultimately show "re_match validDomain s"
    unfolding validDomain_def Plus_def
    by (simp only: match_SeqI)
qed

lemma ValidateDomain_None [simp]:
  "ValidateDomain f v = None \<longleftrightarrow>
   2 \<le> length (split_on CHR ''.'' v) \<and> (\<forall>l \<in> set (split_on CHR ''.'' v). dns_label l)"
  by (simp add: ValidateDomain_def match_validDomain)

section \<open>Names of environment variables\<close>

lemma is_lower_code: "is_lower c \<longleftrightarrow> 97 \<le> (of_char c :: nat) \<and> (of_char c :: nat) \<le> 122"
  by (simp add: is_lower_def less_eq_char_def)

lemma is_upper_code: "is_upper c \<longleftrightarrow> 65 \<le> (of_char c :: nat) \<and> (of_char c :: nat) \<le> 90"
  by (simp add: is_upper_def less_eq_char_def)

lemma is_digit_code: "is_digit c \<longleftrightarrow> 48 \<le> (of_char c :: nat) \<and> (of_char c :: nat) \<le> 57"
  by (simp add: is_digit_def less_eq_char_def)

lemmas char_code = is_lower_code is_upper_code is_digit_code

lemma of_char_upper_char:
  "(of_char (upper_char c) :: nat) = (if is_lower c then of_char c - 32 else of_char c)"
  by (auto simp: upper_char_def is_lower_code less_imp_diff_less)

definition env_char :: "char \<Rightarrow> char" where
  "env_char c = (if upper_char c = CHR ''-'' then CHR ''_'' else upper_char c)"

lemma replace_to_upper: "replace_byte CHR ''-'' CHR ''_'' (to_upper s) = map env_char s"
  by (simp add: replace_byte_def to_upper_def env_char_def)

lemma DatabaseEnvName_eq: "DatabaseEnvName s = ''DATABASE_URL_'' @ map env_char s"
  by (simp add: DatabaseEnvName_def Let_def replace_to_upper)

lemma StorageEnvPrefix_eq: "StorageEnvPrefix s = ''STORAGE_'' @ map env_char s"
  by (simp add: StorageEnvPrefix_def Let_def replace_to_upper)

abbreviation (input) "name_char c \<equiv> alnum c \<or> c = CHR ''-''"

lemma env_char_code:
  "name_char c \<Longrightarrow> (of_char (env_char c) :: nat) =
     (if is_lower c then of_char c - 32 else if is_digit c then of_char c else 95)"
proof -
  assume "name_char c"
  then consider "is_lower c" | "is_digit c" "\<not> is_lower c" | "c = CHR ''-''"
    by (auto simp: alnum_def)
  then show ?thesis
  proof cases
    case 1
    then have "upper_char c \<noteq> CHR ''-''"
      using of_char_upper_char [of c] by (auto simp: is_lower_code)
    with 1 show ?thesis by (simp add: env_char_def of_char_upper_char)
  next
    case 2
    then have "upper_char c \<noteq> CHR ''-''"
      using of_char_upper_char [of c] by (auto simp: is_digit_code)
    with 2 show ?thesis by (simp add: env_char_def of_char_upper_char)
  next
    case 3
    then show ?thesis by (simp add: env_char_def upper_char_def is_lower_code is_digit_code)
  qed
qed

lemma name_char_code:
  "name_char c \<Longrightarrow> (of_char c :: nat) = 45 \<or> 48 \<le> (of_char c :: nat) \<and> (of_char c :: nat) \<le> 57 \<or>
     97 \<le> (of_char c :: nat) \<and> (of_char c :: nat) \<le> 122"
  by (auto simp: alnum_def char_code)

lemma env_code_inj:
  fixes m n :: nat
  assumes "(if 97 \<le> m \<and> m \<le> 122 then m - 32 else if 48 \<le> m \<and> m \<le> 57 then m else 95) =
    (if 97 \<le> n \<and> n \<le> 122 then n - 32 else if 48 \<le> n \<and> n \<le> 57 then n else 95)"
    and "m = 45 \<or> 48 \<le> m \<and> m \<le> 57 \<or> 97 \<le> m \<and> m \<le> 122"
    and "n = 45 \<or> 48 \<le> n \<and> n \<le> 57 \<or> 97 \<le> n \<and> n \<le> 122"
  shows "m = n"
  using assms by (simp split: if_splits)

lemma env_char_inj:
  assumes "name_char c" "name_char d" "env_char c = env_char d"
  shows "c = d"
proof -
  have "(of_char (env_char c) :: nat) = of_char (env_char d)" using assms(3) by simp
  then have "(of_char c :: nat) = of_char d"
    using name_char_code [OF assms(1)] name_char_code [OF assms(2)]
    unfolding env_char_code [OF assms(1)] env_char_code [OF assms(2)] char_code
    by (rule env_code_inj)
  then show ?thesis by simp
qed

lemma env_char_ok:
  assumes "name_char c"
  shows "is_upper (env_char c) \<or> is_digit (env_char c) \<or> env_char c = CHR ''_''"
proof -
  have "env_char c = CHR ''_'' \<longleftrightarrow> (of_char (env_char c) :: nat) = 95"
    using of_char_eq_iff [where 'a = nat, of "env_char c" "CHR ''_''"] by simp
  then show ?thesis
    using name_char_code [OF assms] unfolding env_char_code [OF assms] char_code
    by (elim disjE; simp; linarith)
qed

lemma dns_label_chars: "dns_label s \<Longrightarrow> c \<in> set s \<Longrightarrow> name_char c"
  by (simp add: dns_label_def)

lemma map_env_char_inj:
  assumes "dns_label s" "dns_label t" "map env_char s = map env_char t"
  shows "s = t"
  using assms(3)
proof (rule map_inj_on)
  show "inj_on env_char (set s \<union> set t)"
  proof (rule inj_onI)
    fix c d
    assume "c \<in> set s \<union> set t" "d \<in> set s \<union> set t" "env_char c = env_char d"
    with assms(1,2) show "c = d" by (metis UnE dns_label_chars env_char_inj)
  qed
qed

text \<open> two databases with valid, different names never share an environment variable, and the
  variable's name is one the validator of environment names accepts.
\<close>

theorem database_env_name_injective:
  assumes "ValidateName f a = None" "ValidateName g b = None"
  shows "ValidateEnvVarName h (DatabaseEnvName a) = None \<and>
    (DatabaseEnvName a = DatabaseEnvName b \<longleftrightarrow> a = b)"
proof -
  have "\<forall>c \<in> set (map env_char a). is_upper c \<or> is_digit c \<or> c = CHR ''_''"
  proof
    fix e
    assume "e \<in> set (map env_char a)"
    then obtain c where "c \<in> set a" "e = env_char c" by auto
    moreover from this assms(1) have "name_char c" by (auto dest: dns_label_chars)
    ultimately show "is_upper e \<or> is_digit e \<or> e = CHR ''_''" using env_char_ok by blast
  qed
  then have "env_name (DatabaseEnvName a)"
    by (simp add: env_name_def DatabaseEnvName_eq char_code)
  with assms map_env_char_inj [of a b] show ?thesis
    by (auto simp: DatabaseEnvName_eq)
qed

corollary database_env_name_injective_witness:
  "ValidateEnvVarName ''env'' (DatabaseEnvName ''main-db'') = None \<and>
   DatabaseEnvName ''main-db'' \<noteq> DatabaseEnvName ''main''"
  using database_env_name_injective [of "''db''" "''main-db''" "''db''" "''main''" "''env''"]
  by (simp add: dns_label_def alnum_def is_lower_def)

section \<open>Which names coincide\<close>

lemma dns_label_app: "dns_label a \<Longrightarrow> dns_label b \<Longrightarrow> length a + length b \<le> 62 \<Longrightarrow>
  dns_label (a @ ''-'' @ b)"
  by (auto simp: dns_label_def)

lemma NewNames_Inr [simp]:
  "NewNames app env = Inr n \<longleftrightarrow> dns_label app \<and> dns_label env \<and> n = \<lparr>nm_app = app, nm_env = env\<rparr>"
  by (auto simp: NewNames_def dns_label_def match_dns1123 ValidateName_def)

lemma suffix_neq:
  assumes "last xs \<noteq> last ys \<or> rev (take 10 (rev xs)) \<noteq> rev (take 10 (rev ys))"
    "10 \<le> length xs" "10 \<le> length ys"
  shows "a @ xs \<noteq> b @ ys"
proof
  assume *: "a @ xs = b @ ys"
  then have "take 10 (rev xs @ rev a) = take 10 (rev ys @ rev b)"
    by (metis rev_append)
  with assms have "take 10 (rev xs) = take 10 (rev ys)" by simp
  moreover from * assms have "last xs = last ys"
    by (metis append_is_Nil_conv last_appendR list.size(3) not_numeral_le_zero)
  ultimately show False using assms by simp
qed

lemma credentials_not_backup: "KubeDatabaseCredentials n a \<noteq> KubeDatabaseBackupCreds n b"
proof -
  have "x @ ''-credentials'' \<noteq> y @ ''-backup-creds''" for x y
    by (rule suffix_neq) simp_all
  then show ?thesis by (simp add: naming_defs flip: append_assoc)
qed

text \<open> inside one app and environment the Secrets, volume claims, CronJobs and buckets of two
  databases coincide only if they are the same object of the same database; a credentials
  Secret is never a backup-credentials Secret.
\<close>

theorem database_object_names:
  "(KubeDatabaseCredentials n a = KubeDatabaseCredentials n b \<longleftrightarrow> a = b) \<and>
   (KubeDatabasePVC n a = KubeDatabasePVC n b \<longleftrightarrow> a = b) \<and>
   (KubeDatabaseBackupCron n a = KubeDatabaseBackupCron n b \<longleftrightarrow> a = b) \<and>
   (KubeDatabaseBackupBucket n a = KubeDatabaseBackupBucket n b \<longleftrightarrow> a = b) \<and>
   KubeDatabaseCredentials n a \<noteq> KubeDatabaseBackupCreds n b"
  using credentials_not_backup by (simp add: naming_defs)

text \<open> the pair of app and environment is not recoverable from the names: two different
  pairs that \<open>NewNames\<close> accepts share every server, volume, bucket and namespace name.
\<close>

theorem base_not_injective:
  "\<exists>n m. NewNames ''shop-eu'' ''prod'' = Inr n \<and> NewNames ''shop'' ''eu-prod'' = Inr m \<and> n \<noteq> m \<and>
     KubeNamespace n = KubeNamespace m \<and> (\<forall>k. Server n k = Server m k \<and> Volume n k = Volume m k \<and>
     Bucket n k = Bucket m k)"
  by (simp add: naming_defs dns_label_def alnum_def is_lower_def)

text \<open>Distinct objects of one kind have distinct names.\<close>

lemma firewalls_distinct:
  "MasterFirewall n \<noteq> WorkerFirewall n" "MasterFirewall n \<noteq> BuilderFirewall n"
  "WorkerFirewall n \<noteq> BuilderFirewall n"
  by (simp_all add: naming_defs)

lemma Server_inj [simp]: "Server n a = Server n b \<longleftrightarrow> a = b"
  and Volume_inj [simp]: "Volume n a = Volume n b \<longleftrightarrow> a = b"
  and Bucket_inj [simp]: "Bucket n a = Bucket n b \<longleftrightarrow> a = b"
  and Database_inj [simp]: "Database n a = Database n b \<longleftrightarrow> a = b"
  and KubeServiceSecrets_inj [simp]: "KubeServiceSecrets n a = KubeServiceSecrets n b \<longleftrightarrow> a = b"
  by (simp_all add: naming_defs)

lemma BuilderCacheVolume_short: "BuilderCacheVolume n k = Volume n (BuilderCacheVolumeShort n k)"
  by (simp add: naming_defs)

section \<open>Volume mounts\<close>

lemma ParseVolumeMount_ok:
  assumes "src \<noteq> []" "CHR '':'' \<notin> set src" "CHR '':'' \<notin> set tgt"
  shows "ParseVolumeMount (src @ CHR '':'' # tgt) =
      (src, tgt, hd src \<noteq> CHR ''/'' \<and> hd src \<noteq> CHR ''.'', True)"
    and "ParseVolumeMount (src @ CHR '':'' # tgt @ CHR '':'' # opts) =
      (src, tgt, hd src \<noteq> CHR ''/'' \<and> hd src \<noteq> CHR ''.'', True)"
  using assms
  by (simp_all add: ParseVolumeMount_def index_byte_append Let_def hd_conv_nth split: option.splits)

lemma ParseVolumeMount_named:
  assumes "ParseVolumeMount s = (src, tgt, named, True)"
  shows "src = fst (cut CHR '':'' s) \<and> src \<noteq> [] \<and> snd (snd (cut CHR '':'' s)) \<and>
    (named \<longleftrightarrow> \<not> has_prefix src ''/'' \<and> \<not> has_prefix src ''.'')"
proof -
  from assms obtain i where i: "index_byte s CHR '':'' = Some i" and src: "src = take i s" "src \<noteq> []"
    and nm: "named \<longleftrightarrow> src ! 0 \<noteq> CHR ''/'' \<and> src ! 0 \<noteq> CHR ''.''"
    by (auto simp: ParseVolumeMount_def Let_def split: option.splits if_splits)
  then have "cut CHR '':'' s = (src, drop (Suc i) s, True)"
    using index_byte_split [OF i] index_byte_Some [OF i] cut_append [of "CHR '':''" src "drop (Suc i) s"]
    by simp
  with src nm show ?thesis by (auto simp: has_prefix_byte hd_conv_nth)
qed

end
