(* ===== verification/Config.thy ===== *)
theory Config
  imports Naming
begin

text \<open>
  \<open>internal/config\<close>: the shape of \<open>nvoi.yaml\<close>, the methods of its structs, the decoding of a
  \<open>build:\<close> and of a \<open>secrets:\<close> entry, \<open>Resolve\<close>, the projection handed to providers (\<open>View\<close>) and
  the expected-name sets of \<open>nvoi resources\<close>.
\<close>

section \<open>The configuration\<close>

record server_def =
  srv_type :: string
  srv_region :: string
  srv_role :: string
  srv_disk :: int

record volume_def =
  vol_size :: int
  vol_server :: string
  vol_mount_path :: string

record storage_def =
  st_cors :: bool
  st_expire_days :: int
  st_bucket :: string

record database_credentials_def =
  dbc_user :: string
  dbc_password :: string
  dbc_database :: string

record database_backup_def =
  bk_schedule :: string
  bk_retention :: int

record database_def =
  db_engine :: string
  db_version :: string
  db_server :: string
  db_size :: int
  db_region :: string
  db_credentials :: "database_credentials_def option"
  db_backup :: "database_backup_def option"

record build_spec =
  bs_context :: string
  bs_dockerfile :: string

record service_def =
  svc_image :: string
  svc_port :: int
  svc_replicas :: int
  svc_command :: string
  svc_health :: string
  svc_server :: string
  svc_servers :: "string list"
  svc_env :: "string list"
  svc_secrets :: "string list"
  svc_storage :: "string list"
  svc_databases :: "string list"
  svc_volumes :: "string list"
  svc_depends_on :: "string list"
  svc_build :: "build_spec option"

record cron_def =
  cr_image :: string
  cr_schedule :: string
  cr_command :: string
  cr_server :: string
  cr_servers :: "string list"
  cr_env :: "string list"
  cr_secrets :: "string list"
  cr_storage :: "string list"
  cr_volumes :: "string list"

record registry_def =
  rg_username :: string
  rg_password :: string

record secrets_def =
  sec_kind :: string

record sandbox_block =
  sb_snapshot :: string
  sb_region :: string

record providers_def =
  p_infra :: string
  p_dns :: string
  p_build :: string
  p_storage :: string
  p_secrets :: "secrets_def option"
  p_tunnel :: string
  p_ci :: string

record app_config =
  cfg_app :: string
  cfg_env :: string
  cfg_providers :: providers_def
  cfg_servers :: "server_def gomap"
  cfg_firewall :: "string list"
  cfg_volumes :: "volume_def gomap"
  cfg_secrets :: "string list"
  cfg_storage :: "storage_def gomap"
  cfg_databases :: "database_def gomap"
  cfg_registry :: "registry_def gomap"
  cfg_services :: "service_def gomap"
  cfg_crons :: "cron_def gomap"
  cfg_domains :: "string list gomap"
  cfg_acme_email :: string
  cfg_sandbox :: "sandbox_block option"
  cfg_master_firewall :: string
  cfg_worker_firewall :: string

text \<open>The zero values of Go's structs, for examples and for map reads of an absent key.\<close>

definition server0 :: server_def where
  "server0 = \<lparr>srv_type = [], srv_region = [], srv_role = [], srv_disk = 0\<rparr>"

definition service0 :: service_def where
  "service0 = \<lparr>svc_image = [], svc_port = 0, svc_replicas = 0, svc_command = [], svc_health = [],
     svc_server = [], svc_servers = [], svc_env = [], svc_secrets = [], svc_storage = [],
     svc_databases = [], svc_volumes = [], svc_depends_on = [], svc_build = None\<rparr>"

definition cron0 :: cron_def where
  "cron0 = \<lparr>cr_image = [], cr_schedule = [], cr_command = [], cr_server = [], cr_servers = [],
     cr_env = [], cr_secrets = [], cr_storage = [], cr_volumes = []\<rparr>"

definition database0 :: database_def where
  "database0 = \<lparr>db_engine = [], db_version = [], db_server = [], db_size = 0, db_region = [],
     db_credentials = None, db_backup = None\<rparr>"

definition config0 :: app_config where
  "config0 = \<lparr>cfg_app = [], cfg_env = [],
     cfg_providers = \<lparr>p_infra = [], p_dns = [], p_build = [], p_storage = [], p_secrets = None,
       p_tunnel = [], p_ci = []\<rparr>,
     cfg_servers = [], cfg_firewall = [], cfg_volumes = [], cfg_secrets = [], cfg_storage = [],
     cfg_databases = [], cfg_registry = [], cfg_services = [], cfg_crons = [], cfg_domains = [],
     cfg_acme_email = [], cfg_sandbox = None, cfg_master_firewall = [], cfg_worker_firewall = []\<rparr>"

definition get0 :: "'v \<Rightarrow> 'v gomap \<Rightarrow> string \<Rightarrow> 'v" where
  "get0 z m k = (case map_of m k of None \<Rightarrow> z | Some v \<Rightarrow> v)"

section \<open>Methods\<close>

definition StorageNames :: "app_config \<Rightarrow> string list" where
  "StorageNames c = map fst (cfg_storage c)"

definition extract_keys :: "string list \<Rightarrow> string list" where
  "extract_keys refs = map (\<lambda>ref. case cut CHR ''='' ref of (k, _, ok) \<Rightarrow> if ok then k else ref) refs"

definition ServiceSecrets :: "app_config \<Rightarrow> string list gomap" where
  "ServiceSecrets c =
     (let m = fold (\<lambda>(name, svc) m. if svc_secrets svc \<noteq> [] then AList.update name (extract_keys (svc_secrets svc)) m else m)
                (cfg_services c) []
      in fold (\<lambda>(name, cron) m. if cr_secrets cron \<noteq> [] then AList.update name (extract_keys (cr_secrets cron)) m else m)
           (cfg_crons c) m)"

definition Resolve :: "app_config \<Rightarrow> goerr + app_config" where
  "Resolve c =
     bindR (NewNames (cfg_app c) (cfg_env c)) (\<lambda>names.
       Inr (c\<lparr>cfg_volumes := map (\<lambda>(volName, vol). (volName, vol\<lparr>vol_mount_path := VolumeMountPath names volName\<rparr>))
                (cfg_volumes c),
              cfg_master_firewall := MasterFirewall names,
              cfg_worker_firewall := WorkerFirewall names\<rparr>))"

definition svc_ResolvedServers :: "service_def \<Rightarrow> string list" where
  "svc_ResolvedServers s =
     (if svc_servers s \<noteq> [] then svc_servers s
      else if svc_server s \<noteq> [] then [svc_server s] else [])"

definition cr_ResolvedServers :: "cron_def \<Rightarrow> string list" where
  "cr_ResolvedServers c =
     (if cr_servers c \<noteq> [] then cr_servers c
      else if cr_server c \<noteq> [] then [cr_server c] else [])"

definition BuildContext :: "build_spec option \<Rightarrow> string" where
  "BuildContext b = (case b of None \<Rightarrow> [] | Some bs \<Rightarrow> bs_context bs)"

section \<open>Decoding\<close>

text \<open>
  A YAML node as the decoder of \<open>gopkg.in/yaml.v3\<close> hands it to \<open>UnmarshalYAML\<close>. What the
  library's own \<open>Decode\<close> makes of a node is a parameter.
\<close>

datatype yaml_node =
    ScalarNode string
  | MappingNode "(yaml_node \<times> yaml_node) list"
  | SequenceNode "yaml_node list"
  | DocumentNode "yaml_node list"
  | AliasNode string

fun node_value :: "yaml_node \<Rightarrow> string" where
  "node_value (ScalarNode v) = v"
| "node_value (AliasNode a) = a"
| "node_value _ = []"

definition unmarshal_build ::
    "(yaml_node \<Rightarrow> build_spec \<Rightarrow> goerr + build_spec) \<Rightarrow> yaml_node \<Rightarrow> build_spec \<Rightarrow> goerr + build_spec" where
  "unmarshal_build decode node b =
     (case node of
        ScalarNode v \<Rightarrow>
          (if to_lower v = ''true'' then Inr (b\<lparr>bs_context := ''./''\<rparr>)
           else if to_lower v = ''false'' then Inr (b\<lparr>bs_context := []\<rparr>)
           else Inr (b\<lparr>bs_context := v\<rparr>))
      | MappingNode _ \<Rightarrow>
          (case decode node b of
             Inl e \<Rightarrow> Inl (Wrapf ''build'' e)
           | Inr b' \<Rightarrow>
               Inr (if bs_context b' = [] \<and> bs_dockerfile b' \<noteq> [] then b'\<lparr>bs_context := ''./''\<rparr> else b'))
      | _ \<Rightarrow> Inl (Errorf ''build: unexpected YAML kind'' []))"

definition unmarshal_secrets ::
    "(yaml_node \<Rightarrow> secrets_def \<Rightarrow> goerr + secrets_def) \<Rightarrow> yaml_node \<Rightarrow> secrets_def \<Rightarrow> goerr + secrets_def" where
  "unmarshal_secrets decode node s =
     (case node of
        ScalarNode v \<Rightarrow> Inr (s\<lparr>sec_kind := v\<rparr>)
      | MappingNode _ \<Rightarrow> decode node s
      | _ \<Rightarrow> Inl (Errorf ''providers.secrets: unexpected YAML kind'' []))"

text \<open>
  \<open>AppConfig.UnmarshalYAML\<close>: the whole node is decoded, then every \<open>firewall\<close> key of the
  mapping sets the rules from a scalar or a sequence.
\<close>

fun firewall_keys ::
    "(yaml_node \<Rightarrow> goerr + string list) \<Rightarrow> (yaml_node \<times> yaml_node) list \<Rightarrow> app_config \<Rightarrow> goerr + app_config" where
  "firewall_keys decode_list [] c = Inr c"
| "firewall_keys decode_list ((k, fw) # rest) c =
     (if node_value k = ''firewall'' then
        (case fw of
           ScalarNode v \<Rightarrow> firewall_keys decode_list rest (c\<lparr>cfg_firewall := [v]\<rparr>)
         | SequenceNode _ \<Rightarrow>
             (case decode_list fw of
                Inl e \<Rightarrow> Inl (Wrapf ''firewall'' e)
              | Inr l \<Rightarrow> firewall_keys decode_list rest (c\<lparr>cfg_firewall := l\<rparr>))
         | _ \<Rightarrow> firewall_keys decode_list rest c)
      else firewall_keys decode_list rest c)"

definition unmarshal_config ::
    "(yaml_node \<Rightarrow> goerr + app_config) \<Rightarrow> (yaml_node \<Rightarrow> goerr + string list) \<Rightarrow> yaml_node \<Rightarrow> goerr + app_config" where
  "unmarshal_config decode decode_list node =
     bindR (decode node) (\<lambda>c.
       case node of
         MappingNode content \<Rightarrow> firewall_keys decode_list content c
       | _ \<Rightarrow> Inr c)"

section \<open>The provider's view\<close>

record server_spec =
  ss_name :: string
  ss_type :: string
  ss_region :: string
  ss_role :: string
  ss_disk :: int

record volume_spec =
  vs_name :: string
  vs_size :: int
  vs_server :: string
  vs_mount_path :: string

record port_spec =
  ps_name :: string
  ps_port :: int

definition ServerDefs :: "app_config \<Rightarrow> server_spec list" where
  "ServerDefs cfg = map (\<lambda>name. let s = get0 server0 (cfg_servers cfg) name in
     \<lparr>ss_name = name, ss_type = srv_type s, ss_region = srv_region s, ss_role = srv_role s,
      ss_disk = srv_disk s\<rparr>) (SortedKeys (cfg_servers cfg))"

definition FirewallRules :: "app_config \<Rightarrow> string list" where
  "FirewallRules cfg = cfg_firewall cfg"

definition VolumeDefs :: "app_config \<Rightarrow> volume_spec list" where
  "VolumeDefs cfg = map (\<lambda>name.
     let vol = get0 \<lparr>vol_size = 0, vol_server = [], vol_mount_path = []\<rparr> (cfg_volumes cfg) name in
     \<lparr>vs_name = name, vs_size = vol_size vol, vs_server = vol_server vol, vs_mount_path = vol_mount_path vol\<rparr>)
     (SortedKeys (cfg_volumes cfg))"

definition ServiceDefs :: "app_config \<Rightarrow> port_spec list" where
  "ServiceDefs cfg = map (\<lambda>name. let s = get0 service0 (cfg_services cfg) name in
     \<lparr>ps_name = name, ps_port = svc_port s\<rparr>) (SortedKeys (cfg_services cfg))"

definition TunnelProvider :: "app_config \<Rightarrow> string" where
  "TunnelProvider cfg = p_tunnel (cfg_providers cfg)"

definition DomainsByService :: "app_config \<Rightarrow> string list gomap" where
  "DomainsByService cfg = cfg_domains cfg"

section \<open>Ownership\<close>

text \<open>Every \<open>map[string]bool\<close> of the context is the list of its keys.\<close>

record ownership =
  ExpectedServers :: "string list"
  ExpectedVolumes :: "string list"
  ExpectedFirewalls :: "string list"
  ExpectedNetworks :: "string list"
  ExpectedDNS :: "string list"
  ExpectedBuckets :: "string list"
  ExpectedTunnels :: "string list"

definition BuildOwnershipContext :: "app_config option \<Rightarrow> ownership option" where
  "BuildOwnershipContext c =
     (case c of
        None \<Rightarrow> None
      | Some cfg \<Rightarrow>
          (case NewNames (cfg_app cfg) (cfg_env cfg) of
             Inl _ \<Rightarrow> None
           | Inr names \<Rightarrow>
               (let servers = cfg_servers cfg;
                    hasWorker = (\<exists>(_, srv) \<in> set servers. srv_role srv = RoleWorker);
                    hasBuilder = (\<exists>(_, srv) \<in> set servers. srv_role srv = RoleBuilder);
                    hasMaster = (\<exists>(_, srv) \<in> set servers. srv_role srv \<noteq> RoleWorker \<and> srv_role srv \<noteq> RoleBuilder)
                in Some \<lparr>
                     ExpectedServers = map (\<lambda>(key, _). Server names key) servers,
                     ExpectedVolumes = map (\<lambda>(key, _). Volume names key) (cfg_volumes cfg) @
                       map (\<lambda>(key, _). BuilderCacheVolume names key)
                         (filter (\<lambda>(_, srv). srv_role srv = RoleBuilder) servers),
                     ExpectedFirewalls =
                       (if hasMaster then [MasterFirewall names] else []) @
                       (if hasWorker then [WorkerFirewall names] else []) @
                       (if hasBuilder then [BuilderFirewall names] else []),
                     ExpectedNetworks = (if servers \<noteq> [] then [Network names] else []),
                     ExpectedDNS = concat (map snd (cfg_domains cfg)),
                     ExpectedBuckets = map (\<lambda>(key, _). Bucket names key) (cfg_storage cfg) @
                       map (\<lambda>(key, _). KubeDatabaseBackupBucket names key)
                         (filter (\<lambda>(_, db). db_backup db \<noteq> None) (cfg_databases cfg)),
                     ExpectedTunnels =
                       (if p_tunnel (cfg_providers cfg) \<noteq> [] then [Base names] else [])\<rparr>)))"

datatype scope = ScopeOwned | ScopeExternal

definition ClassifyScope :: "string \<Rightarrow> string list \<Rightarrow> scope" where
  "ClassifyScope name expected = (if name \<in> set expected then ScopeOwned else ScopeExternal)"

section \<open>Lemmas\<close>

lemma get0_Some [simp]: "map_of m k = Some v \<Longrightarrow> get0 z m k = v"
  by (simp add: get0_def)

lemma get0_None [simp]: "\<not> has_key m k \<Longrightarrow> get0 z m k = z"
  by (simp add: get0_def has_key_def)

lemma get0_update [simp]: "get0 z (AList.update k v m) k' = (if k' = k then v else get0 z m k')"
  by (simp add: get0_def update_conv')

lemma ServerDefs_names [simp]: "map ss_name (ServerDefs cfg) = SortedKeys (cfg_servers cfg)"
  by (simp add: ServerDefs_def Let_def comp_def)

lemma VolumeDefs_names [simp]: "map vs_name (VolumeDefs cfg) = SortedKeys (cfg_volumes cfg)"
  by (simp add: VolumeDefs_def Let_def comp_def)

lemma ServerDefs_name_set [simp]: "ss_name ` set (ServerDefs cfg) = fst ` set (cfg_servers cfg)"
  by (metis ServerDefs_names set_SortedKeys set_map)

lemma VolumeDefs_name_set [simp]: "vs_name ` set (VolumeDefs cfg) = fst ` set (cfg_volumes cfg)"
  by (metis VolumeDefs_names set_SortedKeys set_map)

text \<open>The view does not depend on the order in which a map is visited.\<close>

lemma map_of_mset:
  assumes "gomap_ok m" "mset m = mset m'"
  shows "map_of m = map_of m'"
proof -
  from assms(2) have "mset (map fst m) = mset (map fst m')" by (metis mset_map)
  with assms have ok: "gomap_ok m'"
    unfolding gomap_ok_def using mset_eq_imp_distinct_iff by blast
  from assms(2) have "set m = set m'" by (rule mset_eq_setD)
  then show ?thesis
    using map_of_memb [OF assms(1)] map_of_memb [OF ok] by (intro ext) (metis option.exhaust)
qed

lemma ServerDefs_order:
  assumes "gomap_ok (cfg_servers c)" "mset (cfg_servers c) = mset servers"
  shows "ServerDefs (c\<lparr>cfg_servers := servers\<rparr>) = ServerDefs c"
  using map_of_mset [OF assms] SortedKeys_mset [OF assms(2)]
  by (simp add: ServerDefs_def get0_def)

end
