(* ===== verification/Plan.thy ===== *)
theory Plan
  imports Config
begin

text \<open>
  Plan entries (\<open>pkg/provider/plan.go\<close>) and plans (\<open>internal/reconcile/plan.go\<close>), and the
  contract that every planner of the program shares: it compares the names that the
  configuration asks for with the names that exist.
\<close>

section \<open>Entries\<close>

definition ResServer :: string where "ResServer = ''server''"
definition ResFirewall :: string where "ResFirewall = ''firewall''"
definition ResFirewallRule :: string where "ResFirewallRule = ''firewall-rule''"
definition ResVolume :: string where "ResVolume = ''volume''"
definition ResNetwork :: string where "ResNetwork = ''network''"
definition ResDNS :: string where "ResDNS = ''dns''"
definition ResBucket :: string where "ResBucket = ''bucket''"
definition ResDatabase :: string where "ResDatabase = ''database''"
definition ResTunnel :: string where "ResTunnel = ''tunnel''"
definition ResNamespace :: string where "ResNamespace = ''namespace''"
definition ResRegistrySecret :: string where "ResRegistrySecret = ''registry-secret''"
definition ResWorkload :: string where "ResWorkload = ''workload''"
definition ResSecretKey :: string where "ResSecretKey = ''secret-key''"
definition ResCronJob :: string where "ResCronJob = ''cronjob''"
definition ResCaddyRoute :: string where "ResCaddyRoute = ''caddy-route''"

text \<open>\<open>PlanKind\<close> is a string type; \<open>OtherKind\<close> is any value that is not one of its constants.\<close>

datatype plan_kind = PlanAdd | PlanDelete | PlanUpdate | PlanNoChange | OtherKind string

fun Glyph :: "plan_kind \<Rightarrow> string" where
  "Glyph PlanAdd = ''+''"
| "Glyph PlanDelete = ''-''"
| "Glyph PlanUpdate = ''~''"
| "Glyph PlanNoChange = ''~''"
| "Glyph (OtherKind k) = ''?''"

fun Word :: "plan_kind \<Rightarrow> string" where
  "Word PlanAdd = ''add''"
| "Word PlanDelete = ''remove''"
| "Word PlanUpdate = ''change''"
| "Word PlanNoChange = ''unchanged''"
| "Word (OtherKind k) = k"

record plan_entry =
  pe_kind :: plan_kind
  pe_resource :: string
  pe_name :: string
  pe_detail :: string
  pe_reason :: string

definition entry :: "plan_kind \<Rightarrow> string \<Rightarrow> string \<Rightarrow> string \<Rightarrow> plan_entry" where
  "entry k r n d = \<lparr>pe_kind = k, pe_resource = r, pe_name = n, pe_detail = d, pe_reason = []\<rparr>"

definition entry_promptable :: "plan_entry \<Rightarrow> bool" where
  "entry_promptable e \<longleftrightarrow> pe_reason e = []"

text \<open>The verb \<open>%v\<close> on a slice of strings.\<close>

definition fmt_list :: "string list \<Rightarrow> string" where
  "fmt_list ss = ''['' @ join '' '' ss @ '']''"

section \<open>Plans\<close>

type_synonym plan = "plan_entry list"

definition IsEmpty :: "plan \<Rightarrow> bool" where
  "IsEmpty p \<longleftrightarrow> length p = 0"

definition Changes :: "plan \<Rightarrow> plan_entry list" where
  "Changes p = filter (\<lambda>e. pe_kind e \<noteq> PlanNoChange) p"

definition infra_resources :: "string list" where
  "infra_resources = [ResServer, ResFirewall, ResFirewallRule, ResVolume, ResNetwork, ResDNS, ResBucket,
     ResDatabase, ResTunnel]"

definition isInfraResource :: "string \<Rightarrow> bool" where
  "isInfraResource resource \<longleftrightarrow> resource \<in> set infra_resources"

definition HasInfraChanges :: "plan \<Rightarrow> bool" where
  "HasInfraChanges p \<longleftrightarrow> (\<exists>e \<in> set p. pe_kind e \<noteq> PlanNoChange \<and> isInfraResource (pe_resource e))"

definition Promptable :: "plan \<Rightarrow> plan_entry list" where
  "Promptable p = filter (\<lambda>e. pe_kind e \<noteq> PlanNoChange \<and> entry_promptable e) p"

section \<open>The shape of the planners\<close>

text \<open>
  The two loops all planners have: declared things in their order, added or unchanged, then the
  live things that are not declared.
\<close>

definition present_entries ::
    "string \<Rightarrow> ('a \<Rightarrow> string) \<Rightarrow> ('a \<Rightarrow> string) \<Rightarrow> (string \<Rightarrow> bool) \<Rightarrow> 'a list \<Rightarrow> plan_entry list" where
  "present_entries res name detail live xs =
     map (\<lambda>x. entry (if live (name x) then PlanNoChange else PlanAdd) res (name x) (detail x)) xs"

definition stale_entries :: "string \<Rightarrow> (string \<Rightarrow> bool) \<Rightarrow> string list \<Rightarrow> plan_entry list" where
  "stale_entries res wanted live = map (\<lambda>n. entry PlanDelete res n []) (filter (\<lambda>n. \<not> wanted n) live)"

section \<open>The contract\<close>

text \<open>The names that a plan adds and removes for one kind of resource.\<close>

definition added :: "string \<Rightarrow> plan_entry list \<Rightarrow> string set" where
  "added res es = {pe_name e | e. e \<in> set es \<and> pe_kind e = PlanAdd \<and> pe_resource e = res}"

definition removed :: "string \<Rightarrow> plan_entry list \<Rightarrow> string set" where
  "removed res es = {pe_name e | e. e \<in> set es \<and> pe_kind e = PlanDelete \<and> pe_resource e = res}"

definition changes_of :: "string \<Rightarrow> plan_entry list \<Rightarrow> plan_entry list" where
  "changes_of res es = filter (\<lambda>e. pe_resource e = res \<and> pe_kind e \<noteq> PlanNoChange) es"

text \<open>What is live after the additions and removals of a plan.\<close>

definition applied :: "string \<Rightarrow> plan_entry list \<Rightarrow> string set \<Rightarrow> string set" where
  "applied res es live = (live \<union> added res es) - removed res es"

locale diff_planner =
  fixes plan :: "'w \<Rightarrow> 'l \<Rightarrow> plan_entry list"
    and wanted :: "'w \<Rightarrow> string set"
    and live :: "'l \<Rightarrow> string set"
    and res :: string
  assumes adds: "added res (plan w l) = wanted w - live l"
    and removes: "removed res (plan w l) = live l - wanted w"
    and kinds: "e \<in> set (plan w l) \<Longrightarrow> pe_resource e = res \<Longrightarrow> pe_kind e \<in> {PlanAdd, PlanDelete, PlanNoChange}"
begin

lemma converges: "applied res (plan w l) (live l) = wanted w"
  by (auto simp: applied_def adds removes)

lemma disjoint: "added res (plan w l) \<inter> removed res (plan w l) = {}"
  by (auto simp: adds removes)

lemma quiet: "changes_of res (plan w l) = [] \<longleftrightarrow> live l = wanted w"
proof -
  have "changes_of res (plan w l) = [] \<longleftrightarrow>
      (\<forall>e \<in> set (plan w l). pe_resource e = res \<longrightarrow> pe_kind e \<notin> {PlanAdd, PlanDelete})"
    using kinds by (auto simp: changes_of_def filter_empty_conv)
  also have "\<dots> \<longleftrightarrow> added res (plan w l) = {} \<and> removed res (plan w l) = {}"
    by (auto simp: added_def removed_def)
  finally show ?thesis by (auto simp: adds removes)
qed

lemma idempotent: "live l' = applied res (plan w l) (live l) \<Longrightarrow> changes_of res (plan w l') = []"
  by (simp add: quiet converges)

end

section \<open>Lemmas\<close>

lemma entry_simps [simp]:
  "pe_kind (entry k r n d) = k" "pe_resource (entry k r n d) = r" "pe_name (entry k r n d) = n"
  "pe_detail (entry k r n d) = d" "pe_reason (entry k r n d) = []" "entry_promptable (entry k r n d)"
  by (simp_all add: entry_def entry_promptable_def)

lemma added_simps [simp]:
  "added res [] = {}" "added res (xs @ ys) = added res xs \<union> added res ys"
  "added res (e # es) = (if pe_kind e = PlanAdd \<and> pe_resource e = res then {pe_name e} else {}) \<union> added res es"
  by (auto simp: added_def)

lemma removed_simps [simp]:
  "removed res [] = {}" "removed res (xs @ ys) = removed res xs \<union> removed res ys"
  "removed res (e # es) = (if pe_kind e = PlanDelete \<and> pe_resource e = res then {pe_name e} else {}) \<union> removed res es"
  by (auto simp: removed_def)

lemma changes_of_simps [simp]:
  "changes_of res [] = []" "changes_of res (xs @ ys) = changes_of res xs @ changes_of res ys"
  by (auto simp: changes_of_def)

lemma added_present [simp]:
  "added res (present_entries res' name detail live xs) = (if res = res' then {n \<in> name ` set xs. \<not> live n} else {})"
  by (force simp: added_def present_entries_def)

lemma removed_present [simp]: "removed res (present_entries res' name detail live xs) = {}"
  by (auto simp: removed_def present_entries_def split: if_splits)

lemma added_stale [simp]: "added res (stale_entries res' wanted live) = {}"
  by (auto simp: added_def stale_entries_def)

lemma removed_stale [simp]:
  "removed res (stale_entries res' wanted live) = (if res = res' then {n \<in> set live. \<not> wanted n} else {})"
  by (force simp: removed_def stale_entries_def)

lemma kind_present: "e \<in> set (present_entries res name detail live xs) \<Longrightarrow>
    pe_resource e = res \<and> pe_kind e \<in> {PlanAdd, PlanNoChange} \<and> pe_name e \<in> name ` set xs \<and>
    (pe_kind e = PlanNoChange \<longleftrightarrow> live (pe_name e))"
  by (auto simp: present_entries_def split: if_splits)

lemma kind_stale: "e \<in> set (stale_entries res wanted live) \<Longrightarrow>
    pe_resource e = res \<and> pe_kind e = PlanDelete \<and> pe_name e \<in> set live \<and> \<not> wanted (pe_name e)"
  by (auto simp: stale_entries_def)

lemma other_resource:
  assumes "\<And>e. e \<in> set es \<Longrightarrow> pe_resource e = res'" "res' \<noteq> res"
  shows "added res es = {}" "removed res es = {}"
  using assms by (auto simp: added_def removed_def)

lemma Changes_Nil: "Changes p = [] \<longleftrightarrow> (\<forall>e \<in> set p. pe_kind e = PlanNoChange)"
  by (auto simp: Changes_def filter_empty_conv)

lemma Changes_append [simp]: "Changes (p @ q) = Changes p @ Changes q"
  by (simp add: Changes_def)

lemma Promptable_Changes: "Promptable p = filter entry_promptable (Changes p)"
  by (simp add: Promptable_def Changes_def conj_commute)

lemma HasInfraChanges_Changes: "HasInfraChanges p \<longleftrightarrow> (\<exists>e \<in> set (Changes p). isInfraResource (pe_resource e))"
  by (auto simp: HasInfraChanges_def Changes_def)

text \<open>
  A general instance: a planner made of the two loops satisfies the contract when its first loop
  ranges over the wanted names and its second over the live ones.
\<close>

lemma two_loops:
  "added res (present_entries res name detail (\<lambda>n. n \<in> L) xs @ stale_entries res (\<lambda>n. n \<in> name ` set xs) ls) = name ` set xs - L"
  "removed res (present_entries res name detail (\<lambda>n. n \<in> L) xs @ stale_entries res (\<lambda>n. n \<in> name ` set xs) ls) = set ls - name ` set xs"
  by auto

end
