(* ===== verification/Providers.thy ===== *)
theory Providers
  imports Config
begin

text \<open>
  \<open>pkg/provider/resolve.go\<close>, \<open>registry.go\<close>, \<open>build.go\<close> and \<open>dns.go\<close>: credential sources and
  schemas, the registries of provider factories, build capabilities and DNS record names. A
  provider is opaque: an element of a type variable that its factory builds from credentials.
\<close>

section \<open>Credentials\<close>

record cred_field =
  cf_key :: string
  cf_required :: bool
  cf_env_var :: string
  cf_flag :: string

record cred_schema =
  cs_name :: string
  cs_fields :: "cred_field list"

text \<open>A source maps the name of an environment variable to its value; absent is the empty value.\<close>

type_synonym cred_source = "string \<Rightarrow> goerr + string"

definition MapSource :: "string gomap \<Rightarrow> cred_source" where
  "MapSource m key = Inr (get0 [] m key)"

definition ResolveFrom :: "cred_schema \<Rightarrow> cred_source \<Rightarrow> goerr + string gomap" where
  "ResolveFrom schema source =
     foldR (\<lambda>creds f.
       case source (cf_env_var f) of
         Inl e \<Rightarrow> Inl (Wrapf (cs_name schema @ '': fetch '' @ cf_key f) e)
       | Inr v \<Rightarrow> Inr (if v \<noteq> [] then AList.update (cf_key f) v creds else creds))
       [] (cs_fields schema)"

definition schema_validate :: "cred_schema \<Rightarrow> string gomap \<Rightarrow> goerr option" where
  "schema_validate s creds =
     each (\<lambda>f. check (cf_required f \<and> (\<not> has_key creds (cf_key f) \<or> get0 [] creds (cf_key f) = []))
                 (Errorf ''is required'' [cs_name s, cf_key f, cf_flag f, cf_env_var f])) (cs_fields s)"

section \<open>Registries\<close>

record 'p provider_registry =
  pr_kind :: string
  pr_entries :: "(cred_schema \<times> (string gomap \<Rightarrow> 'p)) gomap"

definition newRegistry :: "string \<Rightarrow> 'p provider_registry" where
  "newRegistry kindDisplay = \<lparr>pr_kind = kindDisplay, pr_entries = []\<rparr>"

definition reg_register :: "string \<Rightarrow> cred_schema \<Rightarrow> (string gomap \<Rightarrow> 'p) \<Rightarrow> 'p provider_registry \<Rightarrow> 'p provider_registry" where
  "reg_register name schema factory r =
     r\<lparr>pr_entries := AList.update name (schema, factory) (pr_entries r)\<rparr>"

definition getSchema :: "'p provider_registry \<Rightarrow> string \<Rightarrow> goerr + cred_schema" where
  "getSchema r name =
     (case map_of (pr_entries r) name of
        None \<Rightarrow> Inl (Errorf ''unsupported provider'' [pr_kind r, name])
      | Some (schema, _) \<Rightarrow> Inr schema)"

definition resolve :: "'p provider_registry \<Rightarrow> string \<Rightarrow> string gomap \<Rightarrow> goerr + 'p" where
  "resolve r name creds =
     (case map_of (pr_entries r) name of
        None \<Rightarrow> Inl (Errorf ''unsupported provider'' [pr_kind r, name])
      | Some (schema, factory) \<Rightarrow>
          (case schema_validate schema creds of Some e \<Rightarrow> Inl e | None \<Rightarrow> Inr (factory creds)))"

text \<open>
  All registries of the process, one per kind, and the table of build capabilities
  (\<open>RequiresBuilders\<close>) beside the registry of build providers.
\<close>

record 'p registries =
  rs_infra :: "'p provider_registry"
  rs_dns :: "'p provider_registry"
  rs_storage :: "'p provider_registry"
  rs_secrets :: "'p provider_registry"
  rs_tunnel :: "'p provider_registry"
  rs_build :: "'p provider_registry"
  rs_ci :: "'p provider_registry"
  rs_database :: "'p provider_registry"
  rs_build_caps :: "bool gomap"

definition no_registrations :: "'p registries" where
  "no_registrations = \<lparr>rs_infra = newRegistry ''infra'', rs_dns = newRegistry ''DNS'',
     rs_storage = newRegistry ''storage'', rs_secrets = newRegistry ''secrets'',
     rs_tunnel = newRegistry ''tunnel'', rs_build = newRegistry ''build'', rs_ci = newRegistry ''CI'',
     rs_database = newRegistry ''database'', rs_build_caps = []\<rparr>"

definition RegisterBuild ::
    "string \<Rightarrow> cred_schema \<Rightarrow> bool \<Rightarrow> (string gomap \<Rightarrow> 'p) \<Rightarrow> 'p registries \<Rightarrow> 'p registries" where
  "RegisterBuild name schema caps factory R =
     R\<lparr>rs_build := reg_register name schema factory (rs_build R),
       rs_build_caps := AList.update name caps (rs_build_caps R)\<rparr>"

definition RegisterCI :: "string \<Rightarrow> cred_schema \<Rightarrow> (string gomap \<Rightarrow> 'p) \<Rightarrow> 'p registries \<Rightarrow> 'p registries" where
  "RegisterCI name schema factory R = R\<lparr>rs_ci := reg_register name schema factory (rs_ci R)\<rparr>"

definition RegisterDatabase :: "string \<Rightarrow> cred_schema \<Rightarrow> (string gomap \<Rightarrow> 'p) \<Rightarrow> 'p registries \<Rightarrow> 'p registries" where
  "RegisterDatabase name schema factory R = R\<lparr>rs_database := reg_register name schema factory (rs_database R)\<rparr>"

definition GetBuildSchema :: "'p registries \<Rightarrow> string \<Rightarrow> goerr + cred_schema" where
  "GetBuildSchema R = getSchema (rs_build R)"

definition ResolveBuild :: "'p registries \<Rightarrow> string \<Rightarrow> string gomap \<Rightarrow> goerr + 'p" where
  "ResolveBuild R = resolve (rs_build R)"

definition GetBuildCapability :: "'p registries \<Rightarrow> string \<Rightarrow> goerr + bool" where
  "GetBuildCapability R name =
     (case map_of (rs_build_caps R) name of
        None \<Rightarrow> Inl (Errorf ''unsupported build provider'' [name])
      | Some caps \<Rightarrow> Inr caps)"

definition GetCISchema :: "'p registries \<Rightarrow> string \<Rightarrow> goerr + cred_schema" where
  "GetCISchema R = getSchema (rs_ci R)"

definition GetDatabaseSchema :: "'p registries \<Rightarrow> string \<Rightarrow> goerr + cred_schema" where
  "GetDatabaseSchema R = getSchema (rs_database R)"

definition GetSchema :: "'p registries \<Rightarrow> string \<Rightarrow> string \<Rightarrow> goerr + cred_schema" where
  "GetSchema R kind name =
     (if kind = ''infra'' then getSchema (rs_infra R) name
      else if kind = ''dns'' then getSchema (rs_dns R) name
      else if kind = ''storage'' then getSchema (rs_storage R) name
      else if kind = ''secrets'' then getSchema (rs_secrets R) name
      else if kind = ''tunnel'' then getSchema (rs_tunnel R) name
      else if kind = ''build'' then GetBuildSchema R name
      else if kind = ''ci'' then GetCISchema R name
      else if kind = ''database'' then GetDatabaseSchema R name
      else Inl (Errorf ''unknown provider kind'' [kind]))"

text \<open>
  The registrations of the packages under \<open>pkg/provider\<close> that the validator consults, with their
  credential schemas; the factories do not matter there.
\<close>

definition no_creds :: "string \<Rightarrow> cred_schema" where
  "no_creds name = \<lparr>cs_name = name, cs_fields = []\<rparr>"

definition daytona_schema :: cred_schema where
  "daytona_schema = \<lparr>cs_name = ''daytona'', cs_fields =
     [\<lparr>cf_key = ''api_key'', cf_required = True, cf_env_var = ''DAYTONA_API_KEY'', cf_flag = ''api-key''\<rparr>]\<rparr>"

definition neon_schema :: cred_schema where
  "neon_schema = \<lparr>cs_name = ''neon'', cs_fields =
     [\<lparr>cf_key = ''api_key'', cf_required = True, cf_env_var = ''NEON_API_KEY'', cf_flag = ''api-key''\<rparr>,
      \<lparr>cf_key = ''base_url'', cf_required = False, cf_env_var = ''NEON_BASE_URL'', cf_flag = ''base-url''\<rparr>]\<rparr>"

definition planetscale_schema :: cred_schema where
  "planetscale_schema = \<lparr>cs_name = ''planetscale'', cs_fields =
     [\<lparr>cf_key = ''service_token'', cf_required = True, cf_env_var = ''PLANETSCALE_SERVICE_TOKEN'', cf_flag = ''service-token''\<rparr>,
      \<lparr>cf_key = ''organization'', cf_required = True, cf_env_var = ''PLANETSCALE_ORG'', cf_flag = ''organization''\<rparr>,
      \<lparr>cf_key = ''base_url'', cf_required = False, cf_env_var = ''PLANETSCALE_BASE_URL'', cf_flag = ''base-url''\<rparr>]\<rparr>"

definition github_schema :: cred_schema where
  "github_schema = \<lparr>cs_name = ''github'', cs_fields =
     [\<lparr>cf_key = ''token'', cf_required = True, cf_env_var = ''GITHUB_TOKEN'', cf_flag = ''github-token''\<rparr>,
      \<lparr>cf_key = ''repo'', cf_required = False, cf_env_var = ''GITHUB_REPO'', cf_flag = ''github-repo''\<rparr>]\<rparr>"

definition nvoi_registries :: "unit registries" where
  "nvoi_registries =
     (RegisterBuild ''local'' (no_creds ''local'') False (\<lambda>_. ()) \<circ>
      RegisterBuild ''ssh'' (no_creds ''ssh'') True (\<lambda>_. ()) \<circ>
      RegisterBuild ''daytona'' daytona_schema False (\<lambda>_. ()) \<circ>
      RegisterCI ''github'' github_schema (\<lambda>_. ()) \<circ>
      RegisterDatabase ''postgres'' (no_creds ''postgres'') (\<lambda>_. ()) \<circ>
      RegisterDatabase ''neon'' neon_schema (\<lambda>_. ()) \<circ>
      RegisterDatabase ''planetscale'' planetscale_schema (\<lambda>_. ())) no_registrations"

section \<open>DNS record names\<close>

definition RecordName :: "string \<Rightarrow> string \<Rightarrow> string" where
  "RecordName domain zone =
     (if domain = zone then ''@''
      else (let suffix = ''.'' @ zone
            in if length domain > length suffix \<and> drop (length domain - length suffix) domain = suffix
               then take (length domain - length suffix) domain else domain))"

definition RecordType :: "string \<Rightarrow> string" where
  "RecordType ip = (if \<exists>c \<in> set ip. c = CHR '':'' then ''AAAA'' else ''A'')"

section \<open>Lemmas\<close>

lemma getSchema_Inr: "(\<exists>s. getSchema r name = Inr s) \<longleftrightarrow> has_key (pr_entries r) name"
  by (auto simp: getSchema_def has_key_def split: option.splits)

lemma getSchema_register [simp]:
  "getSchema (reg_register n s f r) name = (if name = n then Inr s else getSchema r name)"
  by (simp add: getSchema_def reg_register_def update_conv' split: option.split)

lemma resolve_register [simp]:
  "resolve (reg_register n s f r) name creds =
     (if name = n then (case schema_validate s creds of Some e \<Rightarrow> Inl e | None \<Rightarrow> Inr (f creds))
      else resolve r name creds)"
  by (simp add: resolve_def reg_register_def update_conv' split: option.split)

definition cred_step :: "cred_schema \<Rightarrow> cred_source \<Rightarrow> string gomap \<Rightarrow> cred_field \<Rightarrow> goerr + string gomap" where
  "cred_step schema source creds f =
     (case source (cf_env_var f) of
        Inl e \<Rightarrow> Inl (Wrapf (cs_name schema @ '': fetch '' @ cf_key f) e)
      | Inr v \<Rightarrow> Inr (if v \<noteq> [] then AList.update (cf_key f) v creds else creds))"

lemma ResolveFrom_step: "ResolveFrom schema source = foldR (cred_step schema source) [] (cs_fields schema)"
  by (simp add: ResolveFrom_def cred_step_def [abs_def])

lemma cred_fold:
  assumes "foldR (cred_step schema source) creds fs = Inr creds'" "distinct (map cf_key fs)"
    "\<forall>f \<in> set fs. \<not> has_key creds (cf_key f)"
  shows "(\<forall>k. k \<notin> cf_key ` set fs \<longrightarrow> map_of creds' k = map_of creds k) \<and>
    (\<forall>f \<in> set fs. \<exists>v. source (cf_env_var f) = Inr v \<and>
       map_of creds' (cf_key f) = (if v = [] then None else Some v))"
  using assms
proof (induction fs arbitrary: creds)
  case (Cons f fs)
  from Cons.prems(1) obtain c1 where c1: "cred_step schema source creds f = Inr c1"
    and rest1: "foldR (cred_step schema source) c1 fs = Inr creds'"
    by (auto simp: bindR_eq_Inr)
  from c1 obtain v where v: "source (cf_env_var f) = Inr v"
    and "c1 = (if v \<noteq> [] then AList.update (cf_key f) v creds else creds)"
    by (simp add: cred_step_def split: sum.splits)
  with rest1 have rest: "foldR (cred_step schema source) (if v \<noteq> [] then AList.update (cf_key f) v creds else creds) fs = Inr creds'"
    by simp
  have "\<forall>g \<in> set fs. \<not> has_key (if v \<noteq> [] then AList.update (cf_key f) v creds else creds) (cf_key g)"
    using Cons.prems(2,3) by (auto simp: rev_image_eqI)
  from Cons.IH [OF rest _ this] Cons.prems(2,3) v show ?case
    by (auto simp: update_conv' has_key_def)
qed simp

text \<open> a provider that is registered under a name is built from the credentials that
  \<open>ResolveFrom\<close> collects exactly when the source has a value for every required field of its
  schema; the factory sees, for every field, the source's value, and none that is empty.
\<close>

theorem resolve_provider_complete:
  assumes "distinct (map cf_key (cs_fields schema))"
    and "ResolveFrom schema source = Inr creds"
  shows "((\<exists>p. resolve (reg_register name schema factory r) name creds = Inr p) \<longleftrightarrow>
      (\<forall>f. f \<in> set (cs_fields schema) \<longrightarrow> cf_required f \<longrightarrow> source (cf_env_var f) \<noteq> Inr [])) \<and>
    (\<forall>f. f \<in> set (cs_fields schema) \<longrightarrow> (\<exists>v. source (cf_env_var f) = Inr v \<and>
       map_of creds (cf_key f) = (if v = [] then None else Some v)))"
proof -
  note fold = cred_fold [OF assms(2) [unfolded ResolveFrom_step] assms(1)]
  have f: "\<exists>v. source (cf_env_var f) = Inr v \<and> map_of creds (cf_key f) = (if v = [] then None else Some v)"
    if "f \<in> set (cs_fields schema)" for f
    using fold that by (simp add: has_key_def)
  have "(cf_required f \<and> (\<not> has_key creds (cf_key f) \<or> get0 [] creds (cf_key f) = [])) \<longleftrightarrow>
      cf_required f \<and> source (cf_env_var f) = Inr []" if "f \<in> set (cs_fields schema)" for f
    using f [OF that] by (auto simp: has_key_def get0_def split: if_splits)
  then have "schema_validate schema creds = None \<longleftrightarrow>
      (\<forall>f \<in> set (cs_fields schema). \<not> (cf_required f \<and> source (cf_env_var f) = Inr []))"
    by (simp add: schema_validate_def each_None)
  then show ?thesis using f by (auto split: option.splits)
qed

corollary resolve_provider_complete_witness:
  "(\<exists>p. resolve (reg_register ''neon'' neon_schema (\<lambda>c. c) (newRegistry ''database'')) ''neon''
      [(''api_key'', ''k'')] = Inr p)"
proof -
  have "ResolveFrom neon_schema (MapSource [(''NEON_API_KEY'', ''k'')]) = Inr [(''api_key'', ''k'')]"
    by code_simp
  moreover have "distinct (map cf_key (cs_fields neon_schema))" by code_simp
  moreover have "\<forall>f. f \<in> set (cs_fields neon_schema) \<longrightarrow> cf_required f \<longrightarrow>
      MapSource [(''NEON_API_KEY'', ''k'')] (cf_env_var f) \<noteq> Inr []"
    by (simp add: neon_schema_def MapSource_def get0_def)
  ultimately show ?thesis
    using resolve_provider_complete [of neon_schema "MapSource [(''NEON_API_KEY'', ''k'')]" "[(''api_key'', ''k'')]"
        "''neon''" "\<lambda>c. c" "newRegistry ''database''"] by blast
qed

lemma RecordName_sub: "sub \<noteq> [] \<Longrightarrow> RecordName (sub @ ''.'' @ zone) zone = sub"
proof -
  assume "sub \<noteq> []"
  moreover from this have "sub @ ''.'' @ zone \<noteq> zone"
    by (metis append_assoc append_is_Nil_conv append_self_conv2 not_Cons_self2)
  ultimately show ?thesis by (simp add: RecordName_def Let_def)
qed

lemma RecordName_apex [simp]: "RecordName zone zone = ''@''"
  by (simp add: RecordName_def)

lemma build_caps_nvoi: "rs_build_caps nvoi_registries = [(''daytona'', False), (''ssh'', True), (''local'', False)]"
  by code_simp

end
