(* ===== verification/KubeObjects.thy ===== *)
theory KubeObjects
  imports Naming "HOL-Library.Word"
begin

text \<open>
  The Kubernetes objects that the program builds and reads (\<open>k8s.io/api\<close>), with the fields the
  program sets: pods, workloads, services, secrets, config maps, cron jobs and claims. A 32-bit
  field is a \<open>32 word\<close>, so that Go's conversion \<open>int32(port)\<close> is \<open>word_of_int\<close>.
\<close>

section \<open>Pods\<close>

record env_var =
  ev_name :: string
  ev_value :: string
  ev_secret_ref :: "(string \<times> string) option"

record container_port =
  cp_name :: string
  cp_container_port :: "32 word"
  cp_host_port :: "32 word"
  cp_protocol :: string

datatype probe_handler = HTTPGet string "32 word" | TCPSocket "32 word"

record probe =
  pb_handler :: probe_handler
  pb_initial_delay :: int
  pb_period :: int
  pb_timeout :: int

record volume_mount =
  vm_name :: string
  vm_path :: string
  vm_read_only :: bool
  vm_sub_path :: string

record pod_container =
  ct_name :: string
  ct_image :: string
  ct_command :: "string list"
  ct_args :: "string list"
  ct_env :: "env_var list"
  ct_env_from :: "string list"
  ct_ports :: "container_port list"
  ct_mounts :: "volume_mount list"
  ct_probe :: "probe option"
  ct_requests :: "string gomap"
  ct_limits :: "string gomap"

datatype volume_source =
    HostPathDirectoryOrCreate string
  | ConfigMapVolume string
  | ClaimVolume string
  | EmptyDirVolume

record pod_volume =
  pv_name :: string
  pv_source :: volume_source

record node_requirement =
  nr_key :: string
  nr_operator :: string
  nr_values :: "string list"

record spread_constraint =
  sc_max_skew :: int
  sc_topology_key :: string
  sc_when_unsatisfiable :: string
  sc_match_labels :: "string gomap"

record toleration =
  tol_key :: string
  tol_operator :: string
  tol_effect :: string

record pod_spec =
  ps_restart_policy :: string
  ps_containers :: "pod_container list"
  ps_volumes :: "pod_volume list"
  ps_pull_secrets :: "string list"
  ps_node_selector :: "string gomap"
  ps_node_affinity :: "node_requirement list option"
  ps_preferred :: "(int \<times> node_requirement list) list"
  ps_spread :: "spread_constraint list"
  ps_tolerations :: "toleration list"

record pod_template =
  pt_labels :: "string gomap"
  pt_annotations :: "string gomap"
  pt_spec :: pod_spec

section \<open>Objects\<close>

datatype update_strategy = DefaultStrategy | RollingUpdate int int | RecreateStrategy

record service_port =
  sp_name :: string
  sp_port :: "32 word"
  sp_target_port :: "32 word"
  sp_protocol :: string

record kservice_spec =
  ks_type :: string
  ks_selector :: "string gomap"
  ks_ports :: "service_port list"
  ks_cluster_ip :: string

record job_spec =
  js_backoff :: "int option"
  js_template :: pod_template

text \<open>The rest of a cron job's spec; the defaults of the API are the empty policy.\<close>

record cron_policy =
  cy_concurrency :: string
  cy_successful :: "int option"
  cy_failed :: "int option"

definition default_policy :: cron_policy where
  "default_policy = \<lparr>cy_concurrency = [], cy_successful = None, cy_failed = None\<rparr>"

record storage_class =
  sg_provisioner :: string
  sg_parameters :: "string gomap"
  sg_reclaim :: string
  sg_binding :: string
  sg_expansion :: bool

record claim_spec =
  cm_access :: "string list"
  cm_storage :: string
  cm_class :: "string option"
  cm_source :: "(string \<times> string \<times> string) option"

text \<open>The spec of an object, by kind; the kinds that the program applies but never builds are opaque.\<close>

datatype kbody =
    DeploymentBody "32 word" update_strategy "string gomap" pod_template
  | StatefulSetBody string "32 word" "string gomap" pod_template
  | ServiceBody kservice_spec
  | SecretBody string "string gomap"
  | ConfigMapBody "string gomap"
  | CronJobBody string cron_policy "string gomap" job_spec
  | JobBody job_spec
  | PVCBody claim_spec
  | NamespaceBody
  | StorageClassBody storage_class
  | IngressBody string
  | OtherBody string string

datatype kind =
    KindDeployment
  | KindStatefulSet
  | KindService
  | KindSecret
  | KindConfigMap
  | KindCronJob
  | KindPVC
  | KindJob
  | KindNamespace
  | KindStorageClass
  | KindIngress
  | KindOther string

fun kind_of :: "kbody \<Rightarrow> kind" where
  "kind_of (DeploymentBody _ _ _ _) = KindDeployment"
| "kind_of (StatefulSetBody _ _ _ _) = KindStatefulSet"
| "kind_of (ServiceBody _) = KindService"
| "kind_of (SecretBody _ _) = KindSecret"
| "kind_of (ConfigMapBody _) = KindConfigMap"
| "kind_of (CronJobBody _ _ _ _) = KindCronJob"
| "kind_of (JobBody _) = KindJob"
| "kind_of (PVCBody _) = KindPVC"
| "kind_of NamespaceBody = KindNamespace"
| "kind_of (StorageClassBody _) = KindStorageClass"
| "kind_of (IngressBody _) = KindIngress"
| "kind_of (OtherBody k _) = KindOther k"

fun kind_name :: "kind \<Rightarrow> string" where
  "kind_name KindDeployment = ''Deployment''"
| "kind_name KindStatefulSet = ''StatefulSet''"
| "kind_name KindService = ''Service''"
| "kind_name KindSecret = ''Secret''"
| "kind_name KindConfigMap = ''ConfigMap''"
| "kind_name KindCronJob = ''CronJob''"
| "kind_name KindPVC = ''PersistentVolumeClaim''"
| "kind_name KindJob = ''Job''"
| "kind_name KindNamespace = ''Namespace''"
| "kind_name KindStorageClass = ''StorageClass''"
| "kind_name KindIngress = ''Ingress''"
| "kind_name (KindOther k) = k"

text \<open>An object with its metadata; \<open>ko_status\<close> is whatever its controllers report.\<close>

record kobj =
  ko_name :: string
  ko_namespace :: string
  ko_labels :: "string gomap"
  ko_annotations :: "string gomap"
  ko_owner_refs :: "(string \<times> string \<times> string) list"
  ko_uid :: string
  ko_resource_version :: string
  ko_status :: string
  ko_body :: kbody

definition kobj_of :: "string \<Rightarrow> string \<Rightarrow> string gomap \<Rightarrow> kbody \<Rightarrow> kobj" where
  "kobj_of name ns labels body =
     \<lparr>ko_name = name, ko_namespace = ns, ko_labels = labels, ko_annotations = [], ko_owner_refs = [],
      ko_uid = [], ko_resource_version = [], ko_status = [], ko_body = body\<rparr>"

definition ko_kind :: "kobj \<Rightarrow> kind" where
  "ko_kind o' = kind_of (ko_body o')"

lemma kobj_of_simps [simp]:
  "ko_name (kobj_of n ns ls b) = n" "ko_namespace (kobj_of n ns ls b) = ns" "ko_labels (kobj_of n ns ls b) = ls"
  "ko_body (kobj_of n ns ls b) = b" "ko_kind (kobj_of n ns ls b) = kind_of b"
  by (simp_all add: kobj_of_def ko_kind_def)

text \<open>The containers that a workload runs.\<close>

fun containers_of :: "kbody \<Rightarrow> pod_container list" where
  "containers_of (DeploymentBody _ _ _ t) = ps_containers (pt_spec t)"
| "containers_of (StatefulSetBody _ _ _ t) = ps_containers (pt_spec t)"
| "containers_of (CronJobBody _ _ _ j) = ps_containers (pt_spec (js_template j))"
| "containers_of (JobBody j) = ps_containers (pt_spec (js_template j))"
| "containers_of _ = []"

definition images_of :: "kbody \<Rightarrow> string list" where
  "images_of b = map ct_image (containers_of b)"

fun pod_template_of :: "kbody \<Rightarrow> pod_template option" where
  "pod_template_of (DeploymentBody _ _ _ t) = Some t"
| "pod_template_of (StatefulSetBody _ _ _ t) = Some t"
| "pod_template_of (CronJobBody _ _ _ j) = Some (js_template j)"
| "pod_template_of (JobBody j) = Some (js_template j)"
| "pod_template_of _ = None"

end
