(* ===== verification/Effects.thy ===== *)
theory Effects
  imports Prelude
begin

text \<open>
  Code with effects, as functions of the world it acts on: a call that may fail takes the world and
  returns its error or result with the world it leaves behind, also when it fails. The locale
  \<open>step_relation\<close> derives what a whole program may do to the world from what its calls may do.
\<close>

section \<open>Actions\<close>

type_synonym ('w, 'a) act = "'w \<Rightarrow> (goerr + 'a) \<times> 'w"

definition retA :: "'a \<Rightarrow> ('w, 'a) act" where
  "retA a w = (Inr a, w)"

definition failA :: "goerr \<Rightarrow> ('w, 'a) act" where
  "failA e w = (Inl e, w)"

text \<open>A computation that only reads the world.\<close>

definition readA :: "('w \<Rightarrow> goerr + 'a) \<Rightarrow> ('w, 'a) act" where
  "readA f w = (f w, w)"

definition bindA :: "('w, 'a) act \<Rightarrow> ('a \<Rightarrow> ('w, 'b) act) \<Rightarrow> ('w, 'b) act" where
  "bindA m f w = (case m w of (Inl e, w') \<Rightarrow> (Inl e, w') | (Inr a, w') \<Rightarrow> f a w')"

definition thenA :: "('w, unit) act \<Rightarrow> ('w, 'b) act \<Rightarrow> ('w, 'b) act" where
  "thenA m n = bindA m (\<lambda>_. n)"

text \<open>A call whose error is discarded or only logged, and one whose error is wrapped.\<close>

definition ignoreA :: "('w, 'a) act \<Rightarrow> ('w, unit) act" where
  "ignoreA m w = (Inr (), snd (m w))"

definition wrapA :: "string \<Rightarrow> ('w, 'a) act \<Rightarrow> ('w, 'a) act" where
  "wrapA ctx m w = (case m w of (Inl e, w') \<Rightarrow> (Inl (Wrapf ctx e), w') | r \<Rightarrow> r)"

definition whenA :: "bool \<Rightarrow> ('w, unit) act \<Rightarrow> ('w, unit) act" where
  "whenA b m = (if b then m else retA ())"

text \<open>The loop that returns at the first error, and the one that also threads a local value.\<close>

fun forA :: "('x \<Rightarrow> ('w, unit) act) \<Rightarrow> 'x list \<Rightarrow> ('w, unit) act" where
  "forA f [] = retA ()"
| "forA f (x # xs) = thenA (f x) (forA f xs)"

fun foldA :: "('s \<Rightarrow> 'x \<Rightarrow> ('w, 's) act) \<Rightarrow> 's \<Rightarrow> 'x list \<Rightarrow> ('w, 's) act" where
  "foldA f s [] = retA s"
| "foldA f s (x # xs) = bindA (f s x) (\<lambda>s'. foldA f s' xs)"

section \<open>Results\<close>

lemma retA_eq [simp]: "retA a w = (r, w') \<longleftrightarrow> r = Inr a \<and> w' = w" "fst (retA a w) = Inr a" "snd (retA a w) = w"
  by (auto simp: retA_def)

lemma failA_eq [simp]: "failA e w = (r, w') \<longleftrightarrow> r = Inl e \<and> w' = w" "fst (failA e w) = Inl e" "snd (failA e w) = w"
  by (auto simp: failA_def)

lemma readA_eq [simp]: "readA f w = (r, w') \<longleftrightarrow> r = f w \<and> w' = w" "snd (readA f w) = w" "fst (readA f w) = f w"
  by (auto simp: readA_def)

lemma bindA_Inr: "bindA m f w = (Inr b, w') \<longleftrightarrow> (\<exists>a w1. m w = (Inr a, w1) \<and> f a w1 = (Inr b, w'))"
  by (auto simp: bindA_def split: prod.splits sum.splits)

lemma bindA_cases:
  "bindA m f w = r \<longleftrightarrow>
     (\<exists>e w1. m w = (Inl e, w1) \<and> r = (Inl e, w1)) \<or> (\<exists>a w1. m w = (Inr a, w1) \<and> r = f a w1)"
  by (auto simp: bindA_def split: prod.splits sum.splits)

lemma thenA_Inr: "thenA m n w = (Inr b, w') \<longleftrightarrow> (\<exists>w1. m w = (Inr (), w1) \<and> n w1 = (Inr b, w'))"
  by (auto simp: thenA_def bindA_Inr)

lemma ignoreA_eq [simp]: "ignoreA m w = (r, w') \<longleftrightarrow> r = Inr () \<and> w' = snd (m w)"
  by (auto simp: ignoreA_def)

lemma wrapA_Inr [simp]: "wrapA ctx m w = (Inr a, w') \<longleftrightarrow> m w = (Inr a, w')"
  by (auto simp: wrapA_def split: prod.splits sum.splits)

lemma snd_wrapA [simp]: "snd (wrapA ctx m w) = snd (m w)"
  by (auto simp: wrapA_def split: prod.splits sum.splits)

lemma bindA_read: "bindA (readA f) g w = (Inr b, w') \<longleftrightarrow> (\<exists>a. f w = Inr a \<and> g a w = (Inr b, w'))"
  by (auto simp: bindA_def readA_def split: sum.splits)

lemma readA_const: "bindA (readA (\<lambda>_. r)) f = (case r of Inl e \<Rightarrow> failA e | Inr a \<Rightarrow> f a)"
  by (rule ext) (auto simp: bindA_def readA_def failA_def split: sum.split)

lemma bindA_read_at: "bindA (readA f) g w = (case f w of Inl e \<Rightarrow> (Inl e, w) | Inr a \<Rightarrow> g a w)"
  by (auto simp: bindA_def readA_def)

lemma bindA_result: "bindA m f w = (case m w of (Inl e, w') \<Rightarrow> (Inl e, w') | (Inr a, w') \<Rightarrow> f a w')"
  by (simp add: bindA_def)

lemma snd_thenA: "snd (thenA m n w) = (case fst (m w) of Inl _ \<Rightarrow> snd (m w) | Inr _ \<Rightarrow> snd (n (snd (m w))))"
  by (auto simp: thenA_def bindA_def split: prod.split sum.split)

lemma fst_ignoreA [simp]: "fst (ignoreA m w) = Inr ()" "snd (ignoreA m w) = snd (m w)"
  by (simp_all add: ignoreA_def)

lemma forA_append: "forA f (xs @ ys) w = thenA (forA f xs) (forA f ys) w"
  by (induction xs arbitrary: w) (auto simp: thenA_def bindA_def retA_def split: prod.splits sum.splits)

lemma foldA_append: "foldA f s (xs @ ys) w = bindA (foldA f s xs) (\<lambda>s'. foldA f s' ys) w"
  by (induction xs arbitrary: s w) (auto simp: bindA_def retA_def split: prod.splits sum.splits)

text \<open>A loop keeps what every turn of it keeps; \<open>J\<close> is what is left when a turn fails.\<close>

lemma foldA_invariant:
  assumes "foldA f s xs w = (r, w')" "I s w"
    and "\<And>s x w r w'. x \<in> set xs \<Longrightarrow> I s w \<Longrightarrow> f s x w = (r, w') \<Longrightarrow> (case r of Inr s' \<Rightarrow> I s' w' | Inl _ \<Rightarrow> J w')"
  shows "case r of Inr s' \<Rightarrow> I s' w' | Inl _ \<Rightarrow> J w'"
  using assms
proof (induction xs arbitrary: s w)
  case (Cons x xs)
  obtain r1 w1 where f: "f s x w = (r1, w1)" by fastforce
  note step = Cons.prems(3) [OF _ Cons.prems(2) f, simplified]
  show ?case
  proof (cases r1)
    case (Inl e)
    with f Cons.prems(1) step show ?thesis by (auto simp: bindA_def)
  next
    case (Inr s1)
    with f Cons.prems(1) have rest: "foldA f s1 xs w1 = (r, w')" by (auto simp: bindA_def)
    from step Inr have "I s1 w1" by simp
    then show ?thesis by (rule Cons.IH [OF rest]) (rule Cons.prems(3), simp_all)
  qed
qed simp

section \<open>What an action may do to the world\<close>

definition keeps :: "('w \<Rightarrow> 'w \<Rightarrow> bool) \<Rightarrow> ('w, 'a) act \<Rightarrow> bool" where
  "keeps R m \<longleftrightarrow> (\<forall>w. R w (snd (m w)))"

lemma keepsD: "keeps R m \<Longrightarrow> m w = (r, w') \<Longrightarrow> R w w'"
  by (metis keeps_def snd_conv)

lemma keeps_mono: "keeps R m \<Longrightarrow> (\<And>w w'. R w w' \<Longrightarrow> R' w w') \<Longrightarrow> keeps R' m"
  by (auto simp: keeps_def)

lemma seq_split:
  assumes "keeps R m" "keeps R' n" "\<And>w. R' w w" "thenA m n w = (r, w')"
  shows "\<exists>w1. R w w1 \<and> R' w1 w'"
proof (cases "m w")
  case (Pair r1 w1)
  with assms(4) have "r1 = Inr () \<and> n w1 = (r, w') \<or> w' = w1"
    by (cases r1) (auto simp: thenA_def bindA_def)
  with Pair assms show ?thesis by (blast dest: keepsD)
qed

text \<open>A loop that ends well ran its body for every element, then the rest of the loop.\<close>

lemma forA_reaches:
  assumes "forA f xs w = (Inr (), w')" "x \<in> set xs" "distinct xs"
  shows "\<exists>w1 w2 ys. f x w1 = (Inr (), w2) \<and> forA f ys w2 = (Inr (), w') \<and> set ys \<subseteq> set xs - {x}"
  using assms
proof (induction xs arbitrary: w)
  case (Cons y xs)
  then obtain w1 where w1: "f y w = (Inr (), w1)" "forA f xs w1 = (Inr (), w')" by (auto simp: thenA_Inr)
  show ?case
  proof (cases "x = y")
    case True
    with w1 Cons.prems(3) show ?thesis by (intro exI [of _ w] exI [of _ w1] exI [of _ xs]) auto
  next
    case False
    with Cons.prems have "x \<in> set xs" "distinct xs" by auto
    from Cons.IH [OF w1(2) this] False show ?thesis by auto
  qed
qed simp

locale step_relation =
  fixes R :: "'w \<Rightarrow> 'w \<Rightarrow> bool"
  assumes refl: "R w w"
    and trans: "R w w' \<Longrightarrow> R w' w'' \<Longrightarrow> R w w''"
begin

lemma ret: "keeps R (retA a)"
  and fail: "keeps R (failA e)"
  and read: "keeps R (readA f)"
  by (simp_all add: keeps_def refl)

lemma bind: "keeps R m \<Longrightarrow> (\<And>a. keeps R (f a)) \<Longrightarrow> keeps R (bindA m f)"
  by (auto simp: keeps_def bindA_def split: prod.split sum.split) (metis snd_conv trans)+

text \<open>The same, with what is known of the value.\<close>

lemma bind_value:
  assumes "keeps R m" "\<And>w a w'. m w = (Inr a, w') \<Longrightarrow> keeps R (f a)"
  shows "keeps R (bindA m f)"
  unfolding keeps_def
proof
  fix w
  obtain r w1 where m: "m w = (r, w1)" by fastforce
  with assms(1) have R1: "R w w1" by (rule keepsD)
  show "R w (snd (bindA m f w))"
  proof (cases r)
    case (Inr a)
    from assms(2) m Inr have "R w1 (snd (f a w1))" by (metis keeps_def)
    with R1 m Inr show ?thesis by (auto simp: bindA_def intro: trans)
  qed (use R1 m in \<open>simp add: bindA_def\<close>)
qed

lemma bind_read: "(\<And>w a. f w = Inr a \<Longrightarrow> keeps R (g a)) \<Longrightarrow> keeps R (bindA (readA f) g)"
  by (rule bind_value) (auto intro: read)

lemma seq: "keeps R m \<Longrightarrow> keeps R n \<Longrightarrow> keeps R (thenA m n)"
  by (simp add: thenA_def bind)

lemma ignore: "keeps R m \<Longrightarrow> keeps R (ignoreA m)"
  and wrap: "keeps R m \<Longrightarrow> keeps R (wrapA ctx m)"
  and optional: "keeps R m' \<Longrightarrow> keeps R (whenA b m')"
  by (simp_all add: keeps_def ignoreA_def whenA_def refl)

lemma loop: "(\<And>x. x \<in> set xs \<Longrightarrow> keeps R (f x)) \<Longrightarrow> keeps R (forA f xs)"
  by (induction xs) (auto intro: ret seq)

lemma fold: "(\<And>s x. x \<in> set xs \<Longrightarrow> keeps R (f s x)) \<Longrightarrow> keeps R (foldA f s xs)"
  by (induction xs arbitrary: s) (auto intro!: ret bind)

lemmas rules = ret fail read bind seq ignore wrap optional loop fold

end

text \<open>Doing nothing to the world is the smallest such relation.\<close>

interpretation pure: step_relation "(=)"
  by unfold_locales auto

end
