(* ===== verification/Kube.thy ===== *)
theory Kube
  imports KubeObjects Effects
begin

text \<open>
  The Kubernetes client of \<open>pkg/kube\<close>: the apply path (\<open>apply.go\<close>), secrets (\<open>secrets.go\<close>),
  owner-scoped sweeps and listings (\<open>sweep.go\<close>) and the small operations of \<open>workloads.go\<close> and
  \<open>cron.go\<close>. The API server is code outside the repository: \<open>kube_api\<close> holds its calls and the
  locale \<open>kube_server\<close> what the program relies on about them.
\<close>

section \<open>The API server\<close>

datatype api_err = ApiNotFound | ApiConflict | ApiErr string

text \<open>
  The typed clientset: reads look at the world, writes change it whether or not they succeed.
  \<open>api_retry\<close> is client-go's \<open>retry.RetryOnConflict\<close>; the loop body it runs also updates the
  object in hand.
\<close>

record 'w kube_api =
  api_get :: "kind \<Rightarrow> string \<Rightarrow> string \<Rightarrow> 'w \<Rightarrow> api_err + kobj"
  api_list :: "kind \<Rightarrow> string \<Rightarrow> string \<times> string \<Rightarrow> 'w \<Rightarrow> api_err + kobj list"
  api_create :: "kind \<Rightarrow> string \<Rightarrow> kobj \<Rightarrow> 'w \<Rightarrow> (api_err + unit) \<times> 'w"
  api_update :: "kind \<Rightarrow> string \<Rightarrow> kobj \<Rightarrow> 'w \<Rightarrow> (api_err + unit) \<times> 'w"
  api_delete :: "kind \<Rightarrow> string \<Rightarrow> string \<Rightarrow> 'w \<Rightarrow> (api_err + unit) \<times> 'w"
  api_retry :: "(kobj \<times> 'w \<Rightarrow> (api_err + unit) \<times> kobj \<times> 'w) \<Rightarrow> kobj \<times> 'w \<Rightarrow> (api_err + unit) \<times> kobj \<times> 'w"

definition api_error :: "api_err \<Rightarrow> goerr" where
  "api_error e = (case e of ApiNotFound \<Rightarrow> ExtErr ''not found'' | ApiConflict \<Rightarrow> ExtErr ''conflict'' | ApiErr m \<Rightarrow> ExtErr m)"

definition call :: "('w \<Rightarrow> (api_err + unit) \<times> 'w) \<Rightarrow> ('w, unit) act" where
  "call f w = (case f w of (r, w') \<Rightarrow> (map_sum api_error id r, w'))"

text \<open>\<open>IgnoreNotFound\<close> on the result of a call.\<close>

definition IgnoreNotFound :: "(api_err + unit) \<Rightarrow> api_err + unit" where
  "IgnoreNotFound r = (if r = Inl ApiNotFound then Inr () else r)"

definition call_ignoring :: "('w \<Rightarrow> (api_err + unit) \<times> 'w) \<Rightarrow> ('w, unit) act" where
  "call_ignoring f w = (case f w of (r, w') \<Rightarrow> (map_sum api_error id (IgnoreNotFound r), w'))"

section \<open>Apply\<close>

definition isClusterScoped :: "kind \<Rightarrow> bool" where
  "isClusterScoped k \<longleftrightarrow> kind_name k \<in> {''Namespace'', ''StorageClass'', ''CSIDriver'',
     ''CustomResourceDefinition'', ''ClusterRole'', ''ClusterRoleBinding''}"

definition apply_kinds :: "kind set" where
  "apply_kinds = {KindNamespace, KindService, KindSecret, KindConfigMap, KindPVC, KindDeployment, KindStatefulSet,
     KindCronJob, KindJob, KindStorageClass, KindIngress}"

text \<open>What the update keeps of the live object: its version, a Service's address, a workload's status.\<close>

definition keep_live :: "kobj \<Rightarrow> kobj \<Rightarrow> kobj" where
  "keep_live existing typed =
     (let typed = typed\<lparr>ko_resource_version := ko_resource_version existing\<rparr>
      in case ko_body typed of
           ServiceBody spec \<Rightarrow>
             (case ko_body existing of
                ServiceBody live \<Rightarrow> typed\<lparr>ko_body := ServiceBody (spec\<lparr>ks_cluster_ip := ks_cluster_ip live\<rparr>)\<rparr>
              | _ \<Rightarrow> typed)
         | DeploymentBody _ _ _ _ \<Rightarrow> typed\<lparr>ko_status := ko_status existing\<rparr>
         | StatefulSetBody _ _ _ _ \<Rightarrow> typed\<lparr>ko_status := ko_status existing\<rparr>
         | _ \<Rightarrow> typed)"

text \<open>The body of the retry loop: get, then create when missing, otherwise update.\<close>

definition upsert :: "'w kube_api \<Rightarrow> kind \<Rightarrow> string \<Rightarrow> string \<Rightarrow> kobj \<times> 'w \<Rightarrow> (api_err + unit) \<times> kobj \<times> 'w" where
  "upsert api k ns name s = (case s of (typed, w) \<Rightarrow>
     (case api_get api k ns name w of
        Inl ApiNotFound \<Rightarrow> (case api_create api k ns typed w of (r, w') \<Rightarrow> (r, typed, w'))
      | Inl e \<Rightarrow> (Inl e, typed, w)
      | Inr existing \<Rightarrow>
          (let typed' = keep_live existing typed
           in case api_update api k ns typed' w of (r, w') \<Rightarrow> (r, typed', w'))))"

definition applyTyped :: "'w kube_api \<Rightarrow> string \<Rightarrow> string \<Rightarrow> kobj \<Rightarrow> ('w, unit) act" where
  "applyTyped api ns name typed w =
     (let k = ko_kind typed; kns = (if k \<in> {KindNamespace, KindStorageClass} then [] else ns)
      in if k = KindPVC
         then (case api_get api KindPVC ns name w of
                 Inl ApiNotFound \<Rightarrow> call (api_create api KindPVC ns typed) w
               | Inl e \<Rightarrow> (Inl (api_error e), w)
               | Inr existing \<Rightarrow> (Inr (), w))
         else (case api_retry api (upsert api k kns name) (typed, w) of (r, _, w') \<Rightarrow> (map_sum api_error id r, w')))"

definition Apply :: "'w kube_api \<Rightarrow> string \<Rightarrow> kobj \<Rightarrow> ('w, unit) act" where
  "Apply api ns obj0 =
     (let k = ko_kind obj0;
          obj = (if \<not> isClusterScoped k \<and> ko_namespace obj0 = [] \<and> ns \<noteq> [] then obj0\<lparr>ko_namespace := ns\<rparr> else obj0)
      in if ko_name obj = [] then failA (Errorf ''missing metadata.name'' [kind_name k])
         else if k \<notin> apply_kinds
         then failA (Errorf ''apply: unsupported kind'' [kind_name k, ko_name obj])
         else wrapA (''apply '' @ kind_name k @ ''/'' @ ko_name obj) (applyTyped api ns (ko_name obj) obj))"

definition stamp :: "string \<Rightarrow> kobj \<Rightarrow> kobj" where
  "stamp owner obj = obj\<lparr>ko_labels :=
     AList.update LabelNvoiOwner owner (AList.update LabelAppManagedBy LabelManagedBy (ko_labels obj))\<rparr>"

definition ApplyOwned :: "'w kube_api \<Rightarrow> string \<Rightarrow> string \<Rightarrow> kobj \<Rightarrow> ('w, unit) act" where
  "ApplyOwned api ns owner obj =
     (if owner = [] then failA (Errorf ''ApplyOwned: owner required'' []) else Apply api ns (stamp owner obj))"

definition EnsureNamespace :: "'w kube_api \<Rightarrow> string \<Rightarrow> ('w, unit) act" where
  "EnsureNamespace api name = Apply api [] (kobj_of name [] [] NamespaceBody)"

section \<open>Secrets\<close>

definition secret_ctx :: "string \<Rightarrow> string \<Rightarrow> string \<Rightarrow> string" where
  "secret_ctx what ns name = what @ '' secret '' @ ns @ ''/'' @ name"

definition secret_data :: "kobj \<Rightarrow> string gomap" where
  "secret_data o' = (case ko_body o' of SecretBody _ data \<Rightarrow> data | _ \<Rightarrow> [])"

definition with_secret_data :: "string gomap \<Rightarrow> kobj \<Rightarrow> kobj" where
  "with_secret_data data o' =
     (case ko_body o' of SecretBody t _ \<Rightarrow> o'\<lparr>ko_body := SecretBody t data\<rparr> | _ \<Rightarrow> o')"

definition put_all :: "string gomap \<Rightarrow> string gomap \<Rightarrow> string gomap" where
  "put_all kvs data = foldl (\<lambda>d (k, v). AList.update k v d) data kvs"

definition EnsureSecret :: "'w kube_api \<Rightarrow> string \<Rightarrow> string \<Rightarrow> string \<Rightarrow> string gomap \<Rightarrow> ('w, unit) act" where
  "EnsureSecret api ns owner name kvs w =
     (if owner = [] then (Inl (Errorf ''EnsureSecret: owner required'' []), w)
      else (case api_get api KindSecret ns name w of
        Inl ApiNotFound \<Rightarrow>
          wrapA (secret_ctx ''create'' ns name)
            (call (api_create api KindSecret ns
               (kobj_of name ns [(LabelAppManagedBy, LabelManagedBy), (LabelNvoiOwner, owner)]
                  (SecretBody ''Opaque'' (put_all kvs []))))) w
      | Inl e \<Rightarrow> (Inl (Wrapf (secret_ctx ''get'' ns name) (api_error e)), w)
      | Inr existing \<Rightarrow>
          wrapA (secret_ctx ''update'' ns name)
            (call (api_update api KindSecret ns
               (stamp owner (with_secret_data (put_all kvs (secret_data existing)) existing)))) w))"

definition UpsertSecretKey :: "'w kube_api \<Rightarrow> string \<Rightarrow> string \<Rightarrow> string \<Rightarrow> string \<Rightarrow> string \<Rightarrow> ('w, unit) act" where
  "UpsertSecretKey api ns owner name key val = EnsureSecret api ns owner name [(key, val)]"

definition DeleteSecretKey :: "'w kube_api \<Rightarrow> string \<Rightarrow> string \<Rightarrow> string \<Rightarrow> ('w, unit) act" where
  "DeleteSecretKey api ns name key w =
     (case api_get api KindSecret ns name w of
        Inl ApiNotFound \<Rightarrow> (Inr (), w)
      | Inl e \<Rightarrow> (Inl (Wrapf (secret_ctx ''get'' ns name) (api_error e)), w)
      | Inr secret \<Rightarrow>
          if \<not> has_key (secret_data secret) key then (Inr (), w)
          else wrapA (''delete key '' @ key @ '' from secret '' @ ns @ ''/'' @ name)
                 (call (api_update api KindSecret ns
                    (with_secret_data (AList.delete key (secret_data secret)) secret))) w)"

definition DeleteSecret :: "'w kube_api \<Rightarrow> string \<Rightarrow> string \<Rightarrow> ('w, unit) act" where
  "DeleteSecret api ns name = wrapA (secret_ctx ''delete'' ns name) (call_ignoring (api_delete api KindSecret ns name))"

definition ListSecretKeys :: "'w kube_api \<Rightarrow> string \<Rightarrow> string \<Rightarrow> 'w \<Rightarrow> goerr + string list" where
  "ListSecretKeys api ns name w =
     (case api_get api KindSecret ns name w of
        Inl ApiNotFound \<Rightarrow> Inr []
      | Inl e \<Rightarrow> Inl (Wrapf (secret_ctx ''get'' ns name) (api_error e))
      | Inr secret \<Rightarrow> Inr (map fst (secret_data secret)))"

definition GetSecretValue :: "'w kube_api \<Rightarrow> string \<Rightarrow> string \<Rightarrow> string \<Rightarrow> 'w \<Rightarrow> goerr + string" where
  "GetSecretValue api ns name key w =
     (case api_get api KindSecret ns name w of
        Inl ApiNotFound \<Rightarrow> Inl (Errorf ''secret not found'' [ns, name])
      | Inl e \<Rightarrow> Inl (Wrapf (secret_ctx ''get'' ns name) (api_error e))
      | Inr secret \<Rightarrow>
          (case map_of (secret_data secret) key of
             None \<Rightarrow> Inl (Errorf ''secret key not found or empty'' [key])
           | Some val \<Rightarrow> if val = [] then Inl (Errorf ''secret key not found or empty'' [key]) else Inr val))"

section \<open>Owner-scoped listing and sweep\<close>

text \<open>The kinds that can be swept, with the plural and the singular that the messages use.\<close>

fun sweep_nouns :: "kind \<Rightarrow> (string \<times> string) option" where
  "sweep_nouns KindDeployment = Some (''deployments'', ''deployment'')"
| "sweep_nouns KindStatefulSet = Some (''statefulsets'', ''statefulset'')"
| "sweep_nouns KindService = Some (''services'', ''service'')"
| "sweep_nouns KindSecret = Some (''secrets'', ''secret'')"
| "sweep_nouns KindConfigMap = Some (''configmaps'', ''configmap'')"
| "sweep_nouns KindCronJob = Some (''cronjobs'', ''cronjob'')"
| "sweep_nouns KindPVC = Some (''pvcs'', ''pvc'')"
| "sweep_nouns _ = None"

definition SweepOwned :: "'w kube_api \<Rightarrow> string \<Rightarrow> string \<Rightarrow> kind \<Rightarrow> string list \<Rightarrow> ('w, unit) act" where
  "SweepOwned api ns owner k desired w =
     (if owner = [] then (Inl (Errorf ''SweepOwned: owner required'' []), w)
      else (case sweep_nouns k of
        None \<Rightarrow> (Inl (Errorf ''SweepOwned: unsupported kind'' [kind_name k]), w)
      | Some (plural, singular) \<Rightarrow>
          (case api_list api k ns (LabelNvoiOwner, owner) w of
             Inl e \<Rightarrow> (Inl (Wrapf (''sweep '' @ plural @ '' owner='' @ owner) (api_error e)), w)
           | Inr items \<Rightarrow>
               forA (\<lambda>item.
                 if ko_name item \<in> set desired then retA ()
                 else wrapA (''sweep delete '' @ singular @ ''/'' @ ko_name item)
                        (call_ignoring (api_delete api k ns (ko_name item)))) items w)))"

definition ListOwned :: "'w kube_api \<Rightarrow> string \<Rightarrow> string \<Rightarrow> kind \<Rightarrow> 'w \<Rightarrow> goerr + string list" where
  "ListOwned api ns owner k w =
     (if owner = [] then Inl (Errorf ''ListOwned: owner required'' [])
      else (case sweep_nouns k of
        None \<Rightarrow> Inl (Errorf ''ListOwned: unsupported kind'' [kind_name k])
      | Some (plural, singular) \<Rightarrow>
          (case api_list api k ns (LabelNvoiOwner, owner) w of
             Inl e \<Rightarrow> Inl (Wrapf (''list '' @ plural @ '' owner='' @ owner) (api_error e))
           | Inr items \<Rightarrow> Inr (map ko_name items))))"

section \<open>Single objects\<close>

definition GetServicePort :: "'w kube_api \<Rightarrow> string \<Rightarrow> string \<Rightarrow> 'w \<Rightarrow> goerr + int" where
  "GetServicePort api ns name w =
     (case api_get api KindService ns name w of
        Inl ApiNotFound \<Rightarrow> Inl (Errorf ''service not found'' [name])
      | Inl e \<Rightarrow> Inl (Wrapf (''get service '' @ name) (api_error e))
      | Inr svc \<Rightarrow>
          (case ko_body svc of
             ServiceBody spec \<Rightarrow>
               (case ks_ports spec of
                  [] \<Rightarrow> Inl (Errorf ''service has no port'' [name])
                | p # _ \<Rightarrow> Inr (sint (sp_port p)))
           | _ \<Rightarrow> Inl (Errorf ''service has no port'' [name])))"

definition GetStatefulSet :: "'w kube_api \<Rightarrow> string \<Rightarrow> string \<Rightarrow> 'w \<Rightarrow> goerr + kobj option" where
  "GetStatefulSet api ns name w =
     (case api_get api KindStatefulSet ns name w of
        Inl ApiNotFound \<Rightarrow> Inr None
      | Inl e \<Rightarrow> Inl (Wrapf (''get statefulset '' @ ns @ ''/'' @ name) (api_error e))
      | Inr ss \<Rightarrow> Inr (Some ss))"

definition DeletePVC :: "'w kube_api \<Rightarrow> string \<Rightarrow> string \<Rightarrow> ('w, unit) act" where
  "DeletePVC api ns name = wrapA (''delete pvc '' @ ns @ ''/'' @ name) (call_ignoring (api_delete api KindPVC ns name))"

definition DeleteByName :: "'w kube_api \<Rightarrow> string \<Rightarrow> string \<Rightarrow> ('w, unit) act" where
  "DeleteByName api ns name =
     thenA (wrapA (''delete deployment/'' @ name) (call_ignoring (api_delete api KindDeployment ns name)))
     (thenA (wrapA (''delete statefulset/'' @ name) (call_ignoring (api_delete api KindStatefulSet ns name)))
        (wrapA (''delete service/'' @ name) (call_ignoring (api_delete api KindService ns name))))"

definition DeleteCronByName :: "'w kube_api \<Rightarrow> string \<Rightarrow> string \<Rightarrow> ('w, unit) act" where
  "DeleteCronByName api ns name = wrapA (''delete cronjob/'' @ name) (call_ignoring (api_delete api KindCronJob ns name))"

definition CreateJobFromCronJob :: "'w kube_api \<Rightarrow> string \<Rightarrow> string \<Rightarrow> string \<Rightarrow> ('w, unit) act" where
  "CreateJobFromCronJob api ns cronName jobName w =
     (case api_get api KindCronJob ns cronName w of
        Inl e \<Rightarrow> (Inl (Wrapf (''get cronjob/'' @ cronName) (api_error e)), w)
      | Inr cron \<Rightarrow>
          (case ko_body cron of
             CronJobBody _ _ jobLabels job \<Rightarrow>
               wrapA (''create job/'' @ jobName @ '' from cronjob/'' @ cronName)
                 (call (api_create api KindJob ns
                    ((kobj_of jobName ns jobLabels (JobBody job))
                       \<lparr>ko_annotations := [(''cronjob.kubernetes.io/instantiate'', ''manual'')],
                        ko_owner_refs := [(''CronJob'', ko_name cron, ko_uid cron)]\<rparr>))) w
           | _ \<Rightarrow> (Inl (Errorf ''get cronjob'' [cronName]), w)))"

end
