(* ===== verification/KubeServer.thy ===== *)
theory KubeServer
  imports Kube
begin

text \<open>
  What the program relies on about the API server (\<open>kube_server\<close>), what the client operations of
  \<open>Kube\<close> guarantee on any such server, and an in-memory server that satisfies the laws: the
  counterpart of client-go's fake clientset, which the tests of the repository run on.
\<close>

section \<open>The store behind the server\<close>

text \<open>
  The part of an object that the server stores as it was sent; its defaults, versions, addresses and
  statuses are left out, so that controllers may change them at any time.
\<close>

record kcore =
  kc_labels :: "string \<Rightarrow> string option"
  kc_data :: "string \<Rightarrow> string option"
  kc_images :: "string list"
  kc_ports :: "32 word list"
  kc_node :: "string \<Rightarrow> string option"

fun data_of :: "kbody \<Rightarrow> string gomap" where
  "data_of (SecretBody _ d) = d"
| "data_of (ConfigMapBody d) = d"
| "data_of _ = []"

fun ports_of :: "kbody \<Rightarrow> 32 word list" where
  "ports_of (ServiceBody s) = map sp_port (ks_ports s)"
| "ports_of _ = []"

fun node_of :: "kbody \<Rightarrow> string gomap" where
  "node_of (DeploymentBody _ _ _ t) = ps_node_selector (pt_spec t)"
| "node_of (StatefulSetBody _ _ _ t) = ps_node_selector (pt_spec t)"
| "node_of (CronJobBody _ _ _ j) = ps_node_selector (pt_spec (js_template j))"
| "node_of (JobBody j) = ps_node_selector (pt_spec (js_template j))"
| "node_of _ = []"

definition core :: "kobj \<Rightarrow> kcore" where
  "core o' = \<lparr>kc_labels = map_of (ko_labels o'), kc_data = map_of (data_of (ko_body o')),
     kc_images = images_of (ko_body o'), kc_ports = ports_of (ko_body o'),
     kc_node = map_of (node_of (ko_body o'))\<rparr>"

type_synonym kkey = "kind \<times> string \<times> string"

text \<open>The documented loop of \<open>retry.RetryOnConflict\<close>, with \<open>n\<close> further attempts.\<close>

fun attempts :: "nat \<Rightarrow> ('s \<Rightarrow> (api_err + unit) \<times> 's) \<Rightarrow> 's \<Rightarrow> (api_err + unit) \<times> 's" where
  "attempts 0 f s = f s"
| "attempts (Suc n) f s = (case f s of (r, s') \<Rightarrow> if r = Inl ApiConflict then attempts n f s' else (r, s'))"

locale kube_server =
  fixes api :: "'w kube_api"
    and store :: "'w \<Rightarrow> kkey \<Rightarrow> kcore option"
  assumes get_found: "api_get api k ns n w = Inr o' \<Longrightarrow>
      store w (k, ns, n) = Some (core o') \<and> ko_name o' = n \<and> ko_kind o' = k"
    and get_missing: "api_get api k ns n w = Inl ApiNotFound \<Longrightarrow> store w (k, ns, n) = None"
    and list_all: "api_list api k ns (l, v) w = Inr os \<Longrightarrow>
      (\<lambda>o'. (ko_name o', core o')) ` set os = {(n, c). store w (k, ns, n) = Some c \<and> kc_labels c l = Some v}"
    and create_ok: "api_create api k ns o' w = (Inr (), w') \<Longrightarrow> store w' (k, ns, ko_name o') = Some (core o')"
    and create_frame: "api_create api k ns o' w = (r, w') \<Longrightarrow> store w' key \<noteq> store w key \<Longrightarrow>
      key = (k, ns, ko_name o') \<and> store w' key = Some (core o')"
    and update_ok: "api_update api k ns o' w = (Inr (), w') \<Longrightarrow> store w' (k, ns, ko_name o') = Some (core o')"
    and update_frame: "api_update api k ns o' w = (r, w') \<Longrightarrow> store w' key \<noteq> store w key \<Longrightarrow>
      key = (k, ns, ko_name o') \<and> store w' key = Some (core o')"
    and delete_ok: "api_delete api k ns n w = (r, w') \<Longrightarrow> r = Inr () \<or> r = Inl ApiNotFound \<Longrightarrow> store w' (k, ns, n) = None"
    and delete_frame: "api_delete api k ns n w = (r, w') \<Longrightarrow> store w' key \<noteq> store w key \<Longrightarrow>
      key = (k, ns, n) \<and> store w' key = None"
    and retry: "\<exists>n. api_retry api f s = attempts n f s"

text \<open>The worlds that differ only in entries and values that \<open>P\<close> allows.\<close>

definition changes :: "('w \<Rightarrow> kkey \<Rightarrow> kcore option) \<Rightarrow> (kkey \<Rightarrow> kcore option \<Rightarrow> bool) \<Rightarrow> 'w \<Rightarrow> 'w \<Rightarrow> bool" where
  "changes store P w w' \<longleftrightarrow> (\<forall>key. store w' key = store w key \<or> P key (store w' key))"

interpretation change: step_relation "changes store P" for store P
  by unfold_locales (auto simp: changes_def, metis)

lemma changes_mono: "changes store P w w' \<Longrightarrow> (\<And>key v. P key v \<Longrightarrow> Q key v) \<Longrightarrow> changes store Q w w'"
  unfolding changes_def by blast

lemma changes_other: "changes store P w w' \<Longrightarrow> (\<And>v. \<not> P key v) \<Longrightarrow> store w' key = store w key"
  unfolding changes_def by blast

text \<open>The worlds reached by deleting entries that \<open>P\<close> allows to delete.\<close>

definition removes :: "('w \<Rightarrow> kkey \<Rightarrow> kcore option) \<Rightarrow> (kkey \<Rightarrow> kcore \<Rightarrow> bool) \<Rightarrow> 'w \<Rightarrow> 'w \<Rightarrow> bool" where
  "removes store P w w' \<longleftrightarrow> (\<forall>key. store w' key = store w key \<or>
     store w' key = None \<and> (\<exists>c. store w key = Some c \<and> P key c))"

interpretation removal: step_relation "removes store P" for store P
  by unfold_locales (auto simp: removes_def, metis+)

lemma removes_mono: "removes store P w w' \<Longrightarrow> (\<And>key c. P key c \<Longrightarrow> Q key c) \<Longrightarrow> removes store Q w w'"
  unfolding removes_def by blast

text \<open>The entry that applying an object writes.\<close>

definition entry_key :: "string \<Rightarrow> kobj \<Rightarrow> kkey" where
  "entry_key ns o' = (ko_kind o', if ko_kind o' \<in> {KindNamespace, KindStorageClass} then [] else ns, ko_name o')"

lemma core_keep_live [simp]: "core (keep_live e t) = core t" "ko_name (keep_live e t) = ko_name t"
    "ko_kind (keep_live e t) = ko_kind t"
  by (auto simp: keep_live_def core_def Let_def images_of_def ko_kind_def split: kbody.split)

lemma keep_live_address:
  "ko_body e = ServiceBody live \<Longrightarrow> ko_body t = ServiceBody s \<Longrightarrow>
     ko_body (keep_live e t) = ServiceBody (s\<lparr>ks_cluster_ip := ks_cluster_ip live\<rparr>)"
  by (simp add: keep_live_def Let_def)

lemma stamp_simps [simp]:
  "ko_name (stamp ow o') = ko_name o'" "ko_kind (stamp ow o') = ko_kind o'" "ko_body (stamp ow o') = ko_body o'"
  "ko_namespace (stamp ow o') = ko_namespace o'" "entry_key ns (stamp ow o') = entry_key ns o'"
  by (simp_all add: stamp_def ko_kind_def entry_key_def)

lemma stamp_labels: "map_of (ko_labels (stamp ow o')) =
    (map_of (ko_labels o'))(LabelAppManagedBy \<mapsto> LabelManagedBy, LabelNvoiOwner \<mapsto> ow)"
  by (simp add: stamp_def update_conv')

lemma call_eq: "call f w = (r, w') \<longleftrightarrow> (\<exists>r'. f w = (r', w') \<and> r = map_sum api_error id r')"
  by (auto simp: call_def split: prod.splits)

lemma call_Inr: "call f w = (Inr u, w') \<longleftrightarrow> f w = (Inr (), w')"
  by (auto simp: call_def map_sum_def split: prod.splits sum.splits)

lemma call_ignoring_Inr: "call_ignoring f w = (Inr u, w') \<Longrightarrow> \<exists>r. f w = (r, w') \<and> (r = Inr () \<or> r = Inl ApiNotFound)"
  by (auto simp: call_ignoring_def IgnoreNotFound_def map_sum_def split: prod.splits sum.splits if_splits)

lemma snd_call [simp]: "snd (call f w) = snd (f w)" "snd (call_ignoring f w) = snd (f w)"
  by (auto simp: call_def call_ignoring_def split: prod.splits)

lemma put_all: "map_of (put_all kvs d) k = (case map_of (rev kvs) k of Some v \<Rightarrow> Some v | None \<Rightarrow> map_of d k)"
  by (induction kvs arbitrary: d) (auto simp: put_all_def update_conv' map_add_def split: option.splits)

lemma put_all_ok: "gomap_ok kvs \<Longrightarrow> map_of (put_all kvs d) k = (case map_of kvs k of Some v \<Rightarrow> Some v | None \<Rightarrow> map_of d k)"
proof -
  assume "gomap_ok kvs"
  then have "map_of (rev kvs) = map_of kvs"
    by (intro map_of_inject_set [THEN iffD2]) (auto simp: gomap_ok_def rev_map [symmetric])
  then show ?thesis by (simp add: put_all)
qed

section \<open>The client on any server\<close>

context kube_server
begin

lemma create_keeps: "P (k, ns, ko_name o') (Some (core o')) \<Longrightarrow> keeps (changes store P) (call (api_create api k ns o'))"
  unfolding keeps_def changes_def snd_call by (metis create_frame surjective_pairing)

lemma update_keeps: "P (k, ns, ko_name o') (Some (core o')) \<Longrightarrow> keeps (changes store P) (call (api_update api k ns o'))"
  unfolding keeps_def changes_def snd_call by (metis update_frame surjective_pairing)

lemma delete_keeps: "P (k, ns, n) None \<Longrightarrow> keeps (changes store P) (call_ignoring (api_delete api k ns n))"
  unfolding keeps_def changes_def snd_call by (metis delete_frame surjective_pairing)

lemma deleted: "call_ignoring (api_delete api k ns n) w = (Inr u, w') \<Longrightarrow> store w' (k, ns, n) = None"
  by (metis call_ignoring_Inr delete_ok)

text \<open>One turn of the retry loop, and all of them.\<close>

lemma upsert_step:
  assumes "upsert api k ns n (t, w) = (r, t', w')" "ko_name t = n"
  shows "core t' = core t \<and> ko_name t' = n \<and> ko_kind t' = ko_kind t \<and>
    changes store (\<lambda>key v. key = (k, ns, n) \<and> v = Some (core t)) w w' \<and>
    (r = Inr () \<longrightarrow> store w' (k, ns, n) = Some (core t))"
proof (cases "api_get api k ns n w")
  case (Inl e)
  show ?thesis
  proof (cases e)
    case ApiNotFound
    with assms Inl obtain r' where "api_create api k ns t w = (r', w')" "r = r'" "t' = t"
      by (auto simp: upsert_def split: prod.splits)
    with assms create_ok create_frame show ?thesis by (auto simp: changes_def)
  qed (use assms Inl in \<open>auto simp: upsert_def changes_def\<close>)
next
  case (Inr existing)
  let ?t = "keep_live existing t"
  from assms Inr obtain r' where "api_update api k ns ?t w = (r', w')" "r = r'" "t' = ?t"
    by (auto simp: upsert_def Let_def split: prod.splits)
  with assms update_ok [of k ns ?t w w'] update_frame [of k ns ?t w r' w'] show ?thesis by (auto simp: changes_def)
qed

lemma attempts_upsert:
  assumes "attempts m (upsert api k ns n) (t, w) = (r, t', w')" "ko_name t = n"
  shows "changes store (\<lambda>key v. key = (k, ns, n) \<and> v = Some (core t)) w w' \<and>
    (r = Inr () \<longrightarrow> store w' (k, ns, n) = Some (core t))"
  using assms
proof (induction m arbitrary: t w)
  case 0
  then show ?case by (auto dest!: upsert_step)
next
  case (Suc m)
  obtain r1 t1 w1 where step: "upsert api k ns n (t, w) = (r1, t1, w1)" by (metis prod_cases3)
  note facts = upsert_step [OF step Suc.prems(2)]
  show ?case
  proof (cases "r1 = Inl ApiConflict")
    case True
    with Suc.prems step have "attempts m (upsert api k ns n) (t1, w1) = (r, t', w')" by simp
    from Suc.IH [OF this] facts show ?thesis
      by (auto intro: change.trans)
  next
    case False
    with Suc.prems step facts show ?thesis by simp
  qed
qed

lemma applyTyped_spec:
  assumes "applyTyped api ns (ko_name t) t w = (r, w')"
  shows "changes store (\<lambda>key v. key = entry_key ns t \<and> v = Some (core t)) w w' \<and>
    (r = Inr () \<longrightarrow> store w' (entry_key ns t) =
       (if ko_kind t = KindPVC \<and> store w (entry_key ns t) \<noteq> None then store w (entry_key ns t) else Some (core t)))"
proof (cases "ko_kind t = KindPVC")
  case True
  then have key: "entry_key ns t = (KindPVC, ns, ko_name t)" by (simp add: entry_key_def)
  show ?thesis
  proof (cases "api_get api KindPVC ns (ko_name t) w")
    case (Inl e)
    show ?thesis
    proof (cases e)
      case ApiNotFound
      with assms True Inl have c: "call (api_create api KindPVC ns t) w = (r, w')" by (simp add: applyTyped_def Let_def)
      from c have "changes store (\<lambda>key v. key = entry_key ns t \<and> v = Some (core t)) w w'"
        by (rule keepsD [OF create_keeps, rotated]) (simp add: key)
      moreover have "store w (entry_key ns t) = None"
        using get_missing Inl ApiNotFound by (simp add: key)
      moreover have "store w' (entry_key ns t) = Some (core t)" if "r = Inr ()"
        using c that create_ok by (simp add: key call_Inr)
      ultimately show ?thesis by simp
    qed (use assms True Inl in \<open>auto simp: applyTyped_def Let_def changes_def\<close>)
  next
    case (Inr existing)
    with assms True get_found [OF Inr] show ?thesis by (auto simp: applyTyped_def Let_def changes_def key)
  qed
next
  case False
  obtain m where "api_retry api (upsert api (ko_kind t) (if ko_kind t \<in> {KindNamespace, KindStorageClass} then [] else ns) (ko_name t)) (t, w) =
      attempts m (upsert api (ko_kind t) (if ko_kind t \<in> {KindNamespace, KindStorageClass} then [] else ns) (ko_name t)) (t, w)"
    using retry by blast
  with False assms obtain r' t' where
    "attempts m (upsert api (ko_kind t) (if ko_kind t \<in> {KindNamespace, KindStorageClass} then [] else ns) (ko_name t)) (t, w) = (r', t', w')"
    "r = map_sum api_error id r'"
    unfolding applyTyped_def Let_def by (auto split: prod.splits)
  from attempts_upsert [OF this(1)] this(2) False show ?thesis
    by (cases r') (simp_all add: entry_key_def)
qed

lemma Apply_spec:
  assumes "Apply api ns t w = (r, w')"
  shows "changes store (\<lambda>key v. key = entry_key ns t \<and> v = Some (core t)) w w' \<and>
    (r = Inr () \<longrightarrow> store w' (entry_key ns t) =
       (if ko_kind t = KindPVC \<and> store w (entry_key ns t) \<noteq> None then store w (entry_key ns t) else Some (core t)))"
proof -
  let ?t = "if \<not> isClusterScoped (ko_kind t) \<and> ko_namespace t = [] \<and> ns \<noteq> [] then t\<lparr>ko_namespace := ns\<rparr> else t"
  have same: "core ?t = core t" "entry_key ns ?t = entry_key ns t" "ko_name ?t = ko_name t" "ko_kind ?t = ko_kind t"
    by (simp_all add: core_def entry_key_def ko_kind_def)
  show ?thesis
  proof (cases "ko_name t = [] \<or> ko_kind t \<notin> apply_kinds")
    case True
    with assms same show ?thesis
      by (auto simp: Apply_def Let_def changes_def failA_def split: if_splits)
  next
    case False
    with assms same obtain r1 where "applyTyped api ns (ko_name ?t) ?t w = (r1, w')" "r = Inr () \<longleftrightarrow> r1 = Inr ()"
      by (auto simp: Apply_def Let_def wrapA_def split: prod.splits sum.splits if_splits)
    with applyTyped_spec [of ns ?t w r1 w'] show ?thesis unfolding same by simp
  qed
qed

lemma ApplyOwned_spec:
  assumes "ApplyOwned api ns ow t w = (r, w')"
  shows "changes store (\<lambda>key v. key = entry_key ns t \<and> v = Some (core (stamp ow t))) w w' \<and>
    (r = Inr () \<longrightarrow> ow \<noteq> [] \<and> store w' (entry_key ns t) =
       (if ko_kind t = KindPVC \<and> store w (entry_key ns t) \<noteq> None then store w (entry_key ns t)
        else Some (core (stamp ow t))))"
  using assms Apply_spec [of ns "stamp ow t" w r w']
  by (auto simp: ApplyOwned_def changes_def split: if_splits)

end

text \<open>The secrets.\<close>

definition merged_data :: "kcore option \<Rightarrow> string gomap \<Rightarrow> string \<Rightarrow> string option" where
  "merged_data old kvs = (case old of None \<Rightarrow> map_of kvs | Some c \<Rightarrow> kc_data c ++ map_of kvs)"

definition owned_by :: "string \<Rightarrow> kcore \<Rightarrow> bool" where
  "owned_by owner c \<longleftrightarrow> kc_labels c LabelNvoiOwner = Some owner"

lemma labels_distinct [simp]: "LabelNvoiOwner \<noteq> LabelAppManagedBy" "LabelAppManagedBy \<noteq> LabelNvoiOwner"
  by (simp_all add: LabelNvoiOwner_def LabelAppManagedBy_def)

lemma owned_stamp [simp]: "owned_by ow (core (stamp ow o'))"
  by (simp add: owned_by_def core_def stamp_labels)

lemma secret_data_core: "ko_kind o' = KindSecret \<Longrightarrow> map_of (secret_data o') = kc_data (core o')"
  by (cases "ko_body o'") (auto simp: ko_kind_def secret_data_def core_def)

lemma with_secret_data_simps [simp]:
  "ko_name (with_secret_data d o') = ko_name o'" "ko_kind (with_secret_data d o') = ko_kind o'"
  "ko_labels (with_secret_data d o') = ko_labels o'"
  "ko_kind o' = KindSecret \<Longrightarrow> data_of (ko_body (with_secret_data d o')) = d"
  by (cases "ko_body o'"; simp add: with_secret_data_def ko_kind_def)+

context kube_server
begin

lemma EnsureSecret_spec:
  assumes "EnsureSecret api ns owner name kvs w = (r, w')" "gomap_ok kvs"
  shows "changes store (\<lambda>key v. key = (KindSecret, ns, name) \<and> (\<exists>c. v = Some c \<and> owned_by owner c \<and>
      kc_data c = merged_data (store w (KindSecret, ns, name)) kvs)) w w' \<and>
    (r = Inr () \<longrightarrow> (\<exists>c. store w' (KindSecret, ns, name) = Some c \<and> owned_by owner c \<and>
      kc_data c = merged_data (store w (KindSecret, ns, name)) kvs))"
proof -
  let ?key = "(KindSecret, ns, name)"
  let ?P = "\<lambda>key v. key = ?key \<and> (\<exists>c. v = Some c \<and> owned_by owner c \<and> kc_data c = merged_data (store w ?key) kvs)"
  consider "owner = []"
    | e where "owner \<noteq> []" "api_get api KindSecret ns name w = Inl e" "e \<noteq> ApiNotFound"
    | "owner \<noteq> []" "api_get api KindSecret ns name w = Inl ApiNotFound"
    | existing where "owner \<noteq> []" "api_get api KindSecret ns name w = Inr existing"
    by (cases "api_get api KindSecret ns name w") blast+
  then show ?thesis
  proof cases
    case 1
    with assms show ?thesis by (auto simp: EnsureSecret_def changes_def)
  next
    case (2 e)
    with assms show ?thesis by (cases e) (auto simp: EnsureSecret_def changes_def)
  next
    case 3
    let ?o = "kobj_of name ns [(LabelAppManagedBy, LabelManagedBy), (LabelNvoiOwner, owner)]
        (SecretBody ''Opaque'' (put_all kvs []))"
    have o: "owned_by owner (core ?o) \<and> kc_data (core ?o) = merged_data (store w ?key) kvs \<and> ko_name ?o = name"
      using get_missing [OF 3(2)] put_all_ok [OF assms(2)]
      by (auto simp: owned_by_def core_def merged_data_def fun_eq_iff split: option.split)
    have "wrapA (secret_ctx ''create'' ns name) (call (api_create api KindSecret ns ?o)) w = (r, w')"
      using 3 assms by (simp add: EnsureSecret_def)
    moreover from this have "changes store ?P w w'"
      by (rule keepsD [OF change.wrap [OF create_keeps], rotated]) (use o in simp)
    ultimately show ?thesis using o create_ok [of KindSecret ns ?o w w'] by (auto simp: call_Inr)
  next
    case (4 existing)
    let ?o = "stamp owner (with_secret_data (put_all kvs (secret_data existing)) existing)"
    note found = get_found [OF 4(2)]
    have o: "owned_by owner (core ?o) \<and> kc_data (core ?o) = merged_data (store w ?key) kvs \<and> ko_name ?o = name"
    proof (intro conjI)
      have "kc_data (core ?o) = map_of (put_all kvs (secret_data existing))"
        using found by (simp add: core_def)
      also have "\<dots> = merged_data (store w ?key) kvs"
        using found put_all_ok [OF assms(2)] secret_data_core [of existing]
        by (auto simp: merged_data_def map_add_def fun_eq_iff split: option.split)
      finally show "kc_data (core ?o) = merged_data (store w ?key) kvs" .
    qed (use found in simp_all)
    have "wrapA (secret_ctx ''update'' ns name) (call (api_update api KindSecret ns ?o)) w = (r, w')"
      using 4 assms by (simp add: EnsureSecret_def)
    moreover from this have "changes store ?P w w'"
      by (rule keepsD [OF change.wrap [OF update_keeps], rotated]) (use o in simp)
    ultimately show ?thesis using o update_ok [of KindSecret ns ?o w w'] by (auto simp: call_Inr)
  qed
qed

lemma DeleteSecret_spec:
  assumes "DeleteSecret api ns name w = (r, w')"
  shows "changes store (\<lambda>key v. key = (KindSecret, ns, name) \<and> v = None) w w' \<and>
    (r = Inr () \<longrightarrow> store w' (KindSecret, ns, name) = None)"
  using assms keepsD [OF change.wrap [OF delete_keeps], of "\<lambda>key v. key = (KindSecret, ns, name) \<and> v = None"]
  by (auto simp: DeleteSecret_def dest: deleted)

lemma DeleteSecretKey_spec:
  assumes "DeleteSecretKey api ns name key w = (r, w')"
  shows "changes store (\<lambda>k v. k = (KindSecret, ns, name) \<and> (\<exists>c. store w k = Some c \<and>
      v = Some (c\<lparr>kc_data := (kc_data c)(key := None)\<rparr>))) w w' \<and>
    (r = Inr () \<longrightarrow> (\<forall>c. store w' (KindSecret, ns, name) = Some c \<longrightarrow> kc_data c key = None))"
proof (cases "api_get api KindSecret ns name w")
  case (Inl e)
  with assms get_missing [of KindSecret ns name w] show ?thesis
    by (cases e) (auto simp: DeleteSecretKey_def changes_def)
next
  case (Inr secret)
  note found = get_found [OF Inr]
  let ?o = "with_secret_data (AList.delete key (secret_data secret)) secret"
  show ?thesis
  proof (cases "has_key (secret_data secret) key")
    case False
    with assms Inr found secret_data_core [of secret] show ?thesis
      by (auto simp: DeleteSecretKey_def changes_def has_key_def)
  next
    case True
    from found obtain t d where b: "ko_body secret = SecretBody t d"
      by (cases "ko_body secret") (auto simp: ko_kind_def)
    have o: "core ?o = (core secret)\<lparr>kc_data := (kc_data (core secret))(key := None)\<rparr> \<and> ko_name ?o = name"
      using found by (simp add: core_def with_secret_data_def secret_data_def b images_of_def delete_conv')
    have c: "wrapA (''delete key '' @ key @ '' from secret '' @ ns @ ''/'' @ name) (call (api_update api KindSecret ns ?o)) w = (r, w')"
      using assms Inr True by (simp add: DeleteSecretKey_def)
    then have "changes store (\<lambda>k v. k = (KindSecret, ns, name) \<and> (\<exists>c. store w k = Some c \<and>
      v = Some (c\<lparr>kc_data := (kc_data c)(key := None)\<rparr>))) w w'"
      by (rule keepsD [OF change.wrap [OF update_keeps], rotated]) (use o found in simp)
    with c o update_ok [of KindSecret ns ?o w w'] show ?thesis by (auto simp: call_Inr)
  qed
qed

lemma sweep_loop:
  assumes "forA (\<lambda>item. if ko_name item \<in> D then retA ()
      else wrapA (c item) (call_ignoring (api_delete api k ns (ko_name item)))) items w = (r, w')"
  shows "changes store (\<lambda>key v. v = None \<and> (\<exists>n \<in> ko_name ` set items. key = (k, ns, n) \<and> n \<notin> D)) w w' \<and>
    (r = Inr () \<longrightarrow> (\<forall>n \<in> ko_name ` set items. n \<in> D \<or> store w' (k, ns, n) = None))"
proof (intro conjI impI)
  show "changes store (\<lambda>key v. v = None \<and> (\<exists>n \<in> ko_name ` set items. key = (k, ns, n) \<and> n \<notin> D)) w w'"
    using assms by (rule keepsD [rotated]) (auto intro!: change.loop change.ret change.wrap delete_keeps)
next
  assume r: "r = Inr ()"
  show "\<forall>n \<in> ko_name ` set items. n \<in> D \<or> store w' (k, ns, n) = None"
    using assms [unfolded r]
  proof (induction items arbitrary: w)
    case (Cons i items)
    let ?f = "\<lambda>item. if ko_name item \<in> D then retA () else wrapA (c item) (call_ignoring (api_delete api k ns (ko_name item)))"
    from Cons.prems obtain w1 where w1: "?f i w = (Inr (), w1)" "forA ?f items w1 = (Inr (), w')"
      by (auto simp: thenA_Inr)
    have "changes store (\<lambda>key v. v = None) w1 w'"
      using w1(2) by (rule keepsD [rotated]) (auto intro!: change.loop change.ret change.wrap delete_keeps)
    then have "store w' (k, ns, ko_name i) = None" if "store w1 (k, ns, ko_name i) = None"
      using that unfolding changes_def by metis
    moreover have "ko_name i \<in> D \<or> store w1 (k, ns, ko_name i) = None"
      using w1(1) by (auto split: if_splits dest: deleted)
    ultimately show ?case using Cons.IH [OF w1(2)] by auto
  qed simp
qed

lemma SweepOwned_spec:
  assumes "SweepOwned api ns owner k desired w = (r, w')"
  shows "changes store (\<lambda>key v. v = None \<and> (\<exists>n c. key = (k, ns, n) \<and> n \<notin> set desired \<and>
      store w key = Some c \<and> owned_by owner c)) w w' \<and>
    (r = Inr () \<longrightarrow> (\<forall>n c. store w' (k, ns, n) = Some c \<and> owned_by owner c \<longrightarrow> n \<in> set desired))"
proof (cases "owner = [] \<or> sweep_nouns k = None \<or> (\<exists>e. api_list api k ns (LabelNvoiOwner, owner) w = Inl e)")
  case True
  with assms have "w' = w \<and> r \<noteq> Inr ()" by (auto simp: SweepOwned_def split: prod.splits option.splits if_splits)
  then show ?thesis by (simp add: changes_def)
next
  case False
  then obtain p items where *: "owner \<noteq> []" "sweep_nouns k = Some p" "api_list api k ns (LabelNvoiOwner, owner) w = Inr items"
    by (cases "api_list api k ns (LabelNvoiOwner, owner) w") auto
  have listed: "n \<in> ko_name ` set items \<longleftrightarrow> (\<exists>c. store w (k, ns, n) = Some c \<and> owned_by owner c)" for n
  proof -
    have "n \<in> ko_name ` set items \<longleftrightarrow> (\<exists>c. (n, c) \<in> (\<lambda>o'. (ko_name o', core o')) ` set items)" by auto
    then show ?thesis unfolding list_all [OF *(3)] by (simp add: owned_by_def)
  qed
  from * assms have "forA (\<lambda>item. if ko_name item \<in> set desired then retA ()
      else wrapA (''sweep delete '' @ snd p @ ''/'' @ ko_name item) (call_ignoring (api_delete api k ns (ko_name item)))) items w = (r, w')"
    by (auto simp: SweepOwned_def case_prod_unfold)
  note loop = sweep_loop [OF this]
  then have "changes store (\<lambda>key v. v = None \<and> (\<exists>n c. key = (k, ns, n) \<and> n \<notin> set desired \<and>
      store w key = Some c \<and> owned_by owner c)) w w'"
    by (elim conjE changes_mono) (use listed in blast)
  moreover have "n \<in> set desired" if "r = Inr ()" "store w' (k, ns, n) = Some c" "owned_by owner c" for n c
  proof -
    from loop have "store w' (k, ns, n) = store w (k, ns, n)"
      using that(2) unfolding changes_def by (metis option.distinct(1))
    with that listed have "n \<in> ko_name ` set items" by auto
    with loop that show ?thesis by fastforce
  qed
  ultimately show ?thesis by blast
qed

lemma SweepOwned_removes:
  "keeps (removes store (\<lambda>key c. \<exists>n. key = (k, ns, n) \<and> n \<notin> set desired \<and> owned_by owner c)) (SweepOwned api ns owner k desired)"
  unfolding keeps_def removes_def
proof (intro allI)
  fix w key
  obtain r w' where "SweepOwned api ns owner k desired w = (r, w')" by fastforce
  with SweepOwned_spec [OF this] show "store (snd (SweepOwned api ns owner k desired w)) key = store w key \<or>
      store (snd (SweepOwned api ns owner k desired w)) key = None \<and>
      (\<exists>c. store w key = Some c \<and> (\<exists>n. key = (k, ns, n) \<and> n \<notin> set desired \<and> owned_by owner c))"
    unfolding changes_def by fastforce
qed

lemma ListOwned_spec:
  "ListOwned api ns owner k w = Inr ns' \<Longrightarrow> n \<in> set ns' \<longleftrightarrow> (\<exists>c. store w (k, ns, n) = Some c \<and> owned_by owner c)"
proof -
  assume "ListOwned api ns owner k w = Inr ns'"
  then obtain items where *: "api_list api k ns (LabelNvoiOwner, owner) w = Inr items" "ns' = map ko_name items"
    by (auto simp: ListOwned_def split: if_splits option.splits prod.splits sum.splits)
  have "n \<in> set ns' \<longleftrightarrow> (\<exists>c. (n, c) \<in> (\<lambda>o'. (ko_name o', core o')) ` set items)" by (auto simp: *)
  then show ?thesis unfolding list_all [OF *(1)] by (simp add: owned_by_def)
qed

lemma ListSecretKeys_spec:
  "ListSecretKeys api ns name w = Inr ks \<Longrightarrow>
     set ks = (case store w (KindSecret, ns, name) of None \<Rightarrow> {} | Some c \<Rightarrow> dom (kc_data c))"
  using get_found [of KindSecret ns name w] get_missing [of KindSecret ns name w]
  by (auto simp: ListSecretKeys_def dom_map_of_conv_image_fst secret_data_core [symmetric]
      split: sum.splits api_err.splits) (force simp: dom_map_of_conv_image_fst)+

lemma GetSecretValue_spec:
  "GetSecretValue api ns name key w = Inr v \<Longrightarrow>
     v \<noteq> [] \<and> (\<exists>c. store w (KindSecret, ns, name) = Some c \<and> kc_data c key = Some v)"
  using get_found [of KindSecret ns name w]
  by (auto simp: GetSecretValue_def secret_data_core [symmetric] split: sum.splits api_err.splits option.splits if_splits)

end

section \<open>An in-memory server\<close>

text \<open>
  A server that keeps its objects in a list, bumps a version on every write and refuses an update
  whose version is stale, as the real one does.
\<close>

record mem_world =
  mw_objects :: "kobj list"
  mw_version :: nat

definition obj_key :: "kobj \<Rightarrow> kkey" where
  "obj_key o' = (ko_kind o', ko_namespace o', ko_name o')"

definition mem_find :: "kkey \<Rightarrow> mem_world \<Rightarrow> kobj option" where
  "mem_find key w = find (\<lambda>o'. obj_key o' = key) (mw_objects w)"

definition mem_put :: "kobj \<Rightarrow> mem_world \<Rightarrow> mem_world" where
  "mem_put o' w =
     \<lparr>mw_objects = o'\<lparr>ko_resource_version := itoa_nat (mw_version w)\<rparr> # filter (\<lambda>p. obj_key p \<noteq> obj_key o') (mw_objects w),
      mw_version = Suc (mw_version w)\<rparr>"

definition mem_delete :: "kkey \<Rightarrow> mem_world \<Rightarrow> mem_world" where
  "mem_delete key w = w\<lparr>mw_objects := filter (\<lambda>p. obj_key p \<noteq> key) (mw_objects w), mw_version := Suc (mw_version w)\<rparr>"

definition mem_api :: "mem_world kube_api" where
  "mem_api =
     \<lparr>api_get = (\<lambda>k ns n w. case mem_find (k, ns, n) w of None \<Rightarrow> Inl ApiNotFound | Some o' \<Rightarrow> Inr o'),
      api_list = (\<lambda>k ns (l, v) w. Inr (filter (\<lambda>o'. ko_kind o' = k \<and> ko_namespace o' = ns \<and>
         mem_find (obj_key o') w = Some o' \<and> map_of (ko_labels o') l = Some v) (mw_objects w))),
      api_create = (\<lambda>k ns o' w.
        if obj_key o' \<noteq> (k, ns, ko_name o') then (Inl (ApiErr ''namespace or kind mismatch''), w)
        else if mem_find (obj_key o') w \<noteq> None then (Inl (ApiErr ''already exists''), w)
        else (Inr (), mem_put o' w)),
      api_update = (\<lambda>k ns o' w.
        if obj_key o' \<noteq> (k, ns, ko_name o') then (Inl (ApiErr ''namespace or kind mismatch''), w)
        else (case mem_find (obj_key o') w of
           None \<Rightarrow> (Inl ApiNotFound, w)
         | Some live \<Rightarrow>
             if ko_resource_version o' \<noteq> [] \<and> ko_resource_version o' \<noteq> ko_resource_version live
             then (Inl ApiConflict, w) else (Inr (), mem_put o' w))),
      api_delete = (\<lambda>k ns n w.
        if mem_find (k, ns, n) w = None then (Inl ApiNotFound, w) else (Inr (), mem_delete (k, ns, n) w)),
      api_retry = attempts 4\<rparr>"

definition mem_store :: "mem_world \<Rightarrow> kkey \<Rightarrow> kcore option" where
  "mem_store w key = map_option core (mem_find key w)"

lemma find_filter_key:
  "find (\<lambda>x. f x = key) (filter (\<lambda>x. f x \<noteq> key') xs) = (if key = key' then None else find (\<lambda>x. f x = key) xs)"
  by (induction xs) auto

lemma mem_find_put: "mem_find key (mem_put o' w) =
    (if key = obj_key o' then Some (o'\<lparr>ko_resource_version := itoa_nat (mw_version w)\<rparr>) else mem_find key w)"
proof -
  have "obj_key (o'\<lparr>ko_resource_version := v\<rparr>) = obj_key o'" for v by (simp add: obj_key_def ko_kind_def)
  then show ?thesis by (auto simp: mem_find_def mem_put_def find_filter_key)
qed

lemma mem_find_delete: "mem_find key (mem_delete key' w) = (if key = key' then None else mem_find key w)"
  by (auto simp: mem_find_def mem_delete_def find_filter_key)

lemma mem_find_Some: "mem_find key w = Some o' \<Longrightarrow> obj_key o' = key \<and> o' \<in> set (mw_objects w)"
  by (auto simp: mem_find_def find_Some_iff)

lemma core_version [simp]: "core (o'\<lparr>ko_resource_version := v\<rparr>) = core o'"
  by (simp add: core_def)

interpretation mem: kube_server mem_api mem_store
proof
  fix k ns n l v w o' os r w' key
  show "api_get mem_api k ns n w = Inr o' \<Longrightarrow> mem_store w (k, ns, n) = Some (core o') \<and> ko_name o' = n \<and> ko_kind o' = k"
    by (auto simp: mem_api_def mem_store_def obj_key_def dest: mem_find_Some split: option.splits)
  show "api_get mem_api k ns n w = Inl ApiNotFound \<Longrightarrow> mem_store w (k, ns, n) = None"
    by (auto simp: mem_api_def mem_store_def split: option.splits)
  assume "api_list mem_api k ns (l, v) w = Inr os"
  then have os: "os = filter (\<lambda>o'. ko_kind o' = k \<and> ko_namespace o' = ns \<and>
         mem_find (obj_key o') w = Some o' \<and> map_of (ko_labels o') l = Some v) (mw_objects w)"
    by (simp add: mem_api_def)
  show "(\<lambda>o'. (ko_name o', core o')) ` set os = {(n, c). mem_store w (k, ns, n) = Some c \<and> kc_labels c l = Some v}"
  proof (rule set_eqI, clarify)
    fix n c
    have "(n, c) \<in> (\<lambda>o'. (ko_name o', core o')) ` set os \<longleftrightarrow>
        (\<exists>o'. mem_find (k, ns, n) w = Some o' \<and> c = core o' \<and> map_of (ko_labels o') l = Some v)"
    proof
      assume "\<exists>o'. mem_find (k, ns, n) w = Some o' \<and> c = core o' \<and> map_of (ko_labels o') l = Some v"
      then obtain o' where o': "mem_find (k, ns, n) w = Some o'" "c = core o'" "map_of (ko_labels o') l = Some v" by blast
      with mem_find_Some [OF o'(1)] have "o' \<in> set os" "ko_name o' = n" by (auto simp: os obj_key_def)
      with o' show "(n, c) \<in> (\<lambda>o'. (ko_name o', core o')) ` set os" by blast
    qed (auto simp: os obj_key_def)
    then show "(n, c) \<in> (\<lambda>o'. (ko_name o', core o')) ` set os \<longleftrightarrow>
        (n, c) \<in> {(n, c). mem_store w (k, ns, n) = Some c \<and> kc_labels c l = Some v}"
      by (auto simp: mem_store_def core_def)
  qed
next
  fix k ns n w o' r w' key
  show "api_create mem_api k ns o' w = (Inr (), w') \<Longrightarrow> mem_store w' (k, ns, ko_name o') = Some (core o')"
    and "api_create mem_api k ns o' w = (r, w') \<Longrightarrow> mem_store w' key \<noteq> mem_store w key \<Longrightarrow>
      key = (k, ns, ko_name o') \<and> mem_store w' key = Some (core o')"
    and "api_update mem_api k ns o' w = (Inr (), w') \<Longrightarrow> mem_store w' (k, ns, ko_name o') = Some (core o')"
    and "api_update mem_api k ns o' w = (r, w') \<Longrightarrow> mem_store w' key \<noteq> mem_store w key \<Longrightarrow>
      key = (k, ns, ko_name o') \<and> mem_store w' key = Some (core o')"
    by (auto simp: mem_api_def mem_store_def mem_find_put split: if_splits option.splits)
  show "api_delete mem_api k ns n w = (r, w') \<Longrightarrow> r = Inr () \<or> r = Inl ApiNotFound \<Longrightarrow> mem_store w' (k, ns, n) = None"
    and "api_delete mem_api k ns n w = (r, w') \<Longrightarrow> mem_store w' key \<noteq> mem_store w key \<Longrightarrow>
      key = (k, ns, n) \<and> mem_store w' key = None"
    by (auto simp: mem_api_def mem_store_def mem_find_delete split: if_splits)
next
  fix f :: "kobj \<times> mem_world \<Rightarrow> (api_err + unit) \<times> kobj \<times> mem_world" and s
  show "\<exists>n. api_retry mem_api f s = attempts n f s"
    by (auto simp: mem_api_def)
qed

section \<open>Properties of the client\<close>

text \<open>
  C10: applying an object as its owner writes that object and nothing else, whatever fails on the way
  and however often the update is retried; when it succeeds the server holds the object as
  built, labelled as managed by nvoi and owned by that owner. An existing claim is left alone.
\<close>

theorem apply_owned_writes_one_object:
  assumes "kube_server api store" "ApplyOwned api ns owner obj w = (r, w')"
  shows "(\<forall>key. store w' key \<noteq> store w key \<longrightarrow> key = entry_key ns obj \<and> store w' key = Some (core (stamp owner obj))) \<and>
    (r = Inr () \<longrightarrow> store w' (entry_key ns obj) =
       (if ko_kind obj = KindPVC \<and> store w (entry_key ns obj) \<noteq> None then store w (entry_key ns obj)
        else Some (core (stamp owner obj)))) \<and>
    map_of (ko_labels (stamp owner obj)) =
      (map_of (ko_labels obj))(LabelAppManagedBy \<mapsto> LabelManagedBy, LabelNvoiOwner \<mapsto> owner)"
  using kube_server.ApplyOwned_spec [OF assms] unfolding changes_def by (auto simp: stamp_labels)

definition demo_secret :: "string \<Rightarrow> string \<Rightarrow> kobj" where
  "demo_secret owner name =
     kobj_of name ''nvoi-shop-prod'' [(LabelAppManagedBy, LabelManagedBy), (LabelNvoiOwner, owner)]
       (SecretBody ''Opaque'' [(''TOKEN'', ''t'')])"

definition demo_world :: mem_world where
  "demo_world = \<lparr>mw_objects = [demo_secret ''services'' ''web-secrets'', demo_secret ''services'' ''old-secrets'',
     demo_secret ''databases'' ''nvoi-shop-prod-db-main-credentials''], mw_version = 7\<rparr>"

lemma demo_find:
  "mem_find (KindSecret, ''nvoi-shop-prod'', ''web-secrets'') demo_world = Some (demo_secret ''services'' ''web-secrets'')"
  "mem_find (KindSecret, ''nvoi-shop-prod'', ''old-secrets'') demo_world = Some (demo_secret ''services'' ''old-secrets'')"
  "mem_find (KindSecret, ''nvoi-shop-prod'', ''nvoi-shop-prod-db-main-credentials'') demo_world =
     Some (demo_secret ''databases'' ''nvoi-shop-prod-db-main-credentials'')"
  by (simp_all add: mem_find_def demo_world_def obj_key_def demo_secret_def)

lemma demo_core: "kc_data (core (demo_secret ow n)) = [''TOKEN'' \<mapsto> ''t'']"
  by (simp add: core_def demo_secret_def)

corollary apply_owned_writes_one_object_witness:
  "\<exists>w'. ApplyOwned mem_api ''nvoi-shop-prod'' ''services'' (demo_secret ''services'' ''web-secrets'') demo_world = (Inr (), w') \<and>
     mem_store w' (KindSecret, ''nvoi-shop-prod'', ''old-secrets'') =
     mem_store demo_world (KindSecret, ''nvoi-shop-prod'', ''old-secrets'')"
proof -
  let ?o = "demo_secret ''services'' ''web-secrets''"
  have "fst (ApplyOwned mem_api ''nvoi-shop-prod'' ''services'' ?o demo_world) = Inr ()"
    by code_simp
  then obtain w' where "ApplyOwned mem_api ''nvoi-shop-prod'' ''services'' ?o demo_world = (Inr (), w')"
    by (metis prod.collapse)
  with apply_owned_writes_one_object [OF mem.kube_server_axioms this] show ?thesis
    by (auto simp: entry_key_def demo_secret_def)
qed

text \<open>
  C1: a sweep deletes objects of its own kind and namespace only, and of those only the ones that
  carry its owner's label and are not desired, also when it fails half-way; when it succeeds no
  undesired object of the owner is left.
\<close>

theorem sweep_owned_isolated:
  assumes "kube_server api store" "SweepOwned api ns owner k desired w = (r, w')"
  shows "(\<forall>key. store w' key \<noteq> store w key \<longrightarrow> store w' key = None \<and>
       (\<exists>n c. key = (k, ns, n) \<and> n \<notin> set desired \<and> store w key = Some c \<and> owned_by owner c)) \<and>
    (r = Inr () \<longrightarrow> (\<forall>n c. store w' (k, ns, n) = Some c \<and> owned_by owner c \<longrightarrow> n \<in> set desired))"
  using kube_server.SweepOwned_spec [OF assms] unfolding changes_def by metis

corollary sweep_owned_isolated_witness:
  "\<exists>w'. SweepOwned mem_api ''nvoi-shop-prod'' ''services'' KindSecret [''web-secrets''] demo_world = (Inr (), w') \<and>
     mem_store w' (KindSecret, ''nvoi-shop-prod'', ''nvoi-shop-prod-db-main-credentials'') \<noteq> None"
proof -
  have "fst (SweepOwned mem_api ''nvoi-shop-prod'' ''services'' KindSecret [''web-secrets''] demo_world) = Inr ()"
    by code_simp
  then obtain w' where sweep: "SweepOwned mem_api ''nvoi-shop-prod'' ''services'' KindSecret [''web-secrets''] demo_world = (Inr (), w')"
    by (metis prod.collapse)
  let ?key = "(KindSecret, ''nvoi-shop-prod'', ''nvoi-shop-prod-db-main-credentials'')"
  have "\<not> owned_by ''services'' c" if "mem_store demo_world ?key = Some c" for c
    using that by (auto simp: mem_store_def demo_find owned_by_def core_def demo_secret_def)
  with sweep_owned_isolated [OF mem.kube_server_axioms sweep] have "mem_store w' ?key = mem_store demo_world ?key"
    by blast
  with sweep show ?thesis by (auto simp: mem_store_def demo_find)
qed

text \<open> \<open>EnsureSecret\<close> overwrites the given keys of one secret and keeps its other keys, and hands the
  secret to the owner; no other object changes, also on failure.
\<close>

theorem ensure_secret_merges:
  assumes "kube_server api store" "EnsureSecret api ns owner name kvs w = (r, w')" "gomap_ok kvs"
  shows "(\<forall>key. key \<noteq> (KindSecret, ns, name) \<longrightarrow> store w' key = store w key) \<and>
    (r = Inr () \<longrightarrow> (\<exists>c. store w' (KindSecret, ns, name) = Some c \<and> owned_by owner c \<and>
       (\<forall>k v. map_of kvs k = Some v \<longrightarrow> kc_data c k = Some v) \<and>
       (\<forall>k old. store w (KindSecret, ns, name) = Some old \<and> \<not> has_key kvs k \<longrightarrow> kc_data c k = kc_data old k) \<and>
       (\<forall>k. store w (KindSecret, ns, name) = None \<and> \<not> has_key kvs k \<longrightarrow> kc_data c k = None)))"
  using kube_server.EnsureSecret_spec [OF assms]
  by (cases "store w (KindSecret, ns, name)")
    (auto simp: changes_def merged_data_def map_add_def has_key_def split: option.splits)

corollary ensure_secret_merges_witness:
  "\<exists>w' c. EnsureSecret mem_api ''nvoi-shop-prod'' ''services'' ''web-secrets'' [(''URL'', ''u'')] demo_world = (Inr (), w') \<and>
     mem_store w' (KindSecret, ''nvoi-shop-prod'', ''web-secrets'') = Some c \<and>
     kc_data c ''URL'' = Some ''u'' \<and> kc_data c ''TOKEN'' = Some ''t''"
proof -
  have "fst (EnsureSecret mem_api ''nvoi-shop-prod'' ''services'' ''web-secrets'' [(''URL'', ''u'')] demo_world) = Inr ()"
    by code_simp
  then obtain w' where w': "EnsureSecret mem_api ''nvoi-shop-prod'' ''services'' ''web-secrets'' [(''URL'', ''u'')] demo_world = (Inr (), w')"
    by (metis prod.collapse)
  have "gomap_ok [(''URL'', ''u'')]" by (simp add: gomap_ok_def)
  from ensure_secret_merges [OF mem.kube_server_axioms w' this] w' show ?thesis
    by (auto simp: mem_store_def demo_find has_key_def demo_core)
qed

end
