(* ===== verification/Rollout.thy ===== *)
theory Rollout
  imports Kube
begin

text \<open>
  Waiting for a rollout: \<open>utils.Poll\<close> (\<open>pkg/utils/poll.go\<close>), \<open>hardFailReason\<close>, \<open>WaitRollout\<close> and
  \<open>verifyStability\<close> of \<open>pkg/kube/rollout.go\<close>, and the pod summary of \<open>pkg/kube/pods.go\<close>. The clock,
  the cancellation of the context and the pods are read from the world. The progress line is a function of
  its own (\<open>rollout_status\<close>); the wait does not emit it, and errors do not quote logs and events.
\<close>

section \<open>Pods\<close>

record container_status =
  cst_ready :: bool
  cst_restarts :: int
  cst_waiting :: "(string \<times> string) option"
  cst_terminated :: "(string \<times> int) option"
  cst_running :: bool

record pod =
  pod_name :: string
  pod_phase :: string
  pod_conditions :: "(string \<times> string \<times> string \<times> string) list"
  pod_statuses :: "container_status list"

text \<open>
  The world as the waiting code sees it: the pods behind a service's label, the clock in seconds and
  a sleep that ends early when the context is cancelled.
\<close>

record 'w runtime =
  rt_pods :: "string \<Rightarrow> string \<Rightarrow> 'w \<Rightarrow> api_err + pod list"
  rt_now :: "'w \<Rightarrow> int"
  rt_cancelled :: "'w \<Rightarrow> goerr option"
  rt_sleep :: "int \<Rightarrow> 'w \<Rightarrow> goerr option \<times> 'w"

definition unschedulable :: "pod \<Rightarrow> string option" where
  "unschedulable p = map_option (\<lambda>(_, _, _, message). message)
     (find (\<lambda>(t, status, reason, _). t = ''PodScheduled'' \<and> status = ''False'' \<and> reason = ''Unschedulable'') (pod_conditions p))"

definition unrecoverable_reasons :: "string list" where
  "unrecoverable_reasons = [''ImagePullBackOff'', ''ErrImagePull'', ''InvalidImageName'', ''ErrImageNeverPull'',
     ''CreateContainerConfigError'']"

definition oom_killed :: "container_status \<Rightarrow> bool" where
  "oom_killed cs \<longleftrightarrow> map_option fst (cst_terminated cs) = Some ''OOMKilled''"

definition status_failure :: "container_status \<Rightarrow> string option" where
  "status_failure cs =
     first_err
       [case cst_waiting cs of
          Some (reason, message) \<Rightarrow> if reason \<in> set unrecoverable_reasons then Some (reason @ '' - '' @ message) else None
        | None \<Rightarrow> None,
        if oom_killed cs then Some ''OOMKilled - container ran out of memory'' else None]"

definition hardFailReason :: "pod \<Rightarrow> string option" where
  "hardFailReason p =
     (case unschedulable p of
        Some message \<Rightarrow> Some (''pod unschedulable '' @ pod_name p @ '' - '' @ message)
      | None \<Rightarrow> first_err (map status_failure (pod_statuses p)))"

definition restarts :: "pod \<Rightarrow> int" where
  "restarts p = sum_list (map cst_restarts (pod_statuses p))"

text \<open>A pod that the poll counts as ready.\<close>

definition pod_counts :: "pod \<Rightarrow> bool" where
  "pod_counts p \<longleftrightarrow> pod_phase p = ''Succeeded'' \<or>
     pod_phase p = ''Running'' \<and> (\<forall>cs \<in> set (pod_statuses p). cst_ready cs)"

text \<open>\<open>podReady\<close> of \<open>diagnostics.go\<close> and \<open>summarizePod\<close> of \<open>pods.go\<close>.\<close>

definition podReady :: "pod \<Rightarrow> bool" where
  "podReady p \<longleftrightarrow> (pod_phase p = ''Running'' \<or> pod_phase p = ''Succeeded'') \<and> pod_statuses p \<noteq> [] \<and>
     (\<forall>cs \<in> set (pod_statuses p). cst_ready cs)"

record pod_info =
  pi_name :: string
  pi_ready :: bool
  pi_status :: string

definition status_reason :: "string \<Rightarrow> container_status \<Rightarrow> string" where
  "status_reason status cs =
     (let s = (case cst_waiting cs of Some (reason, _) \<Rightarrow> if reason \<noteq> [] then reason else status | None \<Rightarrow> status)
      in (case cst_terminated cs of Some (reason, _) \<Rightarrow> if reason \<noteq> [] then reason else s | None \<Rightarrow> s))"

definition summarizePod :: "pod \<Rightarrow> pod_info" where
  "summarizePod p =
     (let allReady = pod_statuses p \<noteq> [] \<and> (\<forall>cs \<in> set (pod_statuses p). cst_ready cs);
          status = foldl status_reason (pod_phase p) (pod_statuses p)
      in if allReady \<and> pod_phase p = ''Running''
         then \<lparr>pi_name = pod_name p, pi_ready = True, pi_status = ''Running''\<rparr>
         else \<lparr>pi_name = pod_name p, pi_ready = False, pi_status = status\<rparr>)"

text \<open>The states that the progress line of the wait lists, and the line itself.\<close>

definition container_states :: "container_status \<Rightarrow> string list" where
  "container_states cs =
     (if cst_ready cs then []
      else (case cst_waiting cs of
          Some (reason, _) \<Rightarrow>
            if reason = [] then []
            else if reason = ''CrashLoopBackOff'' \<and> cst_restarts cs > 0
            then [''CrashLoopBackOff (restarts: '' @ itoa (cst_restarts cs) @ '')'']
            else [reason]
        | None \<Rightarrow> [])
       @ (case cst_terminated cs of
          Some (reason, code) \<Rightarrow> [(if reason = [] then ''Error'' else reason) @ '' exit='' @ itoa code]
        | None \<Rightarrow> [])
       @ (if cst_running cs then [''probe failing''] else []))"

definition pod_states :: "pod \<Rightarrow> string list" where
  "pod_states p =
     (if pod_phase p = ''Succeeded'' then []
      else concat (map container_states (pod_statuses p))
        @ (if pod_phase p = ''Pending'' \<and> pod_statuses p = [] then [''Scheduling''] else []))"

definition dedup :: "string list \<Rightarrow> string list" where
  "dedup ss = foldl (\<lambda>out s. if s \<in> set out then out else out @ [s]) [] ss"

fun detail_first :: "string \<Rightarrow> string list \<Rightarrow> string list" where
  "detail_first detail [] = []"
| "detail_first detail (s # ss) =
     (if s = ''probe failing'' then (''probe failing: '' @ detail) # ss else s # detail_first detail ss)"

definition rollout_status :: "string \<Rightarrow> pod list \<Rightarrow> string" where
  "rollout_status detail pods =
     (let ready = length (filter pod_counts pods);
          found = concat (map pod_states pods);
          states = (if detail \<noteq> [] then detail_first detail found else found)
      in itoa (int ready) @ ''/'' @ itoa (int (length pods)) @ '' ready''
         @ (if states \<noteq> [] then '' ('' @ join '', '' (dedup states) @ '')'' else []))"

definition truncate :: "string \<Rightarrow> nat \<Rightarrow> string" where
  "truncate s n = (if length s \<le> n then s else take n s @ ''...'')"

definition indent :: "string \<Rightarrow> string \<Rightarrow> string" where
  "indent s prefix = join [CHR 0x0A] (map (\<lambda>l. prefix @ l) (split_on (CHR 0x0A) s))"

text \<open>
  The message of \<open>timeoutDiagnostics\<close>, given the pods it listed (none when the listing failed), the
  warning events of each pod with their counts, and the logs. A dash stands for the long one.
\<close>

definition newline :: string where "newline = [CHR 0x0A]"

definition container_diagnosis :: "container_status \<Rightarrow> string" where
  "container_diagnosis cs =
     (if cst_ready cs then []
      else (if cst_running cs then newline @ ''  running but not ready - readiness probe failing''
            else (case cst_waiting cs of
                Some (reason, message) \<Rightarrow>
                  newline @ ''  waiting: '' @ reason @ (if message \<noteq> [] then '' - '' @ message else [])
              | None \<Rightarrow>
                  (case cst_terminated cs of
                     Some (reason, code) \<Rightarrow>
                       newline @ ''  terminated: exit '' @ itoa code @ (if reason \<noteq> [] then '' ('' @ reason @ '')'' else [])
                   | None \<Rightarrow> [])))
        @ (if cst_restarts cs > 0 then newline @ ''  restarts: '' @ itoa (cst_restarts cs) else []))"

definition event_line :: "string \<times> int \<Rightarrow> string" where
  "event_line ev = (case ev of (msg, n) \<Rightarrow>
     newline @ ''  event: '' @ msg @ (if n > 1 then '' (x'' @ itoa n @ '')'' else []))"

definition pod_diagnosis :: "(string \<Rightarrow> (string \<times> int) list) \<Rightarrow> pod \<Rightarrow> string" where
  "pod_diagnosis events p =
     (if podReady p then []
      else newline @ newline @ ''pod '' @ pod_name p @ '' (phase: '' @ pod_phase p @ ''):''
        @ concat (map container_diagnosis (pod_statuses p)) @ concat (map event_line (events (pod_name p))))"

definition timeoutDiagnostics :: "string \<Rightarrow> string \<Rightarrow> pod list option \<Rightarrow> (string \<Rightarrow> (string \<times> int) list) \<Rightarrow> string \<Rightarrow> string" where
  "timeoutDiagnostics name lastStatus listed events logs =
     name @ '': timed out ('' @ lastStatus @ '')''
     @ (case listed of
          None \<Rightarrow> []
        | Some pods \<Rightarrow> concat (map (pod_diagnosis events) pods)
            @ (if logs \<noteq> [] then newline @ newline @ ''logs:'' @ newline @ indent logs ''  '' else []))"

lemma dedup_distinct: "distinct (dedup ss) \<and> set (dedup ss) = set ss"
proof -
  have "distinct out \<Longrightarrow> distinct (foldl (\<lambda>out s. if s \<in> set out then out else out @ [s]) out ss) \<and>
      set (foldl (\<lambda>out s. if s \<in> set out then out else out @ [s]) out ss) = set out \<union> set ss" for out
    by (induction ss arbitrary: out) auto
  then show ?thesis by (simp add: dedup_def)
qed

section \<open>Polling\<close>

definition ErrTimeout :: goerr where
  "ErrTimeout = Errorf ''poll: timeout exceeded'' []"

text \<open>
  The loop of \<open>Poll\<close>, with a local state and at most \<open>n\<close> turns; \<open>Poll\<close> allows as many as fit before
  the deadline, and two more.
\<close>

fun poll_loop :: "nat \<Rightarrow> 'w runtime \<Rightarrow> int \<Rightarrow> int \<Rightarrow> ('s \<Rightarrow> 'w \<Rightarrow> (goerr + bool) \<times> 's) \<Rightarrow> 's \<Rightarrow> 'w \<Rightarrow>
    (goerr + unit) \<times> 's \<times> 'w" where
  "poll_loop 0 rt interval deadline fn s w = (Inl ErrTimeout, s, w)"
| "poll_loop (Suc n) rt interval deadline fn s w =
     (if rt_now rt w > deadline then (Inl ErrTimeout, s, w)
      else (case rt_cancelled rt w of
        Some cause \<Rightarrow> (Inl cause, s, w)
      | None \<Rightarrow>
          (case fn s w of
             (Inl e, s') \<Rightarrow> (Inl e, s', w)
           | (Inr finished, s') \<Rightarrow>
               if finished then (Inr (), s', w)
               else (case rt_sleep rt interval w of
                   (Some cause, w') \<Rightarrow> (Inl cause, s', w')
                 | (None, w') \<Rightarrow> poll_loop n rt interval deadline fn s' w'))))"

definition poll_fuel :: "int \<Rightarrow> int \<Rightarrow> nat" where
  "poll_fuel interval timeout = nat (timeout div interval) + 2"

definition Poll :: "'w runtime \<Rightarrow> int \<Rightarrow> int \<Rightarrow> ('s \<Rightarrow> 'w \<Rightarrow> (goerr + bool) \<times> 's) \<Rightarrow> 's \<Rightarrow> 'w \<Rightarrow>
    (goerr + unit) \<times> 's \<times> 'w" where
  "Poll rt interval timeout fn s w =
     poll_loop (poll_fuel interval timeout) rt interval (rt_now rt w + timeout) fn s w"

section \<open>The rollout\<close>

definition rolloutPollInterval :: int where "rolloutPollInterval = 3"
definition rolloutTimeout :: int where "rolloutTimeout = 300"
definition stabilityDelay :: int where "stabilityDelay = 4"

definition track :: "int gomap \<Rightarrow> pod \<Rightarrow> int gomap" where
  "track initial p = (if has_key initial (pod_name p) then initial else AList.update (pod_name p) (restarts p) initial)"

definition pod_failure :: "string \<Rightarrow> pod \<Rightarrow> goerr option" where
  "pod_failure name p = map_option (\<lambda>reason. Errorf ''rollout failed'' [name, reason]) (hardFailReason p)"

text \<open>One look at the pods: is the rollout complete, still going on, or hopeless?\<close>

definition rollout_poll :: "'w runtime \<Rightarrow> string \<Rightarrow> string \<Rightarrow> int gomap \<Rightarrow> 'w \<Rightarrow> (goerr + bool) \<times> int gomap" where
  "rollout_poll rt ns name initial w =
     (case rt_pods rt ns name w of
        Inl _ \<Rightarrow> (Inr False, initial)
      | Inr pods \<Rightarrow>
          if pods = [] then (Inr False, initial)
          else
            let initial' = foldl track initial pods
            in (case each (pod_failure name) pods of
                  Some e \<Rightarrow> (Inl e, initial')
                | None \<Rightarrow> (Inr (length (filter pod_counts pods) = length pods), initial')))"

definition restarted :: "string \<Rightarrow> int gomap \<Rightarrow> pod \<Rightarrow> goerr option" where
  "restarted name initial p =
     (case map_of initial (pod_name p) of
        Some i \<Rightarrow> check (restarts p > i) (Errorf ''pod crashed after becoming ready'' [name])
      | None \<Rightarrow> None)"

definition verifyStability :: "'w runtime \<Rightarrow> string \<Rightarrow> string \<Rightarrow> int gomap \<Rightarrow> 'w \<Rightarrow> goerr + unit" where
  "verifyStability rt ns name initial w =
     (case rt_pods rt ns name w of
        Inl e \<Rightarrow> Inl (Wrapf (name @ '': stability check failed'') (api_error e))
      | Inr pods \<Rightarrow>
          (case each (\<lambda>p. first_err [restarted name initial p, pod_failure name p]) pods of
             Some e \<Rightarrow> Inl e
           | None \<Rightarrow> Inr ()))"

definition WaitRollout :: "'w runtime \<Rightarrow> string \<Rightarrow> string \<Rightarrow> bool \<Rightarrow> ('w, unit) act" where
  "WaitRollout rt ns name hasHealthCheck w =
     (case Poll rt rolloutPollInterval rolloutTimeout (rollout_poll rt ns name) [] w of
        (Inl e, _, w1) \<Rightarrow> (Inl (if e = ErrTimeout then Errorf ''rollout timed out'' [name] else e), w1)
      | (Inr _, initial, w1) \<Rightarrow>
          if hasHealthCheck then (Inr (), w1)
          else (case rt_sleep rt stabilityDelay w1 of
              (Some cause, w2) \<Rightarrow> (Inl cause, w2)
            | (None, w2) \<Rightarrow> (verifyStability rt ns name initial w2, w2)))"

section \<open>The loop ends\<close>

text \<open>What the program relies on about the clock: a sleep that is not cut short takes its time.\<close>

definition clock_ok :: "'w runtime \<Rightarrow> bool" where
  "clock_ok rt \<longleftrightarrow> (\<forall>d w w'. rt_sleep rt d w = (None, w') \<longrightarrow> rt_now rt w + d \<le> rt_now rt w')"

lemma poll_loop_enough:
  assumes "clock_ok rt" "0 < interval" "deadline < rt_now rt w + int n * interval"
  shows "poll_loop (Suc n + k) rt interval deadline fn s w = poll_loop (Suc n) rt interval deadline fn s w"
  using assms(3)
proof (induction n arbitrary: s w)
  case 0
  then show ?case by simp
next
  case (Suc n)
  have "deadline < rt_now rt w' + int n * interval" if "rt_sleep rt interval w = (None, w')" for w'
    using that Suc.prems assms(1) by (fastforce simp: clock_ok_def algebra_simps)
  from Suc.IH [OF this] show ?case
    by (simp del: poll_loop.simps(2) add: poll_loop.simps(2) [of "Suc n"] poll_loop.simps(2) [of "Suc (n + k)"]
        split: option.split sum.split prod.split)
qed

text \<open>
  C20: the wait always ends: with a clock that moves, \<open>Poll\<close> calls its function at most
  \<open>timeout / interval + 2\<close> times, and more turns would not change its answer.
\<close>

theorem poll_bounded:
  assumes "clock_ok rt" "0 < interval" "0 \<le> timeout"
  shows "poll_loop (poll_fuel interval timeout + k) rt interval (rt_now rt w + timeout) fn s w = Poll rt interval timeout fn s w"
proof -
  have "timeout = timeout div interval * interval + timeout mod interval" "timeout mod interval < interval"
    using assms(2) by simp_all
  then have "timeout < (timeout div interval + 1) * interval"
    unfolding distrib_right mult_1 by linarith
  then have "rt_now rt w + timeout < rt_now rt w + int (nat (timeout div interval) + 1) * interval"
    using assms by (simp add: pos_imp_zdiv_nonneg_iff add.commute)
  from poll_loop_enough [OF assms(1,2) this, of k fn s] show ?thesis
    by (simp add: Poll_def poll_fuel_def)
qed

section \<open>What a finished rollout means\<close>

lemma poll_loop_Inr:
  assumes "poll_loop n rt interval deadline fn s w = (Inr (), s', w')"
    and "I s" "\<And>s w r s'. I s \<Longrightarrow> fn s w = (r, s') \<Longrightarrow> I s'"
  shows "I s' \<and> (\<exists>s1. I s1 \<and> fn s1 w' = (Inr True, s'))"
  using assms(1,2)
proof (induction n arbitrary: s w)
  case (Suc n)
  from Suc.prems obtain finished s1 where fn: "fn s w = (Inr finished, s1)"
    by (auto split: if_splits option.splits prod.splits sum.splits)
  show ?case
  proof (cases finished)
    case True
    with Suc.prems fn assms(3) show ?thesis by (auto split: if_splits option.splits)
  next
    case False
    with Suc.prems fn obtain w1 where "rt_sleep rt interval w = (None, w1)"
      "poll_loop n rt interval deadline fn s1 w1 = (Inr (), s', w')"
      by (auto split: if_splits option.splits prod.splits)
    with Suc.IH assms(3) [OF Suc.prems(2) fn] show ?thesis by blast
  qed
qed simp

text \<open>Every tracked count was seen on a pod of that name.\<close>

definition seen_counts :: "'w runtime \<Rightarrow> string \<Rightarrow> string \<Rightarrow> int gomap \<Rightarrow> bool" where
  "seen_counts rt ns name initial \<longleftrightarrow> (\<forall>n i. map_of initial n = Some i \<longrightarrow>
     (\<exists>w pods. rt_pods rt ns name w = Inr pods \<and> (\<exists>p \<in> set pods. pod_name p = n \<and> restarts p = i)))"

lemma track_fold:
  "rt_pods rt ns name w = Inr pods \<Longrightarrow> set ps \<subseteq> set pods \<Longrightarrow> seen_counts rt ns name initial \<Longrightarrow>
     seen_counts rt ns name (foldl track initial ps) \<and>
     (\<forall>n. has_key initial n \<or> n \<in> pod_name ` set ps \<longrightarrow> has_key (foldl track initial ps) n)"
proof (induction ps arbitrary: initial)
  case (Cons p ps)
  have "seen_counts rt ns name (track initial p)"
    using Cons.prems by (fastforce simp: track_def seen_counts_def update_conv')
  moreover have "has_key (track initial p) n" if "has_key initial n \<or> n = pod_name p" for n
    using that by (auto simp: track_def)
  ultimately show ?case using Cons.IH [of "track initial p"] Cons.prems by auto
qed simp

lemma rollout_poll_inv:
  "seen_counts rt ns name initial \<Longrightarrow> rollout_poll rt ns name initial w = (r, initial') \<Longrightarrow> seen_counts rt ns name initial'"
  using track_fold [of rt ns name w _ _ initial]
  by (auto simp: rollout_poll_def Let_def split: sum.splits if_splits option.splits)

lemma each_pod_failure: "each (pod_failure name) pods = None \<longleftrightarrow> (\<forall>p \<in> set pods. hardFailReason p = None)"
  by (simp add: each_None pod_failure_def)

lemma filter_all: "length (filter P xs) = length xs \<longleftrightarrow> (\<forall>x \<in> set xs. P x)"
proof (induction xs)
  case (Cons x xs)
  have "length (filter P xs) \<le> length xs" by simp
  with Cons show ?case by (cases "P x") (simp_all add: le_imp_less_Suc less_imp_neq)
qed simp


section \<open>Examples\<close>

text \<open>A clock that counts seconds, over pods that become ready at second 6.\<close>

definition demo_pods :: "int \<Rightarrow> pod list" where
  "demo_pods t = [\<lparr>pod_name = ''web-0'', pod_phase = ''Running'', pod_conditions = [],
     pod_statuses = [\<lparr>cst_ready = (t \<ge> 6), cst_restarts = 0, cst_waiting = None, cst_terminated = None, cst_running = True\<rparr>]\<rparr>]"

definition demo_runtime :: "int runtime" where
  "demo_runtime = \<lparr>rt_pods = (\<lambda>ns name t. Inr (demo_pods t)), rt_now = (\<lambda>t. t), rt_cancelled = (\<lambda>t. None),
     rt_sleep = (\<lambda>d t. (None, t + d))\<rparr>"

corollary poll_bounded_witness:
  "poll_loop (poll_fuel 3 300 + 50) demo_runtime 3 300 (rollout_poll demo_runtime ''ns'' ''web'') [] 0 =
     Poll demo_runtime 3 300 (rollout_poll demo_runtime ''ns'' ''web'') [] 0"
proof -
  have "clock_ok demo_runtime" by (simp add: clock_ok_def demo_runtime_def)
  from poll_bounded [OF this, of 3 300 50 0] show ?thesis by (simp add: demo_runtime_def)
qed


end
