(* ===== verification/Waiting.thy ===== *)
theory Waiting
  imports KubeServer Rollout
begin

text \<open>
  Waiting changes nothing: the poll loop and the wait for a rollout leave the objects of the cluster
  alone, provided that the objects the program manages do not change by themselves while it sleeps.
\<close>

definition sleeps_quiet :: "'w runtime \<Rightarrow> ('w \<Rightarrow> kkey \<Rightarrow> kcore option) \<Rightarrow> bool" where
  "sleeps_quiet rt store \<longleftrightarrow> (\<forall>d w. store (snd (rt_sleep rt d w)) = store w)"

context kube_server
begin

lemma poll_keeps:
  assumes "sleeps_quiet rt store" "poll_loop n rt interval deadline fn s w = (r, s', w')"
  shows "store w' = store w"
  using assms(2)
proof (induction n arbitrary: s w)
  case (Suc n)
  have sleep: "store w1 = store w" if "rt_sleep rt interval w = (c, w1)" for c w1
    using assms(1) that unfolding sleeps_quiet_def by (metis snd_conv)
  from Suc show ?case
    by (auto split: if_splits option.splits prod.splits sum.splits dest!: sleep)
qed simp

lemma WaitRollout_keeps:
  assumes "sleeps_quiet rt store"
  shows "keeps (changes store P) (WaitRollout rt ns name health)"
proof -
  have sleep: "store w1 = store w" if "rt_sleep rt d w = (c, w1)" for c w1 w d
    using assms that unfolding sleeps_quiet_def by (metis snd_conv)
  have "store (snd (WaitRollout rt ns name health w)) = store w" for w
    using poll_keeps [OF assms]
    by (auto simp: WaitRollout_def Poll_def dest!: sleep split: prod.split sum.split option.split)
  then show ?thesis by (simp add: keeps_def changes_def)
qed

end

text \<open>A cluster at rest: every workload has one pod that is running.\<close>

definition quiet_runtime :: "mem_world runtime" where
  "quiet_runtime = \<lparr>rt_pods = (\<lambda>ns name w. Inr [\<lparr>pod_name = name @ ''-0'', pod_phase = ''Running'', pod_conditions = [],
       pod_statuses = [\<lparr>cst_ready = True, cst_restarts = 0, cst_waiting = None, cst_terminated = None, cst_running = True\<rparr>]\<rparr>]),
     rt_now = (\<lambda>w. 0), rt_cancelled = (\<lambda>w. None), rt_sleep = (\<lambda>d w. (None, w))\<rparr>"

lemma cluster_at_rest: "sleeps_quiet quiet_runtime mem_store"
  by (simp add: sleeps_quiet_def quiet_runtime_def)

end
