(* ===== verification/Encoding.thy ===== *)
theory Encoding
  imports Prelude
begin

text \<open>
  The two encoders of Go's standard library that the program writes payloads with:
  \<open>encoding/json.Marshal\<close> on ASCII text and \<open>base64.StdEncoding\<close>, the latter with its decoder.
\<close>

section \<open>JSON\<close>

datatype json =
    JNull
  | JBool bool
  | JString string
  | JInt int
  | JArray "json list"
  | JObject "(string \<times> json) list"

definition hex_digit :: "nat \<Rightarrow> char" where
  "hex_digit n = char_of (if n < 10 then 48 + n else 87 + n)"

definition backslash :: char where "backslash = CHR 0x5C"
definition quote :: char where "quote = CHR 0x22"

text \<open>The escapes of \<open>json.Marshal\<close>, which also hides the characters of HTML.\<close>

definition json_escape :: "char \<Rightarrow> string" where
  "json_escape c =
     (let n = of_char c :: nat
      in if c = quote \<or> c = backslash then [backslash, c]
         else if n = 8 then [backslash, CHR ''b'']
         else if n = 9 then [backslash, CHR ''t'']
         else if n = 10 then [backslash, CHR ''n'']
         else if n = 12 then [backslash, CHR ''f'']
         else if n = 13 then [backslash, CHR ''r'']
         else if n < 32 \<or> c \<in> {CHR ''<'', CHR ''>'', CHR ''&''}
         then backslash # ''u00'' @ [hex_digit (n div 16), hex_digit (n mod 16)]
         else [c])"

definition json_string :: "string \<Rightarrow> string" where
  "json_string s = quote # concat (map json_escape s) @ [quote]"

fun marshal :: "json \<Rightarrow> string" where
  "marshal JNull = ''null''"
| "marshal (JBool b) = (if b then ''true'' else ''false'')"
| "marshal (JString s) = json_string s"
| "marshal (JInt i) = itoa i"
| "marshal (JArray xs) = ''['' @ join '','' (map marshal xs) @ '']''"
| "marshal (JObject kvs) = ''{'' @ join '','' (map (\<lambda>p. json_string (fst p) @ '':'' @ marshal (snd p)) kvs) @ ''}''"

section \<open>Base64\<close>

definition b64_alphabet :: string where
  "b64_alphabet = ''ABCDEFGHIJKLMNOPQRSTUVWXYZabcdefghijklmnopqrstuvwxyz0123456789+/''"

definition b64_char :: "nat \<Rightarrow> char" where
  "b64_char n = b64_alphabet ! n"

text \<open>Four characters for a group of 24 bits.\<close>

definition b64_group :: "nat \<Rightarrow> string" where
  "b64_group n = [b64_char (n div 262144), b64_char (n div 4096 mod 64), b64_char (n div 64 mod 64), b64_char (n mod 64)]"

fun base64 :: "string \<Rightarrow> string" where
  "base64 [] = []"
| "base64 [a] = take 2 (b64_group (of_char a * 65536)) @ ''==''"
| "base64 [a, b] = take 3 (b64_group (of_char a * 65536 + of_char b * 256)) @ ''=''"
| "base64 (a # b # c # rest) = b64_group (of_char a * 65536 + of_char b * 256 + of_char c) @ base64 rest"

text \<open>The decoder, for the round trip.\<close>

definition b64_val :: "char \<Rightarrow> nat option" where
  "b64_val c = (if c \<in> set b64_alphabet then Some (length (takeWhile (\<lambda>x. x \<noteq> c) b64_alphabet)) else None)"

definition b64_bytes :: "nat \<Rightarrow> string" where
  "b64_bytes n = [char_of (n div 65536), char_of (n div 256), char_of n]"

fun unbase64 :: "string \<Rightarrow> string option" where
  "unbase64 [] = Some []"
| "unbase64 (p # q # r # s # rest) =
     (case (b64_val p, b64_val q) of
        (Some w, Some x) \<Rightarrow>
          (if r = CHR ''='' \<and> s = CHR ''='' \<and> rest = [] then Some (take 1 (b64_bytes (w * 262144 + x * 4096)))
           else (case b64_val r of
              None \<Rightarrow> None
            | Some y \<Rightarrow>
                if s = CHR ''='' \<and> rest = [] then Some (take 2 (b64_bytes (w * 262144 + x * 4096 + y * 64)))
                else (case (b64_val s, unbase64 rest) of
                    (Some z, Some t) \<Rightarrow> Some (b64_bytes (w * 262144 + x * 4096 + y * 64 + z) @ t)
                  | _ \<Rightarrow> None)))
      | _ \<Rightarrow> None)"
| "unbase64 _ = None"

lemma length_b64_alphabet [simp]: "length b64_alphabet = 64"
  by (simp add: b64_alphabet_def)

lemma distinct_b64_alphabet: "distinct b64_alphabet"
  by code_simp

lemma pad_not_in_alphabet: "CHR ''='' \<notin> set b64_alphabet"
  by code_simp

lemma b64_val_char [simp]: "n < 64 \<Longrightarrow> b64_val (b64_char n) = Some n"
proof -
  assume n: "n < 64"
  then have "b64_char n \<in> set b64_alphabet" by (simp add: b64_char_def)
  moreover have "takeWhile (\<lambda>x. x \<noteq> b64_char n) b64_alphabet = take n b64_alphabet"
    using n distinct_b64_alphabet
    by (intro takeWhile_eq_take_P_nth) (auto simp: b64_char_def nth_eq_iff_index_eq)
  ultimately show ?thesis using n by (simp add: b64_val_def)
qed

lemma b64_char_pad [simp]: "n < 64 \<Longrightarrow> b64_char n \<noteq> CHR ''=''"
  using pad_not_in_alphabet by (metis b64_char_def length_b64_alphabet nth_mem)

lemma of_char_lt [simp]: "(of_char (c :: char) :: nat) < 256"
proof -
  have "(of_char c :: nat) mod 256 < 256" by simp
  then show ?thesis unfolding of_char_mod_256 .
qed

lemma group_digits:
  fixes n :: nat
  assumes "n < 16777216"
  shows "n div 262144 * 262144 + n div 4096 mod 64 * 4096 + n div 64 mod 64 * 64 + n mod 64 = n"
    and "n div 262144 < 64"
proof -
  have q2: "n div 4096 = n div 64 div 64" and q3: "n div 262144 = n div 64 div 64 div 64"
    using div_mult2_eq [of n 64 64] div_mult2_eq [of n 64 4096] div_mult2_eq [of "n div 64" 64 64] by simp_all
  have "n = n div 64 * 64 + n mod 64" "n div 64 = n div 64 div 64 * 64 + n div 64 mod 64"
    "n div 64 div 64 = n div 64 div 64 div 64 * 64 + n div 64 div 64 mod 64"
    by simp_all
  then show "n div 262144 * 262144 + n div 4096 mod 64 * 4096 + n div 64 mod 64 * 64 + n mod 64 = n"
    unfolding q2 q3 by linarith
  show "n div 262144 < 64"
    using assms by (simp add: less_mult_imp_div_less)
qed

lemma byte_step: "c < 256 \<Longrightarrow> (x * 256 + c) div 256 = (x :: nat)" "c < 256 \<Longrightarrow> (x * 256 + c) mod 256 = (c :: nat)"
  by simp_all

lemma b64_bytes_three:
  "b64_bytes (of_char a * 65536 + of_char b * 256 + of_char c) = [a, b, c]"
proof -
  let ?n = "of_char a * 65536 + of_char b * 256 + of_char c :: nat"
  have n: "?n = (of_char a * 256 + of_char b) * 256 + of_char c" by simp
  have d: "?n div 256 = of_char a * 256 + of_char b" unfolding n by (rule byte_step) simp
  moreover have "?n div 65536 = ?n div 256 div 256" using div_mult2_eq [of ?n 256 256] by simp
  ultimately have "?n div 65536 = of_char a" by (simp add: byte_step)
  moreover have "(of_char a * 256 + of_char b :: nat) mod 256 = of_char b" by (rule byte_step) simp
  moreover have "?n mod 256 = of_char c" unfolding n by (rule byte_step) simp
  moreover have "char_of m = (char_of (m mod 256) :: char)" for m :: nat by simp
  ultimately show ?thesis unfolding b64_bytes_def d by (metis char_of_char)
qed

lemma b64_bytes_short:
  "take 1 (b64_bytes (of_char a * 65536)) = [a]"
  "take 2 (b64_bytes (of_char a * 65536 + of_char b * 256)) = [a, b]"
  using b64_bytes_three [of a "CHR 0x00" "CHR 0x00"] b64_bytes_three [of a b "CHR 0x00"] by simp_all

lemma triple_bound: "of_char a * 65536 + of_char b * 256 + of_char c < (16777216 :: nat)"
proof -
  have "(of_char a :: nat) < 256" "(of_char b :: nat) < 256" "(of_char c :: nat) < 256" by simp_all
  then show ?thesis by linarith
qed

lemma unbase64_base64: "unbase64 (base64 s) = Some s"
proof (induction s rule: base64.induct)
  case 1
  show ?case by simp
next
  case (2 a)
  let ?n = "of_char a * 65536 :: nat"
  have b: "?n < 16777216" using triple_bound [of a "CHR 0x00" "CHR 0x00"] by simp
  have "?n div 64 mod 64 = 0" "?n mod 64 = 0" by (simp_all add: div_mult_swap [symmetric] mod_mult_eq [symmetric])
  with group_digits [OF b] show ?case using b64_bytes_short(1) [of a] by (simp add: b64_group_def)
next
  case (3 a b)
  let ?n = "of_char a * 65536 + of_char b * 256 :: nat"
  have b: "?n < 16777216" using triple_bound [of a b "CHR 0x00"] by simp
  have "?n = (of_char a * 1024 + of_char b * 4) * 64" by simp
  then have "?n mod 64 = 0" by (metis mod_mult_self2_is_0)
  with group_digits [OF b] show ?case using b64_bytes_short(2) [of a b] by (simp add: b64_group_def)
next
  case (4 a b c rest)
  let ?n = "of_char a * 65536 + of_char b * 256 + of_char c :: nat"
  show ?case
    using group_digits [OF triple_bound [of a b c]] b64_bytes_three [of a b c] 4
    by (simp add: b64_group_def)
qed

end
