(* ===== verification/Json.thy ===== *)
theory Json
  imports Encoding
begin

text \<open>
  The decoder \<open>encoding/json.Unmarshal\<close> on ASCII text, for the payloads that the program reads back:
  values without fractions or exponents. It is a recursive descent whose fuel is the length of the
  text; a value that \<open>marshal\<close> wrote is read back as it was.
\<close>

section \<open>The decoder\<close>

definition json_space :: "char \<Rightarrow> bool" where
  "json_space c \<longleftrightarrow> c \<in> {CHR '' '', CHR 0x09, CHR 0x0A, CHR 0x0D}"

definition skip_ws :: "string \<Rightarrow> string" where
  "skip_ws s = dropWhile json_space s"

definition unhex :: "char \<Rightarrow> nat option" where
  "unhex c =
     (let n = of_char c :: nat
      in if 48 \<le> n \<and> n \<le> 57 then Some (n - 48)
         else if 97 \<le> n \<and> n \<le> 102 then Some (n - 87)
         else if 65 \<le> n \<and> n \<le> 70 then Some (n - 55)
         else None)"

text \<open>The character after a backslash; the codes of \<open>\u\<close> that are not ASCII are refused.\<close>

definition unescape :: "string \<Rightarrow> (char \<times> string) option" where
  "unescape s = (case s of
     [] \<Rightarrow> None
   | e # r \<Rightarrow>
       if e = quote \<or> e = backslash \<or> e = CHR ''/'' then Some (e, r)
       else if e = CHR ''b'' then Some (CHR 0x08, r)
       else if e = CHR ''t'' then Some (CHR 0x09, r)
       else if e = CHR ''n'' then Some (CHR 0x0A, r)
       else if e = CHR ''f'' then Some (CHR 0x0C, r)
       else if e = CHR ''r'' then Some (CHR 0x0D, r)
       else if e = CHR ''u'' then
         (case r of
            a # b # c # d # r' \<Rightarrow>
              (case (unhex a, unhex b, unhex c, unhex d) of
                 (Some w, Some x, Some y, Some z) \<Rightarrow>
                   (let n = 4096 * w + 256 * x + 16 * y + z in if n < 128 then Some (char_of n, r') else None)
               | _ \<Rightarrow> None)
          | _ \<Rightarrow> None)
       else None)"

lemma unescape_length: "unescape s = Some (c, r) \<Longrightarrow> length r < length s"
  by (auto simp: unescape_def Let_def split: list.splits if_splits option.splits)

function string_body :: "string \<Rightarrow> (string \<times> string) option" where
  "string_body [] = None"
| "string_body (c # cs) =
     (if c = quote then Some ([], cs)
      else if c = backslash then
        (case unescape cs of
           None \<Rightarrow> None
         | Some (e, r) \<Rightarrow> map_option (\<lambda>(t, r'). (e # t, r')) (string_body r))
      else if (of_char c :: nat) < 32 then None
      else map_option (\<lambda>(t, r'). (c # t, r')) (string_body cs))"
  by pat_completeness auto
termination string_body
  by (relation "measure length") (auto dest: unescape_length)

definition int_value :: "string \<Rightarrow> (json \<times> string) option" where
  "int_value s =
     (let neg = has_prefix s ''-''; ds = takeWhile is_digit (if neg then tl s else s);
          rest = dropWhile is_digit (if neg then tl s else s)
      in if ds = [] then None
         else (case digits_val ds 0 of
             None \<Rightarrow> None
           | Some n \<Rightarrow> Some (JInt (if neg then - int n else int n), rest)))"

definition literal :: "string \<Rightarrow> (json \<times> string) option" where
  "literal s =
     (if has_prefix s ''null'' then Some (JNull, drop 4 s)
      else if has_prefix s ''true'' then Some (JBool True, drop 4 s)
      else if has_prefix s ''false'' then Some (JBool False, drop 5 s)
      else int_value s)"

fun json_value :: "nat \<Rightarrow> string \<Rightarrow> (json \<times> string) option"
  and json_elements :: "nat \<Rightarrow> string \<Rightarrow> (json list \<times> string) option"
  and json_members :: "nat \<Rightarrow> string \<Rightarrow> ((string \<times> json) list \<times> string) option" where
  "json_value 0 s = None"
| "json_value (Suc n) s = (case skip_ws s of
     [] \<Rightarrow> None
   | c # cs \<Rightarrow>
       if c = quote then map_option (\<lambda>(t, r). (JString t, r)) (string_body cs)
       else if c = CHR ''['' then
         (if has_prefix (skip_ws cs) '']'' then Some (JArray [], tl (skip_ws cs))
          else map_option (\<lambda>(vs, r). (JArray vs, r)) (json_elements n cs))
       else if c = CHR ''{'' then
         (if has_prefix (skip_ws cs) ''}'' then Some (JObject [], tl (skip_ws cs))
          else map_option (\<lambda>(kvs, r). (JObject kvs, r)) (json_members n cs))
       else literal (c # cs))"
| "json_elements 0 s = None"
| "json_elements (Suc n) s = (case json_value n s of
     None \<Rightarrow> None
   | Some (v, r) \<Rightarrow> (case skip_ws r of
       [] \<Rightarrow> None
     | c # cs \<Rightarrow>
         if c = CHR '','' then map_option (\<lambda>(vs, r'). (v # vs, r')) (json_elements n cs)
         else if c = CHR '']'' then Some ([v], cs) else None))"
| "json_members 0 s = None"
| "json_members (Suc n) s = (case skip_ws s of
     [] \<Rightarrow> None
   | q # qs \<Rightarrow>
       if q \<noteq> quote then None
       else (case string_body qs of
           None \<Rightarrow> None
         | Some (k, r) \<Rightarrow>
             if \<not> has_prefix (skip_ws r) '':'' then None
             else (case json_value n (tl (skip_ws r)) of
                 None \<Rightarrow> None
               | Some (v, r') \<Rightarrow> (case skip_ws r' of
                   [] \<Rightarrow> None
                 | c # cs \<Rightarrow>
                     if c = CHR '','' then map_option (\<lambda>(kvs, r''). ((k, v) # kvs, r'')) (json_members n cs)
                     else if c = CHR ''}'' then Some ([(k, v)], cs) else None))))"

definition unmarshal :: "string \<Rightarrow> json option" where
  "unmarshal s = (case json_value (Suc (length s)) s of
     Some (j, r) \<Rightarrow> if skip_ws r = [] then Some j else None
   | None \<Rightarrow> None)"

section \<open>Reading back what was written\<close>

lemma unhex_digit: "n < 16 \<Longrightarrow> unhex (hex_digit n) = Some n"
proof -
  assume n: "n < 16"
  have "(of_char (char_of m :: char) :: nat) = m" if "m < 256" for m using that by simp
  with n show ?thesis by (auto simp: unhex_def hex_digit_def Let_def)
qed

definition plain_byte :: "char \<Rightarrow> bool" where
  "plain_byte c \<longleftrightarrow> (of_char c :: nat) < 128"

lemma char_code_eq: "(of_char c = (n :: nat)) \<longleftrightarrow> c = char_of n" if "n < 256"
  using that by (metis char_of_char of_char_of take_bit_nat_eq_self_iff mod_less)

lemma body_escape:
  assumes "plain_byte c"
  shows "string_body (json_escape c @ rest) = map_option (\<lambda>(t, r). (c # t, r)) (string_body rest)"
proof -
  let ?n = "of_char c :: nat"
  have hex: "unescape (''u00'' @ [hex_digit (?n div 16), hex_digit (?n mod 16)] @ rest) = Some (c, rest)"
  proof -
    have n: "?n < 128" using assms by (simp add: plain_byte_def)
    have zero: "unhex (CHR ''0'') = Some 0" by code_simp
    have "unhex (hex_digit (?n div 16)) = Some (?n div 16)" "unhex (hex_digit (?n mod 16)) = Some (?n mod 16)"
      using n by (simp_all add: unhex_digit)
    with zero n show ?thesis
      by (simp add: unescape_def quote_def backslash_def Let_def)
  qed
  have ne: "quote \<noteq> backslash" by (simp add: quote_def backslash_def)
  consider "c = quote \<or> c = backslash" | "?n \<in> {8, 9, 10, 12, 13}"
    | "c \<noteq> quote" "c \<noteq> backslash" "?n \<notin> {8, 9, 10, 12, 13}" "?n < 32 \<or> c \<in> {CHR ''<'', CHR ''>'', CHR ''&''}"
    | "c \<noteq> quote" "c \<noteq> backslash" "\<not> ?n < 32" "c \<notin> {CHR ''<'', CHR ''>'', CHR ''&''}"
    by auto
  then show ?thesis
  proof cases
    case 1
    then show ?thesis using ne by (auto simp: json_escape_def Let_def unescape_def)
  next
    case 2
    moreover have "char_of (8 :: nat) = CHR 0x08" "char_of (9 :: nat) = CHR 0x09" "char_of (10 :: nat) = CHR 0x0A"
      "char_of (12 :: nat) = CHR 0x0C" "char_of (13 :: nat) = CHR 0x0D"
      by code_simp+
    ultimately have "c = CHR 0x08 \<or> c = CHR 0x09 \<or> c = CHR 0x0A \<or> c = CHR 0x0C \<or> c = CHR 0x0D"
      by (auto simp: char_code_eq)
    then show ?thesis using ne by (auto simp: json_escape_def Let_def unescape_def quote_def backslash_def)
  next
    case 3
    then have "json_escape c = backslash # ''u00'' @ [hex_digit (?n div 16), hex_digit (?n mod 16)]"
      by (auto simp: json_escape_def Let_def)
    with hex ne show ?thesis by simp
  next
    case 4
    then have "json_escape c = [c]" by (auto simp: json_escape_def Let_def)
    with 4 show ?thesis by simp
  qed
qed

lemma body_string:
  "\<forall>c \<in> set s. plain_byte c \<Longrightarrow> string_body (concat (map json_escape s) @ quote # rest) = Some (s, rest)"
  by (induction s) (simp_all add: body_escape)


definition no_digit :: "string \<Rightarrow> bool" where
  "no_digit rest \<longleftrightarrow> rest = [] \<or> \<not> is_digit (hd rest)"

lemma digit_char: "(n :: nat) < 10 \<Longrightarrow> is_digit (char_of (48 + n)) \<and> of_char (char_of (48 + n) :: char) - 48 = n"
  by (simp add: is_digit_def less_eq_char_def)

lemma digits_val_append: "digits_val (xs @ ys) acc = Option.bind (digits_val xs acc) (digits_val ys)"
  by (induction xs arbitrary: acc) auto

lemma digits_itoa: "digits_val (itoa_nat n) 0 = Some n \<and> (\<forall>c \<in> set (itoa_nat n). is_digit c) \<and> itoa_nat n \<noteq> []"
proof (induction n rule: itoa_nat.induct)
  case (1 n)
  show ?case
  proof (cases "n < 10")
    case True
    then show ?thesis using digit_char [OF True] by (subst (1 2 3) itoa_nat.simps) simp
  next
    case False
    have "n mod 10 < 10" by simp
    from digit_char [OF this] 1 [OF False] False show ?thesis
      by (subst (1 2 3) itoa_nat.simps) (simp add: digits_val_append)
  qed
qed

lemma span_digits:
  assumes "\<forall>c \<in> set ds. is_digit c" "no_digit rest"
  shows "takeWhile is_digit (ds @ rest) = ds" "dropWhile is_digit (ds @ rest) = rest"
  using assms by (cases rest; auto simp: no_digit_def takeWhile_append dropWhile_append)+

lemma int_value_itoa:
  assumes "no_digit rest"
  shows "int_value (itoa i @ rest) = Some (JInt i, rest)"
proof (cases "i < 0")
  case True
  with digits_itoa [of "nat (- i)"] span_digits [OF _ assms, of "itoa_nat (nat (- i))"] show ?thesis
    by (simp add: int_value_def itoa_def has_prefix_def)
next
  case False
  let ?ds = "itoa_nat (nat i)"
  from digits_itoa [of "nat i"] have ds: "?ds \<noteq> []" "\<forall>c \<in> set ?ds. is_digit c" "digits_val ?ds 0 = Some (nat i)" by auto
  then have "\<not> has_prefix (?ds @ rest) ''-''"
    by (cases ?ds) (auto simp: has_prefix_def is_digit_def less_eq_char_def)
  with False ds span_digits [OF ds(2) assms] show ?thesis by (simp add: int_value_def itoa_def)
qed

lemma itoa_head: "\<exists>c cs. itoa i = c # cs \<and> (is_digit c \<or> c = CHR ''-'')"
  using digits_itoa [of "nat i"] by (cases "itoa_nat (nat i)") (auto simp: itoa_def)

text \<open>The first character of a value tells which kind it is.\<close>

definition value_head :: "char \<Rightarrow> bool" where
  "value_head c \<longleftrightarrow> \<not> json_space c \<and> c \<noteq> CHR '']'' \<and> c \<noteq> CHR ''}''"

lemma marshal_head: "\<exists>c cs. marshal j = c # cs \<and> value_head c"
proof (cases j)
  case (JInt i)
  obtain c cs where "itoa i = c # cs" "is_digit c \<or> c = CHR ''-''" using itoa_head by blast
  with JInt show ?thesis by (auto simp: value_head_def json_space_def is_digit_def less_eq_char_def)
qed (auto simp: value_head_def json_space_def json_string_def quote_def)

fun plain_json :: "json \<Rightarrow> bool" where
  "plain_json (JString s) \<longleftrightarrow> (\<forall>c \<in> set s. plain_byte c)"
| "plain_json (JArray xs) \<longleftrightarrow> (\<forall>x \<in> set xs. plain_json x)"
| "plain_json (JObject kvs) \<longleftrightarrow> (\<forall>p \<in> set kvs. (\<forall>c \<in> set (fst p). plain_byte c) \<and> plain_json (snd p))"
| "plain_json _ \<longleftrightarrow> True"

lemma skip_value: "value_head c \<Longrightarrow> skip_ws (c # cs) = c # cs"
  by (simp add: skip_ws_def value_head_def)

lemma skip_marshal [simp]: "skip_ws (marshal j @ rest) = marshal j @ rest"
  using marshal_head [of j] by (auto simp: skip_ws_def value_head_def)

lemma skip_punct [simp]:
  "skip_ws (CHR '','' # s) = CHR '','' # s" "skip_ws (CHR '']'' # s) = CHR '']'' # s"
  "skip_ws (CHR ''}'' # s) = CHR ''}'' # s" "skip_ws (CHR '':'' # s) = CHR '':'' # s" "skip_ws (quote # s) = quote # s"
  by (simp_all add: skip_ws_def json_space_def quote_def)

definition reads :: "nat \<Rightarrow> json \<Rightarrow> bool" where
  "reads n j \<longleftrightarrow> (\<forall>rest. no_digit rest \<longrightarrow> json_value n (marshal j @ rest) = Some (j, rest))"

lemma elements_read:
  assumes "xs \<noteq> []" "length (join '','' (map marshal xs)) < n"
    and "\<And>x m. x \<in> set xs \<Longrightarrow> length (marshal x) \<le> m \<Longrightarrow> reads m x"
  shows "json_elements n (join '','' (map marshal xs) @ CHR '']'' # rest) = Some (xs, rest)"
  using assms
proof (induction xs arbitrary: n)
  case (Cons x xs)
  obtain m where n: "n = Suc m" using Cons.prems(2) by (cases n) auto
  have first: "reads m x" using Cons.prems(2,3) by (cases xs) (auto simp: n)
  have nd: "no_digit (CHR '','' # s)" "no_digit (CHR '']'' # s)" for s
    by (simp_all add: no_digit_def is_digit_def less_eq_char_def)
  show ?case
  proof (cases xs)
    case Nil
    with first nd show ?thesis by (simp add: n reads_def)
  next
    case (Cons y ys)
    then have "length (join '','' (map marshal xs)) < m" using Cons.prems(2) by (simp add: n)
    with Cons.IH [of m] Cons.prems(3) Cons have "json_elements m (join '','' (map marshal xs) @ CHR '']'' # rest) = Some (xs, rest)"
      by simp
    with first nd Cons show ?thesis by (simp add: n reads_def)
  qed
qed simp

abbreviation (input) "member \<equiv> \<lambda>p. json_string (fst p) @ '':'' @ marshal (snd p)"

lemma members_read:
  assumes "kvs \<noteq> []" "length (join '','' (map member kvs)) < n"
    and "\<And>p m. p \<in> set kvs \<Longrightarrow> length (marshal (snd p)) \<le> m \<Longrightarrow> reads m (snd p)"
    and "\<forall>p \<in> set kvs. \<forall>c \<in> set (fst p). plain_byte c"
  shows "json_members n (join '','' (map member kvs) @ CHR ''}'' # rest) = Some (kvs, rest)"
  using assms
proof (induction kvs arbitrary: n)
  case (Cons p kvs)
  obtain m where n: "n = Suc m" using Cons.prems(2) by (cases n) auto
  have first: "reads m (snd p)" using Cons.prems(2,3) by (cases kvs) (auto simp: n)
  have nd: "no_digit (CHR '','' # s)" "no_digit (CHR ''}'' # s)" for s
    by (simp_all add: no_digit_def is_digit_def less_eq_char_def)
  have key: "string_body (concat (map json_escape (fst p)) @ quote # s) = Some (fst p, s)" for s
    using Cons.prems(4) by (simp add: body_string)
  show ?case
  proof (cases kvs)
    case Nil
    with first nd key show ?thesis
      by (simp add: n reads_def json_string_def has_prefix_def)
  next
    case (Cons y ys)
    then have "length (join '','' (map member kvs)) < m" using Cons.prems(2) by (simp add: n)
    with Cons.IH [of m] Cons.prems(3,4) Cons have "json_members m (join '','' (map member kvs) @ CHR ''}'' # rest) = Some (kvs, rest)"
      by simp
    with first nd key Cons show ?thesis
      by (simp add: n reads_def json_string_def has_prefix_def)
  qed
qed simp

lemma join_head: "xs \<noteq> [] \<Longrightarrow> hd xs \<noteq> [] \<Longrightarrow> join sep xs \<noteq> [] \<and> hd (join sep xs) = hd (hd xs)"
  by (induction sep xs rule: join.induct) auto

lemma value_marshal: "plain_json j \<Longrightarrow> length (marshal j) \<le> n \<Longrightarrow> reads n j"
proof (induction j arbitrary: n rule: marshal.induct)
  case 1
  then show ?case
    by (cases n) (auto simp: reads_def skip_ws_def json_space_def quote_def literal_def has_prefix_def)
next
  case (2 b)
  then show ?case
    by (cases n; cases b) (auto simp: reads_def skip_ws_def json_space_def quote_def literal_def has_prefix_def)
next
  case (3 s)
  then show ?case by (cases n) (auto simp: reads_def json_string_def body_string)
next
  case (4 i)
  obtain c cs where c: "itoa i = c # cs" "is_digit c \<or> c = CHR ''-''" using itoa_head by blast
  then have "value_head c" "c \<noteq> quote" "c \<noteq> CHR ''[''" "c \<noteq> CHR ''{''" "c \<noteq> CHR ''n''" "c \<noteq> CHR ''t''" "c \<noteq> CHR ''f''"
    by (auto simp: value_head_def json_space_def quote_def is_digit_def less_eq_char_def)
  then have "json_value (Suc m) (itoa i @ rest) = int_value (itoa i @ rest)" for m rest
    by (simp add: c(1) skip_value literal_def has_prefix_def)
  then have "reads (Suc m) (JInt i)" for m
    by (simp add: reads_def int_value_itoa del: json_value.simps)
  with 4 show ?case by (cases n) (simp_all add: c(1))
next
  case (5 xs)
  then obtain m where n: "n = Suc m" by (cases n) auto
  show ?case
  proof (cases "xs = []")
    case True
    then show ?thesis by (simp add: n reads_def skip_ws_def json_space_def quote_def has_prefix_def)
  next
    case False
    let ?body = "join '','' (map marshal xs)"
    obtain c cs where head: "marshal (hd xs) = c # cs" "value_head c" using marshal_head by blast
    with False have "?body \<noteq> [] \<and> hd ?body = c" using join_head [of "map marshal xs" "'',''"] by (simp add: hd_map)
    then obtain bs where "?body = c # bs" by (cases ?body) auto
    then have start: "\<not> has_prefix (skip_ws (?body @ CHR '']'' # rest)) '']''" for rest
      using head(2) by (simp add: skip_value has_prefix_def value_head_def)
    have "json_elements m (?body @ CHR '']'' # rest) = Some (xs, rest)" for rest
      using False 5 by (intro elements_read) (auto simp: n)
    with start show ?thesis
      by (simp add: n reads_def skip_ws_def json_space_def quote_def)
  qed
next
  case (6 kvs)
  then obtain m where n: "n = Suc m" by (cases n) auto
  show ?case
  proof (cases "kvs = []")
    case True
    then show ?thesis by (simp add: n reads_def skip_ws_def json_space_def quote_def has_prefix_def)
  next
    case False
    let ?body = "join '','' (map member kvs)"
    have "?body \<noteq> [] \<and> hd ?body = quote"
      using False join_head [of "map member kvs" "'',''"] by (simp add: hd_map json_string_def)
    then obtain bs where "?body = quote # bs" by (cases ?body) auto
    then have start: "\<not> has_prefix (skip_ws (?body @ CHR ''}'' # rest)) ''}''" for rest
      by (simp add: has_prefix_def quote_def skip_ws_def json_space_def)
    have "json_members m (?body @ CHR ''}'' # rest) = Some (kvs, rest)" for rest
      using False 6 by (intro members_read) (auto simp: n)
    with start show ?thesis
      by (simp add: n reads_def skip_ws_def json_space_def quote_def)
  qed
qed

lemma unmarshal_marshal: "plain_json j \<Longrightarrow> unmarshal (marshal j) = Some j"
  using value_marshal [of j "Suc (length (marshal j))"]
  by (auto simp: unmarshal_def reads_def no_digit_def skip_ws_def dest: spec [of _ "[]"])

end
