(* ===== verification/Caddy.thy ===== *)
theory Caddy
  imports Waiting Json Sha256 Config
begin

text \<open>
  The in-cluster Caddy that serves the domains: its objects (\<open>pkg/kube/caddy_manifests.go\<close>), its
  configuration as JSON (\<open>caddy_config.go\<close>) and the operations on the running Caddy
  (\<open>caddy.go\<close>). Commands run inside the Caddy pod are code outside the repository: \<open>pod_exec\<close> holds
  them, with the commands that only look kept apart from the one that loads a configuration.
\<close>

section \<open>Constants\<close>

definition CaddyNamespace :: string where "CaddyNamespace = ''kube-system''"
definition CaddyName :: string where "CaddyName = ''caddy''"
definition CaddyConfigMapName :: string where "CaddyConfigMapName = ''caddy-config''"
definition CaddyPVCName :: string where "CaddyPVCName = ''caddy-data''"
definition CaddyImage :: string where "CaddyImage = ''caddy:2.10-alpine''"
definition CaddyAdminListen :: string where "CaddyAdminListen = ''localhost:2019''"
definition CaddyConfigMountDir :: string where "CaddyConfigMountDir = ''/etc/caddy''"
definition CaddyConfigKey :: string where "CaddyConfigKey = ''caddy.json''"
definition CaddyDataDir :: string where "CaddyDataDir = ''/data''"
definition CaddyConfigStateDir :: string where "CaddyConfigStateDir = ''/config''"
definition caddyPollInterval :: int where "caddyPollInterval = 3"
definition caddyCertTimeout :: int where "caddyCertTimeout = 600"
definition caddyHTTPSTimeout :: int where "caddyHTTPSTimeout = 300"
definition caddyReadyTimeout :: int where "caddyReadyTimeout = 120"

section \<open>The objects\<close>

definition caddyLabels :: "string gomap" where
  "caddyLabels = [(LabelAppName, CaddyName), (LabelAppManagedBy, LabelManagedBy)]"

definition jstrings :: "string list \<Rightarrow> json" where
  "jstrings ss = JArray (map JString ss)"

text \<open>The configuration that the pod boots with.\<close>

definition caddySeedConfigJSON :: string where
  "caddySeedConfigJSON = marshal (JObject
     [(''admin'', JObject [(''listen'', JString ''localhost:2019'')]),
      (''apps'', JObject [(''http'', JObject [(''servers'', JObject [(''main'',
         JObject [(''listen'', jstrings ['':80'']), (''routes'', JArray [])])])])])])"

definition caddySeedChecksum :: string where
  "caddySeedChecksum = sha256_hex caddySeedConfigJSON"

definition buildCaddyPVC :: kobj where
  "buildCaddyPVC = kobj_of CaddyPVCName CaddyNamespace caddyLabels (PVCBody \<lparr>cm_access = [''ReadWriteOnce''], cm_storage = ''1Gi'', cm_class = None, cm_source = None\<rparr>)"

definition buildCaddyConfigMap :: kobj where
  "buildCaddyConfigMap = kobj_of CaddyConfigMapName CaddyNamespace caddyLabels (ConfigMapBody [(CaddyConfigKey, caddySeedConfigJSON)])"

definition caddy_service_port :: "string \<Rightarrow> 32 word \<Rightarrow> service_port" where
  "caddy_service_port name port = \<lparr>sp_name = name, sp_port = port, sp_target_port = port, sp_protocol = ''TCP''\<rparr>"

definition buildCaddyService :: kobj where
  "buildCaddyService = kobj_of CaddyName CaddyNamespace caddyLabels (ServiceBody
     \<lparr>ks_type = ''ClusterIP'', ks_selector = [(LabelAppName, CaddyName)],
      ks_ports = [caddy_service_port ''http'' 80, caddy_service_port ''https'' 443], ks_cluster_ip = []\<rparr>)"

definition caddy_host_port :: "string \<Rightarrow> 32 word \<Rightarrow> container_port" where
  "caddy_host_port name port = \<lparr>cp_name = name, cp_container_port = port, cp_host_port = port, cp_protocol = ''TCP''\<rparr>"

definition caddy_toleration :: "string \<Rightarrow> toleration" where
  "caddy_toleration k = \<lparr>tol_key = k, tol_operator = ''Exists'', tol_effect = ''NoSchedule''\<rparr>"

definition caddy_container :: pod_container where
  "caddy_container =
     \<lparr>ct_name = CaddyName, ct_image = CaddyImage, ct_command = [''caddy''],
      ct_args = [''run'', ''--config'', CaddyConfigMountDir @ ''/'' @ CaddyConfigKey, ''--adapter'', []],
      ct_env = [], ct_env_from = [], ct_ports = [caddy_host_port ''http'' 80, caddy_host_port ''https'' 443],
      ct_mounts = [\<lparr>vm_name = ''config'', vm_path = CaddyConfigMountDir, vm_read_only = True, vm_sub_path = []\<rparr>,
        \<lparr>vm_name = ''data'', vm_path = CaddyDataDir, vm_read_only = False, vm_sub_path = []\<rparr>,
        \<lparr>vm_name = ''state'', vm_path = CaddyConfigStateDir, vm_read_only = False, vm_sub_path = []\<rparr>],
      ct_probe = Some \<lparr>pb_handler = TCPSocket 80, pb_initial_delay = 2, pb_period = 5, pb_timeout = 3\<rparr>,
      ct_requests = [(''cpu'', ''50m''), (''memory'', ''64Mi'')],
      ct_limits = [(''cpu'', ''500m''), (''memory'', ''256Mi'')]\<rparr>"

definition caddy_deployment :: "string \<Rightarrow> kobj" where
  "caddy_deployment checksum = kobj_of CaddyName CaddyNamespace caddyLabels (DeploymentBody 1 RecreateStrategy
     [(LabelAppName, CaddyName)]
     \<lparr>pt_labels = caddyLabels, pt_annotations = [(LabelConfigChecksum, checksum)],
      pt_spec =
        \<lparr>ps_restart_policy = [], ps_containers = [caddy_container],
         ps_volumes = [\<lparr>pv_name = ''config'', pv_source = ConfigMapVolume CaddyConfigMapName\<rparr>,
           \<lparr>pv_name = ''data'', pv_source = ClaimVolume CaddyPVCName\<rparr>, \<lparr>pv_name = ''state'', pv_source = EmptyDirVolume\<rparr>],
         ps_pull_secrets = [], ps_node_selector = [(LabelNvoiRole, RoleMaster)], ps_node_affinity = None, ps_preferred = [], ps_spread = [],
         ps_tolerations = [caddy_toleration ''node-role.kubernetes.io/control-plane'',
           caddy_toleration ''node-role.kubernetes.io/master'']\<rparr>\<rparr>)"

definition buildCaddyDeployment :: kobj where
  "buildCaddyDeployment = caddy_deployment caddySeedChecksum"

section \<open>The configuration\<close>

record caddy_route =
  cd_service :: string
  cd_port :: int
  cd_domains :: "string list"

record caddy_config_input =
  ci_namespace :: string
  ci_routes :: "caddy_route list"
  ci_acme_email :: string

definition caddy_dial :: "string \<Rightarrow> caddy_route \<Rightarrow> string" where
  "caddy_dial ns r = cd_service r @ ''.'' @ ns @ ''.svc.cluster.local:'' @ itoa (cd_port r)"

definition route_json :: "string \<Rightarrow> caddy_route \<Rightarrow> json" where
  "route_json ns r = JObject
     [(''match'', JArray [JObject [(''host'', jstrings (cd_domains r))]]),
      (''handle'', JArray [JObject [(''handler'', JString ''reverse_proxy''),
         (''upstreams'', JArray [JObject [(''dial'', JString (caddy_dial ns r))]])]])]"

definition caddy_json :: "json list \<Rightarrow> json list \<Rightarrow> json" where
  "caddy_json routes policies = JObject
     [(''admin'', JObject [(''listen'', JString CaddyAdminListen)]),
      (''apps'', JObject
         [(''http'', JObject [(''servers'', JObject [(''main'', JObject
            [(''listen'', jstrings ['':80'', '':443'']), (''routes'', JArray routes)])])]),
          (''tls'', JObject [(''automation'', JObject [(''policies'', JArray policies)])])])]"

definition policy_json :: "string \<Rightarrow> string list \<Rightarrow> json" where
  "policy_json email subjects = JObject
     [(''subjects'', jstrings subjects),
      (''issuers'', JArray [JObject [(''module'', JString ''acme''), (''email'', JString email)]])]"

text \<open>The loop over the sorted routes.\<close>

definition add_route :: "string \<Rightarrow> json list \<times> string list \<Rightarrow> caddy_route \<Rightarrow> goerr + json list \<times> string list" where
  "add_route ns s r = (case s of (routes, subjects) \<Rightarrow>
     if cd_service r = [] then Inl (Errorf ''BuildCaddyConfig: route with empty service'' [])
     else if cd_domains r = [] then Inr (routes, subjects)
     else if cd_port r = 0 then Inl (Errorf ''BuildCaddyConfig: no port resolved'' [cd_service r])
     else Inr (routes @ [route_json ns r], subjects @ cd_domains r))"

definition BuildCaddyConfig :: "caddy_config_input \<Rightarrow> goerr + string" where
  "BuildCaddyConfig input =
     (if ci_namespace input = [] then Inl (Errorf ''BuildCaddyConfig: namespace required'' [])
      else bindR (foldR (add_route (ci_namespace input)) ([], []) (sort_key cd_service (ci_routes input)))
        (\<lambda>(routes, subjects).
          let email = (if ci_acme_email input = [] then ''acme@'' @ hd subjects else ci_acme_email input);
              policies = (if subjects \<noteq> [] then [policy_json email subjects] else [])
          in Inr (marshal (caddy_json routes policies))))"

section \<open>Reading the routes back\<close>

text \<open>\<open>json.Unmarshal\<close> into the structs: a missing field or \<open>null\<close> is the zero value, another type an error.\<close>

definition json_field :: "string \<Rightarrow> json \<Rightarrow> json option" where
  "json_field k j = (case j of
     JObject kvs \<Rightarrow> Some (get0 JNull (rev kvs) k)
   | JNull \<Rightarrow> Some JNull
   | _ \<Rightarrow> None)"

fun json_text :: "json \<Rightarrow> string option" where
  "json_text (JString s) = Some s"
| "json_text JNull = Some []"
| "json_text _ = None"

definition json_list :: "(json \<Rightarrow> 'a option) \<Rightarrow> json \<Rightarrow> 'a list option" where
  "json_list f j = (case j of JArray xs \<Rightarrow> those (map f xs) | JNull \<Rightarrow> Some [] | _ \<Rightarrow> None)"

definition decode_match :: "json \<Rightarrow> string list option" where
  "decode_match j = Option.bind (json_field ''host'' j) (json_list json_text)"

definition decode_upstream :: "json \<Rightarrow> string option" where
  "decode_upstream j = Option.bind (json_field ''dial'' j) json_text"

definition decode_handler :: "json \<Rightarrow> string list option" where
  "decode_handler j =
     Option.bind (Option.bind (json_field ''handler'' j) json_text) (\<lambda>_.
       Option.bind (json_field ''upstreams'' j) (json_list decode_upstream))"

definition decode_route :: "json \<Rightarrow> (string list list \<times> string list list) option" where
  "decode_route j =
     Option.bind (Option.bind (json_field ''match'' j) (json_list decode_match)) (\<lambda>ms.
       Option.bind (Option.bind (json_field ''handle'' j) (json_list decode_handler)) (\<lambda>hs. Some (ms, hs)))"

text \<open>\<open>fmt.Sscanf\<close> with the verb \<open>%d\<close>.\<close>

definition scan_int :: "string \<Rightarrow> int option" where
  "scan_int s0 =
     (let s = dropWhile is_space s0; neg = has_prefix s ''-'';
          ds = takeWhile is_digit (if neg \<or> has_prefix s ''+'' then tl s else s)
      in if ds = [] then None
         else (case digits_val ds 0 of
             None \<Rightarrow> None
           | Some n \<Rightarrow>
               let i = (if neg then - int n else int n)
               in if - (2 ^ 63) \<le> i \<and> i < 2 ^ 63 then Some i else None))"

definition parseCaddyDial :: "string \<Rightarrow> string \<times> int" where
  "parseCaddyDial dial =
     (case cut CHR '':'' dial of (host, portText, ok) \<Rightarrow>
        if \<not> ok then ([], 0)
        else (case cut CHR ''.'' host of (first, _, _) \<Rightarrow>
          if first = [] then ([], 0)
          else (case scan_int portText of
              None \<Rightarrow> ([], 0)
            | Some p \<Rightarrow> if p = 0 then ([], 0) else (first, p))))"

text \<open>The first upstream of the first handler that has one; empty when there is none.\<close>

definition first_dial :: "string list list \<Rightarrow> string" where
  "first_dial hs = (case find (\<lambda>us. us \<noteq> []) hs of Some us \<Rightarrow> hd us | None \<Rightarrow> [])"

definition live_route :: "string list list \<times> string list list \<Rightarrow> caddy_route list" where
  "live_route r = (case r of (ms, hs) \<Rightarrow>
     if ms = [] \<or> hs = [] \<or> first_dial hs = [] then []
     else (case parseCaddyDial (first_dial hs) of (svc, port) \<Rightarrow>
       if svc = [] \<or> port = 0 then [] else [\<lparr>cd_service = svc, cd_port = port, cd_domains = hd ms\<rparr>]))"

text \<open>The part of \<open>GetCaddyRoutes\<close> that reads the answer of the admin API.\<close>

definition parse_caddy_routes :: "string \<Rightarrow> goerr + caddy_route list" where
  "parse_caddy_routes stdout =
     (let body = trim_space stdout
      in if body = [] \<or> body = ''null'' then Inr []
         else (case Option.bind (unmarshal body) (json_list decode_route) of
             None \<Rightarrow> Inl (Errorf ''parse caddy routes'' [])
           | Some raw \<Rightarrow> Inr (concat (map live_route raw))))"

section \<open>Operations\<close>

record 'w pod_exec =
  px_probe :: "string \<Rightarrow> string \<Rightarrow> string \<Rightarrow> string list \<Rightarrow> 'w \<Rightarrow> string \<times> goerr option"
  px_run :: "string \<Rightarrow> string \<Rightarrow> string \<Rightarrow> string list \<Rightarrow> string \<Rightarrow> 'w \<Rightarrow> (string \<times> string \<times> goerr option) \<times> 'w"
  px_ready_replicas :: "string \<Rightarrow> 32 word"

definition FirstPod :: "'w runtime \<Rightarrow> string \<Rightarrow> string \<Rightarrow> 'w \<Rightarrow> goerr + string" where
  "FirstPod rt ns service w =
     (case rt_pods rt ns service w of
        Inl e \<Rightarrow> Inl (Wrapf (''list pods for '' @ service) (api_error e))
      | Inr [] \<Rightarrow> Inl (Errorf ''no pods found for service'' [service])
      | Inr (p # _) \<Rightarrow> Inr (pod_name p))"

definition firstCaddyPod :: "'w runtime \<Rightarrow> 'w \<Rightarrow> goerr + string" where
  "firstCaddyPod rt w =
     (case FirstPod rt CaddyNamespace CaddyName w of
        Inl e \<Rightarrow> Inl (Wrapf ''caddy pod not ready'' e)
      | Inr name \<Rightarrow> Inr name)"

definition GetCaddyRoutes :: "'w runtime \<Rightarrow> 'w pod_exec \<Rightarrow> 'w \<Rightarrow> goerr + caddy_route list" where
  "GetCaddyRoutes rt px w =
     (case FirstPod rt CaddyNamespace CaddyName w of
        Inl _ \<Rightarrow> Inr []
      | Inr pod \<Rightarrow>
          (case px_probe px CaddyNamespace pod CaddyName
              [''sh'', ''-c'', ''curl -sf http://'' @ CaddyAdminListen @ ''/config/apps/http/servers/main/routes''] w of
             (stdout, Some _) \<Rightarrow> Inr []
           | (stdout, None) \<Rightarrow> parse_caddy_routes stdout))"

definition caddy_ready :: "'w kube_api \<Rightarrow> 'w pod_exec \<Rightarrow> unit \<Rightarrow> 'w \<Rightarrow> (goerr + bool) \<times> unit" where
  "caddy_ready api px s w =
     ((case api_get api KindDeployment CaddyNamespace CaddyName w of
         Inl _ \<Rightarrow> Inr False
       | Inr dep \<Rightarrow>
           (case ko_body dep of
              DeploymentBody desired _ _ _ \<Rightarrow> Inr (sint desired > 0 \<and> px_ready_replicas px (ko_status dep) = desired)
            | _ \<Rightarrow> Inr False)), s)"

definition waitForCaddyReady :: "'w kube_api \<Rightarrow> 'w runtime \<Rightarrow> 'w pod_exec \<Rightarrow> ('w, unit) act" where
  "waitForCaddyReady api rt px w =
     (case Poll rt caddyPollInterval caddyReadyTimeout (caddy_ready api px) () w of (r, _, w') \<Rightarrow> (r, w'))"

definition EnsureCaddy :: "'w kube_api \<Rightarrow> 'w runtime \<Rightarrow> 'w pod_exec \<Rightarrow> ('w, unit) act" where
  "EnsureCaddy api rt px =
     thenA (forA (\<lambda>(what, obj). wrapA (''ensure caddy '' @ what) (ApplyOwned api CaddyNamespace OwnerCaddy obj))
              [(''pvc'', buildCaddyPVC), (''configmap'', buildCaddyConfigMap), (''service'', buildCaddyService),
               (''deployment'', buildCaddyDeployment)])
       (waitForCaddyReady api rt px)"

definition squote :: string where "squote = [CHR 0x27]"

definition reload_command :: "string list" where
  "reload_command = [''sh'', ''-c'', ''curl --fail-with-body -sS -X POST --data-binary @- -H '' @ squote
     @ ''Content-Type: application/json'' @ squote @ '' http://'' @ CaddyAdminListen @ ''/load'']"

definition ReloadCaddyConfig :: "'w runtime \<Rightarrow> 'w pod_exec \<Rightarrow> string \<Rightarrow> ('w, unit) act" where
  "ReloadCaddyConfig rt px configJSON w =
     (case firstCaddyPod rt w of
        Inl e \<Rightarrow> (Inl (Wrapf ''caddy reload'' e), w)
      | Inr pod \<Rightarrow>
          (case px_run px CaddyNamespace pod CaddyName reload_command configJSON w of
             ((_, _, None), w') \<Rightarrow> (Inr (), w')
           | ((stdout, stderr, Some e), w') \<Rightarrow>
               (Inl (if trim_space stdout \<noteq> [] then Errorf ''caddy reload rejected'' [trim_space stdout]
                     else if trim_space stderr \<noteq> [] then Wrapf (''caddy reload: '' @ trim_space stderr) e
                     else Wrapf ''caddy reload'' e), w')))"

text \<open>Go's verb \<open>%q\<close> on printable ASCII.\<close>

definition go_quote :: "string \<Rightarrow> string" where
  "go_quote s = quote # concat (map (\<lambda>c. if c = quote \<or> c = backslash then [backslash, c] else [c]) s) @ [quote]"

definition cert_command :: "string \<Rightarrow> string list" where
  "cert_command domain = [''sh'', ''-c'', ''test -s '' @ go_quote (CaddyDataDir
     @ ''/caddy/certificates/acme-v02.api.letsencrypt.org-directory/'' @ domain @ ''/'' @ domain @ ''.crt'')]"

definition https_command :: "string \<Rightarrow> string list" where
  "https_command url = [''sh'', ''-c'', ''code=$(curl -s --connect-timeout 5 -o /dev/null -w '' @ squote @ ''%{http_code}''
     @ squote @ '' '' @ go_quote url @ ''); case '' @ [quote] @ ''$code'' @ [quote] @ '' in 5*|0*) exit 1 ;; *) exit 0 ;; esac'']"

definition probe_until :: "'w runtime \<Rightarrow> 'w pod_exec \<Rightarrow> int \<Rightarrow> string \<Rightarrow> string list \<Rightarrow> ('w, unit) act" where
  "probe_until rt px timeout pod cmd w =
     (case Poll rt caddyPollInterval timeout
          (\<lambda>s w. (Inr (snd (px_probe px CaddyNamespace pod CaddyName cmd w) = None), s)) () w of
        (r, _, w') \<Rightarrow> (r, w'))"

definition WaitForCaddyCert :: "'w runtime \<Rightarrow> 'w pod_exec \<Rightarrow> string \<Rightarrow> ('w, unit) act" where
  "WaitForCaddyCert rt px domain =
     bindA (readA (firstCaddyPod rt)) (\<lambda>pod. probe_until rt px caddyCertTimeout pod (cert_command domain))"

definition WaitForCaddyHTTPS :: "'w runtime \<Rightarrow> 'w pod_exec \<Rightarrow> string \<Rightarrow> string \<Rightarrow> ('w, unit) act" where
  "WaitForCaddyHTTPS rt px domain healthPath =
     bindA (readA (firstCaddyPod rt)) (\<lambda>pod.
       probe_until rt px caddyHTTPSTimeout pod
         (https_command (''https://'' @ domain @ (if healthPath = [] then ''/'' else healthPath))))"

section \<open>The configuration and the routes read back\<close>

lemma scan_itoa: "0 \<le> i \<Longrightarrow> i < 2 ^ 63 \<Longrightarrow> scan_int (itoa i) = Some i"
proof -
  assume i: "0 \<le> i" "i < 2 ^ 63"
  let ?ds = "itoa_nat (nat i)"
  have ds: "digits_val ?ds 0 = Some (nat i)" "\<forall>c \<in> set ?ds. is_digit c" "?ds \<noteq> []" using digits_itoa by auto
  then obtain c cs where c: "?ds = c # cs" "is_digit c" by (cases ?ds) auto
  then have "\<not> is_space c" "c \<noteq> CHR ''-''" "c \<noteq> CHR ''+''" by (auto simp: is_digit_def is_space_def less_eq_char_def)
  then have "dropWhile is_space ?ds = ?ds" "\<not> has_prefix ?ds ''-''" "\<not> has_prefix ?ds ''+''"
    by (simp_all add: c has_prefix_def)
  moreover have t: "takeWhile is_digit ?ds = ?ds" using ds(2) by simp
  ultimately show ?thesis using i ds by (simp add: scan_int_def itoa_def Let_def t)
qed

text \<open>A route whose parts the dial address can hold.\<close>

definition route_ok :: "caddy_route \<Rightarrow> bool" where
  "route_ok r \<longleftrightarrow> cd_service r \<noteq> [] \<and> CHR ''.'' \<notin> set (cd_service r) \<and> CHR '':'' \<notin> set (cd_service r) \<and>
     0 < cd_port r \<and> cd_port r < 2 ^ 63 \<and> (\<forall>c \<in> set (cd_service r) \<union> \<Union> (set ` set (cd_domains r)). plain_byte c)"

lemma parse_dial:
  assumes "route_ok r" "CHR '':'' \<notin> set ns"
  shows "parseCaddyDial (caddy_dial ns r) = (cd_service r, cd_port r)"
proof -
  have "cut CHR '':'' (caddy_dial ns r) = (cd_service r @ ''.'' @ ns @ ''.svc.cluster.local'', itoa (cd_port r), True)"
    using cut_append [of "CHR '':''" "cd_service r @ ''.'' @ ns @ ''.svc.cluster.local''" "itoa (cd_port r)"] assms
    by (simp add: caddy_dial_def route_ok_def)
  moreover have "cut CHR ''.'' (cd_service r @ ''.'' @ ns @ ''.svc.cluster.local'') = (cd_service r, ns @ ''.svc.cluster.local'', True)"
    using assms by (simp add: route_ok_def)
  ultimately show ?thesis using assms by (simp add: parseCaddyDial_def route_ok_def scan_itoa)
qed

lemma json_list_text: "json_list json_text (jstrings ss) = Some ss"
  by (induction ss) (auto simp: json_list_def jstrings_def)

lemma field_simps [simp]:
  "json_field k (JObject kvs) = Some (get0 JNull (rev kvs) k)"
  by (simp add: json_field_def)

lemma decode_route_json: "decode_route (route_json ns r) = Some ([cd_domains r], [[caddy_dial ns r]])"
proof -
  have match: "decode_match (JObject [(''host'', jstrings ds)]) = Some ds" for ds
    by (simp add: decode_match_def get0_def json_list_text)
  have handler: "decode_handler (JObject [(''handler'', JString h),
      (''upstreams'', JArray [JObject [(''dial'', JString d)]])]) = Some [d]" for h d
    by (simp add: decode_handler_def get0_def json_list_def decode_upstream_def)
  show ?thesis
    by (simp add: decode_route_def route_json_def get0_def json_list_def match handler)
qed

lemma live_route_json:
  assumes "route_ok r" "CHR '':'' \<notin> set ns"
  shows "live_route ([cd_domains r], [[caddy_dial ns r]]) = [r]"
proof -
  have "caddy_dial ns r \<noteq> []" by (simp add: caddy_dial_def)
  with assms parse_dial [OF assms] show ?thesis
    by (simp add: live_route_def first_dial_def route_ok_def)
qed

lemma routes_decode:
  assumes "\<forall>r \<in> set rs. route_ok r" "CHR '':'' \<notin> set ns"
  shows "\<exists>raw. json_list decode_route (JArray (map (route_json ns) rs)) = Some raw \<and> concat (map live_route raw) = rs"
  using assms by (induction rs) (auto simp: json_list_def decode_route_json live_route_json)

lemma add_route_fold:
  assumes "\<forall>r \<in> set rs. cd_service r \<noteq> [] \<and> (cd_domains r = [] \<or> cd_port r \<noteq> 0)"
  shows "foldR (add_route ns) (routes, subjects) rs =
    Inr (routes @ map (route_json ns) (filter (\<lambda>r. cd_domains r \<noteq> []) rs), subjects @ concat (map cd_domains rs))"
  using assms by (induction rs arbitrary: routes subjects) (auto simp: add_route_def)

text \<open>The routes that a configuration serves, and the part of it that the admin API returns for them.\<close>

definition served_routes :: "caddy_config_input \<Rightarrow> caddy_route list" where
  "served_routes input = filter (\<lambda>r. cd_domains r \<noteq> []) (sort_key cd_service (ci_routes input))"

definition json_path :: "string list \<Rightarrow> json \<Rightarrow> json option" where
  "json_path ks j = foldl (\<lambda>o' k. Option.bind o' (json_field k)) (Some j) ks"

lemma BuildCaddyConfig_Inr:
  assumes "ci_namespace input \<noteq> []" "\<forall>r \<in> set (ci_routes input). cd_service r \<noteq> [] \<and> (cd_domains r = [] \<or> cd_port r \<noteq> 0)"
  shows "\<exists>policies. BuildCaddyConfig input =
    Inr (marshal (caddy_json (map (route_json (ci_namespace input)) (served_routes input)) policies)) \<and>
    policies = (let subjects = concat (map cd_domains (served_routes input))
      in if subjects = [] then [] else
         [policy_json (if ci_acme_email input = [] then ''acme@'' @ hd subjects else ci_acme_email input) subjects])"
proof -
  have "concat (map cd_domains rs) = concat (map cd_domains (filter (\<lambda>r. cd_domains r \<noteq> []) rs))" for rs
    by (induction rs) auto
  then have "concat (map cd_domains (sort_key cd_service (ci_routes input))) = concat (map cd_domains (served_routes input))"
    unfolding served_routes_def by metis
  with assms show ?thesis
    by (auto simp: BuildCaddyConfig_def add_route_fold served_routes_def Let_def)
qed


lemma trim_array: "trim_space (marshal (JArray xs)) = marshal (JArray xs)"
  by (simp add: trim_space_def is_space_def)

lemma array_not_null: "marshal (JArray xs) \<noteq> ''null'' \<and> marshal (JArray xs) \<noteq> []"
  by simp

lemma parse_array:
  assumes "unmarshal (marshal (JArray xs)) = Some j" "json_list decode_route j = Some raw"
  shows "parse_caddy_routes (marshal (JArray xs)) = Inr (concat (map live_route raw))"
  unfolding parse_caddy_routes_def trim_array Let_def using array_not_null [of xs] assms
  by (simp del: marshal.simps)

lemma plain_itoa: "c \<in> set (itoa i) \<Longrightarrow> plain_byte c"
  using digits_itoa [of "nat i"] digits_itoa [of "nat (- i)"]
  by (auto simp: itoa_def plain_byte_def is_digit_def less_eq_char_def split: if_splits)

lemma plain_jstrings: "plain_json (jstrings ss) \<longleftrightarrow> (\<forall>s \<in> set ss. \<forall>c \<in> set s. plain_byte c)"
  by (simp add: jstrings_def)

lemma plain_literals:
  "\<forall>c \<in> set ''.svc.cluster.local:''. plain_byte c" "\<forall>c \<in> set CaddyAdminListen. plain_byte c"
  "\<forall>c \<in> set ''acme@''. plain_byte c"
  by code_simp+

lemma plain_route:
  "route_ok r \<Longrightarrow> \<forall>c \<in> set ns. plain_byte c \<Longrightarrow> plain_json (route_json ns r)"
  using plain_literals(1)
  by (auto simp: route_json_def plain_jstrings route_ok_def caddy_dial_def plain_byte_def dest!: plain_itoa)

definition config_ok :: "caddy_config_input \<Rightarrow> bool" where
  "config_ok input \<longleftrightarrow> ci_namespace input \<noteq> [] \<and> CHR '':'' \<notin> set (ci_namespace input) \<and>
     (\<forall>c \<in> set (ci_namespace input) \<union> set (ci_acme_email input). plain_byte c) \<and> (\<forall>r \<in> set (ci_routes input). route_ok r)"

lemma plain_config:
  assumes "config_ok input" "BuildCaddyConfig input = Inr (marshal (caddy_json (map (route_json (ci_namespace input)) (served_routes input)) policies))"
    and "policies = (let subjects = concat (map cd_domains (served_routes input))
      in if subjects = [] then [] else
         [policy_json (if ci_acme_email input = [] then ''acme@'' @ hd subjects else ci_acme_email input) subjects])"
  shows "plain_json (caddy_json (map (route_json (ci_namespace input)) (served_routes input)) policies)"
proof -
  have served: "set (served_routes input) \<subseteq> set (ci_routes input)" by (auto simp: served_routes_def)
  let ?subjects = "concat (map cd_domains (served_routes input))"
  have subjects: "\<forall>s \<in> set ?subjects. \<forall>c \<in> set s. plain_byte c"
    using assms(1) served by (fastforce simp: config_ok_def route_ok_def)
  then have "?subjects \<noteq> [] \<Longrightarrow> \<forall>c \<in> set (hd ?subjects). plain_byte c" using hd_in_set by blast
  moreover have "\<forall>j \<in> set (map (route_json (ci_namespace input)) (served_routes input)). plain_json j"
    using assms(1) served plain_route unfolding config_ok_def by auto
  moreover have "\<forall>c \<in> set (ci_acme_email input). plain_byte c" using assms(1) by (simp add: config_ok_def)
  ultimately show ?thesis
    using plain_literals subjects
    by (auto simp: caddy_json_def assms(3) policy_json_def plain_jstrings plain_byte_def Let_def)
qed

text \<open>
  C28: what the program loads into Caddy is what it reads back from it: the configuration built from the
  routes is well-formed JSON, and \<open>GetCaddyRoutes\<close>, given the part of it that the admin API
  returns, yields exactly the routes with domains, sorted by service.
\<close>

theorem caddy_routes_roundtrip:
  assumes "config_ok input"
  shows "\<exists>bytes cfg routes. BuildCaddyConfig input = Inr bytes \<and> unmarshal bytes = Some cfg \<and>
    json_path [''apps'', ''http'', ''servers'', ''main'', ''routes''] cfg = Some routes \<and>
    parse_caddy_routes (marshal routes) = Inr (served_routes input)"
proof -
  let ?routes = "JArray (map (route_json (ci_namespace input)) (served_routes input))"
  have pre: "ci_namespace input \<noteq> []" "\<forall>r \<in> set (ci_routes input). cd_service r \<noteq> [] \<and> (cd_domains r = [] \<or> cd_port r \<noteq> 0)"
    using assms by (auto simp: config_ok_def route_ok_def)
  from BuildCaddyConfig_Inr [OF this] obtain policies where build:
    "BuildCaddyConfig input = Inr (marshal (caddy_json (map (route_json (ci_namespace input)) (served_routes input)) policies))"
    "policies = (let subjects = concat (map cd_domains (served_routes input))
      in if subjects = [] then [] else
         [policy_json (if ci_acme_email input = [] then ''acme@'' @ hd subjects else ci_acme_email input) subjects])" by blast
  note plain = plain_config [OF assms build]
  have path: "json_path [''apps'', ''http'', ''servers'', ''main'', ''routes'']
      (caddy_json (map (route_json (ci_namespace input)) (served_routes input)) policies) = Some ?routes"
    by (simp add: json_path_def caddy_json_def get0_def)
  have routes: "\<forall>r \<in> set (served_routes input). route_ok r" "CHR '':'' \<notin> set (ci_namespace input)"
    using assms by (auto simp: config_ok_def served_routes_def)
  have "plain_json ?routes" using plain by (simp add: caddy_json_def)
  then have "unmarshal (marshal ?routes) = Some ?routes" by (rule unmarshal_marshal)
  moreover from routes_decode [OF routes] obtain raw where
    "json_list decode_route ?routes = Some raw" "concat (map live_route raw) = served_routes input" by blast
  ultimately have "parse_caddy_routes (marshal ?routes) = Inr (served_routes input)"
    using parse_array by metis
  with build(1) path unmarshal_marshal [OF plain] show ?thesis by blast
qed

corollary caddy_routes_roundtrip_witness:
  "\<exists>bytes. BuildCaddyConfig \<lparr>ci_namespace = ''nvoi-shop-prod'', ci_routes =
      [\<lparr>cd_service = ''web'', cd_port = 80, cd_domains = [''shop.io'', ''www.shop.io'']\<rparr>,
       \<lparr>cd_service = ''api'', cd_port = 8080, cd_domains = [''api.shop.io'']\<rparr>], ci_acme_email = []\<rparr> = Inr bytes"
proof -
  let ?input = "\<lparr>ci_namespace = ''nvoi-shop-prod'', ci_routes =
      [\<lparr>cd_service = ''web'', cd_port = 80, cd_domains = [''shop.io'', ''www.shop.io'']\<rparr>,
       \<lparr>cd_service = ''api'', cd_port = 8080, cd_domains = [''api.shop.io'']\<rparr>], ci_acme_email = []\<rparr>"
  have "config_ok ?input" by code_simp
  from caddy_routes_roundtrip [OF this] show ?thesis by blast
qed

section \<open>Ensuring Caddy\<close>

definition caddy_objects :: "kobj list" where
  "caddy_objects = [buildCaddyPVC, buildCaddyConfigMap, buildCaddyService, buildCaddyDeployment]"

lemma caddy_keys:
  "entry_key CaddyNamespace buildCaddyPVC = (KindPVC, CaddyNamespace, CaddyPVCName)"
  "entry_key CaddyNamespace buildCaddyConfigMap = (KindConfigMap, CaddyNamespace, CaddyConfigMapName)"
  "entry_key CaddyNamespace buildCaddyService = (KindService, CaddyNamespace, CaddyName)"
  "entry_key CaddyNamespace buildCaddyDeployment = (KindDeployment, CaddyNamespace, CaddyName)"
  by (simp_all add: entry_key_def buildCaddyPVC_def buildCaddyConfigMap_def buildCaddyService_def buildCaddyDeployment_def caddy_deployment_def)

lemma caddy_names:
  "ko_kind buildCaddyPVC = KindPVC" "ko_name buildCaddyPVC = CaddyPVCName"
  "ko_kind buildCaddyConfigMap = KindConfigMap" "ko_name buildCaddyConfigMap = CaddyConfigMapName"
  "ko_kind buildCaddyService = KindService" "ko_name buildCaddyService = CaddyName"
  "ko_kind buildCaddyDeployment = KindDeployment" "ko_name buildCaddyDeployment = CaddyName"
  by (simp_all add: buildCaddyPVC_def buildCaddyConfigMap_def buildCaddyService_def buildCaddyDeployment_def caddy_deployment_def)

lemma caddy_keys_inj: "inj_on (entry_key CaddyNamespace) (set caddy_objects)"
  by (auto simp: caddy_objects_def caddy_keys inj_on_def)

context kube_server
begin

text \<open>Applying a list of objects with distinct keys, none of them a claim, and waiting afterwards.\<close>

lemma apply_all_keeps:
  "keeps (changes store (\<lambda>key v. \<exists>obj \<in> set (map snd objs). key = entry_key ns obj \<and> v = Some (core (stamp ow obj))))
     (forA (\<lambda>(what, obj). wrapA (ctx what) (ApplyOwned api ns ow obj)) objs)"
proof (rule change.loop)
  fix x
  assume "x \<in> set objs"
  then have mem: "snd x \<in> set (map snd objs)" by simp
  obtain what obj where x: "x = (what, obj)" by (cases x)
  have "keeps (changes store (\<lambda>key v. key = entry_key ns obj \<and> v = Some (core (stamp ow obj)))) (ApplyOwned api ns ow obj)"
    unfolding keeps_def by (metis ApplyOwned_spec prod.collapse)
  then have "keeps (changes store (\<lambda>key v. \<exists>obj \<in> set (map snd objs). key = entry_key ns obj \<and> v = Some (core (stamp ow obj))))
      (ApplyOwned api ns ow obj)"
    by (rule keeps_mono, elim changes_mono) (use mem in \<open>simp add: x; blast\<close>)
  then show "keeps (changes store (\<lambda>key v. \<exists>obj \<in> set (map snd objs). key = entry_key ns obj \<and> v = Some (core (stamp ow obj))))
      (case x of (what, obj) \<Rightarrow> wrapA (ctx what) (ApplyOwned api ns ow obj))"
    unfolding x prod.case by (rule change.wrap)
qed

lemma apply_all_ok:
  assumes "forA (\<lambda>(what, obj). wrapA (ctx what) (ApplyOwned api ns ow obj)) objs w = (Inr (), w')"
    and "x \<in> set (map snd objs)" "ko_kind x \<noteq> KindPVC" "inj_on (entry_key ns) (set (map snd objs))" "distinct objs"
  shows "store w' (entry_key ns x) = Some (core (stamp ow x))"
proof -
  from assms(2) obtain what where x: "(what, x) \<in> set objs" by auto
  obtain w1 w2 ys where step: "wrapA (ctx what) (ApplyOwned api ns ow x) w1 = (Inr (), w2)"
    and rest: "forA (\<lambda>(what, obj). wrapA (ctx what) (ApplyOwned api ns ow obj)) ys w2 = (Inr (), w')"
    and ys: "set ys \<subseteq> set objs"
    using forA_reaches [OF assms(1) x assms(5)] by auto
  have "store w2 (entry_key ns x) = Some (core (stamp ow x))"
    using step ApplyOwned_spec [of ns ow x w1 "Inr ()" w2] assms(3) by simp
  moreover have "store w' (entry_key ns x) = store w2 (entry_key ns x) \<or>
      (\<exists>obj \<in> set (map snd ys). entry_key ns x = entry_key ns obj \<and> store w' (entry_key ns x) = Some (core (stamp ow obj)))"
    using keepsD [OF apply_all_keeps rest] unfolding changes_def by blast
  moreover have "obj = x" if obj: "obj \<in> set (map snd ys)" "entry_key ns x = entry_key ns obj" for obj
  proof -
    have "obj \<in> set (map snd objs)" using obj(1) ys unfolding set_map by blast
    from inj_onD [OF assms(4) obj(2) assms(2) this] show ?thesis ..
  qed
  ultimately show ?thesis by metis
qed

lemma waitForCaddyReady_quiet:
  assumes "sleeps_quiet rt store" "waitForCaddyReady api rt px w = (r, w')"
  shows "store w' = store w" "r = Inr () \<Longrightarrow> fst (caddy_ready api px () w') = Inr True"
proof -
  obtain s where poll: "Poll rt caddyPollInterval caddyReadyTimeout (caddy_ready api px) () w = (r, s, w')"
    using assms(2) by (auto simp: waitForCaddyReady_def split: prod.splits)
  then show "store w' = store w" unfolding Poll_def by (rule poll_keeps [OF assms(1)])
  show "fst (caddy_ready api px () w') = Inr True" if "r = Inr ()"
    using poll_loop_Inr [OF poll [unfolded that Poll_def], of "\<lambda>_. True"] by simp
qed

lemma EnsureCaddy_spec:
  assumes "sleeps_quiet rt store" "EnsureCaddy api rt px w = (r, w')"
  shows "changes store (\<lambda>key v. \<exists>obj \<in> set caddy_objects. key = entry_key CaddyNamespace obj \<and>
      v = Some (core (stamp OwnerCaddy obj))) w w'"
    and "r = Inr () \<Longrightarrow> (\<forall>obj \<in> set caddy_objects. ko_kind obj \<noteq> KindPVC \<longrightarrow>
      store w' (entry_key CaddyNamespace obj) = Some (core (stamp OwnerCaddy obj))) \<and>
      (fst (caddy_ready api px () w') = Inr True)"
proof -
  let ?objs = "[(''pvc'', buildCaddyPVC), (''configmap'', buildCaddyConfigMap), (''service'', buildCaddyService),
               (''deployment'', buildCaddyDeployment)]"
  let ?loop = "forA (\<lambda>(what, obj). wrapA (''ensure caddy '' @ what) (ApplyOwned api CaddyNamespace OwnerCaddy obj)) ?objs"
  have objs: "set (map snd ?objs) = set caddy_objects" by (simp add: caddy_objects_def)
  let ?P = "\<lambda>key v. \<exists>obj \<in> set caddy_objects. key = entry_key CaddyNamespace obj \<and> v = Some (core (stamp OwnerCaddy obj))"
  have loop: "keeps (changes store ?P) ?loop" using apply_all_keeps [where objs = ?objs] unfolding objs .
  have "store (snd (waitForCaddyReady api rt px w1)) = store w1" for w1
    using waitForCaddyReady_quiet(1) [OF assms(1)] by (metis prod.collapse)
  then have "keeps (changes store ?P) (waitForCaddyReady api rt px)" by (simp add: keeps_def changes_def)
  from keepsD [OF change.seq [OF loop this]] assms(2) show "changes store ?P w w'"
    by (simp add: EnsureCaddy_def)
  assume ok: "r = Inr ()"
  obtain w1 where w1: "?loop w = (Inr (), w1)" "waitForCaddyReady api rt px w1 = (Inr (), w')"
    using assms(2) [unfolded ok EnsureCaddy_def thenA_Inr] by blast
  have "distinct ?objs" by simp
  from apply_all_ok [OF w1(1) _ _ caddy_keys_inj [folded objs] this] waitForCaddyReady_quiet [OF assms(1) w1(2)]
  show "(\<forall>obj \<in> set caddy_objects. ko_kind obj \<noteq> KindPVC \<longrightarrow>
      store w' (entry_key CaddyNamespace obj) = Some (core (stamp OwnerCaddy obj))) \<and>
      (fst (caddy_ready api px () w') = Inr True)"
    unfolding objs by simp
qed

end


definition ready_exec :: "mem_world pod_exec" where
  "ready_exec = \<lparr>px_probe = (\<lambda>_ _ _ _ _. ([], None)), px_run = (\<lambda>_ _ _ _ _ w. (([], [], None), w)), px_ready_replicas = (\<lambda>_. 1)\<rparr>"

definition demo_caddy :: "string \<Rightarrow> goerr + unit" where
  "demo_caddy checksum = fst (thenA (forA (\<lambda>(what, obj). wrapA (''ensure caddy '' @ what) (ApplyOwned mem_api CaddyNamespace OwnerCaddy obj))
      [(''pvc'', buildCaddyPVC), (''configmap'', buildCaddyConfigMap), (''service'', buildCaddyService),
       (''deployment'', caddy_deployment checksum)])
      (waitForCaddyReady mem_api quiet_runtime ready_exec) demo_world)"

lemma demo_caddy_ok: "demo_caddy checksum = Inr ()"
  by code_simp


end
