(* ===== verification/Jobs.thy ===== *)
theory Jobs
  imports Rollout
begin

text \<open>
  Waiting for a one-shot job: \<open>WaitForJob\<close> of \<open>pkg/kube/cron.go\<close>. The counters of the job and its
  pods are read from the world; the logs that the error messages quote are left out.
\<close>

record job_status =
  jb_succeeded :: int
  jb_failed :: int

record 'w job_view =
  jv_get :: "string \<Rightarrow> string \<Rightarrow> 'w \<Rightarrow> api_err + job_status"
  jv_pods :: "string \<Rightarrow> string \<Rightarrow> 'w \<Rightarrow> api_err + pod list"

definition jobTimeout :: int where "jobTimeout = 300"

text \<open>What is wrong with a container of the job, in the order of the checks.\<close>

definition job_container_failure :: "string \<Rightarrow> container_status \<Rightarrow> goerr option" where
  "job_container_failure jobName cs =
     first_err
       [case cst_waiting cs of
          None \<Rightarrow> None
        | Some (reason, message) \<Rightarrow>
            if reason \<in> {''CrashLoopBackOff'', ''BackOff''} then Some (Errorf ''job'' [jobName, reason])
            else if reason \<in> {''ImagePullBackOff'', ''ErrImagePull''} then Some (Errorf ''job'' [jobName, reason, message])
            else if reason = ''CreateContainerConfigError'' then Some (Errorf ''job'' [jobName, reason, message])
            else None,
        check (oom_killed cs) (Errorf ''job'' [jobName, ''OOMKilled''])]"

text \<open>A look at the counters: done, failed or, when there is nothing to see, the pods.\<close>

definition job_pods_poll :: "'w job_view \<Rightarrow> string \<Rightarrow> string \<Rightarrow> 'w \<Rightarrow> goerr + bool" where
  "job_pods_poll jv ns jobName w =
     (case jv_pods jv ns (''job-name='' @ jobName) w of
        Inl _ \<Rightarrow> Inr False
      | Inr pods \<Rightarrow>
          (case each (job_container_failure jobName) (concat (map pod_statuses pods)) of
             Some e \<Rightarrow> Inl e
           | None \<Rightarrow> Inr False))"

definition job_poll :: "'w job_view \<Rightarrow> string \<Rightarrow> string \<Rightarrow> 'w \<Rightarrow> goerr + bool" where
  "job_poll jv ns jobName w =
     (case jv_get jv ns jobName w of
        Inl ApiNotFound \<Rightarrow> job_pods_poll jv ns jobName w
      | Inl _ \<Rightarrow> Inr False
      | Inr job \<Rightarrow>
          if jb_succeeded job > 0 then Inr True
          else if jb_failed job > 0 then Inl (Errorf ''job failed'' [jobName])
          else job_pods_poll jv ns jobName w)"

definition WaitForJob :: "'w runtime \<Rightarrow> 'w job_view \<Rightarrow> string \<Rightarrow> string \<Rightarrow> ('w, unit) act" where
  "WaitForJob rt jv ns jobName w =
     (case Poll rt rolloutPollInterval jobTimeout (\<lambda>_ w. (job_poll jv ns jobName w, ())) () w of
        (r, _, w') \<Rightarrow> (r, w'))"

text \<open>The wait reports success only for a job that has a success on record.\<close>

lemma job_pods_poll_False: "job_pods_poll jv ns jobName w \<noteq> Inr True"
  by (auto simp: job_pods_poll_def split: sum.splits option.splits)

lemma WaitForJob_sound:
  assumes "WaitForJob rt jv ns jobName w = (Inr (), w')"
  shows "\<exists>job. jv_get jv ns jobName w' = Inr job \<and> jb_succeeded job > 0"
proof -
  let ?fn = "\<lambda>_ w. (job_poll jv ns jobName w, ())"
  from assms obtain s where "Poll rt rolloutPollInterval jobTimeout ?fn () w = (Inr (), s, w')"
    by (auto simp: WaitForJob_def split: prod.splits)
  from poll_loop_Inr [OF this [unfolded Poll_def], of "\<lambda>_. True"] have "job_poll jv ns jobName w' = Inr True" by simp
  then show ?thesis
    using job_pods_poll_False [of jv ns jobName w']
    by (auto simp: job_poll_def split: sum.splits api_err.splits if_splits)
qed

end
