(* ===== verification/Nodes.thy ===== *)
theory Nodes
  imports Kube
begin

text \<open>
  The nodes of the cluster: labelling and the drain that precedes the removal of a server
  (\<open>pkg/kube/nodes.go\<close>). Evictions run through the policy API, one pod at a time.
\<close>

record knode =
  nd_name :: string
  nd_conditions :: "(string \<times> string) list"

record bound_pod =
  bp_name :: string
  bp_namespace :: string
  bp_owner_kinds :: "string list"

record 'w node_api =
  na_get :: "string \<Rightarrow> 'w \<Rightarrow> api_err + knode"
  na_label :: "string \<Rightarrow> string \<Rightarrow> string \<Rightarrow> 'w \<Rightarrow> (api_err + unit) \<times> 'w"
  na_pods :: "string \<Rightarrow> 'w \<Rightarrow> api_err + bound_pod list"
  na_evict :: "string \<Rightarrow> string \<Rightarrow> 'w \<Rightarrow> (api_err + unit) \<times> 'w"
  na_delete :: "string \<Rightarrow> 'w \<Rightarrow> (api_err + unit) \<times> 'w"

definition LabelNode :: "'w node_api \<Rightarrow> string \<Rightarrow> string \<Rightarrow> ('w, unit) act" where
  "LabelNode na nodeName role =
     wrapA (''label node '' @ nodeName) (call_ignoring (na_label na nodeName LabelNvoiRole role))"

definition nodeReady :: "knode \<Rightarrow> bool" where
  "nodeReady node \<longleftrightarrow> (case find (\<lambda>(t, _). t = ''Ready'') (nd_conditions node) of
     Some (_, status) \<Rightarrow> status = ''True'' | None \<Rightarrow> False)"

definition isDaemonSetPod :: "bound_pod \<Rightarrow> bool" where
  "isDaemonSetPod p \<longleftrightarrow> ''DaemonSet'' \<in> set (bp_owner_kinds p)"

definition evictPods :: "'w node_api \<Rightarrow> string \<Rightarrow> ('w, unit) act" where
  "evictPods na nodeName w =
     (case na_pods na nodeName w of
        Inl e \<Rightarrow> (Inl (Wrapf (''list pods on '' @ nodeName) (api_error e)), w)
      | Inr pods \<Rightarrow>
          forA (\<lambda>p. if isDaemonSetPod p then retA ()
                    else wrapA (''evict pod '' @ bp_namespace p @ ''/'' @ bp_name p)
                           (call_ignoring (na_evict na (bp_namespace p) (bp_name p)))) pods w)"

definition deleteNode :: "'w node_api \<Rightarrow> string \<Rightarrow> ('w, unit) act" where
  "deleteNode na nodeName = wrapA (''delete node '' @ nodeName) (call_ignoring (na_delete na nodeName))"

definition DrainAndRemoveNode :: "'w node_api \<Rightarrow> string \<Rightarrow> ('w, unit) act" where
  "DrainAndRemoveNode na nodeName w =
     (case na_get na nodeName w of
        Inl ApiNotFound \<Rightarrow> (Inr (), w)
      | Inl e \<Rightarrow> (Inl (Wrapf (''get node '' @ nodeName) (api_error e)), w)
      | Inr node \<Rightarrow>
          (case evictPods na nodeName w of
             (Inl e, w') \<Rightarrow>
               if \<not> nodeReady node then deleteNode na nodeName w'
               else (Inl (Wrapf (''drain node '' @ nodeName) e), w')
           | (Inr _, w') \<Rightarrow> deleteNode na nodeName w'))"

end
