(* ===== verification/Interfaces.thy ===== *)
theory Interfaces
  imports Plan Providers Caddy Jobs Nodes
begin

text \<open>
  What the reconciler sees of the outside (\<open>pkg/provider\<close>, \<open>pkg/core/cluster.go\<close>,
  \<open>internal/config/config.go\<close>): the interfaces of infrastructure, DNS, bucket, tunnel and database
  providers as records of their methods, the context of a deploy, and the attach to the cluster.
  The interfaces that are documented as reads look at the world without changing it.
\<close>

section \<open>The cluster\<close>

text \<open>\<open>kube.Client\<close>: the API, what is observed of its pods, and commands run in them.\<close>

record 'w kube_client =
  cl_api :: "'w kube_api"
  cl_runtime :: "'w runtime"
  cl_exec :: "'w pod_exec"
  cl_jobs :: "'w job_view"
  cl_nodes :: "'w node_api"

record 'w bootstrap_context =
  bc_app :: string
  bc_env :: string
  bc_provider :: string
  bc_credentials :: "string gomap"
  bc_deploy_hash :: string
  bc_cfg :: app_config
  bc_kube :: "'w kube_client option"

text \<open>A shell on a node: running a command, and writing a file with its mode.\<close>

record 'w shell =
  sh_run :: "string \<Rightarrow> ('w, string) act"
  sh_upload :: "string \<Rightarrow> string \<Rightarrow> int \<Rightarrow> ('w, unit) act"

record provider_ref =
  rf_name :: string
  rf_creds :: "string gomap"

section \<open>Providers\<close>

record ingress_binding =
  ib_type :: string
  ib_target :: string
  ib_proxied :: bool

record service_target =
  st_name :: string
  st_port :: int

record builder_target =
  bt_name :: string
  bt_host :: string
  bt_user :: string

definition ErrNotBootstrapped :: goerr where
  "ErrNotBootstrapped = Errorf ''infra not provisioned'' []"

text \<open>\<open>errors.Is\<close>: the error or one that it wraps.\<close>

fun errors_is :: "goerr \<Rightarrow> goerr \<Rightarrow> bool" where
  "errors_is (Wrapf ctx e) target = (Wrapf ctx e = target \<or> errors_is e target)"
| "errors_is e target = (e = target)"

record 'w infra_provider =
  ip_connect :: "'w bootstrap_context \<Rightarrow> ('w, 'w kube_client) act"
  ip_bootstrap :: "'w bootstrap_context \<Rightarrow> ('w, 'w kube_client) act"
  ip_plan :: "'w bootstrap_context \<Rightarrow> 'w \<Rightarrow> goerr + plan_entry list"
  ip_teardown_orphans :: "'w bootstrap_context \<Rightarrow> ('w, unit) act"
  ip_teardown :: "'w bootstrap_context \<Rightarrow> bool \<Rightarrow> ('w, unit) act"
  ip_ingress_binding :: "'w bootstrap_context \<Rightarrow> service_target \<Rightarrow> 'w \<Rightarrow> goerr + ingress_binding"
  ip_public_ingress :: bool
  ip_node_shell :: "'w bootstrap_context \<Rightarrow> ('w, 'w shell option) act"
  ip_ssh_to_node :: "'w bootstrap_context \<Rightarrow> string \<Rightarrow> ('w, 'w shell option) act"
  ip_arch :: "string \<Rightarrow> string"
  ip_provision_builders :: "'w bootstrap_context \<Rightarrow> ('w, unit) act"
  ip_builder_targets :: "'w bootstrap_context \<Rightarrow> 'w \<Rightarrow> goerr + builder_target list"

record dns_binding =
  db_domain :: string
  db_type :: string
  db_target :: string

record 'w dns_provider =
  dp_route :: "string \<Rightarrow> ingress_binding \<Rightarrow> ('w, unit) act"
  dp_unroute :: "string \<Rightarrow> ('w, unit) act"
  dp_list :: "'w \<Rightarrow> goerr + dns_binding list"

record bucket_credentials =
  bk_endpoint :: string
  bk_access_key_id :: string
  bk_secret_access_key :: string
  bk_region :: string

record 'w bucket_provider =
  bp_validate :: "'w \<Rightarrow> goerr + unit"
  bp_ensure :: "string \<Rightarrow> ('w, unit) act"
  bp_empty :: "string \<Rightarrow> ('w, unit) act"
  bp_delete :: "string \<Rightarrow> ('w, unit) act"
  bp_set_cors :: "string \<Rightarrow> string list \<Rightarrow> string list \<Rightarrow> ('w, unit) act"
  bp_set_lifecycle :: "string \<Rightarrow> int \<Rightarrow> ('w, unit) act"
  bp_credentials :: "'w \<Rightarrow> goerr + bucket_credentials"
  bp_list :: "'w \<Rightarrow> goerr + string list"

record tunnel_route =
  tr_hostname :: string
  tr_service :: string
  tr_port :: int
  tr_scheme :: string

record tunnel_request =
  tq_name :: string
  tq_namespace :: string
  tq_labels :: "string gomap"
  tq_routes :: "tunnel_route list"

record tunnel_plan =
  tp_workloads :: "kobj list"
  tp_bindings :: "ingress_binding gomap"

record 'w tunnel_provider =
  tn_reconcile :: "tunnel_request \<Rightarrow> ('w, tunnel_plan) act"
  tn_delete :: "string \<Rightarrow> ('w, unit) act"

text \<open>
  Builders of images (\<open>pkg/provider/build.go\<close>); the registry of build providers has a table of
  capabilities beside it, here the names that need builder servers.
\<close>

record registry_login =
  rl_host :: string
  rl_username :: string
  rl_password :: string

record build_request =
  bq_service :: string
  bq_context :: string
  bq_dockerfile :: string
  bq_platform :: string
  bq_image :: string
  bq_registry :: registry_login
  bq_builders :: "builder_target list"
  bq_ssh_key :: string
  bq_git_remote :: string
  bq_git_ref :: string

record 'w build_provider =
  bl_build :: "build_request \<Rightarrow> ('w, string) act"

text \<open>Databases (\<open>pkg/provider/database.go\<close>).\<close>

record database_backup_spec =
  bs_schedule :: string
  bs_retention :: int

record database_spec =
  ds_engine :: string
  ds_version :: string
  ds_server :: string
  ds_size :: int
  ds_user :: string
  ds_password :: string
  ds_database :: string
  ds_region :: string
  ds_backup :: "database_backup_spec option"

record bucket_handle =
  bh_name :: string
  bh_credentials :: bucket_credentials

record 'w database_request =
  dq_name :: string
  dq_full_name :: string
  dq_namespace :: string
  dq_pod_name :: string
  dq_pvc_name :: string
  dq_backup_name :: string
  dq_credentials_secret :: string
  dq_backup_creds_secret :: string
  dq_image :: string
  dq_labels :: "string gomap"
  dq_spec :: database_spec
  dq_bucket :: "bucket_handle option"
  dq_delete_volumes :: bool
  dq_kube :: "'w kube_client option"
  dq_shell :: "'w shell option"

record database_credentials =
  dc_url :: string
  dc_host :: string
  dc_port :: int
  dc_user :: string
  dc_password :: string
  dc_database :: string
  dc_sslmode :: string

record sql_result =
  sr_columns :: "string list"
  sr_rows :: "string list list"
  sr_affected :: int

record backup_ref =
  br_id :: string
  br_created_at :: string
  br_size :: int
  br_kind :: string

record 'w database_provider =
  dbp_validate :: "'w \<Rightarrow> goerr + unit"
  dbp_ensure_credentials :: "'w kube_client option \<Rightarrow> 'w database_request \<Rightarrow> ('w, database_credentials) act"
  dbp_reconcile :: "'w database_request \<Rightarrow> ('w, kobj list) act"
  dbp_delete :: "'w database_request \<Rightarrow> ('w, unit) act"
  dbp_exec_sql :: "'w database_request \<Rightarrow> string \<Rightarrow> ('w, sql_result) act"
  dbp_backup_now :: "'w database_request \<Rightarrow> ('w, backup_ref) act"
  dbp_list_backups :: "'w database_request \<Rightarrow> 'w \<Rightarrow> goerr + backup_ref list"
  dbp_download :: "'w database_request \<Rightarrow> string \<Rightarrow> 'w \<Rightarrow> goerr + string"
  dbp_restore :: "'w database_request \<Rightarrow> string \<Rightarrow> ('w, unit) act"

text \<open>Every registry of the process, and the digest of the backup image (\<open>ResolveDBImage\<close>).\<close>

record 'w provider_set =
  ps_infra :: "'w infra_provider provider_registry"
  ps_dns :: "'w dns_provider provider_registry"
  ps_bucket :: "'w bucket_provider provider_registry"
  ps_tunnel :: "'w tunnel_provider provider_registry"
  ps_build :: "'w build_provider provider_registry"
  ps_build_caps :: "bool gomap"
  ps_database :: "'w database_provider provider_registry"
  ps_db_image :: "'w \<Rightarrow> goerr + string"

definition no_providers :: "'w provider_set" where
  "no_providers = \<lparr>ps_infra = newRegistry ''infra'', ps_dns = newRegistry ''DNS'', ps_bucket = newRegistry ''storage'',
     ps_tunnel = newRegistry ''tunnel'', ps_build = newRegistry ''build'', ps_build_caps = [],
     ps_database = newRegistry ''database'', ps_db_image = (\<lambda>_. Inl (ExtErr ''unreachable''))\<rparr>"

section \<open>The context of a deploy\<close>

text \<open>\<open>DeployContext\<close> with the fields of its \<open>Cluster\<close> that the reconciler reads and sets.\<close>

record 'w deploy_context =
  dx_app :: string
  dx_env :: string
  dx_provider :: string
  dx_credentials :: "string gomap"
  dx_kube :: "'w kube_client option"
  dx_shell :: "'w shell option"
  dx_hash :: string
  dx_dns :: provider_ref
  dx_storage :: provider_ref
  dx_tunnel :: provider_ref
  dx_creds :: "cred_source option"
  dx_ssh_key :: string
  dx_git_remote :: string
  dx_git_ref :: string

definition deploy_context0 :: "string \<Rightarrow> string \<Rightarrow> 'w deploy_context" where
  "deploy_context0 app env = \<lparr>dx_app = app, dx_env = env, dx_provider = ''hetzner'', dx_credentials = [],
     dx_kube = None, dx_shell = None, dx_hash = [], dx_dns = \<lparr>rf_name = [], rf_creds = []\<rparr>,
     dx_storage = \<lparr>rf_name = [], rf_creds = []\<rparr>, dx_tunnel = \<lparr>rf_name = [], rf_creds = []\<rparr>,
     dx_creds = Some (MapSource []), dx_ssh_key = [], dx_git_remote = [], dx_git_ref = []\<rparr>"

definition Names :: "'w deploy_context \<Rightarrow> goerr + names" where
  "Names dc = NewNames (dx_app dc) (dx_env dc)"

definition wrapR :: "string \<Rightarrow> goerr + 'a \<Rightarrow> goerr + 'a" where
  "wrapR ctx r = map_sum (Wrapf ctx) id r"

lemma wrapR_Inr: "wrapR ctx r = Inr x \<longleftrightarrow> r = Inr x"
  by (cases r) (auto simp: wrapR_def)

text \<open>The context for the providers' methods, as \<open>Deploy\<close> and as \<open>Cluster\<close> build it.\<close>

definition BootstrapContext :: "'w deploy_context \<Rightarrow> app_config \<Rightarrow> 'w bootstrap_context" where
  "BootstrapContext dc cfg =
     \<lparr>bc_app = dx_app dc, bc_env = dx_env dc, bc_provider = (if dx_provider dc = [] then p_infra (cfg_providers cfg) else dx_provider dc),
      bc_credentials = dx_credentials dc, bc_deploy_hash = dx_hash dc, bc_cfg = cfg, bc_kube = dx_kube dc\<rparr>"

definition cluster_context :: "'w deploy_context \<Rightarrow> app_config \<Rightarrow> 'w bootstrap_context" where
  "cluster_context dc cfg =
     \<lparr>bc_app = dx_app dc, bc_env = dx_env dc, bc_provider = dx_provider dc,
      bc_credentials = dx_credentials dc, bc_deploy_hash = dx_hash dc, bc_cfg = cfg, bc_kube = dx_kube dc\<rparr>"

definition cluster_infra :: "'w provider_set \<Rightarrow> 'w deploy_context \<Rightarrow> goerr + 'w infra_provider" where
  "cluster_infra P dc = wrapR ''resolve infra provider'' (resolve (ps_infra P) (dx_provider dc) (dx_credentials dc))"

definition Kube :: "'w provider_set \<Rightarrow> 'w deploy_context \<Rightarrow> app_config \<Rightarrow> ('w, 'w kube_client \<times> names) act" where
  "Kube P dc cfg =
     bindA (readA (\<lambda>_. Names dc)) (\<lambda>names.
       case dx_kube dc of
         Some kc \<Rightarrow> retA (kc, names)
       | None \<Rightarrow>
           bindA (readA (\<lambda>_. cluster_infra P dc)) (\<lambda>infra.
           \<lambda>w. case ip_connect infra (cluster_context dc cfg) w of
                 (Inr kc, w') \<Rightarrow> (Inr (kc, names), w')
               | (Inl e, w') \<Rightarrow>
                   (Inl (if errors_is e ErrNotBootstrapped then Errorf ''no infra found'' [dx_app dc, dx_env dc]
                         else Wrapf ''infra.Connect'' e), w')))"

text \<open>A shell on the master, and one on a server of the configuration.\<close>

definition no_shell :: "'w deploy_context \<Rightarrow> goerr" where
  "no_shell dc = Errorf ''infra provider has no node shell'' [dx_provider dc]"

definition require_shell :: "'w deploy_context \<Rightarrow> string \<Rightarrow> goerr \<Rightarrow> (goerr + 'w shell option) \<times> 'w \<Rightarrow> (goerr + 'w shell) \<times> 'w" where
  "require_shell dc ctx absent r = (case r of
       (Inl e, w') \<Rightarrow> (Inl (if errors_is e ErrNotBootstrapped then absent else Wrapf ctx e), w')
     | (Inr None, w') \<Rightarrow> (Inl (no_shell dc), w')
     | (Inr (Some sh), w') \<Rightarrow> (Inr sh, w'))"

definition SSH :: "'w provider_set \<Rightarrow> 'w deploy_context \<Rightarrow> app_config \<Rightarrow> ('w, 'w shell \<times> names) act" where
  "SSH P dc cfg =
     bindA (readA (\<lambda>_. Names dc)) (\<lambda>names.
       case dx_shell dc of
         Some sh \<Rightarrow> retA (sh, names)
       | None \<Rightarrow>
           bindA (readA (\<lambda>_. cluster_infra P dc)) (\<lambda>infra.
           bindA (\<lambda>w. require_shell dc ''infra.NodeShell'' (Errorf ''no infra found'' [dx_app dc, dx_env dc])
                   (ip_node_shell infra (cluster_context dc cfg) w)) (\<lambda>sh. retA (sh, names))))"

definition SSHToNode :: "'w provider_set \<Rightarrow> 'w deploy_context \<Rightarrow> app_config \<Rightarrow> string \<Rightarrow> ('w, 'w shell) act" where
  "SSHToNode P dc cfg serverName =
     bindA (readA (\<lambda>_. cluster_infra P dc)) (\<lambda>infra.
       \<lambda>w. require_shell dc (''infra.SSHToNode '' @ serverName) (Errorf ''server not found'' [serverName, dx_app dc, dx_env dc])
             (ip_ssh_to_node infra (cluster_context dc cfg) serverName w))"

text \<open>The pre-set client is used as it is: attaching to a known cluster is not an event.\<close>

lemma Kube_borrowed:
  "dx_kube dc = Some kc \<Longrightarrow> Kube P dc cfg w = (map_sum id (Pair kc) (Names dc), w)"
  by (auto simp: Kube_def bindA_def readA_def retA_def split: sum.split)

end
