(* ===== verification/VarRefs.thy ===== *)
theory VarRefs
  imports Naming
begin

text \<open>
  \<open>pkg/utils/envvars.go\<close> and \<open>internal/reconcile/envvars.go\<close>: the references \<open>$VAR\<close> and
  \<open>${VAR}\<close> inside configuration values, their enumeration and their substitution, and the
  splitting of the entries of \<open>env:\<close>, \<open>secrets:\<close> and \<open>databases:\<close>.
\<close>

section \<open>References\<close>

definition IsVarStart :: "char \<Rightarrow> bool" where
  "IsVarStart b \<longleftrightarrow> is_upper b \<or> is_lower b \<or> b = CHR ''_''"

definition IsVarChar :: "char \<Rightarrow> bool" where
  "IsVarChar b \<longleftrightarrow> IsVarStart b \<or> is_digit b"

text \<open>
  The scanners walk a string from left to right; the argument is the part not read yet. In
  \<open>$VAR\<close> the name is the longest run of \<open>IsVarChar\<close>; a brace without its closing brace ends
  the scan.
\<close>

function ExtractVarRefs :: "string \<Rightarrow> string list" where
  "ExtractVarRefs [] = []"
| "ExtractVarRefs [c] = []"
| "ExtractVarRefs (c # next # rest) =
     (if c \<noteq> CHR ''$'' then ExtractVarRefs (next # rest)
      else if next = CHR ''{'' then
        (case index_byte rest CHR ''}'' of
           None \<Rightarrow> []
         | Some e \<Rightarrow> take e rest # ExtractVarRefs (drop (Suc e) rest))
      else if IsVarStart next then
        (next # takeWhile IsVarChar rest) # ExtractVarRefs (dropWhile IsVarChar rest)
      else ExtractVarRefs (next # rest))"
  by pat_completeness auto
termination
  by (relation "measure length") (auto simp: le_imp_less_Suc length_dropWhile_le less_SucI)

fun HasVarRef :: "string \<Rightarrow> bool" where
  "HasVarRef [] \<longleftrightarrow> False"
| "HasVarRef [c] \<longleftrightarrow> False"
| "HasVarRef (c # next # rest) \<longleftrightarrow>
     c = CHR ''$'' \<and> (next = CHR ''{'' \<or> IsVarStart next) \<or> HasVarRef (next # rest)"

definition lookup_ref :: "string gomap \<Rightarrow> string \<Rightarrow> goerr + string" where
  "lookup_ref sources varName =
     (case map_of sources varName of
        None \<Rightarrow> Inl (Errorf ''is not a known env var'' [varName])
      | Some v \<Rightarrow> Inr v)"

text \<open>The loop of \<open>resolveRef\<close>; what it returns is what is still to be written.\<close>

function resolve_loop :: "string gomap \<Rightarrow> string \<Rightarrow> goerr + string" where
  "resolve_loop sources [] = Inr []"
| "resolve_loop sources [c] = Inr [c]"
| "resolve_loop sources (c # next # rest) =
     (if c \<noteq> CHR ''$'' then
        bindR (resolve_loop sources (next # rest)) (\<lambda>t. Inr (c # t))
      else if next = CHR ''{'' then
        (case index_byte rest CHR ''}'' of
           None \<Rightarrow> Inl (Errorf ''unclosed ${'' [])
         | Some e \<Rightarrow> bindR (lookup_ref sources (take e rest)) (\<lambda>v.
             bindR (resolve_loop sources (drop (Suc e) rest)) (\<lambda>t. Inr (v @ t))))
      else if IsVarStart next then
        bindR (lookup_ref sources (next # takeWhile IsVarChar rest)) (\<lambda>v.
          bindR (resolve_loop sources (dropWhile IsVarChar rest)) (\<lambda>t. Inr (v @ t)))
      else bindR (resolve_loop sources (next # rest)) (\<lambda>t. Inr (c # t)))"
  by pat_completeness auto
termination
  by (relation "measure (length \<circ> snd)") (auto simp: le_imp_less_Suc length_dropWhile_le less_SucI)

definition resolveRef :: "string \<Rightarrow> string gomap \<Rightarrow> goerr + string" where
  "resolveRef val sources = (if \<not> HasVarRef val then Inr val else resolve_loop sources val)"

section \<open>Entries\<close>

definition ParseSecretRef :: "string \<Rightarrow> string \<times> string" where
  "ParseSecretRef ref =
     (case cut CHR ''='' ref of (envName, secretKey, ok) \<Rightarrow> if ok then (envName, secretKey) else (ref, ref))"

definition parseDatabaseRef :: "string \<Rightarrow> string \<times> string" where
  "parseDatabaseRef ref =
     (case cut CHR ''='' ref of (left, right, ok) \<Rightarrow> if ok then (left, right) else ([], ref))"

definition resolveEntry :: "string \<Rightarrow> string gomap \<Rightarrow> goerr + string \<times> string" where
  "resolveEntry entry sources =
     (case ParseSecretRef entry of (key, raw) \<Rightarrow>
        (case resolveRef raw sources of
           Inl e \<Rightarrow> Inl (Wrapf key e)
         | Inr v \<Rightarrow> Inr (key, v)))"

section \<open>Enumeration and substitution agree\<close>

lemma resolve_loop_literal: "\<not> HasVarRef s \<Longrightarrow> resolve_loop sources s = Inr s"
  by (induction s rule: HasVarRef.induct) auto

lemma resolveRef_loop: "resolveRef s sources = resolve_loop sources s"
  by (simp add: resolveRef_def resolve_loop_literal)

lemma ExtractVarRefs_literal: "\<not> HasVarRef s \<Longrightarrow> ExtractVarRefs s = []"
  by (induction s rule: HasVarRef.induct) auto

lemma lookup_ref_Inr [simp]: "lookup_ref sources x = Inr v \<longleftrightarrow> map_of sources x = Some v"
  by (auto simp: lookup_ref_def split: option.splits)

text \<open>A reference \<open>${\<close> whose brace is never closed.\<close>

function unclosed :: "string \<Rightarrow> bool" where
  "unclosed [] \<longleftrightarrow> False"
| "unclosed [c] \<longleftrightarrow> False"
| "unclosed (c # next # rest) \<longleftrightarrow>
     (if c \<noteq> CHR ''$'' then unclosed (next # rest)
      else if next = CHR ''{'' then
        (case index_byte rest CHR ''}'' of None \<Rightarrow> True | Some e \<Rightarrow> unclosed (drop (Suc e) rest))
      else if IsVarStart next then unclosed (dropWhile IsVarChar rest)
      else unclosed (next # rest))"
  by pat_completeness auto
termination
  by (relation "measure length") (auto simp: le_imp_less_Suc length_dropWhile_le less_SucI)

lemma resolve_loop_Inr:
  "(\<exists>v. resolve_loop sources s = Inr v) \<longleftrightarrow>
   \<not> unclosed s \<and> (\<forall>r \<in> set (ExtractVarRefs s). has_key sources r)"
  by (induction s rule: unclosed.induct)
     (auto simp: bindR_eq_Inr has_key_def split: option.splits)

lemma resolve_loop_cong:
  "\<forall>r \<in> set (ExtractVarRefs s). map_of sources r = map_of sources' r \<Longrightarrow>
   resolve_loop sources s = resolve_loop sources' s"
  by (induction s rule: unclosed.induct)
     (auto simp: lookup_ref_def split: option.splits)

text \<open>
  C15: a value resolves exactly when every \<open>${\<close> is closed and every reference that
  \<open>ExtractVarRefs\<close> lists is known; the result depends on the values of these names only, and
  a value without references is returned as it is.
\<close>

theorem resolveRef_spec:
  "((\<exists>v. resolveRef s sources = Inr v) \<longleftrightarrow>
     \<not> unclosed s \<and> (\<forall>r. r \<in> set (ExtractVarRefs s) \<longrightarrow> has_key sources r)) \<and>
   ((\<forall>r. r \<in> set (ExtractVarRefs s) \<longrightarrow> map_of sources r = map_of sources' r) \<longrightarrow>
     resolveRef s sources = resolveRef s sources') \<and>
   (\<not> HasVarRef s \<longrightarrow> resolveRef s sources = Inr s)"
  using resolve_loop_Inr [of sources s] resolve_loop_cong [of s sources sources']
    resolve_loop_literal [of s sources]
  by (auto simp: resolveRef_loop)

corollary resolveRef_spec_witness:
  "resolveRef ''pg://$USER:${PASS}@h?x=$1'' [(''USER'', ''u''), (''PASS'', ''p'')] =
     Inr ''pg://u:p@h?x=$1'' \<and>
   resolveRef ''pg://$USER:${PASS}@h?x=$1'' [(''PASS'', ''p''), (''B'', ''b''), (''USER'', ''u'')] =
     resolveRef ''pg://$USER:${PASS}@h?x=$1'' [(''USER'', ''u''), (''PASS'', ''p'')]"
proof -
  have *: "ExtractVarRefs ''pg://$USER:${PASS}@h?x=$1'' = [''USER'', ''PASS'']"
    by code_simp
  have "resolveRef ''pg://$USER:${PASS}@h?x=$1'' [(''USER'', ''u''), (''PASS'', ''p'')] =
     Inr ''pg://u:p@h?x=$1''" by code_simp
  moreover have "resolveRef ''pg://$USER:${PASS}@h?x=$1'' [(''PASS'', ''p''), (''B'', ''b''), (''USER'', ''u'')] =
     resolveRef ''pg://$USER:${PASS}@h?x=$1'' [(''USER'', ''u''), (''PASS'', ''p'')]"
    using resolveRef_spec [of "''pg://$USER:${PASS}@h?x=$1''"
        "[(''PASS'', ''p''), (''B'', ''b''), (''USER'', ''u'')]" "[(''USER'', ''u''), (''PASS'', ''p'')]"]
    by (simp add: *)
  ultimately show ?thesis by simp
qed

lemma resolveEntry_Inr:
  "resolveEntry entry sources = Inr (k, v) \<longleftrightarrow>
     k = fst (ParseSecretRef entry) \<and> resolveRef (snd (ParseSecretRef entry)) sources = Inr v"
  by (auto simp: resolveEntry_def split: prod.splits sum.splits)

lemma resolveEntry_key: "resolveEntry entry sources = Inr kv \<Longrightarrow> fst kv = fst (ParseSecretRef entry)"
  by (cases kv) (simp add: resolveEntry_Inr)

lemma extract_ref_names: "ExtractVarRefs s = [] \<Longrightarrow> \<not> unclosed s \<Longrightarrow> resolveRef s sources = Inr s"
proof -
  assume "ExtractVarRefs s = []" "\<not> unclosed s"
  then have "\<not> HasVarRef s"
    by (induction s rule: unclosed.induct) (auto split: if_splits option.splits)
  then show ?thesis by (simp add: resolveRef_def)
qed

end
