(* ===== verification/Workloads.thy ===== *)
theory Workloads
  imports KubeObjects VarRefs Config
begin

text \<open>
  The builders of workloads: \<open>BuildService\<close>, \<open>svcSpec\<close>, \<open>buildVolumes\<close> and
  \<open>applyNodePlacement\<close> of \<open>pkg/kube/generate.go\<close>, and \<open>BuildCronJob\<close> of \<open>pkg/kube/cron.go\<close>.
\<close>

section \<open>Pods\<close>

definition applyNodePlacement :: "pod_spec \<Rightarrow> string \<Rightarrow> string list \<Rightarrow> pod_spec" where
  "applyNodePlacement podSpec name servers0 =
     (let servers = (if servers0 = [] then [''master''] else servers0)
      in if length servers = 1
         then podSpec\<lparr>ps_node_selector := [(LabelNvoiRole, hd servers)]\<rparr>
         else podSpec\<lparr>
           ps_node_affinity := Some [\<lparr>nr_key = LabelNvoiRole, nr_operator = ''In'', nr_values = servers\<rparr>],
           ps_spread := [\<lparr>sc_max_skew = 1, sc_topology_key = LabelNvoiRole,
             sc_when_unsatisfiable = ''ScheduleAnyway'', sc_match_labels = [(LabelAppName, name)]\<rparr>]\<rparr>)"

definition vol_name :: "nat \<Rightarrow> string" where
  "vol_name i = ''vol-'' @ itoa_nat i"

definition build_volume :: "names \<Rightarrow> string gomap \<Rightarrow> nat \<Rightarrow> string \<Rightarrow> goerr + pod_volume \<times> volume_mount" where
  "build_volume names managedVolPaths i mount =
     (case ParseVolumeMount mount of (source, target, named, ok) \<Rightarrow>
        if \<not> ok then Inl (Errorf ''invalid volume mount'' [mount])
        else if \<not> named \<and> has_prefix source ''.'' then Inl (Errorf ''relative bind mount not supported'' [mount])
        else
          let hostPath =
            (if named then
               (case map_of managedVolPaths source of
                  Some path \<Rightarrow> path
                | None \<Rightarrow> NamedVolumeHostPath names source)
             else source)
          in Inr (\<lparr>pv_name = vol_name i, pv_source = HostPathDirectoryOrCreate hostPath\<rparr>,
                  \<lparr>vm_name = vol_name i, vm_path = target, vm_read_only = False, vm_sub_path = []\<rparr>))"

definition buildVolumes :: "string list \<Rightarrow> names \<Rightarrow> string gomap \<Rightarrow> goerr + pod_volume list \<times> volume_mount list" where
  "buildVolumes mounts names managedVolPaths =
     bindR (mapR (\<lambda>(i, mount). build_volume names managedVolPaths i mount) (enumerate 0 mounts))
       (\<lambda>vs. Inr (map fst vs, map snd vs))"

definition secret_env :: "string \<Rightarrow> string \<Rightarrow> env_var" where
  "secret_env secretName ref =
     (case ParseSecretRef ref of (envName, secretKey) \<Rightarrow>
        \<lparr>ev_name = envName, ev_value = [], ev_secret_ref = Some (secretName, secretKey)\<rparr>)"

definition workload_container :: "string \<Rightarrow> string \<Rightarrow> env_var list \<Rightarrow> string list \<Rightarrow> string \<Rightarrow> string \<Rightarrow> pod_container" where
  "workload_container name img env svcSecrets svcSecretName command =
     \<lparr>ct_name = name, ct_image = img,
      ct_command = (if command \<noteq> [] then [''/bin/sh'', ''-c''] else []),
      ct_args = (if command \<noteq> [] then [command] else []),
      ct_env = env @ map (secret_env svcSecretName) svcSecrets,
      ct_env_from = [], ct_ports = [], ct_mounts = [], ct_probe = None, ct_requests = [], ct_limits = []\<rparr>"

definition pod_labels :: "string \<Rightarrow> string gomap" where
  "pod_labels name = [(LabelAppName, name), (LabelAppManagedBy, LabelManagedBy), (LabelNvoiService, name)]"

definition workload_labels :: "string \<Rightarrow> string \<Rightarrow> string gomap" where
  "workload_labels name deployHash =
     pod_labels name @ (if deployHash \<noteq> [] then [(LabelNvoiDeployHash, deployHash)] else [])"

definition pod_spec_of :: "string \<Rightarrow> pod_container \<Rightarrow> pod_volume list \<Rightarrow> string \<Rightarrow> pod_spec" where
  "pod_spec_of restartPolicy ct volumes pullSecretName =
     \<lparr>ps_restart_policy = restartPolicy, ps_containers = [ct], ps_volumes = volumes,
      ps_pull_secrets = (if pullSecretName \<noteq> [] then [pullSecretName] else []),
      ps_node_selector = [], ps_node_affinity = None, ps_preferred = [], ps_spread = [], ps_tolerations = []\<rparr>"

section \<open>Services\<close>

record service_spec =
  sv_name :: string
  sv_image :: string
  sv_port :: int
  sv_command :: string
  sv_replicas :: int
  sv_env :: "env_var list"
  sv_secrets :: "string list"
  sv_secret_name :: string
  sv_volumes :: "string list"
  sv_health_path :: string
  sv_servers :: "string list"
  sv_managed :: bool
  sv_pull_secret_name :: string
  sv_deploy_hash :: string

definition int32 :: "int \<Rightarrow> 32 word" where
  "int32 i = word_of_int i"

definition svcSpec :: "string \<Rightarrow> int \<Rightarrow> kservice_spec" where
  "svcSpec selector port =
     \<lparr>ks_type = [], ks_selector = [(LabelAppName, selector)],
      ks_ports = (if port > 0
        then [\<lparr>sp_name = [], sp_port = int32 port, sp_target_port = int32 port, sp_protocol = []\<rparr>] else []),
      ks_cluster_ip = (if port > 0 then [] else ''None'')\<rparr>"

definition readiness_probe :: "string \<Rightarrow> int \<Rightarrow> probe" where
  "readiness_probe healthPath port =
     (if healthPath \<noteq> []
      then \<lparr>pb_handler = HTTPGet healthPath (int32 port), pb_initial_delay = 10, pb_period = 5, pb_timeout = 3\<rparr>
      else \<lparr>pb_handler = TCPSocket (int32 port), pb_initial_delay = 5, pb_period = 5, pb_timeout = 3\<rparr>)"

definition with_port :: "service_spec \<Rightarrow> pod_container \<Rightarrow> pod_container" where
  "with_port spec ct =
     (if sv_port spec > 0
      then ct\<lparr>ct_ports := [\<lparr>cp_name = [], cp_container_port = int32 (sv_port spec), cp_host_port = 0, cp_protocol = []\<rparr>],
              ct_probe := Some (readiness_probe (sv_health_path spec) (sv_port spec))\<rparr>
      else ct)"

definition replicas_of :: "int \<Rightarrow> 32 word" where
  "replicas_of n = (if sint (int32 n) < 1 then 1 else int32 n)"

definition BuildService :: "service_spec \<Rightarrow> names \<Rightarrow> string gomap \<Rightarrow> goerr + kobj \<times> kobj \<times> string" where
  "BuildService spec names managedVolPaths =
     (let ns = KubeNamespace names;
          labels = workload_labels (sv_name spec) (sv_deploy_hash spec);
          ct = with_port spec (workload_container (sv_name spec) (sv_image spec) (sv_env spec) (sv_secrets spec)
                 (sv_secret_name spec) (sv_command spec));
          selector = [(LabelAppName, sv_name spec)]
      in bindR (buildVolumes (sv_volumes spec) names managedVolPaths) (\<lambda>(volumes, mounts).
           let podSpec = applyNodePlacement
                 (pod_spec_of [] (ct\<lparr>ct_mounts := mounts\<rparr>) volumes (sv_pull_secret_name spec))
                 (sv_name spec) (sv_servers spec);
               tmpl = \<lparr>pt_labels = pod_labels (sv_name spec), pt_annotations = [], pt_spec = podSpec\<rparr>;
               svc = kobj_of (sv_name spec) ns labels (ServiceBody (svcSpec (sv_name spec) (sv_port spec)))
           in if sv_managed spec
              then Inr (kobj_of (sv_name spec) ns labels (StatefulSetBody (sv_name spec) 1 selector tmpl), svc, ''statefulset'')
              else Inr (kobj_of (sv_name spec) ns labels
                          (DeploymentBody (replicas_of (sv_replicas spec)) (RollingUpdate 0 1) selector tmpl),
                        svc, ''deployment'')))"

section \<open>Cron jobs\<close>

record cron_spec =
  cs_name :: string
  cs_schedule :: string
  cs_image :: string
  cs_command :: string
  cs_env :: "env_var list"
  cs_secrets :: "string list"
  cs_secret_name :: string
  cs_volumes :: "string list"
  cs_servers :: "string list"
  cs_pull_secret_name :: string
  cs_deploy_hash :: string

definition BuildCronJob :: "cron_spec \<Rightarrow> names \<Rightarrow> string gomap \<Rightarrow> goerr + kobj" where
  "BuildCronJob spec names managedVolPaths =
     (let ns = KubeNamespace names;
          labels = workload_labels (cs_name spec) (cs_deploy_hash spec);
          ct = workload_container (cs_name spec) (cs_image spec) (cs_env spec) (cs_secrets spec)
                 (cs_secret_name spec) (cs_command spec)
      in bindR (buildVolumes (cs_volumes spec) names managedVolPaths) (\<lambda>(volumes, mounts).
           let podSpec = applyNodePlacement
                 (pod_spec_of ''OnFailure'' (ct\<lparr>ct_mounts := mounts\<rparr>) volumes (cs_pull_secret_name spec))
                 (cs_name spec) (cs_servers spec);
               tmpl = \<lparr>pt_labels = pod_labels (cs_name spec), pt_annotations = [], pt_spec = podSpec\<rparr>
           in Inr (kobj_of (cs_name spec) ns labels 
                (CronJobBody (cs_schedule spec) default_policy [] \<lparr>js_backoff = None, js_template = tmpl\<rparr>))))"

section \<open>Volumes\<close>

definition mount_ok :: "string \<Rightarrow> bool" where
  "mount_ok mount \<longleftrightarrow> (case ParseVolumeMount mount of (source, target, named, ok) \<Rightarrow>
     ok \<and> (named \<or> \<not> has_prefix source ''.''))"

definition mount_target :: "string \<Rightarrow> string" where
  "mount_target mount = fst (snd (ParseVolumeMount mount))"

text \<open>The host directory behind a mount.\<close>

definition mount_host_path :: "names \<Rightarrow> string gomap \<Rightarrow> string \<Rightarrow> string" where
  "mount_host_path names managed mount =
     (case ParseVolumeMount mount of (source, target, named, ok) \<Rightarrow>
        if named then get0 (NamedVolumeHostPath names source) managed source else source)"

lemma build_volume_eq:
  "build_volume names managed i mount =
     (if mount_ok mount
      then Inr (\<lparr>pv_name = vol_name i, pv_source = HostPathDirectoryOrCreate (mount_host_path names managed mount)\<rparr>,
                \<lparr>vm_name = vol_name i, vm_path = mount_target mount, vm_read_only = False, vm_sub_path = []\<rparr>)
      else if snd (snd (snd (ParseVolumeMount mount)))
      then Inl (Errorf ''relative bind mount not supported'' [mount])
      else Inl (Errorf ''invalid volume mount'' [mount]))"
  by (cases "ParseVolumeMount mount")
    (auto simp: build_volume_def mount_ok_def mount_target_def mount_host_path_def get0_def split: option.splits)

definition volumes_for :: "names \<Rightarrow> string gomap \<Rightarrow> string list \<Rightarrow> pod_volume list" where
  "volumes_for names managed mounts = map (\<lambda>(i, m).
     \<lparr>pv_name = vol_name i, pv_source = HostPathDirectoryOrCreate (mount_host_path names managed m)\<rparr>) (enumerate 0 mounts)"

definition mounts_for :: "string list \<Rightarrow> volume_mount list" where
  "mounts_for mounts = map (\<lambda>(i, m). \<lparr>vm_name = vol_name i, vm_path = mount_target m, vm_read_only = False, vm_sub_path = []\<rparr>)
     (enumerate 0 mounts)"

lemma mapR_total: "(\<And>x. x \<in> set xs \<Longrightarrow> f x = Inr (g x)) \<Longrightarrow> mapR f xs = Inr (map g xs)"
  by (induction xs) auto

lemma buildVolumes_ok:
  assumes "\<forall>m \<in> set mounts. mount_ok m"
  shows "buildVolumes mounts names managed = Inr (volumes_for names managed mounts, mounts_for mounts)"
proof -
  have "(case x of (i, m) \<Rightarrow> build_volume names managed i m) = Inr (case x of (i, m) \<Rightarrow>
      (\<lparr>pv_name = vol_name i, pv_source = HostPathDirectoryOrCreate (mount_host_path names managed m)\<rparr>,
       \<lparr>vm_name = vol_name i, vm_path = mount_target m, vm_read_only = False, vm_sub_path = []\<rparr>))"
    if "x \<in> set (enumerate 0 mounts)" for x
    using that assms by (auto simp: build_volume_eq in_set_enumerate_eq split: prod.splits)
  then show ?thesis
    by (simp add: buildVolumes_def mapR_total volumes_for_def mounts_for_def case_prod_unfold o_def)
qed

lemma buildVolumes_Inr:
  "(\<exists>r. buildVolumes mounts names managed = Inr r) \<longleftrightarrow> (\<forall>m \<in> set mounts. mount_ok m)"
proof
  assume "\<exists>r. buildVolumes mounts names managed = Inr r"
  then obtain ys where ys: "list_all2 (\<lambda>x y. (case x of (i, m) \<Rightarrow> build_volume names managed i m) = Inr y)
      (enumerate 0 mounts) ys"
    by (auto simp: buildVolumes_def bindR_eq_Inr mapR_Inr)
  show "\<forall>m \<in> set mounts. mount_ok m"
  proof
    fix m assume "m \<in> set mounts"
    then obtain i where i: "i < length mounts" "mounts ! i = m" by (auto simp: in_set_conv_nth)
    with ys have "\<exists>y. build_volume names managed i m = Inr y"
      by (auto simp: list_all2_conv_all_nth nth_enumerate_eq)
    then show "mount_ok m" by (auto simp: build_volume_eq split: if_splits)
  qed
qed (auto simp: buildVolumes_ok)

lemma vol_name_inj [simp]: "vol_name i = vol_name j \<longleftrightarrow> i = j"
  by (auto simp: vol_name_def dest: itoa_nat_inj)

lemma distinct_volumes_for [simp]: "distinct (map pv_name (volumes_for names managed mounts))"
proof -
  have "map pv_name (volumes_for names managed mounts) = map (\<lambda>x. vol_name (fst x)) (enumerate 0 mounts)"
    by (auto simp: volumes_for_def)
  moreover have "inj_on (\<lambda>x. vol_name (fst x)) (set (enumerate 0 mounts))"
    by (auto simp: inj_on_def in_set_enumerate_eq)
  ultimately show ?thesis by (simp add: distinct_map)
qed

lemma mount_wired:
  assumes "vm \<in> set (mounts_for mounts)"
  shows "\<exists>!v. v \<in> set (volumes_for names managed mounts) \<and> pv_name v = vm_name vm"
proof -
  from assms obtain i where i: "i < length mounts" "vm = mounts_for mounts ! i"
    by (auto simp: in_set_conv_nth mounts_for_def)
  then have "volumes_for names managed mounts ! i \<in> set (volumes_for names managed mounts)"
    by (intro nth_mem) (simp add: volumes_for_def)
  moreover from i have "pv_name (volumes_for names managed mounts ! i) = vm_name vm"
    by (simp_all add: volumes_for_def mounts_for_def nth_enumerate_eq)
  moreover have "inj_on pv_name (set (volumes_for names managed mounts))"
    using distinct_volumes_for by (auto simp: distinct_map)
  ultimately show ?thesis unfolding inj_on_def by metis
qed

section \<open>The objects of a service\<close>

text \<open>The pod template and the body of the workload, which do not mention the deploy hash.\<close>

definition service_template :: "service_spec \<Rightarrow> names \<Rightarrow> string gomap \<Rightarrow> pod_template" where
  "service_template spec names managed =
     (let ct = with_port spec (workload_container (sv_name spec) (sv_image spec) (sv_env spec) (sv_secrets spec)
                 (sv_secret_name spec) (sv_command spec))
      in \<lparr>pt_labels = pod_labels (sv_name spec), pt_annotations = [],
          pt_spec = applyNodePlacement
            (pod_spec_of [] (ct\<lparr>ct_mounts := mounts_for (sv_volumes spec)\<rparr>)
               (volumes_for names managed (sv_volumes spec)) (sv_pull_secret_name spec))
            (sv_name spec) (sv_servers spec)\<rparr>)"

definition service_body :: "service_spec \<Rightarrow> names \<Rightarrow> string gomap \<Rightarrow> kbody" where
  "service_body spec names managed =
     (if sv_managed spec
      then StatefulSetBody (sv_name spec) 1 [(LabelAppName, sv_name spec)] (service_template spec names managed)
      else DeploymentBody (replicas_of (sv_replicas spec)) (RollingUpdate 0 1) [(LabelAppName, sv_name spec)]
             (service_template spec names managed))"

lemma BuildService_Inr:
  "BuildService spec names managed = Inr r \<longleftrightarrow>
     (\<forall>m \<in> set (sv_volumes spec). mount_ok m) \<and>
     r = (kobj_of (sv_name spec) (KubeNamespace names) (workload_labels (sv_name spec) (sv_deploy_hash spec))
            (service_body spec names managed),
          kobj_of (sv_name spec) (KubeNamespace names) (workload_labels (sv_name spec) (sv_deploy_hash spec))
            (ServiceBody (svcSpec (sv_name spec) (sv_port spec))),
          if sv_managed spec then ''statefulset'' else ''deployment'')"
proof (cases "\<forall>m \<in> set (sv_volumes spec). mount_ok m")
  case True
  then show ?thesis
    by (auto simp: BuildService_def Let_def buildVolumes_ok service_body_def service_template_def)
next
  case False
  then have "\<nexists>r. buildVolumes (sv_volumes spec) names managed = Inr r"
    using buildVolumes_Inr by blast
  then have "\<And>r. buildVolumes (sv_volumes spec) names managed \<noteq> Inr r" by blast
  with False show ?thesis by (auto simp: BuildService_def Let_def bindR_eq_Inr)
qed

lemma int32_id: "0 \<le> p \<Longrightarrow> p < 2 ^ 31 \<Longrightarrow> uint (int32 p) = p"
  by (simp add: int32_def uint_word_of_int)

lemma map_of_workload_labels:
  "map_of (workload_labels n h) LabelNvoiDeployHash = (if h = [] then None else Some h)"
  "map_of (workload_labels n h) LabelAppName = Some n"
  by (simp_all add: workload_labels_def pod_labels_def LabelAppName_def
    LabelAppManagedBy_def LabelNvoiService_def LabelNvoiDeployHash_def)

lemma placement_keeps [simp]:
  "ps_containers (applyNodePlacement ps n ss) = ps_containers ps"
  "ps_volumes (applyNodePlacement ps n ss) = ps_volumes ps"
  "ps_pull_secrets (applyNodePlacement ps n ss) = ps_pull_secrets ps"
  by (simp_all add: applyNodePlacement_def Let_def)

text \<open>The port a probe connects to.\<close>

fun handler_port :: "probe_handler \<Rightarrow> 32 word" where
  "handler_port (HTTPGet _ p) = p"
| "handler_port (TCPSocket p) = p"

lemma readiness_port [simp]: "handler_port (pb_handler (readiness_probe path port)) = int32 port"
  by (simp add: readiness_probe_def)

lemma with_port_simps [simp]:
  "ct_name (with_port spec ct) = ct_name ct" "ct_image (with_port spec ct) = ct_image ct"
  "ct_env (with_port spec ct) = ct_env ct" "ct_mounts (with_port spec ct) = ct_mounts ct"
  by (simp_all add: with_port_def)

lemma template_container:
  "ps_containers (pt_spec (service_template spec names managed)) =
     [(with_port spec (workload_container (sv_name spec) (sv_image spec) (sv_env spec) (sv_secrets spec)
        (sv_secret_name spec) (sv_command spec)))\<lparr>ct_mounts := mounts_for (sv_volumes spec)\<rparr>]"
  by (simp add: service_template_def Let_def pod_spec_of_def)

lemma template_labels: "pt_labels (service_template spec names managed) = pod_labels (sv_name spec)"
  by (simp add: service_template_def Let_def)

lemma template_volumes:
  "ps_volumes (pt_spec (service_template spec names managed)) = volumes_for names managed (sv_volumes spec)"
  by (simp add: service_template_def Let_def pod_spec_of_def)


definition demo_service :: service_spec where
  "demo_service = \<lparr>sv_name = ''web'', sv_image = ''ghcr.io/acme/web:v1-20260101-000000'', sv_port = 8080, sv_command = [],
     sv_replicas = 2, sv_env = [], sv_secrets = [''TOKEN''], sv_secret_name = ''web-secrets'',
     sv_volumes = [''/srv/static:/public'', ''uploads:/data''],
     sv_health_path = ''/up'', sv_servers = [], sv_managed = False, sv_pull_secret_name = [],
     sv_deploy_hash = ''20260101-000000''\<rparr>"

definition demo_app :: names where
  "demo_app = \<lparr>nm_app = ''shop'', nm_env = ''prod''\<rparr>"

lemma demo_mounts: "\<forall>m \<in> set (sv_volumes demo_service). mount_ok m"
proof -
  have "mount_ok ''/srv/static:/public'' \<and> mount_ok ''uploads:/data''" by code_simp
  then show ?thesis by (simp add: demo_service_def)
qed


text \<open> redeploying an unchanged service or cron job under another deploy hash leaves its spec and its
  pod template as they were, so no pod restarts; only the labels of the objects name the deploy.
\<close>

theorem pods_ignore_deploy_hash:
  "(\<forall>w svc k. BuildService spec names managed = Inr (w, svc, k) \<longrightarrow>
      (\<exists>w' svc'. BuildService (spec\<lparr>sv_deploy_hash := h\<rparr>) names managed = Inr (w', svc', k) \<and>
         ko_body w' = ko_body w \<and> ko_body svc' = ko_body svc \<and>
         map_of (ko_labels w') LabelNvoiDeployHash = (if h = [] then None else Some h))) \<and>
   (\<forall>c. BuildCronJob cspec names managed = Inr c \<longrightarrow>
      (\<exists>c'. BuildCronJob (cspec\<lparr>cs_deploy_hash := h\<rparr>) names managed = Inr c' \<and> ko_body c' = ko_body c \<and>
         map_of (ko_labels c') LabelNvoiDeployHash = (if h = [] then None else Some h)))"
proof (intro conjI allI impI)
  fix w svc k
  assume "BuildService spec names managed = Inr (w, svc, k)"
  moreover have "service_body (spec\<lparr>sv_deploy_hash := h\<rparr>) names managed = service_body spec names managed"
    by (simp add: service_body_def service_template_def with_port_def)
  ultimately show "\<exists>w' svc'. BuildService (spec\<lparr>sv_deploy_hash := h\<rparr>) names managed = Inr (w', svc', k) \<and>
      ko_body w' = ko_body w \<and> ko_body svc' = ko_body svc \<and>
      map_of (ko_labels w') LabelNvoiDeployHash = (if h = [] then None else Some h)"
    by (auto simp: BuildService_Inr map_of_workload_labels)
next
  fix c
  assume "BuildCronJob cspec names managed = Inr c"
  then show "\<exists>c'. BuildCronJob (cspec\<lparr>cs_deploy_hash := h\<rparr>) names managed = Inr c' \<and> ko_body c' = ko_body c \<and>
      map_of (ko_labels c') LabelNvoiDeployHash = (if h = [] then None else Some h)"
    by (auto simp: BuildCronJob_def Let_def bindR_eq_Inr map_of_workload_labels)
qed

corollary pods_ignore_deploy_hash_witness:
  "\<exists>w svc k w' svc'. BuildService demo_service demo_app [] = Inr (w, svc, k) \<and>
     BuildService (demo_service\<lparr>sv_deploy_hash := ''20260202-000000''\<rparr>) demo_app [] = Inr (w', svc', k) \<and>
     ko_body w' = ko_body w"
proof -
  obtain w svc k where "BuildService demo_service demo_app [] = Inr (w, svc, k)"
    by (simp add: BuildService_Inr demo_mounts)
  with pods_ignore_deploy_hash [of demo_service demo_app "[]" "''20260202-000000''"] show ?thesis by blast
qed

end
