(* ===== verification/Secrets.thy ===== *)
theory Secrets
  imports KubeServer Workloads Encoding
begin

text \<open>
  Where values come from: \<open>internal/reconcile/secrets.go\<close>, which asks the credential source for every
  name that the configuration refers to, and \<open>internal/reconcile/registries.go\<close> with
  \<open>pkg/kube/registry.go\<close>, which turn registry credentials into the pull secret of the namespace.
\<close>

section \<open>Secret values\<close>

text \<open>A credential source (\<open>provider.CredentialSource\<close>) answers a key with its value, empty when absent.\<close>

type_synonym cred_source = "string \<Rightarrow> goerr + string"

definition collect_refs :: "string list \<Rightarrow> string list" where
  "collect_refs refs = concat (map (\<lambda>ref. if CHR ''='' \<notin> set ref then [ref] else ExtractVarRefs ref) refs)"

definition collect_vars :: "string list \<Rightarrow> string list" where
  "collect_vars entries = concat (map ExtractVarRefs entries)"

definition collectSecretKeys :: "app_config \<Rightarrow> string list" where
  "collectSecretKeys cfg =
     sorted_set (cfg_secrets cfg @
       concat (map (\<lambda>(_, svc). collect_refs (svc_secrets svc) @ collect_vars (svc_env svc)) (cfg_services cfg)) @
       concat (map (\<lambda>(_, cron). collect_refs (cr_secrets cron) @ collect_vars (cr_env cron)) (cfg_crons cfg)) @
       concat (map (\<lambda>(_, db). case db_credentials db of
           None \<Rightarrow> []
         | Some c \<Rightarrow> collect_vars [dbc_user c, dbc_password c, dbc_database c]) (cfg_databases cfg)))"

definition read_secret :: "cred_source \<Rightarrow> string gomap \<Rightarrow> string \<Rightarrow> goerr + string gomap" where
  "read_secret creds secretValues key =
     (case creds key of
        Inl e \<Rightarrow> Inl (Wrapf (''secret '' @ key) e)
      | Inr val \<Rightarrow> Inr (if val \<noteq> [] then AList.update key val secretValues else secretValues))"

definition Secrets :: "cred_source \<Rightarrow> app_config \<Rightarrow> goerr + string gomap" where
  "Secrets creds cfg =
     bindR (foldR (read_secret creds) [] (collectSecretKeys cfg)) (\<lambda>secretValues.
       case find (\<lambda>key. get0 [] secretValues key = []) (cfg_secrets cfg) of
         Some key \<Rightarrow> Inl (Errorf ''secret listed in config but not found'' [key])
       | None \<Rightarrow> Inr secretValues)"

section \<open>Registries\<close>

definition PullSecretName :: string where "PullSecretName = ''registry-auth''"

record registry_auth =
  ra_username :: string
  ra_password :: string

definition docker_auth :: "registry_auth \<Rightarrow> json" where
  "docker_auth c = JObject [(''username'', JString (ra_username c)), (''password'', JString (ra_password c)),
     (''auth'', JString (base64 (ra_username c @ '':'' @ ra_password c)))]"

definition BuildDockerConfigJSON :: "registry_auth gomap \<Rightarrow> goerr + string" where
  "BuildDockerConfigJSON creds =
     bindR (mapR (\<lambda>h.
         let c = get0 \<lparr>ra_username = [], ra_password = []\<rparr> creds h
         in if ra_username c = [] then Inl (Errorf ''registry: username empty after resolution'' [h])
            else if ra_password c = [] then Inl (Errorf ''registry: password empty after resolution'' [h])
            else Inr (h, docker_auth c)) (SortedKeys creds))
       (\<lambda>auths. Inr (marshal (JObject [(''auths'', JObject auths)])))"

definition BuildPullSecret :: "string \<Rightarrow> registry_auth gomap \<Rightarrow> goerr + kobj" where
  "BuildPullSecret ns creds =
     bindR (BuildDockerConfigJSON creds) (\<lambda>cfgBytes.
       Inr (kobj_of PullSecretName ns [(LabelAppManagedBy, LabelManagedBy)]
              (SecretBody ''kubernetes.io/dockerconfigjson'' [(''.dockerconfigjson'', cfgBytes)])))"

definition lookup_field :: "cred_source \<Rightarrow> string \<Rightarrow> string \<Rightarrow> string gomap \<Rightarrow> string \<Rightarrow> goerr + string gomap" where
  "lookup_field creds host field sources name =
     (case creds name of
        Inl e \<Rightarrow> Inl (Wrapf (''registry '' @ host @ ''.'' @ field @ '': lookup $'' @ name) e)
      | Inr val \<Rightarrow>
          if val = [] then Inl (Errorf ''registry: $VAR is not set'' [host, field, name])
          else Inr (AList.update name val sources))"

definition resolveRegistryField :: "cred_source \<Rightarrow> string \<Rightarrow> string \<Rightarrow> string \<Rightarrow> goerr + string" where
  "resolveRegistryField creds host field raw =
     (if \<not> HasVarRef raw then Inr raw
      else bindR (foldR (lookup_field creds host field) [] (ExtractVarRefs raw)) (\<lambda>sources. resolveRef raw sources))"

definition resolve_registry :: "cred_source \<Rightarrow> string \<times> registry_def \<Rightarrow> goerr + string \<times> registry_auth" where
  "resolve_registry creds p = (case p of (host, def) \<Rightarrow>
     bindR (resolveRegistryField creds host ''username'' (rg_username def)) (\<lambda>user.
     bindR (resolveRegistryField creds host ''password'' (rg_password def)) (\<lambda>pass.
       if user = [] then Inl (Errorf ''registry: username resolved empty'' [host])
       else if pass = [] then Inl (Errorf ''registry: password resolved empty'' [host])
       else Inr (host, \<lparr>ra_username = user, ra_password = pass\<rparr>))))"

definition resolveRegistries :: "cred_source option \<Rightarrow> app_config \<Rightarrow> goerr + registry_auth gomap" where
  "resolveRegistries creds cfg =
     (case creds of
        None \<Rightarrow> Inl (Errorf ''registries: no credential source'' [])
      | Some source \<Rightarrow> mapR (resolve_registry source) (cfg_registry cfg))"

definition Registries :: "'w kube_api \<Rightarrow> names \<Rightarrow> cred_source option \<Rightarrow> app_config \<Rightarrow> ('w, unit) act" where
  "Registries api names creds cfg =
     (let ns = KubeNamespace names
      in if cfg_registry cfg = [] then wrapA ''orphan pull secret'' (DeleteSecret api ns PullSecretName)
         else bindA (readA (\<lambda>_. resolveRegistries creds cfg)) (\<lambda>resolved.
           bindA (wrapA ''build pull secret'' (readA (\<lambda>_. BuildPullSecret ns resolved))) (\<lambda>secret.
             wrapA ''apply pull secret'' (ApplyOwned api ns OwnerRegistries secret))))"

section \<open>Lemmas on collected keys\<close>

lemma collected:
  "k \<in> set (cfg_secrets cfg) \<Longrightarrow> k \<in> set (collectSecretKeys cfg)"
  "(n, svc) \<in> set (cfg_services cfg) \<Longrightarrow> set (collect_refs (svc_secrets svc)) \<union> set (collect_vars (svc_env svc)) \<subseteq> set (collectSecretKeys cfg)"
  "(n, cron) \<in> set (cfg_crons cfg) \<Longrightarrow> set (collect_refs (cr_secrets cron)) \<union> set (collect_vars (cr_env cron)) \<subseteq> set (collectSecretKeys cfg)"
  "(n, db) \<in> set (cfg_databases cfg) \<Longrightarrow> db_credentials db = Some c \<Longrightarrow>
     set (collect_vars [dbc_user c, dbc_password c, dbc_database c]) \<subseteq> set (collectSecretKeys cfg)"
  unfolding collectSecretKeys_def by (simp_all del: collect_vars_def, fastforce+)

text \<open>A name without a dollar sign does not disturb the references of its value.\<close>

lemma ExtractVarRefs_Cons: "c \<noteq> CHR ''$'' \<Longrightarrow> ExtractVarRefs (c # s) = ExtractVarRefs s"
  by (cases s) auto

lemma ExtractVarRefs_key: "CHR ''$'' \<notin> set k \<Longrightarrow> ExtractVarRefs (k @ s) = ExtractVarRefs s"
  by (induction k) (auto simp: ExtractVarRefs_Cons)

lemma entry_refs:
  assumes "CHR ''$'' \<notin> set (fst (ParseSecretRef entry))"
  shows "set (ExtractVarRefs (snd (ParseSecretRef entry))) \<subseteq> set (ExtractVarRefs entry)"
proof (cases "cut CHR ''='' entry")
  case (fields a b ok)
  show ?thesis
  proof (cases ok)
    case True
    with fields have "entry = a @ CHR ''='' # b" by (simp add: cut_found)
    with assms fields True show ?thesis
      using ExtractVarRefs_key [of a "CHR ''='' # b"] by (simp add: ParseSecretRef_def ExtractVarRefs_Cons)
  qed (use fields in \<open>simp add: ParseSecretRef_def\<close>)
qed

lemma read_secret_Inr: "read_secret creds m x = Inr m1 \<longleftrightarrow>
    (\<exists>v. creds x = Inr v \<and> m1 = (if v \<noteq> [] then AList.update x v m else m))"
  by (auto simp: read_secret_def split: sum.splits)

lemma foldR_read_secret:
  assumes "foldR (read_secret creds) m ks = Inr m'"
  shows "map_of m' k = (if k \<in> set ks \<and> creds k \<noteq> Inr [] then (case creds k of Inr v \<Rightarrow> Some v | Inl _ \<Rightarrow> None) else map_of m k)"
  using assms
proof (induction ks arbitrary: m)
  case (Cons x ks)
  then obtain v where v: "creds x = Inr v"
    "foldR (read_secret creds) (if v \<noteq> [] then AList.update x v m else m) ks = Inr m'"
    by (auto simp: bindR_eq_Inr read_secret_Inr)
  from Cons.IH [OF v(2)] v(1) show ?case by (auto simp: update_conv')
qed simp

lemma foldR_read_secret_total:
  "(\<And>k. k \<in> set ks \<Longrightarrow> \<exists>v. creds k = Inr v) \<Longrightarrow> \<exists>m'. foldR (read_secret creds) m ks = Inr m'"
proof (induction ks arbitrary: m)
  case (Cons x ks)
  then obtain v where "creds x = Inr v" by auto
  then obtain m1 where "read_secret creds m x = Inr m1" by (auto simp: read_secret_Inr)
  with Cons show ?case by auto
qed simp

definition entry_ok :: "string \<Rightarrow> bool" where
  "entry_ok entry \<longleftrightarrow> CHR ''$'' \<notin> set (fst (ParseSecretRef entry)) \<and> \<not> unclosed (snd (ParseSecretRef entry))"

text \<open>What \<open>resolveSecretEntries\<close> resolves for an entry of \<open>secrets:\<close>: a bare name stands for its own variable.\<close>

definition normalized :: "string \<Rightarrow> string" where
  "normalized entry = (if CHR ''='' \<notin> set entry then entry @ ''=$'' @ entry else entry)"

definition var_name_ok :: "string \<Rightarrow> bool" where
  "var_name_ok k \<longleftrightarrow> k \<noteq> [] \<and> IsVarStart (hd k) \<and> (\<forall>c \<in> set k. IsVarChar c)"

lemma var_char_not: "IsVarChar c \<Longrightarrow> c \<noteq> CHR ''$'' \<and> c \<noteq> CHR ''='' \<and> c \<noteq> CHR ''{''"
  by (auto simp: IsVarChar_def IsVarStart_def is_upper_def is_lower_def is_digit_def less_eq_char_def)

lemma bare_refs:
  assumes "var_name_ok k"
  shows "ExtractVarRefs (CHR ''$'' # k) = [k]" "\<not> unclosed (CHR ''$'' # k)"
proof -
  from assms obtain c cs where k: "k = c # cs" "IsVarStart c" "\<forall>x \<in> set cs. IsVarChar x"
    by (cases k) (auto simp: var_name_ok_def)
  moreover from this have "c \<noteq> CHR ''{''" using var_char_not [of c] by (auto simp: IsVarChar_def)
  moreover have "takeWhile IsVarChar cs = cs" "dropWhile IsVarChar cs = []"
    using k by (simp_all add: takeWhile_eq_all_conv dropWhile_eq_Nil_conv)
  ultimately show "ExtractVarRefs (CHR ''$'' # k) = [k]" "\<not> unclosed (CHR ''$'' # k)"
    by (simp_all only: k(1) ExtractVarRefs.simps unclosed.simps refl if_True if_False simp_thms)
qed

lemma bare_entry:
  assumes "var_name_ok k"
  shows "ParseSecretRef (k @ ''=$'' @ k) = (k, CHR ''$'' # k)" "entry_ok (k @ ''=$'' @ k)"
proof -
  from assms have "CHR ''='' \<notin> set k" "CHR ''$'' \<notin> set k"
    using var_char_not by (auto simp: var_name_ok_def)
  then show "ParseSecretRef (k @ ''=$'' @ k) = (k, CHR ''$'' # k)" "entry_ok (k @ ''=$'' @ k)"
    using bare_refs [OF assms] by (simp_all add: ParseSecretRef_def entry_ok_def)
qed

lemma resolves:
  assumes "\<forall>r \<in> set (ExtractVarRefs s). r \<in> dom (map_of m)" "\<not> unclosed s"
  shows "\<exists>v. resolveRef s m = Inr v"
  using assms by (auto simp: resolveRef_loop resolve_loop_Inr has_key_dom)

lemma resolves_entry:
  assumes "entry_ok e" "set (ExtractVarRefs e) \<subseteq> dom (map_of m)"
  shows "\<exists>kv. resolveEntry e m = Inr kv"
proof -
  from assms entry_refs [of e] have "\<exists>v. resolveRef (snd (ParseSecretRef e)) m = Inr v"
    by (intro resolves) (auto simp: entry_ok_def)
  then show ?thesis using resolveEntry_Inr [of e m "fst (ParseSecretRef e)"] by blast
qed

lemma collect_vars_sub: "e \<in> set es \<Longrightarrow> set (ExtractVarRefs e) \<subseteq> set (collect_vars es)"
  by (auto simp: collect_vars_def)

lemma resolves_secret:
  assumes "e \<in> set es" "set (collect_refs es) \<subseteq> dom (map_of m)"
    and "if CHR ''='' \<in> set e then entry_ok e else var_name_ok e"
  shows "\<exists>kv. resolveEntry (normalized e) m = Inr kv"
proof (cases "CHR ''='' \<in> set e")
  case True
  with assms have "set (ExtractVarRefs e) \<subseteq> dom (map_of m)" by (force simp: collect_refs_def)
  with True assms resolves_entry [of e m] show ?thesis by (simp add: normalized_def)
next
  case False
  with assms have "e \<in> dom (map_of m)" "var_name_ok e" by (force simp: collect_refs_def)+
  then have "\<exists>v. resolveRef (snd (ParseSecretRef (e @ ''=$'' @ e))) m = Inr v"
    unfolding bare_entry(1) [OF \<open>var_name_ok e\<close>] snd_conv
    using bare_refs [of e] by (intro resolves) simp_all
  with False show ?thesis
    using resolveEntry_Inr [of "e @ ''=$'' @ e" m "fst (ParseSecretRef (e @ ''=$'' @ e))"] by (auto simp: normalized_def)
qed

lemma Secrets_complete:
  assumes "\<forall>k \<in> set (collectSecretKeys cfg). \<exists>v. creds k = Inr v \<and> v \<noteq> []"
  shows "\<exists>m. Secrets creds cfg = Inr m \<and> dom (map_of m) = set (collectSecretKeys cfg) \<and>
    (\<forall>k \<in> set (collectSecretKeys cfg). creds k = Inr (get0 [] m k))"
proof -
  from assms obtain m where m: "foldR (read_secret creds) [] (collectSecretKeys cfg) = Inr m"
    using foldR_read_secret_total [of "collectSecretKeys cfg" creds "[]"] by blast
  have at: "map_of m k = (if k \<in> set (collectSecretKeys cfg) \<and> creds k \<noteq> Inr []
      then (case creds k of Inr v \<Rightarrow> Some v | Inl _ \<Rightarrow> None) else None)" for k
    using foldR_read_secret [OF m, of k] by simp
  have val: "\<exists>v. v \<noteq> [] \<and> creds k = Inr v \<and> map_of m k = Some v" if "k \<in> set (collectSecretKeys cfg)" for k
    using assms that at [of k] by fastforce
  have dom: "dom (map_of m) = set (collectSecretKeys cfg)"
  proof (intro set_eqI iffI)
    fix k assume "k \<in> dom (map_of m)"
    then show "k \<in> set (collectSecretKeys cfg)" using at [of k] by (auto split: if_splits)
  qed (use val in blast)
  have "find (\<lambda>key. get0 [] m key = []) (cfg_secrets cfg) = None"
    using val collected(1) [of _ cfg] by (fastforce simp: find_None_iff)
  with m have "Secrets creds cfg = Inr m" by (simp add: Secrets_def)
  moreover have "\<forall>k \<in> set (collectSecretKeys cfg). creds k = Inr (get0 [] m k)" using val by fastforce
  ultimately show ?thesis using dom by blast
qed

text \<open>
  C14: when the credential source has every secret that \<open>collectSecretKeys\<close> lists, \<open>Secrets\<close> succeeds
  and what it returns resolves every \<open>env:\<close> and \<open>secrets:\<close> entry of every service and cron job
  and every database credential, the bare names standing for themselves; no other name is read.
\<close>

theorem secrets_resolve_workloads:
  assumes "\<forall>k \<in> set (collectSecretKeys cfg). \<exists>v. creds k = Inr v \<and> v \<noteq> []"
  shows "\<exists>m. Secrets creds cfg = Inr m \<and> dom (map_of m) = set (collectSecretKeys cfg) \<and>
    (\<forall>(n, svc) \<in> set (cfg_services cfg).
       (\<forall>e \<in> set (svc_env svc). entry_ok e \<longrightarrow> (\<exists>kv. resolveEntry e m = Inr kv)) \<and>
       (\<forall>e \<in> set (svc_secrets svc). (if CHR ''='' \<in> set e then entry_ok e else var_name_ok e) \<longrightarrow>
          (\<exists>kv. resolveEntry (normalized e) m = Inr kv))) \<and>
    (\<forall>(n, cron) \<in> set (cfg_crons cfg).
       (\<forall>e \<in> set (cr_env cron). entry_ok e \<longrightarrow> (\<exists>kv. resolveEntry e m = Inr kv)) \<and>
       (\<forall>e \<in> set (cr_secrets cron). (if CHR ''='' \<in> set e then entry_ok e else var_name_ok e) \<longrightarrow>
          (\<exists>kv. resolveEntry (normalized e) m = Inr kv))) \<and>
    (\<forall>(n, db) \<in> set (cfg_databases cfg). \<forall>c. db_credentials db = Some c \<longrightarrow>
       (\<forall>s \<in> {dbc_user c, dbc_password c, dbc_database c}. \<not> unclosed s \<longrightarrow> (\<exists>v. resolveRef s m = Inr v)))"
proof -
  from Secrets_complete [OF assms] obtain m where m: "Secrets creds cfg = Inr m" "dom (map_of m) = set (collectSecretKeys cfg)"
    by blast
  have svc: "(\<forall>e \<in> set (svc_env svc). entry_ok e \<longrightarrow> (\<exists>kv. resolveEntry e m = Inr kv)) \<and>
       (\<forall>e \<in> set (svc_secrets svc). (if CHR ''='' \<in> set e then entry_ok e else var_name_ok e) \<longrightarrow>
          (\<exists>kv. resolveEntry (normalized e) m = Inr kv))" if "(n, svc) \<in> set (cfg_services cfg)" for n svc
    using collected(2) [OF that] collect_vars_sub [of _ "svc_env svc"] resolves_entry [of _ m] resolves_secret [of _ "svc_secrets svc" m]
    unfolding m(2) by blast
  have cron: "(\<forall>e \<in> set (cr_env cron). entry_ok e \<longrightarrow> (\<exists>kv. resolveEntry e m = Inr kv)) \<and>
       (\<forall>e \<in> set (cr_secrets cron). (if CHR ''='' \<in> set e then entry_ok e else var_name_ok e) \<longrightarrow>
          (\<exists>kv. resolveEntry (normalized e) m = Inr kv))" if "(n, cron) \<in> set (cfg_crons cfg)" for n cron
    using collected(3) [OF that] collect_vars_sub [of _ "cr_env cron"] resolves_entry [of _ m] resolves_secret [of _ "cr_secrets cron" m]
    unfolding m(2) by blast
  have db: "\<exists>v. resolveRef s m = Inr v" if "(n, db) \<in> set (cfg_databases cfg)" "db_credentials db = Some c"
      "s \<in> {dbc_user c, dbc_password c, dbc_database c}" "\<not> unclosed s" for n db c s
    using collected(4) [OF that(1,2)] collect_vars_sub [of s "[dbc_user c, dbc_password c, dbc_database c]"] that(3,4)
    by (intro resolves) (auto simp: m(2))
  show ?thesis using m svc cron db by blast
qed

definition demo_secrets_config :: app_config where
  "demo_secrets_config = config0\<lparr>cfg_secrets := [''TOKEN''],
     cfg_services := [(''web'', service0\<lparr>svc_env := [''DSN=$HOST:5432''], svc_secrets := [''TOKEN'', ''KEY=${SIGNING_KEY}'']\<rparr>)]\<rparr>"

corollary secrets_resolve_workloads_witness:
  "\<exists>m kv. Secrets (\<lambda>k. Inr (''v-'' @ k)) demo_secrets_config = Inr m \<and> resolveEntry ''DSN=$HOST:5432'' m = Inr kv"
proof -
  have "\<forall>k \<in> set (collectSecretKeys demo_secrets_config). \<exists>v. Inr (''v-'' @ k) = (Inr v :: goerr + string) \<and> v \<noteq> []" by simp
  moreover have "entry_ok ''DSN=$HOST:5432''" by code_simp
  moreover have "(''web'', service0\<lparr>svc_env := [''DSN=$HOST:5432''], svc_secrets := [''TOKEN'', ''KEY=${SIGNING_KEY}'']\<rparr>)
      \<in> set (cfg_services demo_secrets_config)"
    by (simp add: demo_secrets_config_def)
  ultimately show ?thesis
    using secrets_resolve_workloads [of demo_secrets_config "\<lambda>k. Inr (''v-'' @ k)"] by fastforce
qed

section \<open>The pull secret\<close>

lemma mapR_total_iff: "(\<exists>ys. mapR f xs = Inr ys) \<longleftrightarrow> (\<forall>x \<in> set xs. \<exists>y. f x = Inr y)"
  by (induction xs) (auto simp: bindR_eq_Inr)

lemma mapR_map: "(\<And>x. x \<in> set xs \<Longrightarrow> f x = Inr (g x)) \<Longrightarrow> mapR f xs = Inr (map g xs)"
  by (induction xs) auto

text \<open>The payload for credentials that are all present.\<close>

definition docker_config :: "registry_auth gomap \<Rightarrow> string" where
  "docker_config auths = marshal (JObject [(''auths'',
     JObject (map (\<lambda>h. (h, docker_auth (get0 \<lparr>ra_username = [], ra_password = []\<rparr> auths h))) (SortedKeys auths)))])"

lemma BuildDockerConfigJSON_ok:
  assumes "gomap_ok auths" "\<forall>(h, a) \<in> set auths. ra_username a \<noteq> [] \<and> ra_password a \<noteq> []"
  shows "BuildDockerConfigJSON auths = Inr (docker_config auths)"
proof -
  have "map_of auths h \<noteq> None" if "h \<in> set (SortedKeys auths)" for h
    using that by (simp add: has_key_fst [symmetric] has_key_def)
  then have "ra_username (get0 \<lparr>ra_username = [], ra_password = []\<rparr> auths h) \<noteq> [] \<and>
      ra_password (get0 \<lparr>ra_username = [], ra_password = []\<rparr> auths h) \<noteq> []" if "h \<in> set (SortedKeys auths)" for h
    using that assms by (fastforce simp: map_of_memb)
  then show ?thesis
    unfolding BuildDockerConfigJSON_def docker_config_def by (subst mapR_map [where g = "\<lambda>h. (h, docker_auth (get0 _ auths h))"]) (auto simp: Let_def)
qed

lemma docker_config_order:
  assumes "gomap_ok auths" "mset auths' = mset auths"
  shows "docker_config auths' = docker_config auths"
proof -
  have "map_of auths' = map_of auths" using assms by (metis map_of_mset gomap_ok_def)
  with SortedKeys_mset [OF assms(2)] show ?thesis by (simp add: docker_config_def get0_def)
qed

lemma resolve_registry_Inr:
  "resolve_registry source p = Inr (h, a) \<Longrightarrow> h = fst p \<and> ra_username a \<noteq> [] \<and> ra_password a \<noteq> []"
  by (auto simp: resolve_registry_def bindR_eq_Inr split: prod.splits if_splits)

lemma resolveRegistries_Inr:
  assumes "resolveRegistries (Some source) cfg = Inr auths"
  shows "map fst auths = map fst (cfg_registry cfg) \<and> (\<forall>(h, a) \<in> set auths. ra_username a \<noteq> [] \<and> ra_password a \<noteq> [])"
proof -
  from assms have "list_all2 (\<lambda>p q. resolve_registry source p = Inr q) (cfg_registry cfg) auths"
    by (simp add: resolveRegistries_def mapR_Inr)
  then show ?thesis
    by (induction rule: list_all2_induct) (auto dest!: resolve_registry_Inr)
qed



text \<open> the step changes the pull secret and nothing else; when it succeeds the secret exists, owned by
  the registries step, exactly when a registry is declared.
\<close>

theorem registries_converge:
  assumes "kube_server api store" "Registries api names creds cfg w = (r, w')"
  shows "(\<forall>key. key \<noteq> (KindSecret, KubeNamespace names, PullSecretName) \<longrightarrow> store w' key = store w key) \<and>
    (r = Inr () \<longrightarrow>
       (if cfg_registry cfg = [] then store w' (KindSecret, KubeNamespace names, PullSecretName) = None
        else \<exists>c. store w' (KindSecret, KubeNamespace names, PullSecretName) = Some c \<and> owned_by OwnerRegistries c))"
proof (cases "cfg_registry cfg = []")
  case True
  with assms(2) obtain r1 where "DeleteSecret api (KubeNamespace names) PullSecretName w = (r1, w')" "r = Inr () \<longrightarrow> r1 = Inr ()"
    by (auto simp: Registries_def Let_def wrapA_def split: prod.splits sum.splits)
  with kube_server.DeleteSecret_spec [OF assms(1)] True show ?thesis
    by (fastforce simp: changes_def)
next
  case False
  consider "w' = w" "r \<noteq> Inr ()"
    | secret r1 auths where "BuildPullSecret (KubeNamespace names) auths = Inr secret"
      "ApplyOwned api (KubeNamespace names) OwnerRegistries secret w = (r1, w')" "r = Inr () \<longrightarrow> r1 = Inr ()"
    using assms(2) False
    by (auto simp: Registries_def Let_def bindA_def readA_def wrapA_def split: prod.splits sum.splits)
  then show ?thesis
  proof cases
    case (2 secret r1 auths)
    from 2(1) have k: "ko_kind secret = KindSecret" "entry_key (KubeNamespace names) secret = (KindSecret, KubeNamespace names, PullSecretName)"
      by (auto simp: BuildPullSecret_def bindR_eq_Inr entry_key_def)
    from kube_server.ApplyOwned_spec [OF assms(1) 2(2)] 2(3) False show ?thesis
      unfolding k changes_def by (auto simp: k)
  qed (use False in auto)
qed

corollary registries_converge_witness:
  "\<exists>w'. Registries mem_api demo_app None config0 demo_world = (Inr (), w') \<and>
     mem_store w' (KindSecret, KubeNamespace demo_app, PullSecretName) = None"
proof -
  have none: "cfg_registry config0 = []" by (simp add: config0_def)
  have "mem_find (KindSecret, KubeNamespace demo_app, PullSecretName) demo_world = None"
    by (simp add: mem_find_def demo_world_def demo_secret_def obj_key_def PullSecretName_def)
  then have "fst (Registries mem_api demo_app None config0 demo_world) = Inr ()"
    by (simp add: Registries_def none Let_def DeleteSecret_def wrapA_def call_ignoring_def mem_api_def IgnoreNotFound_def)
  then obtain w' where "Registries mem_api demo_app None config0 demo_world = (Inr (), w')"
    by (metis prod.collapse)
  with registries_converge [OF mem.kube_server_axioms this] none show ?thesis by simp
qed

end
