(* ===== verification/Image.thy ===== *)
theory Image
  imports Config
begin

text \<open>
  Image references: \<open>internal/reconcile/image.go\<close>, the host heuristics of \<open>validate.go\<close> and
  the comparison of images modulo the deploy hash of \<open>plan.go\<close>.
\<close>

section \<open>Parts of a reference\<close>

definition imageRegistryHost :: "string \<Rightarrow> string" where
  "imageRegistryHost im =
     (case index_byte im CHR ''/'' of
        None \<Rightarrow> []
      | Some slash \<Rightarrow>
          if slash = 0 then []
          else (let first = take slash im
                in if first = ''localhost'' \<or> (\<exists>c \<in> set first. c = CHR ''.'' \<or> c = CHR '':'')
                   then first else []))"

definition imageTag :: "string \<Rightarrow> string" where
  "imageTag im =
     (if contains im ''@sha256:'' then []
      else (let piece = (case last_index_byte im CHR ''/'' of
                           Some lastSlash \<Rightarrow> drop (lastSlash + 1) im
                         | None \<Rightarrow> im)
            in case index_byte piece CHR '':'' of
                 None \<Rightarrow> []
               | Some colon \<Rightarrow> drop (colon + 1) piece))"

text \<open>The label loop of \<open>validRegistryHost\<close> over the bytes of a label and their indices.\<close>

definition valid_label :: "string \<Rightarrow> bool" where
  "valid_label label \<longleftrightarrow> label \<noteq> [] \<and>
     (\<forall>i \<in> set [0..<length label].
        (let c = label ! i; isHyphen = (c = CHR ''-'')
         in (is_lower c \<or> is_upper c \<or> is_digit c \<or> isHyphen) \<and>
            \<not> (isHyphen \<and> (i = 0 \<or> i = length label - 1))))"

definition validRegistryHost :: "string \<Rightarrow> bool" where
  "validRegistryHost host \<longleftrightarrow>
     (if host = [] then False
      else (case last_index_byte host CHR '':'' of
              None \<Rightarrow> (\<forall>l \<in> set (split_on CHR ''.'' host). valid_label l)
            | Some i \<Rightarrow>
                (let port = drop (i + 1) host; host = take i host
                 in port \<noteq> [] \<and> (\<forall>c \<in> set port. is_digit c) \<and> host \<noteq> [] \<and>
                    (\<forall>l \<in> set (split_on CHR ''.'' host). valid_label l))))"

section \<open>Resolution\<close>

definition is_build :: "service_def \<Rightarrow> bool" where
  "is_build svc \<longleftrightarrow> svc_build svc \<noteq> None \<and> BuildContext (svc_build svc) \<noteq> []"

text \<open>The host and the tag part of \<open>ResolveImage\<close>.\<close>

definition image_with_host :: "app_config \<Rightarrow> string \<Rightarrow> string \<Rightarrow> goerr + string" where
  "image_with_host cfg svcName img =
     (let h = imageRegistryHost img
      in if h \<noteq> [] then
           (if \<not> has_key (cfg_registry cfg) h
            then Inl (Errorf ''services.build: image targets registry without an entry'' [svcName, h])
            else Inr img)
         else (case cfg_registry cfg of
                 [] \<Rightarrow> Inl (Errorf ''services.build: no registry block'' [svcName])
               | [(host, _)] \<Rightarrow> Inr (host @ ''/'' @ img)
               | _ \<Rightarrow> Inl (Errorf ''services.image: no host prefix but multiple registries'' [svcName, img])))"

definition image_with_tag :: "string \<Rightarrow> string \<Rightarrow> string" where
  "image_with_tag img hash =
     (if contains img ''@sha256:'' then img
      else if imageTag img \<noteq> [] then img @ ''-'' @ hash
      else img @ '':'' @ hash)"

definition ResolveImage :: "app_config \<Rightarrow> string \<Rightarrow> string \<Rightarrow> goerr + string" where
  "ResolveImage cfg svcName hash =
     (case map_of (cfg_services cfg) svcName of
        None \<Rightarrow> Inl (Errorf ''services: not defined'' [svcName])
      | Some svc \<Rightarrow>
          if \<not> is_build svc then Inr (svc_image svc)
          else if svc_image svc = [] then Inl (Errorf ''services.build: image is required'' [svcName])
          else bindR (image_with_host cfg svcName (svc_image svc)) (\<lambda>img.
            if hash = [] then Inl (Errorf ''services.build: empty deploy hash'' [svcName])
            else Inr (image_with_tag img hash)))"

section \<open>Images modulo the deploy hash\<close>

abbreviation (input) "digit_class \<equiv> Cls [(CHR ''0'', CHR ''9'')]"

text \<open>\<open>[-:]\d{8}-\d{6}$\<close>: the expression matches the last 16 bytes of a string or nothing.\<close>

definition deploy_hash_re :: re where
  "deploy_hash_re = Seq (Rep 8 digit_class) (Seq (Cls [(CHR ''-'', CHR ''-'')]) (Rep 6 digit_class))"

definition imageHashRE :: re where
  "imageHashRE = Seq (Cls [(CHR ''-'', CHR ''-''), (CHR '':'', CHR '':'')]) deploy_hash_re"

definition stripDeployHash :: "string \<Rightarrow> string" where
  "stripDeployHash im =
     (if 16 \<le> length im \<and> re_match imageHashRE (drop (length im - 16) im)
      then take (length im - 16) im else im)"

text \<open>The layout \<open>20060102-150405\<close> of \<open>reconcile.Deploy\<close>.\<close>

definition is_deploy_hash :: "string \<Rightarrow> bool" where
  "is_deploy_hash h \<longleftrightarrow> re_match deploy_hash_re h"

section \<open>Lemmas\<close>

lemma match_deploy_hash_length: "re_match deploy_hash_re s \<Longrightarrow> length s = 15"
  by (auto simp: deploy_hash_re_def match_Seq [of "Rep 8 digit_class"] match_Rep_Cls match_Seq_Cls)

lemma strip_suffix:
  assumes "is_deploy_hash h" "c = CHR ''-'' \<or> c = CHR '':''"
  shows "stripDeployHash (img @ c # h) = img"
proof -
  have "length h = 15" using assms(1) by (simp add: is_deploy_hash_def match_deploy_hash_length)
  moreover have "re_match imageHashRE (c # h)"
    using assms by (auto simp: imageHashRE_def is_deploy_hash_def in_cls_def)
  ultimately show ?thesis by (simp add: stripDeployHash_def)
qed

lemma hash_not_empty: "is_deploy_hash h \<Longrightarrow> h \<noteq> []"
  by (auto simp: is_deploy_hash_def dest: match_deploy_hash_length)

lemma strip_image_with_tag:
  assumes "is_deploy_hash h"
  shows "stripDeployHash (image_with_tag img h) =
    (if contains img ''@sha256:'' then stripDeployHash img else img)"
  using strip_suffix [OF assms, of "CHR ''-''" img] strip_suffix [OF assms, of "CHR '':''" img]
  by (simp add: image_with_tag_def)

lemma ResolveImage_build:
  assumes "map_of (cfg_services cfg) s = Some svc" "is_build svc"
  shows "ResolveImage cfg s h = Inr a \<longleftrightarrow>
    svc_image svc \<noteq> [] \<and> h \<noteq> [] \<and>
    (\<exists>img. image_with_host cfg s (svc_image svc) = Inr img \<and> a = image_with_tag img h)"
  using assms by (auto simp: ResolveImage_def bindR_eq_Inr)

lemma ResolveImage_pull:
  assumes "map_of (cfg_services cfg) s = Some svc" "\<not> is_build svc"
  shows "ResolveImage cfg s h = Inr (svc_image svc)"
  using assms by (simp add: ResolveImage_def)

lemma ResolveImage_undefined:
  "\<not> has_key (cfg_services cfg) s \<Longrightarrow>
   ResolveImage cfg s h = Inl (Errorf ''services: not defined'' [s])"
  by (auto simp: ResolveImage_def has_key_def)

lemma imageRegistryHost_prefix:
  "imageRegistryHost im \<noteq> [] \<Longrightarrow> \<exists>rest. im = imageRegistryHost im @ ''/'' @ rest"
  using index_byte_split [of im "CHR ''/''"]
  by (auto simp: imageRegistryHost_def Let_def split: option.splits if_splits)

lemma image_with_host_Inr:
  assumes "image_with_host cfg s im = Inr img"
  shows "\<exists>host rest. has_key (cfg_registry cfg) host \<and> img = host @ ''/'' @ rest \<and>
    (img = im \<and> host = imageRegistryHost im \<or> imageRegistryHost im = [] \<and> rest = im)"
proof (cases "imageRegistryHost im = []")
  case True
  with assms obtain host r where "cfg_registry cfg = [(host, r)]" "img = host @ ''/'' @ im"
    by (auto simp: image_with_host_def split: list.splits)
  with True show ?thesis by (intro exI [of _ host] exI [of _ im]) (simp add: has_key_def)
next
  case False
  with assms have "has_key (cfg_registry cfg) (imageRegistryHost im)" "img = im"
    by (auto simp: image_with_host_def Let_def split: if_splits)
  with imageRegistryHost_prefix [OF False] show ?thesis by blast
qed

text \<open> the image of a service in two deploys of one configuration differs at most in the deploy
  hash: modulo the hash it is the same, so that a redeploy is never an image change. A service
  that is built carries its hash, so that two hashes give two images unless the reference is
  pinned by digest, and its image names a declared registry.
\<close>

theorem resolve_image_redeploy:
  assumes "is_deploy_hash h" "is_deploy_hash h'"
    and "ResolveImage cfg s h = Inr a" "ResolveImage cfg s h' = Inr b"
  shows "stripDeployHash a = stripDeployHash b \<and>
    (\<exists>svc. map_of (cfg_services cfg) s = Some svc \<and>
      (if is_build svc
       then (\<exists>host rest. has_key (cfg_registry cfg) host \<and> a = host @ ''/'' @ rest) \<and>
         (a \<noteq> b \<or> h = h' \<or> contains a ''@sha256:'')
       else a = svc_image svc \<and> b = svc_image svc))"
proof -
  from assms(3) obtain svc where svc: "map_of (cfg_services cfg) s = Some svc"
    by (auto simp: ResolveImage_def split: option.splits)
  show ?thesis
  proof (cases "is_build svc")
    case False
    with assms(3,4) svc show ?thesis by (simp add: ResolveImage_pull)
  next
    case True
    then obtain img where img: "image_with_host cfg s (svc_image svc) = Inr img"
      and a: "a = image_with_tag img h" and b: "b = image_with_tag img h'"
      using assms(3,4) by (auto simp: ResolveImage_build [OF svc])
    from image_with_host_Inr [OF img] obtain host rest where
      host: "has_key (cfg_registry cfg) host" "img = host @ ''/'' @ rest" by blast
    have "a \<noteq> b \<or> h = h' \<or> contains a ''@sha256:''"
      by (auto simp: a b image_with_tag_def split: if_splits)
    moreover have "\<exists>rest. a = host @ ''/'' @ rest"
      by (simp add: a host image_with_tag_def)
    moreover have "stripDeployHash a = stripDeployHash b"
      unfolding a b by (simp add: strip_image_with_tag assms)
    ultimately show ?thesis using svc True host by auto
  qed
qed

corollary resolve_image_redeploy_witness:
  "stripDeployHash ''docker.io/deemx/nvoi-api:v2-20260417-143022'' =
   stripDeployHash ''docker.io/deemx/nvoi-api:v2-20260418-090000''"
proof -
  let ?svc = "service0\<lparr>svc_image := ''deemx/nvoi-api:v2'', svc_build := Some \<lparr>bs_context = ''./'', bs_dockerfile = []\<rparr>\<rparr>"
  let ?cfg = "config0\<lparr>cfg_services := [(''api'', ?svc)], cfg_registry := [(''docker.io'', \<lparr>rg_username = ''u'', rg_password = ''p''\<rparr>)]\<rparr>"
  have "is_deploy_hash ''20260417-143022''" "is_deploy_hash ''20260418-090000''" by code_simp+
  moreover have "ResolveImage ?cfg ''api'' ''20260417-143022'' = Inr ''docker.io/deemx/nvoi-api:v2-20260417-143022''"
    "ResolveImage ?cfg ''api'' ''20260418-090000'' = Inr ''docker.io/deemx/nvoi-api:v2-20260418-090000''"
    by code_simp+
  ultimately show ?thesis by (rule resolve_image_redeploy [THEN conjunct1])
qed

text \<open> a registry key that the validator accepts can be invisible in the image built for it:
  a host of a single label is not recognised as a host in the reference that \<open>ResolveImage\<close>
  returns, so that the lookup of its credentials fails after the validation.
\<close>

theorem single_label_registry_lost:
  "\<exists>cfg a. validRegistryHost ''myregistry'' \<and> map fst (cfg_registry cfg) = [''myregistry''] \<and>
     ResolveImage cfg ''api'' ''20260417-143022'' = Inr a \<and> \<not> has_key (cfg_registry cfg) (imageRegistryHost a)"
proof -
  let ?svc = "service0\<lparr>svc_image := ''deemx/api'', svc_build := Some \<lparr>bs_context = ''./'', bs_dockerfile = []\<rparr>\<rparr>"
  let ?cfg = "config0\<lparr>cfg_services := [(''api'', ?svc)], cfg_registry := [(''myregistry'', \<lparr>rg_username = ''u'', rg_password = ''p''\<rparr>)]\<rparr>"
  have "validRegistryHost ''myregistry''" by code_simp
  moreover have "ResolveImage ?cfg ''api'' ''20260417-143022'' = Inr ''myregistry/deemx/api:20260417-143022''"
    by code_simp
  moreover have "\<not> has_key (cfg_registry ?cfg) (imageRegistryHost ''myregistry/deemx/api:20260417-143022'')"
    by code_simp
  ultimately show ?thesis by (intro exI [of _ ?cfg] exI conjI) simp_all
qed

end
