(* ===== verification/Images.thy ===== *)
theory Images
  imports Interfaces Secrets Image
begin

text \<open>
  Building the images of services with a \<open>build:\<close> entry: \<open>internal/reconcile/images.go\<close>. It runs
  before the infrastructure exists; the builder is a parameter.
\<close>

definition resolveBuildCreds :: "'w provider_set \<Rightarrow> 'w deploy_context \<Rightarrow> string \<Rightarrow> goerr + string gomap" where
  "resolveBuildCreds P dc name =
     bindR (getSchema (ps_build P) name) (\<lambda>schema.
       ResolveFrom schema (case dx_creds dc of None \<Rightarrow> MapSource [] | Some source \<Rightarrow> source))"

definition builder_name :: "app_config \<Rightarrow> string" where
  "builder_name cfg = (if p_build (cfg_providers cfg) = [] then ''local'' else p_build (cfg_providers cfg))"

definition image_request ::
    "'w deploy_context \<Rightarrow> string \<Rightarrow> builder_target list \<Rightarrow> string \<Rightarrow> service_def \<Rightarrow> string \<Rightarrow> registry_auth \<Rightarrow> build_request" where
  "image_request dc platform builders name svc fullImage auth =
     \<lparr>bq_service = name, bq_context = BuildContext (svc_build svc),
      bq_dockerfile = (case svc_build svc of None \<Rightarrow> [] | Some b \<Rightarrow> bs_dockerfile b),
      bq_platform = platform, bq_image = fullImage,
      bq_registry = \<lparr>rl_host = imageRegistryHost fullImage, rl_username = ra_username auth, rl_password = ra_password auth\<rparr>,
      bq_builders = builders, bq_ssh_key = dx_ssh_key dc, bq_git_remote = dx_git_remote dc, bq_git_ref = dx_git_ref dc\<rparr>"

text \<open>One turn of the loop: the request of a service, and the build of it.\<close>

definition build_request_of ::
    "'w deploy_context \<Rightarrow> app_config \<Rightarrow> string \<Rightarrow> builder_target list \<Rightarrow> registry_auth gomap \<Rightarrow> string \<Rightarrow> service_def \<Rightarrow> goerr + build_request" where
  "build_request_of dc cfg platform builders regCreds name svc =
     bindR (ResolveImage cfg name (dx_hash dc)) (\<lambda>fullImage.
       case map_of regCreds (imageRegistryHost fullImage) of
         None \<Rightarrow> Inl (Errorf ''services.build: no credentials for registry'' [name, imageRegistryHost fullImage])
       | Some auth \<Rightarrow> Inr (image_request dc platform builders name svc fullImage auth))"

definition run_build :: "'w build_provider \<Rightarrow> string \<Rightarrow> build_request \<Rightarrow> ('w, unit) act" where
  "run_build bp buildName req =
     bindA (wrapA (''services.'' @ bq_service req @ ''.build'') (bl_build bp req)) (\<lambda>ref.
       if ref = [] then failA (Errorf ''services.build: provider returned empty image ref'' [bq_service req, buildName])
       else retA ())"

definition build_service ::
    "'w build_provider \<Rightarrow> 'w deploy_context \<Rightarrow> app_config \<Rightarrow> string \<Rightarrow> builder_target list \<Rightarrow> registry_auth gomap \<Rightarrow> string \<Rightarrow> ('w, unit) act" where
  "build_service bp dc cfg platform builders regCreds name =
     (let svc = get0 service0 (cfg_services cfg) name
      in if \<not> is_build svc then retA ()
         else bindA (readA (\<lambda>_. build_request_of dc cfg platform builders regCreds name svc)) (run_build bp (builder_name cfg)))"

definition BuildImages :: "'w provider_set \<Rightarrow> 'w deploy_context \<Rightarrow> app_config \<Rightarrow> string \<Rightarrow> builder_target list \<Rightarrow> ('w, unit) act" where
  "BuildImages P dc cfg platform builders =
     (if \<not> (\<exists>(n, svc) \<in> set (cfg_services cfg). is_build svc) then retA ()
      else if platform = [] then failA (Errorf ''build: target platform unknown'' [])
      else bindA (readA (\<lambda>_. wrapR ''build'' (resolveBuildCreds P dc (builder_name cfg)))) (\<lambda>buildCreds.
           bindA (readA (\<lambda>_. wrapR ''build'' (resolve (ps_build P) (builder_name cfg) buildCreds))) (\<lambda>bp.
           bindA (readA (\<lambda>_. wrapR ''build'' (resolveRegistries (dx_creds dc) cfg))) (\<lambda>regCreds.
             forA (build_service bp dc cfg platform builders regCreds) (SortedKeys (cfg_services cfg))))))"

section \<open>What is built\<close>

declare wrapR_Inr [simp]

lemma build_request_of_Inr:
  "build_request_of dc cfg platform builders regCreds name svc = Inr req \<longleftrightarrow>
     (\<exists>im auth. ResolveImage cfg name (dx_hash dc) = Inr im \<and> map_of regCreds (imageRegistryHost im) = Some auth \<and>
        req = image_request dc platform builders name svc im auth)"
  by (auto simp: build_request_of_def bindR_eq_Inr split: option.splits)

lemma run_build_Inr:
  "run_build bp b req w = (Inr (), w') \<longleftrightarrow> (\<exists>ref. bl_build bp req w = (Inr ref, w') \<and> ref \<noteq> [])"
  by (auto simp: run_build_def bindA_Inr split: if_splits)

lemma BuildImages_Inr:
  assumes "BuildImages P dc cfg platform builders w = (Inr (), w')" "(n, svc) \<in> set (cfg_services cfg)" "is_build svc"
  obtains creds bp regCreds where "resolveBuildCreds P dc (builder_name cfg) = Inr creds"
    "resolve (ps_build P) (builder_name cfg) creds = Inr bp" "resolveRegistries (dx_creds dc) cfg = Inr regCreds"
    "forA (build_service bp dc cfg platform builders regCreds) (SortedKeys (cfg_services cfg)) w = (Inr (), w')"
    "platform \<noteq> []"
  using assms by (auto simp: BuildImages_def bindA_read split: if_splits)

text \<open>
  C33: when the images step succeeds, every service with a \<open>build:\<close> entry had its image built for the
  platform of the servers, under the very reference that the services step deploys, with the
  credentials of the registry that the reference names, at its place in the order of the names.
\<close>

theorem build_images_complete:
  assumes "BuildImages P dc cfg platform builders w = (Inr (), w')" "gomap_ok (cfg_services cfg)"
    and "(n, svc) \<in> set (cfg_services cfg)" "is_build svc"
  shows "\<exists>creds bp regCreds auth im ref w1 w2 pre post.
     resolveBuildCreds P dc (builder_name cfg) = Inr creds \<and> resolve (ps_build P) (builder_name cfg) creds = Inr bp \<and>
     ResolveImage cfg n (dx_hash dc) = Inr im \<and> resolveRegistries (dx_creds dc) cfg = Inr regCreds \<and>
     map_of regCreds (imageRegistryHost im) = Some auth \<and>
     bl_build bp (image_request dc platform builders n svc im auth) w1 = (Inr ref, w2) \<and> ref \<noteq> [] \<and>
     SortedKeys (cfg_services cfg) = pre @ n # post \<and>
     forA (build_service bp dc cfg platform builders regCreds) pre w = (Inr (), w1) \<and>
     forA (build_service bp dc cfg platform builders regCreds) post w2 = (Inr (), w')"
proof -
  from BuildImages_Inr [OF assms(1,3,4)] obtain creds bp regCreds
    where bp: "resolveBuildCreds P dc (builder_name cfg) = Inr creds" "resolve (ps_build P) (builder_name cfg) creds = Inr bp"
      and reg: "resolveRegistries (dx_creds dc) cfg = Inr regCreds"
      and loop: "forA (build_service bp dc cfg platform builders regCreds) (SortedKeys (cfg_services cfg)) w = (Inr (), w')"
    by metis
  have svc: "get0 service0 (cfg_services cfg) n = svc"
    using assms(2,3) by (simp add: get0_def gomap_ok_def)
  have "n \<in> set (SortedKeys (cfg_services cfg))" using assms(3) by force
  then obtain pre post where keys: "SortedKeys (cfg_services cfg) = pre @ n # post" by (meson split_list)
  with loop obtain w1 w2 where turns: "forA (build_service bp dc cfg platform builders regCreds) pre w = (Inr (), w1)"
    "build_service bp dc cfg platform builders regCreds n w1 = (Inr (), w2)"
    "forA (build_service bp dc cfg platform builders regCreds) post w2 = (Inr (), w')"
    by (auto simp: forA_append thenA_Inr)
  then obtain im auth ref where "ResolveImage cfg n (dx_hash dc) = Inr im" "map_of regCreds (imageRegistryHost im) = Some auth"
    "bl_build bp (image_request dc platform builders n svc im auth) w1 = (Inr ref, w2)" "ref \<noteq> []"
    using assms(4) unfolding build_service_def [of bp dc cfg platform builders regCreds n] svc
    by (auto simp: Let_def bindA_read build_request_of_Inr run_build_Inr)
  with bp reg keys turns(1,3) show ?thesis by blast
qed

text \<open>A builder that returns the reference it was asked for and keeps the requests.\<close>

definition recording_builder :: "build_request list build_provider" where
  "recording_builder = \<lparr>bl_build = (\<lambda>req w. (Inr (bq_image req), w @ [req]))\<rparr>"

definition build_providers :: "build_request list provider_set" where
  "build_providers = no_providers\<lparr>ps_build := reg_register ''local'' (no_creds ''local'') (\<lambda>_. recording_builder) (newRegistry ''build'')\<rparr>"

definition build_config :: app_config where
  "build_config = config0\<lparr>cfg_registry := [(''ghcr.io'', \<lparr>rg_username = ''acme'', rg_password = ''$PAT''\<rparr>)],
     cfg_services := [(''web'', service0\<lparr>svc_image := ''acme/web'', svc_build := Some \<lparr>bs_context = ''./web'', bs_dockerfile = []\<rparr>\<rparr>),
       (''cache'', service0\<lparr>svc_image := ''redis:7''\<rparr>)]\<rparr>"

definition build_context :: "build_request list deploy_context" where
  "build_context = deploy_context0 ''shop'' ''prod''\<lparr>dx_creds := Some (MapSource [(''PAT'', ''t0'')]), dx_hash := ''20260101-000000''\<rparr>"

corollary build_images_complete_witness:
  "\<exists>w. BuildImages build_providers build_context build_config ''linux/arm64'' [] [] = (Inr (), w) \<and>
     map bq_image w = [''ghcr.io/acme/web:20260101-000000''] \<and>
     ResolveImage build_config ''web'' ''20260101-000000'' = Inr ''ghcr.io/acme/web:20260101-000000''"
proof -
  let ?svc = "service0\<lparr>svc_image := ''acme/web'', svc_build := Some \<lparr>bs_context = ''./web'', bs_dockerfile = []\<rparr>\<rparr>"
  have run: "case BuildImages build_providers build_context build_config ''linux/arm64'' [] [] of
      (r, w) \<Rightarrow> r = Inr () \<and> map bq_image w = [''ghcr.io/acme/web:20260101-000000'']" by code_simp
  then obtain w where w: "BuildImages build_providers build_context build_config ''linux/arm64'' [] [] = (Inr (), w)"
    "map bq_image w = [''ghcr.io/acme/web:20260101-000000'']" by (auto split: prod.splits)
  have "gomap_ok (cfg_services build_config)" "is_build ?svc" by code_simp+
  from build_images_complete [OF w(1) this(1) _ this(2), of "''web''"]
  have "\<exists>im. ResolveImage build_config ''web'' (dx_hash build_context) = Inr im" by (auto simp: build_config_def)
  moreover have "ResolveImage build_config ''web'' (dx_hash build_context) = Inr ''ghcr.io/acme/web:20260101-000000''" by code_simp
  ultimately show ?thesis using w by (simp add: build_context_def)
qed

end
