(* ===== verification/Backups.thy ===== *)
theory Backups
  imports Interfaces Images
begin

text \<open>
  The backup and restore pipeline that every database shares: \<open>pkg/provider/database_backups.go\<close>.
  The object store behind the listing and the download is a parameter.
\<close>

section \<open>The image\<close>

definition DBImageRepo :: string where "DBImageRepo = ''docker.io/nvoi/db''"
definition DBImageTag :: string where "DBImageTag = ''latest''"
definition DBImage :: string where "DBImage = DBImageRepo @ '':'' @ DBImageTag"

definition dbImageFor :: "'w database_request \<Rightarrow> string" where
  "dbImageFor req = (if dq_image req \<noteq> [] then dq_image req else DBImage)"

text \<open>One exchange with an HTTP server: method, address and headers; the answer has a status, headers and a body.\<close>

record http_response =
  hr_status :: int
  hr_headers :: "string gomap"
  hr_body :: string

type_synonym 'w http_get = "string \<Rightarrow> string \<Rightarrow> string gomap \<Rightarrow> 'w \<Rightarrow> goerr + http_response"

definition hub_token_url :: "string \<Rightarrow> string" where
  "hub_token_url repo =
     ''https://auth.docker.io/token?service=registry.docker.io&scope=repository:'' @ repo @ '':pull''"

definition hub_manifest_url :: "string \<Rightarrow> string \<Rightarrow> string" where
  "hub_manifest_url repo tag = ''https://registry-1.docker.io/v2/'' @ repo @ ''/manifests/'' @ tag"

definition manifest_types :: "string list" where
  "manifest_types = [''application/vnd.oci.image.index.v1+json'', ''application/vnd.docker.distribution.manifest.list.v2+json'',
     ''application/vnd.oci.image.manifest.v1+json'', ''application/vnd.docker.distribution.manifest.v2+json'']"

text \<open>The field \<open>token\<close> of the first JSON value of the body.\<close>

definition decode_token :: "string \<Rightarrow> string option" where
  "decode_token body = Option.bind (json_value (Suc (length body)) body) (\<lambda>(j, _). Option.bind (json_field ''token'' j) json_text)"

definition hub_token :: "'w http_get \<Rightarrow> string \<Rightarrow> 'w \<Rightarrow> goerr + string" where
  "hub_token http repo w =
     bindR (wrapR ''fetch token'' (http ''GET'' (hub_token_url repo) [] w)) (\<lambda>resp.
       if hr_status resp \<noteq> 200 then Inl (Errorf ''token endpoint returned'' [itoa (hr_status resp)])
       else (case decode_token (hr_body resp) of
           None \<Rightarrow> Inl (Errorf ''decode token'' [])
         | Some token \<Rightarrow> if token = [] then Inl (Errorf ''empty token'' []) else Inr token))"

definition registryDigest :: "'w http_get \<Rightarrow> string \<Rightarrow> string \<Rightarrow> 'w \<Rightarrow> goerr + string" where
  "registryDigest http repo tag w =
     bindR (hub_token http repo w) (\<lambda>token.
     bindR (wrapR ''HEAD manifest'' (http ''HEAD'' (hub_manifest_url repo tag)
              [(''Authorization'', ''Bearer '' @ token), (''Accept'', join '', '' manifest_types)] w)) (\<lambda>resp.
       if hr_status resp = 404 then Inl (Errorf ''tag not found'' [repo, tag])
       else if hr_status resp \<noteq> 200 then Inl (Errorf ''manifest returned'' [repo, tag, itoa (hr_status resp)])
       else if get0 [] (hr_headers resp) ''Docker-Content-Digest'' = []
       then Inl (Errorf ''missing Docker-Content-Digest header'' [repo, tag])
       else Inr (get0 [] (hr_headers resp) ''Docker-Content-Digest'')))"

definition registryResolveDBImage :: "'w http_get \<Rightarrow> 'w \<Rightarrow> goerr + string" where
  "registryResolveDBImage http w =
     bindR (wrapR (''resolve '' @ DBImageRepo @ '':'' @ DBImageTag @ '' digest'') (registryDigest http ''nvoi/db'' DBImageTag w))
       (\<lambda>digest. Inr (DBImageRepo @ ''@'' @ digest))"

section \<open>Jobs\<close>

definition secret_env_var :: "string \<Rightarrow> string \<Rightarrow> string \<Rightarrow> env_var" where
  "secret_env_var secret envName secretKey = \<lparr>ev_name = envName, ev_value = [], ev_secret_ref = Some (secret, secretKey)\<rparr>"

definition plain_env_var :: "string \<Rightarrow> string \<Rightarrow> env_var" where
  "plain_env_var name v = \<lparr>ev_name = name, ev_value = v, ev_secret_ref = None\<rparr>"

definition dbCredsEnv :: "string \<Rightarrow> env_var list" where
  "dbCredsEnv secret = map (\<lambda>(envName, secretKey). secret_env_var secret envName secretKey)
     [(''DB_URL'', ''url''), (''DB_HOST'', ''host''), (''DB_PORT'', ''port''), (''DB_USER'', ''user''),
      (''DB_PASSWORD'', ''password''), (''DB_DATABASE'', ''database''), (''DB_SSLMODE'', ''sslmode'')]"

text \<open>The labels of a job: its own first, then those of the request that it does not have.\<close>

definition add_missing :: "string gomap \<Rightarrow> string gomap \<Rightarrow> string gomap" where
  "add_missing extra labels = foldl (\<lambda>m (k, v). if has_key m k then m else AList.update k v m) labels extra"

definition job_labels :: "'w database_request \<Rightarrow> string gomap \<Rightarrow> string gomap" where
  "job_labels req own =
     add_missing (dq_labels req) ([(LabelAppName, dq_full_name req), (LabelAppManagedBy, LabelManagedBy)] @ own)"

definition job_container :: "'w database_request \<Rightarrow> string \<Rightarrow> env_var list \<Rightarrow> pod_container" where
  "job_container req name env =
     \<lparr>ct_name = name, ct_image = dbImageFor req, ct_command = [], ct_args = [],
      ct_env = env @ [plain_env_var ''ENGINE'' (ds_engine (dq_spec req)), plain_env_var ''DATABASE_NAME'' (dq_name req),
        plain_env_var ''DATABASE_FULL_NAME'' (dq_full_name req)] @ dbCredsEnv (dq_credentials_secret req),
      ct_env_from = [dq_backup_creds_secret req], ct_ports = [], ct_mounts = [], ct_probe = None,
      ct_requests = [], ct_limits = []\<rparr>"

definition job_template :: "string gomap \<Rightarrow> pod_container \<Rightarrow> pod_template" where
  "job_template labels ct = \<lparr>pt_labels = labels, pt_annotations = [],
     pt_spec = \<lparr>ps_restart_policy = ''Never'', ps_containers = [ct], ps_volumes = [], ps_pull_secrets = [],
       ps_node_selector = [], ps_node_affinity = None, ps_preferred = [], ps_spread = [], ps_tolerations = []\<rparr>\<rparr>"

definition BuildBackupCronJob :: "'w database_request \<Rightarrow> kobj" where
  "BuildBackupCronJob req =
     (let labels = job_labels req []
      in kobj_of (dq_backup_name req) (dq_namespace req) labels
           (CronJobBody (bs_schedule (the (ds_backup (dq_spec req))))
              \<lparr>cy_concurrency = ''Forbid'', cy_successful = Some 3, cy_failed = Some 3\<rparr> []
              \<lparr>js_backoff = Some 2, js_template = job_template labels (job_container req ''backup'' [])\<rparr>))"

definition restore_job_name :: "'w database_request \<Rightarrow> int \<Rightarrow> string" where
  "restore_job_name req now = dq_full_name req @ ''-restore-'' @ itoa now"

definition BuildRestoreJob :: "'w database_request \<Rightarrow> string \<Rightarrow> int \<Rightarrow> kobj" where
  "BuildRestoreJob req backupKey now =
     (let labels = job_labels req [(''nvoi/restore-of'', dq_name req)]
      in kobj_of (restore_job_name req now) (dq_namespace req) labels
           (JobBody \<lparr>js_backoff = Some 0, js_template = job_template labels
              (job_container req ''restore'' [plain_env_var ''MODE'' ''restore'', plain_env_var ''BACKUP_KEY'' backupKey])\<rparr>))"

definition RunRestoreJob :: "'w kube_client option \<Rightarrow> 'w database_request \<Rightarrow> string \<Rightarrow> ('w, unit) act" where
  "RunRestoreJob kc req backupKey =
     (case kc of
        None \<Rightarrow> failA (Errorf ''restore requires kube client'' [])
      | Some c \<Rightarrow>
          if dq_backup_creds_secret req = [] \<or> dq_bucket req = None
          then failA (Errorf ''restore requires providers.storage + a backup bucket'' [])
          else (\<lambda>w. let job = BuildRestoreJob req backupKey (rt_now (cl_runtime c) w)
                in thenA (wrapA (''apply restore job '' @ ko_name job) (ApplyOwned (cl_api c) (dq_namespace req) OwnerDatabases job))
                     (wrapA (''restore job '' @ ko_name job) (WaitForJob (cl_runtime c) (cl_jobs c) (dq_namespace req) (ko_name job))) w))"

section \<open>The bucket\<close>

record s3_object =
  so_key :: string
  so_last_modified :: string
  so_size :: int

record 'w object_store =
  os_list :: "bucket_credentials \<Rightarrow> string \<Rightarrow> string \<Rightarrow> 'w \<Rightarrow> goerr + s3_object list"
  os_get :: "bucket_credentials \<Rightarrow> string \<Rightarrow> string \<Rightarrow> 'w \<Rightarrow> goerr + string"

definition BucketListBackups :: "'w object_store \<Rightarrow> 'w database_request \<Rightarrow> 'w \<Rightarrow> goerr + backup_ref list" where
  "BucketListBackups s3 req w =
     (case dq_bucket req of
        None \<Rightarrow> Inl (Errorf ''backups require providers.storage + a backup bucket'' [])
      | Some b \<Rightarrow>
          bindR (wrapR (''list backups for '' @ dq_name req) (os_list s3 (bh_credentials b) (bh_name b) [] w)) (\<lambda>objs.
            Inr (map (\<lambda>ob. \<lparr>br_id = so_key ob, br_created_at = so_last_modified ob, br_size = so_size ob, br_kind = ''dump''\<rparr>) objs)))"

definition BucketDownloadBackup :: "'w object_store \<Rightarrow> 'w database_request \<Rightarrow> string \<Rightarrow> 'w \<Rightarrow> goerr + string" where
  "BucketDownloadBackup s3 req name w =
     (case dq_bucket req of
        None \<Rightarrow> Inl (Errorf ''backups require providers.storage + a backup bucket'' [])
      | Some b \<Rightarrow> wrapR (''download backup '' @ bh_name b @ ''/'' @ name) (os_get s3 (bh_credentials b) (bh_name b) name w))"

text \<open>\<open>strings.TrimRight\<close> of a slash.\<close>

definition trim_slashes :: "string \<Rightarrow> string" where
  "trim_slashes s = rev (dropWhile (\<lambda>c. c = CHR ''/'') (rev s))"

definition BuildBackupCredsSecretData :: "string \<Rightarrow> bucket_credentials \<Rightarrow> string gomap" where
  "BuildBackupCredsSecretData bucketName creds =
     [(''BUCKET_ENDPOINT'', trim_slashes (bk_endpoint creds)), (''BUCKET_NAME'', bucketName),
      (''AWS_ACCESS_KEY_ID'', bk_access_key_id creds), (''AWS_SECRET_ACCESS_KEY'', bk_secret_access_key creds),
      (''AWS_REGION'', (if bk_region creds = [] then ''auto'' else bk_region creds))]"

section \<open>Lemmas\<close>

lemma add_missing_keeps: "map_of labels k = Some v \<Longrightarrow> map_of (add_missing extra labels) k = Some v"
  unfolding add_missing_def
proof (induction extra arbitrary: labels)
  case (Cons e extra)
  then have "map_of (case e of (a, b) \<Rightarrow> if has_key labels a then labels else AList.update a b labels) k = Some v"
    by (auto simp: update_conv' has_key_def split: prod.split)
  from Cons.IH [OF this] show ?case by (simp add: case_prod_beta)
qed simp

lemma job_labels_own: "map_of (job_labels req own) LabelAppName = Some (dq_full_name req)"
  by (simp add: job_labels_def add_missing_keeps)

end
