(* ===== verification/Csv.thy ===== *)
theory Csv
  imports Interfaces
begin

text \<open>
  The reader of Go's \<open>encoding/csv\<close> with its default settings, and \<open>parseCSV\<close> of
  \<open>pkg/provider/postgres/postgres.go\<close>, which reads the output of \<open>psql --csv\<close> with it.
\<close>

definition lf :: char where "lf = CHR 0x0A"
definition cr :: char where "cr = CHR 0x0D"

text \<open>Line ends are normalized as they are read; a carriage return at the end of the input is dropped.\<close>

fun normalize_lines :: "string \<Rightarrow> string" where
  "normalize_lines [] = []"
| "normalize_lines [c] = (if c = cr then [] else [c])"
| "normalize_lines (c # d # cs) = (if c = cr \<and> d = lf then lf # normalize_lines cs else c # normalize_lines (d # cs))"

text \<open>A field that starts with a quote: its value and the rest after the closing quote.\<close>

fun quoted_field :: "string \<Rightarrow> (string \<times> string) option" where
  "quoted_field [] = None"
| "quoted_field [c] = (if c = quote then Some ([], []) else None)"
| "quoted_field (c # d # cs) =
     (if c \<noteq> quote then map_option (\<lambda>(f, r). (c # f, r)) (quoted_field (d # cs))
      else if d = quote then map_option (\<lambda>(f, r). (quote # f, r)) (quoted_field cs)
      else if d = CHR '','' \<or> d = lf then Some ([], d # cs) else None)"

definition plain_stop :: "char \<Rightarrow> bool" where
  "plain_stop c \<longleftrightarrow> c = CHR '','' \<or> c = lf"

definition csv_field :: "string \<Rightarrow> (string \<times> string) option" where
  "csv_field s =
     (if has_prefix s [quote] then quoted_field (tl s)
      else (let f = takeWhile (\<lambda>c. \<not> plain_stop c) s
            in if quote \<in> set f then None else Some (f, dropWhile (\<lambda>c. \<not> plain_stop c) s)))"

text \<open>A record up to its line end; the fuel is the length of the text.\<close>

fun csv_record :: "nat \<Rightarrow> string \<Rightarrow> (string list \<times> string) option" where
  "csv_record 0 s = None"
| "csv_record (Suc n) s =
     (case csv_field s of
        None \<Rightarrow> None
      | Some (f, []) \<Rightarrow> Some ([f], [])
      | Some (f, c # r) \<Rightarrow>
          if c = lf then Some ([f], r) else map_option (\<lambda>(fs, r'). (f # fs, r')) (csv_record n r))"

text \<open>\<open>ReadAll\<close>: empty lines are skipped, and every record has as many fields as the first.\<close>

fun csv_records :: "nat \<Rightarrow> nat option \<Rightarrow> string \<Rightarrow> string list list option" where
  "csv_records 0 width s = (if s = [] then Some [] else None)"
| "csv_records (Suc n) width s =
     (case s of
        [] \<Rightarrow> Some []
      | c # cs \<Rightarrow>
          if c = lf then csv_records n width cs
          else (case csv_record (Suc (length s)) s of
              None \<Rightarrow> None
            | Some (fs, r) \<Rightarrow>
                if width \<noteq> None \<and> width \<noteq> Some (length fs) then None
                else map_option (\<lambda>rs. fs # rs) (csv_records n (Some (length fs)) r)))"

definition read_all :: "string \<Rightarrow> string list list option" where
  "read_all s = (let t = normalize_lines s in csv_records (length t) None t)"

definition parseCSV :: "string \<Rightarrow> goerr + sql_result" where
  "parseCSV b =
     (case read_all b of
        None \<Rightarrow> Inl (ExtErr ''csv'')
      | Some [] \<Rightarrow> Inr \<lparr>sr_columns = [], sr_rows = [], sr_affected = 0\<rparr>
      | Some (header # rows) \<Rightarrow> Inr \<lparr>sr_columns = header, sr_rows = rows, sr_affected = int (length rows)\<rparr>)"

section \<open>What psql prints is read back\<close>

text \<open>A cell as \<open>psql --csv\<close> prints it: NULL is empty, and the empty string and special bytes are quoted.\<close>

definition csv_quote :: "string \<Rightarrow> string" where
  "csv_quote s = quote # concat (map (\<lambda>c. if c = quote then [quote, quote] else [c]) s) @ [quote]"

definition csv_cell :: "string option \<Rightarrow> string" where
  "csv_cell v = (case v of
     None \<Rightarrow> []
   | Some s \<Rightarrow> if s = [] \<or> (\<exists>c \<in> set s. c = CHR '','' \<or> c = quote \<or> c = lf \<or> c = cr) then csv_quote s else s)"

definition csv_row :: "string option list \<Rightarrow> string" where
  "csv_row row = join [CHR '',''] (map csv_cell row) @ [lf]"

definition csv_text :: "string option list list \<Rightarrow> string" where
  "csv_text rows = concat (map csv_row rows)"

definition cell_value :: "string option \<Rightarrow> string" where
  "cell_value v = (case v of None \<Rightarrow> [] | Some s \<Rightarrow> s)"

lemma lf_simps [simp]: "lf \<noteq> quote" "lf \<noteq> CHR '',''" "quote \<noteq> CHR '',''" "lf \<noteq> cr" "cr \<noteq> quote" "cr \<noteq> CHR '',''"
  "quote \<noteq> lf" "quote \<noteq> cr" "cr \<noteq> lf" "CHR '','' \<noteq> lf" "CHR '','' \<noteq> quote" "CHR '','' \<noteq> cr"
  by (simp_all add: lf_def cr_def quote_def)

lemma quoted_read:
  "r \<noteq> [] \<Longrightarrow> hd r = CHR '','' \<or> hd r = lf \<Longrightarrow>
     quoted_field (concat (map (\<lambda>c. if c = quote then [quote, quote] else [c]) s) @ quote # r) = Some (s, r)"
proof (induction s)
  case Nil
  then show ?case by (cases r) auto
next
  case (Cons c s)
  then obtain d cs where more: "concat (map (\<lambda>c. if c = quote then [quote, quote] else [c]) s) @ quote # r = d # cs"
    by (cases "concat (map (\<lambda>c. if c = quote then [quote, quote] else [c]) s) @ quote # r") auto
  with Cons show ?case by auto
qed

lemma plain_read:
  assumes "\<forall>c \<in> set s. c \<noteq> CHR '','' \<and> c \<noteq> quote \<and> c \<noteq> lf" "r \<noteq> []" "hd r = CHR '','' \<or> hd r = lf"
  shows "csv_field (s @ r) = Some (s, r)"
proof -
  have stop: "\<forall>c \<in> set s. \<not> plain_stop c" "plain_stop (hd r)" using assms by (auto simp: plain_stop_def)
  then have "takeWhile (\<lambda>c. \<not> plain_stop c) (s @ r) = s" "dropWhile (\<lambda>c. \<not> plain_stop c) (s @ r) = r"
    using assms(2) by (cases r; simp)+
  moreover have "\<not> has_prefix (s @ r) [quote]"
    using assms by (cases s; cases r) (auto simp: has_prefix_def)
  moreover have "quote \<notin> set s" using assms(1) by auto
  ultimately show ?thesis by (simp add: csv_field_def Let_def)
qed

lemma cell_read:
  assumes "r \<noteq> []" "hd r = CHR '','' \<or> hd r = lf"
  shows "csv_field (csv_cell v @ r) = Some (cell_value v, r)"
proof (cases v)
  case None
  then show ?thesis using plain_read [of "[]" r] assms by (simp add: csv_cell_def cell_value_def)
next
  case (Some s)
  show ?thesis
  proof (cases "s = [] \<or> (\<exists>c \<in> set s. c = CHR '','' \<or> c = quote \<or> c = lf \<or> c = cr)")
    case True
    with Some have "csv_cell v = csv_quote s" by (simp add: csv_cell_def)
    then show ?thesis
      using quoted_read [OF assms, of s] Some by (simp add: csv_field_def csv_quote_def cell_value_def has_prefix_def)
  next
    case False
    then have "\<forall>c \<in> set s. c \<noteq> CHR '','' \<and> c \<noteq> quote \<and> c \<noteq> lf" by blast
    from plain_read [OF this assms] show ?thesis using Some False by (simp add: csv_cell_def cell_value_def)
  qed
qed

lemma row_read:
  "row \<noteq> [] \<Longrightarrow> length (csv_row row @ r) \<le> n \<Longrightarrow> csv_record n (csv_row row @ r) = Some (map cell_value row, r)"
proof (induction row arbitrary: n)
  case (Cons v row)
  then obtain m where n: "n = Suc m" by (cases n) (auto simp: csv_row_def)
  show ?case
  proof (cases row)
    case Nil
    have "csv_field (csv_cell v @ lf # r) = Some (cell_value v, lf # r)" by (rule cell_read) simp_all
    then show ?thesis by (simp add: n Nil csv_row_def)
  next
    case (Cons v' row')
    then have split: "csv_row (v # row) @ r = csv_cell v @ CHR '','' # csv_row row @ r" by (simp add: csv_row_def)
    have "csv_field (csv_cell v @ CHR '','' # csv_row row @ r) = Some (cell_value v, CHR '','' # csv_row row @ r)"
      by (rule cell_read) simp_all
    moreover have "length (csv_row row @ r) \<le> m" using Cons.prems(2) unfolding n split by simp
    then have "csv_record m (csv_row row @ r) = Some (map cell_value row, r)"
      using Cons.IH local.Cons by simp
    ultimately show ?thesis by (simp add: n split)
  qed
qed simp

text \<open>A row that does not print as an empty line.\<close>

definition visible :: "string option list \<Rightarrow> bool" where
  "visible row \<longleftrightarrow> row \<noteq> [] \<and> row \<noteq> [None]"

lemma cell_head: "csv_cell v = [] \<longleftrightarrow> v = None" "csv_cell v = c # cs \<Longrightarrow> c \<noteq> lf"
  by (auto simp: csv_cell_def csv_quote_def split: option.splits if_splits)

lemma row_head: "visible row \<Longrightarrow> \<exists>c cs. csv_row row = c # cs \<and> c \<noteq> lf"
proof (cases row)
  case (Cons v vs)
  moreover assume "visible row"
  ultimately show ?thesis using cell_head [of v]
    by (cases "csv_cell v"; cases vs) (auto simp: csv_row_def visible_def)
qed (simp add: visible_def)

lemma rows_read:
  "\<forall>row \<in> set rows. visible row \<and> length row = k \<Longrightarrow> w = None \<or> w = Some k \<Longrightarrow> length (csv_text rows) \<le> n \<Longrightarrow>
     csv_records n w (csv_text rows) = Some (map (map cell_value) rows)"
proof (induction rows arbitrary: n w)
  case Nil
  then show ?case by (cases n) (simp_all add: csv_text_def)
next
  case (Cons row rows)
  have split: "csv_text (row # rows) = csv_row row @ csv_text rows" by (simp add: csv_text_def)
  from Cons.prems(1) row_head [of row] obtain c cs where c: "csv_row row = c # cs" "c \<noteq> lf" by auto
  with Cons.prems(3) obtain m where n: "n = Suc m" by (cases n) (auto simp: split)
  have "row \<noteq> []" using Cons.prems(1) by (simp add: visible_def)
  from row_read [OF this, of "csv_text rows" "Suc (length (csv_row row @ csv_text rows))"]
  have "csv_record (Suc (length (csv_row row @ csv_text rows))) (csv_row row @ csv_text rows) = Some (map cell_value row, csv_text rows)"
    by simp
  moreover have "csv_records m (Some k) (csv_text rows) = Some (map (map cell_value) rows)"
    using Cons.prems c by (intro Cons.IH) (simp_all add: n split)
  ultimately show ?case using Cons.prems(1,2) c by (auto simp: n split)
qed

lemma normalize_id: "cr \<notin> set s \<Longrightarrow> normalize_lines s = s"
  by (induction s rule: normalize_lines.induct) auto

lemma set_join: "set (join sep xs) \<subseteq> set sep \<union> \<Union> (set ` set xs)"
  by (induction sep xs rule: join.induct) auto

lemma text_cr:
  assumes "\<forall>row \<in> set rows. \<forall>s. Some s \<in> set row \<longrightarrow> cr \<notin> set s"
  shows "cr \<notin> set (csv_text rows)"
proof -
  have cell: "cr \<notin> set (csv_cell v)" if "\<forall>s. v = Some s \<longrightarrow> cr \<notin> set s" for v
    using that by (auto simp: csv_cell_def csv_quote_def split: option.splits if_splits)
  have "cr \<notin> set (join [CHR '',''] (map csv_cell row))" if "row \<in> set rows" for row
  proof
    assume "cr \<in> set (join [CHR '',''] (map csv_cell row))"
    then have "cr \<in> set [CHR '',''] \<union> \<Union> (set ` set (map csv_cell row))" using set_join by (rule set_mp [rotated])
    then obtain v where v: "v \<in> set row" "cr \<in> set (csv_cell v)" by auto
    have "cr \<notin> set s" if "v = Some s" for s
      using v(1) assms \<open>row \<in> set rows\<close> unfolding that by blast
    then have "cr \<notin> set (csv_cell v)" by (intro cell) simp
    with v(2) show False by simp
  qed
  then show ?thesis by (auto simp: csv_text_def csv_row_def)
qed

text \<open> the table that \<open>psql --csv\<close> prints for a query is read back cell by cell, quotes, commas and
  line breaks inside cells included, NULL as the empty string; the tables are those without a
  carriage return and without a row that prints as an empty line.
\<close>

theorem sql_result_roundtrip:
  assumes "\<forall>row \<in> set (header # rows). visible row \<and> length row = k"
    and "\<forall>row \<in> set (header # rows). \<forall>s. Some s \<in> set row \<longrightarrow> cr \<notin> set s"
  shows "parseCSV (csv_text (header # rows)) =
    Inr \<lparr>sr_columns = map cell_value header, sr_rows = map (map cell_value) rows, sr_affected = int (length rows)\<rparr>"
  using rows_read [OF assms(1), of None "length (csv_text (header # rows))"] normalize_id [OF text_cr [OF assms(2)]]
  by (simp add: parseCSV_def read_all_def)

corollary sql_result_roundtrip_witness:
  "parseCSV (csv_text [[Some ''id'', Some ''note''], [Some ''1'', Some ''a,b''], [Some ''2'', None]]) =
     Inr \<lparr>sr_columns = [''id'', ''note''], sr_rows = [[''1'', ''a,b''], [''2'', []]], sr_affected = 2\<rparr>"
proof -
  have "list_all (\<lambda>row. row \<noteq> [None] \<and> length row = 2 \<and> list_all (\<lambda>v. case v of None \<Rightarrow> True | Some s \<Rightarrow> cr \<notin> set s) row)
      [[Some ''id'', Some ''note''], [Some ''1'', Some ''a,b''], [Some ''2'', None]]" by code_simp
  then have "\<forall>row \<in> set [[Some ''id'', Some ''note''], [Some ''1'', Some ''a,b''], [Some ''2'', None]]. visible row \<and> length row = 2"
    "\<forall>row \<in> set [[Some ''id'', Some ''note''], [Some ''1'', Some ''a,b''], [Some ''2'', None]]. \<forall>s. Some s \<in> set row \<longrightarrow> cr \<notin> set s"
    by (force simp: visible_def list_all_iff)+
  from sql_result_roundtrip [OF this] show ?thesis by (simp add: cell_value_def)
qed

text \<open> a row that consists of one NULL prints as an empty line, which the reader skips, so that the row
  is missing from the result and from the count.
\<close>

theorem null_row_lost:
  "parseCSV (csv_text [[Some ''max''], [None]]) = Inr \<lparr>sr_columns = [''max''], sr_rows = [], sr_affected = 0\<rparr>"
  by code_simp

end
