(* ===== verification/Shells.thy ===== *)
theory Shells
  imports Interfaces
begin

text \<open>
  Commands on a machine: how the program reads their output, what it drops, and the polling of
  something that changes the world (\<open>utils.Poll\<close> around SSH commands and API calls).
\<close>

section \<open>Commands\<close>

text \<open>A call whose error is looked at instead of returned.\<close>

definition resultA :: "('w, 'a) act \<Rightarrow> ('w, goerr + 'a) act" where
  "resultA m w = (case m w of (r, w') \<Rightarrow> (Inr r, w'))"

text \<open>The output of a command whose error is dropped.\<close>

definition output_of :: "'w shell \<Rightarrow> string \<Rightarrow> ('w, string) act" where
  "output_of sh cmd w = (case sh_run sh cmd w of (Inl _, w') \<Rightarrow> (Inr [], w') | (Inr out, w') \<Rightarrow> (Inr out, w'))"

definition run_step :: "'w shell \<Rightarrow> string \<Rightarrow> string \<Rightarrow> ('w, unit) act" where
  "run_step sh what cmd = bindA (wrapA what (sh_run sh cmd)) (\<lambda>_. retA ())"

definition quoted :: "string \<Rightarrow> string" where
  "quoted s = squote @ s @ squote"

definition dquoted :: "string \<Rightarrow> string" where
  "dquoted s = quote # s @ [quote]"

definition nl :: string where "nl = [CHR 0x0A]"

section \<open>Polling\<close>

fun pollA_loop :: "nat \<Rightarrow> 'w runtime \<Rightarrow> int \<Rightarrow> int \<Rightarrow> ('w, bool) act \<Rightarrow> ('w, unit) act" where
  "pollA_loop 0 rt interval deadline fn w = (Inl ErrTimeout, w)"
| "pollA_loop (Suc n) rt interval deadline fn w =
     (if rt_now rt w > deadline then (Inl ErrTimeout, w)
      else (case rt_cancelled rt w of
        Some cause \<Rightarrow> (Inl cause, w)
      | None \<Rightarrow>
          (case fn w of
             (Inl e, w1) \<Rightarrow> (Inl e, w1)
           | (Inr finished, w1) \<Rightarrow>
               if finished then (Inr (), w1)
               else (case rt_sleep rt interval w1 of
                   (Some cause, w2) \<Rightarrow> (Inl cause, w2)
                 | (None, w2) \<Rightarrow> pollA_loop n rt interval deadline fn w2))))"

definition PollA :: "'w runtime \<Rightarrow> int \<Rightarrow> int \<Rightarrow> ('w, bool) act \<Rightarrow> ('w, unit) act" where
  "PollA rt interval timeout fn w = pollA_loop (poll_fuel interval timeout) rt interval (rt_now rt w + timeout) fn w"

text \<open>A poll that only looks is the poll of \<open>Rollout\<close> without local state.\<close>

lemma pollA_loop_read:
  "poll_loop n rt interval deadline (\<lambda>s w. (f w, s)) s w =
     (case pollA_loop n rt interval deadline (readA f) w of (r, w') \<Rightarrow> (r, s, w'))"
  by (induction n arbitrary: w) (auto simp: readA_def split: sum.split option.split prod.split)

lemma PollA_read: "Poll rt interval timeout (\<lambda>s w. (f w, s)) s w = (case PollA rt interval timeout (readA f) w of (r, w') \<Rightarrow> (r, s, w'))"
  by (simp add: Poll_def PollA_def pollA_loop_read)

text \<open>What a poll that succeeded has seen.\<close>

lemma pollA_loop_Inr:
  assumes "pollA_loop n rt interval deadline fn w = (Inr (), w')"
  shows "\<exists>w1. fn w1 = (Inr True, w')"
  using assms
proof (induction n arbitrary: w)
  case (Suc n)
  then show ?case by (auto split: if_splits option.splits sum.splits prod.splits)
qed simp

lemma PollA_Inr: "PollA rt interval timeout fn w = (Inr (), w') \<Longrightarrow> \<exists>w1. fn w1 = (Inr True, w')"
  unfolding PollA_def by (rule pollA_loop_Inr)

section \<open>What commands may do to the world\<close>

lemma resultA_eq [simp]: "resultA m w = (r, w') \<longleftrightarrow> r = Inr (fst (m w)) \<and> w' = snd (m w)"
  by (auto simp: resultA_def split: prod.split)

lemma fst_resultA [simp]: "fst (resultA m w) = Inr (fst (m w))" "snd (resultA m w) = snd (m w)"
  by (simp_all add: resultA_def split: prod.split)

lemma bindA_resultA: "bindA (resultA m) f w = (case m w of (r, w') \<Rightarrow> f r w')"
  by (simp add: bindA_def resultA_def split: prod.split)

context step_relation begin

lemma result: "keeps R m \<Longrightarrow> keeps R (resultA m)"
  by (simp add: keeps_def)

lemma captured: "keeps R (sh_run sh cmd) \<Longrightarrow> keeps R (output_of sh cmd)"
  by (auto simp: keeps_def output_of_def split: prod.split sum.split dest: spec) (metis snd_conv)+

lemma choice: "keeps R m \<Longrightarrow> keeps R n \<Longrightarrow> keeps R (if b then m else n)"
  by simp

lemma command: "keeps R (sh_run sh cmd) \<Longrightarrow> keeps R (run_step sh what cmd)"
  unfolding run_step_def by (intro bind wrap ret)

lemma polling_loop:
  assumes "keeps R fn" "\<And>i w. R w (snd (rt_sleep rt i w))"
  shows "R w (snd (pollA_loop n rt interval deadline fn w))"
proof (induction n arbitrary: w)
  case (Suc n)
  obtain r w1 where f: "fn w = (r, w1)" by fastforce
  obtain c w2 where s: "rt_sleep rt interval w1 = (c, w2)" by fastforce
  from keepsD [OF assms(1) f] have 1: "R w w1" .
  from assms(2) [of w1 interval] s have "R w1 w2" by simp
  with 1 have 2: "R w w2" by (rule trans)
  with Suc have 3: "R w (snd (pollA_loop n rt interval deadline fn w2))" by (blast intro: trans)
  from 1 2 3 show ?case by (auto simp: f s refl split: option.split sum.split)
qed (simp add: refl)

lemma poll: "keeps R fn \<Longrightarrow> (\<And>i w. R w (snd (rt_sleep rt i w))) \<Longrightarrow> keeps R (PollA rt interval timeout fn)"
  unfolding keeps_def PollA_def by (blast intro: polling_loop [unfolded keeps_def])

end

end
