(* ===== verification/Postgres.thy ===== *)
theory Postgres
  imports Backups Csv Shells
begin

text \<open>
  The self-hosted PostgreSQL provider (\<open>pkg/provider/postgres\<close>): the objects of a database, the ZFS
  pool on its node (\<open>zfs.go\<close>), snapshots and branches (\<open>branching.go\<close>).
\<close>

section \<open>Objects of a database\<close>

definition defaultPostgresVersion :: string where "defaultPostgresVersion = ''16''"

definition ImageFor :: "string \<Rightarrow> string" where
  "ImageFor version = ''postgres:'' @ (if version = [] then defaultPostgresVersion else version) @ ''-alpine''"

definition database_url :: "database_spec \<Rightarrow> string \<Rightarrow> string" where
  "database_url spec host =
     ''postgres://'' @ ds_user spec @ '':'' @ ds_password spec @ ''@'' @ host @ '':5432/'' @ ds_database spec @ ''?sslmode=disable''"

definition pg_credentials :: "'w database_request \<Rightarrow> database_credentials" where
  "pg_credentials req =
     \<lparr>dc_url = database_url (dq_spec req) (dq_full_name req), dc_host = dq_full_name req, dc_port = 5432,
      dc_user = ds_user (dq_spec req), dc_password = ds_password (dq_spec req),
      dc_database = ds_database (dq_spec req), dc_sslmode = ''disable''\<rparr>"

definition credentials_data :: "database_credentials \<Rightarrow> string gomap" where
  "credentials_data creds =
     [(''url'', dc_url creds), (''host'', dc_host creds), (''port'', itoa (dc_port creds)), (''user'', dc_user creds),
      (''password'', dc_password creds), (''database'', dc_database creds), (''sslmode'', dc_sslmode creds)]"

definition pg_EnsureCredentials :: "'w kube_client option \<Rightarrow> 'w database_request \<Rightarrow> ('w, database_credentials) act" where
  "pg_EnsureCredentials kc req =
     (let creds = pg_credentials req
      in case kc of
           None \<Rightarrow> retA creds
         | Some c \<Rightarrow>
             thenA (EnsureSecret (cl_api c) (dq_namespace req) OwnerDatabases (dq_credentials_secret req) (credentials_data creds))
               (retA creds))"

definition postgres_port :: service_port where
  "postgres_port = \<lparr>sp_name = ''postgres'', sp_port = 5432, sp_target_port = 5432, sp_protocol = []\<rparr>"

definition pg_service :: "string \<Rightarrow> string \<Rightarrow> string gomap \<Rightarrow> kobj" where
  "pg_service name ns labels = kobj_of name ns labels
     (ServiceBody \<lparr>ks_type = [], ks_selector = [(LabelAppName, name)], ks_ports = [postgres_port], ks_cluster_ip = []\<rparr>)"

definition buildService :: "'w database_request \<Rightarrow> kobj" where
  "buildService req = pg_service (dq_full_name req) (dq_namespace req) (dq_labels req)"

definition ZFSStorageClassName :: string where "ZFSStorageClassName = ''nvoi-zfs-localpv''"
definition zpoolName :: string where "zpoolName = ''nvoi-zfs''"
definition poolImagePath :: string where "poolImagePath = ''/var/lib/nvoi-zfs/pool.img''"
definition rootReserveGiB :: int where "rootReserveGiB = 8"

definition buildPVC :: "'w database_request \<Rightarrow> kobj" where
  "buildPVC req = kobj_of (dq_pvc_name req) (dq_namespace req) (dq_labels req)
     (PVCBody \<lparr>cm_access = [''ReadWriteOnce''], cm_storage = itoa (ds_size (dq_spec req)) @ ''Gi'',
        cm_class = Some ZFSStorageClassName, cm_source = None\<rparr>)"

text \<open>The pod of a database and of a branch; the three variables differ.\<close>

definition pg_pod :: "string \<Rightarrow> env_var list \<Rightarrow> string \<Rightarrow> string \<Rightarrow> pod_spec" where
  "pg_pod img env server claim =
     \<lparr>ps_restart_policy = [],
      ps_containers = [\<lparr>ct_name = ''postgres'', ct_image = img, ct_command = [], ct_args = [], ct_env = env, ct_env_from = [],
        ct_ports = [\<lparr>cp_name = ''postgres'', cp_container_port = 5432, cp_host_port = 0, cp_protocol = []\<rparr>],
        ct_mounts = [\<lparr>vm_name = ''data'', vm_path = ''/var/lib/postgresql/data'', vm_read_only = False, vm_sub_path = []\<rparr>],
        ct_probe = None, ct_requests = [], ct_limits = []\<rparr>],
      ps_volumes = [\<lparr>pv_name = ''data'', pv_source = ClaimVolume claim\<rparr>], ps_pull_secrets = [],
      ps_node_selector = [(LabelNvoiRole, server)], ps_node_affinity = None, ps_preferred = [], ps_spread = [], ps_tolerations = []\<rparr>"

definition buildStatefulSet :: "'w database_request \<Rightarrow> kobj" where
  "buildStatefulSet req =
     (let spec = dq_spec req
      in kobj_of (dq_full_name req) (dq_namespace req) (dq_labels req)
           (StatefulSetBody (dq_full_name req) 1 [(LabelAppName, dq_full_name req)]
              \<lparr>pt_labels = [(LabelAppName, dq_full_name req)], pt_annotations = [],
               pt_spec = pg_pod (ImageFor (ds_version spec))
                 [plain_env_var ''POSTGRES_USER'' (ds_user spec), plain_env_var ''POSTGRES_PASSWORD'' (ds_password spec),
                  plain_env_var ''POSTGRES_DB'' (ds_database spec)] (ds_server spec) (dq_pvc_name req)\<rparr>))"

definition buildZFSStorageClass :: kobj where
  "buildZFSStorageClass = kobj_of ZFSStorageClassName [] [(LabelAppManagedBy, LabelManagedBy)]
     (StorageClassBody \<lparr>sg_provisioner = ''zfs.csi.openebs.io'',
        sg_parameters = [(''poolname'', zpoolName), (''fstype'', ''zfs''), (''compression'', ''lz4'')],
        sg_reclaim = ''Delete'', sg_binding = ''WaitForFirstConsumer'', sg_expansion = True\<rparr>)"

section \<open>The ZFS pool of a node\<close>

definition zfsCSIManifestURL :: string where
  "zfsCSIManifestURL = ''https://raw.githubusercontent.com/openebs/zfs-localpv/v2.9.1/deploy/zfs-operator.yaml''"

definition EnsureZFSCSI :: "'w shell option \<Rightarrow> ('w, unit) act" where
  "EnsureZFSCSI masterSSH =
     (case masterSSH of
        None \<Rightarrow> failA (Errorf ''postgres.EnsureZFSCSI: master ssh client required'' [])
      | Some sh \<Rightarrow>
          bindA (wrapA ''apply openebs zfs-localpv manifest'' (sh_run sh (''sudo k3s kubectl apply -f '' @ zfsCSIManifestURL)))
            (\<lambda>_. retA ()))"

definition ensureZFSUtils :: "'w shell \<Rightarrow> ('w, unit) act" where
  "ensureZFSUtils sh =
     bindA (output_of sh (''dpkg-query -W -f='' @ quoted ''${Status}'' @ '' zfsutils-linux 2>/dev/null || true'')) (\<lambda>out.
       if contains out ''install ok installed'' then retA ()
       else run_step sh ''apt install''
              (''sudo DEBIAN_FRONTEND=noninteractive sh -c '' @ quoted ''apt-get update -q && apt-get install -y -q zfsutils-linux''))"

text \<open>The size of the pool from the free space of the root file system, in GiB.\<close>

definition pool_size :: "int \<Rightarrow> int \<Rightarrow> goerr + int" where
  "pool_size sizeGiB availGiB =
     (let maxPool = availGiB - rootReserveGiB
      in if maxPool < sizeGiB then Inl (Errorf ''node has too little free space'' [itoa availGiB, itoa sizeGiB, itoa rootReserveGiB])
         else Inr (if 2 * sizeGiB > maxPool then maxPool else 2 * sizeGiB))"

definition resolvePoolSize :: "'w shell \<Rightarrow> int \<Rightarrow> ('w, int) act" where
  "resolvePoolSize sh sizeGiB =
     bindA (wrapA ''df avail'' (sh_run sh ''df --output=avail -B1G / | tail -n 1'')) (\<lambda>out.
       case scan_int (trim_space out) of
         None \<Rightarrow> failA (Errorf ''parse df output'' [out])
       | Some availGiB \<Rightarrow> readA (\<lambda>_. pool_size sizeGiB availGiB))"

definition create_pool :: "'w shell \<Rightarrow> int \<Rightarrow> ('w, unit) act" where
  "create_pool sh poolGiB =
     thenA (run_step sh ''mkdir'' ''sudo mkdir -p /var/lib/nvoi-zfs'')
     (thenA (run_step sh ''create pool image'' (''sudo sh -c '' @ quoted
               (''test -f '' @ poolImagePath @ '' || truncate -s '' @ itoa poolGiB @ ''G '' @ poolImagePath)))
        (run_step sh ''zpool create''
           (''sudo zpool create -o ashift=12 -O compression=lz4 -m none '' @ zpoolName @ '' '' @ poolImagePath)))"

definition ensureZPool :: "'w shell \<Rightarrow> int \<Rightarrow> ('w, unit) act" where
  "ensureZPool sh sizeGiB =
     bindA (output_of sh ''zpool list -H -o name 2>/dev/null || true'') (\<lambda>out.
       if zpoolName \<in> trim_space ` set (split_on (CHR 0x0A) out) then retA ()
       else bindA (resolvePoolSize sh sizeGiB) (create_pool sh))"

definition PrepareNode :: "'w shell option \<Rightarrow> int \<Rightarrow> ('w, unit) act" where
  "PrepareNode ssh sizeGiB =
     (case ssh of
        None \<Rightarrow> failA (Errorf ''postgres.PrepareNode: ssh client required'' [])
      | Some sh \<Rightarrow>
          if sizeGiB \<le> 0 then failA (Errorf ''postgres.PrepareNode: sizeGiB must be > 0'' [])
          else thenA (wrapA ''install zfsutils'' (ensureZFSUtils sh)) (wrapA ''create zpool'' (ensureZPool sh sizeGiB)))"

section \<open>The provider\<close>

definition pg_workloads :: "'w database_request \<Rightarrow> kobj list" where
  "pg_workloads req =
     [buildZFSStorageClass, buildService req, buildPVC req, buildStatefulSet req] @
     (case ds_backup (dq_spec req) of
        Some b \<Rightarrow> if bs_schedule b \<noteq> [] then [BuildBackupCronJob req] else []
      | None \<Rightarrow> [])"

definition pg_Reconcile :: "'w database_request \<Rightarrow> ('w, kobj list) act" where
  "pg_Reconcile req =
     thenA (whenA (dq_shell req \<noteq> None \<and> ds_size (dq_spec req) > 0)
              (wrapA ''postgres.PrepareNode'' (PrepareNode (dq_shell req) (ds_size (dq_spec req)))))
       (retA (pg_workloads req))"

definition pg_BackupNow :: "'w database_request \<Rightarrow> ('w, backup_ref) act" where
  "pg_BackupNow req =
     (case dq_kube req of
        None \<Rightarrow> failA (Errorf ''postgres BackupNow requires kube client'' [])
      | Some c \<Rightarrow>
          (\<lambda>w. if (case ds_backup (dq_spec req) of None \<Rightarrow> True | Some b \<Rightarrow> bs_schedule b = [])
               then (Inl (Errorf ''postgres backup schedule is not configured'' []), w)
               else let jobName = dq_backup_name req @ ''-manual-'' @ itoa (rt_now (cl_runtime c) w)
                    in bindA (CreateJobFromCronJob (cl_api c) (dq_namespace req) (dq_backup_name req) jobName)
                         (\<lambda>_. retA \<lparr>br_id = jobName, br_created_at = [], br_size = 0, br_kind = ''dump''\<rparr>) w))"

text \<open>
  \<open>psql\<close> runs in the pod of the database. What it wrote to its error stream is kept as context of
  the error.
\<close>

definition psql_command :: "'w database_request \<Rightarrow> string \<Rightarrow> string list" where
  "psql_command req stmt = [''psql'', dc_url (pg_credentials req), ''--csv'', ''-c'', stmt]"

definition ExecSQLWithKube :: "'w kube_client \<Rightarrow> 'w database_request \<Rightarrow> string \<Rightarrow> ('w, sql_result) act" where
  "ExecSQLWithKube c req stmt w =
     (case px_run (cl_exec c) (dq_namespace req) (dq_pod_name req) [] (psql_command req stmt) [] w of
        ((_, stderr, Some e), w') \<Rightarrow> (Inl (if stderr = [] then e else Wrapf (trim_space stderr) e), w')
      | ((stdout, _, None), w') \<Rightarrow> (parseCSV stdout, w'))"

definition pg_ExecSQL :: "'w database_request \<Rightarrow> string \<Rightarrow> ('w, sql_result) act" where
  "pg_ExecSQL req stmt =
     (case dq_kube req of
        None \<Rightarrow> failA (Errorf ''postgres.ExecSQL requires kube client'' [])
      | Some c \<Rightarrow> ExecSQLWithKube c req stmt)"

definition postgres_provider :: "'w object_store \<Rightarrow> 'w database_provider" where
  "postgres_provider s3 =
     \<lparr>dbp_validate = (\<lambda>_. Inr ()), dbp_ensure_credentials = pg_EnsureCredentials, dbp_reconcile = pg_Reconcile,
      dbp_delete = (\<lambda>_. retA ()), dbp_exec_sql = pg_ExecSQL, dbp_backup_now = pg_BackupNow,
      dbp_list_backups = BucketListBackups s3, dbp_download = BucketDownloadBackup s3,
      dbp_restore = (\<lambda>req key. RunRestoreJob (dq_kube req) req key)\<rparr>"

section \<open>Snapshots\<close>

definition SnapshotClassName :: string where "SnapshotClassName = ''nvoi-zfs-snapshots''"
definition snapshotAPIVersion :: string where "snapshotAPIVersion = ''snapshot.storage.k8s.io/v1''"
definition brLabel :: string where "brLabel = ''nvoi/branch-of''"

definition lines_of :: "string list \<Rightarrow> string" where
  "lines_of ls = concat (map (\<lambda>l. l @ nl) ls)"

definition applyManifest :: "'w shell \<Rightarrow> string \<Rightarrow> ('w, unit) act" where
  "applyManifest sh manifest =
     run_step sh ''kubectl apply''
       (''sudo k3s kubectl apply -f - <<'' @ quoted ''NVOI_EOF'' @ nl @ trim_space manifest @ nl @ ''NVOI_EOF'' @ nl)"

definition snapshot_class_manifest :: string where
  "snapshot_class_manifest = lines_of
     [''apiVersion: '' @ snapshotAPIVersion, ''kind: VolumeSnapshotClass'', ''metadata:'', ''  name: '' @ SnapshotClassName,
      ''  labels:'', ''    app.kubernetes.io/managed-by: nvoi'', ''driver: zfs.csi.openebs.io'', ''deletionPolicy: Delete'']"

definition snapshot_manifest :: "string \<Rightarrow> string \<Rightarrow> string \<Rightarrow> string" where
  "snapshot_manifest snapName namespace pvcName = lines_of
     [''apiVersion: '' @ snapshotAPIVersion, ''kind: VolumeSnapshot'', ''metadata:'', ''  name: '' @ snapName,
      ''  namespace: '' @ namespace, ''  labels:'', ''    app.kubernetes.io/managed-by: nvoi'',
      ''    nvoi/snapshot-of: '' @ pvcName, ''spec:'', ''  volumeSnapshotClassName: '' @ SnapshotClassName,
      ''  source:'', ''    persistentVolumeClaimName: '' @ pvcName]"

definition EnsureSnapshotClass :: "'w shell option \<Rightarrow> ('w, unit) act" where
  "EnsureSnapshotClass masterSSH =
     (case masterSSH of
        None \<Rightarrow> failA (Errorf ''postgres.EnsureSnapshotClass: master ssh required'' [])
      | Some sh \<Rightarrow> applyManifest sh snapshot_class_manifest)"

definition applyVolumeSnapshot :: "'w shell \<Rightarrow> names \<Rightarrow> string \<Rightarrow> string \<Rightarrow> ('w, unit) act" where
  "applyVolumeSnapshot sh names dbName snapName =
     thenA (EnsureSnapshotClass (Some sh))
       (wrapA (''apply VolumeSnapshot '' @ snapName)
          (applyManifest sh (snapshot_manifest snapName (KubeNamespace names) (KubeDatabasePVC names dbName))))"

text \<open>The name is returned also when the apply fails; an empty label is replaced by the time.\<close>

definition Snapshot :: "'w shell option \<Rightarrow> names option \<Rightarrow> string \<Rightarrow> string \<Rightarrow> string \<Rightarrow> 'w \<Rightarrow> (string \<times> goerr option) \<times> 'w" where
  "Snapshot masterSSH names dbName label0 timestamp w =
     (case masterSSH of
        None \<Rightarrow> (([], Some (Errorf ''postgres.Snapshot: master ssh required'' [])), w)
      | Some sh \<Rightarrow>
          (case names of
             None \<Rightarrow> (([], Some (Errorf ''postgres.Snapshot: names required'' [])), w)
           | Some ns \<Rightarrow>
               let label = (if label0 = [] then timestamp else label0)
               in (case ValidateName ''snapshot label'' label of
                     Some e \<Rightarrow> (([], Some e), w)
                   | None \<Rightarrow>
                       let snapName = KubeDatabaseSnapshot ns dbName label
                       in (case applyVolumeSnapshot sh ns dbName snapName w of
                             (Inl e, w') \<Rightarrow> ((snapName, Some e), w')
                           | (Inr _, w') \<Rightarrow> ((snapName, None), w')))))"

text \<open>The part of a line after its last slash.\<close>

definition after_slash :: "string \<Rightarrow> string" where
  "after_slash s = rev (takeWhile (\<lambda>c. c \<noteq> CHR ''/'') (rev s))"

definition ListSnapshots :: "'w shell \<Rightarrow> names \<Rightarrow> string \<Rightarrow> ('w, string list) act" where
  "ListSnapshots sh names dbName =
     bindA (wrapA ''list snapshots'' (sh_run sh
              (''sudo k3s kubectl -n '' @ KubeNamespace names @ '' get volumesnapshot -l nvoi/snapshot-of=''
                 @ KubeDatabasePVC names dbName @ '' -o name 2>/dev/null || true''))) (\<lambda>out.
       retA (map after_slash (filter (\<lambda>l. l \<noteq> []) (map trim_space (split_on (CHR 0x0A) (trim_space out))))))"

definition DeleteSnapshot :: "'w shell \<Rightarrow> string \<Rightarrow> string \<Rightarrow> ('w, unit) act" where
  "DeleteSnapshot sh namespace snapshotName =
     (case ValidateName ''snapshot name'' snapshotName of
        Some e \<Rightarrow> failA e
      | None \<Rightarrow>
          run_step sh (''delete snapshot '' @ snapshotName)
            (''sudo k3s kubectl -n '' @ namespace @ '' delete volumesnapshot '' @ snapshotName @ '' --ignore-not-found''))"

section \<open>Branches\<close>

record branch_source =
  bx_names :: names
  bx_db_name :: string
  bx_size :: int
  bx_version :: string
  bx_server_role :: string

record branch_result =
  bz_name :: string
  bz_pvc :: string
  bz_service :: string
  bz_snapshot :: string

definition branchLabels :: "branch_source \<Rightarrow> string gomap" where
  "branchLabels src = [(LabelAppManagedBy, LabelManagedBy), (brLabel, KubeDatabasePVC (bx_names src) (bx_db_name src))]"

definition buildBranchPVC :: "branch_source \<Rightarrow> string \<Rightarrow> string \<Rightarrow> kobj" where
  "buildBranchPVC src name snapshotName = kobj_of name (KubeNamespace (bx_names src)) (branchLabels src)
     (PVCBody \<lparr>cm_access = [''ReadWriteOnce''], cm_storage = itoa (bx_size src) @ ''Gi'', cm_class = Some ZFSStorageClassName,
        cm_source = Some (''snapshot.storage.k8s.io'', ''VolumeSnapshot'', snapshotName)\<rparr>)"

definition buildBranchService :: "branch_source \<Rightarrow> string \<Rightarrow> kobj" where
  "buildBranchService src name = pg_service name (KubeNamespace (bx_names src)) (branchLabels src)"

definition buildBranchStatefulSet :: "branch_source \<Rightarrow> string \<Rightarrow> kobj" where
  "buildBranchStatefulSet src name =
     (let credsSecret = KubeDatabaseCredentials (bx_names src) (bx_db_name src)
      in kobj_of name (KubeNamespace (bx_names src)) (branchLabels src)
           (StatefulSetBody name 1 [(LabelAppName, name)]
              \<lparr>pt_labels = put_all (branchLabels src) [(LabelAppName, name)], pt_annotations = [],
               pt_spec = pg_pod (ImageFor (bx_version src))
                 [secret_env_var credsSecret ''POSTGRES_USER'' ''user'', secret_env_var credsSecret ''POSTGRES_PASSWORD'' ''password'',
                  secret_env_var credsSecret ''POSTGRES_DB'' ''database''] (bx_server_role src) name\<rparr>))"

definition branch_objects :: "branch_source \<Rightarrow> string \<Rightarrow> string \<Rightarrow> (string \<times> kobj) list" where
  "branch_objects src branchWorkload snapName =
     [(''apply branch PVC'', buildBranchPVC src branchWorkload snapName),
      (''apply branch Service'', buildBranchService src branchWorkload),
      (''apply branch StatefulSet'', buildBranchStatefulSet src branchWorkload)]"

definition Branch :: "'w kube_client option \<Rightarrow> 'w shell option \<Rightarrow> branch_source \<Rightarrow> string \<Rightarrow> ('w, branch_result) act" where
  "Branch kc masterSSH src branchName =
     (case masterSSH of
        None \<Rightarrow> failA (Errorf ''postgres.Branch: master ssh required'' [])
      | Some sh \<Rightarrow>
     (case kc of
        None \<Rightarrow> failA (Errorf ''postgres.Branch: kube client required'' [])
      | Some c \<Rightarrow>
     (case ValidateName ''branch'' branchName of
        Some e \<Rightarrow> failA e
      | None \<Rightarrow>
          if bx_size src \<le> 0 then failA (Errorf ''postgres.Branch: source size must be > 0'' [])
          else
          let branchWorkload = KubeDatabaseBranch (bx_names src) (bx_db_name src) branchName;
              namespace = KubeNamespace (bx_names src);
              snapName = KubeDatabaseBranchSnapshot (bx_names src) (bx_db_name src) branchName
          in if length branchWorkload > 63 then failA (Errorf ''postgres.Branch: composite name too long'' [branchWorkload])
             else thenA (wrapA ''snapshot source'' (applyVolumeSnapshot sh (bx_names src) (bx_db_name src) snapName))
                  (thenA (forA (\<lambda>(what, obj). wrapA what (ApplyOwned (cl_api c) namespace OwnerDatabaseBranches obj))
                            (branch_objects src branchWorkload snapName))
                     (retA \<lparr>bz_name = branchName, bz_pvc = branchWorkload, bz_service = branchWorkload, bz_snapshot = snapName\<rparr>)))))"

definition DeleteBranch :: "'w kube_client option \<Rightarrow> 'w shell option \<Rightarrow> names \<Rightarrow> string \<Rightarrow> string \<Rightarrow> ('w, unit) act" where
  "DeleteBranch kc masterSSH names dbName branchName =
     (case kc of
        None \<Rightarrow> failA (Errorf ''postgres.DeleteBranch: kube client required'' [])
      | Some c \<Rightarrow>
     (case ValidateName ''branch'' branchName of
        Some e \<Rightarrow> failA e
      | None \<Rightarrow>
          let namespace = KubeNamespace names; branchWorkload = KubeDatabaseBranch names dbName branchName
          in thenA (wrapA ''delete branch workloads'' (DeleteByName (cl_api c) namespace branchWorkload))
             (thenA (wrapA ''delete branch pvc'' (DeletePVC (cl_api c) namespace branchWorkload))
                (case masterSSH of
                   None \<Rightarrow> retA ()
                 | Some sh \<Rightarrow> DeleteSnapshot sh namespace (KubeDatabaseBranchSnapshot names dbName branchName)))))"

end
