(* ===== verification/Allowlist.thy ===== *)
theory Allowlist
  imports Config
begin

text \<open>
  \<open>pkg/provider/allowlist.go\<close>: the ports that the firewall of the master opens. A nil
  \<open>PortAllowList\<close> and an empty one are the same list here: no function of the file returns an
  empty map, and none tells the two apart in its result.
\<close>

section \<open>Rules\<close>

type_synonym port_allow_list = "string list gomap"

definition InternalPorts :: "string list" where
  "InternalPorts = [''6443'', ''10250'', ''8472'', ''5000'']"

definition IsInternalPort :: "string \<Rightarrow> bool" where
  "IsInternalPort port \<longleftrightarrow> port \<in> set InternalPorts"

text \<open>
  \<open>sort.Slice\<close> leaves keys of the same number in some order; here it is the order of the map.
\<close>

definition SortedPorts :: "port_allow_list \<Rightarrow> string list" where
  "SortedPorts m = sort_key (\<lambda>k. fst (atoi k)) (map fst m)"

definition add_cidr :: "string \<Rightarrow> string \<Rightarrow> port_allow_list \<Rightarrow> port_allow_list" where
  "add_cidr port cidr0 result =
     (let cidr = trim_space cidr0
      in if cidr = [] then result
         else (let cidr = (if \<not> contains cidr ''/'' then cidr @ ''/32'' else cidr)
               in AList.update port (get0 [] result port @ [cidr]) result))"

definition add_group :: "string \<Rightarrow> port_allow_list \<Rightarrow> port_allow_list" where
  "add_group group0 result =
     (case cut CHR '':'' (trim_space group0) of (port, cidrs, ok) \<Rightarrow>
        if \<not> ok \<or> port = [] then result
        else (case atoi port of (portNum, valid) \<Rightarrow>
          if \<not> valid \<or> portNum < 1 \<or> portNum > 65535 then result
          else fold (add_cidr port) (split_on CHR '','' cidrs) result))"

definition ParseRawRules :: "string list \<Rightarrow> port_allow_list" where
  "ParseRawRules args = fold (\<lambda>arg result. fold add_group (split_on CHR '';'' arg) result) args []"

definition rule_error :: "string \<Rightarrow> goerr option" where
  "rule_error arg =
     (let trimmed = trim_space arg
      in check (trimmed \<noteq> [] \<and> \<not> contains trimmed '':'')
           (Errorf ''firewall: is not a valid rule'' [trimmed]))"

definition ResolveFirewallArgs :: "string list \<Rightarrow> goerr + port_allow_list" where
  "ResolveFirewallArgs args =
     (case each rule_error args of Some e \<Rightarrow> Inl e | None \<Rightarrow> Inr (ParseRawRules args))"

definition MergeAllowLists :: "port_allow_list \<Rightarrow> port_allow_list \<Rightarrow> port_allow_list" where
  "MergeAllowLists base overrides =
     (let result = fold (\<lambda>(port, ips) r. AList.update port ips r) base []
      in fold (\<lambda>(port, ips) r. AList.update port ips r) overrides result)"

definition base_allow_list :: "app_config \<Rightarrow> port_allow_list" where
  "base_allow_list cfg =
     (if DomainsByService cfg \<noteq> [] \<and> TunnelProvider cfg = [] then
        [(''80'', [''0.0.0.0/0'', ''::/0'']), (''443'', [''0.0.0.0/0'', ''::/0''])]
      else [])"

definition FirewallAllowList :: "app_config \<Rightarrow> goerr + port_allow_list" where
  "FirewallAllowList cfg =
     (let base = base_allow_list cfg
      in bindR (ResolveFirewallArgs (FirewallRules cfg)) (\<lambda>userRules.
           Inr (MergeAllowLists base userRules)))"

section \<open>What the parser admits\<close>

definition valid_port :: "string \<Rightarrow> bool" where
  "valid_port p \<longleftrightarrow> (\<exists>n. atoi p = (n, True) \<and> 1 \<le> n \<and> n \<le> 65535)"

definition allow_ok :: "port_allow_list \<Rightarrow> bool" where
  "allow_ok m \<longleftrightarrow> gomap_ok m \<and>
     (\<forall>(p, cidrs) \<in> set m. valid_port p \<and> cidrs \<noteq> [] \<and> (\<forall>c \<in> set cidrs. CHR ''/'' \<in> set c))"

lemma allow_ok_update:
  assumes "allow_ok m" "valid_port p" "cs \<noteq> []" "\<forall>c \<in> set cs. CHR ''/'' \<in> set c"
  shows "allow_ok (AList.update p cs m)"
proof -
  have "gomap_ok (AList.update p cs m)"
    using assms(1) by (simp add: allow_ok_def gomap_ok_def distinct_update)
  moreover have "(q, ds) \<in> set (AList.update p cs m) \<Longrightarrow> (q, ds) \<in> set m \<or> (q, ds) = (p, cs)" for q ds
    by (induction m) (auto split: if_splits)
  ultimately show ?thesis
    using assms unfolding allow_ok_def by blast
qed

lemma allow_ok_get: "allow_ok m \<Longrightarrow> c \<in> set (get0 [] m p) \<Longrightarrow> CHR ''/'' \<in> set c"
proof -
  assume "allow_ok m" "c \<in> set (get0 [] m p)"
  then obtain cs where "(p, cs) \<in> set m" "c \<in> set cs"
    by (cases "map_of m p") (auto simp: get0_def dest: map_of_SomeD)
  with \<open>allow_ok m\<close> show ?thesis unfolding allow_ok_def by fast
qed

lemma allow_ok_add_cidr: "allow_ok m \<Longrightarrow> valid_port p \<Longrightarrow> allow_ok (add_cidr p c m)"
  unfolding add_cidr_def Let_def
  by (auto intro!: allow_ok_update dest: allow_ok_get simp: contains_byte)

lemma allow_ok_add_group: "allow_ok m \<Longrightarrow> allow_ok (add_group g m)"
proof -
  have "allow_ok m \<Longrightarrow> valid_port p \<Longrightarrow> allow_ok (fold (add_cidr p) cs m)" for p cs m
    by (induction cs arbitrary: m) (simp_all add: allow_ok_add_cidr)
  then show "allow_ok m \<Longrightarrow> allow_ok (add_group g m)"
    by (auto simp: add_group_def valid_port_def split: prod.splits)
qed

lemma allow_ok_fold_groups: "allow_ok m \<Longrightarrow> allow_ok (fold add_group gs m)"
  by (induction gs arbitrary: m) (simp_all add: allow_ok_add_group)

lemma allow_ok_ParseRawRules: "allow_ok (ParseRawRules args)"
proof -
  have "allow_ok m \<Longrightarrow> allow_ok (fold (\<lambda>arg r. fold add_group (split_on CHR '';'' arg) r) args m)" for m
    by (induction args arbitrary: m) (simp_all add: allow_ok_fold_groups)
  moreover have "allow_ok []" by (simp add: allow_ok_def gomap_ok_def)
  ultimately show ?thesis by (simp only: ParseRawRules_def)
qed

lemma map_of_fold_update:
  "gomap_ok ov \<Longrightarrow> map_of (fold (\<lambda>(p, ips) r. AList.update p ips r) ov m) = map_of m ++ map_of ov"
proof (induction ov arbitrary: m)
  case (Cons x xs)
  obtain p ips where x: "x = (p, ips)" by (cases x)
  have "p \<notin> dom (map_of xs)" using Cons.prems by (simp add: gomap_ok_def x dom_map_of_conv_image_fst)
  moreover have "map_of (fold (\<lambda>(p, ips) r. AList.update p ips r) (x # xs) m) = (map_of m)(p \<mapsto> ips) ++ map_of xs"
    using Cons by (simp add: x gomap_ok_def update_conv')
  ultimately show ?case
    by (auto simp: x map_add_def fun_eq_iff dom_def split: option.splits)
qed simp

lemma allow_ok_fold_update:
  "allow_ok m \<Longrightarrow> allow_ok ov \<Longrightarrow> allow_ok (fold (\<lambda>(p, ips) r. AList.update p ips r) ov m)"
proof (induction ov arbitrary: m)
  case (Cons x xs)
  obtain q ips where x: "x = (q, ips)" by (cases x)
  have "allow_ok (AList.update q ips m)" "allow_ok xs"
    using Cons.prems by (auto simp: x allow_ok_def [of "x # xs"] intro!: allow_ok_update)
      (auto simp: x allow_ok_def gomap_ok_def)
  then show ?case by (simp add: x Cons.IH)
qed simp

lemma allow_ok_Nil: "allow_ok []"
  by (simp add: allow_ok_def gomap_ok_def)

lemma MergeAllowLists_ok:
  assumes "allow_ok a" "allow_ok b"
  shows "allow_ok (MergeAllowLists a b)" and "map_of (MergeAllowLists a b) = map_of a ++ map_of b"
proof -
  from assms have "gomap_ok a" "gomap_ok b" by (simp_all add: allow_ok_def)
  then show "map_of (MergeAllowLists a b) = map_of a ++ map_of b"
    by (simp add: MergeAllowLists_def map_of_fold_update)
  show "allow_ok (MergeAllowLists a b)"
    using assms by (simp add: MergeAllowLists_def allow_ok_fold_update allow_ok_Nil)
qed

lemma valid_http: "valid_port ''80''" "valid_port ''443''"
proof -
  have "atoi ''80'' = (80, True)" "atoi ''443'' = (443, True)" by code_simp+
  then show "valid_port ''80''" "valid_port ''443''" by (simp_all add: valid_port_def)
qed

lemma allow_ok_base: "allow_ok (base_allow_list cfg)"
  by (simp add: allow_ok_def gomap_ok_def base_allow_list_def valid_http)

lemma ResolveFirewallArgs_Inr:
  "ResolveFirewallArgs args = Inr m \<longleftrightarrow> each rule_error args = None \<and> m = ParseRawRules args"
  by (auto simp: ResolveFirewallArgs_def split: option.splits)

lemma FirewallAllowList_Inr:
  "FirewallAllowList cfg = Inr m \<longleftrightarrow> each rule_error (cfg_firewall cfg) = None \<and>
     m = MergeAllowLists (base_allow_list cfg) (ParseRawRules (cfg_firewall cfg))"
  by (auto simp: FirewallAllowList_def bindR_eq_Inr ResolveFirewallArgs_Inr FirewallRules_def)

lemma map_of_base:
  "map_of (base_allow_list cfg) p =
     (if (p = ''80'' \<or> p = ''443'') \<and> cfg_domains cfg \<noteq> [] \<and> p_tunnel (cfg_providers cfg) = []
      then Some [''0.0.0.0/0'', ''::/0''] else None)"
  by (simp add: base_allow_list_def DomainsByService_def TunnelProvider_def)

lemma firewall_allow_list_lookup:
  assumes "FirewallAllowList cfg = Inr m"
  shows "allow_ok m" "map_of m p = (if has_key (ParseRawRules (cfg_firewall cfg)) p
       then map_of (ParseRawRules (cfg_firewall cfg)) p
       else map_of (base_allow_list cfg) p)"
proof -
  let ?u = "ParseRawRules (cfg_firewall cfg)"
  from assms have m: "m = MergeAllowLists (base_allow_list cfg) ?u"
    by (simp add: FirewallAllowList_Inr)
  note ok = MergeAllowLists_ok [OF allow_ok_base allow_ok_ParseRawRules, of cfg "cfg_firewall cfg"]
  then show "allow_ok m" by (simp add: m)
  from ok show "map_of m p = (if has_key ?u p then map_of ?u p else map_of (base_allow_list cfg) p)"
    by (simp add: m map_add_def has_key_def split: option.splits)
qed

lemma firewall_allow_list_has_key:
  assumes "FirewallAllowList cfg = Inr m"
  shows "has_key m p \<longleftrightarrow>
    (p = ''80'' \<or> p = ''443'') \<and> cfg_domains cfg \<noteq> [] \<and> p_tunnel (cfg_providers cfg) = [] \<or>
    has_key (ParseRawRules (cfg_firewall cfg)) p"
  using firewall_allow_list_lookup(2) [OF assms, of p] by (auto simp: has_key_def map_of_base split: if_splits)

text \<open>
  C16: the master's allow-list has a port exactly when the port is 80 or 443 and the program
  serves domains without a tunnel, or a user rule names it, and the user's sources win; every
  port is a number from 1 to 65535 with at least one source, each in CIDR form, and no port is
  listed twice.
\<close>

theorem firewall_allow_list_spec:
  assumes "FirewallAllowList cfg = Inr m"
  shows "allow_ok m \<and>
    (has_key m p \<longleftrightarrow>
       (p = ''80'' \<or> p = ''443'') \<and> cfg_domains cfg \<noteq> [] \<and> p_tunnel (cfg_providers cfg) = [] \<or>
       has_key (ParseRawRules (cfg_firewall cfg)) p) \<and>
    map_of m p = (if has_key (ParseRawRules (cfg_firewall cfg)) p
       then map_of (ParseRawRules (cfg_firewall cfg)) p
       else map_of (base_allow_list cfg) p)"
  using firewall_allow_list_lookup [OF assms] firewall_allow_list_has_key [OF assms] by blast

corollary firewall_allow_list_spec_witness:
  "FirewallAllowList (config0\<lparr>cfg_domains := [(''web'', [''a.io''])],
     cfg_firewall := [''443:1.2.3.4;22:5.6.7.8/32'']\<rparr>) =
     Inr [(''80'', [''0.0.0.0/0'', ''::/0'']), (''443'', [''1.2.3.4/32'']), (''22'', [''5.6.7.8/32''])] \<and>
   allow_ok [(''80'', [''0.0.0.0/0'', ''::/0'']), (''443'', [''1.2.3.4/32'']), (''22'', [''5.6.7.8/32''])]"
proof -
  have "FirewallAllowList (config0\<lparr>cfg_domains := [(''web'', [''a.io''])],
     cfg_firewall := [''443:1.2.3.4;22:5.6.7.8/32'']\<rparr>) =
     Inr [(''80'', [''0.0.0.0/0'', ''::/0'']), (''443'', [''1.2.3.4/32'']), (''22'', [''5.6.7.8/32''])]"
    by code_simp
  with firewall_allow_list_spec [OF this] show ?thesis by simp
qed

end
