(* ===== verification/InfraPlan.thy ===== *)
theory InfraPlan
  imports Plan Allowlist
begin

text \<open>
  \<open>ComputeInfraPlan\<close> of \<open>pkg/provider/plan.go\<close>: the difference between the servers, volumes,
  firewalls and firewall rules of the configuration and those of the live cluster.
\<close>

section \<open>The planner\<close>

record live_snapshot =
  sn_servers :: "string list"
  sn_server_disk :: "int gomap"
  sn_firewalls :: "string list"
  sn_firewall_rules :: "port_allow_list gomap"
  sn_volumes :: "string list"

definition live_names :: "(live_snapshot \<Rightarrow> string list) \<Rightarrow> live_snapshot option \<Rightarrow> string list" where
  "live_names f snap = (case snap of None \<Rightarrow> [] | Some s \<Rightarrow> f s)"

definition plan_servers :: "app_config \<Rightarrow> live_snapshot option \<Rightarrow> plan_entry list" where
  "plan_servers cfg snap =
     (let desiredServers = set (map ss_name (ServerDefs cfg));
          liveServers = live_names sn_servers snap
      in present_entries ResServer ss_name (\<lambda>s. ss_type s @ '' '' @ ss_region s)
           (\<lambda>n. n \<in> set liveServers) (ServerDefs cfg) @
         stale_entries ResServer (\<lambda>n. n \<in> desiredServers) (sort liveServers))"

definition builder_defs :: "app_config \<Rightarrow> server_spec list" where
  "builder_defs cfg = filter (\<lambda>s. ss_role s = RoleBuilder) (ServerDefs cfg)"

definition plan_volumes :: "app_config \<Rightarrow> live_snapshot option \<Rightarrow> names \<Rightarrow> plan_entry list" where
  "plan_volumes cfg snap names =
     (let desiredVols = set (map vs_name (VolumeDefs cfg)) \<union>
            set (map (\<lambda>s. BuilderCacheVolumeShort names (ss_name s)) (builder_defs cfg));
          liveVols = live_names sn_volumes snap
      in present_entries ResVolume vs_name (\<lambda>v. itoa (vs_size v) @ ''GB on '' @ vs_server v)
           (\<lambda>n. n \<in> set liveVols) (VolumeDefs cfg) @
         present_entries ResVolume (\<lambda>s. BuilderCacheVolumeShort names (ss_name s))
           (\<lambda>s. itoa BuilderCacheVolumeSizeGB @ ''GB on '' @ ss_name s @ '' (builder cache)'')
           (\<lambda>n. n \<in> set liveVols) (builder_defs cfg) @
         stale_entries ResVolume (\<lambda>n. n \<in> desiredVols) (sort liveVols))"

definition splitByRole :: "server_spec list \<Rightarrow> server_spec list \<times> server_spec list \<times> server_spec list" where
  "splitByRole defs =
     (sort_key ss_name (filter (\<lambda>s. ss_role s \<noteq> RoleWorker \<and> ss_role s \<noteq> RoleBuilder) defs),
      sort_key ss_name (filter (\<lambda>s. ss_role s = RoleWorker) defs),
      sort_key ss_name (filter (\<lambda>s. ss_role s = RoleBuilder) defs))"

definition desired_firewalls :: "app_config \<Rightarrow> names \<Rightarrow> string list" where
  "desired_firewalls cfg names =
     (case splitByRole (ServerDefs cfg) of (masters, workers, builders) \<Rightarrow>
        (if masters \<noteq> [] then [MasterFirewall names] else []) @
        (if workers \<noteq> [] then [WorkerFirewall names] else []) @
        (if builders \<noteq> [] then [BuilderFirewall names] else []))"

definition plan_firewalls :: "app_config \<Rightarrow> live_snapshot option \<Rightarrow> names \<Rightarrow> plan_entry list" where
  "plan_firewalls cfg snap names =
     (let desiredFW = desired_firewalls cfg names; liveFW = live_names sn_firewalls snap
      in present_entries ResFirewall (\<lambda>fw. fw) (\<lambda>_. []) (\<lambda>n. n \<in> set liveFW) (sorted_set desiredFW) @
         stale_entries ResFirewall (\<lambda>n. n \<in> set desiredFW) (sorted_set liveFW))"

definition cidrEqual :: "string list \<Rightarrow> string list \<Rightarrow> bool" where
  "cidrEqual a b \<longleftrightarrow> length a = length b \<and> list_all2 (=) (sort a) (sort b)"

definition arrow :: string where
  "arrow = [CHR '' '', CHR 0xE2, CHR 0x86, CHR 0x92, CHR '' '']"

definition warning_sign :: string where
  "warning_sign = [CHR '' '', CHR 0xE2, CHR 0x9A, CHR 0xA0, CHR '' '']"

definition diffRules :: "string \<Rightarrow> port_allow_list \<Rightarrow> port_allow_list \<Rightarrow> plan_entry list" where
  "diffRules fwName desired live =
     map (\<lambda>port.
       case map_of live port of
         None \<Rightarrow> entry PlanAdd ResFirewallRule (fwName @ '':'' @ port) (fmt_list (get0 [] desired port))
       | Some liveCIDRs \<Rightarrow>
           if \<not> cidrEqual liveCIDRs (get0 [] desired port)
           then entry PlanUpdate ResFirewallRule (fwName @ '':'' @ port)
                  (fmt_list liveCIDRs @ arrow @ fmt_list (get0 [] desired port))
           else entry PlanNoChange ResFirewallRule (fwName @ '':'' @ port) (fmt_list liveCIDRs))
       (SortedPorts desired) @
     map (\<lambda>port. entry PlanDelete ResFirewallRule (fwName @ '':'' @ port)
            (''was '' @ fmt_list (get0 [] live port) @ warning_sign @ ''removes existing access''))
       (filter (\<lambda>port. \<not> has_key desired port \<and> port \<noteq> ''22'') (SortedPorts live))"

text \<open>\<open>desiredRules[fw]\<close>: the allow-list of the master's firewall, nil for the others.\<close>

definition plan_rules :: "app_config \<Rightarrow> live_snapshot option \<Rightarrow> names \<Rightarrow> goerr + plan_entry list" where
  "plan_rules cfg snap names =
     (case snap of
        None \<Rightarrow> Inr []
      | Some s \<Rightarrow>
          (case splitByRole (ServerDefs cfg) of (masters, workers, builders) \<Rightarrow>
             bindR (if masters \<noteq> [] then
                      (case FirewallAllowList cfg of
                         Inl e \<Rightarrow> Inl (Wrapf ''master firewall allow-list'' e)
                       | Inr masterRules \<Rightarrow> Inr [(MasterFirewall names, masterRules)])
                    else Inr [])
               (\<lambda>desiredRules.
                 Inr (concat (map (\<lambda>fw.
                   if fw \<notin> set (sn_firewalls s) then []
                   else diffRules fw (get0 [] desiredRules fw) (get0 [] (sn_firewall_rules s) fw))
                   (sorted_set (desired_firewalls cfg names)))))))"

definition ComputeInfraPlan :: "app_config \<Rightarrow> live_snapshot option \<Rightarrow> names \<Rightarrow> goerr + plan_entry list" where
  "ComputeInfraPlan cfg snap names =
     bindR (plan_rules cfg snap names) (\<lambda>rules.
       Inr (plan_servers cfg snap @ plan_volumes cfg snap names @ plan_firewalls cfg snap names @ rules))"

section \<open>Servers, volumes and firewalls\<close>

definition wanted_servers :: "app_config \<Rightarrow> string set" where
  "wanted_servers cfg = set (map ss_name (ServerDefs cfg))"

definition wanted_volumes :: "names \<Rightarrow> app_config \<Rightarrow> string set" where
  "wanted_volumes names cfg = set (map vs_name (VolumeDefs cfg)) \<union>
     set (map (\<lambda>s. BuilderCacheVolumeShort names (ss_name s)) (builder_defs cfg))"

definition wanted_firewalls :: "names \<Rightarrow> app_config \<Rightarrow> string set" where
  "wanted_firewalls names cfg = set (desired_firewalls cfg names)"

interpretation server_diff: diff_planner plan_servers wanted_servers "\<lambda>snap. set (live_names sn_servers snap)" ResServer
  by unfold_locales (auto simp: plan_servers_def wanted_servers_def Let_def dest!: kind_present kind_stale)

interpretation volume_diff: diff_planner "\<lambda>cfg snap. plan_volumes cfg snap n" "wanted_volumes n"
  "\<lambda>snap. set (live_names sn_volumes snap)" ResVolume for n
  by unfold_locales (auto simp: plan_volumes_def wanted_volumes_def Let_def dest!: kind_present kind_stale)

interpretation firewall_diff: diff_planner "\<lambda>cfg snap. plan_firewalls cfg snap n" "wanted_firewalls n"
  "\<lambda>snap. set (live_names sn_firewalls snap)" ResFirewall for n
  by unfold_locales (auto simp: plan_firewalls_def wanted_firewalls_def Let_def dest!: kind_present kind_stale)

section \<open>Rules\<close>

lemma cidrEqual_mset: "cidrEqual a b \<longleftrightarrow> mset a = mset b"
proof
  assume "mset a = mset b"
  then have "sort a = sort b" "length a = length b"
    by (auto intro: properties_for_sort dest: mset_eq_length)
  then show "cidrEqual a b" by (simp add: cidrEqual_def list_all2_eq)
next
  assume "cidrEqual a b"
  then show "mset a = mset b" by (metis cidrEqual_def list_all2_eq mset_sort)
qed

lemma set_SortedPorts [simp]: "set (SortedPorts m) = fst ` set m"
  by (simp add: SortedPorts_def)

text \<open>Two rule sets agree when they allow the same sources on the same ports, SSH apart when the
  configuration does not mention it.\<close>

definition rules_match :: "port_allow_list \<Rightarrow> port_allow_list \<Rightarrow> bool" where
  "rules_match desired live \<longleftrightarrow>
     (\<forall>port. port \<noteq> ''22'' \<or> has_key desired port \<longrightarrow>
        rel_option (\<lambda>a b. mset a = mset b) (map_of desired port) (map_of live port))"

lemma diffRules_quiet:
  "(\<forall>e \<in> set (diffRules fw desired live). pe_kind e = PlanNoChange) \<longleftrightarrow> rules_match desired live"
proof -
  let ?R = "\<lambda>port. rel_option (\<lambda>a b. mset a = mset b) (map_of desired port) (map_of live port)"
  let ?E = "\<lambda>port. \<exists>l. map_of live port = Some l \<and> cidrEqual l (get0 [] desired port)"
  have RE: "?R port \<longleftrightarrow> ?E port" if "has_key desired port" for port
    using that by (cases "map_of live port") (auto simp: cidrEqual_mset elim!: has_keyE)
  have RN: "?R port \<longleftrightarrow> \<not> has_key live port" if "\<not> has_key desired port" for port
    using that by (cases "map_of live port") (auto simp: has_key_def)
  have "rules_match desired live \<longleftrightarrow>
      (\<forall>port. has_key desired port \<longrightarrow> ?E port) \<and> (\<forall>port. has_key live port \<longrightarrow> has_key desired port \<or> port = ''22'')"
    unfolding rules_match_def using RE RN by blast
  also have "\<dots> \<longleftrightarrow> (\<forall>port \<in> fst ` set desired. ?E port) \<and>
      (\<forall>port \<in> fst ` set live. has_key desired port \<or> port = ''22'')"
    unfolding has_key_fst by blast
  also have "\<dots> \<longleftrightarrow> (\<forall>e \<in> set (diffRules fw desired live). pe_kind e = PlanNoChange)"
    unfolding diffRules_def by (auto simp: ball_Un split: option.splits) (metis fst_conv option.inject)+
  finally show ?thesis by simp
qed

lemma diffRules_resource: "e \<in> set (diffRules fw desired live) \<Longrightarrow> pe_resource e = ResFirewallRule"
  by (auto simp: diffRules_def split: option.splits if_splits)

lemma diffRules_keeps_ssh:
  "e \<in> set (diffRules fw desired live) \<Longrightarrow> pe_kind e = PlanDelete \<Longrightarrow> pe_name e \<noteq> fw @ '':22''"
  by (auto simp: diffRules_def split: option.splits if_splits)

section \<open>The whole plan\<close>

text \<open>The allow-list that a firewall should have.\<close>

definition wanted_rules :: "app_config \<Rightarrow> names \<Rightarrow> string \<Rightarrow> port_allow_list" where
  "wanted_rules cfg names fw =
     (if fw = MasterFirewall names then (case FirewallAllowList cfg of Inl _ \<Rightarrow> [] | Inr m \<Rightarrow> m) else [])"

definition infra_matches :: "app_config \<Rightarrow> live_snapshot \<Rightarrow> names \<Rightarrow> bool" where
  "infra_matches cfg s names \<longleftrightarrow>
     set (sn_servers s) = wanted_servers cfg \<and>
     set (sn_volumes s) = wanted_volumes names cfg \<and>
     set (sn_firewalls s) = wanted_firewalls names cfg \<and>
     (\<forall>fw \<in> wanted_firewalls names cfg.
        rules_match (wanted_rules cfg names fw) (get0 [] (sn_firewall_rules s) fw))"

lemma live_names_Some [simp]: "live_names f (Some s) = f s" "live_names f None = []"
  by (simp_all add: live_names_def)

lemma resources_distinct [simp]:
  "ResServer \<noteq> ResVolume" "ResServer \<noteq> ResFirewall" "ResVolume \<noteq> ResFirewall" "ResServer \<noteq> ResFirewallRule"
  "ResVolume \<noteq> ResFirewallRule" "ResFirewall \<noteq> ResFirewallRule" "ResVolume \<noteq> ResServer"
  "ResFirewall \<noteq> ResServer" "ResFirewall \<noteq> ResVolume" "ResFirewallRule \<noteq> ResServer"
  "ResFirewallRule \<noteq> ResVolume" "ResFirewallRule \<noteq> ResFirewall"
  by (simp_all add: ResServer_def ResVolume_def ResFirewall_def ResFirewallRule_def)

lemma part_resource:
  "e \<in> set (plan_servers cfg snap) \<Longrightarrow> pe_resource e = ResServer"
  "e \<in> set (plan_volumes cfg snap n) \<Longrightarrow> pe_resource e = ResVolume"
  "e \<in> set (plan_firewalls cfg snap n) \<Longrightarrow> pe_resource e = ResFirewall"
  by (auto simp: plan_servers_def plan_volumes_def plan_firewalls_def Let_def dest: kind_present kind_stale)

lemma Changes_changes_of: "(\<And>e. e \<in> set es \<Longrightarrow> pe_resource e = res) \<Longrightarrow> Changes es = changes_of res es"
  by (auto simp: Changes_def changes_of_def intro: filter_cong)

lemma plan_rules_Inr:
  assumes "plan_rules cfg (Some s) names = Inr rs"
  shows "rs = concat (map (\<lambda>fw.
      if fw \<notin> set (sn_firewalls s) then []
      else diffRules fw (wanted_rules cfg names fw) (get0 [] (sn_firewall_rules s) fw))
      (sorted_set (desired_firewalls cfg names)))"
proof -
  obtain ms ws bs where split: "splitByRole (ServerDefs cfg) = (ms, ws, bs)"
    by (cases "splitByRole (ServerDefs cfg)")
  from assms obtain desiredRules where rs: "rs = concat (map (\<lambda>fw.
      if fw \<notin> set (sn_firewalls s) then []
      else diffRules fw (get0 [] desiredRules fw) (get0 [] (sn_firewall_rules s) fw))
      (sorted_set (desired_firewalls cfg names)))"
    and rules: "(ms \<noteq> [] \<longrightarrow> (\<exists>m. FirewallAllowList cfg = Inr m \<and> desiredRules = [(MasterFirewall names, m)])) \<and>
      (ms = [] \<longrightarrow> desiredRules = [])"
    by (auto simp: plan_rules_def bindR_eq_Inr split split: sum.splits if_splits)
  have "get0 [] desiredRules fw = wanted_rules cfg names fw" if "fw \<in> set (desired_firewalls cfg names)" for fw
    using rules that firewalls_distinct [of names]
    by (auto simp: wanted_rules_def get0_def desired_firewalls_def split split: if_splits)
  with rs show ?thesis
    by (auto intro!: arg_cong [where f = concat] map_cong)
qed

lemma Changes_diffRules: "Changes (diffRules fw desired live) = [] \<longleftrightarrow> rules_match desired live"
  by (simp only: Changes_Nil diffRules_quiet)

lemma Changes_empty [simp]: "Changes [] = []"
  by (simp add: Changes_def)

lemma Changes_concat: "Changes (concat xss) = concat (map Changes xss)"
  by (induction xss) (simp_all add: Changes_def)

text \<open>
  C3: the plan against a live cluster has no changes exactly when the cluster matches the
  configuration: the same servers, volumes (the builders' cache volumes included) and
  firewalls, and on each firewall the same sources for every port, in any order; SSH counts
  only where the configuration mentions it, and no plan ever removes it.
\<close>

theorem infra_plan_quiet_iff_matches:
  assumes "ComputeInfraPlan cfg (Some s) names = Inr es"
  shows "(Changes es = [] \<longleftrightarrow> infra_matches cfg s names) \<and>
    (\<forall>e. e \<in> set es \<and> pe_kind e = PlanDelete \<longrightarrow> pe_resource e \<noteq> ResFirewallRule \<or>
       (\<exists>fw \<in> wanted_firewalls names cfg. \<exists>port. pe_name e = fw @ '':'' @ port \<and> port \<noteq> ''22'' \<and>
          \<not> has_key (wanted_rules cfg names fw) port))"
proof -
  let ?rules = "concat (map (\<lambda>fw. if fw \<notin> set (sn_firewalls s) then []
      else diffRules fw (wanted_rules cfg names fw) (get0 [] (sn_firewall_rules s) fw))
      (sorted_set (desired_firewalls cfg names)))"
  from assms have es: "es = plan_servers cfg (Some s) @ plan_volumes cfg (Some s) names @
      plan_firewalls cfg (Some s) names @ ?rules"
    by (auto simp: ComputeInfraPlan_def bindR_eq_Inr dest!: plan_rules_Inr)
  have parts: "Changes (plan_servers cfg (Some s)) = [] \<longleftrightarrow> set (sn_servers s) = wanted_servers cfg"
    "Changes (plan_volumes cfg (Some s) names) = [] \<longleftrightarrow> set (sn_volumes s) = wanted_volumes names cfg"
    "Changes (plan_firewalls cfg (Some s) names) = [] \<longleftrightarrow> set (sn_firewalls s) = wanted_firewalls names cfg"
    using server_diff.quiet [of cfg "Some s"] volume_diff.quiet [of cfg "Some s" names]
      firewall_diff.quiet [of cfg "Some s" names] part_resource
    by (simp_all add: Changes_changes_of)
  have "Changes ?rules = [] \<longleftrightarrow> (\<forall>fw \<in> wanted_firewalls names cfg. fw \<in> set (sn_firewalls s) \<longrightarrow>
      rules_match (wanted_rules cfg names fw) (get0 [] (sn_firewall_rules s) fw))"
    unfolding Changes_concat
    by (auto simp: Changes_diffRules wanted_firewalls_def split: if_splits)
  then have "Changes es = [] \<longleftrightarrow> infra_matches cfg s names"
    unfolding es Changes_append append_is_Nil_conv parts infra_matches_def by auto
  moreover have "\<exists>fw \<in> wanted_firewalls names cfg. \<exists>port. pe_name e = fw @ '':'' @ port \<and> port \<noteq> ''22'' \<and>
      \<not> has_key (wanted_rules cfg names fw) port"
    if "e \<in> set ?rules" "pe_kind e = PlanDelete" for e
    using that by (fastforce simp: diffRules_def wanted_firewalls_def split: if_splits option.splits)
  ultimately show ?thesis
    unfolding es using part_resource by fastforce
qed

definition demo_names :: names where
  "demo_names = \<lparr>nm_app = ''shop'', nm_env = ''prod''\<rparr>"

definition demo_infra :: app_config where
  "demo_infra = config0\<lparr>cfg_servers :=
     [(''master'', \<lparr>srv_type = ''cx22'', srv_region = ''fsn1'', srv_role = ''master'', srv_disk = 0\<rparr>),
      (''ci'', \<lparr>srv_type = ''cx32'', srv_region = ''fsn1'', srv_role = ''builder'', srv_disk = 0\<rparr>)],
     cfg_domains := [(''web'', [''shop.example.com''])]\<rparr>"

definition demo_snapshot :: live_snapshot where
  "demo_snapshot = \<lparr>sn_servers = [''master'', ''ci''], sn_server_disk = [],
     sn_firewalls = [''nvoi-shop-prod-master-fw'', ''nvoi-shop-prod-builder-fw''],
     sn_firewall_rules = [(''nvoi-shop-prod-master-fw'',
       [(''22'', [''0.0.0.0/0'']), (''443'', [''::/0'', ''0.0.0.0/0'']), (''80'', [''0.0.0.0/0'', ''::/0''])])],
     sn_volumes = [''ci-builder-cache'']\<rparr>"

corollary infra_plan_quiet_iff_matches_witness:
  "infra_matches demo_infra demo_snapshot demo_names"
proof -
  obtain es where es: "ComputeInfraPlan demo_infra (Some demo_snapshot) demo_names = Inr es" "Changes es = []"
  proof -
    have "case ComputeInfraPlan demo_infra (Some demo_snapshot) demo_names of Inl _ \<Rightarrow> False | Inr es \<Rightarrow> Changes es = []"
      by code_simp
    then show ?thesis using that by (auto split: sum.splits)
  qed
  with infra_plan_quiet_iff_matches [OF es(1)] show ?thesis by simp
qed

text \<open>
  C11: carrying out the additions and removals of a plan leaves exactly the servers, volumes and
  firewalls of the configuration; a first deploy only adds.
\<close>

theorem infra_plan_converges:
  assumes "ComputeInfraPlan cfg snap names = Inr es"
  shows "applied ResServer es (set (live_names sn_servers snap)) = wanted_servers cfg \<and>
    applied ResVolume es (set (live_names sn_volumes snap)) = wanted_volumes names cfg \<and>
    applied ResFirewall es (set (live_names sn_firewalls snap)) = wanted_firewalls names cfg \<and>
    (snap \<noteq> None \<or> pe_kind ` set es \<subseteq> {PlanAdd})"
proof -
  from assms obtain rs where rs: "plan_rules cfg snap names = Inr rs"
    and es: "es = plan_servers cfg snap @ plan_volumes cfg snap names @ plan_firewalls cfg snap names @ rs"
    by (auto simp: ComputeInfraPlan_def bindR_eq_Inr)
  have rules: "pe_resource e = ResFirewallRule" if "e \<in> set rs" for e
  proof (cases snap)
    case None
    with rs that show ?thesis by (simp add: plan_rules_def)
  next
    case (Some s)
    with rs that show ?thesis by (auto dest!: plan_rules_Inr diffRules_resource split: if_splits)
  qed
  note other = other_resource [OF part_resource(1)] other_resource [OF part_resource(2)]
    other_resource [OF part_resource(3)] other_resource [OF rules]
  have "applied ResServer es L = applied ResServer (plan_servers cfg snap) L"
    "applied ResVolume es L = applied ResVolume (plan_volumes cfg snap names) L"
    "applied ResFirewall es L = applied ResFirewall (plan_firewalls cfg snap names) L" for L
    by (simp_all add: applied_def es other)
  moreover have "snap = None \<longrightarrow> pe_kind ` set es \<subseteq> {PlanAdd}"
  proof
    assume "snap = None"
    with rs show "pe_kind ` set es \<subseteq> {PlanAdd}"
      by (auto simp: es plan_rules_def plan_servers_def plan_volumes_def plan_firewalls_def Let_def sorted_set_def
          dest!: kind_present kind_stale)
  qed
  ultimately show ?thesis
    using server_diff.converges [of cfg snap] volume_diff.converges [of cfg snap names]
      firewall_diff.converges [of cfg snap names] by auto
qed

corollary infra_plan_converges_witness:
  "\<exists>es. ComputeInfraPlan demo_infra None demo_names = Inr es \<and>
     applied ResVolume es {} = wanted_volumes demo_names demo_infra"
proof -
  obtain es where "ComputeInfraPlan demo_infra None demo_names = Inr es"
    by (simp add: ComputeInfraPlan_def plan_rules_def)
  with infra_plan_converges [OF this] show ?thesis by auto
qed

end
