(* ===== verification/Topsort.thy ===== *)
theory Topsort
  imports Config
begin

text \<open>
  \<open>internal/reconcile/topsort.go\<close>: the order in which services are applied and the search for a
  cycle of \<open>depends_on\<close>. The depth-first search takes fuel; the number of services is enough.
\<close>

section \<open>Kahn's algorithm\<close>

definition add_edge ::
    "service_def gomap \<Rightarrow> string \<Rightarrow> string \<Rightarrow> int gomap \<times> string list gomap \<Rightarrow> int gomap \<times> string list gomap" where
  "add_edge services name dep g =
     (case g of (inDegree, dependents) \<Rightarrow>
        if \<not> has_key services dep then (inDegree, dependents)
        else (AList.update name (get0 0 inDegree name + 1) inDegree,
              AList.update dep (get0 [] dependents dep @ [name]) dependents))"

definition dep_graph :: "service_def gomap \<Rightarrow> int gomap \<times> string list gomap" where
  "dep_graph services =
     fold (\<lambda>(name, svc) g. fold (add_edge services name) (svc_depends_on svc) g) services
       (map (\<lambda>(name, _). (name, 0)) services, [])"

definition unlock :: "string \<Rightarrow> int gomap \<times> string list \<Rightarrow> int gomap \<times> string list" where
  "unlock d st =
     (case st of (inDegree, unlocked) \<Rightarrow>
        let k = get0 0 inDegree d - 1
        in (AList.update d k inDegree, if k = 0 then unlocked @ [d] else unlocked))"

definition positives :: "int gomap \<Rightarrow> nat" where
  "positives ind = length (filter (\<lambda>(_, k). 0 < k) ind)"

lemma positives_update:
  "positives (AList.update d v ind) + (if 0 < get0 0 ind d then 1 else 0) =
   positives ind + (if 0 < v then 1 else 0)"
  by (induction ind) (auto simp: positives_def get0_def)

lemma positives_unlock:
  "positives (fst (fold unlock ds st)) + length (snd (fold unlock ds st)) \<le>
   positives (fst st) + length (snd st)"
proof (induction ds arbitrary: st)
  case (Cons d ds)
  have "positives (fst (unlock d st)) + length (snd (unlock d st)) \<le> positives (fst st) + length (snd st)"
    using positives_update [of d "get0 0 (fst st) d - 1" "fst st"]
    by (auto simp: unlock_def Let_def split: prod.splits if_splits)
  with Cons [of "unlock d st"] show ?case by simp
qed simp

lemma positives_unlocked:
  "fold unlock ds (ind, []) = (ind', u) \<Longrightarrow> positives ind' + length u \<le> positives ind"
  using positives_unlock [of ds "(ind, [])"] by simp

function topo_loop :: "string list gomap \<Rightarrow> int gomap \<Rightarrow> string list \<Rightarrow> string list \<Rightarrow> string list" where
  "topo_loop dependents inDegree [] out = out"
| "topo_loop dependents inDegree (n # ready) out =
     (case fold unlock (get0 [] dependents n) (inDegree, []) of (inDegree', unlocked) \<Rightarrow>
        topo_loop dependents inDegree'
          (if unlocked \<noteq> [] then sort (ready @ unlocked) else ready) (out @ [n]))"
  by pat_completeness auto
termination
  by (relation "measure (\<lambda>(dependents, inDegree, ready, out). positives inDegree + length ready)")
     (auto dest!: sym [THEN positives_unlocked] simp: less_Suc_eq_le)

definition topoSortServices :: "service_def gomap \<Rightarrow> string list" where
  "topoSortServices services =
     (case dep_graph services of (inDegree, dependents) \<Rightarrow>
        topo_loop dependents inDegree (sort (map fst (filter (\<lambda>(_, deg). deg = 0) inDegree))) [])"

section \<open>The search for a cycle\<close>

datatype color = white | gray | black

definition cycle_from :: "string \<Rightarrow> string list \<Rightarrow> string list" where
  "cycle_from dep path =
     (if dep \<in> set path then dropWhile (\<lambda>p. p \<noteq> dep) path @ [dep] else path)"

type_synonym dfs_state = "color gomap \<times> string list"

text \<open>
  \<open>walk\<close> returns the cycle, if it finds one, with the colours and the path; None means that the
  fuel ran out.
\<close>

function (sequential) walk :: "nat \<Rightarrow> service_def gomap \<Rightarrow> string \<Rightarrow> dfs_state \<Rightarrow> (string list option \<times> dfs_state) option"
  and walk_deps :: "nat \<Rightarrow> service_def gomap \<Rightarrow> string list \<Rightarrow> dfs_state \<Rightarrow> (string list option \<times> dfs_state) option" where
  "walk 0 services n st = None"
| "walk (Suc fuel) services n (color, path) =
     (case walk_deps fuel services (svc_depends_on (get0 service0 services n))
             (AList.update n gray color, path @ [n]) of
        None \<Rightarrow> None
      | Some (Some cyc, st) \<Rightarrow> Some (Some cyc, st)
      | Some (None, (color, path)) \<Rightarrow> Some (None, (AList.update n black color, butlast path)))"
| "walk_deps fuel services [] st = Some (None, st)"
| "walk_deps fuel services (dep # deps) (color, path) =
     (if \<not> has_key services dep then walk_deps fuel services deps (color, path)
      else (case get0 white color dep of
              gray \<Rightarrow> Some (Some (cycle_from dep path), (color, path))
            | white \<Rightarrow>
                (case walk fuel services dep (color, path) of
                   None \<Rightarrow> None
                 | Some (Some cyc, st) \<Rightarrow> Some (Some cyc, st)
                 | Some (None, st) \<Rightarrow> walk_deps fuel services deps st)
            | black \<Rightarrow> walk_deps fuel services deps (color, path)))"
  by pat_completeness auto
termination
  by (relation "measures [\<lambda>x. case x of Inl (f, _) \<Rightarrow> f | Inr (f, _) \<Rightarrow> f,
        \<lambda>x. case x of Inl _ \<Rightarrow> 0 | Inr (_, _, ds, _) \<Rightarrow> Suc (length ds)]") auto

fun cycle_loop :: "nat \<Rightarrow> service_def gomap \<Rightarrow> string list \<Rightarrow> dfs_state \<Rightarrow> string option" where
  "cycle_loop fuel services [] st = Some []"
| "cycle_loop fuel services (n # ns) st =
     (if get0 white (fst st) n = white then
        (case walk fuel services n st of
           None \<Rightarrow> None
         | Some (Some cyc, _) \<Rightarrow> Some (join '' -> '' cyc)
         | Some (None, st) \<Rightarrow> cycle_loop fuel services ns st)
      else cycle_loop fuel services ns st)"

definition findDependencyCycle :: "service_def gomap \<Rightarrow> string option" where
  "findDependencyCycle services =
     cycle_loop (length services) services (SortedKeys services) ([], [])"

section \<open>The graph\<close>

text \<open>The dependencies of a service that are defined.\<close>

definition depends :: "service_def gomap \<Rightarrow> string \<Rightarrow> string list" where
  "depends services n = filter (has_key services) (svc_depends_on (get0 service0 services n))"

definition dep_rel :: "service_def gomap \<Rightarrow> (string \<times> string) set" where
  "dep_rel services = {(x, y). has_key services x \<and> y \<in> set (depends services x)}"

lemma depends_defined: "d \<in> set (depends S n) \<Longrightarrow> has_key S d"
  by (simp add: depends_def)

text \<open>Every element of the list comes after its dependencies, the ones in \<open>seen\<close> apart.\<close>

fun deps_first :: "service_def gomap \<Rightarrow> string set \<Rightarrow> string list \<Rightarrow> bool" where
  "deps_first S seen [] \<longleftrightarrow> True"
| "deps_first S seen (n # xs) \<longleftrightarrow> set (depends S n) \<subseteq> seen \<and> deps_first S (insert n seen) xs"

lemma deps_first_snoc:
  "deps_first S seen (xs @ [n]) \<longleftrightarrow> deps_first S seen xs \<and> set (depends S n) \<subseteq> seen \<union> set xs"
  by (induction xs arbitrary: seen) auto

definition pos :: "string list \<Rightarrow> string \<Rightarrow> nat" where
  "pos xs x = length (takeWhile (\<lambda>y. y \<noteq> x) xs)"

lemma deps_first_pos:
  "deps_first S seen xs \<Longrightarrow> x \<in> set xs \<Longrightarrow> y \<in> set (depends S x) \<Longrightarrow> y \<in> seen \<or> pos xs y < pos xs x"
  by (induction xs arbitrary: seen) (auto simp: pos_def)

lemma deps_first_acyclic:
  assumes "deps_first S {} xs" "\<And>n. has_key S n \<Longrightarrow> n \<in> set xs"
  shows "acyclic (dep_rel S)"
proof (rule wf_acyclic)
  have "(dep_rel S)\<inverse> \<subseteq> measure (pos xs)"
    using deps_first_pos [OF assms(1)] assms(2) by (auto simp: dep_rel_def)
  then have "wf ((dep_rel S)\<inverse>)" by (rule wf_subset [OF wf_measure])
  moreover have "finite (dep_rel S)"
  proof (rule finite_subset)
    show "dep_rel S \<subseteq> (fst ` set S) \<times> (fst ` set S)"
      by (auto simp: dep_rel_def has_key_iff dest!: depends_defined)
  qed simp
  ultimately show "wf (dep_rel S)"
    by (metis acyclic_converse finite_acyclic_wf wf_acyclic)
qed

text \<open>What \<open>dep_graph\<close> computes.\<close>

definition edge_count :: "string list gomap \<Rightarrow> string \<Rightarrow> string \<Rightarrow> nat" where
  "edge_count dts d n = count_list (get0 [] dts d) n"

lemma add_edge_simps:
  "add_edge S name dep (ind, dts) =
     (if \<not> has_key S dep then (ind, dts)
      else (AList.update name (get0 0 ind name + 1) ind, AList.update dep (get0 [] dts dep @ [name]) dts))"
  by (simp add: add_edge_def)

lemma fold_add_edge:
  assumes "fold (add_edge S name) deps (ind, dts) = (ind', dts')" "has_key ind name"
  shows "map fst ind' = map fst ind \<and>
    get0 0 ind' m = get0 0 ind m + (if m = name then int (length (filter (has_key S) deps)) else 0) \<and>
    edge_count dts' d m = edge_count dts d m + (if m = name then count_list (filter (has_key S) deps) d else 0)"
  using assms
proof (induction deps arbitrary: ind dts)
  case (Cons dep deps)
  show ?case
  proof (cases "has_key S dep")
    case False
    with Cons show ?thesis by (auto simp: add_edge_simps)
  next
    case True
    let ?ind = "AList.update name (get0 0 ind name + 1) ind"
    let ?dts = "AList.update dep (get0 [] dts dep @ [name]) dts"
    from Cons.prems True have "fold (add_edge S name) deps (?ind, ?dts) = (ind', dts')"
      by (simp add: add_edge_simps)
    then have "map fst ind' = map fst ?ind \<and>
      get0 0 ind' m = get0 0 ?ind m + (if m = name then int (length (filter (has_key S) deps)) else 0) \<and>
      edge_count dts' d m = edge_count ?dts d m + (if m = name then count_list (filter (has_key S) deps) d else 0)"
      by (rule Cons.IH) simp
    with True Cons.prems(2) show ?thesis by (auto simp: edge_count_def keys_update)
  qed
qed simp

definition svc_edges :: "service_def gomap \<Rightarrow> service_def gomap \<Rightarrow> string \<Rightarrow> string list" where
  "svc_edges S L m = (case map_of L m of None \<Rightarrow> [] | Some svc \<Rightarrow> filter (has_key S) (svc_depends_on svc))"

lemma svc_edges_depends: "svc_edges S S m = depends S m"
  by (cases "map_of S m") (simp_all add: svc_edges_def depends_def get0_def service0_def)

lemma fold_services:
  assumes "fold (\<lambda>(name, svc) g. fold (add_edge S name) (svc_depends_on svc) g) L (ind, dts) = (ind', dts')"
    and "gomap_ok L" "set (map fst L) \<subseteq> set (map fst ind)"
  shows "map fst ind' = map fst ind \<and>
    get0 0 ind' m = get0 0 ind m + int (length (svc_edges S L m)) \<and>
    edge_count dts' d m = edge_count dts d m + count_list (svc_edges S L m) d"
  using assms
proof (induction L arbitrary: ind dts)
  case Nil
  then show ?case by (simp add: svc_edges_def)
next
  case (Cons x L)
  obtain name svc where x: "x = (name, svc)" by (cases x)
  obtain ind1 dts1 where step: "fold (add_edge S name) (svc_depends_on svc) (ind, dts) = (ind1, dts1)"
    by (cases "fold (add_edge S name) (svc_depends_on svc) (ind, dts)")
  have "has_key ind name" using Cons.prems(3) by (simp add: x has_key_iff)
  note one = fold_add_edge [OF step this]
  then have keys: "map fst ind1 = map fst ind" by blast
  have "fold (\<lambda>(name, svc) g. fold (add_edge S name) (svc_depends_on svc) g) L (ind1, dts1) = (ind', dts')"
    using Cons.prems(1) by (simp add: x step)
  moreover have "gomap_ok L" "set (map fst L) \<subseteq> set (map fst ind1)"
    using Cons.prems(2,3) unfolding keys by (auto simp: x gomap_ok_def)
  ultimately have rest: "map fst ind' = map fst ind1 \<and>
    get0 0 ind' m = get0 0 ind1 m + int (length (svc_edges S L m)) \<and>
    edge_count dts' d m = edge_count dts1 d m + count_list (svc_edges S L m) d"
    by (rule Cons.IH)
  have "map_of L name = None" using Cons.prems(2) by (simp add: x gomap_ok_def map_of_eq_None_iff)
  with rest one [of m d] keys show ?case by (auto simp: x svc_edges_def)
qed

lemma dep_graph_spec:
  assumes "gomap_ok S" "dep_graph S = (ind, dts)"
  shows "map fst ind = map fst S" "get0 0 ind m = int (length (depends S m))"
    "edge_count dts d m = count_list (depends S m) d"
proof -
  have z: "get0 0 (map (\<lambda>(name, _). (name, 0)) S) m = (0 :: int)" for m :: string
    by (induction S) (auto simp: get0_def)
  have k: "map fst (map (\<lambda>(name, _). (name, 0 :: int)) S) = map fst S"
    by (induction S) auto
  have e: "edge_count [] d m = 0" for d m
    by (simp add: edge_count_def get0_def)
  note * = fold_services [OF assms(2) [unfolded dep_graph_def] assms(1), unfolded svc_edges_depends z e k]
  show "map fst ind = map fst S" "get0 0 ind m = int (length (depends S m))"
    "edge_count dts d m = count_list (depends S m) d"
    using * by auto
qed

section \<open>Correctness of the order\<close>

lemma unlock_simp:
  "unlock d (ind, u) = (AList.update d (get0 0 ind d - 1) ind, if get0 0 ind d - 1 = 0 then u @ [d] else u)"
  by (simp add: unlock_def Let_def)

lemma fold_unlock:
  assumes "fold unlock ds (ind, u) = (ind', u')" "distinct u" "\<forall>m \<in> set u. get0 0 ind m \<le> 0"
  shows "get0 0 ind' m = get0 0 ind m - int (count_list ds m) \<and> distinct u' \<and>
    (m \<in> set u' \<longleftrightarrow> m \<in> set u \<or> 1 \<le> get0 0 ind m \<and> get0 0 ind m \<le> int (count_list ds m))"
  using assms
proof (induction ds arbitrary: ind u)
  case (Cons d ds)
  let ?k = "get0 0 ind d - 1"
  let ?ind = "AList.update d ?k ind" and ?u = "if ?k = 0 then u @ [d] else u"
  have "fold unlock ds (?ind, ?u) = (ind', u')"
    using Cons.prems(1) by (simp only: fold.simps comp_apply unlock_simp)
  moreover have "distinct ?u" using Cons.prems by auto
  moreover have "\<forall>m \<in> set ?u. get0 0 ?ind m \<le> 0" using Cons.prems(3) by auto
  ultimately have "get0 0 ind' m = get0 0 ?ind m - int (count_list ds m) \<and> distinct u' \<and>
    (m \<in> set u' \<longleftrightarrow> m \<in> set ?u \<or> 1 \<le> get0 0 ?ind m \<and> get0 0 ?ind m \<le> int (count_list ds m))"
    by (rule Cons.IH)
  then show ?case by (auto split: if_splits)
qed auto

text \<open>The invariant of the loop.\<close>

definition topo_inv ::
    "service_def gomap \<Rightarrow> string list gomap \<Rightarrow> int gomap \<Rightarrow> string list \<Rightarrow> string list \<Rightarrow> bool" where
  "topo_inv S dts ind ready out \<longleftrightarrow>
     (\<forall>d m. edge_count dts d m = count_list (depends S m) d) \<and>
     distinct (out @ ready) \<and>
     (\<forall>m. get0 0 ind m = int (length (filter (\<lambda>d. d \<notin> set out) (depends S m)))) \<and>
     (\<forall>m. m \<in> set out \<union> set ready \<longleftrightarrow> has_key S m \<and> get0 0 ind m = 0) \<and>
     deps_first S {} out"

lemma filter_not_in_snoc:
  "n \<notin> A \<Longrightarrow> length (filter (\<lambda>d. d \<notin> A) xs) = length (filter (\<lambda>d. d \<notin> insert n A) xs) + count_list xs n"
  by (induction xs) auto

lemma topo_inv_step:
  assumes inv: "topo_inv S dts ind (n # ready) out"
    and step: "fold unlock (get0 [] dts n) (ind, []) = (ind', u)"
  shows "topo_inv S dts ind' (if u \<noteq> [] then sort (ready @ u) else ready) (out @ [n])"
proof -
  from inv have cnt: "count_list (get0 [] dts n) m = count_list (depends S m) n"
    and dist: "distinct (out @ n # ready)"
    and deg: "get0 0 ind m = int (length (filter (\<lambda>d. d \<notin> set out) (depends S m)))"
    and zero: "m \<in> set out \<union> set (n # ready) \<longleftrightarrow> has_key S m \<and> get0 0 ind m = 0"
    and first: "deps_first S {} out" for m
    unfolding topo_inv_def edge_count_def by blast+
  have u: "get0 0 ind' m = get0 0 ind m - int (count_list (depends S m) n)" "distinct u"
    "m \<in> set u \<longleftrightarrow> 1 \<le> get0 0 ind m \<and> get0 0 ind m \<le> int (count_list (depends S m) n)" for m
    using fold_unlock [OF step, of m] by (simp_all add: cnt)
  have n: "n \<notin> set out" using dist by simp
  have deg': "get0 0 ind' m = int (length (filter (\<lambda>d. d \<notin> set (out @ [n])) (depends S m)))" for m
    using filter_not_in_snoc [OF n, of "depends S m"] by (simp add: u deg)
  have key: "count_list (depends S m) n > 0 \<Longrightarrow> has_key S m" for m
    by (cases "has_key S m") (auto simp: depends_def get0_def has_key_def service0_def)
  have zero': "m \<in> set (out @ [n]) \<union> set ready \<union> set u \<longleftrightarrow> has_key S m \<and> get0 0 ind' m = 0" for m
  proof -
    have "0 \<le> get0 0 ind' m" unfolding deg' by simp
    moreover have "0 \<le> get0 0 ind m" unfolding deg by simp
    ultimately have "get0 0 ind' m = 0 \<longleftrightarrow> get0 0 ind m = 0 \<or> m \<in> set u"
      unfolding u(3) u(1) by linarith
    moreover have "m \<in> set u \<Longrightarrow> has_key S m" using key [of m] unfolding u(3) by linarith
    ultimately show ?thesis using zero [of m] by auto
  qed
  have "m \<notin> set u" if "m \<in> set out \<union> set (n # ready)" for m
    using that zero [of m] unfolding u(3) by linarith
  then have d: "distinct ((out @ [n]) @ ready @ u)"
    using dist u(2) by auto
  have "get0 0 ind n = 0" using zero [of n] by simp
  then have "filter (\<lambda>d. d \<notin> set out) (depends S n) = []" by (simp add: deg)
  then have "set (depends S n) \<subseteq> set out" by (auto simp: filter_empty_conv)
  with first have "deps_first S {} (out @ [n])" by (simp add: deps_first_snoc)
  moreover have "distinct ((out @ [n]) @ (if u \<noteq> [] then sort (ready @ u) else ready))"
    using d by (auto simp: distinct_append)
  moreover have "set (if u \<noteq> [] then sort (ready @ u) else ready) = set ready \<union> set u" by auto
  moreover have "\<forall>d m. edge_count dts d m = count_list (depends S m) d"
    using inv by (simp add: topo_inv_def)
  ultimately show ?thesis
    unfolding topo_inv_def using deg' zero' by (metis Un_assoc)
qed

lemma topo_inv_loop:
  "topo_inv S dts ind ready out \<Longrightarrow> \<exists>ind'. topo_inv S dts ind' [] (topo_loop dts ind ready out)"
proof (induction dts ind ready out rule: topo_loop.induct)
  case (2 dts ind n ready out)
  obtain ind' u where step: "fold unlock (get0 [] dts n) (ind, []) = (ind', u)"
    by (cases "fold unlock (get0 [] dts n) (ind, [])")
  with 2 topo_inv_step [OF 2(2) step] show ?case by simp
qed auto

lemma topo_inv_init:
  assumes "gomap_ok S" "dep_graph S = (ind, dts)"
  shows "topo_inv S dts ind (sort (map fst (filter (\<lambda>(_, deg). deg = 0) ind))) []"
proof -
  note g = dep_graph_spec [OF assms]
  have ok: "gomap_ok ind" using assms(1) by (simp add: gomap_ok_def g)
  have "m \<in> fst ` set (filter (\<lambda>(_, deg). deg = 0) ind) \<longleftrightarrow> has_key S m \<and> get0 0 ind m = 0" for m
  proof -
    have "has_key S m \<longleftrightarrow> has_key ind m" by (simp add: has_key_iff g flip: set_map)
    moreover have "m \<in> fst ` set (filter (\<lambda>(_, deg). deg = 0) ind) \<longleftrightarrow> (m, 0) \<in> set ind"
      by force
    moreover have "(m, 0) \<in> set ind \<longleftrightarrow> has_key ind m \<and> get0 0 ind m = 0"
      by (cases "map_of ind m") (simp_all add: has_key_def get0_def flip: map_of_memb [OF ok])
    ultimately show ?thesis by simp
  qed
  moreover have "distinct (map fst (filter (\<lambda>(_, deg). deg = 0) ind))"
    using ok by (simp add: gomap_ok_def distinct_map_filter)
  ultimately show ?thesis
    by (simp add: topo_inv_def g)
qed

lemma topoSort_spec:
  assumes "gomap_ok S"
  shows "distinct (topoSortServices S)" "set (topoSortServices S) \<subseteq> fst ` set S"
    "deps_first S {} (topoSortServices S)"
    "has_key S m \<Longrightarrow> set (depends S m) \<subseteq> set (topoSortServices S) \<Longrightarrow> m \<in> set (topoSortServices S)"
proof -
  obtain ind dts where g: "dep_graph S = (ind, dts)" by (cases "dep_graph S")
  from topo_inv_loop [OF topo_inv_init [OF assms g]]
  obtain ind' where inv: "topo_inv S dts ind' [] (topoSortServices S)"
    unfolding topoSortServices_def g prod.case by blast
  then show "distinct (topoSortServices S)" "deps_first S {} (topoSortServices S)"
    by (simp_all add: topo_inv_def)
  show "set (topoSortServices S) \<subseteq> fst ` set S"
  proof
    fix m
    assume "m \<in> set (topoSortServices S)"
    with inv have "has_key S m" unfolding topo_inv_def by blast
    then show "m \<in> fst ` set S" by (simp add: has_key_fst)
  qed
  show "m \<in> set (topoSortServices S)" if "has_key S m" "set (depends S m) \<subseteq> set (topoSortServices S)"
  proof -
    from that(2) have "filter (\<lambda>d. d \<notin> set (topoSortServices S)) (depends S m) = []"
      by (auto simp: filter_empty_conv)
    moreover from inv have "get0 0 ind' m = int (length (filter (\<lambda>d. d \<notin> set (topoSortServices S)) (depends S m)))"
      and "m \<in> set (topoSortServices S) \<union> set [] \<longleftrightarrow> has_key S m \<and> get0 0 ind' m = 0"
      unfolding topo_inv_def by blast+
    ultimately show ?thesis using that(1) by simp
  qed
qed

lemma topoSort_complete:
  assumes "gomap_ok S" "acyclic (dep_rel S)"
  shows "set (topoSortServices S) = fst ` set S"
proof
  show "set (topoSortServices S) \<subseteq> fst ` set S" by (rule topoSort_spec [OF assms(1)])
  have "finite (dep_rel S)"
  proof (rule finite_subset)
    show "dep_rel S \<subseteq> (fst ` set S) \<times> (fst ` set S)"
      by (auto simp: dep_rel_def has_key_iff dest!: depends_defined)
  qed simp
  with assms(2) have "wf ((dep_rel S)\<inverse>)" by (simp add: finite_acyclic_wf_converse)
  then have "has_key S m \<longrightarrow> m \<in> set (topoSortServices S)" for m
  proof (induction m rule: wf_induct_rule)
    case (less m)
    show ?case
    proof
      assume m: "has_key S m"
      with less have "set (depends S m) \<subseteq> set (topoSortServices S)"
        by (auto simp: dep_rel_def dest: depends_defined)
      with m show "m \<in> set (topoSortServices S)" by (rule topoSort_spec(4) [OF assms(1)])
    qed
  qed
  then show "fst ` set S \<subseteq> set (topoSortServices S)" by (auto simp: has_key_iff)
qed

section \<open>Correctness of the search\<close>

abbreviation (input) "col c \<equiv> get0 white c"

definition is_cycle :: "service_def gomap \<Rightarrow> string list \<Rightarrow> bool" where
  "is_cycle S cyc \<longleftrightarrow> 2 \<le> length cyc \<and> hd cyc = last cyc \<and>
     successively (\<lambda>x y. (x, y) \<in> dep_rel S) cyc"

definition dfs_inv :: "service_def gomap \<Rightarrow> color gomap \<Rightarrow> string list \<Rightarrow> bool" where
  "dfs_inv S c path \<longleftrightarrow>
     (\<forall>x. col c x = gray \<longleftrightarrow> x \<in> set path) \<and> distinct path \<and>
     (\<forall>x. has_key c x \<longrightarrow> has_key S x) \<and>
     successively (\<lambda>x y. (x, y) \<in> dep_rel S) path \<and>
     (\<exists>ord. (\<forall>x. x \<in> set ord \<longleftrightarrow> col c x = black) \<and> deps_first S {} ord)"

definition whites :: "service_def gomap \<Rightarrow> color gomap \<Rightarrow> nat" where
  "whites S c = card {x \<in> fst ` set S. col c x = white}"

text \<open>What a search that started with colours \<open>c\<close> and path \<open>path\<close> leaves.\<close>

fun dfs_post ::
    "service_def gomap \<Rightarrow> color gomap \<Rightarrow> string list \<Rightarrow> string set \<Rightarrow> (string list option \<times> dfs_state) option \<Rightarrow> bool" where
  "dfs_post S c path visited None \<longleftrightarrow> False"
| "dfs_post S c path visited (Some (Some cyc, st)) \<longleftrightarrow> is_cycle S cyc"
| "dfs_post S c path visited (Some (None, (c', path'))) \<longleftrightarrow>
     path' = path \<and> dfs_inv S c' path \<and> (\<forall>x. col c x = black \<or> x \<in> visited \<longrightarrow> col c' x = black)"

lemma dfs_postE:
  assumes "dfs_post S c path visited r"
  obtains cyc st where "r = Some (Some cyc, st)" "is_cycle S cyc"
  | c' where "r = Some (None, (c', path))" "dfs_inv S c' path"
      "\<forall>x. col c x = black \<or> x \<in> visited \<longrightarrow> col c' x = black"
  using assms by (cases "(S, c, path, visited, r)" rule: dfs_post.cases) auto

lemma dfs_post_mono:
  assumes "dfs_post S c1 path V1 r" "\<And>x. col c x = black \<Longrightarrow> col c1 x = black"
    "\<And>x. x \<in> V \<Longrightarrow> x \<in> V1 \<or> col c1 x = black"
  shows "dfs_post S c path V r"
  using assms by (cases "(S, c1, path, V1, r)" rule: dfs_post.cases) auto

lemma is_cycle_path:
  assumes "successively (\<lambda>x y. (x, y) \<in> dep_rel S) path" "path \<noteq> []" "dep \<in> set path"
    "(last path, dep) \<in> dep_rel S"
  shows "is_cycle S (cycle_from dep path)"
proof -
  from assms(3) obtain a b where ab: "path = a @ dep # b" "dep \<notin> set a"
    by (meson split_list_first)
  then have "cycle_from dep path = dep # b @ [dep]"
    by (simp add: cycle_from_def dropWhile_append1 [of dep] dropWhile_append2 [of a] flip: ex_in_conv)
       (subst dropWhile_append2; auto)
  moreover from assms ab have "successively (\<lambda>x y. (x, y) \<in> dep_rel S) (dep # b @ [dep])"
    by (cases b) (auto simp: successively_append_iff successively_Cons split: if_splits)
  ultimately show ?thesis by (simp add: is_cycle_def)
qed

lemma is_cycle_not_acyclic: "is_cycle S cyc \<Longrightarrow> \<not> acyclic (dep_rel S)"
proof -
  have path: "successively (\<lambda>x y. (x, y) \<in> R) xs \<Longrightarrow> 2 \<le> length xs \<Longrightarrow> (hd xs, last xs) \<in> R\<^sup>+" for R and xs :: "string list"
  proof (induction xs)
    case (Cons x xs)
    show ?case
    proof (cases "2 \<le> length xs")
      case True
      with Cons have "(x, hd xs) \<in> R" "(hd xs, last xs) \<in> R\<^sup>+"
        by (auto simp: successively_Cons)
      with True show ?thesis by (auto intro: trancl_into_trancl2)
    next
      case False
      with Cons.prems obtain y where "xs = [y]" by (cases xs; cases "tl xs") auto
      with Cons.prems show ?thesis by auto
    qed
  qed simp
  assume "is_cycle S cyc"
  with path [of "dep_rel S" cyc] show ?thesis
    unfolding is_cycle_def acyclic_def by metis
qed

lemma whites_gray:
  assumes "col c n = white" "has_key S n"
  shows "Suc (whites S (AList.update n gray c)) = whites S c"
proof -
  have "{x \<in> fst ` set S. col c x = white} =
      insert n {x \<in> fst ` set S. col (AList.update n gray c) x = white}"
    using assms by (auto simp: has_key_fst)
  then show ?thesis by (simp add: whites_def)
qed

lemma whites_mono:
  assumes "\<And>x. col c' x = white \<Longrightarrow> col c x = white"
  shows "whites S c' \<le> whites S c"
  unfolding whites_def using assms by (intro card_mono) auto

lemma dfs_inv_gray:
  assumes "dfs_inv S c path" "col c n = white" "has_key S n" "path = [] \<or> (last path, n) \<in> dep_rel S"
  shows "dfs_inv S (AList.update n gray c) (path @ [n])"
proof -
  have "col c x = gray" if "x \<in> set path" for x using assms(1) that by (simp add: dfs_inv_def)
  then have "n \<notin> set path" using assms(2) by auto
  moreover have "\<exists>ord. (\<forall>x. x \<in> set ord \<longleftrightarrow> col (AList.update n gray c) x = black) \<and> deps_first S {} ord"
  proof -
    from assms(1) obtain ord where "\<forall>x. x \<in> set ord \<longleftrightarrow> col c x = black" "deps_first S {} ord"
      by (auto simp: dfs_inv_def)
    then show ?thesis using assms(2) by (intro exI [of _ ord]) auto
  qed
  moreover have "(\<forall>x. col (AList.update n gray c) x = gray \<longleftrightarrow> x \<in> set (path @ [n])) \<and>
      successively (\<lambda>x y. (x, y) \<in> dep_rel S) (path @ [n]) \<and> distinct path \<and> (\<forall>x. has_key c x \<longrightarrow> has_key S x)"
    using assms by (auto simp: dfs_inv_def successively_append_iff)
  ultimately show ?thesis
    using assms(3) unfolding dfs_inv_def has_key_update by auto
qed

lemma dfs_inv_black:
  assumes "dfs_inv S c (path @ [n])" "\<forall>d \<in> set (depends S n). col c d = black"
  shows "dfs_inv S (AList.update n black c) path"
proof -
  from assms(1) obtain ord where ord: "\<forall>x. x \<in> set ord \<longleftrightarrow> col c x = black" "deps_first S {} ord"
    by (auto simp: dfs_inv_def)
  then have "(\<forall>x. x \<in> set (ord @ [n]) \<longleftrightarrow> col (AList.update n black c) x = black) \<and> deps_first S {} (ord @ [n])"
    using assms(2) by (auto simp: deps_first_snoc)
  moreover have "has_key S n"
  proof -
    have "col c n = gray" using assms(1) by (simp add: dfs_inv_def)
    then have "has_key c n" by (cases "map_of c n") (auto simp: get0_def has_key_def)
    with assms(1) show ?thesis by (simp add: dfs_inv_def)
  qed
  moreover have "(\<forall>x. col (AList.update n black c) x = gray \<longleftrightarrow> x \<in> set path) \<and> distinct path \<and>
      successively (\<lambda>x y. (x, y) \<in> dep_rel S) path \<and> (\<forall>x. has_key c x \<longrightarrow> has_key S x)"
    using assms(1) by (auto simp: dfs_inv_def successively_append_iff)
  ultimately show ?thesis unfolding dfs_inv_def has_key_update by blast
qed

lemma walk_spec:
  "dfs_inv S (fst st) (snd st) \<Longrightarrow> has_key S n \<Longrightarrow> col (fst st) n = white \<Longrightarrow>
     snd st = [] \<or> (last (snd st), n) \<in> dep_rel S \<Longrightarrow> whites S (fst st) \<le> fuel \<Longrightarrow>
     dfs_post S (fst st) (snd st) {n} (walk fuel S n st)"
  "dfs_inv S (fst st) (snd st) \<Longrightarrow> snd st \<noteq> [] \<Longrightarrow>
     \<forall>d \<in> set deps. has_key S d \<longrightarrow> (last (snd st), d) \<in> dep_rel S \<Longrightarrow> whites S (fst st) \<le> fuel \<Longrightarrow>
     dfs_post S (fst st) (snd st) {d \<in> set deps. has_key S d} (walk_deps fuel S deps st)"
proof (induction fuel S n st and fuel S deps st rule: walk_walk_deps.induct)
  case (1 S n st)
  have "n \<in> {x \<in> fst ` set S. col (fst st) x = white}" using 1 by (simp add: has_key_fst)
  then have "0 < whites S (fst st)" unfolding whites_def by (auto simp: card_gt_0_iff)
  with 1 show ?case by simp
next
  case (2 fuel S n c path)
  let ?c = "AList.update n gray c" and ?deps = "svc_depends_on (get0 service0 S n)"
  let ?r = "walk_deps fuel S ?deps (?c, path @ [n])"
  from 2 have inv: "dfs_inv S ?c (path @ [n])" by (simp add: dfs_inv_gray)
  have "\<forall>d \<in> set ?deps. has_key S d \<longrightarrow> (n, d) \<in> dep_rel S"
    using 2(3) by (simp add: dep_rel_def depends_def)
  moreover have "whites S ?c \<le> fuel" using whites_gray [of c n S] 2(3,4,6) by simp
  ultimately have post: "dfs_post S ?c (path @ [n]) {d \<in> set ?deps. has_key S d} ?r"
    using 2(1) inv by simp
  from post show ?case
  proof (cases rule: dfs_postE)
    case (2 c')
    then have "dfs_inv S (AList.update n black c') path"
      by (intro dfs_inv_black) (auto simp: depends_def)
    moreover have "\<forall>x. col c x = black \<or> x = n \<longrightarrow> col (AList.update n black c') x = black"
      using 2(3) by (auto split: if_splits)
    ultimately show ?thesis using 2(1) by simp
  qed simp
next
  case (3 fuel S st)
  then show ?case by (cases st) simp
next
  case (4 fuel S dep deps c path)
  show ?case
  proof (cases "has_key S dep")
    case False
    with 4(1) [OF False] 4(5-8) show ?thesis
      by (auto intro: dfs_post_mono)
  next
    case True
    note dep = True
    have edge: "(last path, dep) \<in> dep_rel S" using 4(7) dep by simp
    show ?thesis
    proof (cases "col c dep")
      case gray
      then have "dep \<in> set path" using 4(5) by (simp add: dfs_inv_def)
      with 4(5,6) edge have "is_cycle S (cycle_from dep path)"
        by (intro is_cycle_path) (simp_all add: dfs_inv_def)
      with gray dep show ?thesis by simp
    next
      case black
      then have "dfs_post S c path {d \<in> set deps. has_key S d} (walk_deps fuel S deps (c, path))"
        using 4(4) 4(5-8) dep by simp
      then have "dfs_post S c path {d \<in> set (dep # deps). has_key S d} (walk_deps fuel S deps (c, path))"
        by (rule dfs_post_mono) (use black in auto)
      with black dep show ?thesis by simp
    next
      case white
      let ?w = "walk fuel S dep (c, path)"
      have post: "dfs_post S c path {dep} ?w"
        using 4(2) 4(5-8) dep white edge by simp
      from post show ?thesis
      proof (cases rule: dfs_postE)
        case (2 c')
        note p = 2
        have "whites S c' \<le> whites S c"
        proof (rule whites_mono)
          fix x
          assume "col c' x = white"
          then have "col c x \<noteq> black" "col c' x \<noteq> gray" using p(3) by auto
          then have "col c x \<noteq> black" "x \<notin> set path" using p(2) unfolding dfs_inv_def by blast+
          then show "col c x = white" using 4(5) by (cases "col c x") (auto simp: dfs_inv_def)
        qed
        then have "dfs_post S c' path {d \<in> set deps. has_key S d} (walk_deps fuel S deps (c', path))"
          using 4(3) [of "(None, c', path)" None "(c', path)"] p dep white 4(5-8)
          by simp
        then have "dfs_post S c path {d \<in> set (dep # deps). has_key S d} (walk_deps fuel S deps (c', path))"
          by (rule dfs_post_mono) (use p(3) in auto)
        with p(1) dep white show ?thesis by simp
      qed (use dep white in simp)
    qed
  qed
qed

lemma dfs_inv_init: "dfs_inv S [] []"
  by (auto simp: dfs_inv_def get0_def has_key_def intro: exI [of _ "[]"])

lemma join_sep: "2 \<le> length xs \<Longrightarrow> sep \<noteq> [] \<Longrightarrow> join sep xs \<noteq> []"
  by (cases "(sep, xs)" rule: join.cases) auto

lemma cycle_loop_spec:
  assumes "dfs_inv S (fst st) []" "snd st = []" "\<forall>n \<in> set ns. has_key S n" "length S \<le> fuel"
    and "\<And>n. has_key S n \<Longrightarrow> n \<in> set ns \<or> col (fst st) n = black"
  shows "(cycle_loop fuel S ns st = Some [] \<and> acyclic (dep_rel S)) \<or>
    (\<exists>cyc. cycle_loop fuel S ns st = Some (join '' -> '' cyc) \<and> is_cycle S cyc)"
  using assms
proof (induction ns arbitrary: st)
  case Nil
  then obtain ord where ord: "\<forall>x. x \<in> set ord \<longleftrightarrow> col (fst st) x = black" "deps_first S {} ord"
    by (auto simp: dfs_inv_def)
  have "acyclic (dep_rel S)"
    by (rule deps_first_acyclic [OF ord(2)]) (use Nil(5) ord(1) in auto)
  then show ?case by simp
next
  case (Cons n ns)
  obtain c where st: "st = (c, [])" using Cons.prems(2) by (cases st) simp
  show ?case
  proof (cases "col c n = white")
    case False
    then have "col c n = black"
      using Cons.prems(1) by (cases "col c n") (auto simp: st dfs_inv_def)
    with Cons.IH [of st] Cons.prems show ?thesis by (auto simp: st)
  next
    case True
    have "whites S c \<le> card (fst ` set S)"
      unfolding whites_def by (intro card_mono) auto
    also have "\<dots> \<le> length S"
      by (metis card_image_le card_length finite_set le_trans)
    finally have "whites S c \<le> fuel" using Cons.prems(4) by simp
    then have "dfs_post S c [] {n} (walk fuel S n (c, []))"
      using walk_spec(1) [of S "(c, [])" n fuel] Cons.prems True by (simp add: st)
    then show ?thesis
    proof (cases rule: dfs_postE)
      case (1 cyc st')
      then show ?thesis using True by (auto simp: st)
    next
      case (2 c')
      have "\<And>m. has_key S m \<Longrightarrow> m \<in> set ns \<or> col (fst (c', [] :: string list)) m = black"
        using Cons.prems(5) 2(3) by (auto simp: st)
      from Cons.IH [of "(c', [])", OF _ _ _ _ this] Cons.prems 2 True show ?thesis
        by (simp add: st)
    qed
  qed
qed

lemma findDependencyCycle_spec:
  "(findDependencyCycle S = Some [] \<and> acyclic (dep_rel S)) \<or>
   (\<exists>cyc. findDependencyCycle S = Some (join '' -> '' cyc) \<and> is_cycle S cyc)"
  unfolding findDependencyCycle_def
  by (rule cycle_loop_spec) (simp_all add: dfs_inv_init has_key_fst)

lemma findDependencyCycle_acyclic: "findDependencyCycle S = Some [] \<longleftrightarrow> acyclic (dep_rel S)"
  using findDependencyCycle_spec [of S] join_sep is_cycle_not_acyclic
  by (metis is_cycle_def list.distinct(1) option.inject)

text \<open> the search for a cycle always ends with its fuel; it reports nothing exactly when the
  dependencies have no cycle, and what it reports is a cycle of defined services, written from a
  service back to itself.
\<close>

theorem find_dependency_cycle_correct:
  "(findDependencyCycle S = Some [] \<longleftrightarrow> acyclic (dep_rel S)) \<and>
   (acyclic (dep_rel S) \<or> (\<exists>cyc. findDependencyCycle S = Some (join '' -> '' cyc) \<and> is_cycle S cyc))"
  using findDependencyCycle_acyclic [of S] findDependencyCycle_spec [of S] by blast

lemma topoSort_perm:
  assumes "gomap_ok S" "findDependencyCycle S = Some []"
  shows "mset (topoSortServices S) = mset (map fst S)"
  using assms topoSort_spec(1) topoSort_complete
    set_eq_iff_mset_eq_distinct [of "topoSortServices S" "map fst S"]
  by (simp add: gomap_ok_def findDependencyCycle_acyclic)

lemma topoSort_before:
  assumes "gomap_ok S" "findDependencyCycle S = Some []" "n \<in> fst ` set S"
  shows "\<exists>before after. topoSortServices S = before @ n # after \<and> set (depends S n) \<subseteq> set before"
proof -
  from assms topoSort_complete [OF assms(1)] obtain a b where ab: "topoSortServices S = a @ n # b"
    by (metis findDependencyCycle_acyclic in_set_conv_decomp)
  have "deps_first S seen (a @ n # b) \<Longrightarrow> set (depends S n) \<subseteq> seen \<union> set a" for seen
    by (induction a arbitrary: seen) auto
  with ab topoSort_spec(3) [OF assms(1)] show ?thesis by force
qed

text \<open>
  C5: when the search reports nothing, the apply order lists every service once, each after all
  the defined services it depends on.
\<close>

theorem topo_sort_correct:
  assumes "gomap_ok S" "findDependencyCycle S = Some []"
  shows "mset (topoSortServices S) = mset (map fst S) \<and>
    (n \<notin> fst ` set S \<or> (\<exists>before after. topoSortServices S = before @ n # after \<and>
       set (depends S n) \<subseteq> set before))"
  using topoSort_perm [OF assms] topoSort_before [OF assms] by blast

corollary topo_sort_correct_witness:
  "let S = [(''web'', service0\<lparr>svc_depends_on := [''db'', ''api'']\<rparr>), (''db'', service0),
            (''api'', service0\<lparr>svc_depends_on := [''db'', ''db'', ''gone'']\<rparr>)]
   in mset (topoSortServices S) = {#''web'', ''db'', ''api''#} \<and>
      topoSortServices S = [''db'', ''api'', ''web'']"
proof -
  let ?S = "[(''web'', service0\<lparr>svc_depends_on := [''db'', ''api'']\<rparr>), (''db'', service0),
            (''api'', service0\<lparr>svc_depends_on := [''db'', ''db'', ''gone'']\<rparr>)]"
  have "gomap_ok ?S" "findDependencyCycle ?S = Some []" by code_simp+
  from topo_sort_correct [OF this] have "mset (topoSortServices ?S) = {#''web'', ''db'', ''api''#}" by simp
  moreover have "topoSortServices ?S = [''db'', ''api'', ''web'']" by code_simp
  ultimately show ?thesis by (simp only: Let_def)
qed

end
