(* ===== verification/ServiceSteps.thy ===== *)
theory ServiceSteps
  imports Secrets Rollout Image Topsort
begin

text \<open>
  The reconcile steps for services and cron jobs: \<open>internal/reconcile/services.go\<close>, \<open>crons.go\<close> and
  \<open>helpers.go\<close> with the operations \<open>ServiceSet\<close> and \<open>CronSet\<close> of \<open>pkg/core\<close>. Both run with a client
  and names that exist, as \<open>Deploy\<close> calls them; output lines are left out.
\<close>

section \<open>Values for a workload\<close>

definition resolve_env :: "string \<Rightarrow> string list \<Rightarrow> string gomap \<Rightarrow> goerr + string list" where
  "resolve_env ctx entries sources =
     mapR (\<lambda>entry. case resolveEntry entry sources of
         Inl e \<Rightarrow> Inl (Wrapf ctx e)
       | Inr (k, v) \<Rightarrow> Inr (k @ ''='' @ v)) entries"

definition add_secret :: "string \<Rightarrow> string gomap \<Rightarrow> string gomap \<times> string list \<Rightarrow> string \<Rightarrow>
    goerr + string gomap \<times> string list" where
  "add_secret workload sources s entry = (case s of (kvs, refs) \<Rightarrow>
     (case resolveEntry (normalized entry) sources of
        Inl e \<Rightarrow> Inl (Wrapf (workload @ ''.secrets'') e)
      | Inr (envName, val) \<Rightarrow> Inr (AList.update envName val kvs, refs @ [envName])))"

definition resolveSecretEntries :: "string \<Rightarrow> string list \<Rightarrow> string gomap \<Rightarrow> goerr + string gomap \<times> string list" where
  "resolveSecretEntries workload secrets sources = foldR (add_secret workload sources) ([], []) secrets"

definition StorageSecretKeys :: "string \<Rightarrow> string list" where
  "StorageSecretKeys name =
     (let prefix = StorageEnvPrefix name
      in [prefix @ ''_ENDPOINT'', prefix @ ''_BUCKET'', prefix @ ''_ACCESS_KEY_ID'', prefix @ ''_SECRET_ACCESS_KEY''])"

definition add_cred :: "string gomap \<Rightarrow> string gomap \<times> string list \<Rightarrow> string \<times> string \<Rightarrow> string gomap \<times> string list" where
  "add_cred sources s p = (case (s, p) of ((kvs, refs), envName, key) \<Rightarrow>
     (case map_of sources key of
        Some val \<Rightarrow> (AList.update envName val kvs, refs @ [envName])
      | None \<Rightarrow> (kvs, refs)))"

definition expandStorageCreds :: "string list \<Rightarrow> string gomap \<Rightarrow> string gomap \<times> string list \<Rightarrow> string gomap \<times> string list" where
  "expandStorageCreds storageNames sources s =
     foldl (add_cred sources) s (concat (map (\<lambda>n. map (\<lambda>k. (k, k)) (StorageSecretKeys n)) storageNames))"

text \<open>The variable that an entry of \<open>databases:\<close> fills, and the one its value comes from.\<close>

definition database_env :: "string \<Rightarrow> string \<times> string" where
  "database_env ref =
     (case parseDatabaseRef ref of (envName, dbName) \<Rightarrow>
        (if envName = [] then DatabaseEnvName dbName else envName, DatabaseEnvName dbName))"

definition expandDatabaseCreds :: "string list \<Rightarrow> string gomap \<Rightarrow> string gomap \<times> string list \<Rightarrow> string gomap \<times> string list" where
  "expandDatabaseCreds databaseRefs sources s = foldl (add_cred sources) s (map database_env databaseRefs)"

definition mergeSources :: "string gomap list \<Rightarrow> string gomap" where
  "mergeSources maps = foldl (\<lambda>acc m. put_all m acc) [] maps"

section \<open>Helpers\<close>

definition knownVolumes :: "app_config \<Rightarrow> string list" where
  "knownVolumes cfg = map fst (cfg_volumes cfg)"

definition SplitServers :: "server_def gomap \<Rightarrow> (string \<times> server_def) list \<times> (string \<times> server_def) list" where
  "SplitServers servers =
     (let named = map (\<lambda>name. (name, get0 server0 servers name)) (SortedKeys servers)
      in (filter (\<lambda>(_, s). srv_role s \<noteq> RoleWorker) named, filter (\<lambda>(_, s). srv_role s = RoleWorker) named))"

text \<open>The server of the first named volume among the mounts.\<close>

fun volume_server :: "app_config \<Rightarrow> string list \<Rightarrow> string list" where
  "volume_server cfg [] = []"
| "volume_server cfg (mount # mounts) =
     (case cut CHR '':'' mount of (volName, _, ok) \<Rightarrow>
        if \<not> ok \<or> has_prefix volName ''/'' \<or> has_prefix volName ''.'' then volume_server cfg mounts
        else (case map_of (cfg_volumes cfg) volName of
            Some vol \<Rightarrow> [vol_server vol]
          | None \<Rightarrow> volume_server cfg mounts))"

definition ResolveServers :: "app_config \<Rightarrow> string list \<Rightarrow> string \<Rightarrow> string list \<Rightarrow> string list" where
  "ResolveServers cfg servers server mounts =
     (if servers \<noteq> [] then servers else if server \<noteq> [] then [server] else volume_server cfg mounts)"

section \<open>Operations of pkg/core\<close>

record set_request =
  rq_name :: string
  rq_image :: string
  rq_command :: string
  rq_env_vars :: "string list"
  rq_secrets :: "string list"
  rq_volumes :: "string list"
  rq_servers :: "string list"
  rq_pull_secret :: string
  rq_known_volumes :: "string list"
  rq_deploy_hash :: string

record service_set_request = set_request +
  rq_port :: int
  rq_replicas :: int
  rq_health_path :: string

record cron_set_request = set_request +
  rq_schedule :: string

definition check_mount :: "names \<Rightarrow> string list \<Rightarrow> string gomap \<Rightarrow> string \<Rightarrow> goerr + string gomap" where
  "check_mount names known paths mount =
     (case ParseVolumeMount mount of (source, _, named, ok) \<Rightarrow>
        if \<not> ok then Inl (Errorf ''invalid volume mount'' [mount])
        else if \<not> named then Inr paths
        else if source \<notin> set known then Inl (Errorf ''not found'' [''volume'', source])
        else Inr (AList.update source (VolumeMountPath names source) paths))"

definition parse_env :: "string list \<Rightarrow> goerr + env_var list" where
  "parse_env envVars =
     mapR (\<lambda>e. case cut CHR ''='' e of (k, v, ok) \<Rightarrow>
       if \<not> ok then Inl (Errorf ''invalid env var'' [e])
       else Inr \<lparr>ev_name = k, ev_value = v, ev_secret_ref = None\<rparr>) envVars"

text \<open>The part of \<open>ServiceSet\<close> and \<open>CronSet\<close> up to the finished objects.\<close>

definition service_objects :: "names \<Rightarrow> service_set_request \<Rightarrow> goerr + kobj \<times> kobj \<times> string" where
  "service_objects names req =
     (if rq_image req = [] then Inl (Errorf ''--image is required'' [])
      else bindR (foldR (check_mount names (rq_known_volumes req)) [] (rq_volumes req)) (\<lambda>paths.
        bindR (parse_env (rq_env_vars req)) (\<lambda>env.
          BuildService
            \<lparr>sv_name = rq_name req, sv_image = rq_image req, sv_port = rq_port req, sv_command = rq_command req,
             sv_replicas = rq_replicas req, sv_env = env, sv_secrets = rq_secrets req,
             sv_secret_name = KubeServiceSecrets names (rq_name req), sv_volumes = rq_volumes req,
             sv_health_path = rq_health_path req, sv_servers = rq_servers req, sv_managed = (paths \<noteq> []),
             sv_pull_secret_name = rq_pull_secret req, sv_deploy_hash = rq_deploy_hash req\<rparr> names paths)))"

definition ServiceSet :: "'w kube_api \<Rightarrow> names \<Rightarrow> service_set_request \<Rightarrow> ('w, unit) act" where
  "ServiceSet api names req =
     bindA (readA (\<lambda>_. service_objects names req)) (\<lambda>(workload, svc, kind).
       thenA (ApplyOwned api (KubeNamespace names) OwnerServices workload)
             (ApplyOwned api (KubeNamespace names) OwnerServices svc))"

definition cron_object :: "names \<Rightarrow> cron_set_request \<Rightarrow> goerr + kobj" where
  "cron_object names req =
     bindR (foldR (check_mount names (rq_known_volumes req)) [] (rq_volumes req)) (\<lambda>paths.
     bindR (parse_env (rq_env_vars req)) (\<lambda>env.
       (case BuildCronJob
            \<lparr>cs_name = rq_name req, cs_schedule = rq_schedule req, cs_image = rq_image req, cs_command = rq_command req,
             cs_env = env, cs_secrets = rq_secrets req, cs_secret_name = KubeServiceSecrets names (rq_name req),
             cs_volumes = rq_volumes req, cs_servers = rq_servers req, cs_pull_secret_name = rq_pull_secret req,
             cs_deploy_hash = rq_deploy_hash req\<rparr> names paths of
          Inl e \<Rightarrow> Inl (Wrapf ''build cronjob'' e)
        | Inr cron \<Rightarrow> Inr cron)))"

definition CronSet :: "'w kube_api \<Rightarrow> names \<Rightarrow> cron_set_request \<Rightarrow> ('w, unit) act" where
  "CronSet api names req =
     bindA (readA (\<lambda>_. cron_object names req)) (\<lambda>cron. ApplyOwned api (KubeNamespace names) OwnerCrons cron)"

definition ServiceDelete :: "'w kube_api \<Rightarrow> names \<Rightarrow> string \<Rightarrow> ('w, unit) act" where
  "ServiceDelete api names name = DeleteByName api (KubeNamespace names) name"

definition CronDelete :: "'w kube_api \<Rightarrow> names \<Rightarrow> string \<Rightarrow> ('w, unit) act" where
  "CronDelete api names name = DeleteCronByName api (KubeNamespace names) name"

section \<open>The steps\<close>

definition upsertServiceSecrets :: "'w kube_api \<Rightarrow> names \<Rightarrow> string \<Rightarrow> string gomap \<Rightarrow> ('w, unit) act" where
  "upsertServiceSecrets api names svcName kvs =
     (let ns = KubeNamespace names; secretName = KubeServiceSecrets names svcName
      in if kvs = [] then DeleteSecret api ns secretName
         else thenA (wrapA (''service '' @ svcName @ '' secret'') (EnsureSecret api ns OwnerServices secretName kvs))
           (\<lambda>w. case ListSecretKeys api ns secretName w of
                Inl _ \<Rightarrow> (Inr (), w)
              | Inr existing \<Rightarrow>
                  forA (\<lambda>key. ignoreA (DeleteSecretKey api ns secretName key))
                    (filter (\<lambda>key. \<not> has_key kvs key) existing) w))"

definition pull_secret_of :: "app_config \<Rightarrow> string" where
  "pull_secret_of cfg = (if cfg_registry cfg \<noteq> [] then PullSecretName else [])"

text \<open>The values and the references of a service's secret.\<close>

definition service_secrets :: "string \<Rightarrow> service_def \<Rightarrow> string gomap \<Rightarrow> goerr + string gomap \<times> string list" where
  "service_secrets name svc sources =
     bindR (resolveSecretEntries name (svc_secrets svc) sources) (\<lambda>s.
       Inr (expandDatabaseCreds (svc_databases svc) sources (expandStorageCreds (svc_storage svc) sources s)))"

definition service_request :: "app_config \<Rightarrow> string \<Rightarrow> string \<Rightarrow> service_def \<Rightarrow> string list \<Rightarrow> string list \<Rightarrow> string \<Rightarrow>
    service_set_request" where
  "service_request cfg hash name svc plainEnv refs resolvedImage =
     \<lparr>rq_name = name, rq_image = resolvedImage, rq_command = svc_command svc, rq_env_vars = plainEnv,
      rq_secrets = refs, rq_volumes = svc_volumes svc,
      rq_servers = ResolveServers cfg (svc_servers svc) (svc_server svc) (svc_volumes svc),
      rq_pull_secret = pull_secret_of cfg, rq_known_volumes = knownVolumes cfg, rq_deploy_hash = hash,
      rq_port = svc_port svc,
      rq_replicas = (if has_key (cfg_domains cfg) name \<and> svc_replicas svc = 0 then 2 else svc_replicas svc),
      rq_health_path = svc_health svc\<rparr>"

definition service_step :: "'w kube_api \<Rightarrow> 'w runtime \<Rightarrow> names \<Rightarrow> string \<Rightarrow> app_config \<Rightarrow> string gomap \<Rightarrow> string \<Rightarrow> ('w, unit) act" where
  "service_step api rt names hash cfg sources name =
     (let svc = get0 service0 (cfg_services cfg) name
      in bindA (readA (\<lambda>_. resolve_env (''services.'' @ name @ ''.env'') (svc_env svc) sources)) (\<lambda>plainEnv.
         bindA (readA (\<lambda>_. service_secrets name svc sources)) (\<lambda>(kvs, refs).
         thenA (upsertServiceSecrets api names name kvs)
         (bindA (readA (\<lambda>_. ResolveImage cfg name hash)) (\<lambda>resolvedImage.
         thenA (ServiceSet api names (service_request cfg hash name svc plainEnv refs resolvedImage))
           (WaitRollout rt (KubeNamespace names) name (svc_health svc \<noteq> [])))))))"

definition service_sweeps :: "'w kube_api \<Rightarrow> names \<Rightarrow> string list \<Rightarrow> ('w, unit) act" where
  "service_sweeps api names svcNames =
     forA (\<lambda>(k, desired). ignoreA (SweepOwned api (KubeNamespace names) OwnerServices k desired))
       [(KindDeployment, svcNames), (KindStatefulSet, svcNames), (KindService, svcNames),
        (KindSecret, map (KubeServiceSecrets names) svcNames)]"

definition Services :: "'w kube_api \<Rightarrow> 'w runtime \<Rightarrow> names \<Rightarrow> string \<Rightarrow> app_config \<Rightarrow> string gomap \<Rightarrow> ('w, unit) act" where
  "Services api rt names hash cfg sources =
     (let svcNames = topoSortServices (cfg_services cfg)
      in thenA (forA (service_step api rt names hash cfg sources) svcNames) (service_sweeps api names svcNames))"

definition cron_secrets :: "string \<Rightarrow> cron_def \<Rightarrow> string gomap \<Rightarrow> goerr + string gomap \<times> string list" where
  "cron_secrets name cron sources =
     bindR (resolveSecretEntries name (cr_secrets cron) sources) (\<lambda>s.
       Inr (expandStorageCreds (cr_storage cron) sources s))"

definition cron_request :: "app_config \<Rightarrow> string \<Rightarrow> string \<Rightarrow> cron_def \<Rightarrow> string list \<Rightarrow> string list \<Rightarrow> cron_set_request" where
  "cron_request cfg hash name cron plainEnv refs =
     \<lparr>rq_name = name, rq_image = cr_image cron, rq_command = cr_command cron, rq_env_vars = plainEnv,
      rq_secrets = refs, rq_volumes = cr_volumes cron,
      rq_servers = ResolveServers cfg (cr_servers cron) (cr_server cron) (cr_volumes cron),
      rq_pull_secret = pull_secret_of cfg, rq_known_volumes = knownVolumes cfg, rq_deploy_hash = hash,
      rq_schedule = cr_schedule cron\<rparr>"

definition cron_step :: "'w kube_api \<Rightarrow> names \<Rightarrow> string \<Rightarrow> app_config \<Rightarrow> string gomap \<Rightarrow> string \<Rightarrow> ('w, unit) act" where
  "cron_step api names hash cfg sources name =
     (let cron = get0 cron0 (cfg_crons cfg) name
      in bindA (readA (\<lambda>_. resolve_env (''crons.'' @ name @ ''.env'') (cr_env cron) sources)) (\<lambda>plainEnv.
         bindA (readA (\<lambda>_. cron_secrets name cron sources)) (\<lambda>(kvs, refs).
         thenA (upsertServiceSecrets api names name kvs)
           (CronSet api names (cron_request cfg hash name cron plainEnv refs)))))"

definition Crons :: "'w kube_api \<Rightarrow> names \<Rightarrow> string \<Rightarrow> app_config \<Rightarrow> string gomap \<Rightarrow> ('w, unit) act" where
  "Crons api names hash cfg sources =
     (let cronNames = SortedKeys (cfg_crons cfg)
      in thenA (forA (cron_step api names hash cfg sources) cronNames)
         (thenA (ignoreA (SweepOwned api (KubeNamespace names) OwnerCrons KindCronJob cronNames))
            (ignoreA (SweepOwned api (KubeNamespace names) OwnerCrons KindSecret (map (KubeServiceSecrets names) cronNames)))))"

end
