(* ===== verification/ServiceLaws.thy ===== *)
theory ServiceLaws
  imports ServiceSteps Waiting
begin

text \<open>
  What the steps for services and cron jobs do to the objects of the cluster, on any server that
  satisfies \<open>kube_server\<close>: which objects they may touch, what they leave behind on success, and what
  they fail to clean up.
\<close>

section \<open>Which objects a service has\<close>

definition mount_named :: "string \<Rightarrow> bool" where
  "mount_named m \<longleftrightarrow> (case ParseVolumeMount m of (_, _, named, ok) \<Rightarrow> ok \<and> named)"

text \<open>A service with a named volume is a StatefulSet, any other a Deployment.\<close>

definition service_kind :: "service_def \<Rightarrow> kind" where
  "service_kind svc = (if \<exists>m \<in> set (svc_volumes svc). mount_named m then KindStatefulSet else KindDeployment)"

definition service_keys :: "names \<Rightarrow> app_config \<Rightarrow> string \<Rightarrow> kkey set" where
  "service_keys names cfg name =
     (let ns = KubeNamespace names
      in {(service_kind (get0 service0 (cfg_services cfg) name), ns, name), (KindService, ns, name),
          (KindSecret, ns, KubeServiceSecrets names name)})"

text \<open>What the sweeps of the services step may delete: undeclared objects of its own.\<close>

definition sweepable :: "names \<Rightarrow> string list \<Rightarrow> kkey \<Rightarrow> kcore \<Rightarrow> bool" where
  "sweepable names svcNames key c \<longleftrightarrow> owned_by OwnerServices c \<and> (case key of (k, ns, n) \<Rightarrow> ns = KubeNamespace names \<and>
     (k \<in> {KindDeployment, KindStatefulSet, KindService} \<and> n \<notin> set svcNames \<or>
      k = KindSecret \<and> n \<notin> KubeServiceSecrets names ` set svcNames))"

lemma paths_managed:
  assumes "foldR (check_mount names known) paths mounts = Inr paths'"
  shows "(paths' \<noteq> []) \<longleftrightarrow> paths \<noteq> [] \<or> (\<exists>m \<in> set mounts. mount_named m)"
  using assms
proof (induction mounts arbitrary: paths)
  case (Cons m mounts)
  then obtain p1 where p1: "check_mount names known paths m = Inr p1" "foldR (check_mount names known) p1 mounts = Inr paths'"
    by (auto simp: bindR_eq_Inr)
  have "(p1 \<noteq> []) \<longleftrightarrow> paths \<noteq> [] \<or> mount_named m"
    using p1(1) by (auto simp: check_mount_def mount_named_def split: prod.splits if_splits)
  with Cons.IH [OF p1(2)] show ?case by auto
qed simp

lemma service_objects_Inr:
  assumes "service_objects names req = Inr (w, svc, k)"
  shows "entry_key (KubeNamespace names) w =
      (if \<exists>m \<in> set (rq_volumes req). mount_named m then KindStatefulSet else KindDeployment, KubeNamespace names, rq_name req)"
    and "entry_key (KubeNamespace names) svc = (KindService, KubeNamespace names, rq_name req)"
    and "images_of (ko_body w) = [rq_image req]"
proof -
  from assms obtain paths env where paths: "foldR (check_mount names (rq_known_volumes req)) [] (rq_volumes req) = Inr paths"
    and build: "BuildService
            \<lparr>sv_name = rq_name req, sv_image = rq_image req, sv_port = rq_port req, sv_command = rq_command req,
             sv_replicas = rq_replicas req, sv_env = env, sv_secrets = rq_secrets req,
             sv_secret_name = KubeServiceSecrets names (rq_name req), sv_volumes = rq_volumes req,
             sv_health_path = rq_health_path req, sv_servers = rq_servers req, sv_managed = (paths \<noteq> []),
             sv_pull_secret_name = rq_pull_secret req, sv_deploy_hash = rq_deploy_hash req\<rparr> names paths = Inr (w, svc, k)"
    unfolding service_objects_def by (auto simp: bindR_eq_Inr split: if_splits)
  note objs = build [unfolded BuildService_Inr]
  show "entry_key (KubeNamespace names) w =
      (if \<exists>m \<in> set (rq_volumes req). mount_named m then KindStatefulSet else KindDeployment, KubeNamespace names, rq_name req)"
    using objs paths_managed [OF paths] by (auto simp: entry_key_def service_body_def)
  show "entry_key (KubeNamespace names) svc = (KindService, KubeNamespace names, rq_name req)"
    using objs by (simp add: entry_key_def)
  show "images_of (ko_body w) = [rq_image req]"
    using objs by (auto simp: images_of_def service_body_def template_container workload_container_def)
qed

lemma BuildCronJob_Inr:
  assumes "BuildCronJob spec names managed = Inr c"
  shows "ko_kind c = KindCronJob \<and> ko_name c = cs_name spec \<and> images_of (ko_body c) = [cs_image spec]"
  using assms
  by (auto simp: BuildCronJob_def Let_def bindR_eq_Inr images_of_def pod_spec_of_def workload_container_def)

lemma wrapped_Inr: "(case r of Inl e \<Rightarrow> Inl (g e) | Inr x \<Rightarrow> Inr x) = Inr c \<longleftrightarrow> r = Inr c"
  by (cases r) simp_all

lemma cron_object_Inr:
  assumes "cron_object names req = Inr c"
  shows "entry_key (KubeNamespace names) c = (KindCronJob, KubeNamespace names, rq_name req)"
    and "images_of (ko_body c) = [rq_image req]"
proof -
  from assms obtain spec managed where "BuildCronJob spec names managed = Inr c" "cs_name spec = rq_name req"
      "cs_image spec = rq_image req"
    unfolding cron_object_def by (auto simp: bindR_eq_Inr wrapped_Inr)
  from BuildCronJob_Inr [OF this(1)] this(2,3)
  show "entry_key (KubeNamespace names) c = (KindCronJob, KubeNamespace names, rq_name req)"
    and "images_of (ko_body c) = [rq_image req]"
    by (simp_all add: entry_key_def)
qed

context kube_server
begin

lemma EnsureSecret_keeps:
  "keeps (changes store (\<lambda>key v. key = (KindSecret, ns, name))) (EnsureSecret api ns owner name kvs)"
proof -
  have "changes store (\<lambda>key v. key = (KindSecret, ns, name)) w (snd (EnsureSecret api ns owner name kvs w))" for w
  proof (cases "api_get api KindSecret ns name w")
    case (Inl e)
    have "keeps (changes store (\<lambda>key v. key = (KindSecret, ns, name))) (wrapA (secret_ctx ''create'' ns name)
        (call (api_create api KindSecret ns (kobj_of name ns [(LabelAppManagedBy, LabelManagedBy), (LabelNvoiOwner, owner)]
           (SecretBody ''Opaque'' (put_all kvs []))))))"
      by (intro change.wrap create_keeps) simp
    with Inl show ?thesis
      by (cases e) (auto simp: EnsureSecret_def keeps_def change.refl)
  next
    case (Inr existing)
    have "keeps (changes store (\<lambda>key v. key = (KindSecret, ns, name))) (wrapA (secret_ctx ''update'' ns name)
        (call (api_update api KindSecret ns (stamp owner (with_secret_data (put_all kvs (secret_data existing)) existing)))))"
      using get_found [OF Inr] by (intro change.wrap update_keeps) simp
    with Inr show ?thesis by (auto simp: EnsureSecret_def keeps_def change.refl)
  qed
  then show ?thesis by (simp add: keeps_def)
qed

lemma DeleteSecret_keeps:
  "keeps (changes store (\<lambda>key v. key = (KindSecret, ns, name))) (DeleteSecret api ns name)"
  unfolding DeleteSecret_def by (intro change.wrap delete_keeps) simp

lemma DeleteSecretKey_keeps:
  "keeps (changes store (\<lambda>key v. key = (KindSecret, ns, name))) (DeleteSecretKey api ns name k)"
  unfolding keeps_def by (metis (no_types, lifting) DeleteSecretKey_spec changes_mono prod.collapse)

lemma upsertServiceSecrets_keeps:
  "keeps (changes store (\<lambda>key v. key = (KindSecret, KubeNamespace names, KubeServiceSecrets names svc)))
     (upsertServiceSecrets api names svc kvs)"
proof -
  let ?R = "changes store (\<lambda>key v. key = (KindSecret, KubeNamespace names, KubeServiceSecrets names svc))"
  have "keeps ?R (\<lambda>w. case ListSecretKeys api (KubeNamespace names) (KubeServiceSecrets names svc) w of
                Inl _ \<Rightarrow> (Inr (), w)
              | Inr existing \<Rightarrow>
                  forA (\<lambda>key. ignoreA (DeleteSecretKey api (KubeNamespace names) (KubeServiceSecrets names svc) key))
                    (filter (\<lambda>key. \<not> has_key kvs key) existing) w)"
  proof -
    have "keeps ?R (forA (\<lambda>key. ignoreA (DeleteSecretKey api (KubeNamespace names) (KubeServiceSecrets names svc) key)) ks)" for ks
      by (intro change.loop change.ignore DeleteSecretKey_keeps)
    then show ?thesis by (auto simp: keeps_def change.refl split: sum.split)
  qed
  then show ?thesis
    unfolding upsertServiceSecrets_def Let_def
    by (auto intro!: change.seq change.wrap EnsureSecret_keeps DeleteSecret_keeps)
qed

lemma ApplyOwned_keeps:
  "P (entry_key ns obj) \<Longrightarrow> keeps (changes store (\<lambda>key v. P key)) (ApplyOwned api ns owner obj)"
  unfolding keeps_def by (metis (mono_tags, lifting) ApplyOwned_spec changes_mono prod.collapse)

lemma ServiceSet_keeps:
  assumes "rq_volumes req = svc_volumes svc" "P (service_kind svc, KubeNamespace names, rq_name req)"
    "P (KindService, KubeNamespace names, rq_name req)"
  shows "keeps (changes store (\<lambda>key v. P key)) (ServiceSet api names req)"
proof (cases "service_objects names req")
  case (Inr r)
  obtain w sv k where r: "r = (w, sv, k)" by (cases r)
  note keys = service_objects_Inr [OF Inr [unfolded r]]
  have "P (entry_key (KubeNamespace names) w)" "P (entry_key (KubeNamespace names) sv)"
    using assms unfolding keys by (auto simp: service_kind_def)
  with Inr show ?thesis by (simp add: ServiceSet_def readA_const r change.seq ApplyOwned_keeps)
qed (simp add: ServiceSet_def readA_const change.fail)

lemma CronSet_keeps:
  assumes "P (KindCronJob, KubeNamespace names, rq_name req)"
  shows "keeps (changes store (\<lambda>key v. P key)) (CronSet api names req)"
proof (cases "cron_object names req")
  case (Inr c)
  with assms show ?thesis by (simp add: CronSet_def readA_const ApplyOwned_keeps cron_object_Inr)
qed (simp add: CronSet_def readA_const change.fail)

lemma service_step_keeps:
  assumes "sleeps_quiet rt store"
  shows "keeps (changes store (\<lambda>key v. key \<in> service_keys names cfg name)) (service_step api rt names hash cfg sources name)"
proof -
  let ?R = "changes store (\<lambda>key v. key \<in> service_keys names cfg name)"
  have "keeps ?R (upsertServiceSecrets api names name kvs)" for kvs
    by (rule keeps_mono [OF upsertServiceSecrets_keeps]) (auto elim: changes_mono simp: service_keys_def Let_def)
  moreover have "keeps ?R (ServiceSet api names (service_request cfg hash name (get0 service0 (cfg_services cfg) name) env refs img))"
    for env refs img
    by (rule ServiceSet_keeps [where svc = "get0 service0 (cfg_services cfg) name"])
      (simp_all add: service_request_def service_keys_def Let_def)
  ultimately show ?thesis
    unfolding service_step_def Let_def
    by (auto intro!: change.bind change.read change.seq WaitRollout_keeps assms split: prod.split)
qed

lemma cron_step_keeps:
  "keeps (changes store (\<lambda>key v. key = (KindCronJob, KubeNamespace names, name) \<or>
      key = (KindSecret, KubeNamespace names, KubeServiceSecrets names name))) (cron_step api names hash cfg sources name)"
proof -
  let ?R = "changes store (\<lambda>key v. key = (KindCronJob, KubeNamespace names, name) \<or>
      key = (KindSecret, KubeNamespace names, KubeServiceSecrets names name))"
  have "keeps ?R (upsertServiceSecrets api names name kvs)" for kvs
    by (rule keeps_mono [OF upsertServiceSecrets_keeps]) (auto elim: changes_mono)
  moreover have "keeps ?R (CronSet api names (cron_request cfg hash name cron env refs))" for cron env refs
    by (rule CronSet_keeps) (simp add: cron_request_def)
  ultimately show ?thesis
    unfolding cron_step_def Let_def
    by (auto intro!: change.bind change.read change.seq split: prod.split)
qed

lemma service_step_ok:
  assumes "sleeps_quiet rt store" "service_step api rt names hash cfg sources name w = (Inr (), w')"
  shows "\<exists>img c. ResolveImage cfg name hash = Inr img \<and>
    store w' (service_kind (get0 service0 (cfg_services cfg) name), KubeNamespace names, name) = Some c \<and>
    kc_images c = [img] \<and> owned_by OwnerServices c"
proof -
  let ?svc = "get0 service0 (cfg_services cfg) name" and ?ns = "KubeNamespace names"
  from assms(2) obtain img env refs w1 w2 where img: "ResolveImage cfg name hash = Inr img"
    and set: "ServiceSet api names (service_request cfg hash name ?svc env refs img) w1 = (Inr (), w2)"
    and wait: "WaitRollout rt ?ns name (svc_health ?svc \<noteq> []) w2 = (Inr (), w')"
    unfolding service_step_def Let_def by (auto simp: bindA_read thenA_Inr split: prod.splits)
  from set obtain wl sv k w3 where objs: "service_objects names (service_request cfg hash name ?svc env refs img) = Inr (wl, sv, k)"
    and apply1: "ApplyOwned api ?ns OwnerServices wl w1 = (Inr (), w3)"
    and apply2: "ApplyOwned api ?ns OwnerServices sv w3 = (Inr (), w2)"
    unfolding ServiceSet_def by (auto simp: bindA_read thenA_Inr split: prod.splits)
  note keys = service_objects_Inr [OF objs]
  have key: "entry_key ?ns wl = (service_kind ?svc, ?ns, name)"
    using keys(1) by (simp add: service_kind_def service_request_def)
  then have "ko_kind wl \<noteq> KindPVC" by (auto simp: entry_key_def service_kind_def split: if_splits)
  then have "store w3 (service_kind ?svc, ?ns, name) = Some (core (stamp OwnerServices wl))"
    using ApplyOwned_spec [OF apply1] by (simp add: key)
  moreover have "store w2 (service_kind ?svc, ?ns, name) = store w3 (service_kind ?svc, ?ns, name)"
    using ApplyOwned_spec [OF apply2] keys(2)
    by (auto simp: service_kind_def dest!: changes_other [of _ _ _ _ "(service_kind ?svc, ?ns, name)", rotated] elim: changes_other)
  moreover have "store w' = store w2"
    using WaitRollout_keeps [OF assms(1), of "\<lambda>_ _. False", THEN keepsD, OF wait] by (auto simp: changes_def)
  moreover have "kc_images (core (stamp OwnerServices wl)) = [img]"
    using keys(3) by (simp add: core_def service_request_def)
  ultimately show ?thesis using img by auto
qed

lemma service_sweeps_removes:
  "keeps (removes store (sweepable names svcNames)) (service_sweeps api names svcNames)"
  unfolding service_sweeps_def sweepable_def
  by (intro removal.loop) (auto intro!: removal.ignore keeps_mono [OF SweepOwned_removes] elim!: removes_mono)

lemma Services_frame:
  assumes "sleeps_quiet rt store" "Services api rt names hash cfg sources w = (r, w')"
  shows "\<exists>w1. changes store (\<lambda>key v. \<exists>name \<in> set (topoSortServices (cfg_services cfg)). key \<in> service_keys names cfg name) w w1 \<and>
    removes store (sweepable names (topoSortServices (cfg_services cfg))) w1 w'"
proof (rule seq_split)
  let ?names = "topoSortServices (cfg_services cfg)"
  show "keeps (changes store (\<lambda>key v. \<exists>name \<in> set ?names. key \<in> service_keys names cfg name))
      (forA (service_step api rt names hash cfg sources) ?names)"
    by (intro change.loop keeps_mono [OF service_step_keeps [OF assms(1)]]) (auto elim: changes_mono)
  show "keeps (removes store (sweepable names ?names)) (service_sweeps api names ?names)"
    by (rule service_sweeps_removes)
qed (use assms(2) in \<open>simp_all add: Services_def Let_def removal.refl\<close>)

lemma Services_ok:
  assumes "sleeps_quiet rt store" "gomap_ok (cfg_services cfg)" "Services api rt names hash cfg sources w = (Inr (), w')"
    and name: "name \<in> set (topoSortServices (cfg_services cfg))"
  shows "\<exists>img c. ResolveImage cfg name hash = Inr img \<and>
    store w' (service_kind (get0 service0 (cfg_services cfg) name), KubeNamespace names, name) = Some c \<and>
    kc_images c = [img] \<and> owned_by OwnerServices c"
proof -
  let ?names = "topoSortServices (cfg_services cfg)" and ?step = "service_step api rt names hash cfg sources"
  let ?key = "(service_kind (get0 service0 (cfg_services cfg) name), KubeNamespace names, name)"
  obtain w0 where loop: "forA ?step ?names w = (Inr (), w0)" and sweeps: "service_sweeps api names ?names w0 = (Inr (), w')"
    using assms(3) by (auto simp: Services_def Let_def thenA_Inr)
  obtain w1 w2 ys where ys: "?step name w1 = (Inr (), w2)" "forA ?step ys w2 = (Inr (), w0)" "set ys \<subseteq> set ?names - {name}"
    using forA_reaches [OF loop name] topoSort_spec(1) [OF assms(2)] by blast
  have "keeps (changes store (\<lambda>key v. \<exists>m \<in> set ys. key \<in> service_keys names cfg m)) (forA ?step ys)"
    by (intro change.loop keeps_mono [OF service_step_keeps [OF assms(1)]]) (auto elim: changes_mono)
  from keepsD [OF this ys(2)] have "store w0 ?key = store w2 ?key"
    by (rule changes_other) (use ys(3) in \<open>auto simp: service_keys_def service_kind_def Let_def\<close>)
  moreover have "store w' ?key = store w0 ?key"
    using keepsD [OF service_sweeps_removes sweeps] name
    by (auto simp: removes_def sweepable_def service_kind_def)
  ultimately show ?thesis using service_step_ok [OF assms(1) ys(1)] by auto
qed

lemma ResolveImage_service: "ResolveImage cfg name hash = Inr img \<Longrightarrow> has_key (cfg_services cfg) name"
  using ResolveImage_undefined by fastforce

end

section \<open>The secret of a workload\<close>

text \<open>A server that answers every read and accepts an update based on the object it just returned.\<close>

definition reliable_secrets :: "'w kube_api \<Rightarrow> bool" where
  "reliable_secrets api \<longleftrightarrow> (\<forall>ns n w. case api_get api KindSecret ns n w of
       Inl e \<Rightarrow> e = ApiNotFound
     | Inr o' \<Rightarrow> (\<forall>d. fst (api_update api KindSecret ns (with_secret_data d o') w) = Inr ()))"

lemma reliable_get:
  assumes "reliable_secrets api"
  obtains "api_get api KindSecret ns n w = Inl ApiNotFound"
    | o' where "api_get api KindSecret ns n w = Inr o'" "\<And>d. fst (api_update api KindSecret ns (with_secret_data d o') w) = Inr ()"
  using assms [unfolded reliable_secrets_def, rule_format, of ns w n] that by (auto split: sum.splits)

lemma wrapped_call_ok: "fst (f w) = Inr () \<Longrightarrow> wrapA ctx (call f) w = (Inr (), snd (f w))"
  by (cases "f w") (simp add: wrapA_def call_def)

lemma reliable_delete:
  assumes "reliable_secrets api"
  shows "\<exists>w'. DeleteSecretKey api ns name key w = (Inr (), w')"
  using assms
  by (rule reliable_get [where ns = ns and n = name and w = w]) (auto simp: DeleteSecretKey_def wrapped_call_ok)

context kube_server
begin

lemma delete_key_exact:
  assumes "reliable_secrets api" "store w (KindSecret, ns, name) = Some c"
  shows "\<exists>w'. DeleteSecretKey api ns name key w = (Inr (), w') \<and>
    store w' (KindSecret, ns, name) = Some (c\<lparr>kc_data := (kc_data c)(key := None)\<rparr>)"
proof -
  obtain w' where w': "DeleteSecretKey api ns name key w = (Inr (), w')" using reliable_delete [OF assms(1)] by blast
  from DeleteSecretKey_spec [OF w'] assms(2)
  have "store w' (KindSecret, ns, name) = Some c \<and> kc_data c key = None \<or>
      store w' (KindSecret, ns, name) = Some (c\<lparr>kc_data := (kc_data c)(key := None)\<rparr>)"
    unfolding changes_def by (elim conjE allE [of _ "(KindSecret, ns, name)"]) auto
  moreover have "c\<lparr>kc_data := (kc_data c)(key := None)\<rparr> = c" if "kc_data c key = None"
    using that by (cases c) (simp add: fun_upd_idem)
  ultimately show ?thesis using w' by auto
qed

lemma restrict_data: "c\<lparr>kc_data := d\<rparr>\<lparr>kc_data := kc_data (c\<lparr>kc_data := d\<rparr>) |` S\<rparr> = c\<lparr>kc_data := d |` S\<rparr>"
  by simp

lemma delete_keys_exact:
  assumes "reliable_secrets api"
  shows "store w (KindSecret, ns, name) = Some c \<Longrightarrow>
    store (snd (forA (\<lambda>key. ignoreA (DeleteSecretKey api ns name key)) ks w)) (KindSecret, ns, name) =
      Some (c\<lparr>kc_data := kc_data c |` (- set ks)\<rparr>)"
proof (induction ks arbitrary: w c)
  case (Cons k ks)
  from delete_key_exact [OF assms Cons.prems, of k] obtain w1 where
    w1: "DeleteSecretKey api ns name k w = (Inr (), w1)"
    "store w1 (KindSecret, ns, name) = Some (c\<lparr>kc_data := (kc_data c)(k := None)\<rparr>)" by blast
  have eq: "((kc_data c)(k := None)) |` (- set ks) = kc_data c |` (- set (k # ks))"
    by (auto simp: restrict_map_def)
  have "snd (forA (\<lambda>key. ignoreA (DeleteSecretKey api ns name key)) (k # ks) w) =
      snd (forA (\<lambda>key. ignoreA (DeleteSecretKey api ns name key)) ks w1)"
    using w1(1) by (simp add: thenA_def bindA_def ignoreA_def)
  also have "store \<dots> (KindSecret, ns, name) = Some (c\<lparr>kc_data := ((kc_data c)(k := None)) |` (- set ks)\<rparr>)"
    using Cons.IH [OF w1(2)] unfolding restrict_data .
  finally show ?case unfolding eq .
next
  case Nil
  then show ?case by (cases c) simp
qed

lemma upsertServiceSecrets_exact:
  assumes "reliable_secrets api" "gomap_ok kvs" "kvs \<noteq> []" "upsertServiceSecrets api names svc kvs w = (Inr (), w')"
  shows "\<exists>c. store w' (KindSecret, KubeNamespace names, KubeServiceSecrets names svc) = Some c \<and>
    owned_by OwnerServices c \<and> kc_data c = map_of kvs"
proof -
  let ?ns = "KubeNamespace names" and ?n = "KubeServiceSecrets names svc"
  from assms(3,4) obtain w1 where ensure: "EnsureSecret api ?ns OwnerServices ?n kvs w = (Inr (), w1)"
    and rest: "w' = snd (case ListSecretKeys api ?ns ?n w1 of Inl _ \<Rightarrow> (Inr (), w1)
      | Inr existing \<Rightarrow> forA (\<lambda>key. ignoreA (DeleteSecretKey api ?ns ?n key)) (filter (\<lambda>key. \<not> has_key kvs key) existing) w1)"
    unfolding upsertServiceSecrets_def Let_def by (auto simp: thenA_Inr dest: sym [of _ "(Inr (), w')"])
  from EnsureSecret_spec [OF ensure assms(2)] obtain c where c: "store w1 (KindSecret, ?ns, ?n) = Some c"
    "owned_by OwnerServices c" "kc_data c = merged_data (store w (KindSecret, ?ns, ?n)) kvs" by blast
  have "\<exists>ks. ListSecretKeys api ?ns ?n w1 = Inr ks"
    using assms(1) by (rule reliable_get [where ns = ?ns and n = ?n and w = w1]) (simp_all add: ListSecretKeys_def)
  then obtain ks where ks: "ListSecretKeys api ?ns ?n w1 = Inr ks" by blast
  let ?c = "c\<lparr>kc_data := kc_data c |` (- set (filter (\<lambda>key. \<not> has_key kvs key) ks))\<rparr>"
  have "store w' (KindSecret, ?ns, ?n) = Some ?c"
    using delete_keys_exact [OF assms(1) c(1)] by (simp add: rest ks)
  moreover have "kc_data ?c = map_of kvs"
    using ListSecretKeys_spec [OF ks] c
    by (auto simp: restrict_map_def fun_eq_iff has_key_def merged_data_def map_add_def dom_def split: option.splits)
  ultimately show ?thesis using c(2) by (auto simp: owned_by_def)
qed

end

section \<open>Properties of the services step\<close>


lemma services_frame_changed:
  assumes "kube_server api store" "sleeps_quiet rt store" "gomap_ok (cfg_services cfg)"
    and "Services api rt names hash cfg sources w = (r, w')"
    and "store w' key \<noteq> store w key"
  shows "(\<exists>name. has_key (cfg_services cfg) name \<and> key \<in> service_keys names cfg name) \<or>
    store w' key = None \<and> (\<exists>c. store w key = Some c \<and> sweepable names (topoSortServices (cfg_services cfg)) key c)"
proof -
  let ?names = "topoSortServices (cfg_services cfg)"
  from kube_server.Services_frame [OF assms(1,2,4)] obtain w1 where
    w1: "changes store (\<lambda>key v. \<exists>name \<in> set ?names. key \<in> service_keys names cfg name) w w1"
    "removes store (sweepable names ?names) w1 w'" by blast
  show ?thesis
  proof (cases "\<exists>name \<in> set ?names. key \<in> service_keys names cfg name")
    case True
    with topoSort_spec(2) [OF assms(3)] show ?thesis by (auto simp: has_key_fst)
  next
    case False
    with w1(1) have "store w1 key = store w key" unfolding changes_def by blast
    with w1(2) assms(5) show ?thesis unfolding removes_def by metis
  qed
qed

text \<open>
  C8: the services step writes only the workloads, the Services and the secrets that the configuration
  declares; anything else it may only delete, and only when the object belongs to the services
  step and is no longer declared. This holds wherever the step fails, and for every other
  namespace and owner.
\<close>

theorem services_step_frame:
  assumes "kube_server api store" "sleeps_quiet rt store" "gomap_ok (cfg_services cfg)"
    and "Services api rt names hash cfg sources w = (r, w')"
    and "store w' key \<noteq> store w key"
  shows "(\<exists>name. has_key (cfg_services cfg) name \<and> key \<in> service_keys names cfg name) \<or>
    store w' key = None \<and> (\<exists>c. store w key = Some c \<and> sweepable names (topoSortServices (cfg_services cfg)) key c)"
  by (rule services_frame_changed [OF assms])

text \<open>
  C6: when the services step ends without error, every declared service runs the image that
  \<open>ResolveImage\<close> gives it, in a StatefulSet if it mounts a named volume and in a Deployment
  otherwise, and that workload is owned by the services step.
\<close>

theorem services_converge:
  assumes "kube_server api store" "sleeps_quiet rt store" "gomap_ok (cfg_services cfg)"
    and "findDependencyCycle (cfg_services cfg) = Some []"
    and "Services api rt names hash cfg sources w = (Inr (), w')"
    and "map_of (cfg_services cfg) name = Some svc"
  shows "\<exists>img c. ResolveImage cfg name hash = Inr img \<and> kc_images c = [img] \<and> owned_by OwnerServices c \<and>
    store w' (if \<exists>m \<in> set (svc_volumes svc). mount_named m then KindStatefulSet else KindDeployment, KubeNamespace names, name) = Some c"
proof -
  have "name \<in> set (topoSortServices (cfg_services cfg))"
    using topoSort_complete [OF assms(3)] assms(4,6) findDependencyCycle_acyclic
    by (metis has_keyI has_key_fst)
  moreover have "get0 service0 (cfg_services cfg) name = svc" using assms(6) by (simp add: get0_def)
  ultimately show ?thesis
    using kube_server.Services_ok [OF assms(1,2,3,5)] unfolding service_kind_def by metis
qed

text \<open>The workload of the other kind, from a time when the service was of that kind.\<close>

lemma other_workload_kept:
  assumes "kube_server api store" "sleeps_quiet rt store" "gomap_ok (cfg_services cfg)"
    and "findDependencyCycle (cfg_services cfg) = Some []" "map_of (cfg_services cfg) name = Some svc"
    and "k \<in> {KindDeployment, KindStatefulSet}" "k \<noteq> service_kind svc"
    and "Services api rt names hash cfg sources w = (r, w')"
  shows "store w' (k, KubeNamespace names, name) = store w (k, KubeNamespace names, name)"
proof (rule ccontr)
  assume "\<not> ?thesis"
  from services_frame_changed [OF assms(1-3,8) this] consider
      (declared) m where "has_key (cfg_services cfg) m" "(k, KubeNamespace names, name) \<in> service_keys names cfg m"
    | (swept) c where "sweepable names (topoSortServices (cfg_services cfg)) (k, KubeNamespace names, name) c"
    by blast
  then show False
  proof cases
    case declared
    with assms(5-7) show False by (auto simp: service_keys_def Let_def get0_def)
  next
    case swept
    moreover have "name \<in> set (topoSortServices (cfg_services cfg))"
      using topoSort_complete [OF assms(3)] assms(4,5) findDependencyCycle_acyclic by (metis has_keyI has_key_fst)
    ultimately show False using assms(6) by (auto simp: sweepable_def)
  qed
qed

text \<open> a service that starts or stops using a named volume changes its kind of workload, and the step
  never removes the workload of the other kind: both sweeps are given the names of all services,
  so that the old one keeps running beside the new one.
\<close>

theorem stale_workload_kind_kept:
  assumes "kube_server api store" "sleeps_quiet rt store" "gomap_ok (cfg_services cfg)"
    and "findDependencyCycle (cfg_services cfg) = Some []" "map_of (cfg_services cfg) name = Some svc"
    and "k \<in> {KindDeployment, KindStatefulSet}" "k \<noteq> service_kind svc"
    and "Services api rt names hash cfg sources w = (r, w')"
  shows "store w' (k, KubeNamespace names, name) = store w (k, KubeNamespace names, name)"
  by (rule other_workload_kept [OF assms])

section \<open>Examples\<close>

definition web_config :: app_config where
  "web_config = config0\<lparr>cfg_services := [(''web'', service0\<lparr>svc_image := ''nginx:1'', svc_port := 80\<rparr>)]\<rparr>"

lemma web_run: "fst (Services mem_api quiet_runtime demo_app ''20260101-000000'' web_config [] demo_world) = Inr ()"
  by code_simp

lemma web_services: "gomap_ok (cfg_services web_config)" "findDependencyCycle (cfg_services web_config) = Some []"
    "map_of (cfg_services web_config) ''web'' = Some (service0\<lparr>svc_image := ''nginx:1'', svc_port := 80\<rparr>)"
  by code_simp+

lemma mem_reliable: "reliable_secrets mem_api"
proof -
  have same: "obj_key (with_secret_data d o') = obj_key o'" "ko_resource_version (with_secret_data d o') = ko_resource_version o'" for d o'
    by (auto simp: with_secret_data_def obj_key_def ko_kind_def split: kbody.split)
  have "fst (api_update mem_api KindSecret ns (with_secret_data d o') w) = Inr ()"
    if "mem_find (KindSecret, ns, n) w = Some o'" for ns n w d o'
  proof -
    have "obj_key o' = (KindSecret, ns, n)" "ko_name (with_secret_data d o') = n"
      using mem_find_Some [OF that] by (auto simp: obj_key_def)
    with that show ?thesis by (simp add: mem_api_def same)
  qed
  then show ?thesis unfolding reliable_secrets_def by (auto simp: mem_api_def split: option.split)
qed


corollary services_step_frame_witness:
  "\<exists>w'. Services mem_api quiet_runtime demo_app ''20260101-000000'' web_config [] demo_world = (Inr (), w') \<and>
     mem_store w' (KindSecret, ''nvoi-shop-prod'', ''nvoi-shop-prod-db-main-credentials'') \<noteq> None"
proof -
  let ?key = "(KindSecret, ''nvoi-shop-prod'', ''nvoi-shop-prod-db-main-credentials'')"
  obtain w' where w': "Services mem_api quiet_runtime demo_app ''20260101-000000'' web_config [] demo_world = (Inr (), w')"
    using web_run by (metis prod.collapse)
  have "mem_store demo_world ?key = Some (core (demo_secret ''databases'' ''nvoi-shop-prod-db-main-credentials''))"
    by (simp add: mem_store_def demo_find)
  moreover have "\<not> owned_by OwnerServices (core (demo_secret ''databases'' n))" for n
    by (simp add: owned_by_def core_def demo_secret_def LabelNvoiOwner_def LabelAppManagedBy_def OwnerServices_def)
  moreover have "?key \<notin> service_keys demo_app web_config m" if "has_key (cfg_services web_config) m" for m
    using that by (auto simp: service_keys_def web_config_def has_key_def service_kind_def KubeServiceSecrets_def Let_def split: if_splits)
  ultimately have "mem_store w' ?key = mem_store demo_world ?key"
    using services_step_frame [OF mem.kube_server_axioms cluster_at_rest web_services(1) w', of ?key]
    by (auto simp: sweepable_def)
  moreover have "mem_store demo_world ?key \<noteq> None" by (simp add: mem_store_def demo_find)
  ultimately show ?thesis using w' by metis
qed

corollary services_converge_witness:
  "\<exists>w' c. Services mem_api quiet_runtime demo_app ''20260101-000000'' web_config [] demo_world = (Inr (), w') \<and>
     mem_store w' (KindDeployment, KubeNamespace demo_app, ''web'') = Some c \<and> kc_images c = [''nginx:1'']"
proof -
  obtain w' where w': "Services mem_api quiet_runtime demo_app ''20260101-000000'' web_config [] demo_world = (Inr (), w')"
    using web_run by (metis prod.collapse)
  have "ResolveImage web_config ''web'' ''20260101-000000'' = Inr ''nginx:1''" by code_simp
  with services_converge [OF mem.kube_server_axioms cluster_at_rest web_services(1,2) w' web_services(3)] w'
  show ?thesis by (auto simp: service0_def)
qed

corollary stale_workload_kind_kept_witness:
  "\<exists>w'. Services mem_api quiet_runtime demo_app ''20260101-000000'' web_config [] demo_world = (Inr (), w') \<and>
     mem_store w' (KindStatefulSet, KubeNamespace demo_app, ''web'') = mem_store demo_world (KindStatefulSet, KubeNamespace demo_app, ''web'')"
proof -
  obtain w' where w': "Services mem_api quiet_runtime demo_app ''20260101-000000'' web_config [] demo_world = (Inr (), w')"
    using web_run by (metis prod.collapse)
  have "KindStatefulSet \<noteq> service_kind (service0\<lparr>svc_image := ''nginx:1'', svc_port := 80\<rparr>)"
    by (simp add: service_kind_def service0_def)
  from stale_workload_kind_kept [OF mem.kube_server_axioms cluster_at_rest web_services _ this w'] w' show ?thesis by blast
qed

end
