(* ===== verification/ReconcilePlan.thy ===== *)
theory ReconcilePlan
  imports Interfaces InfraPlan ServiceLaws
begin

text \<open>
  The planners of \<open>internal/reconcile/plan.go\<close> and their sum \<open>ComputePlan\<close>: the comparison of the
  configuration with what runs, on which a deploy decides. A Go map to bool is the list of its keys.
\<close>

section \<open>Helpers of the planners\<close>

definition with_kube :: "string \<Rightarrow> 'w deploy_context \<Rightarrow> ('w kube_client \<Rightarrow> names \<Rightarrow> goerr + 'a) \<Rightarrow> goerr + 'a" where
  "with_kube what dc f =
     (case dx_kube dc of
        None \<Rightarrow> Inl (Errorf ''no master kube client'' [what])
      | Some kc \<Rightarrow> bindR (Names dc) (f kc))"

definition combinedWorkloadNames :: "'w kube_api \<Rightarrow> string \<Rightarrow> string \<Rightarrow> 'w \<Rightarrow> goerr + string list" where
  "combinedWorkloadNames api ns owner w =
     bindR (ListOwned api ns owner KindDeployment w) (\<lambda>deps.
     bindR (ListOwned api ns owner KindStatefulSet w) (\<lambda>stsNames. Inr (deps @ stsNames)))"

text \<open>The image of the first container of a workload that could be read.\<close>

definition first_image :: "api_err + kobj \<Rightarrow> string option" where
  "first_image r =
     (case r of
        Inl _ \<Rightarrow> None
      | Inr o' \<Rightarrow> (case images_of (ko_body o') of [] \<Rightarrow> None | img # _ \<Rightarrow> Some img))"

definition getDeploymentOrSTSImage :: "'w kube_api \<Rightarrow> string \<Rightarrow> string \<Rightarrow> 'w \<Rightarrow> string" where
  "getDeploymentOrSTSImage api ns name w =
     (case first_image (api_get api KindDeployment ns name w) of
        Some img \<Rightarrow> img
      | None \<Rightarrow>
          (case first_image (api_get api KindStatefulSet ns name w) of Some img \<Rightarrow> img | None \<Rightarrow> []))"

text \<open>The variable an entry of \<open>secrets:\<close> fills: the text before the first \<open>=\<close> that is not its first byte.\<close>

definition secret_key :: "string \<Rightarrow> string" where
  "secret_key e = (case index_byte e CHR ''='' of Some i \<Rightarrow> if i > 0 then take i e else e | None \<Rightarrow> e)"

definition desiredSecretKeys :: "string list \<Rightarrow> string list \<Rightarrow> string list \<Rightarrow> string list" where
  "desiredSecretKeys secrets storages databases =
     map secret_key secrets @ concat (map StorageSecretKeys storages) @ map (\<lambda>d. fst (database_env d)) databases"

definition secret_entry_name :: "string \<Rightarrow> string \<Rightarrow> string" where
  "secret_entry_name workload key = workload @ '':'' @ key"

definition secretKeyDiff :: "string \<Rightarrow> string list \<Rightarrow> string list \<Rightarrow> plan_entry list" where
  "secretKeyDiff workload desired live =
     map (\<lambda>k. entry (if k \<in> set live then PlanNoChange else PlanAdd) ResSecretKey (secret_entry_name workload k) []) desired @
     map (\<lambda>k. entry PlanDelete ResSecretKey (secret_entry_name workload k) []) (filter (\<lambda>k. k \<notin> set desired) live)"

text \<open>
  The entry for a changed image, if any. A change of the deploy hash alone is marked so that it is
  applied without asking, and is left out when no deploy is running.
\<close>

definition image_change :: "string \<Rightarrow> string \<Rightarrow> bool \<Rightarrow> string \<Rightarrow> string \<Rightarrow> plan_entry list" where
  "image_change res name planOnly liveImage desiredImage =
     (if liveImage \<noteq> [] \<and> liveImage \<noteq> desiredImage
      then (if stripDeployHash liveImage = stripDeployHash desiredImage
            then (if planOnly then []
                  else [(entry PlanUpdate res name ''image rebuilt'')\<lparr>pe_reason := ''image-tag''\<rparr>])
            else [entry PlanUpdate res name (''image: '' @ liveImage @ arrow @ desiredImage)])
      else [])"

definition or_unchanged :: "string \<Rightarrow> string \<Rightarrow> string \<Rightarrow> plan_entry list \<Rightarrow> plan_entry list" where
  "or_unchanged res name detail es = (if es = [] then [entry PlanNoChange res name detail] else es)"

text \<open>The secret keys of the workloads that run; a secret that cannot be read counts as no difference.\<close>

definition secret_entries ::
    "'w kube_api \<Rightarrow> names \<Rightarrow> string list \<Rightarrow> (string \<Rightarrow> string list) \<Rightarrow> string list \<Rightarrow> 'w \<Rightarrow> plan_entry list" where
  "secret_entries api names live desired workloads w =
     concat (map (\<lambda>name.
       if name \<notin> set live then []
       else (case ListSecretKeys api (KubeNamespace names) (KubeServiceSecrets names name) w of
           Inl _ \<Rightarrow> []
         | Inr liveKeys \<Rightarrow> secretKeyDiff name (desired name) liveKeys)) workloads)"

section \<open>Registries\<close>

definition planRegistries :: "'w deploy_context \<Rightarrow> app_config \<Rightarrow> 'w \<Rightarrow> goerr + plan_entry list" where
  "planRegistries dc cfg w =
     with_kube ''planRegistries'' dc (\<lambda>kc names.
       bindR (ListOwned (cl_api kc) (KubeNamespace names) OwnerRegistries KindSecret w) (\<lambda>existing.
         let hasSecret = (PullSecretName \<in> set existing); wantSecret = (cfg_registry cfg \<noteq> []);
             hosts = itoa (int (length (cfg_registry cfg))) @ '' host(s)''
         in Inr (if wantSecret \<and> \<not> hasSecret then [entry PlanAdd ResRegistrySecret PullSecretName hosts]
                 else if \<not> wantSecret \<and> hasSecret then [entry PlanDelete ResRegistrySecret PullSecretName []]
                 else if wantSecret \<and> hasSecret then [entry PlanNoChange ResRegistrySecret PullSecretName hosts]
                 else [])))"

section \<open>Services and crons\<close>

definition plan_hash :: "'w deploy_context \<Rightarrow> string" where
  "plan_hash dc = (if dx_hash dc = [] then ''00000000-000000'' else dx_hash dc)"

definition service_entries :: "'w deploy_context \<Rightarrow> app_config \<Rightarrow> 'w kube_api \<Rightarrow> string \<Rightarrow> string list \<Rightarrow> 'w \<Rightarrow> string \<Rightarrow>
    goerr + plan_entry list" where
  "service_entries dc cfg api ns live w name =
     (if name \<notin> set live then Inr [entry PlanAdd ResWorkload name ''service'']
      else bindR (wrapR (''services.'' @ name @ '': resolve image'') (ResolveImage cfg name (plan_hash dc))) (\<lambda>desiredImage.
        Inr (or_unchanged ResWorkload name ''service''
          (image_change ResWorkload name (dx_hash dc = []) (getDeploymentOrSTSImage api ns name w) desiredImage))))"

definition planServices :: "'w deploy_context \<Rightarrow> app_config \<Rightarrow> 'w \<Rightarrow> goerr + plan_entry list" where
  "planServices dc cfg w =
     with_kube ''planServices'' dc (\<lambda>kc names.
       let api = cl_api kc; ns = KubeNamespace names; sorted = SortedKeys (cfg_services cfg)
       in bindR (combinedWorkloadNames api ns OwnerServices w) (\<lambda>live.
          bindR (mapR (service_entries dc cfg api ns live w) sorted) (\<lambda>es.
          Inr (concat es @
               map (\<lambda>n. entry PlanDelete ResWorkload n ''service'')
                 (filter (\<lambda>n. \<not> has_key (cfg_services cfg) n) (sorted_set live)) @
               secret_entries api names live
                 (\<lambda>name. let svc = get0 service0 (cfg_services cfg) name
                         in desiredSecretKeys (svc_secrets svc) (svc_storage svc) (svc_databases svc)) sorted w))))"

text \<open>The schedule and image of a cron job that could be read.\<close>

definition cron_changes :: "bool \<Rightarrow> string \<Rightarrow> cron_def \<Rightarrow> api_err + kobj \<Rightarrow> plan_entry list" where
  "cron_changes planOnly name cron r =
     (case r of
        Inl _ \<Rightarrow> []
      | Inr o' \<Rightarrow>
          (case ko_body o' of
             CronJobBody schedule _ _ j \<Rightarrow>
               (if schedule \<noteq> cr_schedule cron
                then [entry PlanUpdate ResCronJob name (''schedule: '' @ schedule @ arrow @ cr_schedule cron)] else []) @
               (case ps_containers (pt_spec (js_template j)) of
                  [] \<Rightarrow> []
                | c # _ \<Rightarrow> image_change ResCronJob name planOnly (ct_image c) (cr_image cron))
           | _ \<Rightarrow> []))"

definition planCrons :: "'w deploy_context \<Rightarrow> app_config \<Rightarrow> 'w \<Rightarrow> goerr + plan_entry list" where
  "planCrons dc cfg w =
     with_kube ''planCrons'' dc (\<lambda>kc names.
       let api = cl_api kc; ns = KubeNamespace names; sorted = SortedKeys (cfg_crons cfg);
           def = get0 cron0 (cfg_crons cfg)
       in bindR (ListOwned api ns OwnerCrons KindCronJob w) (\<lambda>live.
          Inr (concat (map (\<lambda>name.
                 if name \<notin> set live then [entry PlanAdd ResCronJob name (cr_schedule (def name))]
                 else or_unchanged ResCronJob name (cr_schedule (def name))
                   (cron_changes (dx_hash dc = []) name (def name) (api_get api KindCronJob ns name w))) sorted) @
               stale_entries ResCronJob (has_key (cfg_crons cfg)) live @
               secret_entries api names live
                 (\<lambda>name. desiredSecretKeys (cr_secrets (def name)) (cr_storage (def name)) []) sorted w)))"

section \<open>Storage and databases\<close>

definition storage_bucket :: "names \<Rightarrow> string \<Rightarrow> storage_def \<Rightarrow> string" where
  "storage_bucket names n st = (if st_bucket st = [] then Bucket names n else st_bucket st)"

definition desired_buckets :: "names \<Rightarrow> app_config \<Rightarrow> string list" where
  "desired_buckets names cfg =
     map (\<lambda>(n, st). storage_bucket names n st) (cfg_storage cfg) @
     map (\<lambda>(n, _). KubeDatabaseBackupBucket names n) (filter (\<lambda>(_, db). db_backup db \<noteq> None) (cfg_databases cfg))"

definition planStorage :: "'w provider_set \<Rightarrow> 'w deploy_context \<Rightarrow> app_config \<Rightarrow> 'w \<Rightarrow> goerr + plan_entry list" where
  "planStorage P dc cfg w =
     bindR (wrapR ''resolve bucket provider'' (resolve (ps_bucket P) (rf_name (dx_storage dc)) (rf_creds (dx_storage dc)))) (\<lambda>bucket.
     bindR (Names dc) (\<lambda>names.
     bindR (bp_list bucket w) (\<lambda>buckets.
       let liveSet = filter (\<lambda>b. has_prefix b (Base names @ ''-'')) buckets
       in Inr (present_entries ResBucket id (\<lambda>_. []) (\<lambda>n. n \<in> set liveSet) (sorted_set (desired_buckets names cfg))))))"

text \<open>The database a credentials secret belongs to, taken from the secret's name.\<close>

definition database_of_secret :: "string \<Rightarrow> goerr + string list" where
  "database_of_secret s =
     (case index_of s ''-db-'' of
        None \<Rightarrow> Inr []
      | Some i \<Rightarrow>
          if i > 0 \<and> has_suffix s ''-credentials''
          then (if i + 4 > length s - 12 then Inl (Errorf ''panic: slice bounds out of range'' [])
                else (let dbName = drop (i + 4) (take (length s - 12) s) in Inr (if dbName = [] then [] else [dbName])))
          else Inr [])"

definition database_detail :: "database_def \<Rightarrow> string" where
  "database_detail def = (if db_server def \<noteq> [] then db_engine def @ '' on '' @ db_server def else db_engine def)"

definition database_entries :: "app_config \<Rightarrow> string list \<Rightarrow> plan_entry list" where
  "database_entries cfg liveDBs =
     present_entries ResDatabase id (\<lambda>n. database_detail (get0 database0 (cfg_databases cfg) n)) (\<lambda>n. n \<in> set liveDBs)
       (SortedKeys (cfg_databases cfg)) @
     stale_entries ResDatabase (has_key (cfg_databases cfg)) (sorted_set liveDBs)"

definition planDatabases :: "'w deploy_context \<Rightarrow> app_config \<Rightarrow> 'w \<Rightarrow> goerr + plan_entry list" where
  "planDatabases dc cfg w =
     (case dx_kube dc of
        None \<Rightarrow> Inr []
      | Some kc \<Rightarrow>
          bindR (Names dc) (\<lambda>names.
          bindR (ListOwned (cl_api kc) (KubeNamespace names) OwnerDatabases KindSecret w) (\<lambda>liveSecrets.
          bindR (mapR database_of_secret liveSecrets) (\<lambda>liveDBs. Inr (database_entries cfg (concat liveDBs))))))"

section \<open>DNS and ingress\<close>

definition desired_domains :: "app_config \<Rightarrow> string list" where
  "desired_domains cfg = concat (map snd (cfg_domains cfg))"

text \<open>The domains Caddy serves, if they could be read.\<close>

definition caddy_domains :: "'w kube_client \<Rightarrow> 'w \<Rightarrow> string list option" where
  "caddy_domains kc w =
     (case GetCaddyRoutes (cl_runtime kc) (cl_exec kc) w of
        Inl _ \<Rightarrow> None
      | Inr routes \<Rightarrow> Some (concat (map cd_domains routes)))"

definition planRouteDomains :: "'w provider_set \<Rightarrow> 'w deploy_context \<Rightarrow> app_config \<Rightarrow> 'w kube_client \<Rightarrow> 'w \<Rightarrow>
    goerr + plan_entry list" where
  "planRouteDomains P dc cfg kc w =
     (if rf_name (dx_dns dc) = [] then Inr []
      else bindR (wrapR ''resolve dns provider'' (resolve (ps_dns P) (rf_name (dx_dns dc)) (rf_creds (dx_dns dc)))) (\<lambda>dns.
           bindR (wrapR ''dns.ListBindings'' (dp_list dns w)) (\<lambda>live.
             let desired = desired_domains cfg; liveDomains = map db_domain live
             in Inr (present_entries ResDNS id (\<lambda>_. []) (\<lambda>d. d \<in> set liveDomains) (sorted_set desired) @
                  (case caddy_domains kc w of
                     None \<Rightarrow> []
                   | Some managed \<Rightarrow>
                       map (\<lambda>d. entry PlanDelete ResDNS d [])
                         (filter (\<lambda>d. d \<notin> set desired \<and> d \<in> set managed) (sorted_set liveDomains)))))))"

definition caddy_entries :: "string list \<Rightarrow> string list \<Rightarrow> plan_entry list" where
  "caddy_entries desired live =
     present_entries ResCaddyRoute id (\<lambda>_. []) (\<lambda>d. d \<in> set live) (sorted_set desired) @
     stale_entries ResCaddyRoute (\<lambda>d. d \<in> set desired) (sorted_set live)"

definition planIngress :: "'w deploy_context \<Rightarrow> app_config \<Rightarrow> 'w \<Rightarrow> goerr + plan_entry list" where
  "planIngress dc cfg w =
     (case dx_kube dc of
        None \<Rightarrow> Inl (Errorf ''no master kube client'' [''planIngress''])
      | Some kc \<Rightarrow>
          bindR (ListOwned (cl_api kc) CaddyNamespace OwnerCaddy KindDeployment w) (\<lambda>caddyDeploys.
            Inr (entry (if caddyDeploys = [] then PlanAdd else PlanNoChange) ResCaddyRoute ''caddy'' ''ingress controller (kube-system)'' #
                 caddy_entries (desired_domains cfg) (case caddy_domains kc w of None \<Rightarrow> [] | Some ds \<Rightarrow> ds))))"

definition planTunnelIngress :: "'w deploy_context \<Rightarrow> app_config \<Rightarrow> 'w \<Rightarrow> goerr + plan_entry list" where
  "planTunnelIngress dc cfg w =
     with_kube ''planTunnelIngress'' dc (\<lambda>kc names.
       bindR (ListOwned (cl_api kc) (KubeNamespace names) OwnerTunnel KindDeployment w) (\<lambda>agents.
         let tunnel = p_tunnel (cfg_providers cfg); detail = ''tunnel agent + provider-side tunnel''
         in Inr (if agents = [] \<and> tunnel \<noteq> [] then [entry PlanAdd ResTunnel tunnel detail]
                 else if agents \<noteq> [] \<and> tunnel = [] then [entry PlanDelete ResTunnel ''tunnel'' []]
                 else if agents \<noteq> [] \<and> tunnel \<noteq> [] then [entry PlanNoChange ResTunnel tunnel detail]
                 else [])))"

section \<open>The plan\<close>

definition ComputePlan :: "'w provider_set \<Rightarrow> 'w deploy_context \<Rightarrow> app_config \<Rightarrow> ('w, plan) act" where
  "ComputePlan P dc0 cfg =
     bindA (wrapA ''plan: kube'' (Kube P dc0 cfg)) (\<lambda>(kc, _).
       readA (\<lambda>w.
         let dc = dc0\<lparr>dx_kube := Some kc\<rparr>; bctx = BootstrapContext dc cfg;
             domains = (cfg_domains cfg \<noteq> []); tunnel = (p_tunnel (cfg_providers cfg) \<noteq> [])
         in bindR (wrapR ''plan: resolve infra'' (resolve (ps_infra P) (bc_provider bctx) (dx_credentials dc))) (\<lambda>infra.
            bindR (wrapR ''plan: infra'' (ip_plan infra bctx w)) (\<lambda>infraEntries.
            bindR (if rf_name (dx_storage dc) \<noteq> [] then wrapR ''plan: storage'' (planStorage P dc cfg w) else Inr []) (\<lambda>storageEntries.
            bindR (wrapR ''plan: databases'' (planDatabases dc cfg w)) (\<lambda>dbEntries.
            bindR (wrapR ''plan: registries'' (planRegistries dc cfg w)) (\<lambda>regEntries.
            bindR (wrapR ''plan: services'' (planServices dc cfg w)) (\<lambda>svcEntries.
            bindR (wrapR ''plan: crons'' (planCrons dc cfg w)) (\<lambda>cronEntries.
            bindR (if \<not> tunnel \<and> ip_public_ingress infra \<and> domains
                   then wrapR ''plan: dns'' (planRouteDomains P dc cfg kc w) else Inr []) (\<lambda>dnsEntries.
            bindR (if tunnel then wrapR ''plan: tunnel'' (planTunnelIngress dc cfg w)
                   else if ip_public_ingress infra \<and> domains then wrapR ''plan: ingress'' (planIngress dc cfg w)
                   else Inr []) (\<lambda>ingressEntries.
              Inr (infraEntries @ storageEntries @ dbEntries @ regEntries @ svcEntries @ cronEntries @
                   dnsEntries @ ingressEntries))))))))))))"

end
