(* ===== verification/PlanLaws.thy ===== *)
theory PlanLaws
  imports ReconcilePlan
begin

text \<open>
  What the plan of a deploy says: which differences it reports, which of them it asks about, and that
  the services step leaves nothing for the next plan to report.
\<close>

section \<open>The keys of a workload's secret\<close>

lemma fst_set_update [simp]: "fst ` set (AList.update k v m) = insert k (fst ` set m)"
  unfolding dom_map_of_conv_image_fst [symmetric] by (simp add: update_conv')

lemma secret_key_normalized:
  assumes "e = [] \<or> hd e \<noteq> CHR ''=''"
  shows "fst (ParseSecretRef (normalized e)) = secret_key e"
proof (cases "CHR ''='' \<in> set e")
  case True
  then obtain i where i: "index_byte e CHR ''='' = Some i" by (cases "index_byte e CHR ''=''") (auto simp: index_byte_None)
  note e = index_byte_split [OF i] conjunct2 [OF conjunct2 [OF index_byte_Some [OF i]]]
  then have "cut CHR ''='' e = (take i e, drop (Suc i) e, True)" by (metis cut_append)
  moreover have "i > 0"
  proof (rule ccontr)
    assume "\<not> i > 0"
    then have "i = 0" by simp
    with e(1) have "hd e = CHR ''=''" by (metis append_Nil list.sel(1) take0)
    with assms True show False by auto
  qed
  ultimately show ?thesis using True i by (simp add: normalized_def ParseSecretRef_def secret_key_def)
next
  case False
  then have "cut CHR ''='' (e @ CHR ''='' # CHR ''$'' # e) = (e, CHR ''$'' # e, True)" by (rule cut_append)
  with False show ?thesis by (simp add: normalized_def ParseSecretRef_def secret_key_def index_byte_absent)
qed

lemma add_secrets_keys:
  assumes "foldR (add_secret wl sources) (kvs, refs) es = Inr (kvs', refs')"
    "\<forall>e \<in> set es. e = [] \<or> hd e \<noteq> CHR ''=''"
  shows "fst ` set kvs' = fst ` set kvs \<union> secret_key ` set es"
  using assms
proof (induction es arbitrary: kvs refs)
  case (Cons e es)
  from Cons.prems(1) obtain s1 where s1: "add_secret wl sources (kvs, refs) e = Inr s1"
    and rest1: "foldR (add_secret wl sources) s1 es = Inr (kvs', refs')"
    by (auto simp: bindR_eq_Inr)
  from s1 obtain k v where step: "resolveEntry (normalized e) sources = Inr (k, v)"
    and s1': "s1 = (AList.update k v kvs, refs @ [k])"
    by (auto simp: add_secret_def split: sum.splits)
  note rest = rest1 [unfolded s1']
  have "k = secret_key e" using resolveEntry_key [OF step] secret_key_normalized Cons.prems(2) by simp
  with Cons.IH [OF rest] Cons.prems(2) show ?case
    by simp
qed auto

lemma add_creds_keys:
  assumes "foldl (add_cred sources) (kvs, refs) ps = (kvs', refs')" "snd ` set ps \<subseteq> dom (map_of sources)"
  shows "fst ` set kvs' = fst ` set kvs \<union> fst ` set ps"
  using assms
proof (induction ps arbitrary: kvs refs)
  case (Cons p ps)
  then obtain v where "map_of sources (snd p) = Some v" by auto
  with Cons show ?case
    by (cases p) (simp add: add_cred_def)
qed auto

lemma add_secrets_ok:
  "foldR (add_secret wl sources) (kvs, refs) es = Inr (kvs', refs') \<Longrightarrow> gomap_ok kvs \<Longrightarrow> gomap_ok kvs'"
proof (induction es arbitrary: kvs refs)
  case (Cons e es)
  from Cons.prems(1) obtain k r where s1: "add_secret wl sources (kvs, refs) e = Inr (k, r)"
    and rest: "foldR (add_secret wl sources) (k, r) es = Inr (kvs', refs')"
    by (auto simp: bindR_eq_Inr)
  from s1 Cons.prems(2) have "gomap_ok k" by (auto simp: add_secret_def split: sum.splits)
  with Cons.IH [OF rest] show ?case .
qed simp

lemma add_creds_ok:
  "foldl (add_cred sources) (kvs, refs) ps = (kvs', refs') \<Longrightarrow> gomap_ok kvs \<Longrightarrow> gomap_ok kvs'"
  by (induction ps arbitrary: kvs refs) (auto simp: add_cred_def split: option.splits)

lemma service_secrets_ok: "service_secrets name svc sources = Inr (kvs, refs) \<Longrightarrow> gomap_ok kvs"
proof -
  assume "service_secrets name svc sources = Inr (kvs, refs)"
  then obtain k1 r1 where s1: "foldR (add_secret name sources) ([], []) (svc_secrets svc) = Inr (k1, r1)"
    and s2: "expandDatabaseCreds (svc_databases svc) sources (expandStorageCreds (svc_storage svc) sources (k1, r1)) = (kvs, refs)"
    by (auto simp: service_secrets_def resolveSecretEntries_def bindR_eq_Inr)
  obtain k2 r2 where s3: "expandStorageCreds (svc_storage svc) sources (k1, r1) = (k2, r2)"
    by (cases "expandStorageCreds (svc_storage svc) sources (k1, r1)")
  have "gomap_ok k1" using add_secrets_ok [OF s1] by (simp add: gomap_ok_def)
  then have "gomap_ok k2" by (rule add_creds_ok [OF s3 [unfolded expandStorageCreds_def]])
  then show ?thesis by (rule add_creds_ok [OF s2 [unfolded expandDatabaseCreds_def s3]])
qed

text \<open>The credentials that a service's storage and databases need are among the sources.\<close>

definition creds_complete :: "string list \<Rightarrow> string list \<Rightarrow> string gomap \<Rightarrow> bool" where
  "creds_complete storages databases sources \<longleftrightarrow>
     set (concat (map StorageSecretKeys storages)) \<union> (\<lambda>d. snd (database_env d)) ` set databases \<subseteq> dom (map_of sources)"

lemma service_secrets_keys:
  assumes "service_secrets name svc sources = Inr (kvs, refs)"
    and "creds_complete (svc_storage svc) (svc_databases svc) sources"
    and "\<forall>e \<in> set (svc_secrets svc). e = [] \<or> hd e \<noteq> CHR ''=''"
  shows "fst ` set kvs = set (desiredSecretKeys (svc_secrets svc) (svc_storage svc) (svc_databases svc))"
proof -
  from assms(1) obtain k1 r1 where s1: "foldR (add_secret name sources) ([], []) (svc_secrets svc) = Inr (k1, r1)"
    and s2: "expandDatabaseCreds (svc_databases svc) sources (expandStorageCreds (svc_storage svc) sources (k1, r1)) = (kvs, refs)"
    by (auto simp: service_secrets_def resolveSecretEntries_def bindR_eq_Inr)
  obtain k2 r2 where s3: "expandStorageCreds (svc_storage svc) sources (k1, r1) = (k2, r2)" by (cases "expandStorageCreds (svc_storage svc) sources (k1, r1)")
  have 1: "fst ` set k1 = secret_key ` set (svc_secrets svc)"
    using add_secrets_keys [OF s1 assms(3)] by simp
  have 2: "fst ` set k2 = fst ` set k1 \<union> set (concat (map StorageSecretKeys (svc_storage svc)))"
    using add_creds_keys [OF s3 [unfolded expandStorageCreds_def]] 1 assms(2)
    by (force simp: creds_complete_def image_UN image_image)
  have 3: "fst ` set kvs = fst ` set k2 \<union> (\<lambda>d. fst (database_env d)) ` set (svc_databases svc)"
    using add_creds_keys [OF s2 [unfolded expandDatabaseCreds_def s3]] 2 assms(2)
    by (auto simp: creds_complete_def image_image)
  show ?thesis using 1 2 3 by (auto simp: desiredSecretKeys_def)
qed

section \<open>What the services step leaves behind\<close>

context kube_server
begin

text \<open>The secret of a service, right after its step and at the end.\<close>

abbreviation (input) secret_of :: "names \<Rightarrow> string \<Rightarrow> kkey" where
  "secret_of names name \<equiv> (KindSecret, KubeNamespace names, KubeServiceSecrets names name)"

lemma upsert_data:
  assumes "reliable_secrets api" "gomap_ok kvs" "upsertServiceSecrets api names svc kvs w = (Inr (), w')"
  shows "map_option kc_data (store w' (secret_of names svc)) = (if kvs = [] then None else Some (map_of kvs))"
proof (cases "kvs = []")
  case True
  with assms(3) have "DeleteSecret api (KubeNamespace names) (KubeServiceSecrets names svc) w = (Inr (), w')"
    by (simp add: upsertServiceSecrets_def Let_def)
  from DeleteSecret_spec [OF this] True show ?thesis by simp
next
  case False
  from upsertServiceSecrets_exact [OF assms(1,2) False assms(3)] False show ?thesis by auto
qed

lemma service_step_secret:
  assumes "sleeps_quiet rt store" "reliable_secrets api"
    and "service_step api rt names hash cfg sources name w = (Inr (), w')"
  shows "\<exists>kvs refs. service_secrets name (get0 service0 (cfg_services cfg) name) sources = Inr (kvs, refs) \<and>
    map_option kc_data (store w' (secret_of names name)) = (if kvs = [] then None else Some (map_of kvs))"
proof -
  let ?svc = "get0 service0 (cfg_services cfg) name"
  from assms(3) obtain kvs refs env img w1 w2 where kvs: "service_secrets name ?svc sources = Inr (kvs, refs)"
    and upsert: "upsertServiceSecrets api names name kvs w = (Inr (), w1)"
    and set: "ServiceSet api names (service_request cfg hash name ?svc env refs img) w1 = (Inr (), w2)"
    and wait: "WaitRollout rt (KubeNamespace names) name (svc_health ?svc \<noteq> []) w2 = (Inr (), w')"
    unfolding service_step_def Let_def by (auto simp: bindA_read thenA_Inr split: prod.splits)
  have "keeps (changes store (\<lambda>key v. fst key \<noteq> KindSecret)) (ServiceSet api names (service_request cfg hash name ?svc env refs img))"
    by (rule ServiceSet_keeps [where svc = ?svc]) (simp_all add: service_request_def service_kind_def)
  from keepsD [OF this set] have "store w2 (secret_of names name) = store w1 (secret_of names name)"
    by (rule changes_other) simp
  moreover have "store w' = store w2"
    using WaitRollout_keeps [OF assms(1), of "\<lambda>_ _. False", THEN keepsD, OF wait] by (auto simp: changes_def)
  ultimately show ?thesis using upsert_data [OF assms(2) service_secrets_ok [OF kvs] upsert] kvs by auto
qed

lemma Services_secret:
  assumes "sleeps_quiet rt store" "reliable_secrets api" "gomap_ok (cfg_services cfg)"
    and "Services api rt names hash cfg sources w = (Inr (), w')"
    and name: "name \<in> set (topoSortServices (cfg_services cfg))"
  shows "\<exists>kvs refs. service_secrets name (get0 service0 (cfg_services cfg) name) sources = Inr (kvs, refs) \<and>
    map_option kc_data (store w' (secret_of names name)) = (if kvs = [] then None else Some (map_of kvs))"
proof -
  let ?names = "topoSortServices (cfg_services cfg)" and ?step = "service_step api rt names hash cfg sources"
  let ?key = "secret_of names name"
  obtain w0 where loop: "forA ?step ?names w = (Inr (), w0)" and sweeps: "service_sweeps api names ?names w0 = (Inr (), w')"
    using assms(4) by (auto simp: Services_def Let_def thenA_Inr)
  obtain w1 w2 ys where ys: "?step name w1 = (Inr (), w2)" "forA ?step ys w2 = (Inr (), w0)" "set ys \<subseteq> set ?names - {name}"
    using forA_reaches [OF loop name] topoSort_spec(1) [OF assms(3)] by blast
  have "keeps (changes store (\<lambda>key v. \<exists>m \<in> set ys. key \<in> service_keys names cfg m)) (forA ?step ys)"
    by (intro change.loop keeps_mono [OF service_step_keeps [OF assms(1)]]) (auto elim: changes_mono)
  from keepsD [OF this ys(2)] have "store w0 ?key = store w2 ?key"
    by (rule changes_other) (use ys(3) in \<open>auto simp: service_keys_def service_kind_def KubeServiceSecrets_def Let_def\<close>)
  moreover have "store w' ?key = store w0 ?key"
    using keepsD [OF service_sweeps_removes sweeps] name
    by (auto simp: removes_def sweepable_def KubeServiceSecrets_def)
  ultimately show ?thesis using service_step_secret [OF assms(1,2) ys(1)] by metis
qed

end

section \<open>The plan of the services\<close>

text \<open>The kind of workload that a service would have if it did, or did not, mount a named volume.\<close>

definition other_kind :: "service_def \<Rightarrow> kind" where
  "other_kind svc = (if service_kind svc = KindDeployment then KindStatefulSet else KindDeployment)"

definition plan_ready :: "service_def \<Rightarrow> string gomap \<Rightarrow> bool" where
  "plan_ready svc sources \<longleftrightarrow> creds_complete (svc_storage svc) (svc_databases svc) sources \<and>
     (\<forall>e \<in> set (svc_secrets svc). e = [] \<or> hd e \<noteq> CHR ''='')"

lemma secretKeyDiff_same:
  "e \<in> set (secretKeyDiff wl desired live) \<Longrightarrow> set desired = set live \<Longrightarrow> pe_kind e = PlanNoChange"
  by (auto simp: secretKeyDiff_def)

lemma secret_entries_mem:
  assumes "x \<in> set (secret_entries api names live desired wls w)"
  shows "\<exists>name ks. name \<in> set wls \<and> ListSecretKeys api (KubeNamespace names) (KubeServiceSecrets names name) w = Inr ks \<and>
    x \<in> set (secretKeyDiff name (desired name) ks)"
proof -
  from assms obtain name where name: "name \<in> set wls" and x: "x \<in> set (if name \<notin> set live then []
      else (case ListSecretKeys api (KubeNamespace names) (KubeServiceSecrets names name) w of
          Inl _ \<Rightarrow> [] | Inr liveKeys \<Rightarrow> secretKeyDiff name (desired name) liveKeys))"
    unfolding secret_entries_def set_concat set_map UN_iff by blast
  then show ?thesis
    by (intro exI [of _ name])
      (cases "ListSecretKeys api (KubeNamespace names) (KubeServiceSecrets names name) w", simp_all split: if_splits)
qed

lemma image_change_same: "liveImage \<in> {[], desired} \<Longrightarrow> image_change res name b liveImage desired = []"
  by (auto simp: image_change_def)

lemma mapR_singles: "mapR f xs = Inr yss \<Longrightarrow> (\<And>x. x \<in> set xs \<Longrightarrow> f x = Inr [g x]) \<Longrightarrow> concat yss = map g xs"
  by (induction xs arbitrary: yss) (auto simp: bindR_eq_Inr)

lemma declared_service:
  assumes "gomap_ok S" "findDependencyCycle S = Some []" "name \<in> fst ` set S"
  shows "(name, get0 service0 S name) \<in> set S \<and> map_of S name = Some (get0 service0 S name) \<and> name \<in> set (topoSortServices S)"
proof -
  from assms(3) obtain s where s: "(name, s) \<in> set S" by auto
  with assms(1) have "map_of S name = Some s" by (simp add: gomap_ok_def)
  with s topoSort_complete [OF assms(1)] assms(2,3) show ?thesis by (simp add: get0_def findDependencyCycle_acyclic)
qed

context kube_server
begin

lemma read_image:
  assumes "store w (service_kind svc, ns, name) = Some c" "kc_images c = [img]" "store w (other_kind svc, ns, name) = None"
  shows "getDeploymentOrSTSImage api ns name w \<in> {[], img}"
proof -
  have some: "first_image (api_get api k ns name w) \<in> {None, Some img}" if "k = service_kind svc" for k
    using get_found [of k ns name w] assms(1,2) that by (auto simp: first_image_def core_def split: sum.split list.split)
  have none: "first_image (api_get api k ns name w) = None" if "k = other_kind svc" for k
    using get_found [of k ns name w] assms(3) that by (cases "api_get api k ns name w") (auto simp: first_image_def)
  show ?thesis
  proof (cases "service_kind svc = KindDeployment")
    case True
    then have "KindDeployment = service_kind svc" "KindStatefulSet = other_kind svc" by (simp_all add: other_kind_def)
    with some [of KindDeployment] none [of KindStatefulSet] show ?thesis by (auto simp: getDeploymentOrSTSImage_def)
  next
    case False
    then have "KindStatefulSet = service_kind svc" "KindDeployment = other_kind svc"
      by (simp_all add: other_kind_def service_kind_def split: if_splits)
    with some [of KindStatefulSet] none [of KindDeployment] show ?thesis by (auto simp: getDeploymentOrSTSImage_def)
  qed
qed

lemma combinedWorkloadNames_spec:
  assumes "combinedWorkloadNames api ns owner w = Inr live"
  shows "n \<in> set live \<longleftrightarrow> (\<exists>k \<in> {KindDeployment, KindStatefulSet}. \<exists>c. store w (k, ns, n) = Some c \<and> owned_by owner c)"
proof -
  from assms obtain deps sts where "ListOwned api ns owner KindDeployment w = Inr deps"
    "ListOwned api ns owner KindStatefulSet w = Inr sts" "live = deps @ sts"
    by (auto simp: combinedWorkloadNames_def bindR_eq_Inr)
  with ListOwned_spec [of ns owner KindDeployment w deps n] ListOwned_spec [of ns owner KindStatefulSet w sts n]
  show ?thesis by simp
qed

lemma planServices_Inr:
  assumes "planServices dc cfg w = Inr es" "dx_kube dc = Some kc" "cl_api kc = api" "Names dc = Inr names"
  obtains live ess where "combinedWorkloadNames api (KubeNamespace names) OwnerServices w = Inr live"
    and "mapR (service_entries dc cfg api (KubeNamespace names) live w) (SortedKeys (cfg_services cfg)) = Inr ess"
    and "es = concat ess @
       map (\<lambda>n. entry PlanDelete ResWorkload n ''service'') (filter (\<lambda>n. \<not> has_key (cfg_services cfg) n) (sorted_set live)) @
       secret_entries api names live
         (\<lambda>name. let svc = get0 service0 (cfg_services cfg) name
                 in desiredSecretKeys (svc_secrets svc) (svc_storage svc) (svc_databases svc)) (SortedKeys (cfg_services cfg)) w"
  using assms by (auto simp: planServices_def with_kube_def Let_def bindR_eq_Inr)

lemma settled_image:
  assumes "sleeps_quiet rt store" "gomap_ok (cfg_services cfg)" "Services api rt names (dx_hash dc) cfg sources w = (Inr (), w')"
    and name: "name \<in> set (topoSortServices (cfg_services cfg))"
    and "store w' (other_kind (get0 service0 (cfg_services cfg) name), KubeNamespace names, name) = None"
    and "combinedWorkloadNames api (KubeNamespace names) OwnerServices w' = Inr live" "dx_hash dc \<noteq> []"
  shows "service_entries dc cfg api (KubeNamespace names) live w' name = Inr [entry PlanNoChange ResWorkload name ''service'']"
proof -
  let ?svc = "get0 service0 (cfg_services cfg) name"
  from Services_ok [OF assms(1-3) name] obtain img c where img: "ResolveImage cfg name (dx_hash dc) = Inr img"
    and c: "store w' (service_kind ?svc, KubeNamespace names, name) = Some c" "kc_images c = [img]" "owned_by OwnerServices c" by blast
  have "name \<in> set live"
    using c combinedWorkloadNames_spec [OF assms(6), of name] by (auto simp: service_kind_def split: if_splits)
  moreover have "image_change ResWorkload name False (getDeploymentOrSTSImage api (KubeNamespace names) name w') img = []"
    using read_image [OF c(1,2) assms(5)] by (intro image_change_same) simp
  ultimately show ?thesis
    using img assms(7) by (simp add: service_entries_def plan_hash_def wrapR_def or_unchanged_def)
qed

lemma settled_secret:
  assumes "sleeps_quiet rt store" "reliable_secrets api" "gomap_ok (cfg_services cfg)"
    and "Services api rt names hash cfg sources w = (Inr (), w')"
    and name: "name \<in> set (topoSortServices (cfg_services cfg))"
    and "svc = get0 service0 (cfg_services cfg) name" "plan_ready svc sources"
    and "ListSecretKeys api (KubeNamespace names) (KubeServiceSecrets names name) w' = Inr ks"
  shows "set ks = set (desiredSecretKeys (svc_secrets svc) (svc_storage svc) (svc_databases svc))"
proof -
  from Services_secret [OF assms(1-5)] obtain kvs refs where kvs: "service_secrets name svc sources = Inr (kvs, refs)"
    and data: "map_option kc_data (store w' (secret_of names name)) = (if kvs = [] then None else Some (map_of kvs))"
    unfolding assms(6) by blast
  have "set ks = fst ` set kvs"
  proof (cases "kvs = []")
    case True
    with data ListSecretKeys_spec [OF assms(8)] show ?thesis by simp
  next
    case False
    with data obtain c where "store w' (secret_of names name) = Some c" "kc_data c = map_of kvs" by auto
    with ListSecretKeys_spec [OF assms(8)] show ?thesis by (simp add: dom_map_of_conv_image_fst)
  qed
  also have "fst ` set kvs = set (desiredSecretKeys (svc_secrets svc) (svc_storage svc) (svc_databases svc))"
    using assms(7) by (intro service_secrets_keys [OF kvs]) (simp_all add: plan_ready_def)
  finally show ?thesis .
qed

end


section \<open>The plan of the databases\<close>

lemma index_first:
  assumes "\<not> contains (a @ butlast p) p" "p \<noteq> []"
  shows "index_of (a @ p @ b) p = Some (length a)"
proof -
  obtain i where i: "index_of (a @ p @ b) p = Some i" "i \<le> length a" using index_of_le [OF refl] by blast
  from index_of_Some [OF i(1)] obtain a' b' where s: "a @ p @ b = a' @ p @ b'" "length a' = i" by blast
  have "\<not> i < length a"
  proof
    assume "i < length a"
    then have le: "length (a' @ p) \<le> length (a @ butlast p)" using s(2) assms(2) by (cases p) auto
    have "a @ p @ b = (a @ butlast p) @ last p # b" using assms(2) by simp
    with s(1) have "take (length (a' @ p)) (a @ butlast p) = a' @ p"
      using le by (metis append.assoc append_eq_append_conv_if)
    then have "a @ butlast p = a' @ p @ drop (length (a' @ p)) (a @ butlast p)" by (metis append.assoc append_take_drop_id)
    with assms(1) show False unfolding contains_iff by blast
  qed
  with i show ?thesis by simp
qed

lemma database_of_credentials:
  assumes "\<not> contains (Base names @ ''-db'') ''-db-''" "n \<noteq> []"
  shows "database_of_secret (KubeDatabaseCredentials names n) = Inr [n]"
proof -
  have "index_of (Base names @ ''-db-'' @ n @ ''-credentials'') ''-db-'' = Some (length (Base names))"
    using assms(1) by (intro index_first) simp_all
  moreover have "has_suffix (Base names @ ''-db-'' @ n @ ''-credentials'') ''-credentials''"
    using has_suffix_append [of "Base names @ ''-db-'' @ n" "''-credentials''"] by simp
  moreover have "Base names \<noteq> []" by (simp add: Base_def)
  ultimately show ?thesis
    using assms(2) by (simp add: database_of_secret_def KubeDatabaseCredentials_def Database_def numeral_eq_Suc)
qed

lemma database_of_backup_creds: "database_of_secret (KubeDatabaseBackupCreds names n) = Inr []"
proof -
  have "\<not> has_suffix (KubeDatabaseBackupCreds names n) ''-credentials''"
  proof
    assume "has_suffix (KubeDatabaseBackupCreds names n) ''-credentials''"
    then obtain a where "KubeDatabaseBackupCreds names n = a @ ''-credentials''"
      unfolding has_suffix_def by (metis append_take_drop_id)
    then have "rev (KubeDatabaseBackupCreds names n) = rev (a @ ''-credentials'')" by simp
    then show False by (simp add: KubeDatabaseBackupCreds_def)
  qed
  then show ?thesis by (simp add: database_of_secret_def split: option.split)
qed

lemma mapR_concat: "mapR f xs = Inr yss \<Longrightarrow> set (concat yss) = {y. \<exists>x \<in> set xs. \<exists>ys. f x = Inr ys \<and> y \<in> set ys}"
  by (induction xs arbitrary: yss) (fastforce simp: bindR_eq_Inr)+

interpretation databases: diff_planner database_entries "\<lambda>cfg. fst ` set (cfg_databases cfg)" set ResDatabase
proof
  fix cfg l e
  show "added ResDatabase (database_entries cfg l) = fst ` set (cfg_databases cfg) - set l"
    and "removed ResDatabase (database_entries cfg l) = set l - fst ` set (cfg_databases cfg)"
    by (auto simp: database_entries_def has_key_fst)
  assume "e \<in> set (database_entries cfg l)"
  then show "pe_kind e \<in> {PlanAdd, PlanDelete, PlanNoChange}"
    by (auto simp: database_entries_def dest: kind_present kind_stale)
qed

interpretation caddy_routes: diff_planner caddy_entries set set ResCaddyRoute
proof
  fix d l :: "string list" and e
  show "added ResCaddyRoute (caddy_entries d l) = set d - set l"
    and "removed ResCaddyRoute (caddy_entries d l) = set l - set d"
    by (auto simp: caddy_entries_def)
  assume "e \<in> set (caddy_entries d l)"
  then show "pe_kind e \<in> {PlanAdd, PlanDelete, PlanNoChange}"
    by (auto simp: caddy_entries_def dest: kind_present kind_stale)
qed

text \<open> when the names of the application contain no \<open>-db-\<close>, the plan recovers the databases that exist
  from the names of their credentials secrets: it adds the declared ones without such a secret,
  removes the others that have one, and nothing changes exactly when the two sets agree.
\<close>

theorem plan_databases_exact:
  assumes "kube_server api store" "dx_kube dc = Some kc" "cl_api kc = api" "Names dc = Inr names"
    and "\<not> contains (Base names @ ''-db'') ''-db-''"
    and "{s. \<exists>c. store w (KindSecret, KubeNamespace names, s) = Some c \<and> owned_by OwnerDatabases c} =
      KubeDatabaseCredentials names ` L \<union> KubeDatabaseBackupCreds names ` B" "[] \<notin> L"
    and "planDatabases dc cfg w = Inr es"
  shows "added ResDatabase es = fst ` set (cfg_databases cfg) - L \<and>
    removed ResDatabase es = L - fst ` set (cfg_databases cfg) \<and>
    (changes_of ResDatabase es = [] \<longleftrightarrow> L = fst ` set (cfg_databases cfg))"
proof -
  from assms(2-4,8) obtain secrets dbs where list: "ListOwned api (KubeNamespace names) OwnerDatabases KindSecret w = Inr secrets"
    and dbs: "mapR database_of_secret secrets = Inr dbs" and es: "es = database_entries cfg (concat dbs)"
    by (auto simp: planDatabases_def bindR_eq_Inr)
  have secrets: "set secrets = KubeDatabaseCredentials names ` L \<union> KubeDatabaseBackupCreds names ` B"
    using kube_server.ListOwned_spec [OF assms(1) list] assms(6) by blast
  have of: "database_of_secret (KubeDatabaseCredentials names n) = Inr [n]" if "n \<in> L" for n
    using that assms(7) by (intro database_of_credentials [OF assms(5)]) auto
  have "set (concat dbs) = {n. \<exists>s \<in> set secrets. \<exists>ns. database_of_secret s = Inr ns \<and> n \<in> set ns}"
    by (rule mapR_concat [OF dbs])
  also have "\<dots> = L" unfolding secrets
    by (auto simp: of database_of_backup_creds) (metis UnI1 image_eqI list.set_intros(1) of)
  finally show ?thesis
    using databases.adds databases.removes databases.quiet unfolding es by metis
qed

text \<open> with a hyphenated application such as \<open>shop-db\<close>, the plan reads another database out of the
  secret's name: a database that is deployed is planned to be added, and one that never existed to
  be removed, on every deploy.
\<close>

theorem plan_databases_ambiguous:
  "\<exists>names. NewNames ''shop-db'' ''prod'' = Inr names \<and>
     (\<exists>l. database_of_secret (KubeDatabaseCredentials names ''main'') = Inr l \<and>
       added ResDatabase (database_entries (config0\<lparr>cfg_databases := [(''main'', database0)]\<rparr>) l) = {''main''} \<and>
       removed ResDatabase (database_entries (config0\<lparr>cfg_databases := [(''main'', database0)]\<rparr>) l) = {''prod-db-main''})"
proof (intro exI conjI)
  show "NewNames ''shop-db'' ''prod'' = Inr \<lparr>nm_app = ''shop-db'', nm_env = ''prod''\<rparr>" by code_simp
  show "database_of_secret (KubeDatabaseCredentials \<lparr>nm_app = ''shop-db'', nm_env = ''prod''\<rparr> ''main'') = Inr [''prod-db-main'']"
    by code_simp
qed (simp_all add: databases.adds databases.removes)

section \<open>Examples\<close>

definition no_jobs :: "'w job_view" where
  "no_jobs = \<lparr>jv_get = (\<lambda>ns n w. Inl ApiNotFound), jv_pods = (\<lambda>ns sel w. Inr [])\<rparr>"

definition no_nodes :: "'w node_api" where
  "no_nodes = \<lparr>na_get = (\<lambda>n w. Inl ApiNotFound), na_label = (\<lambda>n k v w. (Inl ApiNotFound, w)), na_pods = (\<lambda>n w. Inr []),
     na_evict = (\<lambda>ns p w. (Inl ApiNotFound, w)), na_delete = (\<lambda>n w. (Inl ApiNotFound, w))\<rparr>"

definition mem_client :: "mem_world kube_client" where
  "mem_client = \<lparr>cl_api = mem_api, cl_runtime = quiet_runtime, cl_exec = ready_exec,
     cl_jobs = no_jobs, cl_nodes = no_nodes\<rparr>"

definition demo_context :: "mem_world deploy_context" where
  "demo_context = deploy_context0 ''shop'' ''prod''\<lparr>dx_kube := Some mem_client, dx_hash := ''20260101-000000''\<rparr>"

lemma demo_context_simps:
  "dx_kube demo_context = Some mem_client" "cl_api mem_client = mem_api" "dx_hash demo_context = ''20260101-000000''"
    "Names demo_context = Inr demo_app"
proof -
  have "NewNames ''shop'' ''prod'' = Inr demo_app" by code_simp
  then show "Names demo_context = Inr demo_app" by (simp add: Names_def demo_context_def deploy_context0_def)
qed (simp_all add: demo_context_def deploy_context0_def mem_client_def)

lemma demo_plan:
  "\<exists>es. planServices demo_context web_config (snd (Services mem_api quiet_runtime demo_app ''20260101-000000'' web_config [] demo_world)) = Inr es"
proof -
  have "case planServices demo_context web_config
      (snd (Services mem_api quiet_runtime demo_app ''20260101-000000'' web_config [] demo_world)) of Inr es \<Rightarrow> True | Inl _ \<Rightarrow> False"
    by code_simp
  then show ?thesis by (auto split: sum.splits)
qed


lemma demo_owned: "owned_by ow (core (demo_secret ow' n)) \<longleftrightarrow> ow = ow'"
  by (auto simp: owned_by_def core_def demo_secret_def LabelNvoiOwner_def LabelAppManagedBy_def)

lemma demo_databases:
  "{s. \<exists>c. mem_store demo_world (KindSecret, KubeNamespace demo_app, s) = Some c \<and> owned_by OwnerDatabases c} =
    KubeDatabaseCredentials demo_app ` {''main''} \<union> KubeDatabaseBackupCreds demo_app ` {}" (is "?S = ?T")
proof
  have app: "KubeNamespace demo_app = ''nvoi-shop-prod''"
    "KubeDatabaseCredentials demo_app ''main'' = ''nvoi-shop-prod-db-main-credentials''" by code_simp+
  have "s = ''nvoi-shop-prod-db-main-credentials''"
    if "mem_find (KindSecret, ''nvoi-shop-prod'', s) demo_world = Some o'" "owned_by ''databases'' (core o')" for s o'
  proof -
    from mem_find_Some [OF that(1)] have "ko_name o' = s" "o' \<in> set (mw_objects demo_world)" by (auto simp: obj_key_def)
    then consider n where "o' = demo_secret ''services'' n" | "o' = demo_secret ''databases'' ''nvoi-shop-prod-db-main-credentials''"
      by (auto simp: demo_world_def)
    then show ?thesis
      using that(2) \<open>ko_name o' = s\<close> by cases (simp_all add: demo_owned, simp add: demo_secret_def)
  qed
  then show "?S \<subseteq> ?T" by (auto simp: mem_store_def app OwnerDatabases_def)
  show "?T \<subseteq> ?S" using demo_find(3) by (simp add: mem_store_def app OwnerDatabases_def demo_owned)
qed

corollary plan_databases_exact_witness:
  "\<exists>es. planDatabases demo_context web_config demo_world = Inr es \<and> removed ResDatabase es = {''main''}"
proof -
  have "case planDatabases demo_context web_config demo_world of Inr es \<Rightarrow> True | Inl _ \<Rightarrow> False" by code_simp
  then obtain es where es: "planDatabases demo_context web_config demo_world = Inr es" by (auto split: sum.splits)
  have "\<not> contains (Base demo_app @ ''-db'') ''-db-''" by code_simp
  from plan_databases_exact [OF mem.kube_server_axioms demo_context_simps(1,2,4) this demo_databases _ es] es
  show ?thesis by (simp add: web_config_def config0_def)
qed

end
