(* ===== verification/Storage.thy ===== *)
theory Storage
  imports PlanLaws
begin

text \<open>
  Buckets: \<open>pkg/core/storage.go\<close>, the storage step of the reconciler (\<open>internal/reconcile/storage.go\<close>)
  and the read-only variant of it that a deploy without infrastructure changes uses
  (\<open>readExistingStorageCreds\<close> in \<open>reconcile.go\<close>).
\<close>

section \<open>Operations\<close>

record storage_set_request =
  sq_name :: string
  sq_bucket :: string
  sq_cors :: bool
  sq_expire_days :: int

definition resolve_bucket :: "'w provider_set \<Rightarrow> 'w deploy_context \<Rightarrow> goerr + 'w bucket_provider" where
  "resolve_bucket P dc = resolve (ps_bucket P) (rf_name (dx_storage dc)) (rf_creds (dx_storage dc))"

text \<open>The four variables of a bucket.\<close>

definition storage_vars :: "string \<Rightarrow> string \<Rightarrow> bucket_credentials \<Rightarrow> string gomap" where
  "storage_vars name bucketName creds =
     (let prefix = StorageEnvPrefix name
      in [(prefix @ ''_ENDPOINT'', bk_endpoint creds), (prefix @ ''_BUCKET'', bucketName),
          (prefix @ ''_ACCESS_KEY_ID'', bk_access_key_id creds), (prefix @ ''_SECRET_ACCESS_KEY'', bk_secret_access_key creds)])"

definition request_bucket :: "names \<Rightarrow> storage_set_request \<Rightarrow> string" where
  "request_bucket names req = (if sq_bucket req = [] then Bucket names (sq_name req) else sq_bucket req)"

definition StorageSet :: "'w provider_set \<Rightarrow> 'w deploy_context \<Rightarrow> storage_set_request \<Rightarrow> ('w, string gomap) act" where
  "StorageSet P dc req =
     bindA (readA (\<lambda>_. Names dc)) (\<lambda>names.
     bindA (readA (\<lambda>_. resolve_bucket P dc)) (\<lambda>bucket.
     let bucketName = request_bucket names req in
     thenA (readA (bp_validate bucket))
     (thenA (bp_ensure bucket bucketName)
     (thenA (whenA (sq_cors req) (wrapA ''set cors'' (bp_set_cors bucket bucketName [''*''] [])))
     (thenA (whenA (sq_expire_days req > 0) (wrapA ''set lifecycle'' (bp_set_lifecycle bucket bucketName (sq_expire_days req))))
     (bindA (readA (bp_credentials bucket)) (\<lambda>creds. retA (storage_vars (sq_name req) bucketName creds))))))))"

definition StorageDelete :: "'w provider_set \<Rightarrow> 'w deploy_context \<Rightarrow> string \<Rightarrow> ('w, unit) act" where
  "StorageDelete P dc name =
     bindA (readA (\<lambda>_. Names dc)) (\<lambda>names.
       if rf_name (dx_storage dc) = [] then retA ()
       else bindA (readA (\<lambda>_. resolve_bucket P dc)) (\<lambda>bucket. bp_delete bucket (Bucket names name)))"

definition StorageEmpty :: "'w provider_set \<Rightarrow> 'w deploy_context \<Rightarrow> string \<Rightarrow> ('w, unit) act" where
  "StorageEmpty P dc name =
     bindA (readA (\<lambda>_. Names dc)) (\<lambda>names.
     bindA (readA (\<lambda>_. resolve_bucket P dc)) (\<lambda>bucket. bp_empty bucket (Bucket names name)))"

definition StorageList :: "'w deploy_context \<Rightarrow> string list \<Rightarrow> goerr + (string \<times> string) list" where
  "StorageList dc ns = bindR (Names dc) (\<lambda>names. Inr (map (\<lambda>n. (n, Bucket names n)) ns))"

section \<open>The step\<close>

definition storage0 :: storage_def where
  "storage0 = \<lparr>st_cors = False, st_expire_days = 0, st_bucket = []\<rparr>"

definition storage_request :: "app_config \<Rightarrow> string \<Rightarrow> storage_set_request" where
  "storage_request cfg name =
     (let st = get0 storage0 (cfg_storage cfg) name
      in \<lparr>sq_name = name, sq_bucket = st_bucket st, sq_cors = st_cors st, sq_expire_days = st_expire_days st\<rparr>)"

definition Storage :: "'w provider_set \<Rightarrow> 'w deploy_context \<Rightarrow> app_config \<Rightarrow> ('w, string gomap) act" where
  "Storage P dc cfg =
     foldA (\<lambda>allCreds name. bindA (StorageSet P dc (storage_request cfg name)) (\<lambda>creds. retA (put_all creds allCreds)))
       [] (SortedKeys (cfg_storage cfg))"

definition readExistingStorageCreds :: "'w provider_set \<Rightarrow> 'w deploy_context \<Rightarrow> app_config \<Rightarrow> 'w \<Rightarrow> goerr + string gomap" where
  "readExistingStorageCreds P dc cfg w =
     (if rf_name (dx_storage dc) = [] \<or> cfg_storage cfg = [] then Inr []
      else bindR (resolve_bucket P dc) (\<lambda>bucket.
           bindR (bp_credentials bucket w) (\<lambda>creds.
           bindR (Names dc) (\<lambda>names.
             Inr (foldl (\<lambda>out (n, def). put_all (storage_vars n (storage_bucket names n def) creds) out) [] (cfg_storage cfg))))))"

section \<open>Both ways to the credentials agree\<close>

definition compatible :: "('x \<Rightarrow> string gomap) \<Rightarrow> 'x set \<Rightarrow> bool" where
  "compatible g X \<longleftrightarrow> (\<forall>x \<in> X. gomap_ok (g x)) \<and>
     (\<forall>x \<in> X. \<forall>y \<in> X. \<forall>k a b. map_of (g x) k = Some a \<longrightarrow> map_of (g y) k = Some b \<longrightarrow> a = b)"

lemma compatibleD: "compatible g X \<Longrightarrow> x \<in> X \<Longrightarrow> y \<in> X \<Longrightarrow> map_of (g x) k = Some a \<Longrightarrow> map_of (g y) k = Some b \<Longrightarrow> a = b"
  by (simp add: compatible_def)

lemma compatible_mono: "compatible g X \<Longrightarrow> Y \<subseteq> X \<Longrightarrow> compatible g Y"
  unfolding compatible_def by (meson subsetD)

lemma merge_all:
  "compatible g (set xs) \<Longrightarrow>
     map_of (foldl (\<lambda>acc x. put_all (g x) acc) [] xs) k = Some v \<longleftrightarrow> (\<exists>x \<in> set xs. map_of (g x) k = Some v)"
proof (induction xs rule: rev_induct)
  case (snoc x xs)
  let ?acc = "foldl (\<lambda>acc x. put_all (g x) acc) [] xs"
  have "compatible g (set xs)" by (rule compatible_mono [OF snoc.prems]) auto
  note IH = snoc.IH [OF this]
  have "gomap_ok (g x)" using snoc.prems by (simp add: compatible_def)
  note put = put_all_ok [OF this, of ?acc k]
  show ?case
  proof (cases "map_of (g x) k")
    case None
    then show ?thesis using put IH by simp
  next
    case (Some a)
    moreover have "a = b" if "y \<in> set xs" "map_of (g y) k = Some b" for y b
      using compatibleD [OF snoc.prems _ _ Some that(2)] that(1) by simp
    ultimately show ?thesis using put by auto
  qed
qed simp

lemma merge_perm:
  assumes "set xs = set ys" "compatible g (set xs)"
  shows "map_of (foldl (\<lambda>acc x. put_all (g x) acc) [] xs) = map_of (foldl (\<lambda>acc x. put_all (g x) acc) [] ys)"
proof
  fix k
  have "map_of (foldl (\<lambda>acc x. put_all (g x) acc) [] xs) k = Some v \<longleftrightarrow>
      map_of (foldl (\<lambda>acc x. put_all (g x) acc) [] ys) k = Some v" for v
    using merge_all [of g xs k v] merge_all [of g ys k v] assms by simp
  then show "map_of (foldl (\<lambda>acc x. put_all (g x) acc) [] xs) k = map_of (foldl (\<lambda>acc x. put_all (g x) acc) [] ys) k"
    by (metis option.exhaust)
qed

lemma storage_vars_ok: "gomap_ok (storage_vars n b creds)"
  by (simp add: gomap_ok_def storage_vars_def Let_def)

lemma storage_vars_keys: "map_of (storage_vars n b creds) k = Some v \<Longrightarrow> k \<in> set (StorageSecretKeys n)"
  by (auto simp: storage_vars_def StorageSecretKeys_def Let_def split: if_splits)

definition storage_suffixes :: "string list" where
  "storage_suffixes = [''_ENDPOINT'', ''_BUCKET'', ''_ACCESS_KEY_ID'', ''_SECRET_ACCESS_KEY'']"

lemma StorageSecretKeys_suffixes: "StorageSecretKeys n = map (\<lambda>s. StorageEnvPrefix n @ s) storage_suffixes"
  by (simp add: StorageSecretKeys_def storage_suffixes_def Let_def)

lemma storage_keys_disjoint:
  assumes "dns_label a" "dns_label b" "k \<in> set (StorageSecretKeys a)" "k \<in> set (StorageSecretKeys b)"
  shows "a = b"
proof -
  from assms(3,4) obtain s t where st: "s \<in> set storage_suffixes" "t \<in> set storage_suffixes"
    and k: "k = StorageEnvPrefix a @ s" "k = StorageEnvPrefix b @ t"
    unfolding StorageSecretKeys_suffixes by auto
  have "list_all (\<lambda>u. length u > 1) storage_suffixes" by code_simp
  then have len: "length s > 1" "length t > 1" using st by (auto simp: list_all_iff)
  have "take 2 (rev k) = take 2 (rev s)" "take 2 (rev k) = take 2 (rev t)"
    using k(1) len(1) by simp (use k(2) len(2) in simp)
  then have "take 2 (rev s) = take 2 (rev t)" by simp
  moreover have "list_all (\<lambda>u. list_all (\<lambda>v. take 2 (rev u) = take 2 (rev v) \<longrightarrow> u = v) storage_suffixes) storage_suffixes"
    by code_simp
  ultimately have "s = t" using st by (auto simp: list_all_iff)
  with k have "StorageEnvPrefix a = StorageEnvPrefix b" by simp
  then show ?thesis using map_env_char_inj [OF assms(1,2)] by (simp add: StorageEnvPrefix_eq)
qed

text \<open>What the step returns when it succeeds, on a provider whose credentials do not change under it.\<close>

lemma StorageSet_Inr:
  assumes "StorageSet P dc req w = (Inr vars, w')" "Names dc = Inr names" "resolve_bucket P dc = Inr bucket"
    and "\<And>w. bp_credentials bucket w = creds"
  shows "\<exists>c. creds = Inr c \<and> vars = storage_vars (sq_name req) (request_bucket names req) c"
  using assms by (auto simp: StorageSet_def readA_const Let_def thenA_Inr bindA_read)

lemma Storage_Inr:
  assumes "Names dc = Inr names" "resolve_bucket P dc = Inr bucket" "\<And>w. bp_credentials bucket w = Inr c"
  shows "foldA (\<lambda>allCreds name. bindA (StorageSet P dc (storage_request cfg name)) (\<lambda>creds. retA (put_all creds allCreds)))
      acc ns w = (Inr out, w') \<Longrightarrow>
    out = foldl (\<lambda>acc n. put_all (storage_vars n (storage_bucket names n (get0 storage0 (cfg_storage cfg) n)) c) acc) acc ns"
proof (induction ns arbitrary: acc w)
  case (Cons n ns)
  from Cons.prems obtain vars w1 where vars: "StorageSet P dc (storage_request cfg n) w = (Inr vars, w1)"
    and rest: "foldA (\<lambda>allCreds name. bindA (StorageSet P dc (storage_request cfg name)) (\<lambda>creds. retA (put_all creds allCreds)))
      (put_all vars acc) ns w1 = (Inr out, w')"
    by (auto simp: bindA_Inr)
  have "vars = storage_vars n (storage_bucket names n (get0 storage0 (cfg_storage cfg) n)) c"
    using StorageSet_Inr [OF vars assms] by (auto simp: storage_request_def request_bucket_def storage_bucket_def Let_def)
  with Cons.IH [OF rest] show ?case by simp
qed simp

text \<open> a deploy without infrastructure changes reads the credentials of the declared buckets without
  touching them, and gets the map that the storage step computes, so that the secrets of the
  services do not depend on which of the two ran.
\<close>

theorem storage_creds_agree:
  assumes "Storage P dc cfg w = (Inr loud, w')" "readExistingStorageCreds P dc cfg v = Inr quiet"
    and "rf_name (dx_storage dc) \<noteq> []" "gomap_ok (cfg_storage cfg)"
    and "\<forall>n \<in> fst ` set (cfg_storage cfg). ValidateName (''storage.'' @ n) n = None"
    and "\<forall>bucket w. resolve_bucket P dc = Inr bucket \<longrightarrow> bp_credentials bucket w = bp_credentials bucket v"
  shows "map_of loud = map_of quiet"
proof (cases "cfg_storage cfg = []")
  case True
  with assms(1,2) show ?thesis by (simp add: Storage_def readExistingStorageCreds_def SortedKeys_def)
next
  case False
  let ?g = "\<lambda>names c n. storage_vars n (storage_bucket names n (get0 storage0 (cfg_storage cfg) n)) c"
  from assms(2,3) False obtain bucket c names where bucket: "resolve_bucket P dc = Inr bucket"
    and c: "bp_credentials bucket v = Inr c" and names: "Names dc = Inr names"
    and quiet: "quiet = foldl (\<lambda>out (n, def). put_all (storage_vars n (storage_bucket names n def) c) out) [] (cfg_storage cfg)"
    by (auto simp: readExistingStorageCreds_def bindR_eq_Inr)
  have "get0 storage0 (cfg_storage cfg) n = st" if "(n, st) \<in> set (cfg_storage cfg)" for n st
    using that assms(4) by (simp add: get0_def gomap_ok_def)
  then have "quiet = foldl (\<lambda>acc n. put_all (?g names c n) acc) [] (map fst (cfg_storage cfg))"
    unfolding quiet foldl_map by (intro foldl_cong) auto
  moreover have "loud = foldl (\<lambda>acc n. put_all (?g names c n) acc) [] (SortedKeys (cfg_storage cfg))"
  proof (rule Storage_Inr [OF names bucket])
    show "bp_credentials bucket w = Inr c" for w using assms(6) bucket c by metis
  qed (use assms(1) in \<open>simp only: Storage_def\<close>)
  moreover have "compatible (?g names c) (set (SortedKeys (cfg_storage cfg)))"
  proof -
    have label: "dns_label n" if "n \<in> set (SortedKeys (cfg_storage cfg))" for n using that assms(5) by auto
    show ?thesis
      unfolding compatible_def
    proof (intro conjI ballI allI impI)
      fix x y k a b
      assume "x \<in> set (SortedKeys (cfg_storage cfg))" "y \<in> set (SortedKeys (cfg_storage cfg))"
        and ab: "map_of (?g names c x) k = Some a" "map_of (?g names c y) k = Some b"
      from storage_keys_disjoint [OF label [OF this(1)] label [OF this(2)]] storage_vars_keys ab have "x = y" by blast
      with ab show "a = b" by simp
    qed (rule storage_vars_ok)
  qed
  ultimately show ?thesis using merge_perm [of "SortedKeys (cfg_storage cfg)" "map fst (cfg_storage cfg)"] by simp
qed

definition demo_bucket :: "string gomap \<Rightarrow> 'w bucket_provider" where
  "demo_bucket creds = \<lparr>bp_validate = (\<lambda>w. Inr ()), bp_ensure = (\<lambda>n. retA ()), bp_empty = (\<lambda>n. retA ()), bp_delete = (\<lambda>n. retA ()),
     bp_set_cors = (\<lambda>n o' m. retA ()), bp_set_lifecycle = (\<lambda>n d. retA ()),
     bp_credentials = (\<lambda>w. Inr \<lparr>bk_endpoint = ''https://r2'', bk_access_key_id = get0 [] creds ''key'',
        bk_secret_access_key = ''s'', bk_region = ''auto''\<rparr>),
     bp_list = (\<lambda>w. Inr [])\<rparr>"

definition demo_providers :: "unit provider_set" where
  "demo_providers = no_providers\<lparr>ps_bucket := reg_register ''r2'' (no_creds ''r2'') demo_bucket (newRegistry ''storage'')\<rparr>"

definition bucket_context :: "unit deploy_context" where
  "bucket_context = deploy_context0 ''shop'' ''prod''\<lparr>dx_storage := \<lparr>rf_name = ''r2'', rf_creds = [(''key'', ''id'')]\<rparr>\<rparr>"

definition bucket_config :: app_config where
  "bucket_config = config0\<lparr>cfg_storage := [(''uploads'', storage0\<lparr>st_cors := True\<rparr>), (''assets'', storage0\<lparr>st_bucket := ''cdn''\<rparr>)]\<rparr>"

corollary storage_creds_agree_witness:
  "\<exists>loud quiet. Storage demo_providers bucket_context bucket_config () = (Inr loud, ()) \<and>
     readExistingStorageCreds demo_providers bucket_context bucket_config () = Inr quiet \<and> map_of loud = map_of quiet \<and>
     map_of loud ''STORAGE_ASSETS_BUCKET'' = Some ''cdn''"
proof -
  have "case Storage demo_providers bucket_context bucket_config () of
      (Inr loud, _) \<Rightarrow> map_of loud ''STORAGE_ASSETS_BUCKET'' = Some ''cdn'' | (Inl _, _) \<Rightarrow> False" by code_simp
  then obtain loud where loud: "Storage demo_providers bucket_context bucket_config () = (Inr loud, ())"
    "map_of loud ''STORAGE_ASSETS_BUCKET'' = Some ''cdn''" by (auto split: prod.splits sum.splits)
  have "case readExistingStorageCreds demo_providers bucket_context bucket_config () of Inr q \<Rightarrow> True | Inl _ \<Rightarrow> False" by code_simp
  then obtain quiet where quiet: "readExistingStorageCreds demo_providers bucket_context bucket_config () = Inr quiet"
    by (auto split: sum.splits)
  have "rf_name (dx_storage bucket_context) \<noteq> []" "gomap_ok (cfg_storage bucket_config)"
    "\<forall>n \<in> fst ` set (cfg_storage bucket_config). ValidateName (''storage.'' @ n) n = None" by code_simp+
  from storage_creds_agree [OF loud(1) quiet this] loud quiet show ?thesis by simp
qed

end
