(* ===== verification/Databases.thy ===== *)
theory Databases
  imports Postgres Storage
begin

text \<open>
  The databases step of the reconciler: \<open>internal/reconcile/databases.go\<close>, and the read of the URLs
  that a deploy without infrastructure changes uses instead (\<open>reconcile.go\<close>). A database whose node
  differs from the configuration is left alone and reported.
\<close>

section \<open>One database\<close>

definition resolveDatabaseProviderCreds :: "'w provider_set \<Rightarrow> cred_source option \<Rightarrow> string \<Rightarrow> goerr + string gomap" where
  "resolveDatabaseProviderCreds P source name =
     bindR (getSchema (ps_database P) name) (\<lambda>schema. ResolveFrom schema (the source))"

text \<open>A credential of the configuration, with its variables resolved; an empty one is not looked at.\<close>

definition credential_of :: "string \<Rightarrow> string gomap \<Rightarrow> string \<Rightarrow> string \<Rightarrow> goerr + string" where
  "credential_of name sources field raw =
     (if raw = [] then Inr []
      else wrapR (''databases.'' @ name @ ''.credentials.'' @ field) (resolveRef raw sources))"

definition database_spec_of :: "string \<Rightarrow> database_def \<Rightarrow> string gomap \<Rightarrow> goerr + database_spec" where
  "database_spec_of name def sources =
     (let c = (case db_credentials def of Some c \<Rightarrow> c | None \<Rightarrow> \<lparr>dbc_user = [], dbc_password = [], dbc_database = []\<rparr>)
      in bindR (credential_of name sources ''user'' (dbc_user c)) (\<lambda>user.
         bindR (credential_of name sources ''password'' (dbc_password c)) (\<lambda>password.
         bindR (credential_of name sources ''database'' (dbc_database c)) (\<lambda>database.
           Inr \<lparr>ds_engine = db_engine def, ds_version = db_version def, ds_server = db_server def, ds_size = db_size def,
             ds_user = user, ds_password = password, ds_database = database, ds_region = db_region def,
             ds_backup = map_option (\<lambda>b. \<lparr>bs_schedule = bk_schedule b, bs_retention = bk_retention b\<rparr>) (db_backup def)\<rparr>))))"

definition databaseRequest :: "names \<Rightarrow> string \<Rightarrow> database_def \<Rightarrow> string gomap \<Rightarrow> goerr + 'w database_request" where
  "databaseRequest names name def sources =
     bindR (database_spec_of name def sources) (\<lambda>spec.
       Inr \<lparr>dq_name = name, dq_full_name = Database names name, dq_namespace = [], dq_pod_name = KubeDatabasePod names name,
         dq_pvc_name = KubeDatabasePVC names name, dq_backup_name = KubeDatabaseBackupCron names name,
         dq_credentials_secret = KubeDatabaseCredentials names name, dq_backup_creds_secret = [], dq_image = [],
         dq_labels = [], dq_spec = spec, dq_bucket = None, dq_delete_volumes = False, dq_kube = None, dq_shell = None\<rparr>)"

definition ensureDatabaseBackupBucket ::
    "'w provider_set \<Rightarrow> 'w deploy_context \<Rightarrow> names \<Rightarrow> string \<Rightarrow> database_backup_def \<Rightarrow> 'w database_request \<Rightarrow> ('w, 'w database_request) act" where
  "ensureDatabaseBackupBucket P dc names dbName backup req =
     (let ctx = (\<lambda>what. ''databases.'' @ dbName @ ''.backup: '' @ what); bucketName = KubeDatabaseBackupBucket names dbName;
          credsSecretName = KubeDatabaseBackupCreds names dbName
      in if rf_name (dx_storage dc) = [] then failA (Errorf ''databases.backup: providers.storage is not configured'' [dbName])
         else bindA (readA (\<lambda>_. wrapR (ctx ''resolve bucket provider'') (resolve_bucket P dc))) (\<lambda>bucket.
              thenA (wrapA (ctx (''ensure bucket '' @ bucketName)) (bp_ensure bucket bucketName))
              (thenA (whenA (bk_retention backup > 0) (wrapA (ctx ''set lifecycle'') (bp_set_lifecycle bucket bucketName (bk_retention backup))))
              (bindA (wrapA (ctx ''fetch bucket credentials'') (readA (bp_credentials bucket))) (\<lambda>bucketCreds.
                 thenA (case dx_kube dc of
                          None \<Rightarrow> retA ()
                        | Some c \<Rightarrow> wrapA (ctx (''write '' @ credsSecretName))
                            (EnsureSecret (cl_api c) (KubeNamespace names) OwnerDatabases credsSecretName
                               (BuildBackupCredsSecretData bucketName bucketCreds)))
                   (retA (req\<lparr>dq_bucket := Some \<lparr>bh_name = bucketName, bh_credentials = bucketCreds\<rparr>,
                              dq_backup_creds_secret := credsSecretName\<rparr>)))))))"

text \<open>The shell on the database's node, when there is one; a failure to reach it is ignored.\<close>

definition node_shell :: "'w provider_set \<Rightarrow> 'w deploy_context \<Rightarrow> app_config \<Rightarrow> string \<Rightarrow> ('w, 'w shell option) act" where
  "node_shell P dc cfg server =
     (if server = [] then retA None
      else (\<lambda>w. case SSHToNode P dc cfg server w of (Inl _, w') \<Rightarrow> (Inr None, w') | (Inr sh, w') \<Rightarrow> (Inr (Some sh), w')))"

text \<open>
  \<open>req.Kube\<close> is the client of the deploy; the namespace and the labels are set on the request
  after \<open>databaseRequest\<close>.
\<close>

definition complete_request :: "'w deploy_context \<Rightarrow> names \<Rightarrow> string \<Rightarrow> 'w database_request \<Rightarrow> 'w database_request" where
  "complete_request dc names imageRef req =
     req\<lparr>dq_image := imageRef, dq_namespace := KubeNamespace names, dq_labels := KubeLabels names, dq_kube := dx_kube dc\<rparr>"

definition resolve_database :: "'w provider_set \<Rightarrow> 'w deploy_context \<Rightarrow> string \<Rightarrow> string \<Rightarrow> goerr + 'w database_provider" where
  "resolve_database P dc name engine =
     bindR (wrapR (''databases.'' @ name @ ''.provider'') (resolveDatabaseProviderCreds P (dx_creds dc) engine)) (\<lambda>creds.
       wrapR (''databases.'' @ name) (resolve (ps_database P) engine creds))"

text \<open>The objects of the provider's plan; without a client the first one is a nil dereference.\<close>

definition apply_workloads :: "'w deploy_context \<Rightarrow> names \<Rightarrow> string \<Rightarrow> kobj list \<Rightarrow> ('w, unit) act" where
  "apply_workloads dc names name objs =
     forA (\<lambda>obj. case dx_kube dc of
              None \<Rightarrow> failA (ExtErr ''nil kube client'')
            | Some c \<Rightarrow> wrapA (''databases.'' @ name @ ''.apply'') (ApplyOwned (cl_api c) (KubeNamespace names) OwnerDatabases obj)) objs"

definition ReconcileOneDatabase ::
    "'w provider_set \<Rightarrow> 'w deploy_context \<Rightarrow> app_config \<Rightarrow> names \<Rightarrow> string \<Rightarrow> database_def \<Rightarrow> string gomap \<Rightarrow> ('w, string) act" where
  "ReconcileOneDatabase P dc cfg names name def sources =
     (let ctx = ''databases.'' @ name
      in bindA (readA (\<lambda>_. resolve_database P dc name (db_engine def))) (\<lambda>db.
         thenA (wrapA ctx (readA (dbp_validate db)))
         (bindA (wrapA ctx (readA (ps_db_image P))) (\<lambda>imageRef.
          bindA (readA (\<lambda>_. databaseRequest names name def sources)) (\<lambda>req0.
          bindA (node_shell P dc cfg (db_server def)) (\<lambda>sh.
          let req1 = (complete_request dc names imageRef req0)\<lparr>dq_shell := sh\<rparr>
          in bindA (case db_backup def of
                      None \<Rightarrow> retA req1
                    | Some b \<Rightarrow> ensureDatabaseBackupBucket P dc names name b req1) (\<lambda>req.
             bindA (wrapA (ctx @ ''.ensure credentials'') (dbp_ensure_credentials db (dx_kube dc) req)) (\<lambda>resolved.
             bindA (wrapA (ctx @ ''.reconcile'') (dbp_reconcile db req)) (\<lambda>workloads.
               thenA (apply_workloads dc names name workloads) (retA (dc_url resolved)))))))))))"

section \<open>Drift\<close>

record pending_migration =
  pm_database :: string
  pm_from :: string
  pm_to :: string

definition live_node :: "kobj \<Rightarrow> string" where
  "live_node ss = (case pod_template_of (ko_body ss) of
     Some t \<Rightarrow> get0 [] (ps_node_selector (pt_spec t)) LabelNvoiRole | None \<Rightarrow> [])"

definition detectNodePinDrift ::
    "'w deploy_context \<Rightarrow> names \<Rightarrow> string \<Rightarrow> database_def \<Rightarrow> 'w \<Rightarrow> goerr + pending_migration option" where
  "detectNodePinDrift dc names name def w =
     (if db_server def = [] then Inr None
      else (case dx_kube dc of
        None \<Rightarrow> Inr None
      | Some c \<Rightarrow>
          bindR (wrapR (''databases.'' @ name @ '': read live state'')
                   (GetStatefulSet (cl_api c) (KubeNamespace names) (Database names name) w)) (\<lambda>existing.
            case existing of
              None \<Rightarrow> Inr None
            | Some ss \<Rightarrow>
                if live_node ss = [] \<or> live_node ss = db_server def then Inr None
                else Inr (Some \<lparr>pm_database = name, pm_from = live_node ss, pm_to = db_server def\<rparr>))))"

definition readExistingDatabaseURL :: "'w deploy_context \<Rightarrow> names \<Rightarrow> string \<Rightarrow> 'w \<Rightarrow> goerr + string" where
  "readExistingDatabaseURL dc names name w =
     (case dx_kube dc of
        None \<Rightarrow> Inl (Errorf ''kube client required to read existing credentials Secret'' [])
      | Some c \<Rightarrow> GetSecretValue (cl_api c) (KubeNamespace names) (KubeDatabaseCredentials names name) ''url'' w)"

definition readExistingDatabaseURLs :: "'w deploy_context \<Rightarrow> app_config \<Rightarrow> 'w \<Rightarrow> goerr + string gomap" where
  "readExistingDatabaseURLs dc cfg w =
     (case dx_kube dc of
        None \<Rightarrow> Inr []
      | Some c \<Rightarrow>
          if cfg_databases cfg = [] then Inr []
          else bindR (Names dc) (\<lambda>names.
            Inr (foldl (\<lambda>out name.
              case GetSecretValue (cl_api c) (KubeNamespace names) (KubeDatabaseCredentials names name) ''url'' w of
                Inl _ \<Rightarrow> out
              | Inr url \<Rightarrow> AList.update (DatabaseEnvName name) url out) [] (map fst (cfg_databases cfg)))))"

section \<open>The step\<close>

definition hasSelfhostedDatabase :: "app_config \<Rightarrow> bool" where
  "hasSelfhostedDatabase cfg \<longleftrightarrow> (\<exists>(n, db) \<in> set (cfg_databases cfg). db_engine db = ''postgres'' \<or> db_engine db = ''mysql'')"

definition database_step ::
    "'w provider_set \<Rightarrow> 'w deploy_context \<Rightarrow> app_config \<Rightarrow> names \<Rightarrow> string gomap \<Rightarrow>
      string gomap \<times> pending_migration list \<Rightarrow> string \<Rightarrow> ('w, string gomap \<times> pending_migration list) act" where
  "database_step P dc cfg names sources s name =
     (case s of (out, pending) \<Rightarrow>
       let def = get0 database0 (cfg_databases cfg) name
       in bindA (readA (detectNodePinDrift dc names name def)) (\<lambda>drift.
            case drift of
              Some m \<Rightarrow>
                bindA (wrapA (''databases.'' @ name @ '': read existing URL'') (readA (readExistingDatabaseURL dc names name)))
                  (\<lambda>url. retA (AList.update (DatabaseEnvName name) url out, pending @ [m]))
            | None \<Rightarrow>
                bindA (ReconcileOneDatabase P dc cfg names name def sources)
                  (\<lambda>url. retA (AList.update (DatabaseEnvName name) url out, pending))))"

definition selfhosted :: "app_config \<Rightarrow> string \<Rightarrow> bool" where
  "selfhosted cfg name \<longleftrightarrow> db_server (get0 database0 (cfg_databases cfg) name) \<noteq> []"

definition backed_up :: "app_config \<Rightarrow> string \<Rightarrow> bool" where
  "backed_up cfg name \<longleftrightarrow> db_backup (get0 database0 (cfg_databases cfg) name) \<noteq> None"

definition desired_database_objects :: "app_config \<Rightarrow> names \<Rightarrow> (kind \<times> string list) list" where
  "desired_database_objects cfg names =
     (let dbs = SortedKeys (cfg_databases cfg); hosted = filter (selfhosted cfg) dbs
      in [(KindStatefulSet, map (Database names) hosted), (KindService, map (Database names) hosted),
          (KindPVC, map (KubeDatabasePVC names) hosted),
          (KindSecret, concat (map (\<lambda>n. KubeDatabaseCredentials names n #
             (if backed_up cfg n then [KubeDatabaseBackupCreds names n] else [])) dbs)),
          (KindCronJob, map (KubeDatabaseBackupCron names) (filter (backed_up cfg) dbs))])"

definition database_sweeps :: "'w deploy_context \<Rightarrow> app_config \<Rightarrow> names \<Rightarrow> ('w, unit) act" where
  "database_sweeps dc cfg names =
     (case dx_kube dc of
        None \<Rightarrow> retA ()
      | Some c \<Rightarrow>
          forA (\<lambda>(k, desired). ignoreA (SweepOwned (cl_api c) (KubeNamespace names) OwnerDatabases k desired))
            (desired_database_objects cfg names))"

definition Databases ::
    "'w provider_set \<Rightarrow> 'w deploy_context \<Rightarrow> app_config \<Rightarrow> string gomap \<Rightarrow> ('w, string gomap \<times> pending_migration list) act" where
  "Databases P dc cfg sources =
     bindA (readA (\<lambda>_. Names dc)) (\<lambda>names.
       thenA (whenA (hasSelfhostedDatabase cfg \<and> dx_shell dc \<noteq> None)
                (wrapA ''ensure zfs-localpv csi'' (EnsureZFSCSI (dx_shell dc))))
       (bindA (foldA (database_step P dc cfg names sources) ([], []) (SortedKeys (cfg_databases cfg))) (\<lambda>r.
          thenA (database_sweeps dc cfg names) (retA r))))"

end
