(* ===== verification/Ingress.thy ===== *)
theory Ingress
  imports Storage Images
begin

text \<open>
  How traffic reaches the services: DNS records (\<open>RouteDomains\<close> in \<open>reconcile.go\<close>), Caddy or a tunnel
  (\<open>internal/reconcile/ingress.go\<close>) and the look at DNS propagation (\<open>dns_verify.go\<close>). A warning
  that the code only prints is returned.
\<close>

section \<open>Caddy\<close>

definition sweep_all :: "'w kube_api \<Rightarrow> string \<Rightarrow> string \<Rightarrow> kind list \<Rightarrow> ('w, unit) act" where
  "sweep_all api ns owner kinds = forA (\<lambda>k. ignoreA (SweepOwned api ns owner k [])) kinds"

definition ingress_route :: "'w kube_api \<Rightarrow> string \<Rightarrow> app_config \<Rightarrow> caddy_route list \<Rightarrow> string \<Rightarrow> ('w, caddy_route list) act" where
  "ingress_route api ns cfg routes svcName =
     (let domains = get0 [] (cfg_domains cfg) svcName
      in if domains = [] then retA routes
         else bindA (wrapA (''ingress: service '' @ svcName @ '' has no port'') (readA (GetServicePort api ns svcName)))
                (\<lambda>port. retA (routes @ [\<lparr>cd_service = svcName, cd_port = port, cd_domains = domains\<rparr>])))"

definition health_path :: "app_config \<Rightarrow> string \<Rightarrow> string" where
  "health_path cfg svcName =
     (case map_of (cfg_services cfg) svcName of
        Some svc \<Rightarrow> if svc_health svc \<noteq> [] then svc_health svc else ''/''
      | None \<Rightarrow> ''/'')"

text \<open>A domain whose certificate is late is not probed over HTTPS; neither failure stops the deploy.\<close>

definition verify_domain :: "'w runtime \<Rightarrow> 'w pod_exec \<Rightarrow> string \<Rightarrow> string \<Rightarrow> ('w, unit) act" where
  "verify_domain rt px healthPath domain =
     ignoreA (thenA (WaitForCaddyCert rt px domain) (WaitForCaddyHTTPS rt px domain healthPath))"

definition Ingress :: "'w deploy_context \<Rightarrow> app_config \<Rightarrow> ('w, unit) act" where
  "Ingress dc cfg =
     (case dx_kube dc of
        None \<Rightarrow> failA (Errorf ''no master kube client for caddy reconcile'' [])
      | Some kc \<Rightarrow>
          bindA (readA (\<lambda>_. Names dc)) (\<lambda>names.
          let ns = KubeNamespace names; api = cl_api kc; rt = cl_runtime kc; px = cl_exec kc
          in thenA (sweep_all api ns OwnerTunnel [KindDeployment, KindSecret, KindConfigMap])
             (thenA (wrapA ''ensure caddy'' (EnsureCaddy api rt px))
             (bindA (foldA (ingress_route api ns cfg) [] (SortedKeys (cfg_domains cfg))) (\<lambda>routes.
              bindA (wrapA ''build caddy config''
                       (readA (\<lambda>_. BuildCaddyConfig \<lparr>ci_namespace = ns, ci_routes = routes, ci_acme_email = cfg_acme_email cfg\<rparr>)))
                (\<lambda>configJSON.
                 thenA (ReloadCaddyConfig rt px configJSON)
                   (forA (\<lambda>svcName. forA (verify_domain rt px (health_path cfg svcName)) (get0 [] (cfg_domains cfg) svcName))
                      (SortedKeys (cfg_domains cfg)))))))))"

section \<open>A tunnel\<close>

definition tunnel_routes :: "app_config \<Rightarrow> tunnel_route list" where
  "tunnel_routes cfg =
     concat (map (\<lambda>(svcName, domains).
       case map_of (cfg_services cfg) svcName of
         None \<Rightarrow> []
       | Some svc \<Rightarrow>
           map (\<lambda>hostname. \<lparr>tr_hostname = hostname, tr_service = svcName, tr_port = svc_port svc, tr_scheme = ''http''\<rparr>) domains)
       (cfg_domains cfg))"

definition bind_hostnames :: "'w dns_provider \<Rightarrow> ingress_binding gomap \<Rightarrow> ('w, unit) act" where
  "bind_hostnames dns bindings =
     forA (\<lambda>hostname. wrapA (''dns route '' @ hostname)
             (dp_route dns hostname (the (map_of bindings hostname)))) (SortedKeys bindings)"

definition TunnelIngress :: "'w provider_set \<Rightarrow> 'w deploy_context \<Rightarrow> app_config \<Rightarrow> ('w, unit) act" where
  "TunnelIngress P dc cfg =
     bindA (readA (\<lambda>_. wrapR ''resolve tunnel provider''
              (resolve (ps_tunnel P) (rf_name (dx_tunnel dc)) (rf_creds (dx_tunnel dc))))) (\<lambda>tun.
     bindA (readA (\<lambda>_. Names dc)) (\<lambda>names.
     let ns = KubeNamespace names
     in bindA (wrapA ''tunnel reconcile''
                 (tn_reconcile tun \<lparr>tq_name = Base names, tq_namespace = ns, tq_labels = Labels names, tq_routes = tunnel_routes cfg\<rparr>))
          (\<lambda>plan.
           case dx_kube dc of
             None \<Rightarrow> failA (Errorf ''no master kube client for tunnel ingress'' [])
           | Some kc \<Rightarrow>
               thenA (forA (\<lambda>obj. wrapA ''apply tunnel workload'' (ApplyOwned (cl_api kc) ns OwnerTunnel obj)) (tp_workloads plan))
               (thenA (sweep_all (cl_api kc) CaddyNamespace OwnerCaddy [KindDeployment, KindService, KindConfigMap, KindPVC])
                  (if tp_bindings plan = [] \<or> rf_name (dx_dns dc) = [] then retA ()
                   else bindA (readA (\<lambda>_. wrapR ''resolve dns provider''
                                 (resolve (ps_dns P) (rf_name (dx_dns dc)) (rf_creds (dx_dns dc))))) (\<lambda>dns.
                        bind_hostnames dns (tp_bindings plan)))))))"

section \<open>DNS\<close>

definition route_service :: "'w infra_provider \<Rightarrow> 'w bootstrap_context \<Rightarrow> 'w dns_provider \<Rightarrow> app_config \<Rightarrow> string \<Rightarrow> ('w, unit) act" where
  "route_service infra bctx dns cfg svcName =
     bindA (wrapA (''ingress binding for '' @ svcName) (readA (ip_ingress_binding infra bctx
              \<lparr>st_name = svcName, st_port = svc_port (get0 service0 (cfg_services cfg) svcName)\<rparr>))) (\<lambda>binding.
       forA (\<lambda>domain. wrapA (''dns route '' @ domain) (dp_route dns domain binding)) (get0 [] (cfg_domains cfg) svcName))"

text \<open>Domains that Caddy serves and the configuration no longer has; failures are only reported.\<close>

definition unroute_orphans :: "'w dns_provider \<Rightarrow> app_config \<Rightarrow> caddy_route list \<Rightarrow> ('w, unit) act" where
  "unroute_orphans dns cfg routes =
     forA (\<lambda>domain. if domain \<in> set (concat (map snd (cfg_domains cfg))) then retA () else ignoreA (dp_unroute dns domain))
       (concat (map cd_domains routes))"

definition RouteDomains ::
    "'w provider_set \<Rightarrow> 'w deploy_context \<Rightarrow> app_config \<Rightarrow> 'w infra_provider \<Rightarrow> 'w bootstrap_context \<Rightarrow> ('w, unit) act" where
  "RouteDomains P dc cfg infra bctx =
     (if cfg_domains cfg = [] then retA ()
      else bindA (readA (\<lambda>_. wrapR ''resolve dns provider''
                    (resolve (ps_dns P) (rf_name (dx_dns dc)) (rf_creds (dx_dns dc))))) (\<lambda>dns.
           thenA (forA (route_service infra bctx dns cfg) (SortedKeys (cfg_domains cfg)))
             (case dx_kube dc of
                None \<Rightarrow> failA (ExtErr ''nil kube client'')
              | Some kc \<Rightarrow>
                  (\<lambda>w. case GetCaddyRoutes (cl_runtime kc) (cl_exec kc) w of
                         Inl _ \<Rightarrow> (Inr (), w)
                       | Inr routes \<Rightarrow> unroute_orphans dns cfg routes w))))"

definition dnsGracePeriod :: int where "dnsGracePeriod = 3"

definition resolves_to :: "string \<Rightarrow> string \<Rightarrow> bool" where
  "resolves_to expectedIP output = (case str_fields (trim_space output) of [] \<Rightarrow> False | f # _ \<Rightarrow> f = expectedIP)"

definition count_unresolved :: "'w shell \<Rightarrow> string \<Rightarrow> int \<Rightarrow> string \<Rightarrow> ('w, int) act" where
  "count_unresolved sh expectedIP n domain w =
     (case sh_run sh (''getent hosts '' @ domain @ '' 2>/dev/null'') w of
        (Inl _, w') \<Rightarrow> (Inr (n + 1), w')
      | (Inr output, w') \<Rightarrow> (Inr (if resolves_to expectedIP output then n else n + 1), w'))"

text \<open>The warning: how many domains do not resolve to the expected address yet.\<close>

definition verifyDNSPropagation :: "'w provider_set \<Rightarrow> 'w runtime \<Rightarrow> 'w deploy_context \<Rightarrow> app_config \<Rightarrow> ('w, (int \<times> string) option) act" where
  "verifyDNSPropagation P rt dc cfg w =
     (case dx_shell dc of
        None \<Rightarrow> (Inr None, w)
      | Some sh \<Rightarrow>
          let bctx = BootstrapContext dc cfg
          in (case resolve (ps_infra P) (bc_provider bctx) (dx_credentials dc) of
                Inl _ \<Rightarrow> (Inr None, w)
              | Inr infra \<Rightarrow>
                  (case ip_ingress_binding infra bctx \<lparr>st_name = [], st_port = 0\<rparr> w of
                     Inl _ \<Rightarrow> (Inr None, w)
                   | Inr binding \<Rightarrow>
                       if ib_type binding \<noteq> ''A'' then (Inr None, w)
                       else (case rt_sleep rt dnsGracePeriod w of
                           (Some _, w1) \<Rightarrow> (Inr None, w1)
                         | (None, w1) \<Rightarrow>
                             bindA (foldA (\<lambda>n svcName. foldA (count_unresolved sh (ib_target binding)) n (get0 [] (cfg_domains cfg) svcName))
                                      0 (SortedKeys (cfg_domains cfg)))
                               (\<lambda>n. retA (if n > 0 then Some (n, ib_target binding) else None)) w1))))"

end
