(* ===== verification/Validate.thy ===== *)
theory Validate
  imports VarRefs Allowlist Image Topsort Providers
begin

text \<open>
  \<open>internal/reconcile/validate.go\<close>: \<open>ValidateConfig\<close>, one definition per section of the
  function, in its order. A Go map is visited in the order of its list; which error is reported
  first depends on that order, whether one is reported does not.
\<close>

section \<open>Helpers\<close>

definition hasNamedVolume :: "app_config \<Rightarrow> string list \<Rightarrow> bool" where
  "hasNamedVolume cfg mounts \<longleftrightarrow>
     (\<exists>mount \<in> set mounts. case cut CHR '':'' mount of (source, _, ok) \<Rightarrow>
        ok \<and> \<not> has_prefix source ''/'' \<and> \<not> has_prefix source ''.'' \<and> has_key (cfg_volumes cfg) source)"

definition validateVolumeMounts :: "app_config \<Rightarrow> string \<Rightarrow> string list \<Rightarrow> goerr option" where
  "validateVolumeMounts cfg context mounts =
     each (\<lambda>mount. case cut CHR '':'' mount of (source, _, ok) \<Rightarrow>
       if \<not> ok then Some (Errorf ''volumes: must be name:/path'' [context, mount])
       else if \<not> has_prefix source ''/'' \<and> \<not> has_prefix source ''.'' \<and> \<not> has_key (cfg_volumes cfg) source
       then Some (Errorf ''volumes: volume is not defined'' [context, source]) else None) mounts"

definition validateVolumeServer :: "app_config \<Rightarrow> string \<Rightarrow> string \<Rightarrow> string list \<Rightarrow> goerr option" where
  "validateVolumeServer cfg workload server mounts =
     each (\<lambda>mount. case cut CHR '':'' mount of (volName, _, ok) \<Rightarrow>
       if \<not> ok \<or> has_prefix volName ''/'' \<or> has_prefix volName ''.'' then None
       else (case map_of (cfg_volumes cfg) volName of
               None \<Rightarrow> None
             | Some vol \<Rightarrow> check (server \<noteq> [] \<and> server \<noteq> vol_server vol)
                 (Errorf ''mounts volume on another server - cannot move'' [workload, volName, vol_server vol, server])))
       mounts"

definition validateSecretRefs :: "string \<Rightarrow> string list \<Rightarrow> goerr option" where
  "validateSecretRefs context refs =
     each (\<lambda>ref. case ParseSecretRef ref of (envName, secretKey) \<Rightarrow>
       first_err
        [ValidateEnvVarName context envName,
         check (contains ref ''='' \<and> \<not> HasVarRef secretKey)
           (Errorf ''requires $ on the right side of ='' [context, ref, envName, secretKey])]) refs"

definition databaseEngineIsSelfHosted :: "string \<Rightarrow> bool" where
  "databaseEngineIsSelfHosted engine \<longleftrightarrow> engine = ''postgres'' \<or> engine = ''mysql''"

definition databaseEngineIsSaaS :: "string \<Rightarrow> bool" where
  "databaseEngineIsSaaS engine \<longleftrightarrow> engine = ''neon'' \<or> engine = ''planetscale''"

definition validCronExpr :: "string \<Rightarrow> bool" where
  "validCronExpr s \<longleftrightarrow> length (str_fields s) = 5"

definition servicesSharingServer :: "app_config \<Rightarrow> string \<Rightarrow> string list" where
  "servicesSharingServer cfg server =
     map fst (filter (\<lambda>(_, svc). svc_server svc = server \<or> server \<in> set (svc_servers svc)) (cfg_services cfg))"

definition cronsSharingServer :: "app_config \<Rightarrow> string \<Rightarrow> string list" where
  "cronsSharingServer cfg server =
     map fst (filter (\<lambda>(_, cj). cr_server cj = server \<or> server \<in> set (cr_servers cj)) (cfg_crons cfg))"

section \<open>The sections of \<open>ValidateConfig\<close>\<close>

definition validate_identity :: "app_config \<Rightarrow> goerr option" where
  "validate_identity cfg =
     first_err
      [check (cfg_app cfg = []) (Errorf ''app is required'' []),
       ValidateName ''app'' (cfg_app cfg),
       check (cfg_env cfg = []) (Errorf ''env is required'' []),
       ValidateName ''env'' (cfg_env cfg)]"

definition builder_count :: "app_config \<Rightarrow> nat" where
  "builder_count cfg = length (filter (\<lambda>(_, srv). srv_role srv = RoleBuilder) (cfg_servers cfg))"

definition master_count :: "app_config \<Rightarrow> nat" where
  "master_count cfg = length (filter (\<lambda>(_, srv). srv_role srv = RoleMaster) (cfg_servers cfg))"

definition build_name :: "app_config \<Rightarrow> string" where
  "build_name cfg = (if p_build (cfg_providers cfg) = [] then ''local'' else p_build (cfg_providers cfg))"

definition validate_build :: "'p registries \<Rightarrow> app_config \<Rightarrow> goerr option" where
  "validate_build R cfg =
     (case GetBuildCapability R (build_name cfg) of
        Inl e \<Rightarrow> Some (Wrapf ''providers.build'' e)
      | Inr requiresBuilders \<Rightarrow>
          first_err
           [check (requiresBuilders \<and> builder_count cfg = 0)
              (Errorf ''providers.build requires at least one server with role: builder'' [build_name cfg]),
            check (\<not> requiresBuilders \<and> builder_count cfg > 0)
              (Errorf ''providers.build does not use builder servers'' [build_name cfg])])"

definition validate_tunnel :: "app_config \<Rightarrow> goerr option" where
  "validate_tunnel cfg =
     (let t = p_tunnel (cfg_providers cfg)
      in if t = [] then None
         else first_err
          [check (t \<noteq> ''cloudflare'' \<and> t \<noteq> ''ngrok'') (Errorf ''providers.tunnel is not supported'' [t]),
           check (p_dns (cfg_providers cfg) = []) (Errorf ''providers.tunnel: DNS provider is required'' []),
           check (cfg_domains cfg = []) (Errorf ''providers.tunnel: at least one domain is required'' [])])"

definition validate_providers :: "'p registries \<Rightarrow> app_config \<Rightarrow> goerr option" where
  "validate_providers R cfg =
     first_err
      [check (p_infra (cfg_providers cfg) = []) (Errorf ''providers.infra is required'' []),
       (case p_secrets (cfg_providers cfg) of
          None \<Rightarrow> None
        | Some s \<Rightarrow> first_err
           [check (sec_kind s = []) (Errorf ''providers.secrets.kind is required'' []),
            check (sec_kind s \<notin> {''doppler'', ''awssm'', ''infisical''})
              (Errorf ''providers.secrets.kind is not supported'' [sec_kind s])]),
       validate_build R cfg,
       (let ciName = p_ci (cfg_providers cfg)
        in if ciName = [] then None
           else (case GetCISchema R ciName of Inl e \<Rightarrow> Some (Wrapf ''providers.ci'' e) | Inr _ \<Rightarrow> None)),
       validate_tunnel cfg]"

definition validate_firewall :: "app_config \<Rightarrow> goerr option" where
  "validate_firewall cfg =
     (if p_tunnel (cfg_providers cfg) = [] then None
      else each (\<lambda>rule. case cut CHR '':'' rule of (port, _, ok) \<Rightarrow>
             check (ok \<and> (port = ''80'' \<or> port = ''443''))
               (Errorf ''firewall: port cannot be opened in tunnel mode'' [port])) (cfg_firewall cfg))"

definition validate_server :: "app_config \<Rightarrow> string \<times> server_def \<Rightarrow> goerr option" where
  "validate_server cfg entry =
     (case entry of (name, srv) \<Rightarrow>
        first_err
         [ValidateName (''servers.'' @ name) name,
          check (srv_type srv = []) (Errorf ''servers.type is required'' [name]),
          check (srv_region srv = []) (Errorf ''servers.region is required'' [name]),
          check (srv_role srv = []) (Errorf ''servers.role is required'' [name]),
          check (srv_role srv \<noteq> RoleMaster \<and> srv_role srv \<noteq> RoleWorker \<and> srv_role srv \<noteq> RoleBuilder)
            (Errorf ''servers.role must be master, worker, or builder'' [name, srv_role srv]),
          check (srv_disk srv < 0) (Errorf ''servers.disk must be >= 0'' [name]),
          check (srv_disk srv > 0 \<and> p_infra (cfg_providers cfg) = ''hetzner'')
            (Errorf ''servers.disk: hetzner does not support custom root disk sizes'' [name])])"

definition validate_servers :: "app_config \<Rightarrow> goerr option" where
  "validate_servers cfg =
     first_err
      [check (cfg_servers cfg = []) (Errorf ''at least one server is required'' []),
       each (validate_server cfg) (cfg_servers cfg),
       check (master_count cfg = 0) (Errorf ''servers: exactly one server must have role: master'' []),
       check (master_count cfg > 1) (Errorf ''servers: only one master is supported'' [])]"

definition validate_volume :: "app_config \<Rightarrow> string \<times> volume_def \<Rightarrow> goerr option" where
  "validate_volume cfg entry =
     (case entry of (name, vol) \<Rightarrow>
        first_err
         [ValidateName (''volumes.'' @ name) name,
          check (vol_size vol \<le> 0) (Errorf ''volumes.size must be > 0'' [name]),
          check (vol_server vol = []) (Errorf ''volumes.server is required'' [name]),
          check (\<not> has_key (cfg_servers cfg) (vol_server vol))
            (Errorf ''volumes.server is not a defined server'' [name, vol_server vol])])"

definition validate_storage :: "string \<times> storage_def \<Rightarrow> goerr option" where
  "validate_storage entry = ValidateName (''storage.'' @ fst entry) (fst entry)"

definition validate_selfhosted :: "app_config \<Rightarrow> string \<Rightarrow> database_def \<Rightarrow> goerr option" where
  "validate_selfhosted cfg name db =
     (case db_credentials db of
        None \<Rightarrow> Some (Errorf ''databases.credentials is required'' [name, db_engine db])
      | Some cr \<Rightarrow>
          first_err
           [check (dbc_user cr = []) (Errorf ''databases.credentials.user is required'' [name]),
            check (dbc_password cr = []) (Errorf ''databases.credentials.password is required'' [name]),
            check (dbc_database cr = []) (Errorf ''databases.credentials.database is required'' [name]),
            check (db_server db = []) (Errorf ''databases.server is required'' [name]),
            check (db_size db \<le> 0) (Errorf ''databases.size must be > 0'' [name]),
            check (\<not> HasVarRef (dbc_user cr)) (Errorf ''databases.credentials.user must be a $VAR reference'' [name]),
            check (\<not> HasVarRef (dbc_password cr)) (Errorf ''databases.credentials.password must be a $VAR reference'' [name]),
            check (\<not> has_key (cfg_servers cfg) (db_server db))
              (Errorf ''databases.server is not a defined server'' [name, db_server db]),
            check (db_server db = RoleMaster) (Errorf ''databases.server cannot be master'' [name]),
            check (servicesSharingServer cfg (db_server db) \<noteq> [])
              (Errorf ''databases.server is shared with service(s)'' (name # db_server db # servicesSharingServer cfg (db_server db))),
            check (cronsSharingServer cfg (db_server db) \<noteq> [])
              (Errorf ''databases.server is shared with cron(s)'' (name # db_server db # cronsSharingServer cfg (db_server db)))])"

definition validate_database :: "'p registries \<Rightarrow> app_config \<Rightarrow> string \<times> database_def \<Rightarrow> goerr option" where
  "validate_database R cfg entry =
     (case entry of (name, db) \<Rightarrow>
        first_err
         [ValidateName (''databases.'' @ name) name,
          check (trim_space (db_engine db) = []) (Errorf ''databases.engine is required'' [name]),
          (case GetDatabaseSchema R (db_engine db) of
             Inl e \<Rightarrow> Some (Wrapf (''databases.'' @ name @ ''.engine'') e) | Inr _ \<Rightarrow> None),
          (if databaseEngineIsSelfHosted (db_engine db) then validate_selfhosted cfg name db else None),
          (if databaseEngineIsSaaS (db_engine db) then first_err
             [check (db_credentials db \<noteq> None) (Errorf ''databases.credentials is not valid for SaaS engine'' [name, db_engine db]),
              check (db_server db \<noteq> []) (Errorf ''databases.server is not valid for SaaS engine'' [name, db_engine db]),
              check (db_size db \<noteq> 0) (Errorf ''databases.size is not valid for SaaS engine'' [name, db_engine db])]
           else None),
          (case db_backup db of
             None \<Rightarrow> None
           | Some b \<Rightarrow> first_err
              [check (p_storage (cfg_providers cfg) = [])
                 (Errorf ''databases.backup set but providers.storage is not configured'' [name]),
               check (bk_schedule b \<noteq> [] \<and> \<not> validCronExpr (bk_schedule b))
                 (Errorf ''databases.backup.schedule is invalid'' [name, bk_schedule b])])])"

definition validate_service_build :: "app_config \<Rightarrow> string \<Rightarrow> service_def \<Rightarrow> goerr option" where
  "validate_service_build cfg name svc =
     (if \<not> is_build svc then None
      else first_err
       [check (cfg_registry cfg = []) (Errorf ''services.build: registry block is missing'' [name]),
        (let host = imageRegistryHost (svc_image svc)
         in if host \<noteq> [] then
              check (\<not> has_key (cfg_registry cfg) host)
                (Errorf ''services.build: image targets registry without an entry'' [name, host])
            else first_err
             [check (svc_image svc = []) (Errorf ''services.build: image is required'' [name]),
              check (\<not> contains (svc_image svc) ''/'')
                (Errorf ''services.build: image has no repo namespace'' [name, svc_image svc]),
              check (length (cfg_registry cfg) > 1)
                (Errorf ''services.image: no host prefix but multiple registries'' [name, svc_image svc])])])"

definition validate_database_ref :: "app_config \<Rightarrow> string \<Rightarrow> string \<Rightarrow> goerr option" where
  "validate_database_ref cfg name ref =
     (case parseDatabaseRef ref of (envName, dbName) \<Rightarrow>
        first_err
         [(if envName \<noteq> [] then ValidateEnvVarName (''services.'' @ name @ ''.databases'') envName else None),
          check (\<not> has_key (cfg_databases cfg) dbName)
            (Errorf ''services.databases is not a defined database'' [name, dbName])])"

definition validate_service :: "app_config \<Rightarrow> string \<times> service_def \<Rightarrow> goerr option" where
  "validate_service cfg entry =
     (case entry of (name, svc) \<Rightarrow>
        first_err
         [ValidateName (''services.'' @ name) name,
          check (svc_image svc = []) (Errorf ''services: image is required'' [name]),
          validate_service_build cfg name svc,
          check (svc_server svc \<noteq> [] \<and> svc_servers svc \<noteq> [])
            (Errorf ''services: server and servers are mutually exclusive'' [name]),
          each (\<lambda>s. check (\<not> has_key (cfg_servers cfg) s) (Errorf ''services.server is not a defined server'' [name, s]))
            (svc_ResolvedServers svc),
          check (svc_replicas svc < 0) (Errorf ''services.replicas must be >= 0'' [name]),
          each (\<lambda>ref. check (\<not> has_key (cfg_storage cfg) ref) (Errorf ''services.storage is not a defined storage'' [name, ref]))
            (svc_storage svc),
          each (validate_database_ref cfg name) (svc_databases svc),
          validateVolumeMounts cfg (''services.'' @ name) (svc_volumes svc),
          check (length (svc_servers svc) > 1 \<and> hasNamedVolume cfg (svc_volumes svc))
            (Errorf ''services: multiple servers with a volume mount'' [name]),
          validateVolumeServer cfg name (svc_server svc) (svc_volumes svc),
          validateSecretRefs (''services.'' @ name @ ''.secrets'') (svc_secrets svc),
          each (\<lambda>dep. first_err
             [check (dep = name) (Errorf ''services.depends_on: cannot depend on itself'' [name]),
              check (\<not> has_key (cfg_services cfg) dep) (Errorf ''services.depends_on is not a defined service'' [name, dep])])
            (svc_depends_on svc)])"

definition validate_cycles :: "app_config \<Rightarrow> goerr option" where
  "validate_cycles cfg =
     (case findDependencyCycle (cfg_services cfg) of
        Some [] \<Rightarrow> None
      | Some cyc \<Rightarrow> Some (Errorf ''services: depends_on cycle detected'' [cyc])
      | None \<Rightarrow> Some (Errorf ''services: depends_on cycle detected'' []))"

definition validate_cron :: "app_config \<Rightarrow> string \<times> cron_def \<Rightarrow> goerr option" where
  "validate_cron cfg entry =
     (case entry of (name, cron) \<Rightarrow>
        first_err
         [ValidateName (''crons.'' @ name) name,
          check (cr_image cron = []) (Errorf ''crons: image is required'' [name]),
          check (cr_schedule cron = []) (Errorf ''crons.schedule is required'' [name]),
          check (cr_server cron \<noteq> [] \<and> cr_servers cron \<noteq> [])
            (Errorf ''crons: server and servers are mutually exclusive'' [name]),
          each (\<lambda>s. check (\<not> has_key (cfg_servers cfg) s) (Errorf ''crons.server is not a defined server'' [name, s]))
            (cr_ResolvedServers cron),
          each (\<lambda>ref. check (\<not> has_key (cfg_storage cfg) ref) (Errorf ''crons.storage is not a defined storage'' [name, ref]))
            (cr_storage cron),
          validateVolumeMounts cfg (''crons.'' @ name) (cr_volumes cron),
          check (length (cr_servers cron) > 1 \<and> hasNamedVolume cfg (cr_volumes cron))
            (Errorf ''crons: multiple servers with a volume mount'' [name]),
          validateVolumeServer cfg name (cr_server cron) (cr_volumes cron),
          validateSecretRefs (''crons.'' @ name @ ''.secrets'') (cr_secrets cron)])"

definition validate_domain :: "app_config \<Rightarrow> string \<times> string list \<Rightarrow> goerr option" where
  "validate_domain cfg entry =
     (case entry of (svcName, domains) \<Rightarrow>
        (case map_of (cfg_services cfg) svcName of
           None \<Rightarrow> Some (Errorf ''domains: not a defined service'' [svcName])
         | Some svc \<Rightarrow>
             first_err
              [check (svc_port svc = 0) (Errorf ''domains: service has no port'' [svcName]),
               check (domains = []) (Errorf ''domains: at least one domain is required'' [svcName]),
               each (ValidateDomain (''domains.'' @ svcName)) domains,
               check (svc_replicas svc = 1)
                 (Errorf ''services: web-facing services require replicas >= 2'' [svcName])]))"

definition validate_registry :: "string \<times> registry_def \<Rightarrow> goerr option" where
  "validate_registry entry =
     (case entry of (host, rdef) \<Rightarrow>
        first_err
         [check (host = []) (Errorf ''registry: empty hostname key'' []),
          check (\<not> validRegistryHost host) (Errorf ''registry: invalid hostname'' [host]),
          check (trim_space (rg_username rdef) = []) (Errorf ''registry.username is required'' [host]),
          check (trim_space (rg_password rdef) = []) (Errorf ''registry.password is required'' [host])])"

definition ValidateConfig :: "'p registries \<Rightarrow> app_config \<Rightarrow> goerr option" where
  "ValidateConfig R cfg =
     first_err
      [validate_identity cfg,
       validate_providers R cfg,
       validate_firewall cfg,
       validate_servers cfg,
       each (validate_volume cfg) (cfg_volumes cfg),
       each validate_storage (cfg_storage cfg),
       each (validate_database R cfg) (cfg_databases cfg),
       each (validate_service cfg) (cfg_services cfg),
       validate_cycles cfg,
       each (validate_cron cfg) (cfg_crons cfg),
       each (validate_domain cfg) (cfg_domains cfg),
       each (\<lambda>name. ValidateEnvVarName (''secrets.'' @ name) name) (cfg_secrets cfg),
       each validate_registry (cfg_registry cfg)]"

section \<open>An example\<close>

definition demo_config :: app_config where
  "demo_config = config0\<lparr>
     cfg_app := ''shop'', cfg_env := ''prod'',
     cfg_providers := \<lparr>p_infra = ''hetzner'', p_dns = ''cloudflare'', p_build = [], p_storage = ''cloudflare'',
       p_secrets = None, p_tunnel = [], p_ci = ''github''\<rparr>,
     cfg_servers := [(''master'', \<lparr>srv_type = ''cx22'', srv_region = ''fsn1'', srv_role = ''master'', srv_disk = 0\<rparr>),
                     (''data'', \<lparr>srv_type = ''cx32'', srv_region = ''fsn1'', srv_role = ''worker'', srv_disk = 0\<rparr>)],
     cfg_secrets := [''API_KEY''],
     cfg_storage := [(''uploads'', \<lparr>st_cors = False, st_expire_days = 0, st_bucket = []\<rparr>)],
     cfg_databases := [(''main'', database0\<lparr>db_engine := ''postgres'', db_server := ''data'', db_size := 10,
       db_credentials := Some \<lparr>dbc_user = ''$DB_USER'', dbc_password = ''$DB_PASS'', dbc_database = ''app''\<rparr>\<rparr>)],
     cfg_registry := [(''ghcr.io'', \<lparr>rg_username = ''$GH_USER'', rg_password = ''$GH_TOKEN''\<rparr>)],
     cfg_services := [(''web'', service0\<lparr>svc_image := ''org/web:v2'', svc_port := 3000, svc_storage := [''uploads''],
         svc_build := Some \<lparr>bs_context = ''./'', bs_dockerfile = []\<rparr>, svc_databases := [''DATABASE_URL=main''],
         svc_depends_on := [''api'']\<rparr>),
       (''api'', service0\<lparr>svc_image := ''nginx:1'', svc_port := 80, svc_secrets := [''API_KEY'', ''TOKEN=$API_KEY'']\<rparr>)],
     cfg_crons := [(''clean'', cron0\<lparr>cr_image := ''busybox:1'', cr_schedule := ''0 1 * * *'', cr_server := ''master''\<rparr>)],
     cfg_domains := [(''web'', [''shop.example.com''])]\<rparr>"

lemma demo_config_valid: "ValidateConfig nvoi_registries demo_config = None"
  by code_simp

section \<open>What an accepted configuration guarantees\<close>

lemma ValidateConfig_None:
  "ValidateConfig R cfg = None \<longleftrightarrow>
     validate_identity cfg = None \<and> validate_providers R cfg = None \<and> validate_firewall cfg = None \<and>
     validate_servers cfg = None \<and> (\<forall>e \<in> set (cfg_volumes cfg). validate_volume cfg e = None) \<and>
     (\<forall>e \<in> set (cfg_storage cfg). validate_storage e = None) \<and>
     (\<forall>e \<in> set (cfg_databases cfg). validate_database R cfg e = None) \<and>
     (\<forall>e \<in> set (cfg_services cfg). validate_service cfg e = None) \<and> validate_cycles cfg = None \<and>
     (\<forall>e \<in> set (cfg_crons cfg). validate_cron cfg e = None) \<and>
     (\<forall>e \<in> set (cfg_domains cfg). validate_domain cfg e = None) \<and>
     (\<forall>e \<in> set (cfg_secrets cfg). env_name e) \<and>
     (\<forall>e \<in> set (cfg_registry cfg). validate_registry e = None)"
  by (simp add: ValidateConfig_def each_None)

lemma validated_service:
  "ValidateConfig R cfg = None \<Longrightarrow> map_of (cfg_services cfg) name = Some svc \<Longrightarrow> validate_service cfg (name, svc) = None"
  by (auto simp: ValidateConfig_None dest: map_of_SomeD)

lemma validated_cron:
  "ValidateConfig R cfg = None \<Longrightarrow> map_of (cfg_crons cfg) name = Some cron \<Longrightarrow> validate_cron cfg (name, cron) = None"
  by (auto simp: ValidateConfig_None dest: map_of_SomeD)

lemma validated_database:
  "ValidateConfig R cfg = None \<Longrightarrow> map_of (cfg_databases cfg) name = Some db \<Longrightarrow>
   validate_database R cfg (name, db) = None"
  by (auto simp: ValidateConfig_None dest: map_of_SomeD)

lemma validated_names:
  "ValidateConfig R cfg = None \<Longrightarrow> NewNames (cfg_app cfg) (cfg_env cfg) = Inr \<lparr>nm_app = cfg_app cfg, nm_env = cfg_env cfg\<rparr>"
  by (simp add: ValidateConfig_None validate_identity_def)

lemma validated_acyclic: "ValidateConfig R cfg = None \<Longrightarrow> findDependencyCycle (cfg_services cfg) = Some []"
  by (auto simp: ValidateConfig_None validate_cycles_def split: option.splits list.splits)

lemma validated_image:
  assumes "ValidateConfig R cfg = None" "map_of (cfg_services cfg) name = Some svc" "h \<noteq> []"
  shows "\<exists>img. ResolveImage cfg name h = Inr img"
proof (cases "is_build svc")
  case True
  have v: "svc_image svc \<noteq> []" "validate_service_build cfg name svc = None"
    using validated_service [OF assms(1,2)] by (simp_all add: validate_service_def)
  have "\<exists>img. image_with_host cfg name (svc_image svc) = Inr img"
  proof (cases "imageRegistryHost (svc_image svc) = []")
    case True
    with v \<open>is_build svc\<close> have "cfg_registry cfg \<noteq> []" "length (cfg_registry cfg) \<le> 1"
      by (auto simp: validate_service_build_def Let_def)
    then obtain h r where "cfg_registry cfg = [(h, r)]"
      by (cases "cfg_registry cfg") auto
    with True show ?thesis by (simp add: image_with_host_def)
  next
    case False
    with v \<open>is_build svc\<close> show ?thesis
      by (auto simp: validate_service_build_def image_with_host_def Let_def)
  qed
  with v(1) assms(2,3) True show ?thesis by (auto simp: ResolveImage_build)
next
  case False
  with assms(2) show ?thesis by (simp add: ResolveImage_pull)
qed

lemma validate_database_ref_None:
  "validate_database_ref cfg name ref = None \<Longrightarrow> has_key (cfg_databases cfg) (snd (parseDatabaseRef ref))"
  by (simp add: validate_database_ref_def split: prod.splits)



section \<open>The order of the maps\<close>

text \<open>The same configuration, with every Go map visited in another order.\<close>

definition reordered :: "app_config \<Rightarrow> app_config \<Rightarrow> bool" where
  "reordered c c' \<longleftrightarrow>
     c' = c\<lparr>cfg_servers := cfg_servers c', cfg_volumes := cfg_volumes c', cfg_storage := cfg_storage c',
            cfg_databases := cfg_databases c', cfg_registry := cfg_registry c', cfg_services := cfg_services c',
            cfg_crons := cfg_crons c', cfg_domains := cfg_domains c'\<rparr> \<and>
     mset (cfg_servers c) = mset (cfg_servers c') \<and> mset (cfg_volumes c) = mset (cfg_volumes c') \<and>
     mset (cfg_storage c) = mset (cfg_storage c') \<and> mset (cfg_databases c) = mset (cfg_databases c') \<and>
     mset (cfg_registry c) = mset (cfg_registry c') \<and> mset (cfg_services c) = mset (cfg_services c') \<and>
     mset (cfg_crons c) = mset (cfg_crons c') \<and> mset (cfg_domains c) = mset (cfg_domains c')"

definition maps_ok :: "app_config \<Rightarrow> bool" where
  "maps_ok c \<longleftrightarrow> gomap_ok (cfg_servers c) \<and> gomap_ok (cfg_volumes c) \<and> gomap_ok (cfg_storage c) \<and>
     gomap_ok (cfg_databases c) \<and> gomap_ok (cfg_registry c) \<and> gomap_ok (cfg_services c) \<and>
     gomap_ok (cfg_crons c) \<and> gomap_ok (cfg_domains c)"

lemma mset_has_key: "mset m = mset m' \<Longrightarrow> has_key m = has_key m'"
  by (auto simp: has_key_fst fun_eq_iff dest: mset_eq_setD)

lemma mset_length_filter: "mset m = mset m' \<Longrightarrow> length (filter P m) = length (filter P m')"
  by (metis mset_filter size_mset)

lemma mset_Nil: "mset m = mset m' \<Longrightarrow> m = [] \<longleftrightarrow> m' = []"
  by auto

lemma dep_rel_mset: "gomap_ok S \<Longrightarrow> mset S = mset S' \<Longrightarrow> dep_rel S = dep_rel S'"
  using map_of_mset [of S S'] mset_has_key [of S S']
  by (simp add: dep_rel_def depends_def get0_def)

lemma reordered_scalars:
  assumes "reordered c c'"
  shows "cfg_app c' = cfg_app c" "cfg_env c' = cfg_env c" "cfg_providers c' = cfg_providers c"
    "cfg_firewall c' = cfg_firewall c" "cfg_secrets c' = cfg_secrets c"
proof -
  have c': "c' = c\<lparr>cfg_servers := cfg_servers c', cfg_volumes := cfg_volumes c', cfg_storage := cfg_storage c',
      cfg_databases := cfg_databases c', cfg_registry := cfg_registry c', cfg_services := cfg_services c',
      cfg_crons := cfg_crons c', cfg_domains := cfg_domains c'\<rparr>"
    using assms by (simp only: reordered_def)
  show "cfg_app c' = cfg_app c" "cfg_env c' = cfg_env c" "cfg_providers c' = cfg_providers c"
    "cfg_firewall c' = cfg_firewall c" "cfg_secrets c' = cfg_secrets c"
    by (subst c', simp)+
qed

lemma reordered_msets:
  assumes "reordered c c'"
  shows "mset (cfg_servers c) = mset (cfg_servers c')" "mset (cfg_volumes c) = mset (cfg_volumes c')"
    "mset (cfg_storage c) = mset (cfg_storage c')" "mset (cfg_databases c) = mset (cfg_databases c')"
    "mset (cfg_registry c) = mset (cfg_registry c')" "mset (cfg_services c) = mset (cfg_services c')"
    "mset (cfg_crons c) = mset (cfg_crons c')" "mset (cfg_domains c) = mset (cfg_domains c')"
  using assms by (simp_all only: reordered_def)

lemma reordered_keys:
  assumes "reordered c c'"
  shows "has_key (cfg_servers c') = has_key (cfg_servers c)" "has_key (cfg_volumes c') = has_key (cfg_volumes c)"
    "has_key (cfg_storage c') = has_key (cfg_storage c)" "has_key (cfg_databases c') = has_key (cfg_databases c)"
    "has_key (cfg_registry c') = has_key (cfg_registry c)" "has_key (cfg_services c') = has_key (cfg_services c)"
    "cfg_servers c' = [] \<longleftrightarrow> cfg_servers c = []" "cfg_registry c' = [] \<longleftrightarrow> cfg_registry c = []"
    "cfg_domains c' = [] \<longleftrightarrow> cfg_domains c = []" "length (cfg_registry c') = length (cfg_registry c)"
  using reordered_msets [OF assms] by (metis mset_has_key mset_Nil size_mset)+

lemma reordered_maps:
  assumes "maps_ok c" "reordered c c'"
  shows "map_of (cfg_volumes c') = map_of (cfg_volumes c)" "map_of (cfg_services c') = map_of (cfg_services c)"
proof -
  have "gomap_ok (cfg_volumes c)" "gomap_ok (cfg_services c)" using assms(1) by (simp_all add: maps_ok_def)
  then show "map_of (cfg_volumes c') = map_of (cfg_volumes c)" "map_of (cfg_services c') = map_of (cfg_services c)"
    using map_of_mset reordered_msets(2,6) [OF assms(2)] by metis+
qed

lemma reordered_sharing:
  assumes "reordered c c'"
  shows "servicesSharingServer c' s = [] \<longleftrightarrow> servicesSharingServer c s = []"
    "cronsSharingServer c' s = [] \<longleftrightarrow> cronsSharingServer c s = []"
  using reordered_msets(6,7) [OF assms, THEN mset_eq_setD]
  by (simp_all add: servicesSharingServer_def cronsSharingServer_def filter_empty_conv)

lemma reordered_providers:
  assumes "reordered c c'"
  shows "validate_providers R c' = validate_providers R c" "validate_servers c' = None \<longleftrightarrow> validate_servers c = None"
proof -
  note eqs = reordered_scalars [OF assms] reordered_keys [OF assms]
  note m = reordered_msets [OF assms]
  have "builder_count c' = builder_count c" "master_count c' = master_count c"
    using mset_length_filter [OF m(1)] by (simp_all add: builder_count_def master_count_def)
  moreover have "build_name c' = build_name c" "validate_tunnel c' = validate_tunnel c"
    "validate_server c' = validate_server c"
    by (simp_all add: build_name_def validate_tunnel_def validate_server_def eqs fun_eq_iff Let_def)
  ultimately show "validate_providers R c' = validate_providers R c"
    "validate_servers c' = None \<longleftrightarrow> validate_servers c = None"
    by (simp_all only: validate_providers_def validate_build_def validate_servers_def eqs
        first_err_None_Cons each_None m [THEN mset_eq_setD, symmetric] check_None)
qed

lemma reordered_workloads:
  assumes "maps_ok c" "reordered c c'"
  shows "validate_service c' = validate_service c" "validate_cron c' = validate_cron c"
proof -
  note eqs = reordered_scalars [OF assms(2)] reordered_keys [OF assms(2)] reordered_maps [OF assms]
    reordered_sharing [OF assms(2)]
  show "validate_service c' = validate_service c"
    by (intro ext, unfold validate_service_def validate_service_build_def validate_database_ref_def validateVolumeMounts_def
        validateVolumeServer_def hasNamedVolume_def eqs, rule refl)
  show "validate_cron c' = validate_cron c"
    by (intro ext, unfold validate_cron_def validate_database_ref_def validateVolumeMounts_def validateVolumeServer_def
        hasNamedVolume_def eqs, rule refl)
qed

text \<open> whether \<open>ValidateConfig\<close> accepts a configuration does not depend on the orders in which Go
  visits its maps.
\<close>

theorem validate_order_independent:
  assumes "maps_ok c" "reordered c c'"
  shows "ValidateConfig R c = None \<longleftrightarrow> ValidateConfig R c' = None"
proof -
  note eqs = reordered_scalars [OF assms(2)] reordered_keys [OF assms(2)] reordered_maps [OF assms]
    reordered_sharing [OF assms(2)]
  note sets = reordered_msets [OF assms(2), THEN mset_eq_setD, symmetric]
  have "gomap_ok (cfg_services c)" using assms(1) by (simp add: maps_ok_def)
  note rel = dep_rel_mset [OF this reordered_msets(6) [OF assms(2)]]
  have start: "validate_identity c' = validate_identity c" "validate_firewall c' = validate_firewall c"
    by (simp_all add: validate_identity_def validate_firewall_def eqs)
  have "validate_volume c' = validate_volume c" by (simp add: validate_volume_def eqs fun_eq_iff)
  moreover have "validate_database R c' e = None \<longleftrightarrow> validate_database R c e = None" for e
    by (cases e) (simp add: validate_database_def validate_selfhosted_def eqs split: option.split)
  moreover have "validate_cycles c' = None \<longleftrightarrow> validate_cycles c = None"
    using rel findDependencyCycle_acyclic [of "cfg_services c"] findDependencyCycle_acyclic [of "cfg_services c'"]
    by (auto simp: validate_cycles_def split: option.splits list.splits)
  moreover have "validate_domain c' = validate_domain c"
    by (intro ext, unfold validate_domain_def eqs, rule refl)
  ultimately show ?thesis
    using reordered_providers(1) [OF assms(2), of R] reordered_providers(2) [OF assms(2)] reordered_workloads [OF assms]
    unfolding ValidateConfig_None sets reordered_scalars [OF assms(2)] start by simp
qed

corollary validate_order_independent_witness:
  "ValidateConfig nvoi_registries (demo_config\<lparr>cfg_services := rev (cfg_services demo_config),
     cfg_servers := rev (cfg_servers demo_config)\<rparr>) = None"
proof -
  have "maps_ok demo_config" by code_simp
  moreover have "reordered demo_config (demo_config\<lparr>cfg_services := rev (cfg_services demo_config),
     cfg_servers := rev (cfg_servers demo_config)\<rparr>)"
    by (simp add: reordered_def)
  ultimately show ?thesis
    using validate_order_independent demo_config_valid by blast
qed

section \<open>Tunnels and the ports 80 and 443\<close>

lemma add_cidr_keys: "has_key (add_cidr port c m) p \<Longrightarrow> p = port \<or> has_key m p"
  by (auto simp: add_cidr_def Let_def split: if_splits)

lemma add_cidrs_keys: "has_key (fold (add_cidr port) cs m) p \<Longrightarrow> p = port \<or> has_key m p"
  by (induction cs arbitrary: m) (auto dest: add_cidr_keys)

lemma add_group_keys:
  assumes "has_key (add_group g m) p" "\<not> has_key m p"
  shows "p = fst (cut CHR '':'' (trim_space g)) \<and> snd (snd (cut CHR '':'' (trim_space g)))"
  using assms by (auto simp: add_group_def dest: add_cidrs_keys split: prod.splits if_splits)

lemma ParseRawRules_keys:
  assumes "has_key (ParseRawRules args) p"
  shows "\<exists>a \<in> set args. \<exists>g \<in> set (split_on CHR '';'' a).
    p = fst (cut CHR '':'' (trim_space g)) \<and> snd (snd (cut CHR '':'' (trim_space g)))"
proof -
  have groups: "has_key (fold add_group gs m) p \<Longrightarrow> has_key m p \<or>
      (\<exists>g \<in> set gs. p = fst (cut CHR '':'' (trim_space g)) \<and> snd (snd (cut CHR '':'' (trim_space g))))" for gs m
    by (induction gs arbitrary: m) (auto dest: add_group_keys)
  have "has_key (fold (\<lambda>arg r. fold add_group (split_on CHR '';'' arg) r) args m) p \<Longrightarrow> has_key m p \<or>
      (\<exists>a \<in> set args. \<exists>g \<in> set (split_on CHR '';'' a).
        p = fst (cut CHR '':'' (trim_space g)) \<and> snd (snd (cut CHR '':'' (trim_space g))))" for m
    by (induction args arbitrary: m) (auto dest: groups)
  from this [of "[]"] assms show ?thesis
    unfolding ParseRawRules_def by (simp only: has_key_fst) simp
qed


definition tunnel_config :: "string list \<Rightarrow> app_config" where
  "tunnel_config rules = demo_config\<lparr>cfg_firewall := rules,
     cfg_providers := (cfg_providers demo_config)\<lparr>p_tunnel := ''cloudflare''\<rparr>\<rparr>"


text \<open> the proviso is needed. The check cuts a rule at its first colon, the parser first splits it
  at semicolons: a rule of two groups passes the validation and opens port 80 to the world
  behind a tunnel.
\<close>

theorem tunnel_port_bypass:
  "\<exists>rules m. ValidateConfig nvoi_registries (tunnel_config rules) = None \<and>
     FirewallAllowList (tunnel_config rules) = Inr m \<and> map_of m ''80'' = Some [''0.0.0.0/0'']"
proof (intro exI conjI)
  let ?rules = "[''22:1.2.3.4/32;80:0.0.0.0/0'']"
  show "ValidateConfig nvoi_registries (tunnel_config ?rules) = None" by code_simp
  show "FirewallAllowList (tunnel_config ?rules) = Inr [(''22'', [''1.2.3.4/32'']), (''80'', [''0.0.0.0/0''])]"
    by code_simp
  show "map_of [(''22'', [''1.2.3.4/32'']), (''80'', [''0.0.0.0/0''])] ''80'' = Some [''0.0.0.0/0'']" by simp
qed

end
