(* ===== verification/Deploy.thy ===== *)
theory Deploy
  imports Databases Ingress Images Validate
begin

text \<open>
  The deploy: \<open>internal/reconcile/reconcile.go\<close>, and the command around it (\<open>cmd/cli/deploy.go\<close>). The
  images are built first; then the plan is computed and shown; when it is accepted the steps run, on
  the \<open>loud\<close> path, which reconciles the infrastructure, or on the quiet path, which leaves it alone.
  The time stamp of the deploy and the callback that shows the plan are arguments.
\<close>

section \<open>Before the plan\<close>

definition masterServerType :: "app_config \<Rightarrow> string" where
  "masterServerType cfg =
     (case find (\<lambda>(n, srv). srv_role srv = RoleMaster) (cfg_servers cfg) of
        None \<Rightarrow> [] | Some (n, srv) \<Rightarrow> srv_type srv)"

text \<open>The hash of the deploy, and the provider's name when the context has none.\<close>

definition stamped :: "string \<Rightarrow> 'w deploy_context \<Rightarrow> app_config \<Rightarrow> 'w deploy_context" where
  "stamped now dc cfg =
     dc\<lparr>dx_provider := (if dx_provider dc = [] then p_infra (cfg_providers cfg) else dx_provider dc), dx_hash := now\<rparr>"

definition build_capability :: "'w provider_set \<Rightarrow> string \<Rightarrow> goerr + bool" where
  "build_capability P name =
     (case map_of (ps_build_caps P) name of
        None \<Rightarrow> Inl (Errorf ''unsupported build provider'' [name]) | Some requires \<Rightarrow> Inr requires)"

definition build_hosts :: "'w infra_provider \<Rightarrow> 'w bootstrap_context \<Rightarrow> bool \<Rightarrow> ('w, builder_target list) act" where
  "build_hosts infra bctx requires =
     (if requires
      then thenA (wrapA ''provision builders'' (ip_provision_builders infra bctx))
             (wrapA ''builder targets'' (readA (ip_builder_targets infra bctx)))
      else retA [])"

definition build_phase ::
    "'w provider_set \<Rightarrow> 'w infra_provider \<Rightarrow> 'w bootstrap_context \<Rightarrow> 'w deploy_context \<Rightarrow> app_config \<Rightarrow> ('w, unit) act" where
  "build_phase P infra bctx dc cfg =
     bindA (readA (\<lambda>_. wrapR ''resolve build capability'' (build_capability P (builder_name cfg)))) (\<lambda>requires.
     bindA (build_hosts infra bctx requires) (\<lambda>builders.
       BuildImages P dc cfg (''linux/'' @ ip_arch infra (masterServerType cfg)) builders))"

section \<open>After the plan\<close>

definition attach :: "'w infra_provider \<Rightarrow> 'w bootstrap_context \<Rightarrow> bool \<Rightarrow> ('w, 'w kube_client) act" where
  "attach infra bctx loud =
     (if loud then wrapA ''infra.Bootstrap'' (ip_bootstrap infra bctx) else wrapA ''infra.Connect'' (ip_connect infra bctx))"

definition with_shell :: "'w shell option \<Rightarrow> 'w deploy_context \<Rightarrow> 'w deploy_context" where
  "with_shell sh dc = (case sh of None \<Rightarrow> dc | Some s \<Rightarrow> dc\<lparr>dx_shell := Some s\<rparr>)"

text \<open>A missing credential source is dereferenced when the first key is read.\<close>

definition secret_source :: "'w deploy_context \<Rightarrow> cred_source" where
  "secret_source dc = (case dx_creds dc of Some source \<Rightarrow> source | None \<Rightarrow> (\<lambda>_. Inl (ExtErr ''nil credential source'')))"

definition deploy_sources ::
    "'w provider_set \<Rightarrow> 'w deploy_context \<Rightarrow> app_config \<Rightarrow> bool \<Rightarrow> string gomap \<Rightarrow> ('w, string gomap \<times> pending_migration list) act" where
  "deploy_sources P dc cfg loud secretValues =
     (if loud
      then bindA (Storage P dc cfg) (\<lambda>storageCreds.
           bindA (Databases P dc cfg secretValues) (\<lambda>(databaseCreds, pending).
             retA (mergeSources [secretValues, storageCreds, databaseCreds], pending)))
      else bindA (wrapA ''read existing storage creds'' (readA (readExistingStorageCreds P dc cfg))) (\<lambda>storageCreds.
           bindA (wrapA ''read existing database URLs'' (readA (readExistingDatabaseURLs dc cfg))) (\<lambda>databaseCreds.
             retA (mergeSources [secretValues, storageCreds, databaseCreds], []))))"

definition route_traffic ::
    "'w provider_set \<Rightarrow> 'w infra_provider \<Rightarrow> 'w bootstrap_context \<Rightarrow> 'w runtime \<Rightarrow> 'w deploy_context \<Rightarrow> app_config \<Rightarrow> bool \<Rightarrow> ('w, unit) act" where
  "route_traffic P infra bctx rt dc cfg loud =
     (if p_tunnel (cfg_providers cfg) \<noteq> [] then TunnelIngress P dc cfg
      else if ip_public_ingress infra \<and> cfg_domains cfg \<noteq> []
      then thenA (whenA loud (thenA (RouteDomains P dc cfg infra bctx) (ignoreA (verifyDNSPropagation P rt dc cfg))))
             (Ingress dc cfg)
      else retA ())"

text \<open>The steps with a client for the cluster; the result is the list of pending migrations.\<close>

definition deploy_steps ::
    "'w provider_set \<Rightarrow> 'w infra_provider \<Rightarrow> 'w bootstrap_context \<Rightarrow> 'w deploy_context \<Rightarrow> app_config \<Rightarrow> bool \<Rightarrow> 'w kube_client \<Rightarrow>
      ('w, pending_migration list) act" where
  "deploy_steps P infra bctx dc0 cfg loud kc =
     bindA (wrapA ''infra.NodeShell'' (ip_node_shell infra bctx)) (\<lambda>sh.
     let dc = with_shell sh (dc0\<lparr>dx_kube := Some kc\<rparr>); api = cl_api kc; rt = cl_runtime kc
     in bindA (readA (\<lambda>_. Names dc)) (\<lambda>names.
        thenA (wrapA ''ensure namespace'' (EnsureNamespace api (KubeNamespace names)))
        (thenA (wrapA ''registries'' (Registries api names (dx_creds dc) cfg))
        (bindA (readA (\<lambda>_. Secrets (secret_source dc) cfg)) (\<lambda>secretValues.
         bindA (deploy_sources P dc cfg loud secretValues) (\<lambda>(sources, pending).
         thenA (Services api rt names (dx_hash dc) cfg sources)
         (thenA (Crons api names (dx_hash dc) cfg sources)
         (thenA (whenA loud (ip_teardown_orphans infra bctx))
         (thenA (route_traffic P infra bctx rt dc cfg loud)
           (retA pending))))))))))"

section \<open>The deploy\<close>

text \<open>
  What a deploy ended with: nothing to change, declined by the operator, or applied, with the
  migrations that \<open>emitPendingMigrations\<close> prints.
\<close>

datatype outcome = NoChanges | Aborted | Applied "pending_migration list"

definition consent :: "(plan \<Rightarrow> 'w \<Rightarrow> goerr + bool) option \<Rightarrow> plan \<Rightarrow> ('w, bool) act" where
  "consent onPlan p = (case onPlan of None \<Rightarrow> retA True | Some f \<Rightarrow> readA (f p))"

definition deploy_plan ::
    "'w provider_set \<Rightarrow> (plan \<Rightarrow> 'w \<Rightarrow> goerr + bool) option \<Rightarrow> 'w infra_provider \<Rightarrow> 'w bootstrap_context \<Rightarrow> 'w deploy_context \<Rightarrow>
      app_config \<Rightarrow> plan \<Rightarrow> ('w, outcome) act" where
  "deploy_plan P onPlan infra bctx dc cfg p =
     (if Changes p = [] then retA NoChanges
      else bindA (consent onPlan p) (\<lambda>proceed.
        if \<not> proceed then retA Aborted
        else bindA (attach infra bctx (HasInfraChanges p)) (\<lambda>kc.
             bindA (deploy_steps P infra bctx dc cfg (HasInfraChanges p) kc) (\<lambda>pending. retA (Applied pending)))))"

definition Deploy ::
    "'p registries \<Rightarrow> 'w provider_set \<Rightarrow> (plan \<Rightarrow> 'w \<Rightarrow> goerr + bool) option \<Rightarrow> string \<Rightarrow> 'w deploy_context \<Rightarrow> app_config \<Rightarrow>
      ('w, outcome) act" where
  "Deploy R P onPlan now dc0 cfg0 =
     (case ValidateConfig R cfg0 of
        Some e \<Rightarrow> failA e
      | None \<Rightarrow>
          bindA (readA (\<lambda>_. Resolve cfg0)) (\<lambda>cfg.
          let dc = stamped now dc0 cfg; bctx = BootstrapContext dc cfg
          in bindA (readA (\<lambda>_. wrapR ''resolve infra provider'' (resolve (ps_infra P) (bc_provider bctx) (dx_credentials dc)))) (\<lambda>infra.
             thenA (build_phase P infra bctx dc cfg)
             (bindA (wrapA ''plan'' (ComputePlan P dc cfg)) (deploy_plan P onPlan infra bctx dc cfg)))))"

text \<open>\<open>emitPendingMigrations\<close>: the lines of the summary.\<close>

definition emitPendingMigrations :: "pending_migration list \<Rightarrow> string list" where
  "emitPendingMigrations pending =
     (if pending = [] then []
      else (''Pending migrations ('' @ itoa (int (length pending)) @ ''):'') #
        concat (map (\<lambda>p. [''    databases.'' @ pm_database p @ ''     '' @ pm_from p @ '' -> '' @ pm_to p,
          ''    Run: nvoi database migrate '' @ pm_database p]) pending))"

text \<open>The command's callback: the answer is the line typed at the prompt, absent when reading it fails.\<close>

definition promptYes :: "string option \<Rightarrow> bool" where
  "promptYes line = (case line of None \<Rightarrow> False | Some l \<Rightarrow> to_lower (trim_space l) \<in> {''y'', ''yes''})"

definition on_plan_cli :: "bool \<Rightarrow> bool \<Rightarrow> ('w \<Rightarrow> string option) \<Rightarrow> plan \<Rightarrow> 'w \<Rightarrow> goerr + bool" where
  "on_plan_cli autoApprove tty typed p w =
     (if autoApprove \<or> Promptable p = [] then Inr True
      else if \<not> tty then Inl (Errorf ''plan has changes requiring confirmation'' [itoa (int (length (Promptable p)))])
      else Inr (promptYes (typed w)))"

end
