(* ===== verification/ClusterCalls.thy ===== *)
theory ClusterCalls
  imports Ingress
begin

text \<open>
  What the steps that only talk to the cluster may do to the world: whatever every call of the
  cluster's client keeps. \<open>R\<close> can be any relation that is reflexive and transitive, for example that
  the infrastructure is unchanged.
\<close>

definition client_keeps :: "('w \<Rightarrow> 'w \<Rightarrow> bool) \<Rightarrow> 'w kube_client \<Rightarrow> bool" where
  "client_keeps R c \<longleftrightarrow>
     (\<forall>k ns ob w. R w (snd (api_create (cl_api c) k ns ob w)) \<and> R w (snd (api_update (cl_api c) k ns ob w))) \<and>
     (\<forall>k ns n w. R w (snd (api_delete (cl_api c) k ns n w))) \<and>
     (\<forall>f s. (\<forall>s. R (snd s) (snd (snd (f s)))) \<longrightarrow> R (snd s) (snd (snd (api_retry (cl_api c) f s)))) \<and>
     (\<forall>d w. R w (snd (rt_sleep (cl_runtime c) d w))) \<and>
     (\<forall>ns pod ct cmd stdin w. R w (snd (px_run (cl_exec c) ns pod ct cmd stdin w)))"

lemma client_keepsD:
  assumes "client_keeps R c"
  shows "R w (snd (api_create (cl_api c) k ns ob w))" "R w (snd (api_update (cl_api c) k ns ob w))"
    "R w (snd (api_delete (cl_api c) k ns n w))" "R w (snd (rt_sleep (cl_runtime c) d w))"
    "R w (snd (px_run (cl_exec c) ns pod ct cmd stdin w))"
  using assms by (simp_all add: client_keeps_def)

lemma client_retryD:
  "client_keeps R c \<Longrightarrow> (\<And>s. R (snd s) (snd (snd (f s)))) \<Longrightarrow> R (snd s) (snd (snd (api_retry (cl_api c) f s)))"
  unfolding client_keeps_def by blast

lemma keeps_call: "(\<And>w. R w (snd (f w))) \<Longrightarrow> keeps R (call f)" "(\<And>w. R w (snd (g w))) \<Longrightarrow> keeps R (call_ignoring g)"
  by (simp_all add: keeps_def call_def call_ignoring_def case_prod_beta)

context step_relation
begin

lemma upsert_keeps:
  assumes "client_keeps R c"
  shows "R (snd s) (snd (snd (upsert (cl_api c) k ns name s)))"
  using client_keepsD [OF assms]
  by (auto simp: upsert_def Let_def refl split: prod.splits sum.splits api_err.splits) (metis snd_conv)+

lemma applyTyped_keeps:
  assumes "client_keeps R c"
  shows "keeps R (applyTyped (cl_api c) ns name typed)"
proof -
  have "R (snd (typed, w)) (snd (snd (api_retry (cl_api c) (upsert (cl_api c) k kns name) (typed, w))))" for k kns w
    by (rule client_retryD [OF assms]) (rule upsert_keeps [OF assms])
  moreover have "R w (snd (call (api_create (cl_api c) KindPVC ns typed) w))" for w
    using keeps_call(1) [of R "api_create (cl_api c) KindPVC ns typed"] client_keepsD(1) [OF assms] by (simp add: keeps_def)
  ultimately show ?thesis
    by (auto simp: keeps_def applyTyped_def Let_def refl split: prod.splits sum.splits api_err.splits) (metis snd_conv)+
qed

lemma ApplyOwned_keeps: "client_keeps R c \<Longrightarrow> keeps R (ApplyOwned (cl_api c) ns owner obj)"
  by (auto simp: ApplyOwned_def Apply_def Let_def intro!: fail wrap applyTyped_keeps)

lemma EnsureNamespace_keeps: "client_keeps R c \<Longrightarrow> keeps R (EnsureNamespace (cl_api c) name)"
  by (auto simp: EnsureNamespace_def Apply_def Let_def intro!: fail wrap applyTyped_keeps)

lemma keeps_at: "keeps R m \<Longrightarrow> R w (snd (m w))"
  by (simp add: keeps_def)

lemma EnsureSecret_keeps: "client_keeps R c \<Longrightarrow> keeps R (EnsureSecret (cl_api c) ns owner name kvs)"
  unfolding keeps_def EnsureSecret_def
  by (auto simp: refl split: sum.split api_err.split intro!: keeps_at wrap keeps_call dest: client_keepsD)

lemma DeleteSecretKey_keeps: "client_keeps R c \<Longrightarrow> keeps R (DeleteSecretKey (cl_api c) ns name key)"
  unfolding keeps_def DeleteSecretKey_def
  by (auto simp: refl split: sum.split api_err.split intro!: keeps_at wrap keeps_call dest: client_keepsD)

lemma DeleteSecret_keeps: "client_keeps R c \<Longrightarrow> keeps R (DeleteSecret (cl_api c) ns name)"
  by (auto simp: DeleteSecret_def intro!: wrap keeps_call dest: client_keepsD)

lemma SweepOwned_keeps: "client_keeps R c \<Longrightarrow> keeps R (SweepOwned (cl_api c) ns owner k desired)"
  unfolding keeps_def SweepOwned_def
  by (auto simp: refl split: sum.split option.split intro!: keeps_at loop wrap ret keeps_call dest: client_keepsD)

lemma poll_keeps: "client_keeps R c \<Longrightarrow> R w (snd (snd (poll_loop n (cl_runtime c) interval deadline fn s w)))"
proof (induction n arbitrary: s w)
  case (Suc n)
  have "R w w1" if "rt_sleep (cl_runtime c) interval w = (x, w1)" for x w1
    using client_keepsD(4) [OF Suc.prems, of w interval] that by simp
  with Suc.IH [OF Suc.prems] show ?case
    by (auto simp: refl split: if_splits option.splits prod.splits sum.splits intro: trans)
qed (simp add: refl)

lemma Poll_keeps: "client_keeps R c \<Longrightarrow> Poll (cl_runtime c) interval timeout fn s w = (r, s', w') \<Longrightarrow> R w w'"
  unfolding Poll_def by (metis poll_keeps snd_conv)

lemma WaitRollout_keeps:
  assumes "client_keeps R c"
  shows "keeps R (WaitRollout (cl_runtime c) ns name health)"
proof -
  have "R w w1" if "rt_sleep (cl_runtime c) d w = (x, w1)" for x w w1 d
    using client_keepsD(4) [OF assms, of w d] that by simp
  then show ?thesis
    by (auto simp: keeps_def WaitRollout_def split: prod.split sum.split option.split)
      (blast intro: trans Poll_keeps [OF assms])+
qed

section \<open>The steps\<close>

lemma Registries_keeps: "client_keeps R c \<Longrightarrow> keeps R (Registries (cl_api c) names creds cfg)"
  by (auto simp: Registries_def Let_def intro!: rules DeleteSecret_keeps ApplyOwned_keeps)

lemma upsertServiceSecrets_keeps:
  assumes "client_keeps R c"
  shows "keeps R (upsertServiceSecrets (cl_api c) names name kvs)"
proof -
  have "keeps R (forA (\<lambda>key. ignoreA (DeleteSecretKey (cl_api c) ns s key)) keys)" for ns s keys
    by (intro rules DeleteSecretKey_keeps assms)
  then have "keeps R (\<lambda>w. case ListSecretKeys (cl_api c) ns s w of
      Inl _ \<Rightarrow> (Inr (), w) | Inr existing \<Rightarrow> forA (\<lambda>key. ignoreA (DeleteSecretKey (cl_api c) ns s key)) (f existing) w)" for ns s f
    by (auto simp: keeps_def refl split: sum.split)
  then show ?thesis
    by (auto simp: upsertServiceSecrets_def Let_def intro!: rules DeleteSecret_keeps EnsureSecret_keeps assms)
qed

lemma Services_keeps: "client_keeps R c \<Longrightarrow> keeps R (Services (cl_api c) (cl_runtime c) names hash cfg sources)"
  by (auto simp: Services_def service_step_def ServiceSet_def service_sweeps_def Let_def
      intro!: rules upsertServiceSecrets_keeps ApplyOwned_keeps WaitRollout_keeps SweepOwned_keeps split: prod.split)

lemma Crons_keeps: "client_keeps R c \<Longrightarrow> keeps R (Crons (cl_api c) names hash cfg sources)"
  by (auto simp: Crons_def cron_step_def CronSet_def Let_def
      intro!: rules upsertServiceSecrets_keeps ApplyOwned_keeps SweepOwned_keeps split: prod.split)

lemma EnsureCaddy_keeps: "client_keeps R c \<Longrightarrow> keeps R (EnsureCaddy (cl_api c) (cl_runtime c) px)"
  by (auto simp: EnsureCaddy_def waitForCaddyReady_def keeps_def [of R "waitForCaddyReady (cl_api c) (cl_runtime c) px"]
      intro!: rules ApplyOwned_keeps dest: Poll_keeps split: prod.split)

lemma probe_keeps: "client_keeps R c \<Longrightarrow> keeps R (probe_until (cl_runtime c) px timeout pod cmd)"
  by (auto simp: probe_until_def keeps_def dest: Poll_keeps split: prod.split)

lemma ReloadCaddyConfig_keeps:
  assumes "client_keeps R c"
  shows "keeps R (ReloadCaddyConfig (cl_runtime c) (cl_exec c) json)"
proof -
  have "R w w1" if "px_run (cl_exec c) ns pod ct cmd stdin w = (x, w1)" for ns pod ct cmd stdin w x w1
    using client_keepsD(5) [OF assms, of w ns pod ct cmd stdin] that by simp
  then show ?thesis
    by (auto simp: ReloadCaddyConfig_def keeps_def refl split: prod.split sum.split option.split)
qed

lemma Ingress_keeps:
  assumes "client_keeps R c" "dx_kube dc = Some c"
  shows "keeps R (Ingress dc cfg)"
proof -
  have "keeps R (verify_domain (cl_runtime c) (cl_exec c) p d)" for p d
    by (auto simp: verify_domain_def WaitForCaddyCert_def WaitForCaddyHTTPS_def intro!: rules probe_keeps assms(1))
  moreover have "keeps R (ingress_route api ns cfg routes s)" for api ns routes s
    by (auto simp: ingress_route_def Let_def intro!: rules)
  ultimately show ?thesis
    using assms(2) by (auto simp: Ingress_def Let_def sweep_all_def
        intro!: rules SweepOwned_keeps EnsureCaddy_keeps ReloadCaddyConfig_keeps assms(1))
qed

end

end
