(* ===== verification/Http.thy ===== *)
theory Http
  imports Shells
begin

text \<open>
  The HTTP client of the cloud APIs (\<open>pkg/utils/httpclient.go\<close>), the errors the providers tell apart
  (\<open>pkg/provider/infra\<close>), and the deletion of a cloud resource (\<open>pkg/provider/infra/ensure\<close>). What
  the service answers to a request is a parameter; requests and answers are typed, the JSON text they
  travel as is left out.
\<close>

section \<open>Errors\<close>

definition ErrNotFound :: goerr where "ErrNotFound = Errorf ''not found'' []"
definition ErrLocked :: goerr where "ErrLocked = Errorf ''resource locked'' []"
definition ErrInUse :: goerr where "ErrInUse = Errorf ''resource in use'' []"
definition ErrAlreadyAttached :: goerr where "ErrAlreadyAttached = Errorf ''already attached'' []"
definition ErrNotAttached :: goerr where "ErrNotAttached = Errorf ''not attached'' []"

text \<open>A request fails on the way, or is refused with a status and a body.\<close>

datatype api_fault = Transport goerr | Refused int string

type_synonym ('w, 'a) http = "'w \<Rightarrow> (api_fault + 'a) \<times> 'w"

record api_client =
  ac_label :: string
  ac_classify :: "int \<Rightarrow> string \<Rightarrow> goerr option"

text \<open>An \<open>APIError\<close>, and one that is wrapped in the sentinel it was classified as.\<close>

definition refused_error :: "string \<Rightarrow> int \<Rightarrow> string \<Rightarrow> goerr" where
  "refused_error label status body = Errorf ''api error'' [label, itoa status, body]"

definition http_error :: "api_client \<Rightarrow> api_fault \<Rightarrow> goerr" where
  "http_error c fault =
     (case fault of
        Transport e \<Rightarrow> e
      | Refused status body \<Rightarrow>
          (case ac_classify c status body of
             Some sentinel \<Rightarrow> Wrapf (ac_label c @ '': '' @ itoa status @ '' '' @ body) sentinel
           | None \<Rightarrow> refused_error (ac_label c) status body))"

definition IsNotFound :: "goerr \<Rightarrow> bool" where
  "IsNotFound e \<longleftrightarrow> errors_is e ErrNotFound \<or>
     (case e of Errorf key args \<Rightarrow> key = ''api error'' \<and> length args = 3 \<and> args ! 1 = ''404'' | _ \<Rightarrow> False)"

text \<open>A request that only reads, and one that may change what the service holds.\<close>

definition get :: "api_client \<Rightarrow> ('w \<Rightarrow> api_fault + 'a) \<Rightarrow> 'w \<Rightarrow> goerr + 'a" where
  "get c f w = (case f w of Inl fault \<Rightarrow> Inl (http_error c fault) | Inr a \<Rightarrow> Inr a)"

definition send :: "api_client \<Rightarrow> ('w, 'a) http \<Rightarrow> ('w, 'a) act" where
  "send c f w = (case f w of (Inl fault, w') \<Rightarrow> (Inl (http_error c fault), w') | (Inr a, w') \<Rightarrow> (Inr a, w'))"

text \<open>A call where an error of one class counts as success.\<close>

definition tolerate :: "(goerr \<Rightarrow> bool) \<Rightarrow> ('w, unit) act \<Rightarrow> ('w, unit) act" where
  "tolerate ok m w = (case m w of (Inl e, w') \<Rightarrow> (if ok e then Inr () else Inl e, w') | (Inr u, w') \<Rightarrow> (Inr u, w'))"

section \<open>Timing\<close>

definition PollInterval :: int where "PollInterval = 3"
definition PollFast :: int where "PollFast = 120"
definition PollSlow :: int where "PollSlow = 300"

section \<open>Deleting a resource\<close>

record 'w delete_plan =
  de_find :: "'w \<Rightarrow> goerr + string option"
  de_pre :: "(string \<Rightarrow> ('w, unit) act) list"
  de_delete :: "string \<Rightarrow> ('w, unit) act"
  de_gone :: "('w \<Rightarrow> goerr + bool) option"
  de_timeout :: int

definition ensure_Delete :: "'w runtime \<Rightarrow> 'w delete_plan \<Rightarrow> ('w, unit) act" where
  "ensure_Delete rt plan =
     bindA (readA (de_find plan)) (\<lambda>found.
       (case found of
          None \<Rightarrow> retA ()
        | Some i \<Rightarrow>
            thenA (forA (\<lambda>step. step i) (de_pre plan))
            (thenA (tolerate (\<lambda>e. errors_is e ErrNotFound) (de_delete plan i))
              (case de_gone plan of
                 None \<Rightarrow> retA ()
               | Some gone \<Rightarrow> PollA rt PollInterval (de_timeout plan) (readA gone)))))"

section \<open>Rules\<close>

lemma get_Inr [simp]: "get c f w = Inr a \<longleftrightarrow> f w = Inr a"
  by (auto simp: get_def split: sum.split)

lemma get_Inl [simp]: "get c f w = Inl e \<longleftrightarrow> (\<exists>fault. f w = Inl fault \<and> e = http_error c fault)"
  by (auto simp: get_def split: sum.split)

lemma send_Inr: "send c f w = (Inr a, w') \<longleftrightarrow> f w = (Inr a, w')"
  by (auto simp: send_def split: sum.split prod.split)

lemma snd_send [simp]: "snd (send c f w) = snd (f w)"
  by (simp add: send_def split: sum.split prod.split)

lemma snd_tolerate [simp]: "snd (tolerate ok m w) = snd (m w)"
  by (simp add: tolerate_def split: sum.split prod.split)

lemma tolerate_Inr: "tolerate ok m w = (Inr (), w') \<longleftrightarrow>
    m w = (Inr (), w') \<or> (\<exists>e. m w = (Inl e, w') \<and> ok e)"
  by (auto simp: tolerate_def split: sum.split prod.split)

context step_relation begin

lemma sending: "(\<And>w. R w (snd (f w))) \<Longrightarrow> keeps R (send c f)"
  by (simp add: keeps_def)

lemma tolerating: "keeps R m \<Longrightarrow> keeps R (tolerate ok m)"
  by (simp add: keeps_def)

end

text \<open>
  A deletion that succeeded either found nothing, or asked for the deletion, after every step before it
  had succeeded, and waited until the resource was gone where there is something to wait for.
\<close>

theorem delete_in_order:
  assumes "ensure_Delete rt plan w = (Inr (), w')"
  shows "(de_find plan w = Inr None \<and> w' = w) \<or>
    (\<exists>i w1 w2 r. de_find plan w = Inr (Some i) \<and> forA (\<lambda>step. step i) (de_pre plan) w = (Inr (), w1) \<and>
      de_delete plan i w1 = (r, w2) \<and> (case r of Inl e \<Rightarrow> errors_is e ErrNotFound | Inr _ \<Rightarrow> True) \<and>
      (case de_gone plan of None \<Rightarrow> w' = w2 | Some gone \<Rightarrow> gone w' = Inr True))"
proof -
  from assms obtain found where find: "de_find plan w = Inr found"
    and rest: "(case found of
          None \<Rightarrow> retA ()
        | Some i \<Rightarrow>
            thenA (forA (\<lambda>step. step i) (de_pre plan))
            (thenA (tolerate (\<lambda>e. errors_is e ErrNotFound) (de_delete plan i))
              (case de_gone plan of
                 None \<Rightarrow> retA ()
               | Some gone \<Rightarrow> PollA rt PollInterval (de_timeout plan) (readA gone)))) w = (Inr (), w')"
    unfolding ensure_Delete_def bindA_read by blast
  show ?thesis
  proof (cases found)
    case None
    with rest find show ?thesis by simp
  next
    case (Some i)
    with rest obtain w1 w2 where pre: "forA (\<lambda>step. step i) (de_pre plan) w = (Inr (), w1)"
      and del: "tolerate (\<lambda>e. errors_is e ErrNotFound) (de_delete plan i) w1 = (Inr (), w2)"
      and gone: "(case de_gone plan of None \<Rightarrow> retA () | Some gone \<Rightarrow> PollA rt PollInterval (de_timeout plan) (readA gone)) w2 = (Inr (), w')"
      by (auto simp: thenA_Inr)
    from del obtain r where "de_delete plan i w1 = (r, w2)" "case r of Inl e \<Rightarrow> errors_is e ErrNotFound | Inr _ \<Rightarrow> True"
      by (auto simp: tolerate_Inr)
    moreover from gone have "case de_gone plan of None \<Rightarrow> w' = w2 | Some gone \<Rightarrow> gone w' = Inr True"
      by (auto split: option.splits dest: PollA_Inr)
    ultimately show ?thesis using find pre Some by blast
  qed
qed

end
