(* ===== verification/Teardown.thy ===== *)
theory Teardown
  imports Deploy Http
begin

text \<open>
  \<open>internal/core/teardown.go\<close>: removing what a deploy created at the providers. Every step runs
  whatever happened to the ones before; the errors are collected.
\<close>

section \<open>Steps that cannot stop the rest\<close>

type_synonym 'w effort = "'w \<Rightarrow> goerr list \<times> 'w"

definition tryA :: "('w, 'a) act \<Rightarrow> 'w effort" where
  "tryA m w = (case m w of (Inl e, w') \<Rightarrow> ([e], w') | (Inr _, w') \<Rightarrow> ([], w'))"

definition failed :: "goerr \<Rightarrow> 'w effort" where
  "failed e w = ([e], w)"

fun efforts :: "'w effort list \<Rightarrow> 'w effort" where
  "efforts [] w = ([], w)"
| "efforts (t # ts) w = (case t w of (e, w1) \<Rightarrow> (case efforts ts w1 of (es, w2) \<Rightarrow> (e @ es, w2)))"

section \<open>Teardown\<close>

definition configured_domains :: "app_config \<Rightarrow> string list" where
  "configured_domains cfg = concat (map (get0 [] (cfg_domains cfg)) (SortedKeys (cfg_domains cfg)))"

definition teardown_dns :: "'w provider_set \<Rightarrow> 'w deploy_context \<Rightarrow> app_config \<Rightarrow> 'w effort" where
  "teardown_dns P dc cfg =
     (if rf_name (dx_dns dc) = [] \<or> cfg_domains cfg = [] then efforts []
      else (case resolve (ps_dns P) (rf_name (dx_dns dc)) (rf_creds (dx_dns dc)) of
              Inl e \<Rightarrow> failed (Wrapf ''resolve dns provider'' e)
            | Inr dns \<Rightarrow>
                efforts (map (\<lambda>domain. tryA (wrapA (''dns unroute '' @ domain) (dp_unroute dns domain))) (configured_domains cfg))))"

definition teardown_storage :: "'w provider_set \<Rightarrow> 'w deploy_context \<Rightarrow> app_config \<Rightarrow> 'w effort" where
  "teardown_storage P dc cfg =
     efforts (map (\<lambda>name. efforts [tryA (StorageEmpty P dc name), tryA (StorageDelete P dc name)]) (SortedKeys (cfg_storage cfg)))"

text \<open>A call whose \<open>ErrNotFound\<close> is not an error.\<close>

definition missing_ok :: "string \<Rightarrow> ('w, unit) act \<Rightarrow> 'w effort" where
  "missing_ok ctx m w = (case m w of
     (Inl e, w') \<Rightarrow> (if errors_is e ErrNotFound then [] else [Wrapf ctx e], w') | (Inr _, w') \<Rightarrow> ([], w'))"

definition teardown_request :: "names \<Rightarrow> string \<Rightarrow> 'w database_request" where
  "teardown_request names name =
     \<lparr>dq_name = name, dq_full_name = Database names name, dq_namespace = KubeNamespace names,
      dq_pod_name = KubeDatabasePod names name, dq_pvc_name = KubeDatabasePVC names name,
      dq_backup_name = KubeDatabaseBackupCron names name, dq_credentials_secret = KubeDatabaseCredentials names name,
      dq_backup_creds_secret = KubeDatabaseBackupCreds names name, dq_image = [], dq_labels = Labels names,
      dq_spec = \<lparr>ds_engine = [], ds_version = [], ds_server = [], ds_size = 0, ds_user = [], ds_password = [],
        ds_database = [], ds_region = [], ds_backup = None\<rparr>,
      dq_bucket = None, dq_delete_volumes = True, dq_kube = None, dq_shell = None\<rparr>"

definition database_for :: "'w provider_set \<Rightarrow> cred_source option \<Rightarrow> string \<Rightarrow> string \<Rightarrow> goerr + 'w database_provider" where
  "database_for P source name engine =
     bindR (wrapR (''database '' @ name @ '' schema'') (getSchema (ps_database P) engine)) (\<lambda>schema.
     bindR (wrapR (''database '' @ name @ '' creds'') (ResolveFrom schema (the source))) (\<lambda>creds.
       wrapR (''database '' @ name @ '' provider'') (resolve (ps_database P) engine creds)))"

definition teardown_backups :: "'w bucket_provider option \<Rightarrow> names \<Rightarrow> string \<Rightarrow> database_def \<Rightarrow> 'w effort" where
  "teardown_backups bucketProv names name def =
     (case bucketProv of
        Some bucket \<Rightarrow>
          if db_backup def = None then efforts []
          else let b = KubeDatabaseBackupBucket names name
               in efforts [missing_ok (''empty backup bucket '' @ b) (bp_empty bucket b),
                           missing_ok (''delete backup bucket '' @ b) (bp_delete bucket b)]
      | None \<Rightarrow> efforts [])"

definition teardown_database ::
    "'w provider_set \<Rightarrow> 'w deploy_context \<Rightarrow> app_config \<Rightarrow> 'w bucket_provider option \<Rightarrow> names \<Rightarrow> string \<Rightarrow> 'w effort" where
  "teardown_database P dc cfg bucketProv names name =
     (let def = get0 database0 (cfg_databases cfg) name
      in case database_for P (dx_creds dc) name (db_engine def) of
           Inl e \<Rightarrow> failed e
         | Inr db \<Rightarrow> efforts [tryA (dbp_delete db (teardown_request names name)), teardown_backups bucketProv names name def])"

definition teardown_databases :: "'w provider_set \<Rightarrow> 'w deploy_context \<Rightarrow> app_config \<Rightarrow> 'w effort" where
  "teardown_databases P dc cfg =
     (case NewNames (cfg_app cfg) (cfg_env cfg) of
        Inl e \<Rightarrow> failed e
      | Inr names \<Rightarrow>
          let each_database = (\<lambda>bucketProv. map (teardown_database P dc cfg bucketProv names) (SortedKeys (cfg_databases cfg)))
          in if rf_name (dx_storage dc) = [] then efforts (each_database None)
             else (case resolve_bucket P dc of
                     Inl e \<Rightarrow> efforts (failed (Wrapf ''resolve bucket provider for database teardown'' e) # each_database None)
                   | Inr bucket \<Rightarrow> efforts (each_database (Some bucket))))"

definition teardown_infra :: "'w provider_set \<Rightarrow> 'w deploy_context \<Rightarrow> app_config \<Rightarrow> bool \<Rightarrow> 'w effort" where
  "teardown_infra P dc cfg deleteVolumes =
     (let bctx = BootstrapContext dc cfg
      in case resolve (ps_infra P) (bc_provider bctx) (dx_credentials dc) of
           Inl e \<Rightarrow> failed (Wrapf ''resolve infra provider'' e)
         | Inr infra \<Rightarrow> tryA (ip_teardown infra bctx deleteVolumes))"

definition tunnel_targets :: "app_config \<Rightarrow> string list" where
  "tunnel_targets cfg =
     (if p_tunnel (cfg_providers cfg) = ''ngrok'' then configured_domains cfg
      else (case NewNames (cfg_app cfg) (cfg_env cfg) of Inl _ \<Rightarrow> [] | Inr names \<Rightarrow> [Base names]))"

definition teardown_tunnel :: "'w provider_set \<Rightarrow> 'w deploy_context \<Rightarrow> app_config \<Rightarrow> 'w effort" where
  "teardown_tunnel P dc cfg =
     (if p_tunnel (cfg_providers cfg) = [] \<or> rf_name (dx_tunnel dc) = [] then efforts []
      else (case resolve (ps_tunnel P) (rf_name (dx_tunnel dc)) (rf_creds (dx_tunnel dc)) of
              Inl e \<Rightarrow> failed (Wrapf ''resolve tunnel provider'' e)
            | Inr tun \<Rightarrow> efforts (map (\<lambda>target. tryA (tn_delete tun target)) (tunnel_targets cfg))))"

text \<open>The errors collected on the way; a non-empty list is returned as one error that joins them.\<close>

definition Teardown ::
    "'w provider_set \<Rightarrow> 'w deploy_context \<Rightarrow> app_config \<Rightarrow> bool \<Rightarrow> bool \<Rightarrow> bool \<Rightarrow> 'w \<Rightarrow> (goerr + goerr list) \<times> 'w" where
  "Teardown P dc cfg0 deleteVolumes deleteStorage deleteDatabases w =
     (case Resolve cfg0 of
        Inl e \<Rightarrow> (Inl e, w)
      | Inr cfg \<Rightarrow>
          (case efforts [teardown_dns P dc cfg,
                         if deleteStorage then teardown_storage P dc cfg else efforts [],
                         if deleteDatabases then teardown_databases P dc cfg else efforts [],
                         teardown_infra P dc cfg deleteVolumes,
                         teardown_tunnel P dc cfg] w of
             (errs, w') \<Rightarrow> (Inr errs, w')))"

section \<open>The calls it makes\<close>

datatype provider_call = Unroute string | EmptyBucket string | DeleteBucket string | DeleteDatabase string |
  TeardownInfra bool | DeleteTunnel string

definition storage_calls :: "names \<Rightarrow> app_config \<Rightarrow> provider_call list" where
  "storage_calls names cfg =
     concat (map (\<lambda>n. [EmptyBucket (Bucket names n), DeleteBucket (Bucket names n)]) (SortedKeys (cfg_storage cfg)))"

definition database_calls :: "names \<Rightarrow> app_config \<Rightarrow> provider_call list" where
  "database_calls names cfg =
     concat (map (\<lambda>n. DeleteDatabase n # (if backed_up cfg n
        then [EmptyBucket (KubeDatabaseBackupBucket names n), DeleteBucket (KubeDatabaseBackupBucket names n)] else []))
       (SortedKeys (cfg_databases cfg)))"

definition teardown_calls :: "names \<Rightarrow> app_config \<Rightarrow> bool \<Rightarrow> bool \<Rightarrow> bool \<Rightarrow> provider_call list" where
  "teardown_calls names cfg deleteVolumes deleteStorage deleteDatabases =
     map Unroute (configured_domains cfg) @
     (if deleteStorage then storage_calls names cfg else []) @
     (if deleteDatabases then database_calls names cfg else []) @
     [TeardownInfra deleteVolumes] @
     (if p_tunnel (cfg_providers cfg) = [] then [] else map DeleteTunnel (tunnel_targets cfg))"

text \<open>A history of the world to which every call of a provider adds itself, whether it fails or not.\<close>

definition recorded :: "('w \<Rightarrow> provider_call list) \<Rightarrow> ('w, 'a) act \<Rightarrow> provider_call \<Rightarrow> bool" where
  "recorded log m c \<longleftrightarrow> (\<forall>w. log (snd (m w)) = log w @ [c])"

definition performs :: "('w \<Rightarrow> provider_call list) \<Rightarrow> 'w effort \<Rightarrow> provider_call list \<Rightarrow> bool" where
  "performs log t cs \<longleftrightarrow> (\<forall>w. log (snd (t w)) = log w @ cs)"

lemma performsD: "performs log t cs \<Longrightarrow> t w = (es, w') \<Longrightarrow> log w' = log w @ cs"
  by (metis performs_def snd_conv)

lemma performs_tryA: "recorded log m c \<Longrightarrow> performs log (tryA m) [c]"
  by (auto simp: recorded_def performs_def tryA_def split: prod.split sum.split) (metis snd_conv)+

lemma performs_missing_ok: "recorded log m c \<Longrightarrow> performs log (missing_ok ctx m) [c]"
  by (auto simp: recorded_def performs_def missing_ok_def split: prod.split sum.split) (metis snd_conv)+

lemma recorded_wrap: "recorded log m c \<Longrightarrow> recorded log (wrapA ctx m) c"
  by (simp add: recorded_def)

lemma performs_nil: "performs log (efforts []) []"
  by (simp add: performs_def)

lemma performs_cons: "performs log t cs \<Longrightarrow> performs log (efforts ts) ds \<Longrightarrow> performs log (efforts (t # ts)) (cs @ ds)"
  by (auto simp: performs_def split: prod.split) (metis snd_conv append_assoc)

lemma performs_two: "performs log t [c] \<Longrightarrow> performs log u [d] \<Longrightarrow> performs log (efforts [t, u]) [c, d]"
  using performs_cons [OF _ performs_cons [OF _ performs_nil], of log t "[c]" u "[d]"] by simp

lemma performs_map: "(\<And>x. x \<in> set xs \<Longrightarrow> performs log (f x) (g x)) \<Longrightarrow> performs log (efforts (map f xs)) (concat (map g xs))"
  by (induction xs) (auto intro: performs_nil performs_cons)

text \<open>Providers of one deploy that all resolve and record their calls.\<close>

definition recording_providers ::
    "('w \<Rightarrow> provider_call list) \<Rightarrow> 'w provider_set \<Rightarrow> 'w deploy_context \<Rightarrow> app_config \<Rightarrow> bool" where
  "recording_providers log P dc cfg \<longleftrightarrow>
     rf_name (dx_dns dc) \<noteq> [] \<and> rf_name (dx_storage dc) \<noteq> [] \<and> rf_name (dx_tunnel dc) \<noteq> [] \<and>
     (\<exists>dns. resolve (ps_dns P) (rf_name (dx_dns dc)) (rf_creds (dx_dns dc)) = Inr dns \<and>
        (\<forall>d. recorded log (dp_unroute dns d) (Unroute d))) \<and>
     (\<exists>bucket. resolve_bucket P dc = Inr bucket \<and>
        (\<forall>b. recorded log (bp_empty bucket b) (EmptyBucket b) \<and> recorded log (bp_delete bucket b) (DeleteBucket b))) \<and>
     (\<forall>name \<in> fst ` set (cfg_databases cfg).
        \<exists>db. database_for P (dx_creds dc) name (db_engine (get0 database0 (cfg_databases cfg) name)) = Inr db \<and>
        (\<forall>req. recorded log (dbp_delete db req) (DeleteDatabase (dq_name req)))) \<and>
     (\<exists>infra. resolve (ps_infra P) (bc_provider (BootstrapContext dc cfg)) (dx_credentials dc) = Inr infra \<and>
        (\<forall>bctx v. recorded log (ip_teardown infra bctx v) (TeardownInfra v))) \<and>
     (\<exists>tun. resolve (ps_tunnel P) (rf_name (dx_tunnel dc)) (rf_creds (dx_tunnel dc)) = Inr tun \<and>
        (\<forall>t. recorded log (tn_delete tun t) (DeleteTunnel t)))"

lemma teardown_dns_calls:
  assumes "recording_providers log P dc cfg"
  shows "performs log (teardown_dns P dc cfg) (map Unroute (configured_domains cfg))"
proof (cases "cfg_domains cfg = []")
  case True
  then show ?thesis by (simp add: teardown_dns_def configured_domains_def SortedKeys_def performs_nil del: efforts.simps)
next
  case False
  from assms obtain dns where dns: "rf_name (dx_dns dc) \<noteq> []" "resolve (ps_dns P) (rf_name (dx_dns dc)) (rf_creds (dx_dns dc)) = Inr dns"
    "\<And>d. recorded log (dp_unroute dns d) (Unroute d)" by (auto simp: recording_providers_def)
  then have "performs log (tryA (wrapA (''dns unroute '' @ d) (dp_unroute dns d))) [Unroute d]" for d
    by (intro performs_tryA recorded_wrap)
  from performs_map [OF this] dns False show ?thesis
    by (simp add: teardown_dns_def concat_map_singleton)
qed

lemma teardown_storage_calls:
  assumes "recording_providers log P dc cfg" "Names dc = Inr names"
  shows "performs log (teardown_storage P dc cfg) (storage_calls names cfg)"
proof -
  from assms(1) obtain bucket where bucket: "rf_name (dx_storage dc) \<noteq> []" "resolve_bucket P dc = Inr bucket"
    "\<And>b. recorded log (bp_empty bucket b) (EmptyBucket b)" "\<And>b. recorded log (bp_delete bucket b) (DeleteBucket b)"
    by (auto simp: recording_providers_def)
  have "performs log (efforts [tryA (StorageEmpty P dc n), tryA (StorageDelete P dc n)])
      [EmptyBucket (Bucket names n), DeleteBucket (Bucket names n)]" for n
    using bucket by (intro performs_two performs_tryA)
      (simp_all add: StorageEmpty_def StorageDelete_def readA_const assms(2))
  from performs_map [OF this] show ?thesis by (simp add: teardown_storage_def storage_calls_def)
qed

lemma teardown_database_calls:
  assumes "recording_providers log P dc cfg" "resolve_bucket P dc = Inr bucket" "n \<in> fst ` set (cfg_databases cfg)"
  shows "performs log (teardown_database P dc cfg (Some bucket) names n)
    (DeleteDatabase n # (if backed_up cfg n
        then [EmptyBucket (KubeDatabaseBackupBucket names n), DeleteBucket (KubeDatabaseBackupBucket names n)] else []))"
proof -
  from assms obtain db where db: "database_for P (dx_creds dc) n (db_engine (get0 database0 (cfg_databases cfg) n)) = Inr db"
    "\<And>req. recorded log (dbp_delete db req) (DeleteDatabase (dq_name req))"
    unfolding recording_providers_def by blast
  from assms(1,2) have bucket: "\<And>b. recorded log (bp_empty bucket b) (EmptyBucket b)" "\<And>b. recorded log (bp_delete bucket b) (DeleteBucket b)"
    by (auto simp: recording_providers_def)
  let ?b = "KubeDatabaseBackupBucket names n"
  have "performs log (teardown_backups (Some bucket) names n (get0 database0 (cfg_databases cfg) n))
      (if backed_up cfg n then [EmptyBucket ?b, DeleteBucket ?b] else [])"
    using bucket by (auto simp: teardown_backups_def backed_up_def Let_def intro!: performs_two performs_nil performs_missing_ok
        simp del: efforts.simps)
  moreover have "performs log (tryA (dbp_delete db (teardown_request names n))) [DeleteDatabase n]"
    using db(2) [of "teardown_request names n"] by (intro performs_tryA) (simp add: teardown_request_def)
  ultimately show ?thesis
    using performs_cons [OF _ performs_cons [OF _ performs_nil]] db(1) by (fastforce simp: teardown_database_def Let_def)
qed

lemma teardown_databases_calls:
  assumes "recording_providers log P dc cfg" "NewNames (cfg_app cfg) (cfg_env cfg) = Inr names"
  shows "performs log (teardown_databases P dc cfg) (database_calls names cfg)"
proof -
  from assms(1) obtain bucket where bucket: "rf_name (dx_storage dc) \<noteq> []" "resolve_bucket P dc = Inr bucket"
    by (auto simp: recording_providers_def)
  have "performs log (efforts (map (teardown_database P dc cfg (Some bucket) names) (SortedKeys (cfg_databases cfg)))) (database_calls names cfg)"
    unfolding database_calls_def by (rule performs_map) (rule teardown_database_calls [OF assms(1) bucket(2)], simp)
  then show ?thesis unfolding teardown_databases_def assms(2) sum.case Let_def using bucket by simp
qed

lemma teardown_tunnel_calls:
  assumes "recording_providers log P dc cfg"
  shows "performs log (teardown_tunnel P dc cfg)
    (if p_tunnel (cfg_providers cfg) = [] then [] else map DeleteTunnel (tunnel_targets cfg))"
proof -
  from assms obtain tun where tun: "rf_name (dx_tunnel dc) \<noteq> []" "resolve (ps_tunnel P) (rf_name (dx_tunnel dc)) (rf_creds (dx_tunnel dc)) = Inr tun"
    "\<And>t. recorded log (tn_delete tun t) (DeleteTunnel t)" by (auto simp: recording_providers_def)
  from performs_map [OF performs_tryA [OF tun(3)]] tun(1,2) show ?thesis
    by (auto simp: teardown_tunnel_def concat_map_singleton performs_nil simp del: efforts.simps)
qed

lemma teardown_infra_calls:
  assumes "recording_providers log P dc cfg"
  shows "performs log (teardown_infra P dc cfg v) [TeardownInfra v]"
proof -
  from assms obtain infra where "resolve (ps_infra P) (bc_provider (BootstrapContext dc cfg)) (dx_credentials dc) = Inr infra"
    "\<And>bctx. recorded log (ip_teardown infra bctx v) (TeardownInfra v)" unfolding recording_providers_def by blast
  then show ?thesis by (simp add: teardown_infra_def Let_def performs_tryA)
qed

text \<open>
  C38: a teardown with all providers configured makes exactly these provider calls, in this order and
  whichever of them fail: every domain is unrouted first, buckets and databases are touched only
  under their flags, then the infrastructure, with its volumes only under theirs, and the tunnel last.
\<close>

theorem teardown_calls_exact:
  assumes "Resolve cfg0 = Inr cfg" "recording_providers log P dc cfg"
    and "Names dc = Inr names" "NewNames (cfg_app cfg) (cfg_env cfg) = Inr names"
  shows "\<exists>errs. fst (Teardown P dc cfg0 dv ds dd w) = Inr errs \<and>
    log (snd (Teardown P dc cfg0 dv ds dd w)) = log w @ teardown_calls names cfg dv ds dd"
proof -
  let ?ts = "[teardown_dns P dc cfg, if ds then teardown_storage P dc cfg else efforts [],
     if dd then teardown_databases P dc cfg else efforts [], teardown_infra P dc cfg dv, teardown_tunnel P dc cfg]"
  have calls: "performs log (efforts ?ts) (map Unroute (configured_domains cfg) @ (if ds then storage_calls names cfg else []) @
      (if dd then database_calls names cfg else []) @ [TeardownInfra dv] @
      (if p_tunnel (cfg_providers cfg) = [] then [] else map DeleteTunnel (tunnel_targets cfg)) @ [])"
    using teardown_dns_calls [OF assms(2)] teardown_storage_calls [OF assms(2,3)] teardown_databases_calls [OF assms(2,4)]
      teardown_infra_calls [OF assms(2)] teardown_tunnel_calls [OF assms(2)]
    by (intro performs_cons performs_nil) (auto simp: performs_nil simp del: efforts.simps)
  obtain errs w' where run: "efforts ?ts w = (errs, w')" by fastforce
  from performsD [OF calls run] have "log w' = log w @ teardown_calls names cfg dv ds dd" by (simp add: teardown_calls_def)
  moreover have "Teardown P dc cfg0 dv ds dd w = (Inr errs, w')" by (simp only: Teardown_def assms(1) sum.case run prod.case)
  ultimately show ?thesis by simp
qed

text \<open>Providers that keep their history as the world; taking back a record fails.\<close>

definition noted :: "provider_call \<Rightarrow> goerr + 'a \<Rightarrow> (provider_call list, 'a) act" where
  "noted c r w = (r, w @ [c])"

lemma recorded_noted [simp]: "recorded id (noted c r) d \<longleftrightarrow> c = d"
  by (simp add: recorded_def noted_def)

definition note_dns :: "provider_call list dns_provider" where
  "note_dns = \<lparr>dp_route = (\<lambda>_ _. retA ()), dp_unroute = (\<lambda>d. noted (Unroute d) (Inl (ExtErr ''api''))), dp_list = (\<lambda>_. Inr [])\<rparr>"

definition note_bucket :: "provider_call list bucket_provider" where
  "note_bucket = (demo_bucket [])\<lparr>bp_empty := (\<lambda>b. noted (EmptyBucket b) (Inr ())), bp_delete := (\<lambda>b. noted (DeleteBucket b) (Inr ()))\<rparr>"

definition note_database :: "provider_call list database_provider" where
  "note_database = (postgres_provider \<lparr>os_list = (\<lambda>_ _ _ _. Inr []), os_get = (\<lambda>_ _ _ _. Inr [])\<rparr>)
     \<lparr>dbp_delete := (\<lambda>req. noted (DeleteDatabase (dq_name req)) (Inr ()))\<rparr>"

definition absent :: "('w, 'a) act" where
  "absent = failA ErrNotBootstrapped"

definition note_infra :: "provider_call list infra_provider" where
  "note_infra = \<lparr>ip_connect = (\<lambda>_. absent), ip_bootstrap = (\<lambda>_. absent), ip_plan = (\<lambda>_ _. Inr []), ip_teardown_orphans = (\<lambda>_. retA ()),
     ip_teardown = (\<lambda>_ v. noted (TeardownInfra v) (Inr ())), ip_ingress_binding = (\<lambda>_ _ _. Inl (ExtErr ''none'')),
     ip_public_ingress = True, ip_node_shell = (\<lambda>_. retA None), ip_ssh_to_node = (\<lambda>_ _. retA None), ip_arch = (\<lambda>_. ''amd64''),
     ip_provision_builders = (\<lambda>_. retA ()), ip_builder_targets = (\<lambda>_ _. Inr [])\<rparr>"

definition note_tunnel :: "provider_call list tunnel_provider" where
  "note_tunnel = \<lparr>tn_reconcile = (\<lambda>_. absent), tn_delete = (\<lambda>t. noted (DeleteTunnel t) (Inr ()))\<rparr>"

definition only :: "string \<Rightarrow> 'p \<Rightarrow> 'p provider_registry" where
  "only name p = reg_register name (no_creds name) (\<lambda>_. p) (newRegistry name)"

lemma resolve_only [simp]: "resolve (only n p) n [] = Inr p" "getSchema (only n p) n = Inr (no_creds n)"
  by (simp_all add: resolve_def getSchema_def only_def reg_register_def newRegistry_def no_creds_def schema_validate_def each_def)

definition note_providers :: "provider_call list provider_set" where
  "note_providers = no_providers\<lparr>ps_dns := only ''cloudflare'' note_dns, ps_bucket := only ''r2'' note_bucket,
     ps_database := only ''postgres'' note_database, ps_infra := only ''hetzner'' note_infra, ps_tunnel := only ''ngrok'' note_tunnel\<rparr>"

definition note_context :: "provider_call list deploy_context" where
  "note_context = deploy_context0 ''shop'' ''prod''\<lparr>dx_dns := \<lparr>rf_name = ''cloudflare'', rf_creds = []\<rparr>,
     dx_storage := \<lparr>rf_name = ''r2'', rf_creds = []\<rparr>, dx_tunnel := \<lparr>rf_name = ''ngrok'', rf_creds = []\<rparr>\<rparr>"

definition note_config :: app_config where
  "note_config = config0\<lparr>cfg_app := ''shop'', cfg_env := ''prod'', cfg_domains := [(''web'', [''a.io'', ''b.io''])],
     cfg_storage := [(''media'', storage0)], cfg_databases := [(''main'', database0\<lparr>db_engine := ''postgres''\<rparr>)],
     cfg_providers := (cfg_providers config0)\<lparr>p_tunnel := ''ngrok''\<rparr>\<rparr>"

corollary teardown_calls_exact_witness:
  "\<exists>errs. fst (Teardown note_providers note_context note_config True True False []) = Inr errs \<and>
     snd (Teardown note_providers note_context note_config True True False []) =
       [Unroute ''a.io'', Unroute ''b.io'', EmptyBucket ''nvoi-shop-prod-media'', DeleteBucket ''nvoi-shop-prod-media'',
        TeardownInfra True, DeleteTunnel ''a.io'', DeleteTunnel ''b.io'']"
proof -
  have names: "NewNames (cfg_app note_config) (cfg_env note_config) = Inr demo_app" by code_simp
  define cfg where "cfg = note_config\<lparr>cfg_volumes := map (\<lambda>(volName, vol). (volName, vol\<lparr>vol_mount_path := VolumeMountPath demo_app volName\<rparr>))
      (cfg_volumes note_config), cfg_master_firewall := MasterFirewall demo_app, cfg_worker_firewall := WorkerFirewall demo_app\<rparr>"
  have cfg: "cfg_domains cfg = cfg_domains note_config" "cfg_databases cfg = cfg_databases note_config"
      "cfg_providers cfg = cfg_providers note_config" "cfg_storage cfg = cfg_storage note_config"
      "cfg_app cfg = cfg_app note_config" "cfg_env cfg = cfg_env note_config"
    by (simp_all add: cfg_def)
  have resolved: "Resolve note_config = Inr cfg" by (simp only: Resolve_def names bindR_def sum.case cfg_def)
  have "recording_providers id note_providers note_context cfg"
    by (simp add: recording_providers_def note_providers_def note_context_def deploy_context0_def note_dns_def resolve_bucket_def
        note_bucket_def BootstrapContext_def note_infra_def note_tunnel_def database_for_def cfg note_config_def note_database_def
        get0_def no_creds_def ResolveFrom_def bindR_def wrapR_def)
  moreover have "Names note_context = Inr demo_app" by code_simp
  moreover have "teardown_calls demo_app cfg True True False =
      [Unroute ''a.io'', Unroute ''b.io'', EmptyBucket ''nvoi-shop-prod-media'', DeleteBucket ''nvoi-shop-prod-media'',
        TeardownInfra True, DeleteTunnel ''a.io'', DeleteTunnel ''b.io'']"
    by (simp add: teardown_calls_def cfg configured_domains_def storage_calls_def tunnel_targets_def note_config_def) code_simp
  ultimately show ?thesis
    using teardown_calls_exact [OF resolved _ _ names [folded cfg(5,6)], where log = id and dv = True and ds = True and dd = False and w = "[]"] by fastforce
qed

end
