(* ===== verification/DeployLaws.thy ===== *)
theory DeployLaws
  imports Deploy ClusterCalls Teardown
begin

text \<open>
  What a deploy does before it is accepted, what it does on the quiet path, and why the first deploy of
  an application fails.
\<close>

section \<open>Before the plan is accepted\<close>

text \<open>Everything before the plan: builder servers, builds, and the attach that reads the cluster.\<close>

definition prelude_keeps :: "('w \<Rightarrow> 'w \<Rightarrow> bool) \<Rightarrow> 'w provider_set \<Rightarrow> bool" where
  "prelude_keeps R P \<longleftrightarrow>
     (\<forall>name creds infra bctx. resolve (ps_infra P) name creds = Inr infra \<longrightarrow>
        keeps R (ip_provision_builders infra bctx) \<and> keeps R (ip_connect infra bctx)) \<and>
     (\<forall>name creds bp req. resolve (ps_build P) name creds = Inr bp \<longrightarrow> keeps R (bl_build bp req))"

context step_relation
begin

lemma build_phase_keeps:
  assumes "prelude_keeps R P" "resolve (ps_infra P) name creds = Inr infra"
  shows "keeps R (build_phase P infra bctx dc cfg)"
proof -
  have hosts: "keeps R (build_hosts infra bctx b)" for b
    using assms by (auto simp: build_hosts_def prelude_keeps_def intro!: rules)
  have "keeps R (BuildImages P dc cfg platform builders)" for platform builders
  proof -
    have "keeps R (build_service bp dc cfg platform builders regCreds n)"
      if "resolve (ps_build P) b c = Inr bp" for bp regCreds n b c
      using assms(1) that by (auto simp: build_service_def run_build_def Let_def prelude_keeps_def intro!: rules)
    then show ?thesis
      by (auto simp: BuildImages_def readA_const intro!: rules split: sum.split)
  qed
  with hosts show ?thesis by (auto simp: build_phase_def intro!: rules)
qed

lemma ComputePlan_keeps:
  assumes "prelude_keeps R P"
  shows "keeps R (ComputePlan P dc cfg)"
proof -
  have "R w w'" if "ip_connect infra bctx w = (r, w')" "cluster_infra P dc = Inr infra" for infra bctx w r w'
  proof -
    from that(2) have "resolve (ps_infra P) (dx_provider dc) (dx_credentials dc) = Inr infra"
      by (simp add: cluster_infra_def)
    with assms have "keeps R (ip_connect infra bctx)" by (auto simp: prelude_keeps_def)
    then show ?thesis using that(1) by (rule keepsD)
  qed
  then have "keeps R (Kube P dc cfg)"
    by (auto simp: Kube_def keeps_def bindA_result readA_def retA_def refl split: prod.splits sum.splits option.splits)
  then show ?thesis by (auto simp: ComputePlan_def Let_def intro!: rules split: prod.split)
qed

lemma plan_declined:
  assumes "deploy_plan P onPlan infra bctx dc cfg p w = (r, w')"
    and "(\<exists>f. onPlan = Some f \<and> (\<forall>p w. f p w \<noteq> Inr True)) \<or> r \<in> {Inr NoChanges, Inr Aborted}"
  shows "w' = w"
proof -
  have "r \<noteq> Inr NoChanges \<and> r \<noteq> Inr Aborted"
    if "bindA m (\<lambda>pending. retA (Applied pending)) w = (r, w')" for m w
    using that by (auto simp: bindA_result split: prod.splits sum.splits)
  then show ?thesis
    using assms by (auto simp: deploy_plan_def consent_def bindA_read_at bindA_result
        split: if_splits option.splits prod.splits sum.splits)
qed

lemma Deploy_phases:
  assumes "prelude_keeps R P" "Deploy R' P onPlan now dc0 cfg0 w = (r, w')"
  shows "(R w w' \<and> (\<exists>e. r = Inl e)) \<or> (\<exists>cfg infra p w1. Resolve cfg0 = Inr cfg \<and> R w w1 \<and>
      ValidateConfig R' cfg0 = None \<and>
      resolve (ps_infra P) (bc_provider (BootstrapContext (stamped now dc0 cfg) cfg)) (dx_credentials (stamped now dc0 cfg)) = Inr infra \<and>
      (\<exists>w0. build_phase P infra (BootstrapContext (stamped now dc0 cfg) cfg) (stamped now dc0 cfg) cfg w = (Inr (), w0) \<and>
         ComputePlan P (stamped now dc0 cfg) cfg w0 = (Inr p, w1)) \<and>
      deploy_plan P onPlan infra (BootstrapContext (stamped now dc0 cfg) cfg) (stamped now dc0 cfg) cfg p w1 = (r, w'))"
proof (cases "ValidateConfig R' cfg0")
  case (Some e)
  with assms(2) show ?thesis by (simp add: Deploy_def refl)
next
  case valid: None
  show ?thesis
  proof (cases "Resolve cfg0")
    case (Inl e)
    with valid assms(2) show ?thesis by (simp add: Deploy_def readA_const refl)
  next
    case (Inr cfg)
    let ?dc = "stamped now dc0 cfg"
    let ?bctx = "BootstrapContext ?dc cfg"
    show ?thesis
    proof (cases "resolve (ps_infra P) (bc_provider ?bctx) (dx_credentials ?dc)")
      case (Inl e)
      with valid Inr assms(2) show ?thesis by (simp add: Deploy_def readA_const Let_def wrapR_def refl)
    next
      case infra: (Inr infra)
      obtain r1 w1 where build: "build_phase P infra ?bctx ?dc cfg w = (r1, w1)" by fastforce
      obtain r2 w2 where plan: "ComputePlan P ?dc cfg w1 = (r2, w2)" by fastforce
      have 1: "R w w1" using build_phase_keeps [OF assms(1) infra] build by (rule keepsD)
      have "R w1 w2" using ComputePlan_keeps [OF assms(1)] plan by (rule keepsD)
      with 1 have 2: "R w w2" by (rule trans)
      have run: "thenA (build_phase P infra ?bctx ?dc cfg)
          (bindA (wrapA ''plan'' (ComputePlan P ?dc cfg)) (deploy_plan P onPlan infra ?bctx ?dc cfg)) w = (r, w')"
        using assms(2) valid Inr infra by (simp add: Deploy_def readA_const Let_def wrapR_def)
      show ?thesis
      proof (cases r1)
        case (Inl e)
        with run build have "r = Inl e" "w' = w1" by (simp_all add: thenA_def bindA_result)
        with 1 show ?thesis by simp
      next
        case built: (Inr u)
        then have built: "r1 = Inr ()" by simp
        show ?thesis
        proof (cases r2)
          case (Inl e)
          with run build built plan have "r = Inl (Wrapf ''plan'' e)" "w' = w2" by (simp_all add: thenA_def bindA_result wrapA_def)
          with 2 show ?thesis by simp
        next
          case planned: (Inr p)
          with run build built plan have "deploy_plan P onPlan infra ?bctx ?dc cfg p w2 = (r, w')"
            by (simp add: thenA_def bindA_result wrapA_def)
          then show ?thesis
            by (intro disjI2 exI conjI) (rule Inr, rule 2, rule valid, rule infra, rule build [unfolded built],
                rule plan [unfolded planned])
        qed
      qed
    qed
  qed
qed

end

text \<open>
  C34: before the operator has accepted the plan a deploy changes nothing but what provisioning builder
  servers, building images and attaching to the cluster change: when the callback never agrees, or
  the deploy reports no changes or that it was aborted, whatever those calls keep is kept.
\<close>

theorem deploy_needs_consent:
  assumes "step_relation R" "prelude_keeps R P" "Deploy regs P onPlan now dc cfg w = (r, w')"
    and "(\<exists>f. onPlan = Some f \<and> (\<forall>p w. f p w \<noteq> Inr True)) \<or> r \<in> {Inr NoChanges, Inr Aborted}"
  shows "R w w'"
  using step_relation.Deploy_phases [OF assms(1-3)]
proof (elim disjE exE conjE)
  fix c infra p w1
  assume "R w w1" and declined: "deploy_plan P onPlan infra (BootstrapContext (stamped now dc c) c) (stamped now dc c) c p w1 = (r, w')"
  with step_relation.plan_declined [OF assms(1) declined assms(4)] show "R w w'" by simp
qed

section \<open>The first deploy\<close>

lemma errors_is_refl: "errors_is e e"
  by (cases e) auto


section \<open>The quiet path\<close>

text \<open>The attach yields a client of the cluster whose calls keep \<open>R\<close>, and so does looking for a shell.\<close>

definition attach_keeps :: "('w \<Rightarrow> 'w \<Rightarrow> bool) \<Rightarrow> 'w provider_set \<Rightarrow> bool" where
  "attach_keeps R P \<longleftrightarrow>
     (\<forall>name creds infra bctx. resolve (ps_infra P) name creds = Inr infra \<longrightarrow> keeps R (ip_node_shell infra bctx) \<and>
        (\<forall>w c w'. ip_connect infra bctx w = (Inr c, w') \<longrightarrow> client_keeps R c))"

lemma with_shell_kube [simp]: "dx_kube (with_shell sh dc) = dx_kube dc"
  by (simp add: with_shell_def split: option.split)

lemma Resolve_providers: "Resolve cfg = Inr c \<Longrightarrow> cfg_providers c = cfg_providers cfg"
  by (auto simp: Resolve_def bindR_eq_Inr)

context step_relation
begin

lemma quiet_steps_keep:
  assumes "client_keeps R c" "keeps R (ip_node_shell infra bctx)" "p_tunnel (cfg_providers cfg) = []"
  shows "keeps R (deploy_steps P infra bctx dc cfg False c)"
proof -
  have sources: "keeps R (deploy_sources P dc' cfg False vals)" for dc' vals
    by (auto simp: deploy_sources_def intro!: rules)
  have traffic: "keeps R (route_traffic P infra bctx (cl_runtime c) dc' cfg False)" if "dx_kube dc' = Some c" for dc'
    using assms(3) that by (auto simp: route_traffic_def whenA_def intro!: ret seq Ingress_keeps assms(1))
  have teardown: "keeps R (whenA False m)" for m by (simp add: whenA_def ret)
  show ?thesis
    unfolding deploy_steps_def Let_def
    by (intro bind wrap seq read assms(2) EnsureNamespace_keeps Registries_keeps Services_keeps Crons_keeps assms(1))
      (auto intro!: bind seq ret sources traffic teardown Services_keeps Crons_keeps assms(1))
qed

lemma quiet_plan_keeps:
  assumes "prelude_keeps R P" "attach_keeps R P" "resolve (ps_infra P) name creds = Inr infra"
    and "p_tunnel (cfg_providers cfg) = []" "\<not> HasInfraChanges p"
  shows "keeps R (deploy_plan P onPlan infra bctx dc cfg p)"
proof -
  have "keeps R (bindA (attach infra bctx False) (\<lambda>kc. bindA (deploy_steps P infra bctx dc cfg False kc) (\<lambda>pending. retA (Applied pending))))"
  proof (rule bind_value)
    show "keeps R (attach infra bctx False)" using assms(1,3) by (auto simp: attach_def prelude_keeps_def intro!: wrap)
    fix w c w'
    assume "attach infra bctx False w = (Inr c, w')"
    then have "ip_connect infra bctx w = (Inr c, w')" by (simp add: attach_def)
    with assms(2,3) have "client_keeps R c" "keeps R (ip_node_shell infra bctx)" unfolding attach_keeps_def by blast+
    then show "keeps R (bindA (deploy_steps P infra bctx dc cfg False c) (\<lambda>pending. retA (Applied pending)))"
      by (intro bind ret quiet_steps_keep assms(4))
  qed
  with assms(5) show ?thesis by (auto simp: deploy_plan_def consent_def intro!: rules split: option.split)
qed

end


section \<open>Examples\<close>

text \<open>A world with two parts: how often the infrastructure was reconciled, and the cluster.\<close>

definition on_cluster :: "('w \<Rightarrow> 'r \<times> 'w) \<Rightarrow> 's \<times> 'w \<Rightarrow> 'r \<times> 's \<times> 'w" where
  "on_cluster f sw = (case f (snd sw) of (r, w') \<Rightarrow> (r, fst sw, w'))"

definition same_infra :: "'s \<times> 'w \<Rightarrow> 's \<times> 'w \<Rightarrow> bool" where
  "same_infra w w' \<longleftrightarrow> fst w' = fst w"

lemma same_infra: "step_relation same_infra"
  by unfold_locales (simp_all add: same_infra_def)

definition cloud_api :: "(nat \<times> mem_world) kube_api" where
  "cloud_api = \<lparr>api_get = (\<lambda>k ns n w. api_get mem_api k ns n (snd w)), api_list = (\<lambda>k ns l w. api_list mem_api k ns l (snd w)),
     api_create = (\<lambda>k ns ob. on_cluster (api_create mem_api k ns ob)), api_update = (\<lambda>k ns ob. on_cluster (api_update mem_api k ns ob)),
     api_delete = (\<lambda>k ns n. on_cluster (api_delete mem_api k ns n)), api_retry = (\<lambda>f s. f s)\<rparr>"

definition cloud_client :: "(nat \<times> mem_world) kube_client" where
  "cloud_client = \<lparr>cl_api = cloud_api,
     cl_runtime = \<lparr>rt_pods = (\<lambda>ns name w. rt_pods quiet_runtime ns name (snd w)), rt_now = (\<lambda>_. 0), rt_cancelled = (\<lambda>_. None),
       rt_sleep = (\<lambda>_ w. (None, w))\<rparr>,
     cl_exec = \<lparr>px_probe = (\<lambda>_ _ _ _ _. ([], None)), px_run = (\<lambda>_ _ _ _ _ w. (([], [], None), w)), px_ready_replicas = (\<lambda>_. 1)\<rparr>,
     cl_jobs = no_jobs, cl_nodes = no_nodes\<rparr>"

definition cloud_infra :: "(nat \<times> mem_world) infra_provider" where
  "cloud_infra = \<lparr>ip_connect = (\<lambda>_. retA cloud_client), ip_bootstrap = (\<lambda>_ w. (Inr cloud_client, Suc (fst w), snd w)),
     ip_plan = (\<lambda>_ _. Inr []), ip_teardown_orphans = (\<lambda>_. retA ()), ip_teardown = (\<lambda>_ _. retA ()),
     ip_ingress_binding = (\<lambda>_ _ _. Inl (ExtErr ''none'')), ip_public_ingress = True, ip_node_shell = (\<lambda>_. retA None),
     ip_ssh_to_node = (\<lambda>_ _. retA None), ip_arch = (\<lambda>_. ''amd64''), ip_provision_builders = (\<lambda>_. retA ()),
     ip_builder_targets = (\<lambda>_ _. Inr [])\<rparr>"

definition cloud_providers :: "(nat \<times> mem_world) provider_set" where
  "cloud_providers = no_providers\<lparr>ps_infra := only ''hetzner'' cloud_infra, ps_build_caps := [(''local'', False)]\<rparr>"

definition small_config :: app_config where
  "small_config = config0\<lparr>cfg_app := ''shop'', cfg_env := ''prod'', cfg_providers := (cfg_providers demo_config)\<lparr>p_dns := [], p_storage := []\<rparr>,
     cfg_servers := [(''master'', \<lparr>srv_type = ''cx22'', srv_region = ''fsn1'', srv_role = ''master'', srv_disk = 0\<rparr>)],
     cfg_services := [(''web'', service0\<lparr>svc_image := ''nginx:1'', svc_port := 80\<rparr>)]\<rparr>"

definition empty_cloud :: "nat \<times> mem_world" where
  "empty_cloud = (0, \<lparr>mw_objects = [], mw_version = 1\<rparr>)"

definition cloud_deploy :: "(plan \<Rightarrow> nat \<times> mem_world \<Rightarrow> goerr + bool) option \<Rightarrow> (nat \<times> mem_world, outcome) act" where
  "cloud_deploy onPlan = Deploy nvoi_registries cloud_providers onPlan ''20260101-000000'' (deploy_context0 ''shop'' ''prod'') small_config"

lemma declined_run: "fst (cloud_deploy (Some (\<lambda>_ _. Inr False)) empty_cloud) = Inr Aborted"
  by code_simp

lemma applied_run: "fst (cloud_deploy None empty_cloud) = Inr (Applied [])"
  by code_simp

lemma cloud_resolves: "resolve (ps_infra cloud_providers) name creds = Inr infra \<Longrightarrow> infra = cloud_infra"
  by (auto simp: cloud_providers_def resolve_def only_def reg_register_def newRegistry_def split: if_splits option.splits)

lemma no_builders: "resolve (ps_build cloud_providers) name creds \<noteq> Inr bp"
  by (simp add: cloud_providers_def no_providers_def resolve_def newRegistry_def)

lemma cloud_prelude: "prelude_keeps same_infra cloud_providers"
proof -
  have "keeps same_infra (ip_provision_builders cloud_infra bctx) \<and> keeps same_infra (ip_connect cloud_infra bctx)" for bctx
    by (simp add: keeps_def same_infra_def cloud_infra_def)
  then show ?thesis unfolding prelude_keeps_def using cloud_resolves no_builders by blast
qed

lemma cloud_attach: "attach_keeps same_infra cloud_providers"
proof -
  have "fst (snd (on_cluster f w)) = fst w" for f :: "mem_world \<Rightarrow> 'r \<times> mem_world" and w :: "nat \<times> mem_world"
    by (simp add: on_cluster_def split: prod.split)
  then have "client_keeps same_infra cloud_client"
    by (auto simp: client_keeps_def same_infra_def cloud_client_def cloud_api_def)
  then have "keeps same_infra (ip_node_shell cloud_infra bctx) \<and>
      (\<forall>w c w'. ip_connect cloud_infra bctx w = (Inr c, w') \<longrightarrow> client_keeps same_infra c)" for bctx
    by (auto simp: cloud_infra_def keeps_def same_infra_def)
  then show ?thesis unfolding attach_keeps_def using cloud_resolves by blast
qed

corollary deploy_needs_consent_witness:
  "\<exists>w'. cloud_deploy (Some (\<lambda>_ _. Inr False)) empty_cloud = (Inr Aborted, w') \<and> fst w' = 0"
proof -
  obtain w' where w': "cloud_deploy (Some (\<lambda>_ _. Inr False)) empty_cloud = (Inr Aborted, w')"
    using declined_run by (metis prod.collapse)
  from deploy_needs_consent [OF same_infra cloud_prelude w' [unfolded cloud_deploy_def]] w' show ?thesis
    by (auto simp: same_infra_def empty_cloud_def)
qed

definition no_cloud :: "(nat \<times> mem_world) provider_set" where
  "no_cloud = cloud_providers\<lparr>ps_infra := only ''hetzner'' (cloud_infra\<lparr>ip_connect := (\<lambda>_. absent)\<rparr>)\<rparr>"


lemma small_plan:
  "case Resolve small_config of Inl _ \<Rightarrow> False | Inr c \<Rightarrow>
     (let dc = stamped ''20260101-000000'' (deploy_context0 ''shop'' ''prod'') c
      in case build_phase cloud_providers cloud_infra (BootstrapContext dc c) dc c empty_cloud of
        (Inl _, _) \<Rightarrow> True
      | (Inr _, w1) \<Rightarrow> (case ComputePlan cloud_providers dc c w1 of (Inl _, _) \<Rightarrow> True | (Inr p, _) \<Rightarrow> \<not> HasInfraChanges p))"
  by code_simp


end
