(* ===== verification/DatabaseLaws.thy ===== *)
theory DatabaseLaws
  imports Databases
begin

text \<open>
  What the databases step does to the cluster, for any database engine that keeps to its own objects
  (locale \<open>database_engine\<close>): the PostgreSQL provider is one. A database whose live node differs from
  the configuration is not touched.
\<close>

section \<open>Keeping out of a namespace\<close>

definition elsewhere :: "string \<Rightarrow> kkey \<Rightarrow> kcore option \<Rightarrow> bool" where
  "elsewhere ns key v \<longleftrightarrow> fst (snd key) \<noteq> ns"

definition leaves_alone :: "('w \<Rightarrow> kkey \<Rightarrow> kcore option) \<Rightarrow> string \<Rightarrow> ('w, 'a) act \<Rightarrow> bool" where
  "leaves_alone store ns m \<longleftrightarrow> keeps (changes store (elsewhere ns)) m"

definition quiet_shell :: "('w \<Rightarrow> kkey \<Rightarrow> kcore option) \<Rightarrow> string \<Rightarrow> 'w shell \<Rightarrow> bool" where
  "quiet_shell store ns sh \<longleftrightarrow> (\<forall>cmd. leaves_alone store ns (sh_run sh cmd))"

text \<open>The objects of a database, and what a step for it may write.\<close>

definition database_keys :: "names \<Rightarrow> string \<Rightarrow> kkey set" where
  "database_keys names name =
     {(KindStatefulSet, KubeNamespace names, Database names name), (KindService, KubeNamespace names, Database names name),
      (KindPVC, KubeNamespace names, KubeDatabasePVC names name), (KindSecret, KubeNamespace names, KubeDatabaseCredentials names name),
      (KindSecret, KubeNamespace names, KubeDatabaseBackupCreds names name),
      (KindCronJob, KubeNamespace names, KubeDatabaseBackupCron names name)}"

definition database_writes :: "names \<Rightarrow> string \<Rightarrow> kkey \<Rightarrow> kcore option \<Rightarrow> bool" where
  "database_writes names name key v \<longleftrightarrow> key \<in> database_keys names name \<or> elsewhere (KubeNamespace names) key v"

definition request_of :: "('w \<Rightarrow> kkey \<Rightarrow> kcore option) \<Rightarrow> names \<Rightarrow> string \<Rightarrow> 'w database_request \<Rightarrow> bool" where
  "request_of store names name req \<longleftrightarrow>
     dq_namespace req = KubeNamespace names \<and> dq_full_name req = Database names name \<and>
     dq_pvc_name req = KubeDatabasePVC names name \<and> dq_backup_name req = KubeDatabaseBackupCron names name \<and>
     dq_credentials_secret req = KubeDatabaseCredentials names name \<and>
     (\<forall>sh. dq_shell req = Some sh \<longrightarrow> quiet_shell store (KubeNamespace names) sh)"

lemma leaves_writes: "leaves_alone store (KubeNamespace names) m \<Longrightarrow> keeps (changes store (database_writes names name)) m"
  unfolding leaves_alone_def by (erule keeps_mono) (auto elim: changes_mono simp: database_writes_def)

lemma leaves_rules:
  "leaves_alone store ns (retA a)" "leaves_alone store ns (failA e)" "leaves_alone store ns (readA f)"
  "leaves_alone store ns m \<Longrightarrow> leaves_alone store ns n \<Longrightarrow> leaves_alone store ns (thenA m n)"
  "leaves_alone store ns k \<Longrightarrow> leaves_alone store ns (wrapA ctx k)"
  "leaves_alone store ns j \<Longrightarrow> leaves_alone store ns (ignoreA j)"
  "leaves_alone store ns u \<Longrightarrow> leaves_alone store ns (whenA b u)"
  unfolding leaves_alone_def by (auto intro: change.rules)

lemma leaves_bind:
  "leaves_alone store ns m \<Longrightarrow> (\<And>a. leaves_alone store ns (f a)) \<Longrightarrow> leaves_alone store ns (bindA m f)"
  unfolding leaves_alone_def by (rule change.bind)

section \<open>Engines\<close>

locale database_engine =
  fixes db :: "'w database_provider"
    and api :: "'w kube_api"
    and store :: "'w \<Rightarrow> kkey \<Rightarrow> kcore option"
  assumes ensure_own: "cl_api c = api \<Longrightarrow> request_of store names name req \<Longrightarrow>
      keeps (changes store (database_writes names name)) (dbp_ensure_credentials db (Some c) req)"
    and reconcile_quiet: "request_of store names name req \<Longrightarrow> leaves_alone store (KubeNamespace names) (dbp_reconcile db req)"
    and workloads_own: "request_of store names name req \<Longrightarrow> dbp_reconcile db req w = (Inr objs, w') \<Longrightarrow> obj \<in> set objs \<Longrightarrow>
      database_writes names name (entry_key (KubeNamespace names) obj) v"

text \<open>What the step relies on: dialing a node, commands on it and the bucket provider leave the namespace alone.\<close>

definition surroundings_quiet :: "('w \<Rightarrow> kkey \<Rightarrow> kcore option) \<Rightarrow> string \<Rightarrow> 'w provider_set \<Rightarrow> 'w deploy_context \<Rightarrow> app_config \<Rightarrow> bool" where
  "surroundings_quiet store ns P dc cfg \<longleftrightarrow>
     (\<forall>sh. dx_shell dc = Some sh \<longrightarrow> quiet_shell store ns sh) \<and>
     (\<forall>infra server. cluster_infra P dc = Inr infra \<longrightarrow> leaves_alone store ns (ip_ssh_to_node infra (cluster_context dc cfg) server) \<and>
        (\<forall>w sh w'. ip_ssh_to_node infra (cluster_context dc cfg) server w = (Inr (Some sh), w') \<longrightarrow> quiet_shell store ns sh)) \<and>
     (\<forall>bucket. resolve_bucket P dc = Inr bucket \<longrightarrow>
        (\<forall>n. leaves_alone store ns (bp_ensure bucket n)) \<and> (\<forall>n d. leaves_alone store ns (bp_set_lifecycle bucket n d)))"

lemma node_shell_quiet:
  assumes "surroundings_quiet store ns P dc cfg"
  shows "leaves_alone store ns (node_shell P dc cfg server)"
    and "node_shell P dc cfg server w = (Inr (Some sh), w') \<Longrightarrow> quiet_shell store ns sh"
proof -
  have dial: "changes store (elsewhere ns) w (snd (SSHToNode P dc cfg server w)) \<and>
      (\<forall>sh w'. SSHToNode P dc cfg server w = (Inr sh, w') \<longrightarrow> quiet_shell store ns sh)" for w
  proof (cases "cluster_infra P dc")
    case (Inl e)
    then show ?thesis by (simp add: SSHToNode_def readA_const change.refl failA_def)
  next
    case (Inr infra)
    obtain r w1 where ssh: "ip_ssh_to_node infra (cluster_context dc cfg) server w = (r, w1)" by fastforce
    have "leaves_alone store ns (ip_ssh_to_node infra (cluster_context dc cfg) server)"
      using assms Inr by (simp add: surroundings_quiet_def)
    then have "changes store (elsewhere ns) w w1" using ssh unfolding leaves_alone_def by (rule keepsD)
    moreover have "quiet_shell store ns sh" if "r = Inr (Some sh)" for sh
      using assms Inr ssh that unfolding surroundings_quiet_def by blast
    ultimately show ?thesis
      using Inr ssh by (auto simp: SSHToNode_def readA_const require_shell_def split: sum.splits option.splits)
  qed
  show "leaves_alone store ns (node_shell P dc cfg server)"
    using dial unfolding leaves_alone_def keeps_def
    by (auto simp: node_shell_def change.refl split: prod.splits sum.splits) (metis snd_conv)+
  show "node_shell P dc cfg server w = (Inr (Some sh), w') \<Longrightarrow> quiet_shell store ns sh"
    using dial [of w] by (auto simp: node_shell_def split: if_splits prod.splits sum.splits)
qed

lemma backup_creds_ok: "gomap_ok (BuildBackupCredsSecretData n creds)"
  by (simp add: gomap_ok_def BuildBackupCredsSecretData_def)

context kube_server
begin

lemma EnsureSecret_keeps:
  assumes "gomap_ok kvs" "\<And>v. P (KindSecret, ns, name) v"
  shows "keeps (changes store P) (EnsureSecret api ns owner name kvs)"
  unfolding keeps_def
proof
  fix w
  obtain r w' where "EnsureSecret api ns owner name kvs w = (r, w')" by fastforce
  with EnsureSecret_spec [OF this assms(1)] assms(2)
  show "changes store P w (snd (EnsureSecret api ns owner name kvs w))"
    by (auto elim!: changes_mono)
qed

lemma ApplyOwned_keeps:
  assumes "\<And>v. P (entry_key ns t) v"
  shows "keeps (changes store P) (ApplyOwned api ns owner t)"
  unfolding keeps_def
proof
  fix w
  obtain r w' where "ApplyOwned api ns owner t w = (r, w')" by fastforce
  with ApplyOwned_spec [OF this] assms show "changes store P w (snd (ApplyOwned api ns owner t w))"
    by (auto elim!: changes_mono)
qed

end

section \<open>One database\<close>

lemma bindA_ret: "bindA (retA a) f = f a"
  by (simp add: bindA_def retA_def fun_eq_iff)

lemma ensure_bucket_request:
  assumes "ensureDatabaseBackupBucket P dc names name b req w = (Inr req', w')" "request_of store names name req"
  shows "request_of store names name req'"
  using assms by (auto simp: ensureDatabaseBackupBucket_def Let_def bindA_Inr thenA_Inr request_of_def bindA_read split: if_splits)

lemma ensure_bucket_keeps:
  assumes "kube_server api store" "dx_kube dc = Some c" "cl_api c = api"
    and "surroundings_quiet store (KubeNamespace names) P dc cfg"
  shows "keeps (changes store (database_writes names name)) (ensureDatabaseBackupBucket P dc names name b req)"
proof (cases "resolve_bucket P dc")
  case (Inl e)
  then show ?thesis
    by (auto simp: ensureDatabaseBackupBucket_def Let_def readA_const wrapR_def intro: change.fail)
next
  case (Inr bucket)
  have "leaves_alone store (KubeNamespace names) (bp_ensure bucket n)"
    "leaves_alone store (KubeNamespace names) (bp_set_lifecycle bucket n d)" for n d
    using assms(4) Inr by (auto simp: surroundings_quiet_def)
  note quiet = this [THEN leaves_writes]
  have "keeps (changes store (database_writes names name))
      (EnsureSecret api (KubeNamespace names) OwnerDatabases (KubeDatabaseBackupCreds names name) (BuildBackupCredsSecretData n creds))" for n creds
    using kube_server.EnsureSecret_keeps [OF assms(1) backup_creds_ok]
    by (simp add: database_writes_def database_keys_def)
  then show ?thesis
    using assms(2,3) Inr quiet
    by (auto simp: ensureDatabaseBackupBucket_def Let_def readA_const wrapR_def intro!: change.rules)
qed

lemma databaseRequest_of:
  "databaseRequest names name def sources = Inr req \<Longrightarrow> (\<forall>s. sh = Some s \<longrightarrow> quiet_shell store (KubeNamespace names) s) \<Longrightarrow>
     request_of store names name ((complete_request dc names img req)\<lparr>dq_shell := sh\<rparr>)"
  by (auto simp: databaseRequest_def bindR_eq_Inr request_of_def complete_request_def)

context database_engine
begin

lemma finish:
  assumes "kube_server api store" "dx_kube dc = Some c" "cl_api c = api" "request_of store names name req"
  shows "keeps (changes store (database_writes names name))
     (bindA (wrapA x (dbp_ensure_credentials db (dx_kube dc) req)) (\<lambda>resolved.
      bindA (wrapA y (dbp_reconcile db req)) (\<lambda>workloads.
        thenA (apply_workloads dc names name workloads) (retA (dc_url resolved)))))"
proof -
  have applied: "keeps (changes store (database_writes names name)) (apply_workloads dc names name objs)"
    if "dbp_reconcile db req w = (Inr objs, w')" for objs w w'
  proof -
    have "keeps (changes store (database_writes names name)) (ApplyOwned api (KubeNamespace names) OwnerDatabases obj)"
      if "obj \<in> set objs" for obj
      using kube_server.ApplyOwned_keeps [OF assms(1)] workloads_own [OF assms(4) \<open>dbp_reconcile db req w = (Inr objs, w')\<close> that] by blast
    then show ?thesis using assms(2,3) by (auto simp: apply_workloads_def intro!: change.loop change.wrap)
  qed
  have "keeps (changes store (database_writes names name)) (dbp_ensure_credentials db (dx_kube dc) req)"
    using ensure_own assms(2,3,4) by simp
  moreover have "keeps (changes store (database_writes names name)) (dbp_reconcile db req)"
    using reconcile_quiet [OF assms(4)] by (rule leaves_writes)
  ultimately show ?thesis
    by (intro change.bind change.wrap change.bind_value change.seq change.ret)
      (auto dest: applied)
qed

lemma reconcile_one:
  assumes "kube_server api store" "dx_kube dc = Some c" "cl_api c = api"
    and "surroundings_quiet store (KubeNamespace names) P dc cfg" "resolve_database P dc name (db_engine def) = Inr db"
  shows "keeps (changes store (database_writes names name)) (ReconcileOneDatabase P dc cfg names name def sources)"
proof -
  note finish = finish [OF assms(1-3)]
  note node = node_shell_quiet [OF assms(4)]
  let ?rest = "\<lambda>req. bindA (wrapA (''databases.'' @ name @ ''.ensure credentials'') (dbp_ensure_credentials db (dx_kube dc) req)) (\<lambda>resolved.
      bindA (wrapA (''databases.'' @ name @ ''.reconcile'') (dbp_reconcile db req)) (\<lambda>workloads.
        thenA (apply_workloads dc names name workloads) (retA (dc_url resolved))))"
  have with_bucket: "keeps (changes store (database_writes names name))
      (bindA (case db_backup def of None \<Rightarrow> retA req | Some b \<Rightarrow> ensureDatabaseBackupBucket P dc names name b req) ?rest)"
    if req: "request_of store names name req" for req
  proof (cases "db_backup def")
    case None
    show ?thesis unfolding None option.case bindA_ret by (rule finish [OF req])
  next
    case (Some b)
    show ?thesis
      unfolding Some option.case
      by (rule change.bind_value [OF ensure_bucket_keeps [OF assms(1-4)]]) (rule finish, rule ensure_bucket_request [OF _ req])
  qed
  have from_shell: "keeps (changes store (database_writes names name)) (bindA (node_shell P dc cfg (db_server def)) (\<lambda>sh.
      bindA (case db_backup def of
               None \<Rightarrow> retA ((complete_request dc names img req0)\<lparr>dq_shell := sh\<rparr>)
             | Some b \<Rightarrow> ensureDatabaseBackupBucket P dc names name b ((complete_request dc names img req0)\<lparr>dq_shell := sh\<rparr>)) ?rest))"
    if "databaseRequest names name def sources = Inr req0" for img req0
  proof (rule change.bind_value [OF leaves_writes [OF node(1)]])
    fix w sh w'
    assume "node_shell P dc cfg (db_server def) w = (Inr sh, w')"
    with node(2) have "\<forall>s. sh = Some s \<longrightarrow> quiet_shell store (KubeNamespace names) s" by blast
    from with_bucket [OF databaseRequest_of [OF that this]]
    show "keeps (changes store (database_writes names name))
      (bindA (case db_backup def of
               None \<Rightarrow> retA ((complete_request dc names img req0)\<lparr>dq_shell := sh\<rparr>)
             | Some b \<Rightarrow> ensureDatabaseBackupBucket P dc names name b ((complete_request dc names img req0)\<lparr>dq_shell := sh\<rparr>)) ?rest)" .
  qed
  show ?thesis
    unfolding ReconcileOneDatabase_def Let_def readA_const assms(5) sum.case append_assoc
    using from_shell by (intro change.seq change.bind_read change.bind change.wrap change.read)
      (auto simp: readA_const intro!: change.fail split: sum.splits)
qed

end

section \<open>PostgreSQL\<close>

lemma quiet_shell_run: "quiet_shell store ns sh \<Longrightarrow> leaves_alone store ns (sh_run sh cmd)"
  by (simp add: quiet_shell_def)

lemma leaves_run_step: "quiet_shell store ns sh \<Longrightarrow> leaves_alone store ns (run_step sh what cmd)"
  by (simp add: run_step_def leaves_bind leaves_rules quiet_shell_run)

lemma leaves_output_of:
  assumes "quiet_shell store ns sh"
  shows "leaves_alone store ns (output_of sh cmd)"
  using quiet_shell_run [OF assms, of cmd]
  by (auto simp: leaves_alone_def keeps_def output_of_def split: prod.splits sum.splits) (metis snd_conv)+

lemmas leaves_node = leaves_run_step leaves_output_of quiet_shell_run

lemma leaves_PrepareNode:
  assumes "quiet_shell store ns sh"
  shows "leaves_alone store ns (PrepareNode (Some sh) gib)"
proof -
  have "leaves_alone store ns (resolvePoolSize sh gib)"
    by (auto simp: resolvePoolSize_def intro!: leaves_bind leaves_rules leaves_node assms split: option.split)
  then have "leaves_alone store ns (ensureZPool sh gib)"
    by (auto simp: ensureZPool_def create_pool_def intro!: leaves_bind leaves_rules leaves_node assms)
  moreover have "leaves_alone store ns (ensureZFSUtils sh)"
    by (auto simp: ensureZFSUtils_def intro!: leaves_bind leaves_rules leaves_node assms)
  ultimately show ?thesis by (auto simp: PrepareNode_def intro!: leaves_rules)
qed

lemma pg_Reconcile_Inr: "pg_Reconcile req w = (Inr objs, w') \<Longrightarrow> objs = pg_workloads req"
  by (auto simp: pg_Reconcile_def thenA_Inr)

lemma pg_workload_keys:
  assumes "request_of store names name req" "obj \<in> set (pg_workloads req)"
  shows "database_writes names name (entry_key (KubeNamespace names) obj) v"
proof -
  have "KubeNamespace names \<noteq> []" by (simp add: KubeNamespace_def Base_def)
  with assms show ?thesis
    by (auto simp: request_of_def pg_workloads_def database_writes_def database_keys_def elsewhere_def entry_key_def
        ko_kind_def kobj_of_def buildZFSStorageClass_def buildService_def pg_service_def buildPVC_def buildStatefulSet_def
        BuildBackupCronJob_def Let_def split: option.splits if_splits)
qed

text \<open>The PostgreSQL provider is such an engine, on every API server.\<close>

context kube_server
begin

lemma postgres_engine: "database_engine (postgres_provider s3) api store"
proof unfold_locales
  fix c :: "'w kube_client" and names name and req :: "'w database_request"
  assume c: "cl_api c = api" and req: "request_of store names name req"
  have "gomap_ok (credentials_data creds)" for creds by (simp add: credentials_data_def gomap_ok_def)
  from EnsureSecret_keeps [OF this, of "database_writes names name"] c req
  show "keeps (changes store (database_writes names name)) (dbp_ensure_credentials (postgres_provider s3) (Some c) req)"
    by (auto simp: postgres_provider_def pg_EnsureCredentials_def Let_def request_of_def database_writes_def
        database_keys_def intro!: change.rules)
next
  fix names name and req :: "'w database_request"
  assume "request_of store names name req"
  then have "\<exists>sh. dq_shell req = Some sh \<Longrightarrow> leaves_alone store (KubeNamespace names) (PrepareNode (dq_shell req) gib)" for gib
    by (auto simp: request_of_def intro: leaves_PrepareNode)
  then show "leaves_alone store (KubeNamespace names) (dbp_reconcile (postgres_provider s3) req)"
    by (cases "dq_shell req") (auto simp: postgres_provider_def pg_Reconcile_def whenA_def intro!: leaves_rules)
next
  fix names name w w' objs obj v and req :: "'w database_request"
  assume "request_of store names name req" "dbp_reconcile (postgres_provider s3) req w = (Inr objs, w')" "obj \<in> set objs"
  then show "database_writes names name (entry_key (KubeNamespace names) obj) v"
    by (auto simp: postgres_provider_def dest: pg_Reconcile_Inr pg_workload_keys)
qed

end

interpretation postgres: database_engine "postgres_provider s3" mem_api mem_store for s3
  by (rule mem.postgres_engine)

end
