(* ===== verification/DriftLaws.thy ===== *)
theory DriftLaws
  imports DatabaseLaws
begin

text \<open>
  A database whose live node differs from the configured one: the databases step reports it and
  leaves its objects alone, whatever it does for the others and however it ends.
\<close>

definition data_keys :: "names \<Rightarrow> string \<Rightarrow> kkey set" where
  "data_keys names d =
     {(KindStatefulSet, KubeNamespace names, Database names d), (KindService, KubeNamespace names, Database names d),
      (KindPVC, KubeNamespace names, KubeDatabasePVC names d), (KindSecret, KubeNamespace names, KubeDatabaseCredentials names d)}"

definition intact :: "('w \<Rightarrow> kkey \<Rightarrow> kcore option) \<Rightarrow> names \<Rightarrow> string \<Rightarrow> 'w \<Rightarrow> 'w \<Rightarrow> bool" where
  "intact store names d w w' \<longleftrightarrow> (\<forall>key \<in> data_keys names d. store w' key = store w key)"

lemma intact_refl: "intact store names d w w"
  and intact_trans: "intact store names d w w' \<Longrightarrow> intact store names d w' w'' \<Longrightarrow> intact store names d w w''"
  by (auto simp: intact_def)

lemma other_database_writes:
  "x \<noteq> d \<Longrightarrow> key \<in> data_keys names d \<Longrightarrow> \<not> database_writes names x key v"
  using credentials_not_backup [of names d x]
  by (auto simp: data_keys_def database_writes_def database_keys_def elsewhere_def naming_defs)

lemma writes_intact:
  assumes "changes store (database_writes names x) w w'" "x \<noteq> d"
  shows "intact store names d w w'"
  unfolding intact_def using changes_other [OF assms(1) other_database_writes [OF assms(2)]] by blast

lemma elsewhere_intact: "changes store (elsewhere (KubeNamespace names)) w w' \<Longrightarrow> intact store names d w w'"
  by (auto simp: intact_def data_keys_def elsewhere_def changes_def)

section \<open>One turn\<close>

definition engines_ok :: "'w provider_set \<Rightarrow> 'w deploy_context \<Rightarrow> 'w kube_api \<Rightarrow> ('w \<Rightarrow> kkey \<Rightarrow> kcore option) \<Rightarrow> bool" where
  "engines_ok P dc api store \<longleftrightarrow>
     (\<forall>name engine db. resolve_database P dc name engine = Inr db \<longrightarrow> database_engine db api store)"

lemma reconcile_intact:
  assumes "kube_server api store" "dx_kube dc = Some c" "cl_api c = api"
    and "surroundings_quiet store (KubeNamespace names) P dc cfg" "engines_ok P dc api store" "x \<noteq> d"
  shows "intact store names d w (snd (ReconcileOneDatabase P dc cfg names x def sources w))"
proof (cases "resolve_database P dc x (db_engine def)")
  case (Inl e)
  then show ?thesis by (simp add: ReconcileOneDatabase_def Let_def readA_const intact_refl)
next
  case (Inr db)
  with assms(5) have "database_engine db api store" by (auto simp: engines_ok_def)
  from database_engine.reconcile_one [OF this assms(1-4) Inr]
  show ?thesis using assms(6) by (auto simp: keeps_def intro: writes_intact)
qed

lemma drift_seen:
  assumes "kube_server api store" "dx_kube dc = Some c" "cl_api c = api"
    and "store w (KindStatefulSet, KubeNamespace names, Database names d) = Some live" "kc_node live LabelNvoiRole = Some node"
    and "node \<noteq> []" "node \<noteq> db_server def" "db_server def \<noteq> []"
    and "detectNodePinDrift dc names d def w = Inr m"
  shows "m = Some \<lparr>pm_database = d, pm_from = node, pm_to = db_server def\<rparr>"
proof -
  have seen: "live_node ss = node" if "api_get api KindStatefulSet (KubeNamespace names) (Database names d) w = Inr ss" for ss
  proof -
    from kube_server.get_found [OF assms(1) that] assms(4) have core: "core ss = live" "ko_kind ss = KindStatefulSet" by auto
    then have "map_of (node_of (ko_body ss)) LabelNvoiRole = Some node" using assms(5) by (auto simp: core_def)
    with core(2) show ?thesis by (cases "ko_body ss") (auto simp: live_node_def get0_def ko_kind_def)
  qed
  have "api_get api KindStatefulSet (KubeNamespace names) (Database names d) w \<noteq> Inl ApiNotFound"
    using kube_server.get_missing [OF assms(1)] assms(4) by fastforce
  with assms seen show ?thesis
    by (auto simp: detectNodePinDrift_def GetStatefulSet_def bindR_eq_Inr split: sum.splits api_err.splits)
qed

lemma database_step_drift:
  assumes "kube_server api store" "dx_kube dc = Some c" "cl_api c = api"
    and "surroundings_quiet store (KubeNamespace names) P dc cfg" "engines_ok P dc api store"
    and "store w (KindStatefulSet, KubeNamespace names, Database names d) = Some live" "kc_node live LabelNvoiRole = Some node"
    and "node \<noteq> []" "node \<noteq> db_server (get0 database0 (cfg_databases cfg) d)" "selfhosted cfg d"
    and "database_step P dc cfg names sources s x w = (r, w')"
  shows "intact store names d w w' \<and> (\<forall>s'. r = Inr s' \<longrightarrow> set (snd s) \<subseteq> set (snd s') \<and>
     (x = d \<longrightarrow> \<lparr>pm_database = d, pm_from = node, pm_to = db_server (get0 database0 (cfg_databases cfg) d)\<rparr> \<in> set (snd s')))"
proof -
  obtain out pending where s: "s = (out, pending)" by fastforce
  let ?def = "get0 database0 (cfg_databases cfg) x"
  show ?thesis
  proof (cases "detectNodePinDrift dc names x ?def w")
    case (Inl e)
    with assms(11) s show ?thesis by (auto simp: database_step_def Let_def bindA_read_at intact_refl)
  next
    case (Inr drift)
    show ?thesis
    proof (cases drift)
      case None
      with Inr drift_seen [OF assms(1-3,6-9)] assms(10) have "x \<noteq> d" by (auto simp: selfhosted_def)
      moreover from this have "intact store names d w (snd (ReconcileOneDatabase P dc cfg names x ?def sources w))"
        by (rule reconcile_intact [OF assms(1-5)])
      ultimately show ?thesis
        using assms(11) Inr None s
        by (auto simp: database_step_def Let_def bindA_read_at bindA_result split: prod.splits sum.splits)
    next
      case (Some m)
      with Inr assms(11) s have "w' = w" "\<And>s'. r = Inr s' \<Longrightarrow> snd s' = pending @ [m]"
        by (auto simp: database_step_def Let_def bindA_read_at bindA_result wrapA_def split: prod.splits sum.splits)
      moreover have "x = d \<Longrightarrow> m = \<lparr>pm_database = d, pm_from = node, pm_to = db_server (get0 database0 (cfg_databases cfg) d)\<rparr>"
        using drift_seen [OF assms(1-3,6-9)] assms(10) Inr Some by (auto simp: selfhosted_def)
      ultimately show ?thesis using s by (auto simp: intact_refl)
    qed
  qed
qed

lemma databases_fold_drift:
  assumes "kube_server api store" "dx_kube dc = Some c" "cl_api c = api"
    and "surroundings_quiet store (KubeNamespace names) P dc cfg" "engines_ok P dc api store"
    and "store w (KindStatefulSet, KubeNamespace names, Database names d) = Some live" "kc_node live LabelNvoiRole = Some node"
    and "node \<noteq> []" "node \<noteq> db_server (get0 database0 (cfg_databases cfg) d)" "selfhosted cfg d"
    and "foldA (database_step P dc cfg names sources) s xs w = (r, w')"
  shows "intact store names d w w' \<and> (\<forall>s'. r = Inr s' \<longrightarrow> set (snd s) \<subseteq> set (snd s') \<and>
     (d \<in> set xs \<longrightarrow> \<lparr>pm_database = d, pm_from = node, pm_to = db_server (get0 database0 (cfg_databases cfg) d)\<rparr> \<in> set (snd s')))"
  using assms(6,11)
proof (induction xs arbitrary: s w)
  case (Cons x xs)
  obtain r1 w1 where step: "database_step P dc cfg names sources s x w = (r1, w1)" by fastforce
  note turn = database_step_drift [OF assms(1-5) Cons.prems(1) assms(7-10) step]
  show ?case
  proof (cases r1)
    case (Inl e)
    with Cons.prems step turn show ?thesis by (auto simp: bindA_def)
  next
    case (Inr s1)
    with Cons.prems step have rest: "foldA (database_step P dc cfg names sources) s1 xs w1 = (r, w')" by (simp add: bindA_def)
    from turn have "store w1 (KindStatefulSet, KubeNamespace names, Database names d) = Some live"
      using Cons.prems(1) by (simp add: intact_def data_keys_def)
    from Cons.IH [OF this rest] turn Inr show ?thesis by (auto intro: intact_trans)
  qed
qed (simp add: intact_refl)

section \<open>The sweeps\<close>

lemma sweep_intact:
  assumes "kube_server api store"
    and "\<And>n. (k, KubeNamespace names, n) \<in> data_keys names d \<Longrightarrow> n \<in> set desired"
  shows "intact store names d w (snd (SweepOwned api (KubeNamespace names) OwnerDatabases k desired w))"
proof -
  have "removes store (\<lambda>key c. \<exists>n. key = (k, KubeNamespace names, n) \<and> n \<notin> set desired \<and> owned_by OwnerDatabases c) w
      (snd (SweepOwned api (KubeNamespace names) OwnerDatabases k desired w))"
    using kube_server.SweepOwned_removes [OF assms(1)] by (simp add: keeps_def)
  then show ?thesis using assms(2) unfolding intact_def removes_def by metis
qed

lemma desired_keeps_data:
  assumes "(k, desired) \<in> set (desired_database_objects cfg names)" "(k, KubeNamespace names, n) \<in> data_keys names d"
    and "selfhosted cfg d" "d \<in> fst ` set (cfg_databases cfg)"
  shows "n \<in> set desired"
proof -
  define dbs where "dbs = SortedKeys (cfg_databases cfg)"
  have "d \<in> set dbs" using assms(4) by (simp add: dbs_def)
  with assms(1-3) show ?thesis by (auto simp: desired_database_objects_def data_keys_def Let_def simp flip: dbs_def)
qed

lemma sweeps_intact:
  assumes "kube_server api store" "dx_kube dc = Some c" "cl_api c = api" "selfhosted cfg d" "d \<in> fst ` set (cfg_databases cfg)"
  shows "intact store names d w (snd (database_sweeps dc cfg names w))"
proof -
  have "intact store names d w (snd (forA (\<lambda>(k, desired). ignoreA (SweepOwned api (KubeNamespace names) OwnerDatabases k desired)) xs w))"
    if "set xs \<subseteq> set (desired_database_objects cfg names)" for xs
    using that
  proof (induction xs arbitrary: w)
    case (Cons x xs)
    obtain k desired where x: "x = (k, desired)" by fastforce
    have "intact store names d w (snd (SweepOwned api (KubeNamespace names) OwnerDatabases k desired w))"
      using sweep_intact [OF assms(1) desired_keeps_data [OF _ _ assms(4,5)]] Cons.prems x by auto
    moreover have "intact store names d w1
        (snd (forA (\<lambda>(k, desired). ignoreA (SweepOwned api (KubeNamespace names) OwnerDatabases k desired)) xs w1))" for w1
      using Cons by simp
    ultimately show ?case unfolding x by (simp add: snd_thenA) (blast intro: intact_trans)
  qed (simp add: intact_refl)
  with assms(2,3) show ?thesis by (simp add: database_sweeps_def)
qed

section \<open>The step\<close>

lemma csi_intact:
  assumes "surroundings_quiet store (KubeNamespace names) P dc cfg"
  shows "intact store names d w (snd (whenA (b \<and> dx_shell dc \<noteq> None) (wrapA x (EnsureZFSCSI (dx_shell dc))) w))"
proof (cases "dx_shell dc")
  case None
  then show ?thesis by (simp add: whenA_def intact_refl)
next
  case (Some sh)
  with assms have "quiet_shell store (KubeNamespace names) sh" by (simp add: surroundings_quiet_def)
  then have "leaves_alone store (KubeNamespace names) (whenA b (wrapA x (EnsureZFSCSI (Some sh))))"
    by (auto simp: EnsureZFSCSI_def intro!: leaves_rules leaves_bind leaves_node)
  with Some show ?thesis unfolding leaves_alone_def keeps_def by (simp add: elsewhere_intact)
qed

text \<open>
  C32: a database whose StatefulSet is pinned to another node than the configuration declares keeps its
  StatefulSet, Service, volume claim and credentials through the databases step, whatever else the
  step does, for whichever database engines, and wherever it fails; when the step succeeds the
  database is among the pending migrations it reports.
\<close>

theorem drifted_database_untouched:
  assumes "kube_server api store" "dx_kube dc = Some c" "cl_api c = api" "Names dc = Inr names"
    and "surroundings_quiet store (KubeNamespace names) P dc cfg" "engines_ok P dc api store"
    and "store w (KindStatefulSet, KubeNamespace names, Database names d) = Some live" "kc_node live LabelNvoiRole = Some node"
    and "node \<noteq> []" "node \<noteq> db_server (get0 database0 (cfg_databases cfg) d)" "selfhosted cfg d"
    and "d \<in> fst ` set (cfg_databases cfg)" "Databases P dc cfg sources w = (r, w')"
  shows "(\<forall>key \<in> data_keys names d. store w' key = store w key) \<and>
    (\<forall>urls pending. r = Inr (urls, pending) \<longrightarrow>
       \<lparr>pm_database = d, pm_from = node, pm_to = db_server (get0 database0 (cfg_databases cfg) d)\<rparr> \<in> set pending)"
proof -
  let ?csi = "whenA (hasSelfhostedDatabase cfg \<and> dx_shell dc \<noteq> None) (wrapA ''ensure zfs-localpv csi'' (EnsureZFSCSI (dx_shell dc)))"
  let ?m = "\<lparr>pm_database = d, pm_from = node, pm_to = db_server (get0 database0 (cfg_databases cfg) d)\<rparr>"
  obtain r1 w1 where csi: "?csi w = (r1, w1)" by fastforce
  with csi_intact [OF assms(5)] have 1: "intact store names d w w1" by (metis snd_conv)
  have sts: "store w1 (KindStatefulSet, KubeNamespace names, Database names d) = Some live"
    using 1 assms(7) by (simp add: intact_def data_keys_def)
  obtain r2 w2 where fold: "foldA (database_step P dc cfg names sources) ([], []) (SortedKeys (cfg_databases cfg)) w1 = (r2, w2)"
    by fastforce
  note 2 = databases_fold_drift [OF assms(1-3,5,6) sts assms(8-11) fold]
  note 3 = sweeps_intact [where w = w2 and names = names, OF assms(1-3,11,12)]
  from assms(13) csi fold have "w' = w1 \<and> r1 \<noteq> Inr () \<and> (\<exists>e. r = Inl e) \<or> w' = w2 \<and> (\<exists>e. r = Inl e) \<or>
      w' = snd (database_sweeps dc cfg names w2) \<and> (\<forall>x. r = Inr x \<longrightarrow> r2 = Inr x)"
    unfolding Databases_def readA_const assms(4) sum.case
    by (auto simp: thenA_def bindA_def split: prod.splits sum.splits)
  moreover have "d \<in> set (SortedKeys (cfg_databases cfg))" using assms(12) by simp
  ultimately show ?thesis using 1 2 3 unfolding intact_def by auto
qed

definition drift_config :: app_config where
  "drift_config = config0\<lparr>cfg_databases := [(''main'', database0\<lparr>db_engine := ''postgres'', db_server := ''db-new'', db_size := 10\<rparr>)]\<rparr>"

definition drift_world :: mem_world where
  "drift_world = \<lparr>mw_objects = [demo_secret ''databases'' ''nvoi-shop-prod-db-main-credentials'',
     kobj_of ''nvoi-shop-prod-db-main'' ''nvoi-shop-prod'' [(LabelNvoiOwner, OwnerDatabases)]
       (StatefulSetBody ''nvoi-shop-prod-db-main'' 1 []
          \<lparr>pt_labels = [], pt_annotations = [], pt_spec = pg_pod ''postgres:16-alpine'' [] ''db-old'' ''data''\<rparr>)], mw_version = 3\<rparr>"

definition no_objects :: "'w object_store" where
  "no_objects = \<lparr>os_list = (\<lambda>_ _ _ _. Inr []), os_get = (\<lambda>_ _ _ _. Inl (ExtErr ''missing''))\<rparr>"

definition postgres_only :: "mem_world provider_set" where
  "postgres_only = no_providers\<lparr>ps_database :=
     reg_register ''postgres'' (no_creds ''postgres'') (\<lambda>_. postgres_provider no_objects) (newRegistry ''database'')\<rparr>"

lemma postgres_only_ok: "engines_ok postgres_only dc mem_api mem_store"
  using mem.postgres_engine
  by (auto simp: engines_ok_def resolve_database_def bindR_eq_Inr postgres_only_def resolve_def reg_register_def newRegistry_def
      wrapR_def split: if_splits option.splits sum.splits)

corollary drifted_database_untouched_witness:
  "\<exists>r w'. Databases postgres_only demo_context drift_config [] drift_world = (r, w') \<and>
     mem_store w' (KindStatefulSet, KubeNamespace demo_app, Database demo_app ''main'') =
     mem_store drift_world (KindStatefulSet, KubeNamespace demo_app, Database demo_app ''main'') \<and>
     mem_store drift_world (KindStatefulSet, KubeNamespace demo_app, Database demo_app ''main'') \<noteq> None"
proof -
  obtain r w' where run: "Databases postgres_only demo_context drift_config [] drift_world = (r, w')" by fastforce
  have node: "case mem_find (KindStatefulSet, KubeNamespace demo_app, Database demo_app ''main'') drift_world of
      None \<Rightarrow> False | Some ss \<Rightarrow> map_of (node_of (ko_body ss)) LabelNvoiRole = Some ''db-old''" by code_simp
  then obtain ss where ss: "mem_find (KindStatefulSet, KubeNamespace demo_app, Database demo_app ''main'') drift_world = Some ss"
    "kc_node (core ss) LabelNvoiRole = Some ''db-old''" by (auto simp: core_def split: option.splits)
  have quiet: "surroundings_quiet mem_store (KubeNamespace demo_app) postgres_only demo_context drift_config"
    by (auto simp: surroundings_quiet_def demo_context_def deploy_context0_def cluster_infra_def resolve_bucket_def
        postgres_only_def no_providers_def resolve_def newRegistry_def wrapR_def)
  have "selfhosted drift_config ''main''" "''main'' \<in> fst ` set (cfg_databases drift_config)"
    "''db-old'' \<noteq> db_server (get0 database0 (cfg_databases drift_config) ''main'')" by code_simp+
  from drifted_database_untouched [OF mem.kube_server_axioms demo_context_simps(1,2,4) quiet postgres_only_ok _ ss(2) _ this(3,1,2) run] ss(1)
  show ?thesis using run by (auto simp: mem_store_def data_keys_def)
qed

end
