(* ===== verification/PostgresLaws.thy ===== *)
theory PostgresLaws
  imports DriftLaws
begin

text \<open>
  Laws of the PostgreSQL provider: the size of the ZFS pool of a node, the pods that the Service of a
  database selects, and the names of branches.
\<close>

section \<open>The pool of a node\<close>

text \<open>
  A node that answers every command from the commands it has run so far and keeps their history.
\<close>

definition scripted :: "(string list \<Rightarrow> string \<Rightarrow> goerr + string) \<Rightarrow> string list shell" where
  "scripted answer = \<lparr>sh_run = (\<lambda>cmd past. (answer past cmd, past @ [cmd])), sh_upload = (\<lambda>_ _ _ past. (Inr (), past))\<rparr>"

definition df_command :: string where "df_command = ''df --output=avail -B1G / | tail -n 1''"
definition list_command :: string where "list_command = ''zpool list -H -o name 2>/dev/null || true''"

definition image_command :: "int \<Rightarrow> string" where
  "image_command n = ''sudo sh -c '' @ quoted (''test -f '' @ poolImagePath @ '' || truncate -s '' @ itoa n @ ''G '' @ poolImagePath)"

definition pool_command :: string where
  "pool_command = ''sudo zpool create -o ashift=12 -O compression=lz4 -m none '' @ zpoolName @ '' '' @ poolImagePath"

lemma run_step_scripted: "run_step (scripted answer) what cmd past =
    (case answer past cmd of Inl e \<Rightarrow> (Inl (Wrapf what e), past @ [cmd]) | Inr _ \<Rightarrow> (Inr (), past @ [cmd]))"
  by (auto simp: run_step_def scripted_def bindA_def wrapA_def retA_def split: sum.split)

lemma create_pool_runs:
  assumes "create_pool (scripted answer) n past = (Inr (), past')"
  shows "past' = past @ [''sudo mkdir -p /var/lib/nvoi-zfs'', image_command n, pool_command]"
  using assms
  by (auto simp: create_pool_def thenA_Inr run_step_scripted image_command_def pool_command_def split: sum.splits)

lemma output_of_scripted:
  "output_of (scripted answer) cmd past = (Inr (case answer past cmd of Inl _ \<Rightarrow> [] | Inr out \<Rightarrow> out), past @ [cmd])"
  by (simp add: output_of_def scripted_def split: sum.split)

lemma utils_runs:
  assumes "ensureZFSUtils (scripted answer) past = (r, past')"
  shows "\<exists>cmds. past' = past @ cmds \<and> pool_command \<notin> set cmds"
proof -
  let ?q = "''dpkg-query -W -f='' @ quoted ''${Status}'' @ '' zfsutils-linux 2>/dev/null || true''"
  let ?i = "''sudo DEBIAN_FRONTEND=noninteractive sh -c '' @ quoted ''apt-get update -q && apt-get install -y -q zfsutils-linux''"
  have "?q \<noteq> pool_command" "?i \<noteq> pool_command" by (simp_all add: pool_command_def)
  moreover have "past' = past @ [?q] \<or> past' = past @ [?q, ?i]"
    using assms by (auto simp: ensureZFSUtils_def bindA_result output_of_scripted retA_def run_step_scripted
        simp del: append.simps split: if_splits sum.splits)
  ultimately show ?thesis by (auto simp del: append.simps(2))
qed

lemma zpool_runs:
  assumes "\<And>h. answer h list_command = Inr out" "zpoolName \<notin> trim_space ` set (split_on (CHR 0x0A) out)"
    and "\<And>h. answer h df_command = Inr df" "scan_int (trim_space df) = Some avail"
  shows "ensureZPool (scripted answer) gib past =
    (case pool_size gib avail of Inl e \<Rightarrow> (Inl e, past @ [list_command, df_command])
     | Inr n \<Rightarrow> create_pool (scripted answer) n (past @ [list_command, df_command]))"
proof -
  have size: "resolvePoolSize (scripted answer) gib h = (pool_size gib avail, h @ [df_command])" for h
    using assms(3,4) by (simp add: resolvePoolSize_def bindA_result wrapA_def scripted_def readA_def flip: df_command_def)
  show ?thesis
    using assms(1,2) by (simp add: ensureZPool_def bindA_result output_of_scripted size flip: list_command_def split: sum.split)
qed

lemma pool_size_Inr:
  "0 < gib \<Longrightarrow> pool_size gib avail = Inr n \<Longrightarrow> gib \<le> n \<and> n \<le> 2 * gib \<and> n + rootReserveGiB \<le> avail"
  by (auto simp: pool_size_def Let_def split: if_splits)


definition node_answers :: "string \<Rightarrow> string list \<Rightarrow> string \<Rightarrow> goerr + string" where
  "node_answers df past cmd = Inr (if cmd = df_command then df else [])"


section \<open>The pods behind the Service of a database\<close>

definition template_of :: "kobj \<Rightarrow> pod_template option" where
  "template_of ob = (case ko_body ob of
     StatefulSetBody _ _ _ t \<Rightarrow> Some t | CronJobBody _ _ _ j \<Rightarrow> Some (js_template j) | JobBody j \<Rightarrow> Some (js_template j) | _ \<Rightarrow> None)"

definition selects :: "kobj \<Rightarrow> kobj \<Rightarrow> bool" where
  "selects svc ob \<longleftrightarrow> (case (ko_body svc, template_of ob) of
     (ServiceBody spec, Some t) \<Rightarrow> (\<forall>(k, v) \<in> set (ks_selector spec). map_of (pt_labels t) k = Some v) | _ \<Rightarrow> False)"

text \<open> the Service of a database selects the pod of the database, and also the pods of its backup and
  restore jobs, which carry the same label and serve nothing: while one runs, part of the connections
  to the database go to it.
\<close>

theorem jobs_behind_database_service:
  "selects (buildService req) (buildStatefulSet req) \<and> selects (buildService req) (BuildBackupCronJob req) \<and>
   selects (buildService req) (BuildRestoreJob req key now)"
  by (simp add: selects_def template_of_def buildService_def pg_service_def kobj_of_def buildStatefulSet_def Let_def
      BuildBackupCronJob_def BuildRestoreJob_def job_template_def job_labels_own)

section \<open>Branches\<close>

lemma branch_names:
  "KubeDatabaseBranch names db branch = Database names (db @ ''-data-br-'' @ branch)"
  "KubeDatabaseBranchSnapshot names db branch = KubeDatabaseBranch names db branch @ ''-snap''"
  by (simp_all add: naming_defs)

text \<open> a branch whose workload name has 59 to 63 characters can be created but not deleted: the name of
  its snapshot is refused by \<open>DeleteSnapshot\<close>, so that the deletion always fails and the snapshot,
  with the space it holds, stays.
\<close>

theorem branch_not_deletable:
  assumes "58 < length (KubeDatabaseBranch names db branch)"
  shows "fst (DeleteBranch (Some c) (Some sh) names db branch w) \<noteq> Inr ()"
proof -
  let ?snap = "KubeDatabaseBranchSnapshot names db branch"
  have "\<not> dns_label ?snap" using assms by (simp add: dns_label_def branch_names(2) del: branch_names(1))
  then have snapshot: "DeleteSnapshot sh ns ?snap w1 = (Inl (BadName ''snapshot name'' ?snap), w1)" for ns w1
    by (simp add: DeleteSnapshot_def ValidateName_def failA_def)
  show ?thesis
    by (auto simp: DeleteBranch_def Let_def thenA_def bindA_result snapshot failA_def
        split: option.splits prod.splits sum.splits)
qed

definition long_branch :: branch_source where
  "long_branch = \<lparr>bx_names = \<lparr>nm_app = ''storefront'', nm_env = ''production''\<rparr>, bx_db_name = ''orders'', bx_size = 10,
     bx_version = [], bx_server_role = ''db''\<rparr>"

definition calm_shell :: "'w shell" where
  "calm_shell = \<lparr>sh_run = (\<lambda>_. retA []), sh_upload = (\<lambda>_ _ _. retA ())\<rparr>"

corollary branch_not_deletable_witness:
  "fst (Branch (Some mem_client) (Some calm_shell) long_branch ''review-2026-05'' demo_world) =
     Inr \<lparr>bz_name = ''review-2026-05'', bz_pvc = ''nvoi-storefront-production-db-orders-data-br-review-2026-05'',
       bz_service = ''nvoi-storefront-production-db-orders-data-br-review-2026-05'',
       bz_snapshot = ''nvoi-storefront-production-db-orders-data-br-review-2026-05-snap''\<rparr> \<and>
   fst (DeleteBranch (Some mem_client) (Some calm_shell) (bx_names long_branch) ''orders'' ''review-2026-05'' demo_world) \<noteq> Inr ()"
proof
  show "fst (Branch (Some mem_client) (Some calm_shell) long_branch ''review-2026-05'' demo_world) =
     Inr \<lparr>bz_name = ''review-2026-05'', bz_pvc = ''nvoi-storefront-production-db-orders-data-br-review-2026-05'',
       bz_service = ''nvoi-storefront-production-db-orders-data-br-review-2026-05'',
       bz_snapshot = ''nvoi-storefront-production-db-orders-data-br-review-2026-05-snap''\<rparr>"
    by code_simp
  have "58 < length (KubeDatabaseBranch (bx_names long_branch) ''orders'' ''review-2026-05'')" by code_simp
  then show "fst (DeleteBranch (Some mem_client) (Some calm_shell) (bx_names long_branch) ''orders'' ''review-2026-05'' demo_world) \<noteq> Inr ()"
    by (rule branch_not_deletable)
qed

context kube_server
begin

lemma delete_gone:
  assumes "call_ignoring (api_delete api k ns n) w = (Inr (), w')"
  shows "store w' (k, ns, n) = None"
proof -
  obtain r w1 where del: "api_delete api k ns n w = (r, w1)" by fastforce
  with assms have "w' = w1" "r = Inr () \<or> r = Inl ApiNotFound"
    by (cases r; auto simp: call_ignoring_def IgnoreNotFound_def split: if_splits)+
  with delete_ok [OF del] show ?thesis by simp
qed

lemma delete_keeps_gone:
  assumes "call_ignoring (api_delete api k ns n) w = (r, w')" "store w key = None"
  shows "store w' key = None"
proof -
  obtain r1 w1 where del: "api_delete api k ns n w = (r1, w1)" by fastforce
  with assms(1) have "w' = w1" by (simp add: call_ignoring_def)
  with delete_frame [OF del, of key] assms(2) show ?thesis by (cases "store w1 key") auto
qed

lemma DeleteByName_gone:
  assumes "DeleteByName api ns n w = (Inr (), w')"
  shows "store w' (KindStatefulSet, ns, n) = None"
  using assms by (auto simp: DeleteByName_def thenA_Inr dest: delete_gone intro: delete_keeps_gone)

end

text \<open> deleting a branch of one database deletes the StatefulSet of the database that is called like
  it: a branch of \<open>orders\<close> called \<open>eu\<close> and the database \<open>orders-data-br-eu\<close> share their names.
\<close>

theorem branch_deletes_database:
  assumes "kube_server api store" "cl_api c = api" "quiet_shell store (KubeNamespace names) sh"
    and "DeleteBranch (Some c) (Some sh) names db branch w = (Inr (), w')"
  shows "store w' (KindStatefulSet, KubeNamespace names, Database names (db @ ''-data-br-'' @ branch)) = None"
proof -
  let ?ns = "KubeNamespace names"
  let ?n = "KubeDatabaseBranch names db branch"
  let ?snap = "DeleteSnapshot sh ?ns (KubeDatabaseBranchSnapshot names db branch)"
  from assms(2,4) obtain w1 w2 where "DeleteByName api ?ns ?n w = (Inr (), w1)"
    and pvc: "call_ignoring (api_delete api KindPVC ?ns ?n) w1 = (Inr (), w2)" and snap: "?snap w2 = (Inr (), w')"
    by (auto simp: DeleteBranch_def Let_def thenA_Inr DeletePVC_def split: option.splits)
  then have "store w1 (KindStatefulSet, ?ns, ?n) = None" using kube_server.DeleteByName_gone [OF assms(1)] by blast
  then have "store w2 (KindStatefulSet, ?ns, ?n) = None" by (rule kube_server.delete_keeps_gone [OF assms(1) pvc])
  moreover have "leaves_alone store ?ns ?snap"
    by (auto simp: DeleteSnapshot_def intro!: leaves_rules leaves_run_step assms(3) split: option.split)
  then have "changes store (elsewhere ?ns) w2 w'" using snap unfolding leaves_alone_def by (rule keepsD)
  then have "store w' (KindStatefulSet, ?ns, ?n) = store w2 (KindStatefulSet, ?ns, ?n)"
    by (rule changes_other) (simp add: elsewhere_def)
  ultimately show ?thesis by (simp add: branch_names(1))
qed

corollary branch_deletes_database_witness:
  "\<exists>w'. DeleteBranch (Some mem_client) (Some calm_shell) demo_app ''orders'' ''eu'' drift_world = (Inr (), w') \<and>
     mem_store w' (KindStatefulSet, KubeNamespace demo_app, Database demo_app ''orders-data-br-eu'') = None"
proof -
  have "fst (DeleteBranch (Some mem_client) (Some calm_shell) demo_app ''orders'' ''eu'' drift_world) = Inr ()" by code_simp
  then obtain w' where run: "DeleteBranch (Some mem_client) (Some calm_shell) demo_app ''orders'' ''eu'' drift_world = (Inr (), w')"
    by (metis prod.collapse)
  have "quiet_shell mem_store (KubeNamespace demo_app) calm_shell"
    by (simp add: quiet_shell_def calm_shell_def leaves_rules)
  from branch_deletes_database [OF mem.kube_server_axioms demo_context_simps(2) this run] run show ?thesis by auto
qed

end
