(* ===== verification/ObjectTypes.thy ===== *)
theory ObjectTypes
  imports PostgresLaws
begin

text \<open>
  The type discipline of \<open>Apply\<close> and \<open>SweepOwned\<close>: both switch over the kind of an object at run time and
  fail on the ones they do not know. Every object that the program applies, and every kind that it
  sweeps, is one they know, so that these failures cannot happen (a failed sweep would even be ignored).
\<close>

text \<open>What the program applies, by the step that does, with the owner it gives. The world behind a
  database request plays no role for its objects.\<close>

inductive applies :: "string \<Rightarrow> kobj \<Rightarrow> bool" where
  workload: "service_objects names req = Inr (wl, svc, k) \<Longrightarrow> rq_name req \<noteq> [] \<Longrightarrow> applies OwnerServices wl"
| service: "service_objects names req = Inr (wl, svc, k) \<Longrightarrow> rq_name req \<noteq> [] \<Longrightarrow> applies OwnerServices svc"
| cron: "cron_object names creq = Inr ob \<Longrightarrow> rq_name creq \<noteq> [] \<Longrightarrow> applies OwnerCrons ob"
| registry: "BuildPullSecret ns resolved = Inr ob \<Longrightarrow> applies OwnerRegistries ob"
| caddy: "ob \<in> {buildCaddyPVC, buildCaddyConfigMap, buildCaddyService, buildCaddyDeployment} \<Longrightarrow> applies OwnerCaddy ob"
| database: "databaseRequest names name def sources = Inr (req0 :: unit database_request) \<Longrightarrow>
    ob \<in> set (pg_workloads ((complete_request dc names img req0)\<lparr>dq_shell := sh\<rparr>)) \<Longrightarrow> applies OwnerDatabases ob"
| restore: "dq_full_name (dreq :: unit database_request) \<noteq> [] \<Longrightarrow> applies OwnerDatabases (BuildRestoreJob dreq key now)"
| branch: "(what, ob) \<in> set (branch_objects src (KubeDatabaseBranch (bx_names src) db b) snap) \<Longrightarrow> applies OwnerDatabaseBranches ob"

inductive_cases appliesE: "applies owner ob"

definition well_typed :: "kobj \<Rightarrow> bool" where
  "well_typed ob \<longleftrightarrow> ko_kind ob \<in> apply_kinds \<and> ko_name ob \<noteq> []"

lemma kobj_of_typed [simp]: "well_typed (kobj_of name ns labels body) \<longleftrightarrow> kind_of body \<in> apply_kinds \<and> name \<noteq> []"
  by (simp add: well_typed_def ko_kind_def kobj_of_def)

lemma names_not_empty [simp]:
  "Database names n \<noteq> []" "KubeDatabasePVC names n \<noteq> []" "KubeDatabaseBackupCron names n \<noteq> []" "KubeDatabaseBranch names n b \<noteq> []"
  by (simp_all add: naming_defs)

lemma cron_object_typed:
  assumes "cron_object names creq = Inr ob" "rq_name creq \<noteq> []"
  shows "well_typed ob"
  using cron_object_Inr(1) [OF assms(1)] assms(2) by (simp add: well_typed_def entry_key_def apply_kinds_def)

lemma pg_workload_typed:
  assumes "ob \<in> set (pg_workloads req)" "dq_full_name req \<noteq> []" "dq_pvc_name req \<noteq> []" "dq_backup_name req \<noteq> []"
  shows "well_typed ob"
proof -
  have "ob \<in> {buildZFSStorageClass, buildService req, buildPVC req, buildStatefulSet req, BuildBackupCronJob req}"
    using assms(1) by (auto simp: pg_workloads_def split: option.splits if_splits)
  moreover have "well_typed buildZFSStorageClass" "well_typed (buildService req)" "well_typed (buildPVC req)"
      "well_typed (buildStatefulSet req)" "well_typed (BuildBackupCronJob req)"
    using assms(2-4) by (simp_all add: buildZFSStorageClass_def buildService_def pg_service_def buildPVC_def
        buildStatefulSet_def BuildBackupCronJob_def Let_def apply_kinds_def ZFSStorageClassName_def)
  ultimately show ?thesis by blast
qed

lemma request_names:
  "databaseRequest names name def sources = Inr req \<Longrightarrow>
     dq_full_name req = Database names name \<and> dq_pvc_name req = KubeDatabasePVC names name \<and>
     dq_backup_name req = KubeDatabaseBackupCron names name"
  by (auto simp: databaseRequest_def bindR_eq_Inr)

lemma applied_well_typed:
  assumes "applies owner ob"
  shows "well_typed ob"
  using assms
proof cases
  case (workload names req svc k)
  then show ?thesis by (auto simp: service_objects_def bindR_eq_Inr BuildService_Inr service_body_def apply_kinds_def split: if_splits)
next
  case (service names req wl k)
  then show ?thesis by (auto simp: service_objects_def bindR_eq_Inr BuildService_Inr apply_kinds_def split: if_splits)
next
  case (cron names creq)
  show ?thesis using cron(2,3) by (rule cron_object_typed)
next
  case (registry ns resolved)
  then show ?thesis by (auto simp: BuildPullSecret_def bindR_eq_Inr apply_kinds_def PullSecretName_def)
next
  case caddy
  then show ?thesis
    by (auto simp: buildCaddyPVC_def buildCaddyConfigMap_def buildCaddyService_def buildCaddyDeployment_def caddy_deployment_def apply_kinds_def
        CaddyName_def CaddyPVCName_def CaddyConfigMapName_def)
next
  case (database names name def sources req0 dc img sh)
  from request_names [OF this(2)] show ?thesis
    by (intro pg_workload_typed [OF database(3)]) (simp_all add: complete_request_def)
next
  case (restore dreq key now)
  then show ?thesis by (simp add: BuildRestoreJob_def Let_def apply_kinds_def restore_job_name_def)
next
  case (branch what src db b snap)
  then show ?thesis
    by (auto simp: branch_objects_def buildBranchPVC_def buildBranchService_def pg_service_def buildBranchStatefulSet_def
        Let_def apply_kinds_def)
qed

lemma applied_owner: "applies owner ob \<Longrightarrow> owner \<noteq> []"
  by (induction rule: applies.induct)
    (simp_all only: list.distinct simp_thms OwnerServices_def OwnerCrons_def OwnerRegistries_def OwnerCaddy_def OwnerDatabases_def OwnerDatabaseBranches_def)



lemma swept_kinds_known:
  "\<forall>(k, _) \<in> set (desired_database_objects cfg names). sweep_nouns k \<noteq> None"
  "\<forall>k \<in> {KindDeployment, KindSecret, KindConfigMap, KindService, KindPVC, KindStatefulSet, KindCronJob}. sweep_nouns k \<noteq> None"
  by (auto simp: desired_database_objects_def Let_def)

end
