(* ===== verification/Describe.thy ===== *)
theory Describe
  imports Databases
begin

text \<open>
  The view of a cluster that \<open>nvoi describe\<close> prints (\<open>pkg/core/describe.go\<close>). What the listings of the
  API server add to the objects (age, status) and the text of an error are parameters; the probes of the
  databases run side by side and are read here one by one.
\<close>

section \<open>Rows\<close>

record describe_node =
  den_name :: string
  den_status :: string
  den_role :: string
  den_ip :: string

record describe_workload =
  dew_name :: string
  dew_kind :: string
  dew_ready :: string
  dew_image :: string
  dew_age :: string

record describe_cron =
  dec_name :: string
  dec_schedule :: string
  dec_image :: string
  dec_age :: string
  dec_status :: string

record describe_pod =
  dep_name :: string
  dep_status :: string
  dep_node :: string
  dep_restarts :: int
  dep_age :: string

record describe_service =
  des_name :: string
  des_type :: string
  des_cluster_ip :: string
  des_ports :: string

record describe_ingress =
  dei_domain :: string
  dei_service :: string
  dei_port :: int

record describe_secret =
  dek_name :: string
  dek_owner :: string
  dek_keys :: "string list"

record describe_database =
  ded_name :: string
  ded_engine :: string
  ded_endpoint :: string
  ded_state :: string
  ded_live :: string

record describe_result =
  dr_namespace :: string
  dr_nodes :: "describe_node list"
  dr_workloads :: "describe_workload list"
  dr_pods :: "describe_pod list"
  dr_services :: "describe_service list"
  dr_crons :: "describe_cron list"
  dr_databases :: "describe_database list"
  dr_ingress :: "describe_ingress list"
  dr_secrets :: "describe_secret list"
  dr_storage :: "(string \<times> string) list"

text \<open>What the listings hold beside the objects that the program applies.\<close>

record node_row =
  nr_name :: string
  nr_conditions :: "(string \<times> string) list"
  nr_addresses :: "(string \<times> string) list"
  nr_labels :: "string gomap"

record pod_row =
  pr_pod :: pod
  pr_node :: string
  pr_age :: string

record 'w cluster_view =
  cv_nodes :: "'w \<Rightarrow> api_err + node_row list"
  cv_pods :: "string \<Rightarrow> 'w \<Rightarrow> api_err + pod_row list"
  cv_secrets :: "string \<Rightarrow> 'w \<Rightarrow> api_err + kobj list"
  cv_age :: "kobj \<Rightarrow> 'w \<Rightarrow> string"
  cv_cron_active :: "kobj \<Rightarrow> bool"
  cv_cron_scheduled :: "kobj \<Rightarrow> bool"

record 'w database_probe =
  dp_name :: string
  dp_engine :: string
  dp_provider :: "'w database_provider option"
  dp_request :: "'w database_request"

section \<open>Sections\<close>

definition node_status :: "node_row \<Rightarrow> string" where
  "node_status n = (if (''Ready'', ''True'') \<in> set (nr_conditions n) then ''Ready'' else ''NotReady'')"

definition describeNodes :: "'w cluster_view \<Rightarrow> 'w \<Rightarrow> describe_node list" where
  "describeNodes v w =
     (case cv_nodes v w of
        Inl _ \<Rightarrow> []
      | Inr nodes \<Rightarrow> map (\<lambda>n. \<lparr>den_name = nr_name n, den_status = node_status n, den_role = get0 [] (nr_labels n) LabelNvoiRole,
          den_ip = (case map_of (nr_addresses n) ''InternalIP'' of None \<Rightarrow> [] | Some ip \<Rightarrow> ip)\<rparr>) nodes)"

definition ready_text :: "int \<Rightarrow> int \<Rightarrow> string" where
  "ready_text ready desired = itoa ready @ ''/'' @ itoa desired"

definition pod_image :: "kobj \<Rightarrow> string" where
  "pod_image ob = (case images_of (ko_body ob) of [] \<Rightarrow> [] | img # _ \<Rightarrow> img)"

definition replicas_wanted :: "kobj \<Rightarrow> int" where
  "replicas_wanted ob = (case ko_body ob of
     DeploymentBody n _ _ _ \<Rightarrow> sint n | StatefulSetBody _ n _ _ \<Rightarrow> sint n | _ \<Rightarrow> 0)"

definition of_database :: "kobj \<Rightarrow> bool" where
  "of_database ob \<longleftrightarrow> get0 [] (ko_labels ob) LabelNvoiOwner = OwnerDatabases"

definition workload_row :: "'w kube_client \<Rightarrow> 'w cluster_view \<Rightarrow> 'w \<Rightarrow> string \<Rightarrow> kobj \<Rightarrow> describe_workload" where
  "workload_row c v w kind ob =
     \<lparr>dew_name = ko_name ob, dew_kind = kind,
      dew_ready = ready_text (sint (px_ready_replicas (cl_exec c) (ko_status ob))) (replicas_wanted ob),
      dew_image = pod_image ob, dew_age = cv_age v ob w\<rparr>"

definition managed :: "'w kube_client \<Rightarrow> kind \<Rightarrow> string \<Rightarrow> 'w \<Rightarrow> kobj list" where
  "managed c k ns w = (case api_list (cl_api c) k ns (LabelAppManagedBy, LabelManagedBy) w of Inl _ \<Rightarrow> [] | Inr obs \<Rightarrow> obs)"

definition describeWorkloads :: "'w kube_client \<Rightarrow> 'w cluster_view \<Rightarrow> string \<Rightarrow> 'w \<Rightarrow> describe_workload list" where
  "describeWorkloads c v ns w =
     map (workload_row c v w ''deployment'') (filter (\<lambda>ob. \<not> of_database ob) (managed c KindDeployment ns w)) @
     map (workload_row c v w ''statefulset'') (filter (\<lambda>ob. \<not> of_database ob) (managed c KindStatefulSet ns w))"

definition cron_row :: "'w cluster_view \<Rightarrow> 'w \<Rightarrow> kobj \<Rightarrow> describe_cron" where
  "cron_row v w ob =
     \<lparr>dec_name = ko_name ob, dec_schedule = (case ko_body ob of CronJobBody s _ _ _ \<Rightarrow> s | _ \<Rightarrow> []), dec_image = pod_image ob,
      dec_age = cv_age v ob w,
      dec_status = (if cv_cron_active v ob then ''active'' else if cv_cron_scheduled v ob then ''scheduled'' else ''idle'')\<rparr>"

definition describeCrons :: "'w kube_client \<Rightarrow> 'w cluster_view \<Rightarrow> string \<Rightarrow> 'w \<Rightarrow> describe_cron list" where
  "describeCrons c v ns w = map (cron_row v w) (managed c KindCronJob ns w)"

text \<open>The last container that waits for a reason gives the status, otherwise the phase.\<close>

definition waiting_status :: "pod \<Rightarrow> string" where
  "waiting_status p =
     foldl (\<lambda>status cs. case cst_waiting cs of Some (reason, _) \<Rightarrow> if reason \<noteq> [] then reason else status | None \<Rightarrow> status)
       (pod_phase p) (pod_statuses p)"

definition describePods :: "'w cluster_view \<Rightarrow> string \<Rightarrow> 'w \<Rightarrow> describe_pod list" where
  "describePods v ns w =
     (case cv_pods v ns w of
        Inl _ \<Rightarrow> []
      | Inr rows \<Rightarrow> map (\<lambda>r. \<lparr>dep_name = pod_name (pr_pod r), dep_status = waiting_status (pr_pod r), dep_node = pr_node r,
          dep_restarts = restarts (pr_pod r), dep_age = pr_age r\<rparr>) rows)"

definition describeServices :: "'w kube_client \<Rightarrow> string \<Rightarrow> 'w \<Rightarrow> describe_service list" where
  "describeServices c ns w =
     map (\<lambda>ob. case ko_body ob of
         ServiceBody s \<Rightarrow> \<lparr>des_name = ko_name ob, des_type = ks_type s, des_cluster_ip = ks_cluster_ip s,
           des_ports = join '','' (map (\<lambda>p. itoa (sint (sp_port p)) @ ''/'' @ sp_protocol p) (ks_ports s))\<rparr>
       | _ \<Rightarrow> \<lparr>des_name = ko_name ob, des_type = [], des_cluster_ip = [], des_ports = []\<rparr>)
       (managed c KindService ns w)"

section \<open>Databases\<close>

definition dash :: string where "dash = [CHR 0xE2, CHR 0x80, CHR 0x94]"

definition trim_suffix :: "string \<Rightarrow> string \<Rightarrow> string" where
  "trim_suffix s p = (if has_suffix s p then take (length s - length p) s else s)"

definition database_state :: "'w kube_client \<Rightarrow> string \<Rightarrow> 'w database_probe \<Rightarrow> 'w \<Rightarrow> string" where
  "database_state c ns p w =
     (if dq_pod_name (dp_request p) = [] then ''Ready''
      else (case api_get (cl_api c) KindStatefulSet ns (trim_suffix (dq_pod_name (dp_request p)) ''-0'') w of
              Inl _ \<Rightarrow> ''Pending''
            | Inr ss \<Rightarrow> ''Ready '' @ ready_text (sint (px_ready_replicas (cl_exec c) (ko_status ss))) (replicas_wanted ss)))"

definition describeDatabaseFromCluster :: "'w kube_client \<Rightarrow> string \<Rightarrow> 'w database_probe \<Rightarrow> 'w \<Rightarrow> describe_database" where
  "describeDatabaseFromCluster c ns p w =
     (let row = \<lparr>ded_name = dp_name p, ded_engine = dp_engine p, ded_endpoint = [], ded_state = ''Not reconciled'', ded_live = dash\<rparr>;
          credsName = dq_credentials_secret (dp_request p)
      in if credsName = [] then row
         else (case api_get (cl_api c) KindSecret ns credsName w of
                 Inl _ \<Rightarrow> row
               | Inr secret \<Rightarrow>
                   let url = get0 [] (secret_data secret) ''url''; host = get0 [] (secret_data secret) ''host'';
                       port = get0 [] (secret_data secret) ''port''
                   in if url = [] then row
                      else row\<lparr>ded_endpoint := (if host \<noteq> [] \<and> port \<noteq> [] then host @ '':'' @ port else host),
                               ded_state := database_state c ns p w\<rparr>))"

text \<open>The reason of a probe that failed, shortened for its column.\<close>

definition live_text :: "string \<Rightarrow> string" where
  "live_text msg0 =
     (let msg = (case index_of msg0 '': '' of Some i \<Rightarrow> if 0 < i \<and> i < 30 then drop (i + 2) msg0 else msg0 | None \<Rightarrow> msg0)
      in if length msg > 60 then take 57 msg @ ''...'' else msg)"

definition probeDatabaseLive :: "(goerr \<Rightarrow> string) \<Rightarrow> ('w database_probe \<Rightarrow> 'w \<Rightarrow> bool) \<Rightarrow> 'w database_probe \<Rightarrow> 'w \<Rightarrow> string" where
  "probeDatabaseLive err_text timed_out p w =
     (case dp_provider p of
        None \<Rightarrow> dash
      | Some db \<Rightarrow>
          (case fst (dbp_exec_sql db (dp_request p) ''SELECT 1'' w) of
             Inr _ \<Rightarrow> ''Up''
           | Inl e \<Rightarrow> if timed_out p w then ''Down: timeout'' else ''Down: '' @ live_text (err_text e)))"

definition describeDatabases ::
    "(goerr \<Rightarrow> string) \<Rightarrow> ('w database_probe \<Rightarrow> 'w \<Rightarrow> bool) \<Rightarrow> 'w kube_client \<Rightarrow> string \<Rightarrow> 'w database_probe list \<Rightarrow> 'w \<Rightarrow> describe_database list" where
  "describeDatabases err_text timed_out c ns probes w =
     map (\<lambda>p. let row = describeDatabaseFromCluster c ns p w
              in if ded_state row = ''Not reconciled'' then row
                 else row\<lparr>ded_live := probeDatabaseLive err_text timed_out p w\<rparr>) probes"

section \<open>Secrets\<close>

definition CloudflareTunnelSecretName :: string where "CloudflareTunnelSecretName = ''cloudflared-token''"
definition NgrokTunnelSecretName :: string where "NgrokTunnelSecretName = ''ngrok-authtoken''"

definition classify_database :: "string \<Rightarrow> string option" where
  "classify_database rest =
     (if has_suffix rest ''-credentials'' then Some (''database:'' @ trim_suffix rest ''-credentials'')
      else if has_suffix rest ''-backup-creds'' then Some (''database:'' @ trim_suffix rest ''-backup-creds'' @ '':bk'')
      else None)"

definition classify_workload :: "string \<Rightarrow> string set \<Rightarrow> string set \<Rightarrow> string" where
  "classify_workload name services crons =
     (if has_suffix name ''-secrets''
      then (let short = trim_suffix name ''-secrets''
            in (if short \<in> services then ''service:'' else if short \<in> crons then ''cron:'' else ''workload:'') @ short)
      else [])"

definition classifySecretOwner :: "string \<Rightarrow> string \<Rightarrow> string set \<Rightarrow> string set \<Rightarrow> string" where
  "classifySecretOwner name base services crons =
     (if name = PullSecretName then ''registry''
      else if name = CloudflareTunnelSecretName then ''tunnel:cloudflare''
      else if name = NgrokTunnelSecretName then ''tunnel:ngrok''
      else let dbPrefix = base @ ''-db-''
           in case (if has_prefix name dbPrefix then classify_database (drop (length dbPrefix) name) else None) of
                Some owner \<Rightarrow> owner
              | None \<Rightarrow> classify_workload name services crons)"

definition describeSecrets :: "'w cluster_view \<Rightarrow> string \<Rightarrow> names \<Rightarrow> string list \<Rightarrow> string list \<Rightarrow> 'w \<Rightarrow> describe_secret list" where
  "describeSecrets v ns names services crons w =
     (case cv_secrets v ns w of
        Inl _ \<Rightarrow> []
      | Inr items \<Rightarrow>
          sort_key dek_name (concat (map (\<lambda>s.
            let owner = classifySecretOwner (ko_name s) (Base names) (set services) (set crons)
            in if owner = [] then []
               else [\<lparr>dek_name = ko_name s, dek_owner = owner, dek_keys = SortedKeys (secret_data s)\<rparr>]) items)))"

section \<open>The description\<close>

definition ingress_rows :: "caddy_route list \<Rightarrow> describe_ingress list" where
  "ingress_rows routes = concat (map (\<lambda>r. map (\<lambda>d. \<lparr>dei_domain = d, dei_service = cd_service r, dei_port = cd_port r\<rparr>) (cd_domains r)) routes)"

text \<open>A context that is cancelled between two sections ends the description with its cause.\<close>

definition Describe ::
    "(goerr \<Rightarrow> string) \<Rightarrow> ('w database_probe \<Rightarrow> 'w \<Rightarrow> bool) \<Rightarrow> 'w kube_client \<Rightarrow> 'w cluster_view \<Rightarrow> names \<Rightarrow> string list \<Rightarrow> string list \<Rightarrow>
      string list \<Rightarrow> 'w database_probe list \<Rightarrow> 'w \<Rightarrow> goerr + describe_result" where
  "Describe err_text timed_out c v names storageNames services crons probes w =
     (case rt_cancelled (cl_runtime c) w of
        Some cause \<Rightarrow> Inl cause
      | None \<Rightarrow>
          let ns = KubeNamespace names
          in Inr \<lparr>dr_namespace = ns, dr_nodes = describeNodes v w, dr_workloads = describeWorkloads c v ns w,
                dr_pods = describePods v ns w, dr_services = describeServices c ns w, dr_crons = describeCrons c v ns w,
                dr_databases = describeDatabases err_text timed_out c ns probes w,
                dr_ingress = (case GetCaddyRoutes (cl_runtime c) (cl_exec c) w of Inl _ \<Rightarrow> [] | Inr routes \<Rightarrow> ingress_rows routes),
                dr_secrets = describeSecrets v ns names services crons w,
                dr_storage = map (\<lambda>n. (n, Bucket names n)) storageNames\<rparr>)"

section \<open>Owners are recovered from names\<close>

lemma trim_suffix_append [simp]: "trim_suffix (s @ p) p = s"
  by (simp add: trim_suffix_def has_suffix_def)

declare has_suffix_append [simp]

lemma live_text_bound: "length (live_text msg) \<le> 60"
  by (simp add: live_text_def Let_def split: option.split)

lemma no_other_suffix:
  "\<not> has_suffix (s @ ''-backup-creds'') ''-credentials''" "\<not> has_suffix (s @ ''-secrets'') ''-credentials''"
  "\<not> has_suffix (s @ ''-secrets'') ''-backup-creds''"
  unfolding has_suffix_iff by (auto simp del: append_assoc dest: suffix_neq [rotated -1])

lemma database_secret:
  assumes "name = Base names @ ''-db-'' @ rest" "classify_database rest = Some owner"
  shows "classifySecretOwner name (Base names) services crons = owner"
proof -
  have "name \<noteq> PullSecretName" "name \<noteq> CloudflareTunnelSecretName" "name \<noteq> NgrokTunnelSecretName"
    by (simp_all add: assms(1) Base_def PullSecretName_def CloudflareTunnelSecretName_def NgrokTunnelSecretName_def)
  moreover have "name = (Base names @ ''-db-'') @ rest" by (simp add: assms(1))
  then have "has_prefix name (Base names @ ''-db-'')" "drop (length (Base names @ ''-db-'')) name = rest"
    by (metis has_prefix_append) (simp add: assms(1))
  ultimately show ?thesis using assms(2) by (simp add: classifySecretOwner_def Let_def)
qed

lemma workload_secret:
  "classifySecretOwner (wl @ ''-secrets'') base services crons =
     (if wl \<in> services then ''service:'' else if wl \<in> crons then ''cron:'' else ''workload:'') @ wl"
proof -
  have "wl @ ''-secrets'' \<noteq> s @ t" if "t \<in> {''-auth'', ''-token'', ''-authtoken''}" for s t
    using that by (auto intro!: suffix_neq)
  from this [of "''-auth''" "''registry''"] this [of "''-token''" "''cloudflared''"] this [of "''-authtoken''" "''ngrok''"]
  have "wl @ ''-secrets'' \<noteq> PullSecretName" "wl @ ''-secrets'' \<noteq> CloudflareTunnelSecretName" "wl @ ''-secrets'' \<noteq> NgrokTunnelSecretName"
    by (simp_all add: PullSecretName_def CloudflareTunnelSecretName_def NgrokTunnelSecretName_def)
  moreover have "(if has_prefix (wl @ ''-secrets'') p then classify_database (drop (length p) (wl @ ''-secrets'')) else None) = None" for p
  proof -
    have "\<not> has_suffix (drop k (wl @ ''-secrets'')) q" if "q \<in> {''-credentials'', ''-backup-creds''}" for k q
    proof
      assume "has_suffix (drop k (wl @ ''-secrets'')) q"
      then obtain t where "drop k (wl @ ''-secrets'') = t @ q" by (auto simp: has_suffix_iff)
      then have "wl @ ''-secrets'' = (take k (wl @ ''-secrets'') @ t) @ q" by (metis append_assoc append_take_drop_id)
      then have "has_suffix (wl @ ''-secrets'') q" unfolding has_suffix_iff by blast
      with that no_other_suffix show False by auto
    qed
    then show ?thesis by (simp add: classify_database_def)
  qed
  ultimately show ?thesis by (simp add: classifySecretOwner_def Let_def classify_workload_def)
qed

text \<open> the owner that \<open>describe\<close> shows for a secret is the one that the program wrote it for: it is
  recovered from the name of every secret that the program creates, whatever the application, the
  environment and the databases are called.
\<close>

theorem secret_owner_roundtrip:
  "classifySecretOwner (KubeDatabaseCredentials names db) (Base names) services crons = ''database:'' @ db \<and>
   classifySecretOwner (KubeDatabaseBackupCreds names db) (Base names) services crons = ''database:'' @ db @ '':bk'' \<and>
   classifySecretOwner (KubeServiceSecrets names wl) (Base names) services crons =
     (if wl \<in> services then ''service:'' else if wl \<in> crons then ''cron:'' else ''workload:'') @ wl \<and>
   classifySecretOwner PullSecretName (Base names) services crons = ''registry''"
proof -
  have "classify_database (db @ ''-credentials'') = Some (''database:'' @ db)"
    "classify_database (db @ ''-backup-creds'') = Some (''database:'' @ db @ '':bk'')"
    by (simp_all add: classify_database_def no_other_suffix)
  moreover have "KubeDatabaseCredentials names db = Base names @ ''-db-'' @ db @ ''-credentials''"
    "KubeDatabaseBackupCreds names db = Base names @ ''-db-'' @ db @ ''-backup-creds''"
    by (simp_all add: naming_defs)
  ultimately have "classifySecretOwner (KubeDatabaseCredentials names db) (Base names) services crons = ''database:'' @ db"
    "classifySecretOwner (KubeDatabaseBackupCreds names db) (Base names) services crons = ''database:'' @ db @ '':bk''"
    by (blast intro: database_secret)+
  moreover have "KubeServiceSecrets names wl = wl @ ''-secrets''" by (simp add: naming_defs)
  ultimately show ?thesis using workload_secret by (simp add: classifySecretOwner_def)
qed

end
