(* ===== verification/Hetzner.thy ===== *)
theory Hetzner
  imports Http InfraPlan
begin

text \<open>
  The client of Hetzner Cloud (\<open>pkg/provider/hetzner\<close>): firewalls, the network, servers and volumes.
  The service is a record of its endpoints; an answer holds the fields the client decodes.
\<close>

section \<open>Resources of a cloud\<close>

record cloud_server =
  vm_id :: string
  vm_name :: string
  vm_status :: string
  vm_ipv4 :: string
  vm_ipv6 :: string
  vm_private :: string
  vm_disk :: int

record cloud_volume =
  cv_id :: string
  cv_name :: string
  cv_size :: int
  cv_server_id :: string
  cv_server_name :: string
  cv_device :: string
  cv_location :: string

record cloud_named =
  cn_id :: string
  cn_name :: string

record server_request =
  rs_name :: string
  rs_type :: string
  rs_image :: string
  rs_location :: string
  rs_user_data :: string
  rs_firewall :: string
  rs_network :: string
  rs_disk :: int
  rs_labels :: "string gomap"

record volume_request =
  rv_name :: string
  rv_server :: string
  rv_size :: int
  rv_labels :: "string gomap"

record resource_group =
  rg_name :: string
  rg_columns :: "string list"
  rg_rows :: "string list list"

section \<open>The service\<close>

record hz_server =
  hs_id :: int
  hs_name :: string
  hs_status :: string
  hs_ipv4 :: string
  hs_ipv6 :: string
  hs_private :: "string list"
  hs_disk :: int
  hs_firewalls :: "int list"
  hs_volumes :: "int list"
  hs_location :: string

record hz_volume =
  hv_id :: int
  hv_name :: string
  hv_size :: int
  hv_server :: "int option"
  hv_location :: string
  hv_device :: string
  hv_status :: string

record fw_rule =
  fr_direction :: string
  fr_protocol :: string
  fr_port :: string
  fr_sources :: "string list"

record hz_firewall =
  hf_id :: int
  hf_name :: string
  hf_rules :: "fw_rule list"

record hz_network =
  hn_id :: int
  hn_name :: string

record hz_server_body =
  sb_name :: string
  sb_type :: string
  sb_image :: string
  sb_location :: string
  sb_user_data :: string
  sb_labels :: "string gomap"
  sb_firewalls :: "int list"
  sb_networks :: "int list"

record hz_network_body =
  nb_name :: string
  nb_ip_range :: string
  nb_labels :: "string gomap"
  nb_subnet :: string
  nb_zone :: string

record hz_volume_body =
  vb_name :: string
  vb_size :: int
  vb_location :: string
  vb_labels :: "string gomap"

record hz_action =
  ha_status :: string
  ha_error :: "string option"

text \<open>The query of a listing: \<open>?name=\<close>, or the first fifty with a label selector.\<close>

datatype hz_query = ByName string | PerPage "string gomap"

record 'w hz_api =
  hz_datacenters :: "'w \<Rightarrow> api_fault + unit"
  hz_servers :: "hz_query \<Rightarrow> 'w \<Rightarrow> api_fault + hz_server list"
  hz_server :: "string \<Rightarrow> 'w \<Rightarrow> api_fault + hz_server"
  hz_create_server :: "hz_server_body \<Rightarrow> ('w, hz_server) http"
  hz_delete_server :: "string \<Rightarrow> ('w, unit) http"
  hz_volumes :: "hz_query \<Rightarrow> 'w \<Rightarrow> api_fault + hz_volume list"
  hz_volume :: "string \<Rightarrow> 'w \<Rightarrow> api_fault + hz_volume"
  hz_create_volume :: "hz_volume_body \<Rightarrow> ('w, hz_volume) http"
  hz_delete_volume :: "string \<Rightarrow> ('w, unit) http"
  hz_attach_volume :: "string \<Rightarrow> int \<Rightarrow> ('w, int) http"
  hz_detach_volume :: "string \<Rightarrow> ('w, int) http"
  hz_resize_volume :: "string \<Rightarrow> int \<Rightarrow> ('w, int) http"
  hz_firewalls :: "hz_query \<Rightarrow> 'w \<Rightarrow> api_fault + hz_firewall list"
  hz_create_firewall :: "string \<Rightarrow> string gomap \<Rightarrow> fw_rule list \<Rightarrow> ('w, int) http"
  hz_delete_firewall :: "string \<Rightarrow> ('w, unit) http"
  hz_set_rules :: "string \<Rightarrow> fw_rule list \<Rightarrow> ('w, unit) http"
  hz_apply_firewall :: "string \<Rightarrow> int \<Rightarrow> ('w, int list) http"
  hz_remove_firewall :: "string \<Rightarrow> int \<Rightarrow> ('w, int list) http"
  hz_networks :: "hz_query \<Rightarrow> 'w \<Rightarrow> api_fault + hz_network list"
  hz_create_network :: "hz_network_body \<Rightarrow> ('w, int) http"
  hz_delete_network :: "string \<Rightarrow> ('w, unit) http"
  hz_action :: "int \<Rightarrow> 'w \<Rightarrow> api_fault + hz_action"

definition hetzner_classify :: "int \<Rightarrow> string \<Rightarrow> goerr option" where
  "hetzner_classify status body =
     (if status = 423 then Some ErrLocked
      else if status = 404 then Some ErrNotFound
      else if contains body ''already added'' then Some ErrAlreadyAttached
      else if contains body ''not attached'' then Some ErrNotAttached
      else if contains body ''not found'' then Some ErrNotFound
      else None)"

definition NewAPI :: api_client where
  "NewAPI = \<lparr>ac_label = ''hetzner'', ac_classify = hetzner_classify\<rparr>"

text \<open>\<open>strconv.ParseInt\<close> with its error dropped.\<close>

definition parse_id :: "string \<Rightarrow> int" where
  "parse_id s = fst (atoi s)"

section \<open>Actions of the service\<close>

definition action_done :: "int \<Rightarrow> hz_action \<Rightarrow> goerr + bool" where
  "action_done i a =
     (if ha_status a = ''success'' then Inr True
      else if ha_status a = ''error''
           then Inl (Errorf ''action failed'' [itoa i, case ha_error a of None \<Rightarrow> ''unknown error'' | Some m \<Rightarrow> m])
      else Inr False)"

definition waitForAction :: "'w runtime \<Rightarrow> 'w hz_api \<Rightarrow> int \<Rightarrow> ('w, unit) act" where
  "waitForAction rt api i =
     PollA rt PollInterval PollFast (readA (\<lambda>w.
       bindR (wrapR (''poll action '' @ itoa i) (get NewAPI (hz_action api i) w)) (action_done i)))"

definition wait_actions :: "'w runtime \<Rightarrow> 'w hz_api \<Rightarrow> string \<Rightarrow> int list \<Rightarrow> ('w, unit) act" where
  "wait_actions rt api ctx ids = forA (\<lambda>i. if i \<noteq> 0 then wrapA ctx (waitForAction rt api i) else retA ()) ids"

section \<open>Firewalls\<close>

definition everywhere :: "string list" where "everywhere = [''0.0.0.0/0'', ''::/0'']"

definition inbound :: "string \<Rightarrow> string \<Rightarrow> string list \<Rightarrow> fw_rule" where
  "inbound proto port sources = \<lparr>fr_direction = ''in'', fr_protocol = proto, fr_port = port, fr_sources = sources\<rparr>"

definition internal_rules :: "fw_rule list" where
  "internal_rules =
     (let priv = [PrivateNetworkCIDR]
      in [inbound ''tcp'' ''6443'' priv, inbound ''tcp'' ''10250'' priv, inbound ''udp'' ''8472'' priv, inbound ''tcp'' ''5000'' priv])"

definition baseFirewallRules :: "fw_rule list" where
  "baseFirewallRules = inbound ''tcp'' ''22'' everywhere # internal_rules"

definition ssh_sources :: "port_allow_list \<Rightarrow> string list" where
  "ssh_sources allowed = (case map_of allowed ''22'' of Some ips \<Rightarrow> if ips \<noteq> [] then ips else everywhere | None \<Rightarrow> everywhere)"

definition buildFirewallRules :: "port_allow_list \<Rightarrow> fw_rule list" where
  "buildFirewallRules allowed =
     internal_rules @ [inbound ''tcp'' ''22'' (ssh_sources allowed)] @
     map (\<lambda>port. inbound ''tcp'' port (get0 [] allowed port))
       (filter (\<lambda>port. \<not> (port = ''22'' \<or> IsInternalPort port) \<and> get0 [] allowed port \<noteq> []) (SortedPorts allowed))"

definition named_firewall :: "string \<Rightarrow> hz_firewall list \<Rightarrow> hz_firewall option" where
  "named_firewall name fws = find (\<lambda>fw. hf_name fw = name) fws"

definition ensureFirewall :: "'w hz_api \<Rightarrow> string \<Rightarrow> string gomap \<Rightarrow> ('w, string) act" where
  "ensureFirewall api name labels =
     bindA (wrapA ''get firewall'' (readA (get NewAPI (hz_firewalls api (ByName name))))) (\<lambda>fws.
       (case named_firewall name fws of
          Some fw \<Rightarrow> retA (itoa (hf_id fw))
        | None \<Rightarrow> bindA (wrapA ''create firewall'' (send NewAPI (hz_create_firewall api name labels baseFirewallRules)))
                    (\<lambda>i. retA (itoa i))))"

definition DeleteFirewall :: "'w hz_api \<Rightarrow> string \<Rightarrow> ('w, unit) act" where
  "DeleteFirewall api name =
     bindA (readA (get NewAPI (hz_firewalls api (ByName name)))) (\<lambda>fws.
       forA (\<lambda>fw. if hf_name fw = name
                    then tolerate IsNotFound (send NewAPI (hz_delete_firewall api (itoa (hf_id fw)))) else retA ()) fws)"

definition detach_attempt :: "'w runtime \<Rightarrow> 'w hz_api \<Rightarrow> string \<Rightarrow> string \<Rightarrow> ('w, bool) act" where
  "detach_attempt rt api firewallID serverID =
     bindA (resultA (send NewAPI (hz_remove_firewall api firewallID (parse_id serverID)))) (\<lambda>r.
       (case r of
          Inl e \<Rightarrow> if errors_is e ErrNotFound then retA True
                   else if errors_is e ErrLocked then retA False
                   else failA (Wrapf ''detach firewall'' e)
        | Inr actions \<Rightarrow> thenA (wait_actions rt api ''detach firewall action'' actions) (retA True)))"

definition detachFirewall :: "'w runtime \<Rightarrow> 'w hz_api \<Rightarrow> string \<Rightarrow> string \<Rightarrow> ('w, unit) act" where
  "detachFirewall rt api firewallID serverID = PollA rt PollInterval PollFast (detach_attempt rt api firewallID serverID)"

definition attachFirewall :: "'w runtime \<Rightarrow> 'w hz_api \<Rightarrow> string \<Rightarrow> string \<Rightarrow> ('w, unit) act" where
  "attachFirewall rt api firewallID serverID =
     bindA (resultA (send NewAPI (hz_apply_firewall api firewallID (parse_id serverID)))) (\<lambda>r.
       (case r of
          Inl e \<Rightarrow> if errors_is e ErrAlreadyAttached then retA () else failA (Wrapf ''attach firewall'' e)
        | Inr actions \<Rightarrow> wait_actions rt api ''attach firewall action'' actions))"

definition getServerAttachments :: "'w hz_api \<Rightarrow> string \<Rightarrow> 'w \<Rightarrow> goerr + string list \<times> string list" where
  "getServerAttachments api serverID w =
     bindR (get NewAPI (hz_server api serverID) w) (\<lambda>s. Inr (map itoa (hs_firewalls s), map itoa (hs_volumes s)))"

definition reconcileServerFirewall ::
    "'w runtime \<Rightarrow> 'w hz_api \<Rightarrow> string \<Rightarrow> string \<Rightarrow> string gomap \<Rightarrow> ('w, unit) act" where
  "reconcileServerFirewall rt api serverID desiredFWName labels =
     bindA (ensureFirewall api desiredFWName labels) (\<lambda>desiredFWID.
     bindA (readA (getServerAttachments api serverID)) (\<lambda>(currentFWIDs, _).
       let hasDesired = desiredFWID \<in> set currentFWIDs
       in if hasDesired \<and> length currentFWIDs = 1 then retA ()
          else thenA (forA (\<lambda>fwID. if fwID \<noteq> desiredFWID then detachFirewall rt api fwID serverID else retA ()) currentFWIDs)
                 (if \<not> hasDesired then attachFirewall rt api desiredFWID serverID else retA ())))"

definition ListAllFirewalls :: "'w hz_api \<Rightarrow> 'w \<Rightarrow> goerr + cloud_named list" where
  "ListAllFirewalls api w =
     bindR (wrapR ''list firewalls'' (get NewAPI (hz_firewalls api (PerPage [])) w)) (\<lambda>fws.
       Inr (map (\<lambda>fw. \<lparr>cn_id = itoa (hf_id fw), cn_name = hf_name fw\<rparr>) fws))"

definition ReconcileFirewallRules :: "'w hz_api \<Rightarrow> string \<Rightarrow> port_allow_list \<Rightarrow> ('w, unit) act" where
  "ReconcileFirewallRules api name allowed =
     bindA (wrapA ''find firewall'' (readA (get NewAPI (hz_firewalls api (ByName name))))) (\<lambda>fws.
       (case named_firewall name fws of
          Some fw \<Rightarrow> send NewAPI (hz_set_rules api (itoa (hf_id fw)) (buildFirewallRules allowed))
        | None \<Rightarrow> failA ErrNotFound))"

text \<open>The rules read back; \<open>None\<close> is the nil map.\<close>

definition public_rules :: "fw_rule list \<Rightarrow> port_allow_list" where
  "public_rules rules =
     foldl (\<lambda>result rule.
       if fr_direction rule \<noteq> ''in'' \<or> IsInternalPort (fr_port rule) then result
       else AList.update (fr_port rule) (fr_sources rule) result) [] rules"

definition GetFirewallRules :: "'w hz_api \<Rightarrow> string \<Rightarrow> 'w \<Rightarrow> goerr + port_allow_list" where
  "GetFirewallRules api name w =
     bindR (wrapR ''find firewall'' (get NewAPI (hz_firewalls api (ByName name)) w)) (\<lambda>fws.
       (case named_firewall name fws of
          Some fw \<Rightarrow> Inr (public_rules (hf_rules fw))
        | None \<Rightarrow> Inl ErrNotFound))"

section \<open>The network\<close>

definition zoneForLocation :: "string \<Rightarrow> string" where
  "zoneForLocation loc =
     get0 ''eu-central'' [(''fsn1'', ''eu-central''), (''nbg1'', ''eu-central''), (''hel1'', ''eu-central''),
       (''ash'', ''us-east''), (''hil'', ''us-west''), (''sin'', ''ap-southeast'')] loc"

definition PrivateNetworkSubnet :: string where "PrivateNetworkSubnet = ''10.0.1.0/24''"

definition ensureNetwork :: "'w hz_api \<Rightarrow> string \<Rightarrow> string \<Rightarrow> string gomap \<Rightarrow> ('w, string) act" where
  "ensureNetwork api name location labels =
     bindA (wrapA ''get network'' (readA (get NewAPI (hz_networks api (ByName name))))) (\<lambda>ns.
       (case find (\<lambda>n. hn_name n = name) ns of
          Some n \<Rightarrow> retA (itoa (hn_id n))
        | None \<Rightarrow> bindA (wrapA ''create network'' (send NewAPI (hz_create_network api
             \<lparr>nb_name = name, nb_ip_range = PrivateNetworkCIDR, nb_labels = labels, nb_subnet = PrivateNetworkSubnet,
              nb_zone = zoneForLocation location\<rparr>))) (\<lambda>i. retA (itoa i))))"

definition ListAllNetworks :: "'w hz_api \<Rightarrow> 'w \<Rightarrow> goerr + cloud_named list" where
  "ListAllNetworks api w =
     bindR (wrapR ''list networks'' (get NewAPI (hz_networks api (PerPage [])) w)) (\<lambda>ns.
       Inr (map (\<lambda>n. \<lparr>cn_id = itoa (hn_id n), cn_name = hn_name n\<rparr>) ns))"

definition DeleteNetwork :: "'w hz_api \<Rightarrow> string \<Rightarrow> ('w, unit) act" where
  "DeleteNetwork api name =
     bindA (readA (get NewAPI (hz_networks api (ByName name)))) (\<lambda>ns.
       forA (\<lambda>n. if hn_name n = name
                   then tolerate IsNotFound (send NewAPI (hz_delete_network api (itoa (hn_id n)))) else retA ()) ns)"

section \<open>Servers\<close>

definition serverFrom :: "hz_server \<Rightarrow> cloud_server" where
  "serverFrom s = \<lparr>vm_id = itoa (hs_id s), vm_name = hs_name s, vm_status = hs_status s, vm_ipv4 = hs_ipv4 s,
     vm_ipv6 = hs_ipv6 s, vm_private = (case hs_private s of [] \<Rightarrow> [] | ip # _ \<Rightarrow> ip), vm_disk = hs_disk s\<rparr>"

definition getServerByName :: "'w hz_api \<Rightarrow> string \<Rightarrow> 'w \<Rightarrow> goerr + cloud_server option" where
  "getServerByName api name w =
     bindR (wrapR ''get server'' (get NewAPI (hz_servers api (ByName name)) w)) (\<lambda>ss.
       Inr (map_option serverFrom (find (\<lambda>s. hs_name s = name) ss)))"

definition create_server :: "'w hz_api \<Rightarrow> server_request \<Rightarrow> ('w, cloud_server) act" where
  "create_server api req =
     bindA (wrapA ''firewall'' (ensureFirewall api (rs_firewall req) (rs_labels req))) (\<lambda>fwID.
     bindA (wrapA ''network'' (ensureNetwork api (rs_network req) (rs_location req) (rs_labels req))) (\<lambda>netID.
     bindA (wrapA ''create server'' (send NewAPI (hz_create_server api
       \<lparr>sb_name = rs_name req, sb_type = rs_type req, sb_image = rs_image req, sb_location = rs_location req,
        sb_user_data = rs_user_data req, sb_labels = rs_labels req, sb_firewalls = [parse_id fwID],
        sb_networks = [parse_id netID]\<rparr>))) (\<lambda>s. retA (serverFrom s))))"

definition EnsureServer :: "'w runtime \<Rightarrow> 'w hz_api \<Rightarrow> server_request \<Rightarrow> ('w, cloud_server) act" where
  "EnsureServer rt api req =
     bindA (readA (getServerByName api (rs_name req))) (\<lambda>existing.
       (case existing of
          Some s \<Rightarrow> thenA (wrapA ''reconcile firewall'' (reconcileServerFirewall rt api (vm_id s) (rs_firewall req) (rs_labels req)))
                      (retA s)
        | None \<Rightarrow> create_server api req))"

definition detach_volume_attempt :: "'w runtime \<Rightarrow> 'w hz_api \<Rightarrow> string \<Rightarrow> ('w, bool) act" where
  "detach_volume_attempt rt api volumeID =
     bindA (resultA (send NewAPI (hz_detach_volume api volumeID))) (\<lambda>r.
       (case r of
          Inl e \<Rightarrow> if errors_is e ErrNotAttached then retA True
                   else if errors_is e ErrLocked then retA False
                   else failA (Wrapf ''detach volume'' e)
        | Inr i \<Rightarrow> thenA (wait_actions rt api ''detach action'' [i]) (retA True)))"

definition hz_detachVolume :: "'w runtime \<Rightarrow> 'w hz_api \<Rightarrow> string \<Rightarrow> ('w, unit) act" where
  "hz_detachVolume rt api volumeID = PollA rt PollInterval PollFast (detach_volume_attempt rt api volumeID)"

text \<open>An error while waiting for the server to disappear is retried.\<close>

definition server_gone :: "'w hz_api \<Rightarrow> string \<Rightarrow> 'w \<Rightarrow> goerr + bool" where
  "server_gone api name w = (case getServerByName api name w of Inl _ \<Rightarrow> Inr False | Inr s \<Rightarrow> Inr (s = None))"

definition DeleteServer :: "'w runtime \<Rightarrow> 'w hz_api \<Rightarrow> string \<Rightarrow> ('w, unit) act" where
  "DeleteServer rt api name =
     bindA (readA (getServerByName api name)) (\<lambda>srv.
       (case srv of
          None \<Rightarrow> retA ()
        | Some s \<Rightarrow>
            bindA (wrapA ''get server attachments'' (readA (getServerAttachments api (vm_id s)))) (\<lambda>(firewallIDs, volumeIDs).
            thenA (forA (\<lambda>fwID. wrapA (''detach firewall '' @ fwID) (detachFirewall rt api fwID (vm_id s))) firewallIDs)
            (thenA (forA (\<lambda>volID. wrapA (''detach volume '' @ volID) (hz_detachVolume rt api volID)) volumeIDs)
            (thenA (wrapA ''delete server'' (tolerate IsNotFound (send NewAPI (hz_delete_server api (vm_id s)))))
               (PollA rt PollInterval PollFast (readA (server_gone api name))))))))"

definition ListServers :: "'w hz_api \<Rightarrow> string gomap \<Rightarrow> 'w \<Rightarrow> goerr + cloud_server list" where
  "ListServers api labels w =
     bindR (wrapR ''list servers'' (get NewAPI (hz_servers api (PerPage labels)) w)) (\<lambda>ss. Inr (map serverFrom ss))"

section \<open>Volumes\<close>

definition volumeFrom :: "hz_volume \<Rightarrow> cloud_volume" where
  "volumeFrom v = \<lparr>cv_id = itoa (hv_id v), cv_name = hv_name v, cv_size = hv_size v,
     cv_server_id = (case hv_server v of None \<Rightarrow> [] | Some i \<Rightarrow> itoa i), cv_server_name = [],
     cv_device = hv_device v, cv_location = hv_location v\<rparr>"

definition getVolumeByName :: "'w hz_api \<Rightarrow> string \<Rightarrow> 'w \<Rightarrow> goerr + cloud_volume option" where
  "getVolumeByName api name w =
     bindR (wrapR ''get volume by name'' (get NewAPI (hz_volumes api (ByName name)) w)) (\<lambda>vs.
       Inr (map_option volumeFrom (find (\<lambda>v. hv_name v = name) vs)))"

definition getVolume :: "'w hz_api \<Rightarrow> string \<Rightarrow> 'w \<Rightarrow> goerr + cloud_volume" where
  "getVolume api i w = bindR (wrapR ''get volume'' (get NewAPI (hz_volume api i) w)) (\<lambda>v. Inr (volumeFrom v))"

definition ResizeVolume :: "'w runtime \<Rightarrow> 'w hz_api \<Rightarrow> string \<Rightarrow> int \<Rightarrow> ('w, unit) act" where
  "ResizeVolume rt api i sizeGB =
     bindA (wrapA ''resize volume'' (send NewAPI (hz_resize_volume api i sizeGB))) (\<lambda>a. wait_actions rt api ''resize action'' [a])"

definition create_volume :: "'w hz_api \<Rightarrow> volume_request \<Rightarrow> cloud_server \<Rightarrow> ('w, cloud_volume) act" where
  "create_volume api req srv =
     bindA (wrapA ''get server location'' (readA (get NewAPI (hz_server api (vm_id srv))))) (\<lambda>s.
     bindA (wrapA ''create volume'' (send NewAPI (hz_create_volume api
       \<lparr>vb_name = rv_name req, vb_size = rv_size req, vb_location = hs_location s, vb_labels = rv_labels req\<rparr>)))
       (\<lambda>v. retA (volumeFrom v)))"

definition resize_existing :: "'w runtime \<Rightarrow> 'w hz_api \<Rightarrow> volume_request \<Rightarrow> cloud_volume \<Rightarrow> ('w, cloud_volume) act" where
  "resize_existing rt api req vol =
     (if rv_size req < cv_size vol
      then failA (Errorf ''shrinking not supported'' [rv_name req, itoa (cv_size vol), itoa (rv_size req)])
      else if rv_size req > cv_size vol
      then thenA (ResizeVolume rt api (cv_id vol) (rv_size req)) (retA (vol\<lparr>cv_size := rv_size req\<rparr>))
      else retA vol)"

definition attach_volume :: "'w runtime \<Rightarrow> 'w hz_api \<Rightarrow> cloud_server \<Rightarrow> cloud_volume \<Rightarrow> ('w, cloud_volume) act" where
  "attach_volume rt api srv vol =
     (if cv_server_id vol = vm_id srv then retA vol
      else thenA (whenA (cv_server_id vol \<noteq> []) (wrapA ''detach before reattach'' (hz_detachVolume rt api (cv_id vol))))
           (bindA (wrapA ''attach volume'' (send NewAPI (hz_attach_volume api (cv_id vol) (parse_id (vm_id srv))))) (\<lambda>a.
            thenA (wait_actions rt api ''attach volume action'' [a])
              (readA (getVolume api (cv_id vol))))))"

definition EnsureVolume :: "'w runtime \<Rightarrow> 'w hz_api \<Rightarrow> volume_request \<Rightarrow> ('w, cloud_volume) act" where
  "EnsureVolume rt api req =
     (if rv_size req \<le> 0 then failA (Errorf ''volume size must be > 0'' [itoa (rv_size req)])
      else bindA (wrapA (''resolve server '' @ rv_server req) (readA (getServerByName api (rv_server req)))) (\<lambda>srv.
        (case srv of
           None \<Rightarrow> failA (Errorf ''server not found'' [rv_server req])
         | Some s \<Rightarrow>
             bindA (readA (getVolumeByName api (rv_name req))) (\<lambda>vol.
             bindA (case vol of Some v \<Rightarrow> resize_existing rt api req v | None \<Rightarrow> create_volume api req s) (\<lambda>v.
             bindA (attach_volume rt api s v) (\<lambda>v. retA (v\<lparr>cv_server_name := rv_server req\<rparr>)))))))"

definition DetachVolume :: "'w runtime \<Rightarrow> 'w hz_api \<Rightarrow> string \<Rightarrow> ('w, unit) act" where
  "DetachVolume rt api name =
     bindA (readA (getVolumeByName api name)) (\<lambda>vol.
       (case vol of
          None \<Rightarrow> retA ()
        | Some v \<Rightarrow> if cv_server_id v = [] then retA () else hz_detachVolume rt api (cv_id v)))"

definition DeleteVolume :: "'w runtime \<Rightarrow> 'w hz_api \<Rightarrow> string \<Rightarrow> ('w, unit) act" where
  "DeleteVolume rt api name =
     bindA (readA (getVolumeByName api name)) (\<lambda>vol.
       (case vol of
          None \<Rightarrow> retA ()
        | Some v \<Rightarrow>
            thenA (whenA (cv_server_id v \<noteq> []) (wrapA ''detach before delete'' (hz_detachVolume rt api (cv_id v))))
              (wrapA ''delete volume'' (tolerate IsNotFound (send NewAPI (hz_delete_volume api (cv_id v)))))))"

definition ListVolumes :: "'w hz_api \<Rightarrow> string gomap \<Rightarrow> 'w \<Rightarrow> goerr + cloud_volume list" where
  "ListVolumes api labels w =
     bindR (wrapR ''list volumes'' (get NewAPI (hz_volumes api (PerPage labels)) w)) (\<lambda>vs. Inr (map volumeFrom vs))"

definition GetPrivateIP :: "'w hz_api \<Rightarrow> string \<Rightarrow> 'w \<Rightarrow> goerr + string" where
  "GetPrivateIP api serverID w =
     bindR (wrapR (''get server '' @ serverID) (get NewAPI (hz_server api serverID) w)) (\<lambda>s. Inr (vm_private (serverFrom s)))"

definition ResolveDevicePath :: "cloud_volume \<Rightarrow> string" where
  "ResolveDevicePath vol = cv_device vol"

section \<open>Tables and credentials\<close>

definition named_rows :: "string \<Rightarrow> cloud_named list \<Rightarrow> resource_group" where
  "named_rows name xs = \<lparr>rg_name = name, rg_columns = [''ID'', ''Name''], rg_rows = map (\<lambda>x. [cn_id x, cn_name x]) xs\<rparr>"

definition ListResources :: "'w hz_api \<Rightarrow> 'w \<Rightarrow> goerr + resource_group list" where
  "ListResources api w =
     bindR (ListServers api [] w) (\<lambda>servers.
     bindR (ListAllFirewalls api w) (\<lambda>firewalls.
     bindR (ListAllNetworks api w) (\<lambda>networks.
     bindR (ListVolumes api [] w) (\<lambda>volumes.
       Inr [\<lparr>rg_name = ''Servers'', rg_columns = [''ID'', ''Name'', ''Status'', ''IPv4'', ''Private IP''],
             rg_rows = map (\<lambda>s. [vm_id s, vm_name s, vm_status s, vm_ipv4 s, vm_private s]) servers\<rparr>,
            named_rows ''Firewalls'' firewalls, named_rows ''Networks'' networks,
            \<lparr>rg_name = ''Volumes'', rg_columns = [''ID'', ''Name'', ''Size'', ''Server'', ''Device''],
             rg_rows = map (\<lambda>v. [cv_id v, cv_name v, itoa (cv_size v) @ ''GB'', cv_server_id v, cv_device v]) volumes\<rparr>]))))"

definition ValidateCredentials :: "'w hz_api \<Rightarrow> string \<Rightarrow> 'w \<Rightarrow> goerr + unit" where
  "ValidateCredentials api token w =
     (if token = [] then Inl (Errorf ''hetzner: HETZNER_TOKEN is required'' []) else get NewAPI (hz_datacenters api) w)"

definition ArchForType :: "string \<Rightarrow> string" where
  "ArchForType t = (if length t \<ge> 3 \<and> to_lower (take 3 t) = ''cax'' then ''arm64'' else ''amd64'')"

end
