(* ===== verification/Machines.thy ===== *)
theory Machines
  imports Shells
begin

text \<open>
  What is done on a machine over SSH (\<open>pkg/infra\<close>): swap, k3s, the mounting of volumes, and the
  user data a machine boots with. The YAML library that renders the user data is a parameter; the
  progress lines of the steps are left out.
\<close>

section \<open>User data\<close>

record cloud_user =
  cu_name :: string
  cu_sudo :: string
  cu_shell :: string
  cu_lock_passwd :: bool
  cu_ssh_keys :: "string list"

record cloud_file =
  cf_path :: string
  cf_content :: string
  cf_permissions :: string
  cf_owner :: string

record cloud_config =
  cc_hostname :: string
  cc_users :: "cloud_user list"
  cc_packages :: "string list"
  cc_write_files :: "cloud_file list"
  cc_run_cmd :: "string list"
  cc_disable_root :: bool
  cc_ssh_pwauth :: bool

definition deploy_user :: "string \<Rightarrow> cloud_user" where
  "deploy_user sshPublicKey = \<lparr>cu_name = DefaultUser, cu_sudo = ''ALL=(ALL) NOPASSWD:ALL'', cu_shell = ''/bin/bash'',
     cu_lock_passwd = True, cu_ssh_keys = [sshPublicKey]\<rparr>"

definition home_commands :: "string list" where
  "home_commands =
     [''mkdir -p /home/'' @ DefaultUser @ ''/workspace'',
      ''chown -R '' @ DefaultUser @ '':'' @ DefaultUser @ '' /home/'' @ DefaultUser]"

definition node_config :: "string \<Rightarrow> string \<Rightarrow> cloud_config" where
  "node_config sshPublicKey hostname = \<lparr>cc_hostname = hostname, cc_users = [deploy_user sshPublicKey],
     cc_packages = [''git'', ''curl'', ''unzip''], cc_write_files = [], cc_run_cmd = home_commands,
     cc_disable_root = True, cc_ssh_pwauth = False\<rparr>"

definition user_data :: "string \<Rightarrow> (cloud_config \<Rightarrow> goerr + string) \<Rightarrow> cloud_config \<Rightarrow> goerr + string" where
  "user_data ctx yaml cfg =
     bindR (wrapR ctx (yaml cfg)) (\<lambda>data. Inr (''#cloud-config'' @ nl @ data))"

definition RenderCloudInit :: "(cloud_config \<Rightarrow> goerr + string) \<Rightarrow> string \<Rightarrow> string \<Rightarrow> goerr + string" where
  "RenderCloudInit yaml sshPublicKey hostname = user_data ''cloud-init'' yaml (node_config sshPublicKey hostname)"

definition daemon_json :: string where
  "daemon_json = ''{'' @ dquoted ''data-root'' @ '': '' @ go_quote BuilderCacheMountPath @ ''}'' @ nl"

definition docker_source :: string where
  "docker_source = ''sh -c '' @ quoted (''echo '' @ dquoted (''deb [arch=$(dpkg --print-architecture) ''
     @ ''signed-by=/etc/apt/keyrings/docker.asc] https://download.docker.com/linux/ubuntu ''
     @ ''$(. /etc/os-release && echo $VERSION_CODENAME) stable'') @ '' > /etc/apt/sources.list.d/docker.list'')"

definition builder_commands :: "string list" where
  "builder_commands = home_commands @
     [''install -m 0755 -d /etc/apt/keyrings'',
      ''curl -fsSL https://download.docker.com/linux/ubuntu/gpg -o /etc/apt/keyrings/docker.asc'',
      ''chmod a+r /etc/apt/keyrings/docker.asc'',
      docker_source,
      ''apt-get update'',
      ''DEBIAN_FRONTEND=noninteractive apt-get install -y docker-ce docker-ce-cli containerd.io docker-buildx-plugin'',
      ''systemctl stop docker.service docker.socket'',
      ''systemctl disable docker.service docker.socket'',
      ''mkdir -p '' @ BuilderCacheMountPath,
      ''usermod -aG docker '' @ DefaultUser]"

definition builder_config :: "string \<Rightarrow> string \<Rightarrow> cloud_config" where
  "builder_config sshPublicKey hostname = \<lparr>cc_hostname = hostname, cc_users = [deploy_user sshPublicKey],
     cc_packages = [''ca-certificates'', ''curl'', ''git'', ''gnupg'', ''xfsprogs''],
     cc_write_files = [\<lparr>cf_path = ''/etc/docker/daemon.json'', cf_content = daemon_json, cf_permissions = ''0644'',
        cf_owner = ''root:root''\<rparr>],
     cc_run_cmd = builder_commands, cc_disable_root = True, cc_ssh_pwauth = False\<rparr>"

definition RenderBuilderCloudInit :: "(cloud_config \<Rightarrow> goerr + string) \<Rightarrow> string \<Rightarrow> string \<Rightarrow> goerr + string" where
  "RenderBuilderCloudInit yaml sshPublicKey hostname = user_data ''builder cloud-init'' yaml (builder_config sshPublicKey hostname)"

section \<open>Swap\<close>

text \<open>Integer division truncates towards zero.\<close>

definition go_div :: "int \<Rightarrow> int \<Rightarrow> int" where
  "go_div a b = (if a < 0 then - ((- a) div b) else a div b)"

definition SwapSize :: "int \<Rightarrow> int" where
  "SwapSize diskGB0 =
     (let diskGB = (if diskGB0 \<le> 0 then 20 else diskGB0);
          mb = go_div (diskGB * 1024 * 5) 100;
          mb' = (if mb < 512 then 512 else mb)
      in if mb' > 2048 then 2048 else mb')"

definition swap_steps :: "int \<Rightarrow> (string \<times> string) list" where
  "swap_steps swapMB =
     [(''allocating /swapfile'', ''fallocate -l '' @ itoa swapMB @ ''M /swapfile''),
      (''chmod 600 /swapfile'', ''chmod 600 /swapfile''),
      (''mkswap /swapfile'', ''mkswap /swapfile''),
      (''swapon /swapfile'', ''swapon /swapfile''),
      (''registering in /etc/fstab'', ''bash -c '' @ dquoted (''grep -q '' @ quoted ''/swapfile'' @ '' /etc/fstab || echo ''
         @ quoted ''/swapfile none swap sw 0 0'' @ '' >> /etc/fstab''))]"

definition disk_gb :: "string \<Rightarrow> int" where
  "disk_gb out =
     (let diskKB = (case scan_int (trim_space out) of None \<Rightarrow> 0 | Some kb \<Rightarrow> kb)
      in go_div (go_div diskKB 1024) 1024)"

definition EnsureSwap :: "'w shell \<Rightarrow> ('w, unit) act" where
  "EnsureSwap ssh =
     bindA (resultA (sh_run ssh ''swapon --show --noheadings'')) (\<lambda>active.
       if (case active of Inr out \<Rightarrow> trim_space out \<noteq> [] | Inl _ \<Rightarrow> False) then retA ()
       else bindA (resultA (sh_run ssh ''df --output=size / | tail -1'')) (\<lambda>size.
         (case size of
            Inl _ \<Rightarrow> retA ()
          | Inr out \<Rightarrow>
              forA (\<lambda>(label, cmd). run_step ssh (''swap setup: '' @ label) (''sudo '' @ cmd))
                (swap_steps (SwapSize (disk_gb out))))))"

section \<open>Waiting for a machine\<close>

definition WaitCloudInit :: "'w shell \<Rightarrow> ('w, unit) act" where
  "WaitCloudInit ssh = run_step ssh ''cloud-init did not reach done state'' ''sudo cloud-init status --wait''"

section \<open>k3s\<close>

record node =
  nd_public :: string
  nd_private :: string

definition K3sClusterCIDR :: string where "K3sClusterCIDR = ''10.42.0.0/16''"
definition K3sServiceCIDR :: string where "K3sServiceCIDR = ''10.43.0.0/16''"
definition KubeconfigPath :: string where "KubeconfigPath = ''/etc/rancher/k3s/k3s.yaml''"
definition K3sTokenPath :: string where "K3sTokenPath = ''/var/lib/rancher/k3s/server/node-token''"

definition ready_path :: string where
  "ready_path = ''.status.conditions[?(@.type=='' @ dquoted ''Ready'' @ '')].status''"

definition discoverPrivateInterface :: "'w shell \<Rightarrow> string \<Rightarrow> ('w, string) act" where
  "discoverPrivateInterface ssh privateIP =
     bindA (sh_run ssh (''ip -o -4 addr show | awk '' @ quoted (''/'' @ privateIP @ ''/{print $2}'') @ '' | head -1'')) (\<lambda>out.
       if trim_space out \<noteq> [] then retA (trim_space out)
       else bindA (sh_run ssh (''ip -4 addr show | grep '' @ quoted privateIP @ '' -B2 | grep -oP ''
                     @ quoted ''(?<=: )[^:@]+(?=:)'' @ '' | tail -1'')) (\<lambda>out2.
         if trim_space out2 = [] then failA (Errorf ''no interface found for private ip'' [privateIP])
         else retA (trim_space out2)))"

definition installed_command :: string where
  "installed_command = ''command -v kubectl >/dev/null 2>&1 && sudo k3s kubectl get nodes -o jsonpath=''
     @ quoted (''{.items[*]'' @ ready_path @ ''}'') @ '' 2>/dev/null''"

definition install_command :: "node \<Rightarrow> string \<Rightarrow> string" where
  "install_command n privateIface = ''curl -sfL https://get.k3s.io | INSTALL_K3S_EXEC='' @ quoted
     (''server --disable traefik --disable servicelb --write-kubeconfig-mode 644 --node-ip '' @ nd_private n
      @ '' --advertise-address '' @ nd_private n @ '' --tls-san '' @ nd_private n @ '' --tls-san '' @ nd_public n
      @ '' --cluster-cidr '' @ K3sClusterCIDR @ '' --service-cidr '' @ K3sServiceCIDR
      @ '' --flannel-backend vxlan --flannel-iface '' @ privateIface) @ '' sh -''"

definition kube_home :: string where
  "kube_home = ''/home/'' @ DefaultUser @ ''/.kube''"

definition kubeconfig_command :: "node \<Rightarrow> string" where
  "kubeconfig_command n = ''mkdir -p '' @ kube_home @ '' && sudo cp '' @ KubeconfigPath @ '' '' @ kube_home @ ''/config && sudo sed -i ''
     @ quoted (''s/127.0.0.1/'' @ nd_private n @ ''/g'') @ '' '' @ kube_home @ ''/config && sudo chown -R ''
     @ DefaultUser @ '':'' @ DefaultUser @ '' '' @ kube_home @ '' && chmod 600 '' @ kube_home @ ''/config''"

definition nodes_ready_command :: string where
  "nodes_ready_command = ''KUBECONFIG='' @ kube_home @ ''/config kubectl get nodes -o jsonpath='' @ quoted (''{.items[*]'' @ ready_path @ ''}'')"

definition InstallK3sMaster :: "'w runtime \<Rightarrow> 'w shell \<Rightarrow> node \<Rightarrow> ('w, unit) act" where
  "InstallK3sMaster rt ssh n =
     bindA (resultA (sh_run ssh installed_command)) (\<lambda>installed.
       if (case installed of Inr out \<Rightarrow> contains out ''True'' | Inl _ \<Rightarrow> False) then retA ()
       else bindA (wrapA ''discover private interface'' (discoverPrivateInterface ssh (nd_private n))) (\<lambda>privateIface.
            thenA (run_step ssh ''install k3s server'' (install_command n privateIface))
            (thenA (run_step ssh ''setup kubeconfig'' (kubeconfig_command n))
               (wrapA ''k3s not ready'' (PollA rt 3 180
                  (bindA (resultA (sh_run ssh nodes_ready_command)) (\<lambda>r.
                     retA (case r of Inl _ \<Rightarrow> False | Inr out \<Rightarrow> contains out ''True''))))))))"

definition join_command :: "node \<Rightarrow> string \<Rightarrow> string \<Rightarrow> string \<Rightarrow> string" where
  "join_command m token workerIP privateIface = ''curl -sfL https://get.k3s.io | K3S_URL=https://'' @ nd_private m
     @ '':6443 K3S_TOKEN='' @ token @ '' INSTALL_K3S_EXEC='' @ quoted (''agent --node-ip '' @ workerIP
     @ '' --flannel-iface '' @ privateIface) @ '' sh -''"

definition worker_ready_command :: string where
  "worker_ready_command = ''KUBECONFIG='' @ kube_home @ ''/config kubectl get nodes -o jsonpath=''
     @ quoted (''{range .items[*]}{'' @ ready_path @ ''},{.status.addresses[?(@.type=='' @ dquoted ''InternalIP''
        @ '')].address}{'' @ dquoted (backslash # ''n'') @ ''}{end}'')"

text \<open>A line of the listing that shows the worker ready: \<open>True,<ip>\<close>.\<close>

definition line_ready :: "string \<Rightarrow> string \<Rightarrow> bool" where
  "line_ready workerIP line =
     (case cut (CHR '','') (trim_byte (CHR 0x27) line) of (status, ip, found) \<Rightarrow> found \<and> status = ''True'' \<and> ip = workerIP)"

definition JoinK3sWorker :: "'w runtime \<Rightarrow> 'w shell \<Rightarrow> 'w shell \<Rightarrow> node \<Rightarrow> node \<Rightarrow> ('w, unit) act" where
  "JoinK3sWorker rt masterSSH workerSSH worker m =
     bindA (wrapA ''read k3s token'' (sh_run masterSSH (''sudo cat '' @ K3sTokenPath))) (\<lambda>tokenBytes.
     bindA (resultA (sh_run workerSSH ''systemctl is-active --quiet k3s-agent'')) (\<lambda>active.
       if (case active of Inr _ \<Rightarrow> True | Inl _ \<Rightarrow> False) then retA ()
       else let workerIP = (if nd_private worker = [] then nd_public worker else nd_private worker) in
            bindA (wrapA ''discover worker private interface'' (discoverPrivateInterface workerSSH workerIP)) (\<lambda>privateIface.
            thenA (run_step workerSSH ''install k3s agent'' (join_command m (trim_space tokenBytes) workerIP privateIface))
              (wrapA ''worker not ready'' (PollA rt 3 180
                 (bindA (resultA (sh_run masterSSH worker_ready_command)) (\<lambda>r.
                    retA (case r of Inl _ \<Rightarrow> False | Inr out \<Rightarrow> list_ex (line_ready workerIP) (split_on (CHR 0x0A) out)))))))))"

section \<open>Volumes\<close>

definition mountpoint_command :: "string \<Rightarrow> string" where
  "mountpoint_command mountPath = ''mountpoint -q '' @ mountPath @ '' && echo mounted || echo not''"

definition says :: "string \<Rightarrow> goerr + string \<Rightarrow> bool" where
  "says word r = (case r of Inl _ \<Rightarrow> False | Inr out \<Rightarrow> trim_space out = word)"

definition waitForDevice :: "'w runtime \<Rightarrow> 'w shell \<Rightarrow> string \<Rightarrow> ('w, unit) act" where
  "waitForDevice rt ssh devicePath =
     PollA rt 2 60 (bindA (resultA (sh_run ssh (''test -b '' @ devicePath @ '' && echo ready || true''))) (\<lambda>r. retA (says ''ready'' r)))"

definition mkfs_command :: "string \<Rightarrow> string" where
  "mkfs_command devicePath = ''sudo mkfs.xfs '' @ devicePath"

definition blkid_command :: "string \<Rightarrow> string" where
  "blkid_command devicePath = ''sudo blkid '' @ devicePath @ '' || true''"

definition format_if_blank :: "'w shell \<Rightarrow> string \<Rightarrow> ('w, unit) act" where
  "format_if_blank ssh devicePath =
     bindA (resultA (sh_run ssh (blkid_command devicePath))) (\<lambda>r.
       if (case r of Inr out \<Rightarrow> \<not> contains out ''TYPE='' | Inl _ \<Rightarrow> False)
       then run_step ssh (''format '' @ devicePath) (mkfs_command devicePath)
       else retA ())"

definition fstab_command :: "string \<Rightarrow> string \<Rightarrow> string" where
  "fstab_command devicePath mountPath = ''UUID=$(sudo blkid -s UUID -o value '' @ devicePath @ '') && echo ''
     @ dquoted (''UUID=$UUID '' @ mountPath @ '' xfs defaults,nofail 0 2'') @ '' | sudo tee -a /etc/fstab''"

definition fstab_entry :: "'w shell \<Rightarrow> string \<Rightarrow> string \<Rightarrow> ('w, unit) act" where
  "fstab_entry ssh devicePath mountPath =
     bindA (resultA (sh_run ssh (''grep '' @ quoted mountPath @ '' /etc/fstab || true''))) (\<lambda>r.
       if says [] r then run_step ssh ''fstab entry'' (fstab_command devicePath mountPath) else retA ())"

definition growfs :: "'w shell \<Rightarrow> string \<Rightarrow> ('w, unit) act" where
  "growfs ssh mountPath = ignoreA (sh_run ssh (''sudo xfs_growfs '' @ mountPath @ '' 2>/dev/null || true''))"

definition MountVolume :: "'w runtime \<Rightarrow> 'w shell \<Rightarrow> string \<Rightarrow> string \<Rightarrow> ('w, unit) act" where
  "MountVolume rt ssh devicePath mountPath =
     bindA (resultA (sh_run ssh (mountpoint_command mountPath))) (\<lambda>mounted.
       if says ''mounted'' mounted then growfs ssh mountPath
       else thenA (wrapA (''wait for device '' @ devicePath) (waitForDevice rt ssh devicePath))
            (thenA (run_step ssh (''mkdir '' @ mountPath) (''sudo mkdir -p '' @ mountPath))
            (thenA (format_if_blank ssh devicePath)
            (thenA (run_step ssh (''mount '' @ devicePath @ '' to '' @ mountPath) (''sudo mount '' @ devicePath @ '' '' @ mountPath))
            (thenA (fstab_entry ssh devicePath mountPath)
            (thenA (growfs ssh mountPath)
            (bindA (resultA (sh_run ssh (mountpoint_command mountPath))) (\<lambda>r.
               if says ''mounted'' r then retA () else failA (Errorf ''volume not mounted after mount attempt'' [mountPath])))))))))"

definition UnmountVolume :: "'w shell \<Rightarrow> string \<Rightarrow> ('w, unit) act" where
  "UnmountVolume ssh mountPath =
     bindA (resultA (sh_run ssh (mountpoint_command mountPath))) (\<lambda>mounted.
       if \<not> says ''mounted'' mounted then retA ()
       else thenA (run_step ssh (''umount '' @ mountPath) (''sudo umount -f '' @ mountPath))
            (thenA (run_step ssh ''fstab cleanup'' (''sudo sed -i '' @ quoted (backslash # ''|'' @ mountPath @ ''|d'') @ '' /etc/fstab''))
              (ignoreA (sh_run ssh (''sudo rmdir '' @ mountPath @ '' 2>/dev/null || true'')))))"

section \<open>Data on a volume\<close>

lemma swap_size_range: "512 \<le> SwapSize diskGB \<and> SwapSize diskGB \<le> 2048"
  by (simp add: SwapSize_def Let_def)

lemma swap_size_five_percent: "diskGB > 0 \<Longrightarrow> SwapSize diskGB \<noteq> 512 \<Longrightarrow> SwapSize diskGB \<le> diskGB * 1024 * 5 div 100"
  by (simp add: SwapSize_def Let_def go_div_def split: if_splits)

text \<open>The file system of a device, once there is one, does not change.\<close>

definition undisturbed :: "('w \<Rightarrow> 'f option) \<Rightarrow> 'w \<Rightarrow> 'w \<Rightarrow> bool" where
  "undisturbed fs w w' \<longleftrightarrow> (fs w \<noteq> None \<longrightarrow> fs w' = fs w)"

interpretation kept: step_relation "undisturbed fs" for fs :: "'w \<Rightarrow> 'f option"
  by unfold_locales (auto simp: undisturbed_def)

definition shell_keeps :: "('w \<Rightarrow> 'f option) \<Rightarrow> 'w shell \<Rightarrow> string \<Rightarrow> bool" where
  "shell_keeps fs ssh cmd \<longleftrightarrow> keeps (undisturbed fs) (sh_run ssh cmd)"

lemma format_keeps:
  assumes commands: "\<And>cmd. cmd \<noteq> mkfs_command dev \<Longrightarrow> shell_keeps fs ssh cmd"
    and blkid: "\<And>w out w'. fs w \<noteq> None \<Longrightarrow> sh_run ssh (blkid_command dev) w = (Inr out, w') \<Longrightarrow> contains out ''TYPE=''"
  shows "keeps (undisturbed fs) (format_if_blank ssh dev)"
  unfolding keeps_def undisturbed_def
proof (intro allI impI)
  fix w assume fs: "fs w \<noteq> None"
  obtain r w1 where run: "sh_run ssh (blkid_command dev) w = (r, w1)" by fastforce
  have "blkid_command dev \<noteq> mkfs_command dev" by (simp add: blkid_command_def mkfs_command_def)
  from commands [OF this] fs run have "fs w1 = fs w" by (auto simp: shell_keeps_def undisturbed_def dest: keepsD)
  moreover from blkid [OF fs] run have "(case r of Inr out \<Rightarrow> \<not> contains out ''TYPE='' | Inl _ \<Rightarrow> False) = False"
    by (auto split: sum.split)
  ultimately show "fs (snd (format_if_blank ssh dev w)) = fs w"
    by (simp add: format_if_blank_def bindA_resultA run)
qed


text \<open>A machine whose one device has been formatted before.\<close>

definition demo_machine :: "string option shell" where
  "demo_machine = \<lparr>sh_run = (\<lambda>cmd w.
       if cmd = mkfs_command ''/dev/sdb'' then (Inr [], Some ''empty'')
       else if cmd = blkid_command ''/dev/sdb'' then (Inr (case w of None \<Rightarrow> [] | Some _ \<Rightarrow> ''/dev/sdb: TYPE=xfs''), w)
       else if has_prefix cmd ''test -b'' then (Inr ''ready'', w)
       else (Inr [], w)), sh_upload = (\<lambda>_ _ _ w. (Inr (), w))\<rparr>"

definition still_clock :: "'w runtime" where
  "still_clock = \<lparr>rt_pods = (\<lambda>_ _ _. Inr []), rt_now = (\<lambda>_. 0), rt_cancelled = (\<lambda>_. None), rt_sleep = (\<lambda>_ w. (None, w))\<rparr>"


end
