(* ===== verification/Ssh.thy ===== *)
theory Ssh
  imports Shells
begin

text \<open>
  Connections to machines (\<open>pkg/infra/ssh.go\<close>): the keys of the hosts seen before, which are trusted on
  first use, and the dial. The handshake itself and the file system are parameters.
\<close>

section \<open>Known hosts\<close>

definition ErrHostKeyChanged :: goerr where "ErrHostKeyChanged = Errorf ''ssh host key changed'' []"
definition ErrNoKnownHost :: goerr where "ErrNoKnownHost = Errorf ''no known host entry'' []"
definition ErrAuthFailed :: goerr where "ErrAuthFailed = Errorf ''ssh authentication failed'' []"

text \<open>The file: one line per host. Reading it skips blank lines and comments.\<close>

definition known_line :: "string \<times> string \<Rightarrow> string" where
  "known_line hk = fst hk @ '' '' @ snd hk @ nl"

definition saveKnownHosts_text :: "string gomap \<Rightarrow> string" where
  "saveKnownHosts_text hosts = concat (map known_line hosts)"

definition add_known_line :: "string gomap \<Rightarrow> string \<Rightarrow> string gomap" where
  "add_known_line hosts line0 =
     (let line = trim_space line0
      in if line = [] \<or> has_prefix line ''#'' then hosts
         else (case cut (CHR '' '') line of (host, key, found) \<Rightarrow> if found then AList.update host key hosts else hosts))"

definition loadKnownHosts_text :: "string \<Rightarrow> string gomap" where
  "loadKnownHosts_text data = foldl add_known_line [] (split_on (CHR 0x0A) data)"

section \<open>Connecting\<close>

text \<open>
  The outside of a dial: the key the host presents, the login with the operator's key, the hosts kept in
  memory and their saving, and the shell of an open connection.
\<close>

record 'w ssh_env =
  se_host_key :: "string \<Rightarrow> 'w \<Rightarrow> goerr + string"
  se_login :: "string \<Rightarrow> ('w, unit) act"
  se_known :: "'w \<Rightarrow> string gomap"
  se_save :: "string gomap \<Rightarrow> ('w, unit) act"
  se_shell :: "string \<Rightarrow> 'w shell"

definition isAuthFailure :: "goerr \<Rightarrow> bool" where
  "isAuthFailure e =
     (case e of
        ExtErr msg \<Rightarrow> contains msg ''unable to authenticate'' \<or> contains msg ''no supported methods remain'' \<or>
          (contains msg ''disconnect'' \<and> contains msg ''handshake failed'')
      | _ \<Rightarrow> False)"

definition tofuHostKeyCallback :: "'w ssh_env \<Rightarrow> string \<Rightarrow> string \<Rightarrow> ('w, unit) act" where
  "tofuHostKeyCallback se host encoded w =
     (case map_of (se_known se w) host of
        None \<Rightarrow> ignoreA (se_save se (AList.update host encoded (se_known se w))) w
      | Some stored \<Rightarrow> if stored \<noteq> encoded then failA (Wrapf host ErrHostKeyChanged) w else retA () w)"

definition dial_error :: "string \<Rightarrow> goerr \<Rightarrow> goerr" where
  "dial_error addr e = Wrapf (''ssh dial '' @ addr) (if isAuthFailure e then ErrAuthFailed else e)"

definition ConnectSSH :: "'w ssh_env \<Rightarrow> string \<Rightarrow> ('w, 'w shell) act" where
  "ConnectSSH se addr w =
     (case bindA (readA (se_host_key se addr)) (\<lambda>key. thenA (tofuHostKeyCallback se addr key) (se_login se addr)) w of
        (Inl e, w') \<Rightarrow> (Inl (dial_error addr e), w')
      | (Inr _, w') \<Rightarrow> (Inr (se_shell se addr), w'))"

definition ClearKnownHost :: "'w ssh_env \<Rightarrow> string \<Rightarrow> ('w, unit) act" where
  "ClearKnownHost se host0 w =
     (let known = se_known se w; host = (if has_key known host0 then host0 else host0 @ '':22'')
      in if has_key known host then se_save se (AList.delete host known) w
         else (Inl (Wrapf host0 ErrNoKnownHost), w))"

definition ClearAllKnownHosts :: "'w ssh_env \<Rightarrow> ('w, unit) act" where
  "ClearAllKnownHosts se = se_save se []"

definition ListKnownHosts :: "'w ssh_env \<Rightarrow> 'w \<Rightarrow> string gomap" where
  "ListKnownHosts se w = se_known se w"

definition WaitSSH :: "'w runtime \<Rightarrow> 'w ssh_env \<Rightarrow> string \<Rightarrow> ('w, unit) act" where
  "WaitSSH rt se addr = PollA rt 2 180
     (bindA (resultA (ConnectSSH se addr)) (\<lambda>r.
        (case r of
           Inl e \<Rightarrow> if errors_is e ErrHostKeyChanged then failA e
                    else if errors_is e ErrAuthFailed then failA (Wrapf addr ErrAuthFailed)
                    else retA False
         | Inr conn \<Rightarrow> bindA (resultA (sh_run conn ''true'')) (\<lambda>r. retA (case r of Inl _ \<Rightarrow> False | Inr _ \<Rightarrow> True)))))"

section \<open>The file is read back as it was written\<close>

text \<open>A host and a key as the program stores them: an address and base64 text.\<close>

definition known_ok :: "string \<times> string \<Rightarrow> bool" where
  "known_ok hk \<longleftrightarrow> fst hk \<noteq> [] \<and> snd hk \<noteq> [] \<and> hd (fst hk) \<noteq> CHR ''#'' \<and>
     (\<forall>c \<in> set (fst hk) \<union> set (snd hk). \<not> is_space c)"

lemma split_on_line:
  assumes "d \<notin> set l"
  shows "split_on d (l @ d # rest) = l # split_on d rest"
  using assms by (induction l) auto

lemma trim_space_id: "s \<noteq> [] \<Longrightarrow> \<not> is_space (hd s) \<Longrightarrow> \<not> is_space (last s) \<Longrightarrow> trim_space s = s"
proof -
  assume s: "s \<noteq> []" "\<not> is_space (hd s)" "\<not> is_space (last s)"
  from s(1,2) have "dropWhile is_space s = s" by (cases s) auto
  moreover from s(1,3) have "dropWhile is_space (rev s) = rev s" by (cases s rule: rev_cases) auto
  ultimately show ?thesis by (simp add: trim_space_def)
qed

lemma cut_space: "d \<notin> set h \<Longrightarrow> cut d (h @ d # k) = (h, k, True)"
  by (induction h) auto

lemma add_known_line_of:
  assumes "known_ok hk"
  shows "add_known_line hosts (fst hk @ '' '' @ snd hk) = AList.update (fst hk) (snd hk) hosts"
proof -
  obtain h k where hk: "hk = (h, k)" by (cases hk)
  with assms have ne: "h \<noteq> []" "k \<noteq> []" and h: "hd h \<noteq> CHR ''#''" and sp: "\<forall>c \<in> set h. \<not> is_space c" "\<forall>c \<in> set k. \<not> is_space c"
    by (auto simp: known_ok_def)
  have "is_space (CHR '' '')" by (simp add: is_space_def)
  with sp have nsp: "CHR '' '' \<notin> set h" by blast
  have "trim_space (h @ '' '' @ k) = h @ '' '' @ k"
    using ne sp by (intro trim_space_id) auto
  moreover have "\<not> has_prefix (h @ '' '' @ k) ''#''" using ne h by (cases h) (auto simp: has_prefix_def)
  ultimately show ?thesis using nsp ne by (simp add: add_known_line_def hk cut_space)
qed

lemma load_known_lines:
  assumes "\<forall>hk \<in> set hosts. known_ok hk"
  shows "foldl add_known_line acc (split_on (CHR 0x0A) (saveKnownHosts_text hosts)) =
    foldl (\<lambda>m hk. AList.update (fst hk) (snd hk) m) acc hosts"
  using assms
proof (induction hosts arbitrary: acc)
  case Nil
  then show ?case by (simp add: saveKnownHosts_text_def add_known_line_def trim_space_def)
next
  case (Cons hk hosts)
  then have ok: "known_ok hk" by simp
  have "is_space (CHR 0x0A)" by (simp add: is_space_def)
  with ok have nl_free: "CHR 0x0A \<notin> set (fst hk @ '' '' @ snd hk)" by (auto simp: known_ok_def)
  have "saveKnownHosts_text (hk # hosts) = (fst hk @ '' '' @ snd hk) @ CHR 0x0A # saveKnownHosts_text hosts"
    by (simp add: saveKnownHosts_text_def known_line_def nl_def)
  then have split: "split_on (CHR 0x0A) (saveKnownHosts_text (hk # hosts)) =
      (fst hk @ '' '' @ snd hk) # split_on (CHR 0x0A) (saveKnownHosts_text hosts)"
    using split_on_line [OF nl_free] by simp
  show ?case unfolding split by (simp add: add_known_line_of [OF ok, simplified] Cons)
qed

text \<open>C24: the known hosts that were saved are read back: every host with its key, and no other host.\<close>

theorem known_hosts_roundtrip:
  assumes "\<forall>hk \<in> set hosts. known_ok hk" "distinct (map fst hosts)"
  shows "map_of (loadKnownHosts_text (saveKnownHosts_text hosts)) = map_of hosts"
proof -
  have "map_of (foldl (\<lambda>m hk. AList.update (fst hk) (snd hk) m) acc hosts) = map_of acc ++ map_of hosts"
    if "distinct (map fst hosts)" for acc
    using that
  proof (induction hosts arbitrary: acc)
    case (Cons hk hosts)
    then have "fst hk \<notin> dom (map_of hosts)" by (auto simp: dom_map_of_conv_image_fst)
    with Cons.IH Cons.prems show ?case by (auto simp: update_conv' map_add_def fun_eq_iff split: option.split)
  qed simp
  from this [OF assms(2), of "[]"] show ?thesis
    by (simp add: loadKnownHosts_text_def load_known_lines [OF assms(1)])
qed

lemma known_hosts_roundtrip_witness:
  "map_of (loadKnownHosts_text (saveKnownHosts_text [(''10.0.0.1:22'', ''AAAAC3Nz''), (''host:22'', ''Zm9v'')])) ''host:22'' = Some ''Zm9v''"
  using known_hosts_roundtrip [of "[(''10.0.0.1:22'', ''AAAAC3Nz''), (''host:22'', ''Zm9v'')]"]
  by (simp add: known_ok_def is_space_def)

section \<open>Trust on first use\<close>

text \<open>
  A connection to a host whose key is stored is accepted only with that key, and leaves it stored; a new
  host is accepted with any key.
\<close>

lemma known_host_key_pinned:
  assumes "ConnectSSH se addr w = (Inr sh, w')" "map_of (se_known se w) addr = Some k"
  shows "se_host_key se addr w = Inr k \<and> sh = se_shell se addr"
proof -
  obtain r w1 where run: "bindA (readA (se_host_key se addr)) (\<lambda>key. thenA (tofuHostKeyCallback se addr key) (se_login se addr)) w = (r, w1)"
    by fastforce
  with assms(1) have r: "r = Inr ()" and sh: "sh = se_shell se addr"
    by (auto simp: ConnectSSH_def split: sum.splits unit.splits)
  from run [unfolded r bindA_read thenA_Inr] obtain key w2
    where key: "se_host_key se addr w = Inr key" and tofu: "tofuHostKeyCallback se addr key w = (Inr (), w2)" by blast
  from tofu assms(2) have "key = k" by (simp add: tofuHostKeyCallback_def split: if_splits)
  with key sh show ?thesis by simp
qed

end
