(* ===== verification/HetznerInfra.thy ===== *)
theory HetznerInfra
  imports Hetzner Machines Ssh
begin

text \<open>
  The infrastructure provider of Hetzner (\<open>pkg/provider/hetzner/infra.go\<close>): the bootstrap of a cluster,
  the attach to it, the snapshot of what is live, the removal of orphans and the teardown. Progress lines
  and warnings are left out, and with them the closing of connections, which nothing else looks at.
\<close>

section \<open>The client\<close>

text \<open>
  The operator's public key and the YAML library are parameters. The cached shell is kept as the address
  it is connected to; \<open>hc_kube\<close> opens the tunnel to the API server over the shell of an address.
\<close>

record 'w hz_client =
  hc_api :: "'w hz_api"
  hc_clock :: "'w runtime"
  hc_ssh :: "'w ssh_env"
  hc_public_key :: "goerr + string"
  hc_yaml :: "cloud_config \<Rightarrow> goerr + string"
  hc_kube :: "string \<Rightarrow> 'w \<Rightarrow> goerr + 'w kube_client"
  hc_cached :: "'w \<Rightarrow> string option"
  hc_cache :: "string option \<Rightarrow> 'w \<Rightarrow> 'w"

definition bc_names :: "'w bootstrap_context \<Rightarrow> goerr + names" where
  "bc_names bc = NewNames (bc_app bc) (bc_env bc)"

definition ssh_addr :: "string \<Rightarrow> string" where "ssh_addr ip = ip @ '':22''"

definition dialSSH :: "'w hz_client \<Rightarrow> string \<Rightarrow> ('w, 'w shell) act" where
  "dialSSH hc addr = ConnectSSH (hc_ssh hc) addr"

definition setCachedShell :: "'w hz_client \<Rightarrow> string option \<Rightarrow> ('w, unit) act" where
  "setCachedShell hc addr w = (Inr (), hc_cache hc addr w)"

definition role_labels :: "names \<Rightarrow> string \<Rightarrow> string gomap" where
  "role_labels names role = AList.update ''role'' role (Labels names)"

section \<open>Attaching\<close>

definition findMaster :: "'w hz_client \<Rightarrow> 'w bootstrap_context \<Rightarrow> 'w \<Rightarrow> goerr + cloud_server" where
  "findMaster hc bc w =
     bindR (bc_names bc) (\<lambda>names.
     bindR (wrapR ''find master'' (ListServers (hc_api hc) (role_labels names RoleMaster) w)) (\<lambda>masters.
       (case masters of
          [] \<Rightarrow> Inl ErrNotBootstrapped
        | m # _ \<Rightarrow>
            if vm_private m \<noteq> [] then Inr m
            else bindR (wrapR ''resolve master private IP'' (GetPrivateIP (hc_api hc) (vm_id m) w)) (\<lambda>ip.
                   if ip = [] then Inl (Errorf ''master has no private IP'' [vm_name m]) else Inr (m\<lparr>vm_private := ip\<rparr>)))))"

definition Connect :: "'w hz_client \<Rightarrow> 'w bootstrap_context \<Rightarrow> ('w, 'w kube_client) act" where
  "Connect hc bc =
     (case bc_kube bc of
        Some kc \<Rightarrow> retA kc
      | None \<Rightarrow>
          bindA (readA (findMaster hc bc)) (\<lambda>m.
          bindA (wrapA (''hetzner.Connect dial master '' @ vm_ipv4 m) (dialSSH hc (ssh_addr (vm_ipv4 m)))) (\<lambda>_.
          thenA (setCachedShell hc (Some (ssh_addr (vm_ipv4 m))))
            (wrapA ''hetzner.Connect kube tunnel'' (readA (hc_kube hc (ssh_addr (vm_ipv4 m))))))))"

definition NodeShell :: "'w hz_client \<Rightarrow> 'w bootstrap_context \<Rightarrow> ('w, 'w shell option) act" where
  "NodeShell hc bc w =
     (case hc_cached hc w of
        Some addr \<Rightarrow> (Inr (Some (se_shell (hc_ssh hc) addr)), w)
      | None \<Rightarrow>
          bindA (wrapA ''hetzner.NodeShell'' (readA (findMaster hc bc))) (\<lambda>m.
          bindA (wrapA (''hetzner.NodeShell dial '' @ vm_ipv4 m) (dialSSH hc (ssh_addr (vm_ipv4 m)))) (\<lambda>conn.
          thenA (setCachedShell hc (Some (ssh_addr (vm_ipv4 m)))) (retA (Some conn)))) w)"

definition hz_SSHToNode :: "'w hz_client \<Rightarrow> 'w bootstrap_context \<Rightarrow> string \<Rightarrow> ('w, 'w shell option) act" where
  "hz_SSHToNode hc bc serverName =
     bindA (readA (\<lambda>_. bc_names bc)) (\<lambda>names.
     bindA (wrapA (''hetzner.SSHToNode '' @ serverName) (readA (getServerByName (hc_api hc) (Server names serverName)))) (\<lambda>srv.
       (case srv of
          None \<Rightarrow> failA (Wrapf (''hetzner.SSHToNode '' @ serverName) ErrNotBootstrapped)
        | Some s \<Rightarrow>
            if vm_ipv4 s = [] then failA (Errorf ''hetzner.SSHToNode: server has no public IPv4'' [serverName])
            else bindA (wrapA (''hetzner.SSHToNode dial '' @ vm_ipv4 s) (dialSSH hc (ssh_addr (vm_ipv4 s)))) (\<lambda>conn. retA (Some conn)))))"

definition hz_Close :: "'w hz_client \<Rightarrow> ('w, unit) act" where
  "hz_Close hc = setCachedShell hc None"

definition hz_IngressBinding :: "'w hz_client \<Rightarrow> 'w bootstrap_context \<Rightarrow> service_target \<Rightarrow> 'w \<Rightarrow> goerr + ingress_binding" where
  "hz_IngressBinding hc bc svc w =
     bindR (findMaster hc bc w) (\<lambda>m. Inr \<lparr>ib_type = ''A'', ib_target = vm_ipv4 m, ib_proxied = False\<rparr>)"

section \<open>Servers\<close>

definition wait_ssh :: "'w hz_client \<Rightarrow> string \<Rightarrow> ('w, 'w shell) act" where
  "wait_ssh hc ip =
     thenA (wrapA (''SSH not reachable on '' @ ip) (PollA (hc_clock hc) 2 300
        (bindA (resultA (dialSSH hc (ssh_addr ip))) (\<lambda>r.
           (case r of
              Inl e \<Rightarrow> if errors_is e ErrHostKeyChanged \<or> errors_is e ErrAuthFailed then failA e else retA False
            | Inr _ \<Rightarrow> retA True)))))
       (retA (se_shell (hc_ssh hc) (ssh_addr ip)))"

text \<open>The host key of a machine is forgotten before it is dialled; an error is at most a warning.\<close>

definition forget_host :: "'w hz_client \<Rightarrow> string \<Rightarrow> ('w, unit) act" where
  "forget_host hc ip = ignoreA (ClearKnownHost (hc_ssh hc) (ssh_addr ip))"

definition labelNodeViaSSH :: "'w shell \<Rightarrow> string \<Rightarrow> string \<Rightarrow> ('w, unit) act" where
  "labelNodeViaSSH ssh nodeName role =
     run_step ssh ''label node'' (''sudo kubectl --kubeconfig='' @ KubeconfigPath @ '' label node '' @ nodeName @ '' ''
       @ LabelNvoiRole @ ''='' @ role @ '' --overwrite'')"

definition DefaultImage :: string where "DefaultImage = ''ubuntu-24.04''"

definition server_request_of :: "names \<Rightarrow> server_spec \<Rightarrow> string \<Rightarrow> string \<Rightarrow> server_request" where
  "server_request_of names s role userData =
     \<lparr>rs_name = Server names (ss_name s), rs_type = ss_type s, rs_image = DefaultImage, rs_location = ss_region s,
      rs_user_data = userData, rs_firewall = FirewallForRole names role, rs_network = Network names,
      rs_disk = ss_disk s, rs_labels = role_labels names role\<rparr>"

definition with_private_ip :: "'w hz_client \<Rightarrow> cloud_server \<Rightarrow> 'w \<Rightarrow> goerr + cloud_server" where
  "with_private_ip hc srv w =
     (if vm_private srv \<noteq> [] then Inr srv
      else bindR (wrapR (''resolve private IP for '' @ vm_name srv) (GetPrivateIP (hc_api hc) (vm_id srv) w)) (\<lambda>ip.
             if ip = [] then Inl (Errorf ''server has no private IP'' [vm_name srv]) else Inr (srv\<lparr>vm_private := ip\<rparr>)))"

definition server_node :: "cloud_server \<Rightarrow> node" where
  "server_node s = \<lparr>nd_public = vm_ipv4 s, nd_private = vm_private s\<rparr>"

definition join_worker ::
    "'w hz_client \<Rightarrow> 'w bootstrap_context \<Rightarrow> 'w shell option \<Rightarrow> 'w shell \<Rightarrow> cloud_server \<Rightarrow> string \<Rightarrow> string \<Rightarrow> ('w, unit) act" where
  "join_worker hc bc masterShell ssh srv serverName role =
     bindA (case masterShell of
              Some sh \<Rightarrow> retA sh
            | None \<Rightarrow> bindA (readA (findMaster hc bc)) (\<lambda>m.
                        wrapA ''ssh master for worker join'' (dialSSH hc (ssh_addr (vm_ipv4 m))))) (\<lambda>joinShell.
     bindA (readA (findMaster hc bc)) (\<lambda>m.
     thenA (wrapA ''k3s worker join'' (JoinK3sWorker (hc_clock hc) joinShell ssh (server_node srv) (server_node m)))
       (labelNodeViaSSH joinShell serverName role)))"

definition provisionServer ::
    "'w hz_client \<Rightarrow> 'w bootstrap_context \<Rightarrow> server_spec \<Rightarrow> 'w shell option \<Rightarrow> ('w, 'w shell) act" where
  "provisionServer hc bc s masterShell =
     bindA (readA (\<lambda>_. bc_names bc)) (\<lambda>names.
     bindA (readA (\<lambda>_. wrapR ''derive public key'' (hc_public_key hc))) (\<lambda>pubKey.
     let serverName = Server names (ss_name s); role = (if ss_role s = RoleWorker then RoleWorker else RoleMaster) in
     bindA (readA (\<lambda>_. RenderCloudInit (hc_yaml hc) (trim_space pubKey) serverName)) (\<lambda>userData.
     bindA (EnsureServer (hc_clock hc) (hc_api hc) (server_request_of names s role userData)) (\<lambda>srv0.
     bindA (readA (with_private_ip hc srv0)) (\<lambda>srv.
     thenA (forget_host hc (vm_ipv4 srv))
     (bindA (wait_ssh hc (vm_ipv4 srv)) (\<lambda>ssh.
      thenA (ignoreA (EnsureSwap ssh))
      (thenA (if ss_role s = RoleWorker then join_worker hc bc masterShell ssh srv serverName (ss_name s)
              else thenA (wrapA ''k3s master'' (InstallK3sMaster (hc_clock hc) ssh (server_node srv)))
                     (labelNodeViaSSH ssh serverName (ss_name s)))
        (retA ssh)))))))))"

section \<open>Firewalls and volumes\<close>

definition applyFirewall :: "'w hz_client \<Rightarrow> string \<Rightarrow> port_allow_list \<Rightarrow> ('w, unit) act" where
  "applyFirewall hc name allowed = wrapA ''firewall set'' (ReconcileFirewallRules (hc_api hc) name allowed)"

definition server_ip :: "string \<Rightarrow> cloud_server list \<Rightarrow> string" where
  "server_ip serverName servers = (case find (\<lambda>s. vm_name s = serverName) servers of None \<Rightarrow> [] | Some s \<Rightarrow> vm_ipv4 s)"

definition provisionVolume :: "'w hz_client \<Rightarrow> 'w bootstrap_context \<Rightarrow> volume_spec \<Rightarrow> ('w, unit) act" where
  "provisionVolume hc bc v =
     bindA (readA (\<lambda>_. bc_names bc)) (\<lambda>names.
     bindA (EnsureVolume (hc_clock hc) (hc_api hc)
        \<lparr>rv_name = Volume names (vs_name v), rv_server = Server names (vs_server v), rv_size = vs_size v, rv_labels = Labels names\<rparr>) (\<lambda>vol.
     bindA (wrapA ''list servers'' (readA (ListServers (hc_api hc) (Labels names)))) (\<lambda>servers.
     let ip = server_ip (Server names (vs_server v)) servers in
     if ip = [] then failA (Errorf ''server not found'' [Server names (vs_server v)])
     else bindA (wrapA ''ssh for volume mount'' (dialSSH hc (ssh_addr ip))) (\<lambda>ssh.
       wrapA ''mount'' (MountVolume (hc_clock hc) ssh (ResolveDevicePath vol) (VolumeMountPath names (vs_name v)))))))"

section \<open>Bootstrap\<close>

text \<open>The shell of the first master is handed to the workers.\<close>

definition provision_next ::
    "'w hz_client \<Rightarrow> 'w bootstrap_context \<Rightarrow> 'w shell option \<Rightarrow> server_spec \<Rightarrow> ('w, 'w shell option) act" where
  "provision_next hc bc masterShell s =
     bindA (provisionServer hc bc s masterShell) (\<lambda>shell.
       retA (if ss_role s \<noteq> RoleWorker \<and> masterShell = None then Some shell else masterShell))"

definition Bootstrap :: "'w hz_client \<Rightarrow> 'w bootstrap_context \<Rightarrow> ('w, 'w kube_client) act" where
  "Bootstrap hc bc =
     (case splitByRole (ServerDefs (bc_cfg bc)) of (masters, workers, _) \<Rightarrow>
        bindA (foldA (provision_next hc bc) None (masters @ workers)) (\<lambda>_.
        bindA (readA (\<lambda>_. FirewallAllowList (bc_cfg bc))) (\<lambda>publicRules.
        bindA (readA (\<lambda>_. bc_names bc)) (\<lambda>names.
        thenA (whenA (masters \<noteq> []) (applyFirewall hc (MasterFirewall names) publicRules))
        (thenA (whenA (workers \<noteq> []) (applyFirewall hc (WorkerFirewall names) []))
        (thenA (forA (provisionVolume hc bc) (VolumeDefs (bc_cfg bc)))
          (Connect hc bc)))))))"

section \<open>Builders\<close>

definition builder_cache_request :: "names \<Rightarrow> server_spec \<Rightarrow> volume_request" where
  "builder_cache_request names s = \<lparr>rv_name = BuilderCacheVolume names (ss_name s), rv_server = Server names (ss_name s),
     rv_size = BuilderCacheVolumeSizeGB, rv_labels = role_labels names RoleBuilder\<rparr>"

definition provisionBuilder :: "'w hz_client \<Rightarrow> 'w bootstrap_context \<Rightarrow> server_spec \<Rightarrow> ('w, unit) act" where
  "provisionBuilder hc bc s =
     bindA (readA (\<lambda>_. bc_names bc)) (\<lambda>names.
     bindA (readA (\<lambda>_. wrapR ''derive public key'' (hc_public_key hc))) (\<lambda>pubKey.
     bindA (readA (\<lambda>_. RenderBuilderCloudInit (hc_yaml hc) (trim_space pubKey) (Server names (ss_name s)))) (\<lambda>userData.
     bindA (EnsureServer (hc_clock hc) (hc_api hc) (server_request_of names s RoleBuilder userData)) (\<lambda>srv.
     thenA (forget_host hc (vm_ipv4 srv))
     (bindA (wait_ssh hc (vm_ipv4 srv)) (\<lambda>ssh.
      thenA (WaitCloudInit ssh)
      (thenA (ignoreA (EnsureSwap ssh))
      (bindA (wrapA ''builder cache volume'' (EnsureVolume (hc_clock hc) (hc_api hc) (builder_cache_request names s))) (\<lambda>vol.
       thenA (wrapA ''mount builder cache'' (MountVolume (hc_clock hc) ssh (ResolveDevicePath vol) BuilderCacheMountPath))
       (thenA (run_step ssh ''enable docker'' ''sudo systemctl enable --now docker.service docker.socket'')
         (ignoreA (sh_run ssh ''sudo docker run --privileged --rm tonistiigi/binfmt:latest --install all''))))))))))))"

definition ProvisionBuilders :: "'w hz_client \<Rightarrow> 'w bootstrap_context \<Rightarrow> ('w, unit) act" where
  "ProvisionBuilders hc bc =
     (case splitByRole (ServerDefs (bc_cfg bc)) of (_, _, builders) \<Rightarrow>
        if builders = [] then retA ()
        else bindA (readA (\<lambda>_. bc_names bc)) (\<lambda>names.
             thenA (applyFirewall hc (BuilderFirewall names) []) (forA (provisionBuilder hc bc) builders)))"

definition BuilderTargets :: "'w hz_client \<Rightarrow> 'w bootstrap_context \<Rightarrow> 'w \<Rightarrow> goerr + builder_target list" where
  "BuilderTargets hc bc w =
     bindR (bc_names bc) (\<lambda>names.
     bindR (wrapR ''hetzner.BuilderTargets'' (ListServers (hc_api hc) (role_labels names RoleBuilder) w)) (\<lambda>servers.
       Inr (sort_key bt_name (map (\<lambda>s. \<lparr>bt_name = vm_name s, bt_host = vm_ipv4 s, bt_user = DefaultUser\<rparr>) servers))))"

section \<open>The live cluster\<close>

definition in_scope :: "string \<Rightarrow> string \<Rightarrow> bool" where
  "in_scope prefix s \<longleftrightarrow> length s > length prefix \<and> has_prefix s prefix"

definition strip :: "string \<Rightarrow> string \<Rightarrow> string" where
  "strip prefix s = (if in_scope prefix s then drop (length prefix) s else s)"

definition or_none :: "'e + 'a list \<Rightarrow> 'a list" where
  "or_none r = (case r of Inl _ \<Rightarrow> [] | Inr xs \<Rightarrow> xs)"

definition LiveSnapshot :: "'w hz_client \<Rightarrow> 'w bootstrap_context \<Rightarrow> 'w \<Rightarrow> goerr + live_snapshot option" where
  "LiveSnapshot hc bc w =
     bindR (bc_names bc) (\<lambda>names.
     let prefix = Base names @ ''-''; api = hc_api hc in
     bindR (wrapR ''hetzner.LiveSnapshot list servers'' (ListServers api (Labels names) w)) (\<lambda>servers.
       if servers = [] then Inr None
       else
         let vols = or_none (ListVolumes api (Labels names) w);
             fws = filter (\<lambda>fw. in_scope prefix (cn_name fw)) (or_none (ListAllFirewalls api w))
         in Inr (Some
           \<lparr>sn_servers = sort (map (\<lambda>s. strip prefix (vm_name s)) servers),
            sn_server_disk = foldl (\<lambda>m s. if vm_disk s > 0 then AList.update (strip prefix (vm_name s)) (vm_disk s) m else m) [] servers,
            sn_firewalls = sort (map cn_name fws),
            sn_firewall_rules = foldl (\<lambda>m fw. (case GetFirewallRules api (cn_name fw) w of
                Inl _ \<Rightarrow> m | Inr rules \<Rightarrow> AList.update (cn_name fw) rules m)) [] fws,
            sn_volumes = sort (map (\<lambda>v. strip prefix (cv_name v)) vols)\<rparr>)))"

definition PlanInfra :: "'w hz_client \<Rightarrow> 'w bootstrap_context \<Rightarrow> 'w \<Rightarrow> goerr + plan_entry list" where
  "PlanInfra hc bc w =
     bindR (LiveSnapshot hc bc w) (\<lambda>snap.
     bindR (bc_names bc) (\<lambda>names. ComputeInfraPlan (bc_cfg bc) snap names))"

section \<open>Removal\<close>

definition drain_command :: "string \<Rightarrow> string" where
  "drain_command serverName = ''sudo kubectl --kubeconfig='' @ KubeconfigPath @ '' drain '' @ serverName
     @ '' --ignore-daemonsets --delete-emptydir-data --force --grace-period=30 --timeout=60s''"

definition drain_node :: "'w hz_client \<Rightarrow> string \<Rightarrow> ('w, unit) act" where
  "drain_node hc serverName w =
     (case hc_cached hc w of
        None \<Rightarrow> (Inr (), w)
      | Some addr \<Rightarrow> ignoreA (sh_run (se_shell (hc_ssh hc) addr) (drain_command serverName)) w)"

text \<open>A listing that fails counts as an empty one.\<close>

definition drainAndDeleteServer :: "'w hz_client \<Rightarrow> names \<Rightarrow> string \<Rightarrow> ('w, unit) act" where
  "drainAndDeleteServer hc names short =
     thenA (drain_node hc (Server names short))
     (bindA (readA (\<lambda>w. Inr (or_none (ListServers (hc_api hc) (Labels names) w)))) (\<lambda>servers.
        if list_ex (\<lambda>s. vm_name s = Server names short) servers
        then DeleteServer (hc_clock hc) (hc_api hc) (Server names short)
        else retA ()))"

definition unmount_on :: "'w hz_client \<Rightarrow> string \<Rightarrow> cloud_server \<Rightarrow> ('w, unit) act" where
  "unmount_on hc mountPath s =
     bindA (resultA (dialSSH hc (ssh_addr (vm_ipv4 s)))) (\<lambda>r.
       (case r of Inl _ \<Rightarrow> retA () | Inr ssh \<Rightarrow> ignoreA (UnmountVolume ssh mountPath)))"

definition unmountAndDeleteVolume :: "'w hz_client \<Rightarrow> names \<Rightarrow> string \<Rightarrow> ('w, unit) act" where
  "unmountAndDeleteVolume hc names short =
     bindA (readA (\<lambda>w. Inr (or_none (ListVolumes (hc_api hc) (Labels names) w)))) (\<lambda>volumes.
       if \<not> list_ex (\<lambda>v. cv_name v = Volume names short) volumes then retA ()
       else bindA (readA (\<lambda>w. Inr (or_none (ListServers (hc_api hc) (Labels names) w)))) (\<lambda>servers.
            thenA (forA (unmount_on hc (VolumeMountPath names short)) servers)
              (DeleteVolume (hc_clock hc) (hc_api hc) (Volume names short))))"

definition sweepFirewalls :: "'w hz_client \<Rightarrow> string \<Rightarrow> string list \<Rightarrow> ('w, unit) act" where
  "sweepFirewalls hc prefix desired =
     bindA (readA (\<lambda>w. Inr (or_none (ListAllFirewalls (hc_api hc) w)))) (\<lambda>fws.
       forA (\<lambda>fw. if \<not> in_scope prefix (cn_name fw) \<or> cn_name fw \<in> set desired then retA ()
                    else ignoreA (DeleteFirewall (hc_api hc) (cn_name fw))) fws)"

definition desired_volumes :: "app_config \<Rightarrow> names \<Rightarrow> server_spec list \<Rightarrow> string list" where
  "desired_volumes cfg names builders =
     map vs_name (VolumeDefs cfg) @ map (\<lambda>b. BuilderCacheVolumeShort names (ss_name b)) builders"

definition TeardownOrphans :: "'w hz_client \<Rightarrow> 'w bootstrap_context \<Rightarrow> ('w, unit) act" where
  "TeardownOrphans hc bc =
     bindA (readA (\<lambda>_. bc_names bc)) (\<lambda>names.
     bindA (wrapA ''hetzner.TeardownOrphans live'' (readA (LiveSnapshot hc bc))) (\<lambda>snap.
       (case snap of
          None \<Rightarrow> retA ()
        | Some live \<Rightarrow>
            let desiredServers = map ss_name (ServerDefs (bc_cfg bc));
                desiredVols = (case splitByRole (ServerDefs (bc_cfg bc)) of (_, _, builders) \<Rightarrow> desired_volumes (bc_cfg bc) names builders)
            in thenA (forA (\<lambda>short. if short \<in> set desiredServers then retA () else drainAndDeleteServer hc names short) (sn_servers live))
               (thenA (sweepFirewalls hc (Base names @ ''-'') (desired_firewalls (bc_cfg bc) names))
                 (forA (\<lambda>short. if short \<in> set desiredVols then retA () else ignoreA (unmountAndDeleteVolume hc names short))
                   (sn_volumes live))))))"

text \<open>Steps that all run; the first error is returned in the end.\<close>

fun collect_first :: "('w, unit) act list \<Rightarrow> ('w, unit) act" where
  "collect_first [] w = (Inr (), w)"
| "collect_first (m # ms) w =
     (case m w of (r, w1) \<Rightarrow> (case collect_first ms w1 of (r', w2) \<Rightarrow> (case r of Inl e \<Rightarrow> Inl e | Inr _ \<Rightarrow> r', w2)))"

definition hz_Teardown :: "'w hz_client \<Rightarrow> 'w bootstrap_context \<Rightarrow> bool \<Rightarrow> ('w, unit) act" where
  "hz_Teardown hc bc deleteVolumes =
     bindA (readA (\<lambda>_. bc_names bc)) (\<lambda>names.
       (case splitByRole (ServerDefs (bc_cfg bc)) of (masters, workers, builders) \<Rightarrow>
          collect_first
            ((if deleteVolumes then map (\<lambda>v. unmountAndDeleteVolume hc names (vs_name v)) (VolumeDefs (bc_cfg bc)) else []) @
             map (\<lambda>b. unmountAndDeleteVolume hc names (BuilderCacheVolumeShort names (ss_name b))) builders @
             map (\<lambda>s. drainAndDeleteServer hc names (ss_name s)) (builders @ workers @ masters) @
             [sweepFirewalls hc (Base names @ ''-'') [],
              wrapA ''network delete'' (DeleteNetwork (hc_api hc) (Network names))])))"

section \<open>The provider\<close>

definition hz_ConsumesBlocks :: "string list" where
  "hz_ConsumesBlocks = [''servers'', ''firewall'', ''volumes'']"

definition hz_ValidateConfig :: "app_config \<Rightarrow> goerr option" where
  "hz_ValidateConfig cfg =
     each (\<lambda>s. check (ss_disk s > 0) (Errorf ''servers: hetzner root disk is fixed per server type'' [ss_name s])) (ServerDefs cfg)"

definition hetzner_provider :: "'w hz_client \<Rightarrow> 'w infra_provider" where
  "hetzner_provider hc = \<lparr>ip_connect = Connect hc, ip_bootstrap = Bootstrap hc, ip_plan = PlanInfra hc,
     ip_teardown_orphans = TeardownOrphans hc, ip_teardown = hz_Teardown hc, ip_ingress_binding = hz_IngressBinding hc,
     ip_public_ingress = True, ip_node_shell = NodeShell hc, ip_ssh_to_node = hz_SSHToNode hc, ip_arch = ArchForType,
     ip_provision_builders = ProvisionBuilders hc, ip_builder_targets = BuilderTargets hc\<rparr>"

end
