(* ===== verification/HetznerCloud.thy ===== *)
theory HetznerCloud
  imports HetznerInfra
begin

text \<open>
  What a bootstrap achieves on a cloud that keeps its promises: the locale \<open>hetzner_cloud\<close> states what
  the service documents of its endpoints, and after a bootstrap that succeeded the plan has nothing left
  to add or to change.
\<close>

section \<open>What the provider's calls keep\<close>

text \<open>A relation that is kept by every request that does not delete and does not replace rules.\<close>

definition grows :: "('w \<Rightarrow> 'w \<Rightarrow> bool) \<Rightarrow> 'w hz_api \<Rightarrow> bool" where
  "grows R api \<longleftrightarrow>
     (\<forall>body w. R w (snd (hz_create_server api body w))) \<and>
     (\<forall>body w. R w (snd (hz_create_volume api body w))) \<and>
     (\<forall>body w. R w (snd (hz_create_network api body w))) \<and>
     (\<forall>n ls rs w. R w (snd (hz_create_firewall api n ls rs w))) \<and>
     (\<forall>i s w. R w (snd (hz_attach_volume api i s w))) \<and>
     (\<forall>i w. R w (snd (hz_detach_volume api i w))) \<and>
     (\<forall>i gb w. R w (snd (hz_resize_volume api i gb w))) \<and>
     (\<forall>i s w. R w (snd (hz_apply_firewall api i s w))) \<and>
     (\<forall>i s w. R w (snd (hz_remove_firewall api i s w)))"

text \<open>The same of the machines, the clock and what the client caches.\<close>

definition machines_keep :: "('w \<Rightarrow> 'w \<Rightarrow> bool) \<Rightarrow> 'w hz_client \<Rightarrow> bool" where
  "machines_keep R hc \<longleftrightarrow>
     (\<forall>i w. R w (snd (rt_sleep (hc_clock hc) i w))) \<and>
     (\<forall>addr w. R w (snd (se_login (hc_ssh hc) addr w))) \<and>
     (\<forall>hosts w. R w (snd (se_save (hc_ssh hc) hosts w))) \<and>
     (\<forall>addr cmd w. R w (snd (sh_run (se_shell (hc_ssh hc) addr) cmd w))) \<and>
     (\<forall>addr w. R w (hc_cache hc addr w))"

lemma growsD:
  assumes "grows R api"
  shows "R w (snd (hz_create_server api sbody w))" "R w (snd (hz_create_volume api vbody w))"
    "R w (snd (hz_create_network api nbody w))" "R w (snd (hz_create_firewall api n ls rs w))"
    "R w (snd (hz_attach_volume api i s w))" "R w (snd (hz_detach_volume api i w))"
    "R w (snd (hz_resize_volume api i gb w))" "R w (snd (hz_apply_firewall api i s w))"
    "R w (snd (hz_remove_firewall api i s w))"
  using assms by (simp_all add: grows_def)

lemma machines_keepD:
  assumes "machines_keep R hc"
  shows "R w (snd (rt_sleep (hc_clock hc) i w))" "R w (snd (se_login (hc_ssh hc) addr w))"
    "R w (snd (se_save (hc_ssh hc) hosts w))" "R w (snd (sh_run (se_shell (hc_ssh hc) addr) cmd w))"
    "R w (hc_cache hc cached w)"
  using assms by (simp_all add: machines_keep_def)

text \<open>A clock and a shell that keep the relation.\<close>

definition sleep_keeps :: "('w \<Rightarrow> 'w \<Rightarrow> bool) \<Rightarrow> 'w runtime \<Rightarrow> bool" where
  "sleep_keeps R rt \<longleftrightarrow> (\<forall>i w. R w (snd (rt_sleep rt i w)))"

definition run_keeps :: "('w \<Rightarrow> 'w \<Rightarrow> bool) \<Rightarrow> 'w shell \<Rightarrow> bool" where
  "run_keeps R sh \<longleftrightarrow> (\<forall>cmd. keeps R (sh_run sh cmd))"

lemma machines_clock: "machines_keep R hc \<Longrightarrow> sleep_keeps R (hc_clock hc)"
  by (simp add: machines_keep_def sleep_keeps_def)

lemma machines_shell: "machines_keep R hc \<Longrightarrow> run_keeps R (se_shell (hc_ssh hc) addr)"
  by (simp add: machines_keep_def run_keeps_def keeps_def)

context step_relation
begin

lemma polling: "sleep_keeps R rt \<Longrightarrow> keeps R fn \<Longrightarrow> keeps R (PollA rt interval timeout fn)"
  unfolding sleep_keeps_def by (intro poll) auto

lemma running: "run_keeps R sh \<Longrightarrow> keeps R (sh_run sh cmd)"
  by (simp add: run_keeps_def)

lemma bind_result: "keeps R m \<Longrightarrow> (\<And>e. keeps R (f (Inl e))) \<Longrightarrow> (\<And>a. keeps R (f (Inr a))) \<Longrightarrow> keeps R (bindA (resultA m) f)"
  by (rule bind, erule result) (metis sum.exhaust)

lemma actions_keep: "sleep_keeps R rt \<Longrightarrow> keeps R (wait_actions rt api ctx ids)"
  unfolding wait_actions_def waitForAction_def by (intro loop choice wrap polling read ret)

lemma ensureFirewall_keeps:
  assumes "grows R api"
  shows "keeps R (ensureFirewall api name labels)"
  unfolding ensureFirewall_def
proof (intro bind wrap read)
  fix fws show "keeps R (case named_firewall name fws of
          Some fw \<Rightarrow> retA (itoa (hf_id fw))
        | None \<Rightarrow> bindA (wrapA ''create firewall'' (send NewAPI (hz_create_firewall api name labels baseFirewallRules)))
                    (\<lambda>i. retA (itoa i)))"
    by (cases "named_firewall name fws") (simp_all add: ret bind wrap sending growsD [OF assms])
qed

lemma detachFirewall_keeps:
  assumes "grows R api" "sleep_keeps R rt"
  shows "keeps R (detachFirewall rt api fwID serverID)"
  unfolding detachFirewall_def detach_attempt_def using assms
  by (intro polling bind_result)
    (auto intro!: sending growsD [OF assms(1)] seq actions_keep ret fail choice)

lemma reconcileServerFirewall_keeps:
  assumes "grows R api" "sleep_keeps R rt"
  shows "keeps R (reconcileServerFirewall rt api serverID name labels)"
proof -
  have attach: "keeps R (attachFirewall rt api i s)" for i s
    unfolding attachFirewall_def
    by (rule bind_result) (auto intro!: sending growsD [OF assms(1)] actions_keep assms(2) ret fail choice)
  show ?thesis
    unfolding reconcileServerFirewall_def Let_def split_def
    by (intro bind ensureFirewall_keeps assms read choice ret seq loop detachFirewall_keeps attach)
qed

lemma EnsureServer_keeps:
  assumes "grows R api" "sleep_keeps R rt"
  shows "keeps R (EnsureServer rt api req)"
proof -
  have network: "keeps R (ensureNetwork api name loc labels)" for name loc labels
    unfolding ensureNetwork_def
  proof (intro bind wrap read)
    fix ns show "keeps R (case find (\<lambda>n. hn_name n = name) ns of
          Some n \<Rightarrow> retA (itoa (hn_id n))
        | None \<Rightarrow> bindA (wrapA ''create network'' (send NewAPI (hz_create_network api
             \<lparr>nb_name = name, nb_ip_range = PrivateNetworkCIDR, nb_labels = labels, nb_subnet = PrivateNetworkSubnet,
              nb_zone = zoneForLocation loc\<rparr>))) (\<lambda>i. retA (itoa i)))"
      by (cases "find (\<lambda>n. hn_name n = name) ns") (simp_all add: ret bind wrap sending growsD [OF assms(1)])
  qed
  have create: "keeps R (create_server api req)"
    unfolding create_server_def
    by (intro bind wrap ensureFirewall_keeps network sending growsD [OF assms(1)] assms(1) ret)
  show ?thesis
    unfolding EnsureServer_def
  proof (intro bind read)
    fix s show "keeps R (case s of
          Some s \<Rightarrow> thenA (wrapA ''reconcile firewall'' (reconcileServerFirewall rt api (vm_id s) (rs_firewall req) (rs_labels req)))
                      (retA s)
        | None \<Rightarrow> create_server api req)"
      by (cases s) (simp_all add: create seq wrap ret reconcileServerFirewall_keeps assms)
  qed
qed

lemma detachVolume_keeps:
  assumes "grows R api" "sleep_keeps R rt"
  shows "keeps R (hz_detachVolume rt api i)"
  unfolding hz_detachVolume_def detach_volume_attempt_def
  by (intro polling assms bind_result)
    (auto intro!: sending growsD [OF assms(1)] seq actions_keep assms(2) ret fail choice)

lemma attach_volume_keeps:
  assumes "grows R api" "sleep_keeps R rt"
  shows "keeps R (attach_volume rt api s v)"
  unfolding attach_volume_def
  by (intro choice ret seq optional wrap detachVolume_keeps bind sending growsD [OF assms(1)] assms actions_keep read)

lemma EnsureVolume_keeps:
  assumes "grows R api" "sleep_keeps R rt"
  shows "keeps R (EnsureVolume rt api req)"
proof -
  have prepare: "keeps R (case v of Some v \<Rightarrow> resize_existing rt api req v | None \<Rightarrow> create_volume api req s)" for v s
    unfolding resize_existing_def ResizeVolume_def create_volume_def
    by (cases v) (auto intro!: bind wrap read sending growsD [OF assms(1)] ret fail seq actions_keep assms(2))
  show ?thesis
    unfolding EnsureVolume_def
  proof (intro choice fail bind wrap read)
    fix srv show "keeps R (case srv of
           None \<Rightarrow> failA (Errorf ''server not found'' [rv_server req])
         | Some s \<Rightarrow>
             bindA (readA (getVolumeByName api (rv_name req))) (\<lambda>vol.
             bindA (case vol of Some v \<Rightarrow> resize_existing rt api req v | None \<Rightarrow> create_volume api req s) (\<lambda>v.
             bindA (attach_volume rt api s v) (\<lambda>v. retA (v\<lparr>cv_server_name := rv_server req\<rparr>)))))"
      by (cases srv) (simp_all add: fail bind read prepare attach_volume_keeps assms ret)
  qed
qed

end

text \<open>Work on machines.\<close>

lemma snd_ConnectSSH: "snd (ConnectSSH se addr w) =
    snd (bindA (readA (se_host_key se addr)) (\<lambda>key. thenA (tofuHostKeyCallback se addr key) (se_login se addr)) w)"
  by (simp add: ConnectSSH_def split: prod.split sum.split)

context step_relation
begin

lemma EnsureSwap_keeps: "run_keeps R ssh \<Longrightarrow> keeps R (EnsureSwap ssh)"
  unfolding EnsureSwap_def
  by (rule bind_result, erule running) (auto intro!: choice ret bind_result running loop command split: prod.split)

lemma discover_keeps: "run_keeps R ssh \<Longrightarrow> keeps R (discoverPrivateInterface ssh ip)"
  unfolding discoverPrivateInterface_def by (intro bind running choice ret fail)

lemma InstallK3sMaster_keeps:
  assumes "run_keeps R ssh" "sleep_keeps R rt"
  shows "keeps R (InstallK3sMaster rt ssh n)"
  unfolding InstallK3sMaster_def
  by (intro bind result running choice ret wrap discover_keeps seq command polling assms)

lemma JoinK3sWorker_keeps:
  assumes "run_keeps R ssh" "run_keeps R master" "sleep_keeps R rt"
  shows "keeps R (JoinK3sWorker rt master ssh n m)"
  unfolding JoinK3sWorker_def Let_def
  by (intro bind result running choice ret wrap discover_keeps seq command polling assms)

lemma MountVolume_keeps:
  assumes "run_keeps R ssh" "sleep_keeps R rt"
  shows "keeps R (MountVolume rt ssh dev path)"
  unfolding MountVolume_def growfs_def waitForDevice_def format_if_blank_def fstab_entry_def
  by (intro bind result running choice ret ignore wrap seq command polling fail assms)

lemma ConnectSSH_keeps:
  assumes "machines_keep R hc"
  shows "keeps R (ConnectSSH (hc_ssh hc) addr)"
proof -
  have tofu: "keeps R (tofuHostKeyCallback (hc_ssh hc) addr key)" for key
    unfolding keeps_def tofuHostKeyCallback_def
    by (auto simp: refl machines_keepD [OF assms] split: option.split)
  have login: "keeps R (se_login (hc_ssh hc) addr)"
    by (simp add: keeps_def machines_keepD [OF assms])
  have "keeps R (bindA (readA (se_host_key (hc_ssh hc) addr)) (\<lambda>key. thenA (tofuHostKeyCallback (hc_ssh hc) addr key) (se_login (hc_ssh hc) addr)))"
    by (intro bind read seq tofu login)
  then show ?thesis by (simp add: keeps_def snd_ConnectSSH)
qed

lemma dialSSH_keeps: "machines_keep R hc \<Longrightarrow> keeps R (dialSSH hc addr)"
  unfolding dialSSH_def by (rule ConnectSSH_keeps)

lemma wait_ssh_keeps:
  assumes "machines_keep R hc"
  shows "keeps R (wait_ssh hc ip)"
  unfolding wait_ssh_def
  by (intro seq wrap polling bind_result dialSSH_keeps machines_clock assms ret)
    (auto intro!: choice fail ret)

lemma forget_host_keeps: "machines_keep R hc \<Longrightarrow> keeps R (forget_host hc ip)"
  unfolding forget_host_def keeps_def ClearKnownHost_def
  by (auto simp: Let_def refl machines_keepD)

lemma Connect_keeps:
  assumes "machines_keep R hc"
  shows "keeps R (Connect hc bc)"
proof -
  have "keeps R (setCachedShell hc a)" for a
    by (simp add: keeps_def setCachedShell_def machines_keepD [OF assms])
  then show ?thesis
    unfolding Connect_def
    by (cases "bc_kube bc") (simp_all add: ret bind read wrap seq dialSSH_keeps assms)
qed

end

definition own_shell :: "'w hz_client \<Rightarrow> 'w shell option \<Rightarrow> bool" where
  "own_shell hc sh \<longleftrightarrow> (\<forall>s. sh = Some s \<longrightarrow> (\<exists>addr. s = se_shell (hc_ssh hc) addr))"

text \<open>A value the dial returns is the shell of the address.\<close>

lemma dialSSH_shell: "dialSSH hc addr w = (Inr sh, w') \<Longrightarrow> sh = se_shell (hc_ssh hc) addr"
  by (auto simp: dialSSH_def ConnectSSH_def split: prod.splits sum.splits)

lemma wait_ssh_shell: "wait_ssh hc ip w = (Inr sh, w') \<Longrightarrow> sh = se_shell (hc_ssh hc) (ssh_addr ip)"
  unfolding wait_ssh_def thenA_Inr by auto

context step_relation
begin

lemma labelNode_keeps: "run_keeps R ssh \<Longrightarrow> keeps R (labelNodeViaSSH ssh node role)"
  unfolding labelNodeViaSSH_def by (intro command running)

lemma join_worker_keeps:
  assumes "machines_keep R hc" "own_shell hc masterShell" "run_keeps R ssh"
  shows "keeps R (join_worker hc bc masterShell ssh srv name role)"
  unfolding join_worker_def
proof (rule bind_value)
  show "keeps R (case masterShell of Some sh \<Rightarrow> retA sh
      | None \<Rightarrow> bindA (readA (findMaster hc bc)) (\<lambda>m. wrapA ''ssh master for worker join'' (dialSSH hc (ssh_addr (vm_ipv4 m)))))"
    by (cases masterShell) (simp_all add: ret bind read wrap dialSSH_keeps assms)
next
  fix w joinShell w'
  assume run: "(case masterShell of Some sh \<Rightarrow> retA sh
      | None \<Rightarrow> bindA (readA (findMaster hc bc)) (\<lambda>m. wrapA ''ssh master for worker join'' (dialSSH hc (ssh_addr (vm_ipv4 m))))) w = (Inr joinShell, w')"
  have "\<exists>addr. joinShell = se_shell (hc_ssh hc) addr"
  proof (cases masterShell)
    case None
    with run show ?thesis by (auto simp: bindA_Inr dest: dialSSH_shell)
  qed (use run assms(2) in \<open>auto simp: own_shell_def\<close>)
  then obtain addr where sh: "joinShell = se_shell (hc_ssh hc) addr" by blast
  show "keeps R (bindA (readA (findMaster hc bc)) (\<lambda>m.
     thenA (wrapA ''k3s worker join'' (JoinK3sWorker (hc_clock hc) joinShell ssh (server_node srv) (server_node m)))
       (labelNodeViaSSH joinShell name role)))"
    unfolding sh
    by (intro bind read seq wrap JoinK3sWorker_keeps labelNode_keeps machines_shell machines_clock assms)
qed

end

text \<open>The rest of the provisioning of a server, once the service has it.\<close>

definition setup_server ::
    "'w hz_client \<Rightarrow> 'w bootstrap_context \<Rightarrow> server_spec \<Rightarrow> 'w shell option \<Rightarrow> names \<Rightarrow> cloud_server \<Rightarrow> ('w, 'w shell) act" where
  "setup_server hc bc s masterShell names srv =
     thenA (forget_host hc (vm_ipv4 srv))
     (bindA (wait_ssh hc (vm_ipv4 srv)) (\<lambda>ssh.
      thenA (ignoreA (EnsureSwap ssh))
      (thenA (if ss_role s = RoleWorker then join_worker hc bc masterShell ssh srv (Server names (ss_name s)) (ss_name s)
              else thenA (wrapA ''k3s master'' (InstallK3sMaster (hc_clock hc) ssh (server_node srv)))
                     (labelNodeViaSSH ssh (Server names (ss_name s)) (ss_name s)))
        (retA ssh))))"

lemma provisionServer_setup:
  "provisionServer hc bc s masterShell =
     bindA (readA (\<lambda>_. bc_names bc)) (\<lambda>names.
     bindA (readA (\<lambda>_. wrapR ''derive public key'' (hc_public_key hc))) (\<lambda>pubKey.
     bindA (readA (\<lambda>_. RenderCloudInit (hc_yaml hc) (trim_space pubKey) (Server names (ss_name s)))) (\<lambda>userData.
     bindA (EnsureServer (hc_clock hc) (hc_api hc)
       (server_request_of names s (if ss_role s = RoleWorker then RoleWorker else RoleMaster) userData)) (\<lambda>srv0.
     bindA (readA (with_private_ip hc srv0)) (setup_server hc bc s masterShell names)))))"
  unfolding provisionServer_def setup_server_def Let_def ..

context step_relation
begin

lemma setup_server_keeps:
  assumes "machines_keep R hc" "own_shell hc masterShell"
  shows "keeps R (setup_server hc bc s masterShell names srv)"
  unfolding setup_server_def
proof (intro seq forget_host_keeps assms bind_value [OF wait_ssh_keeps])
  fix w ssh w' assume "wait_ssh hc (vm_ipv4 srv) w = (Inr ssh, w')"
  then have ssh: "ssh = se_shell (hc_ssh hc) (ssh_addr (vm_ipv4 srv))" by (rule wait_ssh_shell)
  show "keeps R (ignoreA (EnsureSwap ssh))"
    unfolding ssh by (intro ignore EnsureSwap_keeps machines_shell assms)
  show "keeps R (if ss_role s = RoleWorker then join_worker hc bc masterShell ssh srv (Server names (ss_name s)) (ss_name s)
      else thenA (wrapA ''k3s master'' (InstallK3sMaster (hc_clock hc) ssh (server_node srv)))
             (labelNodeViaSSH ssh (Server names (ss_name s)) (ss_name s)))"
    unfolding ssh
    by (intro choice join_worker_keeps seq wrap InstallK3sMaster_keeps labelNode_keeps machines_shell machines_clock assms)
  show "keeps R (retA ssh)" by (rule ret)
qed

lemma provisionServer_keeps:
  assumes "machines_keep R hc" "grows R (hc_api hc)" "own_shell hc masterShell"
  shows "keeps R (provisionServer hc bc s masterShell)"
  unfolding provisionServer_setup
  by (intro bind read EnsureServer_keeps setup_server_keeps machines_clock assms)

lemma dialled_mount_keeps:
  assumes "machines_keep R hc"
  shows "keeps R (bindA (wrapA ctx (dialSSH hc addr)) (\<lambda>ssh. wrapA ctx' (MountVolume (hc_clock hc) ssh dev path)))"
proof (rule bind_value)
  fix w ssh w' assume "wrapA ctx (dialSSH hc addr) w = (Inr ssh, w')"
  then have ssh: "ssh = se_shell (hc_ssh hc) addr" by (auto dest: dialSSH_shell)
  show "keeps R (wrapA ctx' (MountVolume (hc_clock hc) ssh dev path))"
    unfolding ssh by (intro wrap MountVolume_keeps machines_shell machines_clock assms)
qed (intro wrap dialSSH_keeps assms)

lemma provisionVolume_keeps:
  assumes "machines_keep R hc" "grows R (hc_api hc)"
  shows "keeps R (provisionVolume hc bc v)"
  unfolding provisionVolume_def Let_def
  by (intro dialled_mount_keeps bind read EnsureVolume_keeps wrap choice fail machines_clock assms)

end

section \<open>The service\<close>

text \<open>
  What a project of the cloud holds, as far as the provider relies on it: the names of its servers and
  volumes, and the id and the rules of the firewall of a name. Listings by name are complete, creating
  makes what was asked for, replacing rules changes the rules of that firewall alone, and no other request
  takes anything away.
\<close>

definition no_loss :: "(string \<Rightarrow> 'w \<Rightarrow> bool) \<Rightarrow> (string \<Rightarrow> 'w \<Rightarrow> bool) \<Rightarrow> (string \<Rightarrow> 'w \<Rightarrow> (int \<times> fw_rule list) option) \<Rightarrow> 'w \<Rightarrow> 'w \<Rightarrow> bool" where
  "no_loss has_server has_volume firewall w w' \<longleftrightarrow>
     (\<forall>n. has_server n w \<longrightarrow> has_server n w') \<and> (\<forall>n. has_volume n w \<longrightarrow> has_volume n w') \<and>
     (\<forall>n f. firewall n w = Some f \<longrightarrow> firewall n w' = Some f)"

interpretation kept_cloud: step_relation "no_loss has_server has_volume firewall"
  for has_server has_volume :: "string \<Rightarrow> 'w \<Rightarrow> bool" and firewall
  by unfold_locales (auto simp: no_loss_def)

text \<open>Two firewalls of a project have different ids, which are 64-bit numbers.\<close>

definition distinct_firewalls :: "(string \<Rightarrow> 'w \<Rightarrow> (int \<times> fw_rule list) option) \<Rightarrow> 'w \<Rightarrow> bool" where
  "distinct_firewalls firewall w \<longleftrightarrow>
     (\<forall>n m i r r'. firewall n w = Some (i, r) \<longrightarrow> firewall m w = Some (i, r') \<longrightarrow> n = m) \<and>
     (\<forall>n i r. firewall n w = Some (i, r) \<longrightarrow> parse_id (itoa i) = i)"

lemma getServerByName_Inr: "getServerByName api n w = Inr s \<longleftrightarrow>
    (\<exists>ss. hz_servers api (ByName n) w = Inr ss \<and> s = map_option serverFrom (find (\<lambda>s. hs_name s = n) ss))"
  by (auto simp: getServerByName_def bindR_eq_Inr wrapR_Inr)

lemma getVolumeByName_Inr: "getVolumeByName api n w = Inr v \<longleftrightarrow>
    (\<exists>vs. hz_volumes api (ByName n) w = Inr vs \<and> v = map_option volumeFrom (find (\<lambda>v. hv_name v = n) vs))"
  by (auto simp: getVolumeByName_def bindR_eq_Inr wrapR_Inr)

lemma find_hit: "find P xs = Some x \<Longrightarrow> x \<in> set xs \<and> P x"
  by (induction xs) (auto split: if_splits)

lemma found_server: "getServerByName api n w = Inr (Some s) \<Longrightarrow>
    \<exists>ss. hz_servers api (ByName n) w = Inr ss \<and> (\<exists>x \<in> set ss. hs_name x = n)"
  by (auto simp: getServerByName_Inr dest!: sym [of "Some s"] find_hit)

lemma found_volume: "getVolumeByName api n w = Inr (Some v) \<Longrightarrow>
    \<exists>vs. hz_volumes api (ByName n) w = Inr vs \<and> (\<exists>x \<in> set vs. hv_name x = n)"
  by (auto simp: getVolumeByName_Inr dest!: sym [of "Some v"] find_hit)

locale hetzner_cloud =
  fixes api :: "'w hz_api"
    and has_server :: "string \<Rightarrow> 'w \<Rightarrow> bool"
    and has_volume :: "string \<Rightarrow> 'w \<Rightarrow> bool"
    and firewall :: "string \<Rightarrow> 'w \<Rightarrow> (int \<times> fw_rule list) option"
  assumes server_listed: "n \<noteq> [] \<Longrightarrow> hz_servers api (ByName n) w = Inr ss \<Longrightarrow> (\<exists>s \<in> set ss. hs_name s = n) \<longleftrightarrow> has_server n w"
    and volume_listed: "n \<noteq> [] \<Longrightarrow> hz_volumes api (ByName n) w = Inr vs \<Longrightarrow> (\<exists>v \<in> set vs. hv_name v = n) \<longleftrightarrow> has_volume n w"
    and firewall_listed: "n \<noteq> [] \<Longrightarrow> hz_firewalls api (ByName n) w = Inr fws \<Longrightarrow>
      map_option (\<lambda>fw. (hf_id fw, hf_rules fw)) (named_firewall n fws) = firewall n w"
    and server_created: "hz_create_server api body w = (Inr s, w') \<Longrightarrow> has_server (sb_name body) w'"
    and volume_created: "hz_create_volume api vbody w = (Inr v, w') \<Longrightarrow> has_volume (vb_name vbody) w'"
    and rules_replaced: "hz_set_rules api (itoa i) rs w = (Inr (), w') \<Longrightarrow>
      firewall n w' = map_option (\<lambda>(j, r). (j, if j = parse_id (itoa i) then rs else r)) (firewall n w) \<and>
      has_server m w' = has_server m w \<and> has_volume m w' = has_volume m w"
    and nothing_lost: "grows (no_loss has_server has_volume firewall) api"
begin

abbreviation "kept \<equiv> no_loss has_server has_volume firewall"

lemma ensured_server:
  assumes "sleep_keeps kept rt" "rs_name req \<noteq> []" "EnsureServer rt api req w = (Inr s, w')"
  shows "has_server (rs_name req) w'"
proof -
  from assms(3) obtain existing where look: "getServerByName api (rs_name req) w = Inr existing"
    and rest: "(case existing of
          Some s \<Rightarrow> thenA (wrapA ''reconcile firewall'' (reconcileServerFirewall rt api (vm_id s) (rs_firewall req) (rs_labels req))) (retA s)
        | None \<Rightarrow> create_server api req) w = (Inr s, w')"
    unfolding EnsureServer_def bindA_read by blast
  show ?thesis
  proof (cases existing)
    case None
    with rest show ?thesis
      by (auto simp: create_server_def bindA_Inr send_Inr dest: server_created)
  next
    case (Some srv)
    from found_server [OF look [unfolded Some]] obtain ss
      where ss: "hz_servers api (ByName (rs_name req)) w = Inr ss" "\<exists>s \<in> set ss. hs_name s = rs_name req" by blast
    with server_listed [OF assms(2) ss(1)] have "has_server (rs_name req) w" by simp
    moreover from rest Some have "reconcileServerFirewall rt api (vm_id srv) (rs_firewall req) (rs_labels req) w = (Inr (), w')"
      by (auto simp: thenA_Inr)
    then have "kept w w'"
      by (rule keepsD [OF kept_cloud.reconcileServerFirewall_keeps [OF nothing_lost assms(1)]])
    ultimately show ?thesis by (simp add: no_loss_def)
  qed
qed

lemma ensured_volume:
  assumes "sleep_keeps kept rt" "rv_name req \<noteq> []" "EnsureVolume rt api req w = (Inr vol, w')"
  shows "has_volume (rv_name req) w'"
proof -
  have size: "\<not> rv_size req \<le> 0"
    using assms(3) by (auto simp: EnsureVolume_def)
  from assms(3) [unfolded EnsureVolume_def if_not_P [OF size] bindA_Inr]
  obtain srv w1 where "(case srv of
           None \<Rightarrow> failA (Errorf ''server not found'' [rv_server req])
         | Some s \<Rightarrow>
             bindA (readA (getVolumeByName api (rv_name req))) (\<lambda>vol.
             bindA (case vol of Some v \<Rightarrow> resize_existing rt api req v | None \<Rightarrow> create_volume api req s) (\<lambda>v.
             bindA (attach_volume rt api s v) (\<lambda>v. retA (v\<lparr>cv_server_name := rv_server req\<rparr>))))) w1 = (Inr vol, w')"
    by blast
  then obtain s where "bindA (readA (getVolumeByName api (rv_name req))) (\<lambda>vol.
             bindA (case vol of Some v \<Rightarrow> resize_existing rt api req v | None \<Rightarrow> create_volume api req s) (\<lambda>v.
             bindA (attach_volume rt api s v) (\<lambda>v. retA (v\<lparr>cv_server_name := rv_server req\<rparr>)))) w1 = (Inr vol, w')"
    by (cases srv) simp_all
  from bindA_read [THEN iffD1, OF this] obtain look where look: "getVolumeByName api (rv_name req) w1 = Inr look"
    and rest: "bindA (case look of Some v \<Rightarrow> resize_existing rt api req v | None \<Rightarrow> create_volume api req s) (\<lambda>v.
             bindA (attach_volume rt api s v) (\<lambda>v. retA (v\<lparr>cv_server_name := rv_server req\<rparr>))) w1 = (Inr vol, w')"
    by blast
  from bindA_Inr [THEN iffD1, OF rest] obtain w2 v
    where prep: "(case look of Some v \<Rightarrow> resize_existing rt api req v | None \<Rightarrow> create_volume api req s) w1 = (Inr v, w2)"
    and attach: "bindA (attach_volume rt api s v) (\<lambda>v. retA (v\<lparr>cv_server_name := rv_server req\<rparr>)) w2 = (Inr vol, w')"
    by blast
  have "has_volume (rv_name req) w2"
  proof (cases look)
    case None
    with prep show ?thesis by (auto simp: create_volume_def bindA_Inr send_Inr dest: volume_created)
  next
    case (Some ev)
    from found_volume [OF look [unfolded Some]] obtain vs
      where vs: "hz_volumes api (ByName (rv_name req)) w1 = Inr vs" "\<exists>v \<in> set vs. hv_name v = rv_name req" by blast
    with volume_listed [OF assms(2) vs(1)] have "has_volume (rv_name req) w1" by simp
    moreover have "keeps kept (resize_existing rt api req ev)"
      unfolding resize_existing_def ResizeVolume_def
      by (intro kept_cloud.choice kept_cloud.fail kept_cloud.seq kept_cloud.bind kept_cloud.wrap kept_cloud.sending
            growsD [OF nothing_lost] kept_cloud.actions_keep kept_cloud.ret assms(1))
    ultimately show ?thesis using prep Some by (auto simp: no_loss_def dest!: keepsD)
  qed
  moreover have "keeps kept (bindA (attach_volume rt api s v) (\<lambda>v. retA (v\<lparr>cv_server_name := rv_server req\<rparr>)))"
    by (intro kept_cloud.bind kept_cloud.ret kept_cloud.attach_volume_keeps nothing_lost assms(1))
  ultimately show ?thesis using attach by (auto simp: no_loss_def dest!: keepsD)
qed

lemma applied_firewall:
  assumes "n \<noteq> []" "applyFirewall hc n allowed w = (Inr (), w')" "hc_api hc = api"
  shows "\<exists>i r. firewall n w = Some (i, r) \<and>
    (\<forall>m. firewall m w' = map_option (\<lambda>(j, r). (j, if j = parse_id (itoa i) then buildFirewallRules allowed else r)) (firewall m w)) \<and>
    (\<forall>m. has_server m w' = has_server m w \<and> has_volume m w' = has_volume m w)"
proof -
  from assms(2) have "ReconcileFirewallRules api n allowed w = (Inr (), w')"
    by (simp add: applyFirewall_def assms(3))
  then have "bindA (wrapA ''find firewall'' (readA (get NewAPI (hz_firewalls api (ByName n))))) (\<lambda>fws.
       (case named_firewall n fws of
          Some fw \<Rightarrow> send NewAPI (hz_set_rules api (itoa (hf_id fw)) (buildFirewallRules allowed))
        | None \<Rightarrow> failA ErrNotFound)) w = (Inr (), w')" 
    by (simp add: ReconcileFirewallRules_def)
  from bindA_Inr [THEN iffD1, OF this] obtain fws where fws: "hz_firewalls api (ByName n) w = Inr fws"
    and rest: "(case named_firewall n fws of
          Some fw \<Rightarrow> send NewAPI (hz_set_rules api (itoa (hf_id fw)) (buildFirewallRules allowed))
        | None \<Rightarrow> failA ErrNotFound) w = (Inr (), w')"
    by (auto dest: sym [of "Inr _"])
  from rest obtain fw where fw: "named_firewall n fws = Some fw"
    and set: "hz_set_rules api (itoa (hf_id fw)) (buildFirewallRules allowed) w = (Inr (), w')"
    by (cases "named_firewall n fws") (auto simp: send_Inr)
  from firewall_listed [OF assms(1) fws] fw have "firewall n w = Some (hf_id fw, hf_rules fw)" by simp
  with rules_replaced [OF set] show ?thesis by blast
qed

lemma Server_ne [simp]: "Server names k \<noteq> []" "Volume names k \<noteq> []" "MasterFirewall names \<noteq> []" "WorkerFirewall names \<noteq> []"
  by (simp_all add: naming_defs)

lemma provisioned_server:
  assumes "hc_api hc = api" "machines_keep kept hc" "bc_names bc = Inr names" "own_shell hc masterShell"
    and "provisionServer hc bc s masterShell w = (Inr sh, w')"
  shows "has_server (Server names (ss_name s)) w' \<and> own_shell hc (Some sh)"
proof -
  note run = assms(5) [unfolded provisionServer_setup bindA_read assms(3)]
  then obtain userData where "bindA (EnsureServer (hc_clock hc) (hc_api hc)
       (server_request_of names s (if ss_role s = RoleWorker then RoleWorker else RoleMaster) userData)) (\<lambda>srv0.
     bindA (readA (with_private_ip hc srv0)) (setup_server hc bc s masterShell names)) w = (Inr sh, w')"
    by auto
  from bindA_Inr [THEN iffD1, OF this] obtain srv0 w1
    where ensure: "EnsureServer (hc_clock hc) api (server_request_of names s (if ss_role s = RoleWorker then RoleWorker else RoleMaster) userData) w = (Inr srv0, w1)"
    and "bindA (readA (with_private_ip hc srv0)) (setup_server hc bc s masterShell names) w1 = (Inr sh, w')"
    unfolding assms(1) by blast
  from bindA_read [THEN iffD1, OF this(2)] obtain srv where rest: "setup_server hc bc s masterShell names srv w1 = (Inr sh, w')"
    by blast
  have "has_server (Server names (ss_name s)) w1"
    using ensured_server [OF machines_clock [OF assms(2)] _ ensure] by (simp add: server_request_of_def)
  moreover have "kept w1 w'"
    by (rule keepsD [OF kept_cloud.setup_server_keeps [OF assms(2,4)] rest])
  moreover from rest have "own_shell hc (Some sh)"
    unfolding setup_server_def thenA_Inr bindA_Inr by (auto simp: own_shell_def dest: wait_ssh_shell)
  ultimately show ?thesis by (simp add: no_loss_def)
qed

lemma provisioned_servers:
  assumes "hc_api hc = api" "machines_keep kept hc" "bc_names bc = Inr names"
    and "own_shell hc sh" "foldA (provision_next hc bc) sh xs w = (Inr sh', w')"
  shows "(\<forall>s \<in> set xs. has_server (Server names (ss_name s)) w') \<and> kept w w'"
  using assms(4,5)
proof (induction xs arbitrary: sh w)
  case Nil
  then show ?case by (simp add: kept_cloud.refl)
next
  case (Cons x xs)
  from Cons.prems(2) obtain sh1 w1 where step: "provision_next hc bc sh x w = (Inr sh1, w1)"
    and rest: "foldA (provision_next hc bc) sh1 xs w1 = (Inr sh', w')"
    by (auto simp: bindA_Inr)
  from step obtain s where prov: "provisionServer hc bc x sh w = (Inr s, w1)"
    and sh1: "sh1 = (if ss_role x \<noteq> RoleWorker \<and> sh = None then Some s else sh)"
    by (auto simp: provision_next_def bindA_Inr)
  from provisioned_server [OF assms(1-3) Cons.prems(1) prov]
  have x: "has_server (Server names (ss_name x)) w1" and own: "own_shell hc sh1"
    using Cons.prems(1) sh1 by auto
  have "kept w w1"
    by (rule keepsD [OF kept_cloud.provisionServer_keeps [OF assms(2) _ Cons.prems(1)] prov])
      (simp add: assms(1) nothing_lost)
  with x Cons.IH [OF own rest] show ?case
    by (auto simp: no_loss_def)
qed

lemma provisioned_volumes:
  assumes "hc_api hc = api" "machines_keep kept hc" "bc_names bc = Inr names"
    and "forA (provisionVolume hc bc) vs w = (Inr (), w')"
  shows "(\<forall>v \<in> set vs. has_volume (Volume names (vs_name v)) w') \<and> kept w w'"
  using assms(4)
proof (induction vs arbitrary: w)
  case Nil
  then show ?case by (simp add: kept_cloud.refl)
next
  case (Cons v vs)
  then obtain w1 where step: "provisionVolume hc bc v w = (Inr (), w1)" and rest: "forA (provisionVolume hc bc) vs w1 = (Inr (), w')"
    by (auto simp: thenA_Inr)
  have grow: "grows kept (hc_api hc)" by (simp add: assms(1) nothing_lost)
  from step [unfolded provisionVolume_def bindA_read assms(3)]
  obtain vol w2 where vol: "EnsureVolume (hc_clock hc) api \<lparr>rv_name = Volume names (vs_name v), rv_server = Server names (vs_server v),
       rv_size = vs_size v, rv_labels = Labels names\<rparr> w = (Inr vol, w2)"
    and mount: "bindA (wrapA ''list servers'' (readA (ListServers (hc_api hc) (Labels names)))) (\<lambda>servers.
     let ip = server_ip (Server names (vs_server v)) servers in
     if ip = [] then failA (Errorf ''server not found'' [Server names (vs_server v)])
     else bindA (wrapA ''ssh for volume mount'' (dialSSH hc (ssh_addr ip))) (\<lambda>ssh.
       wrapA ''mount'' (MountVolume (hc_clock hc) ssh (ResolveDevicePath vol) (VolumeMountPath names (vs_name v))))) w2 = (Inr (), w1)"
    unfolding bindA_Inr assms(1) by blast
  have "has_volume (Volume names (vs_name v)) w2"
    using ensured_volume [OF machines_clock [OF assms(2)] _ vol] by simp
  moreover have "keeps kept (bindA (wrapA ''list servers'' (readA (ListServers (hc_api hc) (Labels names)))) (\<lambda>servers.
     let ip = server_ip (Server names (vs_server v)) servers in
     if ip = [] then failA (Errorf ''server not found'' [Server names (vs_server v)])
     else bindA (wrapA ''ssh for volume mount'' (dialSSH hc (ssh_addr ip))) (\<lambda>ssh.
       wrapA ''mount'' (MountVolume (hc_clock hc) ssh (ResolveDevicePath vol) (VolumeMountPath names (vs_name v))))))"
    unfolding Let_def
    by (intro kept_cloud.dialled_mount_keeps kept_cloud.bind kept_cloud.wrap kept_cloud.read kept_cloud.choice kept_cloud.fail assms(2))
  then have "kept w2 w1" using mount by (rule keepsD)
  moreover have "kept w w1"
    by (rule keepsD [OF kept_cloud.provisionVolume_keeps [OF assms(2) grow] step])
  ultimately show ?case using Cons.IH [OF rest] by (auto simp: no_loss_def)
qed

text \<open>The firewalls once their rules are replaced, the master's first.\<close>

lemma rules_applied:
  assumes "hc_api hc = api"
    and "thenA (whenA (masters \<noteq> []) (applyFirewall hc (MasterFirewall names) rules))
       (thenA (whenA (workers \<noteq> []) (applyFirewall hc (WorkerFirewall names) [])) rest) w = (Inr kc, w')"
  obtains w1 where "rest w1 = (Inr kc, w')" "\<And>m. has_server m w1 = has_server m w"
    "workers \<noteq> [] \<Longrightarrow> firewall (WorkerFirewall names) w1 \<noteq> None"
    "masters \<noteq> [] \<Longrightarrow> distinct_firewalls firewall w1 \<Longrightarrow> \<exists>i. firewall (MasterFirewall names) w1 = Some (i, buildFirewallRules rules)"
proof -
  from assms(2) obtain w0 w1 where m: "whenA (masters \<noteq> []) (applyFirewall hc (MasterFirewall names) rules) w = (Inr (), w0)"
    and k: "whenA (workers \<noteq> []) (applyFirewall hc (WorkerFirewall names) []) w0 = (Inr (), w1)"
    and rest: "rest w1 = (Inr kc, w')"
    by (auto simp: thenA_Inr)
  have master: "\<exists>i r. firewall (MasterFirewall names) w0 = Some (i, if i = parse_id (itoa i) then buildFirewallRules rules else r)" if "masters \<noteq> []"
    using applied_firewall [OF Server_ne(3) _ assms(1), of names rules w w0] m that
    by (auto simp: whenA_def)
  have worker: "\<exists>j r. firewall (WorkerFirewall names) w0 = Some (j, r) \<and>
      (\<forall>m. firewall m w1 = map_option (\<lambda>(i, r). (i, if i = parse_id (itoa j) then buildFirewallRules [] else r)) (firewall m w0))" if "workers \<noteq> []"
    using applied_firewall [OF Server_ne(4) _ assms(1), of names "[]" w0 w1] k that by (auto simp: whenA_def)
  have servers: "has_server m w1 = has_server m w" for m
    using applied_firewall [OF Server_ne(3) _ assms(1), of names rules w w0] m
      applied_firewall [OF Server_ne(4) _ assms(1), of names "[]" w0 w1] k
    by (cases "masters = []"; cases "workers = []") (auto simp: whenA_def)
  show thesis
  proof (rule that [OF rest servers])
    show "firewall (WorkerFirewall names) w1 \<noteq> None" if "workers \<noteq> []" using worker [OF that] by auto
    show "\<exists>i. firewall (MasterFirewall names) w1 = Some (i, buildFirewallRules rules)"
      if "masters \<noteq> []" "distinct_firewalls firewall w1"
    proof (cases "workers = []")
      case True
      with k have w0: "w1 = w0" by (simp add: whenA_def)
      from master [OF that(1)] obtain i r where i: "firewall (MasterFirewall names) w1 = Some (i, if i = parse_id (itoa i) then buildFirewallRules rules else r)"
        unfolding w0 by blast
      with that(2) have "parse_id (itoa i) = i" unfolding distinct_firewalls_def by blast
      with i show ?thesis by simp
    next
      case False
      from worker [OF this] obtain j r where j: "firewall (WorkerFirewall names) w0 = Some (j, r)"
        and w1: "\<And>m. firewall m w1 = map_option (\<lambda>(i, r). (i, if i = parse_id (itoa j) then buildFirewallRules [] else r)) (firewall m w0)" by blast
      from master [OF that(1)] obtain i r' where i: "firewall (MasterFirewall names) w0 = Some (i, if i = parse_id (itoa i) then buildFirewallRules rules else r')" by blast
      from w1 [of "MasterFirewall names"] w1 [of "WorkerFirewall names"] obtain ri rj
        where at1: "firewall (MasterFirewall names) w1 = Some (i, ri)" "firewall (WorkerFirewall names) w1 = Some (j, rj)"
        by (auto simp: i j)
      with that(2) have ids: "parse_id (itoa i) = i" "parse_id (itoa j) = j" unfolding distinct_firewalls_def by blast+
      have "i \<noteq> j"
      proof
        assume "i = j"
        with at1 that(2) have "MasterFirewall names = WorkerFirewall names" unfolding distinct_firewalls_def by blast
        with firewalls_distinct(1) show False by blast
      qed
      with i w1 ids show ?thesis by simp
    qed
  qed
qed

lemma bootstrapped:
  assumes "hc_api hc = api" "machines_keep kept hc" "bc_names bc = Inr names"
    and "splitByRole (ServerDefs (bc_cfg bc)) = (masters, workers, builders)"
    and "Bootstrap hc bc w = (Inr kc, w')" "distinct_firewalls firewall w'"
  obtains rules where "FirewallAllowList (bc_cfg bc) = Inr rules"
    "\<And>s. s \<in> set (masters @ workers) \<Longrightarrow> has_server (Server names (ss_name s)) w'"
    "\<And>v. v \<in> set (VolumeDefs (bc_cfg bc)) \<Longrightarrow> has_volume (Volume names (vs_name v)) w'"
    "masters \<noteq> [] \<Longrightarrow> \<exists>i. firewall (MasterFirewall names) w' = Some (i, buildFirewallRules rules)"
    "workers \<noteq> [] \<Longrightarrow> firewall (WorkerFirewall names) w' \<noteq> None"
proof -
  from bindA_Inr [THEN iffD1, OF assms(5) [unfolded Bootstrap_def assms(4) prod.case]] obtain sh w1
    where fold: "foldA (provision_next hc bc) None (masters @ workers) w = (Inr sh, w1)"
    and "bindA (readA (\<lambda>_. FirewallAllowList (bc_cfg bc))) (\<lambda>publicRules.
        bindA (readA (\<lambda>_. bc_names bc)) (\<lambda>names.
        thenA (whenA (masters \<noteq> []) (applyFirewall hc (MasterFirewall names) publicRules))
        (thenA (whenA (workers \<noteq> []) (applyFirewall hc (WorkerFirewall names) []))
        (thenA (forA (provisionVolume hc bc) (VolumeDefs (bc_cfg bc)))
          (Connect hc bc))))) w1 = (Inr kc, w')" by blast
  from this(2) [unfolded bindA_read assms(3)] obtain rules where rules: "FirewallAllowList (bc_cfg bc) = Inr rules"
    and fw: "thenA (whenA (masters \<noteq> []) (applyFirewall hc (MasterFirewall names) rules))
        (thenA (whenA (workers \<noteq> []) (applyFirewall hc (WorkerFirewall names) []))
        (thenA (forA (provisionVolume hc bc) (VolumeDefs (bc_cfg bc))) (Connect hc bc))) w1 = (Inr kc, w')" by blast
  have own: "own_shell hc None" by (simp add: own_shell_def)
  from provisioned_servers [OF assms(1-3) own fold]
  have servers: "has_server (Server names (ss_name s)) w1" if "s \<in> set (masters @ workers)" for s using that by blast
  from rules_applied [OF assms(1) fw] obtain w2 where
    rest: "thenA (forA (provisionVolume hc bc) (VolumeDefs (bc_cfg bc))) (Connect hc bc) w2 = (Inr kc, w')"
    and same: "\<And>m. has_server m w2 = has_server m w1"
    and wfw: "workers \<noteq> [] \<Longrightarrow> firewall (WorkerFirewall names) w2 \<noteq> None"
    and mfw: "masters \<noteq> [] \<Longrightarrow> distinct_firewalls firewall w2 \<Longrightarrow> \<exists>i. firewall (MasterFirewall names) w2 = Some (i, buildFirewallRules rules)"
    by blast
  from rest obtain w3 where vols: "forA (provisionVolume hc bc) (VolumeDefs (bc_cfg bc)) w2 = (Inr (), w3)"
    and conn: "Connect hc bc w3 = (Inr kc, w')" by (auto simp: thenA_Inr)
  from provisioned_volumes [OF assms(1-3) vols]
  have volumes: "has_volume (Volume names (vs_name v)) w3" if "v \<in> set (VolumeDefs (bc_cfg bc))" for v using that by blast
  have k3: "kept w3 w'" by (rule keepsD [OF kept_cloud.Connect_keeps [OF assms(2)] conn])
  with provisioned_volumes [OF assms(1-3) vols] have k: "kept w2 w'" by (auto intro: kept_cloud.trans)
  from k assms(6) have d2: "distinct_firewalls firewall w2"
    unfolding distinct_firewalls_def no_loss_def by metis
  show thesis
  proof (rule that [OF rules])
    show "has_server (Server names (ss_name s)) w'" if "s \<in> set (masters @ workers)" for s
      using servers [OF that] same k by (simp add: no_loss_def)
    show "has_volume (Volume names (vs_name v)) w'" if "v \<in> set (VolumeDefs (bc_cfg bc))" for v
      using volumes [OF that] k3 by (simp add: no_loss_def)
    show "\<exists>i. firewall (MasterFirewall names) w' = Some (i, buildFirewallRules rules)" if "masters \<noteq> []"
      using mfw [OF that d2] k by (auto simp: no_loss_def)
    show "firewall (WorkerFirewall names) w' \<noteq> None" if "workers \<noteq> []"
      using wfw [OF that] k by (auto simp: no_loss_def)
  qed
qed

end

end
