(* ===== verification/HetznerFake.thy ===== *)
theory HetznerFake
  imports HetznerInfra
begin

text \<open>
  The stateful Hetzner API the repository tests its provider against
  (\<open>internal/testutil/hetznerfake.go\<close>, \<open>providermocks.go\<close>) and the canned SSH machine
  (\<open>internal/testutil/sshmock\<close>). Go maps are association lists in the order of creation; the paths and
  JSON bodies of requests are read by the typed endpoints, and what the fake records of a listing is
  left out.
\<close>

section \<open>State\<close>

record fake_server =
  fs_id :: int
  fs_name :: string
  fs_status :: string
  fs_ipv4 :: string
  fs_private :: string
  fs_disk :: int
  fs_firewalls :: "int list"
  fs_volumes :: "int list"
  fs_location :: string

record fake_volume =
  fv_id :: int
  fv_name :: string
  fv_size :: int
  fv_server :: int
  fv_location :: string
  fv_device :: string

record fake_firewall =
  ff_id :: int
  ff_name :: string
  ff_rules :: "fw_rule list"

record fake_network =
  fn_id :: int
  fn_name :: string

record hz_fake =
  fk_seq :: int
  fk_seq_action :: int
  fk_servers :: "fake_server list"
  fk_volumes :: "fake_volume list"
  fk_firewalls :: "fake_firewall list"
  fk_networks :: "fake_network list"
  fk_actions :: "(int \<times> string) list"
  fk_action_errors :: "(int \<times> string) list"
  fk_list_error :: "string option"
  fk_ops :: "string list"
  fk_err_on :: "string gomap"

definition NewHetznerFake :: hz_fake where
  "NewHetznerFake = \<lparr>fk_seq = 0, fk_seq_action = 0, fk_servers = [], fk_volumes = [], fk_firewalls = [], fk_networks = [],
     fk_actions = [], fk_action_errors = [], fk_list_error = None, fk_ops = [], fk_err_on = []\<rparr>"

section \<open>Requests\<close>

type_synonym 'a handler = "hz_fake \<Rightarrow> (api_fault + 'a) \<times> hz_fake"

text \<open>\<open>OpLog.Record\<close>, whose error ends a request with status 500.\<close>

definition Record :: "string \<Rightarrow> hz_fake \<Rightarrow> string option \<times> hz_fake" where
  "Record op f = (map_of (fk_err_on f) op, f\<lparr>fk_ops := fk_ops f @ [op]\<rparr>)"

definition ErrorOn :: "string \<Rightarrow> string \<Rightarrow> hz_fake \<Rightarrow> hz_fake" where
  "ErrorOn op err f = f\<lparr>fk_err_on := AList.update op err (fk_err_on f)\<rparr>"

definition recorded :: "string \<Rightarrow> 'a handler \<Rightarrow> 'a handler" where
  "recorded op h f = (case Record op f of (Some err, f') \<Rightarrow> (Inl (Refused 500 err), f') | (None, f') \<Rightarrow> h f')"

definition FailListServers :: "string \<Rightarrow> hz_fake \<Rightarrow> hz_fake" where
  "FailListServers err f = f\<lparr>fk_list_error := Some err\<rparr>"

text \<open>The id in a path, for the paths that the handler knows.\<close>

definition path_id :: "string \<Rightarrow> int option" where
  "path_id s = (if s \<noteq> [] \<and> list_all is_digit s then Some (parse_id s) else None)"

definition lookup_id :: "('r \<Rightarrow> int) \<Rightarrow> string \<Rightarrow> 'r list \<Rightarrow> 'r option" where
  "lookup_id key s rs = (case path_id s of None \<Rightarrow> None | Some i \<Rightarrow> find (\<lambda>r. key r = i) rs)"

definition missing :: "string \<Rightarrow> api_fault + 'a" where
  "missing what = Inl (Refused 404 (what @ '' not found''))"

section \<open>Servers\<close>

definition serverJSON :: "fake_server \<Rightarrow> hz_server" where
  "serverJSON s = \<lparr>hs_id = fs_id s, hs_name = fs_name s, hs_status = fs_status s, hs_ipv4 = fs_ipv4 s, hs_ipv6 = [],
     hs_private = (if fs_private s = [] then [] else [fs_private s]), hs_disk = fs_disk s, hs_firewalls = fs_firewalls s,
     hs_volumes = fs_volumes s, hs_location = fs_location s\<rparr>"

definition addServer :: "string \<Rightarrow> string \<Rightarrow> string \<Rightarrow> int \<Rightarrow> hz_fake \<Rightarrow> fake_server \<times> hz_fake" where
  "addServer name ipv4 privateIP diskGB f =
     (let s = \<lparr>fs_id = fk_seq f + 1, fs_name = name, fs_status = ''running'', fs_ipv4 = ipv4, fs_private = privateIP,
               fs_disk = diskGB, fs_firewalls = [], fs_volumes = [], fs_location = []\<rparr>
      in (s, f\<lparr>fk_seq := fk_seq f + 1, fk_servers := fk_servers f @ [s]\<rparr>))"

definition SeedServer :: "string \<Rightarrow> string \<Rightarrow> string \<Rightarrow> hz_fake \<Rightarrow> hz_fake" where
  "SeedServer name ipv4 privateIP f = snd (addServer name ipv4 privateIP 0 f)"

text \<open>A listing matches the name of the query, where it has one; the label selector is ignored.\<close>

definition matches :: "hz_query \<Rightarrow> string \<Rightarrow> bool" where
  "matches q name = (case q of ByName n \<Rightarrow> n = [] \<or> name = n | PerPage _ \<Rightarrow> True)"

definition handleListServers :: "hz_query \<Rightarrow> hz_fake \<Rightarrow> api_fault + hz_server list" where
  "handleListServers q f =
     (case fk_list_error f of
        Some err \<Rightarrow> Inl (Refused 500 err)
      | None \<Rightarrow> Inr (map serverJSON (filter (\<lambda>s. matches q (fs_name s)) (fk_servers f))))"

definition handleCreateServer :: "hz_server_body \<Rightarrow> hz_server handler" where
  "handleCreateServer body = recorded (''ensure-server:'' @ sb_name body) (\<lambda>f.
     (case addServer (sb_name body) ''1.2.3.4'' ''10.0.1.1'' 0 f of
        (s0, f1) \<Rightarrow>
          let s = s0\<lparr>fs_location := sb_location body, fs_firewalls := sb_firewalls body\<rparr>
          in (Inr (serverJSON s), f1\<lparr>fk_servers := fk_servers f @ [s]\<rparr>)))"

definition handleGetServer :: "string \<Rightarrow> hz_fake \<Rightarrow> api_fault + hz_server" where
  "handleGetServer i f = (case lookup_id fs_id i (fk_servers f) of None \<Rightarrow> missing ''server'' | Some s \<Rightarrow> Inr (serverJSON s))"

definition handleDeleteServer :: "string \<Rightarrow> unit handler" where
  "handleDeleteServer i f =
     (case lookup_id fs_id i (fk_servers f) of
        None \<Rightarrow> (missing ''server'', f)
      | Some s \<Rightarrow> recorded (''delete-server:'' @ fs_name s) (\<lambda>f.
          (Inr (), f\<lparr>fk_servers := filter (\<lambda>x. fs_id x \<noteq> fs_id s) (fk_servers f),
                     fk_volumes := map (\<lambda>v. if fv_server v = fs_id s then v\<lparr>fv_server := 0\<rparr> else v) (fk_volumes f)\<rparr>)) f)"

section \<open>Actions\<close>

definition completeAction :: "hz_fake \<Rightarrow> int \<times> hz_fake" where
  "completeAction f =
     (let i = fk_seq_action f + 1 in (i, f\<lparr>fk_seq_action := i, fk_actions := (i, ''success'') # fk_actions f\<rparr>))"

definition handleGetAction :: "int \<Rightarrow> hz_fake \<Rightarrow> api_fault + hz_action" where
  "handleGetAction i f =
     (let status = (case map_of (fk_actions f) i of None \<Rightarrow> ''success'' | Some s \<Rightarrow> s)
      in Inr \<lparr>ha_status = status,
              ha_error = (if status = ''error'' then Some (case map_of (fk_action_errors f) i of None \<Rightarrow> [] | Some m \<Rightarrow> m) else None)\<rparr>)"

definition with_action :: "hz_fake \<Rightarrow> (api_fault + int) \<times> hz_fake" where
  "with_action f = (case completeAction f of (i, f') \<Rightarrow> (Inr i, f'))"

section \<open>Volumes\<close>

definition volumeJSON :: "fake_volume \<Rightarrow> hz_volume" where
  "volumeJSON v = \<lparr>hv_id = fv_id v, hv_name = fv_name v, hv_size = fv_size v,
     hv_server = (if fv_server v \<noteq> 0 then Some (fv_server v) else None), hv_location = fv_location v,
     hv_device = fv_device v, hv_status = ''available''\<rparr>"

definition SeedVolume :: "string \<Rightarrow> int \<Rightarrow> string \<Rightarrow> hz_fake \<Rightarrow> hz_fake" where
  "SeedVolume name gb serverName f =
     (let i = fk_seq f + 1;
          srv = (if serverName = [] then None else find (\<lambda>s. fs_name s = serverName) (fk_servers f));
          v = \<lparr>fv_id = i, fv_name = name, fv_size = gb, fv_server = (case srv of None \<Rightarrow> 0 | Some s \<Rightarrow> fs_id s),
               fv_location = ''fsn1'', fv_device = ''/dev/sda''\<rparr>
      in f\<lparr>fk_seq := i, fk_volumes := fk_volumes f @ [v],
           fk_servers := (case srv of None \<Rightarrow> fk_servers f
             | Some s \<Rightarrow> map (\<lambda>x. if fs_id x = fs_id s then x\<lparr>fs_volumes := fs_volumes x @ [i]\<rparr> else x) (fk_servers f))\<rparr>)"

definition handleListVolumes :: "hz_query \<Rightarrow> hz_fake \<Rightarrow> api_fault + hz_volume list" where
  "handleListVolumes q f = Inr (map volumeJSON (filter (\<lambda>v. matches q (fv_name v)) (fk_volumes f)))"

definition handleCreateVolume :: "hz_volume_body \<Rightarrow> hz_volume handler" where
  "handleCreateVolume body = recorded (''ensure-volume:'' @ vb_name body) (\<lambda>f.
     let i = fk_seq f + 1;
         v = \<lparr>fv_id = i, fv_name = vb_name body, fv_size = vb_size body, fv_server = 0, fv_location = vb_location body, fv_device = ''/dev/sda''\<rparr>
     in (Inr (volumeJSON v), f\<lparr>fk_seq := i, fk_volumes := fk_volumes f @ [v]\<rparr>))"

definition handleGetVolume :: "string \<Rightarrow> hz_fake \<Rightarrow> api_fault + hz_volume" where
  "handleGetVolume i f = (case lookup_id fv_id i (fk_volumes f) of None \<Rightarrow> missing ''volume'' | Some v \<Rightarrow> Inr (volumeJSON v))"

definition handleDeleteVolume :: "string \<Rightarrow> unit handler" where
  "handleDeleteVolume i f =
     (case lookup_id fv_id i (fk_volumes f) of
        None \<Rightarrow> (missing ''volume'', f)
      | Some v \<Rightarrow> recorded (''delete-volume:'' @ fv_name v) (\<lambda>f.
          (Inr (), f\<lparr>fk_volumes := filter (\<lambda>x. fv_id x \<noteq> fv_id v) (fk_volumes f)\<rparr>)) f)"

definition change_volume :: "(fake_volume \<Rightarrow> fake_volume) \<Rightarrow> int \<Rightarrow> hz_fake \<Rightarrow> hz_fake" where
  "change_volume g i f = f\<lparr>fk_volumes := map (\<lambda>v. if fv_id v = i then g v else v) (fk_volumes f)\<rparr>"

text \<open>The volume is changed before a detach is recorded, so also when the record makes it fail.\<close>

definition handleVolumeAction :: "string \<Rightarrow> (fake_volume \<Rightarrow> fake_volume) \<Rightarrow> bool \<Rightarrow> int handler" where
  "handleVolumeAction i g detach f =
     (case lookup_id fv_id i (fk_volumes f) of
        None \<Rightarrow> (missing ''volume'', f)
      | Some v \<Rightarrow>
          (if detach then recorded (''detach-volume:'' @ fv_name v) with_action else with_action) (change_volume g (fv_id v) f))"

section \<open>Firewalls\<close>

definition firewallJSON :: "fake_firewall \<Rightarrow> hz_firewall" where
  "firewallJSON fw = \<lparr>hf_id = ff_id fw, hf_name = ff_name fw, hf_rules = ff_rules fw\<rparr>"

definition SeedFirewall :: "string \<Rightarrow> hz_fake \<Rightarrow> hz_fake" where
  "SeedFirewall name f = f\<lparr>fk_seq := fk_seq f + 1,
     fk_firewalls := fk_firewalls f @ [\<lparr>ff_id = fk_seq f + 1, ff_name = name, ff_rules = []\<rparr>]\<rparr>"

definition handleListFirewalls :: "hz_query \<Rightarrow> hz_fake \<Rightarrow> api_fault + hz_firewall list" where
  "handleListFirewalls q f = Inr (map firewallJSON (filter (\<lambda>fw. matches q (ff_name fw)) (fk_firewalls f)))"

definition handleCreateFirewall :: "string \<Rightarrow> fw_rule list \<Rightarrow> int handler" where
  "handleCreateFirewall name rules f =
     (let i = fk_seq f + 1
      in (Inr i, f\<lparr>fk_seq := i, fk_firewalls := fk_firewalls f @ [\<lparr>ff_id = i, ff_name = name, ff_rules = rules\<rparr>]\<rparr>))"

definition handleDeleteFirewall :: "string \<Rightarrow> unit handler" where
  "handleDeleteFirewall i f =
     (case lookup_id ff_id i (fk_firewalls f) of
        None \<Rightarrow> (missing ''firewall'', f)
      | Some fw \<Rightarrow> recorded (''delete-firewall:'' @ ff_name fw) (\<lambda>f.
          (Inr (), f\<lparr>fk_firewalls := filter (\<lambda>x. ff_id x \<noteq> ff_id fw) (fk_firewalls f)\<rparr>)) f)"

definition handleSetRules :: "string \<Rightarrow> fw_rule list \<Rightarrow> unit handler" where
  "handleSetRules i rules f =
     (case lookup_id ff_id i (fk_firewalls f) of
        None \<Rightarrow> (missing ''firewall'', f)
      | Some fw \<Rightarrow> recorded (''firewall:'' @ ff_name fw) (\<lambda>f. (Inr (), f))
          (f\<lparr>fk_firewalls := map (\<lambda>x. if ff_id x = ff_id fw then x\<lparr>ff_rules := rules\<rparr> else x) (fk_firewalls f)\<rparr>))"

definition change_server :: "(fake_server \<Rightarrow> fake_server) \<Rightarrow> int \<Rightarrow> hz_fake \<Rightarrow> hz_fake" where
  "change_server g i f = f\<lparr>fk_servers := map (\<lambda>s. if fs_id s = i then g s else s) (fk_servers f)\<rparr>"

definition handleFirewallAction :: "string \<Rightarrow> string \<Rightarrow> (int \<Rightarrow> fake_server \<Rightarrow> fake_server) \<Rightarrow> int \<Rightarrow> int list handler" where
  "handleFirewallAction what i g server f =
     (case lookup_id ff_id i (fk_firewalls f) of
        None \<Rightarrow> (missing ''firewall'', f)
      | Some fw \<Rightarrow>
          let f1 = snd (Record (what @ ''-firewall:'' @ ff_name fw) (change_server (g (ff_id fw)) server f))
          in (case completeAction f1 of (a, f2) \<Rightarrow> (Inr [a], f2)))"

section \<open>Networks\<close>

definition SeedNetwork :: "string \<Rightarrow> hz_fake \<Rightarrow> hz_fake" where
  "SeedNetwork name f = f\<lparr>fk_seq := fk_seq f + 1, fk_networks := fk_networks f @ [\<lparr>fn_id = fk_seq f + 1, fn_name = name\<rparr>]\<rparr>"

definition handleListNetworks :: "hz_query \<Rightarrow> hz_fake \<Rightarrow> api_fault + hz_network list" where
  "handleListNetworks q f =
     Inr (map (\<lambda>n. \<lparr>hn_id = fn_id n, hn_name = fn_name n\<rparr>) (filter (\<lambda>n. matches q (fn_name n)) (fk_networks f)))"

definition handleCreateNetwork :: "hz_network_body \<Rightarrow> int handler" where
  "handleCreateNetwork body f = (Inr (fk_seq f + 1), SeedNetwork (nb_name body) f)"

definition handleDeleteNetwork :: "string \<Rightarrow> unit handler" where
  "handleDeleteNetwork i f =
     (case lookup_id fn_id i (fk_networks f) of
        None \<Rightarrow> (missing ''network'', f)
      | Some n \<Rightarrow> recorded (''delete-network:'' @ fn_name n) (\<lambda>f.
          (Inr (), f\<lparr>fk_networks := filter (\<lambda>x. fn_id x \<noteq> fn_id n) (fk_networks f)\<rparr>)) f)"

section \<open>The service\<close>

text \<open>The dispatch of \<open>serve\<close>, for a world that holds the fake.\<close>

definition on_fake :: "('w \<Rightarrow> hz_fake) \<Rightarrow> (hz_fake \<Rightarrow> 'w \<Rightarrow> 'w) \<Rightarrow> 'a handler \<Rightarrow> ('w, 'a) http" where
  "on_fake view upd h w = (case h (view w) of (r, f) \<Rightarrow> (r, upd f w))"

definition fake_api :: "('w \<Rightarrow> hz_fake) \<Rightarrow> (hz_fake \<Rightarrow> 'w \<Rightarrow> 'w) \<Rightarrow> 'w hz_api" where
  "fake_api view upd = \<lparr>
     hz_datacenters = (\<lambda>w. Inr ()),
     hz_servers = (\<lambda>q w. handleListServers q (view w)),
     hz_server = (\<lambda>i w. handleGetServer i (view w)),
     hz_create_server = (\<lambda>body. on_fake view upd (handleCreateServer body)),
     hz_delete_server = (\<lambda>i. on_fake view upd (handleDeleteServer i)),
     hz_volumes = (\<lambda>q w. handleListVolumes q (view w)),
     hz_volume = (\<lambda>i w. handleGetVolume i (view w)),
     hz_create_volume = (\<lambda>body. on_fake view upd (handleCreateVolume body)),
     hz_delete_volume = (\<lambda>i. on_fake view upd (handleDeleteVolume i)),
     hz_attach_volume = (\<lambda>i server. on_fake view upd (handleVolumeAction i (\<lambda>v. v\<lparr>fv_server := server\<rparr>) False)),
     hz_detach_volume = (\<lambda>i. on_fake view upd (handleVolumeAction i (\<lambda>v. v\<lparr>fv_server := 0\<rparr>) True)),
     hz_resize_volume = (\<lambda>i gb. on_fake view upd (handleVolumeAction i (\<lambda>v. v\<lparr>fv_size := gb\<rparr>) False)),
     hz_firewalls = (\<lambda>q w. handleListFirewalls q (view w)),
     hz_create_firewall = (\<lambda>name labels rules. on_fake view upd (handleCreateFirewall name rules)),
     hz_delete_firewall = (\<lambda>i. on_fake view upd (handleDeleteFirewall i)),
     hz_set_rules = (\<lambda>i rules. on_fake view upd (handleSetRules i rules)),
     hz_apply_firewall = (\<lambda>i server. on_fake view upd
        (handleFirewallAction ''attach'' i (\<lambda>fw s. s\<lparr>fs_firewalls := fs_firewalls s @ [fw]\<rparr>) server)),
     hz_remove_firewall = (\<lambda>i server. on_fake view upd
        (handleFirewallAction ''detach'' i (\<lambda>fw s. s\<lparr>fs_firewalls := filter (\<lambda>x. x \<noteq> fw) (fs_firewalls s)\<rparr>) server)),
     hz_networks = (\<lambda>q w. handleListNetworks q (view w)),
     hz_create_network = (\<lambda>body. on_fake view upd (handleCreateNetwork body)),
     hz_delete_network = (\<lambda>i. on_fake view upd (handleDeleteNetwork i)),
     hz_action = (\<lambda>i w. handleGetAction i (view w))\<rparr>"

section \<open>The canned machine\<close>

record mock_ssh =
  mk_commands :: "(goerr + string) gomap"
  mk_prefixes :: "(string \<times> (goerr + string)) list"
  mk_calls :: "string list"
  mk_uploads :: "(string \<times> string \<times> int) list"

definition mock_result :: "mock_ssh \<Rightarrow> string \<Rightarrow> goerr + string" where
  "mock_result m cmd =
     (case map_of (mk_commands m) cmd of
        Some r \<Rightarrow> r
      | None \<Rightarrow>
          (case find (\<lambda>p. has_prefix cmd (fst p) \<or> contains cmd (fst p)) (mk_prefixes m) of
             Some p \<Rightarrow> snd p
           | None \<Rightarrow> Inl (Errorf ''mock ssh: unmatched command'' [cmd])))"

definition mock_run :: "string \<Rightarrow> mock_ssh \<Rightarrow> (goerr + string) \<times> mock_ssh" where
  "mock_run cmd m = (mock_result m cmd, m\<lparr>mk_calls := mk_calls m @ [cmd]\<rparr>)"

definition mock_upload :: "string \<Rightarrow> string \<Rightarrow> int \<Rightarrow> mock_ssh \<Rightarrow> (goerr + unit) \<times> mock_ssh" where
  "mock_upload path content mode m = (Inr (), m\<lparr>mk_uploads := mk_uploads m @ [(path, content, mode)]\<rparr>)"

section \<open>A world for the provider\<close>

record lab =
  lb_cloud :: hz_fake
  lb_ssh :: mock_ssh
  lb_known :: "string gomap"
  lb_cached :: "string option"

definition lab_shell :: "lab shell" where
  "lab_shell = \<lparr>sh_run = (\<lambda>cmd w. case mock_run cmd (lb_ssh w) of (r, m) \<Rightarrow> (r, w\<lparr>lb_ssh := m\<rparr>)),
     sh_upload = (\<lambda>path content mode w. case mock_upload path content mode (lb_ssh w) of (r, m) \<Rightarrow> (r, w\<lparr>lb_ssh := m\<rparr>))\<rparr>"

definition lab_env :: "lab ssh_env" where
  "lab_env = \<lparr>se_host_key = (\<lambda>_ _. Inr ''AAAA''), se_login = (\<lambda>_ w. (Inr (), w)), se_known = lb_known,
     se_save = (\<lambda>hosts w. (Inr (), w\<lparr>lb_known := hosts\<rparr>)), se_shell = (\<lambda>_. lab_shell)\<rparr>"

text \<open>A cluster whose API server answers every request with an error.\<close>

definition lab_kube :: "lab kube_client" where
  "lab_kube = (let down = Inl (ApiErr ''unreachable'') in
     \<lparr>cl_api = \<lparr>api_get = (\<lambda>_ _ _ _. down), api_list = (\<lambda>_ _ _ _. Inl (ApiErr ''unreachable'')), api_create = (\<lambda>_ _ _ w. (Inl (ApiErr ''unreachable''), w)),
        api_update = (\<lambda>_ _ _ w. (Inl (ApiErr ''unreachable''), w)), api_delete = (\<lambda>_ _ _ w. (Inl (ApiErr ''unreachable''), w)),
        api_retry = (\<lambda>f. f)\<rparr>,
      cl_runtime = still_clock,
      cl_exec = \<lparr>px_probe = (\<lambda>_ _ _ _ _. ([], None)), px_run = (\<lambda>_ _ _ _ _ w. (([], [], None), w)), px_ready_replicas = (\<lambda>_. 1)\<rparr>,
      cl_jobs = \<lparr>jv_get = (\<lambda>_ _ _. Inl (ApiErr ''unreachable'')), jv_pods = (\<lambda>_ _ _. Inr [])\<rparr>,
      cl_nodes = \<lparr>na_get = (\<lambda>_ _. Inl (ApiErr ''unreachable'')), na_label = (\<lambda>_ _ _ w. (Inr (), w)), na_pods = (\<lambda>_ _. Inr []),
        na_evict = (\<lambda>_ _ w. (Inr (), w)), na_delete = (\<lambda>_ w. (Inr (), w))\<rparr>\<rparr>)"

definition lab_client :: "lab hz_client" where
  "lab_client = \<lparr>hc_api = fake_api lb_cloud (\<lambda>f w. w\<lparr>lb_cloud := f\<rparr>), hc_clock = still_clock, hc_ssh = lab_env,
     hc_public_key = Inr ''ssh-ed25519 AAAA'', hc_yaml = (\<lambda>_. Inr ''users: []''), hc_kube = (\<lambda>_ _. Inr lab_kube),
     hc_cached = lb_cached, hc_cache = (\<lambda>addr w. w\<lparr>lb_cached := addr\<rparr>)\<rparr>"

definition lab_context :: "app_config \<Rightarrow> lab bootstrap_context" where
  "lab_context cfg = \<lparr>bc_app = ''shop'', bc_env = ''prod'', bc_provider = ''hetzner'', bc_credentials = [], bc_deploy_hash = [],
     bc_cfg = cfg, bc_kube = None\<rparr>"

text \<open>Machines that answer every command the provider needs.\<close>

definition lab_machines :: mock_ssh where
  "lab_machines = \<lparr>mk_commands = [], mk_prefixes = [(''swapon'', Inr ''/swapfile''), (''command -v'', Inr ''True''),
     (''mountpoint'', Inr ''mounted''), ([], Inr [])], mk_calls = [], mk_uploads = []\<rparr>"

definition new_lab :: "hz_fake \<Rightarrow> lab" where
  "new_lab f = \<lparr>lb_cloud = f, lb_ssh = lab_machines, lb_known = [], lb_cached = None\<rparr>"

end
