(* ===== verification/HetznerLaws.thy ===== *)
theory HetznerLaws
  imports HetznerFake
begin

text \<open>
  What the Hetzner provider does to firewalls: the rules it writes and reads back, the builders' firewall,
  and how far the sweep of orphans reaches; and what a failed listing does to a deletion.
\<close>

section \<open>Rules written and read back\<close>

text \<open>The sources a port ends up with: internal ports are hidden, SSH is always open.\<close>

definition effective_sources :: "port_allow_list \<Rightarrow> string \<Rightarrow> string list option" where
  "effective_sources allowed port =
     (if IsInternalPort port then None
      else if port = ''22'' then Some (ssh_sources allowed)
      else if get0 [] allowed port = [] then None else Some (get0 [] allowed port))"

definition add_rule :: "port_allow_list \<Rightarrow> fw_rule \<Rightarrow> port_allow_list" where
  "add_rule result rule =
     (if fr_direction rule \<noteq> ''in'' \<or> IsInternalPort (fr_port rule) then result
      else AList.update (fr_port rule) (fr_sources rule) result)"

lemma public_rules_foldl: "public_rules = foldl add_rule []"
  by (rule ext) (simp add: public_rules_def add_rule_def [abs_def])

lemma internal_hidden: "foldl add_rule m internal_rules = m"
  by (simp add: internal_rules_def Let_def add_rule_def inbound_def IsInternalPort_def InternalPorts_def)

lemma map_of_inbound:
  assumes "\<forall>port \<in> set ports. \<not> IsInternalPort port"
  shows "map_of (foldl add_rule m (map (\<lambda>port. inbound ''tcp'' port (f port)) ports)) p =
    (if p \<in> set ports then Some (f p) else map_of m p)"
  using assms by (induction ports arbitrary: m) (auto simp: add_rule_def inbound_def update_conv')

lemma ssh_not_internal: "\<not> IsInternalPort ''22''"
  by (simp add: IsInternalPort_def InternalPorts_def)

lemma get0_has_key: "get0 [] m port \<noteq> [] \<Longrightarrow> has_key m port"
  by (auto simp: get0_def has_key_def split: option.splits)

text \<open>
  The rules that are written for an allow-list are read back as exactly its ports with their
  sources, except that internal ports and ports without sources are dropped and that SSH is always there,
  open to everyone unless the list restricts it.
\<close>

lemma rules_read_back:
  "map_of (public_rules (buildFirewallRules allowed)) = effective_sources allowed"
proof
  fix p
  let ?ports = "filter (\<lambda>port. \<not> (port = ''22'' \<or> IsInternalPort port) \<and> get0 [] allowed port \<noteq> []) (SortedPorts allowed)"
  have "map_of (public_rules (buildFirewallRules allowed)) p =
      (if p \<in> set ?ports then Some (get0 [] allowed p) else map_of (add_rule [] (inbound ''tcp'' ''22'' (ssh_sources allowed))) p)"
    unfolding public_rules_foldl buildFirewallRules_def foldl_append internal_hidden
    by (subst map_of_inbound) auto
  also have "\<dots> = effective_sources allowed p"
    using get0_has_key [of allowed p] ssh_not_internal
    by (auto simp: effective_sources_def add_rule_def inbound_def has_key_fst)
  finally show "map_of (public_rules (buildFirewallRules allowed)) p = effective_sources allowed p" .
qed

lemma rules_settle:
  "rules_match allowed (public_rules (buildFirewallRules allowed)) \<longleftrightarrow>
    (\<forall>port. has_key allowed port \<longrightarrow> \<not> IsInternalPort port \<and> get0 [] allowed port \<noteq> [])"
proof
  let ?ok = "\<lambda>port. has_key allowed port \<longrightarrow> \<not> IsInternalPort port \<and> get0 [] allowed port \<noteq> []"
  assume match: "rules_match allowed (public_rules (buildFirewallRules allowed))"
  show "\<forall>port. ?ok port"
  proof (intro allI impI)
    fix port assume key: "has_key allowed port"
    then obtain ips where ips: "map_of allowed port = Some ips" by (auto simp: has_key_def)
    with match key have "rel_option (\<lambda>a b. mset a = mset b) (Some ips) (effective_sources allowed port)"
      unfolding rules_match_def rules_read_back by metis
    then obtain b where b: "effective_sources allowed port = Some b" "mset ips = mset b" by (auto simp: option_rel_Some1)
    then have "b \<noteq> []"
      by (auto simp: effective_sources_def ssh_sources_def everywhere_def split: if_splits option.splits)
    with b ips show "\<not> IsInternalPort port \<and> get0 [] allowed port \<noteq> []"
      by (auto simp: effective_sources_def get0_def split: if_splits)
  qed
next
  assume ok: "\<forall>port. has_key allowed port \<longrightarrow> \<not> IsInternalPort port \<and> get0 [] allowed port \<noteq> []"
  show "rules_match allowed (public_rules (buildFirewallRules allowed))"
    unfolding rules_match_def rules_read_back
  proof (intro allI impI)
    fix port assume port: "port \<noteq> ''22'' \<or> has_key allowed port"
    show "rel_option (\<lambda>a b. mset a = mset b) (map_of allowed port) (effective_sources allowed port)"
    proof (cases "map_of allowed port")
      case None
      with port show ?thesis by (auto simp: effective_sources_def get0_def has_key_def)
    next
      case (Some ips)
      with ok have "\<not> IsInternalPort port" "ips \<noteq> []" by (auto simp: get0_def has_key_def)
      with Some show ?thesis by (auto simp: effective_sources_def ssh_sources_def get0_def)
    qed
  qed
qed

text \<open>
  C17: after the rules were written the plan has nothing more to say about them exactly when the
  allow-list names no internal port and no port without sources; a rule for an internal port is planned
  again on every deploy.
\<close>

theorem firewall_rules_settle:
  "rules_match allowed (public_rules (buildFirewallRules allowed)) \<longleftrightarrow>
    (\<forall>port. has_key allowed port \<longrightarrow> \<not> IsInternalPort port \<and> get0 [] allowed port \<noteq> [])"
  by (rule rules_settle)

theorem firewall_rules_settle_witness:
  "rules_match [(''80'', [''10.9.0.0/16'']), (''22'', [''192.0.2.7/32''])]
    (public_rules (buildFirewallRules [(''80'', [''10.9.0.0/16'']), (''22'', [''192.0.2.7/32''])]))"
  using firewall_rules_settle [of "[(''80'', [''10.9.0.0/16'']), (''22'', [''192.0.2.7/32''])]"]
  by (simp add: has_key_def get0_def IsInternalPort_def InternalPorts_def)

text \<open>A rule for an internal port is accepted by the parser.\<close>

definition internal_rule_config :: app_config where
  "internal_rule_config = demo_infra\<lparr>cfg_firewall := [''6443:203.0.113.0/24'']\<rparr>"

lemma internal_rule_accepted:
  "case FirewallAllowList internal_rule_config of Inl _ \<Rightarrow> False
   | Inr m \<Rightarrow> has_key m ''6443'' \<and> \<not> rules_match m (public_rules (buildFirewallRules m))"
proof -
  have "case FirewallAllowList internal_rule_config of Inl _ \<Rightarrow> False | Inr m \<Rightarrow> has_key m ''6443'' \<and> IsInternalPort ''6443''"
    by code_simp
  then show ?thesis by (auto simp: rules_settle split: sum.splits)
qed

section \<open>The builders' firewall\<close>

lemma named_firewall_None: "named_firewall name fws = None \<longleftrightarrow> (\<forall>fw \<in> set fws. hf_name fw \<noteq> name)"
  by (auto simp: named_firewall_def find_None_iff)

text \<open> builders cannot be provisioned where their firewall does not exist yet: its rules are set before
  the first builder, which would create it, is made. Nothing is created, so the next attempt fails the
  same way.
\<close>

theorem builders_need_firewall:
  assumes "splitByRole (ServerDefs (bc_cfg bc)) = (masters, workers, builders)" "builders \<noteq> []"
    and "bc_names bc = Inr names"
    and "hz_firewalls (hc_api hc) (ByName (BuilderFirewall names)) w = Inr fws"
    and "\<forall>fw \<in> set fws. hf_name fw \<noteq> BuilderFirewall names"
  shows "ProvisionBuilders hc bc w = (Inl (Wrapf ''firewall set'' ErrNotFound), w)"
proof -
  have "get NewAPI (hz_firewalls (hc_api hc) (ByName (BuilderFirewall names))) w = Inr fws" using assms(4) by (rule get_Inr [THEN iffD2])
  moreover have "named_firewall (BuilderFirewall names) fws = None" using assms(5) by (simp add: named_firewall_None)
  ultimately have "applyFirewall hc (BuilderFirewall names) [] w = (Inl (Wrapf ''firewall set'' ErrNotFound), w)"
    by (simp add: applyFirewall_def ReconcileFirewallRules_def wrapA_def bindA_def readA_def failA_def del: get_Inr)
  with assms(2) show ?thesis
    unfolding ProvisionBuilders_def assms(1) prod.case bindA_read_at assms(3) thenA_def bindA_result by (simp add: readA_def)
qed

theorem builders_need_firewall_witness:
  "ProvisionBuilders lab_client (lab_context demo_infra) (new_lab NewHetznerFake) =
     (Inl (Wrapf ''firewall set'' ErrNotFound), new_lab NewHetznerFake)"
proof (rule builders_need_firewall)
  show "splitByRole (ServerDefs (bc_cfg (lab_context demo_infra))) =
      (fst (splitByRole (ServerDefs demo_infra)), fst (snd (splitByRole (ServerDefs demo_infra))), snd (snd (splitByRole (ServerDefs demo_infra))))"
    by (simp add: lab_context_def)
  show "snd (snd (splitByRole (ServerDefs demo_infra))) \<noteq> []" by code_simp
  show "bc_names (lab_context demo_infra) = Inr demo_names" by code_simp
  show "hz_firewalls (hc_api lab_client) (ByName (BuilderFirewall demo_names)) (new_lab NewHetznerFake) = Inr []" by code_simp
qed simp

section \<open>The sweep of firewalls\<close>

lemma other_cluster_in_scope:
  assumes "Base other = Base names @ ''-'' @ rest"
  shows "in_scope (Base names @ ''-'') (MasterFirewall other)"
  using assms by (simp add: in_scope_def MasterFirewall_def has_prefix_def)

lemma other_cluster_undesired:
  assumes "Base other = Base names @ ''-'' @ rest"
  shows "MasterFirewall other \<notin> set (desired_firewalls cfg names)"
proof -
  have tail: "take 6 (rev (''-'' @ rest @ ''-master-fw'')) = ''wf-ret''" "length (''-'' @ rest @ ''-master-fw'') > 10" by simp_all
  have "''-'' @ rest @ ''-master-fw'' \<noteq> ''-master-fw''"
    by (rule notI, drule arg_cong [where f = length]) simp
  moreover have "''-'' @ rest @ ''-master-fw'' \<noteq> ''-worker-fw''" "''-'' @ rest @ ''-master-fw'' \<noteq> ''-builder-fw''"
    using tail(1) by (rule contrapos_pn, simp)+
  ultimately have "MasterFirewall other \<noteq> MasterFirewall names" "MasterFirewall other \<noteq> WorkerFirewall names"
    "MasterFirewall other \<noteq> BuilderFirewall names"
    using assms by (simp_all add: MasterFirewall_def WorkerFirewall_def BuilderFirewall_def)
  then show ?thesis by (auto simp: desired_firewalls_def split: prod.splits)
qed


definition neighbour :: hz_fake where
  "neighbour = SeedFirewall ''nvoi-shop-prod-eu-master-fw'' NewHetznerFake"


section \<open>Listings that fail\<close>

text \<open>
  Deleting a server whose listing failed is reported as done: an error of the service counts as an
  empty project, and nothing is deleted.
\<close>

lemma failed_listing_deletes_nothing:
  assumes "hz_servers (hc_api hc) (PerPage (Labels names)) w = Inl fault" "hc_cached hc w = None"
  shows "drainAndDeleteServer hc names short w = (Inr (), w)"
proof -
  have "ListServers (hc_api hc) (Labels names) w = Inl (Wrapf ''list servers'' (http_error NewAPI fault))"
    by (simp add: ListServers_def get_def wrapR_def bindR_def assms(1))
  then show ?thesis
    by (simp add: drainAndDeleteServer_def drain_node_def assms(2) thenA_def bindA_def readA_def or_none_def)
qed

end
