(* ===== verification/HetznerBootstrap.thy ===== *)
theory HetznerBootstrap
  imports HetznerCloud HetznerLaws HetznerFake
begin

text \<open>
  The bootstrap against the plan: what a bootstrap that succeeded leaves for the next plan to say, and the
  fake of the repository as a cloud that keeps the promises this rests on.
\<close>

section \<open>The snapshot after a bootstrap\<close>

text \<open>The listings of a cluster answer, and list all that the project holds of it.\<close>

definition listings_complete ::
    "'w hz_api \<Rightarrow> names \<Rightarrow> (string \<Rightarrow> 'w \<Rightarrow> bool) \<Rightarrow> (string \<Rightarrow> 'w \<Rightarrow> bool) \<Rightarrow> (string \<Rightarrow> 'w \<Rightarrow> (int \<times> fw_rule list) option) \<Rightarrow> 'w \<Rightarrow> bool" where
  "listings_complete api names has_server has_volume firewall w \<longleftrightarrow>
     (\<exists>ss vs fws. ListServers api (Labels names) w = Inr ss \<and> ListVolumes api (Labels names) w = Inr vs \<and>
        ListAllFirewalls api w = Inr fws \<and>
        (\<forall>k. has_server (Server names k) w \<longrightarrow> Server names k \<in> vm_name ` set ss) \<and>
        (\<forall>k. has_volume (Volume names k) w \<longrightarrow> Volume names k \<in> cv_name ` set vs) \<and>
        (\<forall>n. firewall n w \<noteq> None \<longrightarrow> n \<in> cn_name ` set fws \<and> (\<exists>f. hz_firewalls api (ByName n) w = Inr f)))"

lemma strip_server: "k \<noteq> [] \<Longrightarrow> strip (Base names @ ''-'') (Server names k) = k"
  by (simp add: strip_def in_scope_def Server_def has_prefix_def)

lemma strip_volume: "k \<noteq> [] \<Longrightarrow> strip (Base names @ ''-'') (Volume names k) = k"
  by (simp add: strip_def in_scope_def Volume_def has_prefix_def)

lemma master_in_scope: "in_scope (Base names @ ''-'') (MasterFirewall names)" "in_scope (Base names @ ''-'') (WorkerFirewall names)"
  by (simp_all add: in_scope_def MasterFirewall_def WorkerFirewall_def has_prefix_def)

lemma collected_rules:
  assumes "GetFirewallRules api n w = Inr r" "n \<in> cn_name ` set fws \<or> map_of m n = Some r"
  shows "map_of (foldl (\<lambda>m fw. (case GetFirewallRules api (cn_name fw) w of
      Inl _ \<Rightarrow> m | Inr rules \<Rightarrow> AList.update (cn_name fw) rules m)) m fws) n = Some r"
  using assms(2)
proof (induction fws arbitrary: m)
  case (Cons fw fws)
  have "n \<in> cn_name ` set fws \<or> map_of (case GetFirewallRules api (cn_name fw) w of
      Inl _ \<Rightarrow> m | Inr rules \<Rightarrow> AList.update (cn_name fw) rules m) n = Some r"
    using Cons.prems assms(1) by (cases "cn_name fw = n") (auto simp: update_conv' split: sum.split)
  from Cons.IH [OF this] show ?case by simp
qed simp

text \<open>What the snapshot knows of a complete listing.\<close>

lemma snapshot_complete:
  assumes "listings_complete (hc_api hc) names has_server has_volume firewall w" "bc_names bc = Inr names"
    and "LiveSnapshot hc bc w = Inr snap" "has_server (Server names k0) w"
  obtains s where "snap = Some s"
    "\<And>k. k \<noteq> [] \<Longrightarrow> has_server (Server names k) w \<Longrightarrow> k \<in> set (sn_servers s)"
    "\<And>k. k \<noteq> [] \<Longrightarrow> has_volume (Volume names k) w \<Longrightarrow> k \<in> set (sn_volumes s)"
    "\<And>n. in_scope (Base names @ ''-'') n \<Longrightarrow> firewall n w \<noteq> None \<Longrightarrow> n \<in> set (sn_firewalls s)"
    "\<And>n r. in_scope (Base names @ ''-'') n \<Longrightarrow> firewall n w \<noteq> None \<Longrightarrow> GetFirewallRules (hc_api hc) n w = Inr r \<Longrightarrow>
       map_of (sn_firewall_rules s) n = Some r"
proof -
  let ?p = "Base names @ ''-''"
  from assms(1) obtain ss vs fws where ss: "ListServers (hc_api hc) (Labels names) w = Inr ss"
    and vs: "ListVolumes (hc_api hc) (Labels names) w = Inr vs" and fws: "ListAllFirewalls (hc_api hc) w = Inr fws"
    and all: "\<And>k. has_server (Server names k) w \<Longrightarrow> Server names k \<in> vm_name ` set ss"
      "\<And>k. has_volume (Volume names k) w \<Longrightarrow> Volume names k \<in> cv_name ` set vs"
      "\<And>n. firewall n w \<noteq> None \<Longrightarrow> n \<in> cn_name ` set fws"
    unfolding listings_complete_def by blast
  from all(1) [OF assms(4)] have "ss \<noteq> []" by auto
  with assms(2,3) ss vs fws obtain s where snap: "snap = Some s"
    and fields: "sn_servers s = sort (map (\<lambda>s. strip ?p (vm_name s)) ss)"
      "sn_volumes s = sort (map (\<lambda>v. strip ?p (cv_name v)) vs)"
      "sn_firewalls s = sort (map cn_name (filter (\<lambda>fw. in_scope ?p (cn_name fw)) fws))"
      "sn_firewall_rules s = foldl (\<lambda>m fw. (case GetFirewallRules (hc_api hc) (cn_name fw) w of
         Inl _ \<Rightarrow> m | Inr rules \<Rightarrow> AList.update (cn_name fw) rules m)) [] (filter (\<lambda>fw. in_scope ?p (cn_name fw)) fws)"
    by (auto simp: LiveSnapshot_def bindR_def wrapR_def or_none_def Let_def dest!: sym [of "Some _"])
  have listed: "n \<in> cn_name ` set (filter (\<lambda>fw. in_scope ?p (cn_name fw)) fws)"
    if "in_scope ?p n" "firewall n w \<noteq> None" for n
    using all(3) [OF that(2)] that(1) by auto
  show thesis
  proof (rule that [OF snap])
    show "k \<in> set (sn_servers s)" if "k \<noteq> []" "has_server (Server names k) w" for k
      using imageI [OF all(1) [OF that(2)], of "strip ?p"] strip_server [OF that(1), of names]
      by (simp add: fields image_image)
    show "k \<in> set (sn_volumes s)" if "k \<noteq> []" "has_volume (Volume names k) w" for k
      using imageI [OF all(2) [OF that(2)], of "strip ?p"] strip_volume [OF that(1), of names]
      by (simp add: fields image_image)
    show "n \<in> set (sn_firewalls s)" if "in_scope ?p n" "firewall n w \<noteq> None" for n
      using listed [OF that] by (simp add: fields)
    show "map_of (sn_firewall_rules s) n = Some r"
      if "in_scope ?p n" "firewall n w \<noteq> None" "GetFirewallRules (hc_api hc) n w = Inr r" for n r
      unfolding fields by (rule collected_rules [OF that(3)]) (use listed [OF that(1,2)] in simp)
  qed
qed

section \<open>The plan after a bootstrap\<close>

text \<open>
  A configuration of a cluster without builders: a master, no empty names, and an allow-list whose rules
  the provider can carry out.
\<close>

definition plain_cluster :: "app_config \<Rightarrow> bool" where
  "plain_cluster cfg \<longleftrightarrow>
     (\<exists>s \<in> set (ServerDefs cfg). ss_role s \<noteq> RoleWorker) \<and>
     (\<forall>s \<in> set (ServerDefs cfg). ss_role s \<noteq> RoleBuilder \<and> ss_name s \<noteq> []) \<and>
     (\<forall>v \<in> set (VolumeDefs cfg). vs_name v \<noteq> []) \<and>
     (\<forall>rules port. FirewallAllowList cfg = Inr rules \<longrightarrow> has_key rules port \<longrightarrow> \<not> IsInternalPort port \<and> get0 [] rules port \<noteq> [])"

lemma plain_roles:
  assumes "plain_cluster cfg" "splitByRole (ServerDefs cfg) = (masters, workers, builders)"
  shows "masters \<noteq> []" "builders = []" "set (masters @ workers) = set (ServerDefs cfg)" "builder_defs cfg = []"
proof -
  have sets: "set masters = {s \<in> set (ServerDefs cfg). ss_role s \<noteq> RoleWorker \<and> ss_role s \<noteq> RoleBuilder}"
    "set workers = {s \<in> set (ServerDefs cfg). ss_role s = RoleWorker}" "set builders = {s \<in> set (ServerDefs cfg). ss_role s = RoleBuilder}"
    using assms(2) by (auto simp: splitByRole_def)
  from assms(1) have cfg: "\<exists>s \<in> set (ServerDefs cfg). ss_role s \<noteq> RoleWorker" "\<forall>s \<in> set (ServerDefs cfg). ss_role s \<noteq> RoleBuilder"
    by (auto simp: plain_cluster_def)
  from cfg sets(1) have "set masters \<noteq> {}" by auto
  then show "masters \<noteq> []" by auto
  from cfg(2) sets(3) have "set builders = {}" by auto
  then show "builders = []" by simp
  show "set (masters @ workers) = set (ServerDefs cfg)" using sets cfg(2) by auto
  show "builder_defs cfg = []" using cfg(2) by (auto simp: builder_defs_def filter_empty_conv)
qed

lemma settled_entries:
  assumes "e \<in> set (present_entries res name detail live xs @ stale_entries res' wanted l)" "\<forall>x \<in> set xs. live (name x)"
  shows "pe_kind e \<in> {PlanNoChange, PlanDelete}"
  using assms by (auto simp: present_entries_def stale_entries_def entry_def)

lemma no_entries [simp]: "present_entries res name detail live [] = []"
  by (simp add: present_entries_def)

lemma master_rules_settled:
  assumes "plain_cluster cfg" "FirewallAllowList cfg = Inr rules" "e \<in> set (diffRules fw rules (public_rules (buildFirewallRules rules)))"
  shows "pe_kind e = PlanNoChange"
proof -
  have "rules_match rules (public_rules (buildFirewallRules rules))"
    using assms(1,2) by (auto simp: rules_settle plain_cluster_def)
  with assms(3) show ?thesis by (auto simp flip: diffRules_quiet [of fw])
qed

lemma worker_rules_settled: "e \<in> set (diffRules fw [] live) \<Longrightarrow> pe_kind e = PlanDelete"
  by (auto simp: diffRules_def SortedPorts_def entry_def)

lemma plan_settled:
  assumes "plain_cluster cfg" "FirewallAllowList cfg = Inr rules" "ComputeInfraPlan cfg (Some s) names = Inr es" "builder_defs cfg = []"
    and "\<And>x. x \<in> set (ServerDefs cfg) \<Longrightarrow> ss_name x \<in> set (sn_servers s)"
    and "\<And>v. v \<in> set (VolumeDefs cfg) \<Longrightarrow> vs_name v \<in> set (sn_volumes s)"
    and "\<And>fw. fw \<in> set (desired_firewalls cfg names) \<Longrightarrow> fw \<in> set (sn_firewalls s)"
    and "get0 [] (sn_firewall_rules s) (MasterFirewall names) = public_rules (buildFirewallRules rules)"
    and "e \<in> set es"
  shows "pe_kind e \<in> {PlanNoChange, PlanDelete}"
proof -
  from assms(3) obtain rs where rs: "plan_rules cfg (Some s) names = Inr rs"
    and es: "es = plan_servers cfg (Some s) @ plan_volumes cfg (Some s) names @ plan_firewalls cfg (Some s) names @ rs"
    by (auto simp: ComputeInfraPlan_def bindR_eq_Inr)
  from assms(9) es consider "e \<in> set (plan_servers cfg (Some s))" | "e \<in> set (plan_volumes cfg (Some s) names)"
    | "e \<in> set (plan_firewalls cfg (Some s) names)" | "e \<in> set rs" by auto
  then show ?thesis
  proof cases
    case 1
    from settled_entries [OF this [unfolded plan_servers_def Let_def live_names_Some]] assms(5) show ?thesis by blast
  next
    case 2
    from settled_entries [OF this [unfolded plan_volumes_def Let_def live_names_Some assms(4) no_entries append_Nil]] assms(6)
    show ?thesis by blast
  next
    case 3
    from settled_entries [OF this [unfolded plan_firewalls_def Let_def live_names_Some]] assms(7) show ?thesis by simp
  next
    case 4
    then obtain fw where fw: "e \<in> set (diffRules fw (wanted_rules cfg names fw) (get0 [] (sn_firewall_rules s) fw))"
      by (auto simp: plan_rules_Inr [OF rs] split: if_splits)
    show ?thesis
    proof (cases "fw = MasterFirewall names")
      case True
      with fw assms(2,8) have "e \<in> set (diffRules fw rules (public_rules (buildFirewallRules rules)))" by (simp add: wanted_rules_def)
      from master_rules_settled [OF assms(1,2) this] show ?thesis by simp
    next
      case False
      with fw have "e \<in> set (diffRules fw [] (get0 [] (sn_firewall_rules s) fw))" by (simp add: wanted_rules_def)
      from worker_rules_settled [OF this] show ?thesis by simp
    qed
  qed
qed

lemma master_rules_read:
  assumes "hetzner_cloud api has_server has_volume firewall" "listings_complete api names has_server has_volume firewall w"
    and "firewall n w = Some (i, r)" "n \<noteq> []"
  shows "GetFirewallRules api n w = Inr (public_rules r)"
proof -
  from assms(2,3) obtain fws where fws: "hz_firewalls api (ByName n) w = Inr fws" unfolding listings_complete_def by blast
  from hetzner_cloud.firewall_listed [OF assms(1,4) fws] assms(3)
  obtain fw where "named_firewall n fws = Some fw" "hf_rules fw = r" by auto
  with fws show ?thesis by (simp add: GetFirewallRules_def bindR_def wrapR_def get_def)
qed


section \<open>The fake keeps the promises\<close>

definition fake_has_server :: "string \<Rightarrow> hz_fake \<Rightarrow> bool" where
  "fake_has_server n f \<longleftrightarrow> (\<exists>s \<in> set (fk_servers f). fs_name s = n)"

definition fake_has_volume :: "string \<Rightarrow> hz_fake \<Rightarrow> bool" where
  "fake_has_volume n f \<longleftrightarrow> (\<exists>v \<in> set (fk_volumes f). fv_name v = n)"

definition fake_firewall_of :: "string \<Rightarrow> hz_fake \<Rightarrow> (int \<times> fw_rule list) option" where
  "fake_firewall_of n f = map_option (\<lambda>fw. (ff_id fw, ff_rules fw)) (find (\<lambda>fw. ff_name fw = n) (fk_firewalls f))"

abbreviation fake_kept :: "hz_fake \<Rightarrow> hz_fake \<Rightarrow> bool" where
  "fake_kept \<equiv> no_loss fake_has_server fake_has_volume fake_firewall_of"

lemma find_append: "find P (xs @ ys) = (case find P xs of None \<Rightarrow> find P ys | Some x \<Rightarrow> Some x)"
  by (induction xs) auto

lemma fake_keptI:
  assumes "\<And>s. s \<in> set (fk_servers f) \<Longrightarrow> \<exists>s' \<in> set (fk_servers f'). fs_name s' = fs_name s"
    and "\<And>v. v \<in> set (fk_volumes f) \<Longrightarrow> \<exists>v' \<in> set (fk_volumes f'). fv_name v' = fv_name v"
    and "\<exists>new. fk_firewalls f' = fk_firewalls f @ new"
  shows "fake_kept f f'"
  using assms
  by (auto simp: no_loss_def fake_has_server_def fake_has_volume_def fake_firewall_of_def find_append split: option.split)

lemma changed_member:
  assumes "x \<in> set xs" "\<And>x. n (g x) = n x"
  shows "\<exists>y \<in> (\<lambda>x. if P x then g x else x) ` set xs. n y = n x"
  using assms by (intro bexI [of _ "if P x then g x else x"]) auto

lemma fake_recorded:
  assumes "\<And>f. fake_kept f (snd (h f))"
  shows "fake_kept f (snd (recorded op h f))"
proof -
  have "fake_kept f (f\<lparr>fk_ops := fk_ops f @ [op]\<rparr>)" by (rule fake_keptI) auto
  then have "fake_kept f (snd (h (f\<lparr>fk_ops := fk_ops f @ [op]\<rparr>)))" and "fake_kept f (f\<lparr>fk_ops := fk_ops f @ [op]\<rparr>)"
    using kept_cloud.trans [OF _ assms] by blast+
  then show ?thesis by (simp add: recorded_def Record_def split: option.split)
qed

lemma fake_with_action: "fake_kept f (snd (with_action f))"
  unfolding with_action_def completeAction_def Let_def by (rule fake_keptI) auto

lemma fake_change_volume:
  assumes "\<And>v. fv_name (g v) = fv_name v"
  shows "fake_kept f (change_volume g i f)"
  unfolding change_volume_def by (rule fake_keptI) (auto simp: assms simp del: if_image_distrib intro!: changed_member)

lemma fake_change_server:
  assumes "\<And>s. fs_name (g s) = fs_name s"
  shows "fake_kept f (change_server g i f)"
  unfolding change_server_def by (rule fake_keptI) (auto simp: assms simp del: if_image_distrib intro!: changed_member)

lemma fake_volume_action:
  assumes "\<And>v. fv_name (g v) = fv_name v"
  shows "fake_kept f (snd (handleVolumeAction i g detach f))"
proof -
  have "fake_kept f (snd ((if detach then recorded op with_action else with_action) (change_volume g k f)))" for op k
    using kept_cloud.trans [OF fake_change_volume [OF assms] fake_with_action]
      kept_cloud.trans [OF fake_change_volume [OF assms] fake_recorded [OF fake_with_action]] by auto
  then show ?thesis by (simp add: handleVolumeAction_def kept_cloud.refl split: option.split)
qed

lemma fake_firewall_action:
  assumes "\<And>fw s. fs_name (g fw s) = fs_name s"
  shows "fake_kept f (snd (handleFirewallAction what i g server f))"
proof -
  have "fake_kept f (snd (completeAction (snd (Record op (change_server (g k) server f)))))" for op k
    unfolding completeAction_def Record_def change_server_def Let_def by (rule fake_keptI) (auto simp: assms simp del: if_image_distrib intro!: changed_member)
  then show ?thesis by (simp add: handleFirewallAction_def Let_def kept_cloud.refl case_prod_beta split: option.split)
qed

lemma fake_grows:
  assumes lens: "\<And>f w. view (upd f w) = f"
  shows "grows (no_loss (\<lambda>n w. fake_has_server n (view w)) (\<lambda>n w. fake_has_volume n (view w)) (\<lambda>n w. fake_firewall_of n (view w)))
    (fake_api view upd)"
proof -
  let ?R = "no_loss (\<lambda>n w. fake_has_server n (view w)) (\<lambda>n w. fake_has_volume n (view w)) (\<lambda>n w. fake_firewall_of n (view w))"
  have lift: "?R w (snd (on_fake view upd h w))" if "\<And>f. fake_kept f (snd (h f))" for h :: "'b handler" and w
    using that [of "view w"] by (cases "h (view w)") (simp add: on_fake_def no_loss_def lens)
  have create: "fake_kept f (snd (handleCreateServer body f))" for body f
    unfolding handleCreateServer_def addServer_def Let_def by (rule fake_recorded, rule fake_keptI) auto
  have volume: "fake_kept f (snd (handleCreateVolume body f))" for body f
    unfolding handleCreateVolume_def Let_def by (rule fake_recorded, rule fake_keptI) auto
  have firewall: "fake_kept f (snd (handleCreateFirewall n rules f))" for n rules f
    unfolding handleCreateFirewall_def Let_def by (rule fake_keptI) auto
  have network: "fake_kept f (snd (handleCreateNetwork body f))" for body f
    unfolding handleCreateNetwork_def SeedNetwork_def by (rule fake_keptI) auto
  show ?thesis
    unfolding grows_def fake_api_def
    by (simp add: lift create volume firewall network fake_volume_action fake_firewall_action)
qed

lemma find_matching: "n \<noteq> [] \<Longrightarrow> find (\<lambda>x. name x = n) (filter (\<lambda>x. matches (ByName n) (name x)) xs) = find (\<lambda>x. name x = n) xs"
  by (induction xs) (auto simp: matches_def)

lemma find_map: "find P (map f xs) = map_option f (find (\<lambda>x. P (f x)) xs)"
  by (induction xs) auto

lemma fake_rules_replaced:
  assumes "handleSetRules (itoa i) rs f = (Inr (), f')"
  shows "fake_firewall_of n f' = map_option (\<lambda>(j, r). (j, if j = parse_id (itoa i) then rs else r)) (fake_firewall_of n f) \<and>
    fk_servers f' = fk_servers f \<and> fk_volumes f' = fk_volumes f"
proof -
  from assms obtain fw where "lookup_id ff_id (itoa i) (fk_firewalls f) = Some fw"
    by (cases "lookup_id ff_id (itoa i) (fk_firewalls f)") (auto simp: handleSetRules_def missing_def)
  then have "ff_id fw = parse_id (itoa i)" and found: "lookup_id ff_id (itoa i) (fk_firewalls f) = Some fw"
    by (auto simp: lookup_id_def path_id_def split: if_splits dest: find_hit)
  with assms show ?thesis
    by (auto simp: handleSetRules_def recorded_def Record_def fake_firewall_of_def find_map comp_def option.map_comp
        split: option.splits intro!: option.map_cong0)
qed

text \<open>The fake as a cloud, in any world that holds it.\<close>

lemma fake_is_cloud:
  assumes lens: "\<And>f w. view (upd f w) = f"
  shows "hetzner_cloud (fake_api view upd) (\<lambda>n w. fake_has_server n (view w)) (\<lambda>n w. fake_has_volume n (view w))
    (\<lambda>n w. fake_firewall_of n (view w))"
proof unfold_locales
  fix n ss w assume "n \<noteq> []" "hz_servers (fake_api view upd) (ByName n) w = Inr ss"
  then show "(\<exists>s \<in> set ss. hs_name s = n) \<longleftrightarrow> fake_has_server n (view w)"
    by (auto simp: fake_api_def handleListServers_def matches_def fake_has_server_def serverJSON_def split: option.splits)
next
  fix n vs w assume "n \<noteq> []" "hz_volumes (fake_api view upd) (ByName n) w = Inr vs"
  then show "(\<exists>v \<in> set vs. hv_name v = n) \<longleftrightarrow> fake_has_volume n (view w)"
    by (auto simp: fake_api_def handleListVolumes_def matches_def fake_has_volume_def volumeJSON_def)
next
  fix n fws w assume "n \<noteq> []" "hz_firewalls (fake_api view upd) (ByName n) w = Inr fws"
  then show "map_option (\<lambda>fw. (hf_id fw, hf_rules fw)) (named_firewall n fws) = fake_firewall_of n (view w)"
    by (auto simp: fake_api_def handleListFirewalls_def named_firewall_def find_map find_matching fake_firewall_of_def
        firewallJSON_def option.map_comp comp_def)
next
  fix body w s w' assume "hz_create_server (fake_api view upd) body w = (Inr s, w')"
  then show "fake_has_server (sb_name body) (view w')"
    by (auto simp: fake_api_def on_fake_def handleCreateServer_def recorded_def Record_def addServer_def Let_def
        fake_has_server_def lens split: option.splits)
next
  fix body w v w' assume "hz_create_volume (fake_api view upd) body w = (Inr v, w')"
  then show "fake_has_volume (vb_name body) (view w')"
    by (auto simp: fake_api_def on_fake_def handleCreateVolume_def recorded_def Record_def Let_def
        fake_has_volume_def lens split: option.splits)
next
  fix i rs w w' n m assume "hz_set_rules (fake_api view upd) (itoa i) rs w = (Inr (), w')"
  then obtain f' where "handleSetRules (itoa i) rs (view w) = (Inr (), f')" "w' = upd f' w"
    by (cases "handleSetRules (itoa i) rs (view w)") (auto simp: fake_api_def on_fake_def)
  with fake_rules_replaced [OF this(1), of n]
  show "fake_firewall_of n (view w') = map_option (\<lambda>(j, r). (j, if j = parse_id (itoa i) then rs else r)) (fake_firewall_of n (view w)) \<and>
      fake_has_server m (view w') = fake_has_server m (view w) \<and> fake_has_volume m (view w') = fake_has_volume m (view w)"
    by (simp add: lens fake_has_server_def fake_has_volume_def)
qed (rule fake_grows, rule lens)

interpretation lab_cloud: hetzner_cloud "fake_api lb_cloud (\<lambda>f w. w\<lparr>lb_cloud := f\<rparr>)"
  "\<lambda>n w. fake_has_server n (lb_cloud w)" "\<lambda>n w. fake_has_volume n (lb_cloud w)" "\<lambda>n w. fake_firewall_of n (lb_cloud w)"
  by (rule fake_is_cloud) simp

text \<open>A first bootstrap of one master with one volume.\<close>

definition lab_config :: app_config where
  "lab_config = config0\<lparr>cfg_servers := [(''master'', \<lparr>srv_type = ''cx22'', srv_region = ''fsn1'', srv_role = ''master'', srv_disk = 0\<rparr>)],
     cfg_volumes := [(''pg'', \<lparr>vol_size = 20, vol_server = ''master'', vol_mount_path = []\<rparr>)],
     cfg_domains := [(''web'', [''shop.example.com''])]\<rparr>"

definition lab_bootstrap :: "(goerr + lab kube_client) \<times> lab" where
  "lab_bootstrap = Bootstrap lab_client (lab_context lab_config) (new_lab NewHetznerFake)"

definition lab_outcome :: bool where
  "lab_outcome = (case lab_bootstrap of (r, w) \<Rightarrow>
     (case r of Inl _ \<Rightarrow> False | Inr _ \<Rightarrow> True) \<and> fk_list_error (lb_cloud w) = None \<and>
     map ff_name (fk_firewalls (lb_cloud w)) = [''nvoi-shop-prod-master-fw''] \<and>
     map ff_id (fk_firewalls (lb_cloud w)) = [1] \<and>
     (case PlanInfra lab_client (lab_context lab_config) w of Inl _ \<Rightarrow> False | Inr es \<Rightarrow> length es = 5))"

lemma lab_outcome_holds: lab_outcome
  by code_simp

lemma fake_listings_complete:
  assumes "fk_list_error (view w) = None"
  shows "listings_complete (fake_api view upd) names (\<lambda>n w. fake_has_server n (view w)) (\<lambda>n w. fake_has_volume n (view w))
    (\<lambda>n w. fake_firewall_of n (view w)) w"
proof -
  have "ListServers (fake_api view upd) (Labels names) w = Inr (map (\<lambda>s. serverFrom (serverJSON s)) (fk_servers (view w)))"
    by (simp add: ListServers_def get_def fake_api_def handleListServers_def assms matches_def bindR_def wrapR_def comp_def)
  moreover have "ListVolumes (fake_api view upd) (Labels names) w = Inr (map (\<lambda>v. volumeFrom (volumeJSON v)) (fk_volumes (view w)))"
    by (simp add: ListVolumes_def get_def fake_api_def handleListVolumes_def matches_def bindR_def wrapR_def comp_def)
  moreover have "ListAllFirewalls (fake_api view upd) w = Inr (map (\<lambda>fw. \<lparr>cn_id = itoa (ff_id fw), cn_name = ff_name fw\<rparr>) (fk_firewalls (view w)))"
    by (simp add: ListAllFirewalls_def get_def fake_api_def handleListFirewalls_def matches_def bindR_def wrapR_def comp_def firewallJSON_def)
  moreover have "\<exists>f. hz_firewalls (fake_api view upd) (ByName n) w = Inr f" for n
    by (simp add: fake_api_def handleListFirewalls_def)
  moreover have "vm_name (serverFrom (serverJSON s)) = fs_name s" "cv_name (volumeFrom (volumeJSON v)) = fv_name v" for s v
    by (simp_all add: serverFrom_def serverJSON_def volumeFrom_def volumeJSON_def)
  moreover have "n \<in> ff_name ` set (fk_firewalls (view w))" if "fake_firewall_of n (view w) \<noteq> None" for n
    using that by (auto simp: fake_firewall_of_def find_None_iff)
  ultimately show ?thesis
    unfolding listings_complete_def fake_has_server_def fake_has_volume_def
    by (simp add: image_image image_iff) (metis imageE)
qed

lemma lab_machines_keep:
  assumes "\<And>w w'. lb_cloud w' = lb_cloud w \<Longrightarrow> R w w'"
  shows "machines_keep R lab_client"
  unfolding machines_keep_def lab_client_def
  by (auto simp: still_clock_def lab_env_def lab_shell_def mock_run_def intro!: assms)

lemma lab_plain: "plain_cluster lab_config"
proof -
  have "list_ex (\<lambda>s. ss_role s \<noteq> RoleWorker) (ServerDefs lab_config)" by code_simp
  moreover have "list_all (\<lambda>s. ss_role s \<noteq> RoleBuilder \<and> ss_name s \<noteq> []) (ServerDefs lab_config)" by code_simp
  moreover have "list_all (\<lambda>v. vs_name v \<noteq> []) (VolumeDefs lab_config)" by code_simp
  moreover have "case FirewallAllowList lab_config of Inl _ \<Rightarrow> False
      | Inr rules \<Rightarrow> list_all (\<lambda>p. \<not> IsInternalPort (fst p) \<and> get0 [] rules (fst p) \<noteq> []) rules" by code_simp
  ultimately show ?thesis
    by (auto simp: plain_cluster_def list_ex_iff list_all_iff has_key_fst split: sum.splits)
qed

lemma lab_firewalls:
  assumes "map ff_name (fk_firewalls f) = [n]" "map ff_id (fk_firewalls f) = [1]"
  shows "distinct_firewalls fake_firewall_of f"
proof -
  from assms obtain fw where fw: "fk_firewalls f = [fw]" "ff_id fw = 1" by auto
  have "parse_id (itoa 1) = 1" by code_simp
  then show ?thesis by (auto simp: distinct_firewalls_def fake_firewall_of_def fw split: if_splits)
qed


end
