(* ===== verification/S3.thy ===== *)
theory S3
  imports Backups Sha256 Shells
begin

text \<open>
  Object storage: the client of S3 and its request signatures (\<open>pkg/utils/s3\<close>), and the operations on
  whole buckets (\<open>pkg/provider/s3ops\<close>). The HTTP transport, the clock and the decoder of XML answers are
  parameters; the bodies that are sent are text, as the program builds them.
\<close>

section \<open>Addresses\<close>

text \<open>\<open>url.Parse\<close> of the addresses the client builds: scheme, host, path and raw query.\<close>

definition after_scheme :: "string \<Rightarrow> string" where
  "after_scheme url = (case index_of url ''://'' of None \<Rightarrow> url | Some i \<Rightarrow> drop (i + 3) url)"

definition url_host :: "string \<Rightarrow> string" where
  "url_host url = takeWhile (\<lambda>c. c \<noteq> CHR ''/'' \<and> c \<noteq> CHR ''?'') (after_scheme url)"

definition url_path :: "string \<Rightarrow> string" where
  "url_path url = takeWhile (\<lambda>c. c \<noteq> CHR ''?'') (dropWhile (\<lambda>c. c \<noteq> CHR ''/'' \<and> c \<noteq> CHR ''?'') (after_scheme url))"

definition url_raw_query :: "string \<Rightarrow> string" where
  "url_raw_query url = fst (snd (cut (CHR ''?'') (after_scheme url)))"

text \<open>\<open>url.ParseQuery\<close>, which drops what it cannot decode, and \<open>Values.Encode\<close>.\<close>

fun query_unescape :: "string \<Rightarrow> string option" where
  "query_unescape [] = Some []"
| "query_unescape (c # s) =
     (if c = CHR ''+'' then map_option (Cons (CHR '' '')) (query_unescape s)
      else if c = CHR ''%'' then
        (case s of
           a # b # r \<Rightarrow>
             (case (unhex a, unhex b) of
                (Some m, Some n) \<Rightarrow> map_option (Cons (char_of (16 * m + n))) (query_unescape r)
              | _ \<Rightarrow> None)
         | _ \<Rightarrow> None)
      else map_option (Cons c) (query_unescape s))"

definition query_pair :: "string \<Rightarrow> (string \<times> string) option" where
  "query_pair part =
     (case cut (CHR ''='') part of (k, v, _) \<Rightarrow>
        (case (query_unescape k, query_unescape v) of (Some k', Some v') \<Rightarrow> Some (k', v') | _ \<Rightarrow> None))"

definition query_parse :: "string \<Rightarrow> (string \<times> string) list" where
  "query_parse raw = List.map_filter query_pair (filter (\<lambda>p. p \<noteq> [] \<and> CHR '';'' \<notin> set p) (split_on (CHR ''&'') raw))"

definition upper_hex_digit :: "nat \<Rightarrow> char" where
  "upper_hex_digit n = char_of (if n < 10 then 48 + n else 55 + n)"

definition query_escape :: "string \<Rightarrow> string" where
  "query_escape s = concat (map (\<lambda>c.
     if is_lower c \<or> is_upper c \<or> is_digit c \<or> c \<in> {CHR ''-'', CHR ''_'', CHR ''.'', CHR ''~''} then [c]
     else if c = CHR '' '' then ''+''
     else [CHR ''%'', upper_hex_digit (of_char c div 16), upper_hex_digit (of_char c mod 16)]) s)"

definition query_encode :: "(string \<times> string) list \<Rightarrow> string" where
  "query_encode ps = join ''&'' (map (\<lambda>(k, v). query_escape k @ ''='' @ query_escape v) (sort_key fst ps))"

section \<open>Signatures\<close>

definition word_bytes :: "32 word \<Rightarrow> string" where
  "word_bytes w = map (\<lambda>i. char_of (unat w div 256 ^ i mod 256)) (rev [0..<4])"

definition sha256_bytes :: "string \<Rightarrow> string" where
  "sha256_bytes s = (case foldl sha_block sha_init (sha_blocks (be_words (sha_pad s))) of (a, b, c, d, e, f, g, h) \<Rightarrow>
     concat (map word_bytes [a, b, c, d, e, f, g, h]))"

definition hex_encode :: "string \<Rightarrow> string" where
  "hex_encode s = concat (map (\<lambda>c. [hex_digit (of_char c div 16), hex_digit (of_char c mod 16)]) s)"

definition xor_pad :: "nat \<Rightarrow> string \<Rightarrow> string" where
  "xor_pad b key = map (\<lambda>c. char_of ((of_char c :: nat) XOR b)) (key @ replicate (64 - length key) (char_of (0 :: nat)))"

definition hmacSHA256 :: "string \<Rightarrow> string \<Rightarrow> string" where
  "hmacSHA256 key0 data =
     (let key = (if length key0 > 64 then sha256_bytes key0 else key0)
      in sha256_bytes (xor_pad 0x5C key @ sha256_bytes (xor_pad 0x36 key @ data)))"

record http_request =
  hq_method :: string
  hq_url :: string
  hq_headers :: "string gomap"
  hq_body :: string

definition signed_headers :: string where
  "signed_headers = ''content-type;host;x-amz-content-sha256;x-amz-date''"

definition canonical_request :: "http_request \<Rightarrow> string \<Rightarrow> string \<Rightarrow> string" where
  "canonical_request req payloadHash amzDate =
     (let host = url_host (hq_url req); path = url_path (hq_url req) in
      join nl [hq_method req, if path = [] then ''/'' else path, query_encode (query_parse (url_raw_query (hq_url req))),
        ''content-type:'' @ get0 [] (hq_headers req) ''Content-Type'' @ nl @ ''host:'' @ host @ nl
          @ ''x-amz-content-sha256:'' @ payloadHash @ nl @ ''x-amz-date:'' @ amzDate @ nl,
        signed_headers, payloadHash])"

definition credential_scope :: "string \<Rightarrow> string \<Rightarrow> string" where
  "credential_scope amzDate region = take 8 amzDate @ ''/'' @ region @ ''/s3/aws4_request''"

definition signing_key :: "string \<Rightarrow> string \<Rightarrow> string \<Rightarrow> string" where
  "signing_key secretKey datestamp region =
     hmacSHA256 (hmacSHA256 (hmacSHA256 (hmacSHA256 (''AWS4'' @ secretKey) datestamp) region) ''s3'') ''aws4_request''"

definition sign_payload :: "string \<Rightarrow> string \<Rightarrow> http_request \<Rightarrow> string \<Rightarrow> string \<Rightarrow> string \<Rightarrow> http_request" where
  "sign_payload amzDate payloadHash req accessKey secretKey region =
     (let scope = credential_scope amzDate region;
          stringToSign = join nl [''AWS4-HMAC-SHA256'', amzDate, scope, sha256_hex (canonical_request req payloadHash amzDate)];
          signature = hex_encode (hmacSHA256 (signing_key secretKey (take 8 amzDate) region) stringToSign)
      in req\<lparr>hq_headers := hq_headers req @
           [(''X-Amz-Content-Sha256'', payloadHash), (''X-Amz-Date'', amzDate), (''Host'', url_host (hq_url req)),
            (''Authorization'', ''AWS4-HMAC-SHA256 Credential='' @ accessKey @ ''/'' @ scope @ '', SignedHeaders='' @ signed_headers
               @ '', Signature='' @ signature)]\<rparr>)"

definition Sign :: "string \<Rightarrow> http_request \<Rightarrow> string \<Rightarrow> string \<Rightarrow> string \<Rightarrow> http_request" where
  "Sign amzDate req accessKey secretKey region = sign_payload amzDate (sha256_hex (hq_body req)) req accessKey secretKey region"

definition SignUnsigned :: "string \<Rightarrow> http_request \<Rightarrow> string \<Rightarrow> string \<Rightarrow> string \<Rightarrow> http_request" where
  "SignUnsigned amzDate req accessKey secretKey region = sign_payload amzDate ''UNSIGNED-PAYLOAD'' req accessKey secretKey region"

text \<open>Signing adds headers only.\<close>

lemma signed_request [simp]:
  "hq_method (sign_payload amzDate hash req ak sk region) = hq_method req"
  "hq_url (sign_payload amzDate hash req ak sk region) = hq_url req"
  "hq_body (sign_payload amzDate hash req ak sk region) = hq_body req"
  by (simp_all add: sign_payload_def Let_def)

text \<open>The two ways to a digest agree.\<close>

lemma hex_byte: "hex_encode (char_of (b mod 256 :: nat) # s) = hex_digit (b div 16 mod 16) # hex_digit (b mod 16) # hex_encode s"
proof -
  have "b mod 256 div 16 = b div 16 mod 16" using mod_mult2_eq [of b 16 16] by simp
  moreover have "b mod 256 mod 16 = b mod 16" by (simp add: mod_mod_cancel)
  ultimately show ?thesis by (simp add: hex_encode_def)
qed

lemma hex_word_bytes: "hex_encode (word_bytes w) = hex_word w"
proof -
  have bytes: "rev [0..<4] = [3, 2, 1, 0 :: nat]" and digits: "rev [0..<8] = [7, 6, 5, 4, 3, 2, 1, 0 :: nat]" by code_simp+
  have "hex_encode [] = []" by (simp add: hex_encode_def)
  then show ?thesis
    unfolding word_bytes_def hex_word_def bytes digits list.map
    by (simp only: hex_byte) (simp add: div_mult2_eq [symmetric])
qed

lemma hex_sha256_bytes: "hex_encode (sha256_bytes s) = sha256_hex s"
  by (simp add: sha256_bytes_def sha256_hex_def hex_encode_def hex_word_bytes [symmetric] split: prod.split)

section \<open>Objects\<close>

text \<open>What a listing decodes to.\<close>

record s3_listing =
  ls_objects :: "s3_object list"
  ls_truncated :: bool
  ls_continuation :: string

record 'w s3_env =
  s3_amz_date :: "'w \<Rightarrow> string"
  s3_send :: "http_request \<Rightarrow> ('w, http_response) act"
  s3_decode :: "string \<Rightarrow> goerr + s3_listing"

definition octets :: "string gomap" where "octets = [(''Content-Type'', ''application/octet-stream'')]"
definition xml_type :: "string gomap" where "xml_type = [(''Content-Type'', ''application/xml'')]"

definition object_url :: "string \<Rightarrow> string \<Rightarrow> string \<Rightarrow> string" where
  "object_url endpoint bucket key = endpoint @ ''/'' @ bucket @ ''/'' @ key"

definition send_signed :: "'w s3_env \<Rightarrow> http_request \<Rightarrow> string \<Rightarrow> string \<Rightarrow> string \<Rightarrow> ('w, http_response) act" where
  "send_signed se req accessKey secretKey region w = s3_send se (Sign (s3_amz_date se w) req accessKey secretKey region) w"

definition accepted :: "string \<Rightarrow> http_response \<Rightarrow> goerr + unit" where
  "accepted what resp =
     (if hr_status resp \<ge> 300 then Inl (Errorf what [itoa (hr_status resp), trim_space (hr_body resp)]) else Inr ())"

definition Put :: "'w s3_env \<Rightarrow> string \<Rightarrow> string \<Rightarrow> string \<Rightarrow> string \<Rightarrow> string \<Rightarrow> string \<Rightarrow> ('w, unit) act" where
  "Put se endpoint accessKey secretKey bucket key body =
     bindA (send_signed se \<lparr>hq_method = ''PUT'', hq_url = object_url endpoint bucket key, hq_headers = octets, hq_body = body\<rparr>
              accessKey secretKey ''auto'') (\<lambda>resp. readA (\<lambda>_. accepted ''s3 put'' resp))"

definition PutStream :: "'w s3_env \<Rightarrow> string \<Rightarrow> string \<Rightarrow> string \<Rightarrow> string \<Rightarrow> string \<Rightarrow> string \<Rightarrow> ('w, unit) act" where
  "PutStream se endpoint accessKey secretKey bucket key body =
     bindA (\<lambda>w. s3_send se (SignUnsigned (s3_amz_date se w)
              \<lparr>hq_method = ''PUT'', hq_url = object_url endpoint bucket key, hq_headers = octets, hq_body = body\<rparr>
              accessKey secretKey ''auto'') w) (\<lambda>resp. readA (\<lambda>_. accepted ''s3 put-stream'' resp))"

definition object_answer :: "string \<Rightarrow> string \<Rightarrow> http_response \<Rightarrow> goerr + string \<times> string" where
  "object_answer bucket key resp =
     (if hr_status resp \<ge> 300 then Inl (Errorf ''s3 get'' [itoa (hr_status resp), bucket, key])
      else Inr (hr_body resp, get0 [] (hr_headers resp) ''Content-Type''))"

definition Get :: "'w s3_env \<Rightarrow> string \<Rightarrow> string \<Rightarrow> string \<Rightarrow> string \<Rightarrow> string \<Rightarrow> ('w, string \<times> string) act" where
  "Get se endpoint accessKey secretKey bucket key =
     bindA (send_signed se \<lparr>hq_method = ''GET'', hq_url = object_url endpoint bucket key, hq_headers = octets, hq_body = []\<rparr>
              accessKey secretKey ''auto'') (\<lambda>resp. readA (\<lambda>_. object_answer bucket key resp))"

text \<open>\<open>GetStream\<close>, with the stream as the bytes that are read from it.\<close>

definition GetStream :: "'w s3_env \<Rightarrow> string \<Rightarrow> string \<Rightarrow> string \<Rightarrow> string \<Rightarrow> string \<Rightarrow> ('w, string \<times> string \<times> int) act" where
  "GetStream se endpoint accessKey secretKey bucket key =
     bindA (Get se endpoint accessKey secretKey bucket key) (\<lambda>(body, ctype). retA (body, ctype, int (length body)))"

definition list_url :: "string \<Rightarrow> string \<Rightarrow> string \<Rightarrow> string \<Rightarrow> string" where
  "list_url endpoint bucket prefix continuation = endpoint @ ''/'' @ bucket @ ''?list-type=2&max-keys=1000''
     @ (if prefix \<noteq> [] then ''&prefix='' @ prefix else [])
     @ (if continuation \<noteq> [] then ''&continuation-token='' @ continuation else [])"

definition list_page :: "'w s3_env \<Rightarrow> string \<Rightarrow> string \<Rightarrow> string \<Rightarrow> string \<Rightarrow> string \<Rightarrow> string \<Rightarrow> ('w, s3_listing) act" where
  "list_page se endpoint accessKey secretKey bucket prefix continuation =
     bindA (send_signed se \<lparr>hq_method = ''GET'', hq_url = list_url endpoint bucket prefix continuation,
              hq_headers = xml_type, hq_body = []\<rparr> accessKey secretKey ''auto'') (\<lambda>resp.
       readA (\<lambda>_. bindR (accepted (''s3 list '' @ bucket) resp) (\<lambda>_.
         wrapR (''s3 list '' @ bucket @ '': parse'') (s3_decode se (hr_body resp)))))"

text \<open>The loops over pages need not end: a store may answer every request with another full page.\<close>

partial_function (option) list_pages ::
    "(string \<Rightarrow> ('w, s3_listing) act) \<Rightarrow> s3_object list \<Rightarrow> string \<Rightarrow> 'w \<Rightarrow> ((goerr + s3_object list) \<times> 'w) option" where
  "list_pages page seen continuation w =
     (case page continuation w of
        (Inl e, w1) \<Rightarrow> Some (Inl e, w1)
      | (Inr l, w1) \<Rightarrow>
          if \<not> ls_truncated l then Some (Inr (seen @ ls_objects l), w1)
          else list_pages page (seen @ ls_objects l) (ls_continuation l) w1)"

definition ListObjects ::
    "'w s3_env \<Rightarrow> string \<Rightarrow> string \<Rightarrow> string \<Rightarrow> string \<Rightarrow> string \<Rightarrow> 'w \<Rightarrow> ((goerr + s3_object list) \<times> 'w) option" where
  "ListObjects se endpoint accessKey secretKey bucket prefix w =
     list_pages (list_page se endpoint accessKey secretKey bucket prefix) [] [] w"

end
