(* ===== verification/BackupImage.thy ===== *)
theory BackupImage
  imports S3 Postgres
begin

text \<open>
  The program of the image that every backup and restore job runs (\<open>cmd/db/main.go\<close>), and what becomes of
  a job of \<open>Backups\<close> when it runs: the environment its pod gets, the dump, the upload, and the way
  back. The dump tools, gzip and object storage are parameters.
\<close>

section \<open>The program\<close>

definition mustEnv :: "string gomap \<Rightarrow> string \<Rightarrow> goerr + string" where
  "mustEnv env key = (if get0 [] env key = [] then Inl (Errorf ''missing required env var'' [key]) else Inr (get0 [] env key))"

record db_creds =
  cr_host :: string
  cr_port :: string
  cr_user :: string
  cr_password :: string
  cr_database :: string
  cr_sslmode :: string

definition loadDBCreds :: "string gomap \<Rightarrow> goerr + db_creds" where
  "loadDBCreds env =
     bindR (mustEnv env ''DB_HOST'') (\<lambda>host.
     bindR (mustEnv env ''DB_PORT'') (\<lambda>port.
     bindR (mustEnv env ''DB_USER'') (\<lambda>user.
     bindR (mustEnv env ''DB_PASSWORD'') (\<lambda>password.
     bindR (mustEnv env ''DB_DATABASE'') (\<lambda>database.
       Inr \<lparr>cr_host = host, cr_port = port, cr_user = user, cr_password = password, cr_database = database,
            cr_sslmode = get0 [] env ''DB_SSLMODE''\<rparr>)))))"

text \<open>A process: the tool, its arguments, and what is added to the environment.\<close>

record command =
  cm_tool :: string
  cm_args :: "string list"
  cm_env :: "string gomap"

definition pgEnv :: "db_creds \<Rightarrow> string gomap" where
  "pgEnv creds = (''PGPASSWORD'', cr_password creds) # (if cr_sslmode creds \<noteq> [] then [(''PGSSLMODE'', cr_sslmode creds)] else [])"

definition pg_connection :: "db_creds \<Rightarrow> string list" where
  "pg_connection creds = [''-h'', cr_host creds, ''-p'', cr_port creds, ''-U'', cr_user creds, ''-d'', cr_database creds]"

definition mysql_connection :: "db_creds \<Rightarrow> string list" where
  "mysql_connection creds = [''-h'', cr_host creds, ''-P'', cr_port creds, ''-u'', cr_user creds,
     ''--password='' @ cr_password creds, cr_database creds]"

definition unknown_engine :: "string \<Rightarrow> goerr" where
  "unknown_engine engine = Errorf ''unknown ENGINE'' [engine]"

definition restoreCommand :: "string \<Rightarrow> db_creds \<Rightarrow> goerr + command" where
  "restoreCommand engine creds =
     (if engine \<in> {''postgres'', ''neon''}
      then Inr \<lparr>cm_tool = ''psql'', cm_args = [''-v'', ''ON_ERROR_STOP=1''] @ pg_connection creds, cm_env = pgEnv creds\<rparr>
      else if engine \<in> {''mysql'', ''planetscale''}
      then Inr \<lparr>cm_tool = ''mysql'', cm_args = ''--ssl-mode=REQUIRED'' # mysql_connection creds, cm_env = []\<rparr>
      else Inl (unknown_engine engine))"

definition dumpCommand :: "string \<Rightarrow> db_creds \<Rightarrow> goerr + command" where
  "dumpCommand engine creds =
     (if engine \<in> {''postgres'', ''neon''}
      then Inr \<lparr>cm_tool = ''pg_dump'', cm_args = [''--no-owner'', ''--no-acl'', ''--clean'', ''--if-exists''] @ pg_connection creds,
                cm_env = pgEnv creds\<rparr>
      else if engine \<in> {''mysql'', ''planetscale''}
      then Inr \<lparr>cm_tool = ''mysqldump'', cm_args = [''--ssl-mode=REQUIRED'', ''--single-transaction'', ''--set-gtid-purged=OFF'',
                  ''--add-drop-table''] @ mysql_connection creds, cm_env = []\<rparr>
      else Inl (unknown_engine engine))"

text \<open>
  A dump yields what the tool wrote, or its failure; a replay is fed its input. The file the dump is
  kept in until it is uploaded is the value that is passed on. Decompression fails at the header, or
  yields what could be read and the error it met after it.
\<close>

record 'w db_tools =
  dt_dump :: "command \<Rightarrow> ('w, string) act"
  dt_replay :: "command \<Rightarrow> string \<Rightarrow> ('w, unit) act"
  dt_gzip :: "string \<Rightarrow> string"
  dt_gunzip :: "string \<Rightarrow> goerr + string \<times> goerr option"
  dt_s3 :: "'w s3_env"

definition runDumpToGzippedFile :: "'w db_tools \<Rightarrow> command \<Rightarrow> ('w, string) act" where
  "runDumpToGzippedFile T cmd = bindA (wrapA ''dump tool exited'' (dt_dump T cmd)) (\<lambda>out. retA (dt_gzip T out))"

definition backup_key :: "string \<Rightarrow> string" where
  "backup_key now = now @ ''.sql.gz''"

definition upload_dump :: "'w db_tools \<Rightarrow> string \<Rightarrow> string \<Rightarrow> string \<Rightarrow> string \<Rightarrow> command \<Rightarrow> ('w, string) act" where
  "upload_dump T endpoint accessKey secretKey bucket cmd =
     bindA (wrapA ''dump'' (runDumpToGzippedFile T cmd)) (\<lambda>file.
       if file = [] then failA (Errorf ''dump is empty'' [])
       else bindA (readA (\<lambda>w. Inr (backup_key (s3_amz_date (dt_s3 T) w)))) (\<lambda>key.
            thenA (wrapA (''upload '' @ bucket @ ''/'' @ key) (PutStream (dt_s3 T) endpoint accessKey secretKey bucket key file))
              (retA key)))"

text \<open>The region is read, and defaulted, but no request is signed with it.\<close>

definition runBackup :: "'w db_tools \<Rightarrow> string gomap \<Rightarrow> ('w, string) act" where
  "runBackup T env =
     bindA (readA (\<lambda>_. mustEnv env ''ENGINE'')) (\<lambda>engine.
     bindA (readA (\<lambda>_. loadDBCreds env)) (\<lambda>creds.
     bindA (readA (\<lambda>_. mustEnv env ''BUCKET_ENDPOINT'')) (\<lambda>endpoint.
     bindA (readA (\<lambda>_. mustEnv env ''BUCKET_NAME'')) (\<lambda>bucket.
     bindA (readA (\<lambda>_. mustEnv env ''AWS_ACCESS_KEY_ID'')) (\<lambda>accessKey.
     bindA (readA (\<lambda>_. mustEnv env ''AWS_SECRET_ACCESS_KEY'')) (\<lambda>secretKey.
     bindA (readA (\<lambda>_. dumpCommand engine creds)) (upload_dump T (trim_slashes endpoint) accessKey secretKey bucket)))))))"

definition replay_backup :: "'w db_tools \<Rightarrow> string \<Rightarrow> string \<Rightarrow> string \<Rightarrow> string \<Rightarrow> string \<Rightarrow> (goerr + command) \<Rightarrow> ('w, unit) act" where
  "replay_backup T endpoint accessKey secretKey bucket key restore =
     bindA (wrapA (''download '' @ bucket @ ''/'' @ key) (GetStream (dt_s3 T) endpoint accessKey secretKey bucket key)) (\<lambda>(file, _, _).
     bindA (readA (\<lambda>_. wrapR (''gunzip '' @ bucket @ ''/'' @ key) (dt_gunzip T file))) (\<lambda>(sql, broken).
     bindA (readA (\<lambda>_. restore)) (\<lambda>cmd.
       wrapA ''restore tool exited''
         (thenA (dt_replay T cmd sql) (case broken of None \<Rightarrow> retA () | Some e \<Rightarrow> failA e)))))"

definition runRestore :: "'w db_tools \<Rightarrow> string gomap \<Rightarrow> ('w, unit) act" where
  "runRestore T env =
     bindA (readA (\<lambda>_. mustEnv env ''ENGINE'')) (\<lambda>engine.
     bindA (readA (\<lambda>_. loadDBCreds env)) (\<lambda>creds.
     bindA (readA (\<lambda>_. mustEnv env ''BUCKET_ENDPOINT'')) (\<lambda>endpoint.
     bindA (readA (\<lambda>_. mustEnv env ''BUCKET_NAME'')) (\<lambda>bucket.
     bindA (readA (\<lambda>_. mustEnv env ''BACKUP_KEY'')) (\<lambda>key.
     bindA (readA (\<lambda>_. mustEnv env ''AWS_ACCESS_KEY_ID'')) (\<lambda>accessKey.
     bindA (readA (\<lambda>_. mustEnv env ''AWS_SECRET_ACCESS_KEY'')) (\<lambda>secretKey.
       replay_backup T (trim_slashes endpoint) accessKey secretKey bucket key (restoreCommand engine creds))))))))"

definition db_run :: "'w db_tools \<Rightarrow> string gomap \<Rightarrow> ('w, unit) act" where
  "db_run T env =
     (let mode = (if get0 [] env ''MODE'' = [] then ''backup'' else get0 [] env ''MODE'')
      in if mode = ''backup'' then bindA (runBackup T env) (\<lambda>_. retA ())
         else if mode = ''restore'' then runRestore T env
         else failA (Errorf ''unknown MODE'' [mode]))"

section \<open>The environment of a pod\<close>

text \<open>
  The variables of a container: every key of the secrets it takes them from, then its own variables, of
  which one that refers to a key that is not there keeps the container from starting.
\<close>

definition add_variable :: "(string \<Rightarrow> string gomap option) \<Rightarrow> string gomap \<Rightarrow> env_var \<Rightarrow> string gomap option" where
  "add_variable secrets env v =
     (case ev_secret_ref v of
        None \<Rightarrow> Some (AList.update (ev_name v) (ev_value v) env)
      | Some (secret, key) \<Rightarrow>
          Option.bind (Option.bind (secrets secret) (\<lambda>data. map_of data key)) (\<lambda>x. Some (AList.update (ev_name v) x env)))"

fun add_variables :: "(string \<Rightarrow> string gomap option) \<Rightarrow> env_var list \<Rightarrow> string gomap \<Rightarrow> string gomap option" where
  "add_variables secrets [] env = Some env"
| "add_variables secrets (v # vs) env = Option.bind (add_variable secrets env v) (add_variables secrets vs)"

fun env_from :: "(string \<Rightarrow> string gomap option) \<Rightarrow> string list \<Rightarrow> string gomap option" where
  "env_from secrets [] = Some []"
| "env_from secrets (s # ss) =
     Option.bind (secrets s) (\<lambda>data. map_option (\<lambda>rest. foldl (\<lambda>m (k, x). AList.update k x m) data rest) (env_from secrets ss))"

definition container_env :: "(string \<Rightarrow> string gomap option) \<Rightarrow> pod_container \<Rightarrow> string gomap option" where
  "container_env secrets ct = Option.bind (env_from secrets (ct_env_from ct)) (add_variables secrets (ct_env ct))"

section \<open>Jobs\<close>

text \<open>The secrets a job refers to, as the databases step writes them, with every value it needs.\<close>

definition job_secrets :: "'w database_request \<Rightarrow> database_credentials \<Rightarrow> string \<Rightarrow> bucket_credentials \<Rightarrow> (string \<Rightarrow> string gomap option) \<Rightarrow> bool" where
  "job_secrets req creds bucket bc secrets \<longleftrightarrow>
     secrets (dq_credentials_secret req) = Some (credentials_data creds) \<and>
     secrets (dq_backup_creds_secret req) = Some (BuildBackupCredsSecretData bucket bc) \<and>
     [] \<notin> {ds_engine (dq_spec req), dc_host creds, dc_user creds, dc_password creds, dc_database creds, bucket,
        trim_slashes (bk_endpoint bc), bk_access_key_id bc, bk_secret_access_key bc}"

definition image_creds :: "database_credentials \<Rightarrow> db_creds" where
  "image_creds creds = \<lparr>cr_host = dc_host creds, cr_port = itoa (dc_port creds), cr_user = dc_user creds,
     cr_password = dc_password creds, cr_database = dc_database creds, cr_sslmode = dc_sslmode creds\<rparr>"

lemma add_variable_refs [simp]:
  "add_variable secrets env (plain_env_var n v) = Some (AList.update n v env)"
  "secrets s = Some data \<Longrightarrow> map_of data k = Some v \<Longrightarrow> add_variable secrets env (secret_env_var s n k) = Some (AList.update n v env)"
  by (simp_all add: add_variable_def plain_env_var_def secret_env_var_def)

lemma trim_slashes_idem: "trim_slashes (trim_slashes s) = trim_slashes s"
  by (simp add: trim_slashes_def)

lemma trim_slashes_Nil_iff: "trim_slashes (trim_slashes s) = [] \<longleftrightarrow> trim_slashes s = []"
  by (simp add: trim_slashes_idem)

lemma mustEnv_Some: "map_of env k = Some v \<Longrightarrow> [] \<noteq> v \<Longrightarrow> mustEnv env k = Inr v"
  by (auto simp: mustEnv_def get0_def)

lemma itoa_not_Nil: "[] \<noteq> itoa n"
  by (auto simp: itoa_def itoa_nat.simps)

section \<open>A job runs\<close>

text \<open>The environment of a job's container has a value for every variable the program reads.\<close>

definition job_env :: "(string \<Rightarrow> string gomap option) \<Rightarrow> kobj \<Rightarrow> string gomap option" where
  "job_env secrets job = (case containers_of (ko_body job) of [ct] \<Rightarrow> container_env secrets ct | _ \<Rightarrow> None)"

lemma job_env_backup:
  assumes "job_secrets req creds bucket bc secrets"
  obtains env where "job_env secrets (BuildBackupCronJob req) = Some env"
    "map_of env ''ENGINE'' = Some (ds_engine (dq_spec req))" "map_of env ''DB_HOST'' = Some (dc_host creds)"
    "map_of env ''DB_PORT'' = Some (itoa (dc_port creds))" "map_of env ''DB_USER'' = Some (dc_user creds)"
    "map_of env ''DB_PASSWORD'' = Some (dc_password creds)" "map_of env ''DB_DATABASE'' = Some (dc_database creds)"
    "map_of env ''DB_SSLMODE'' = Some (dc_sslmode creds)" "map_of env ''BUCKET_ENDPOINT'' = Some (trim_slashes (bk_endpoint bc))"
    "map_of env ''BUCKET_NAME'' = Some bucket" "map_of env ''AWS_ACCESS_KEY_ID'' = Some (bk_access_key_id bc)"
    "map_of env ''AWS_SECRET_ACCESS_KEY'' = Some (bk_secret_access_key bc)" "map_of env ''MODE'' = None"
proof -
  note defs = job_env_def container_env_def BuildBackupCronJob_def kobj_of_def job_template_def job_container_def Let_def
    dbCredsEnv_def credentials_data_def BuildBackupCredsSecretData_def update_conv'
  show thesis
    using assms unfolding job_secrets_def by (intro that, simp add: defs) simp_all
qed

lemma job_env_restore:
  assumes "job_secrets req creds bucket bc secrets"
  obtains env where "job_env secrets (BuildRestoreJob req key now) = Some env"
    "map_of env ''ENGINE'' = Some (ds_engine (dq_spec req))" "map_of env ''DB_HOST'' = Some (dc_host creds)"
    "map_of env ''DB_PORT'' = Some (itoa (dc_port creds))" "map_of env ''DB_USER'' = Some (dc_user creds)"
    "map_of env ''DB_PASSWORD'' = Some (dc_password creds)" "map_of env ''DB_DATABASE'' = Some (dc_database creds)"
    "map_of env ''DB_SSLMODE'' = Some (dc_sslmode creds)" "map_of env ''BUCKET_ENDPOINT'' = Some (trim_slashes (bk_endpoint bc))"
    "map_of env ''BUCKET_NAME'' = Some bucket" "map_of env ''AWS_ACCESS_KEY_ID'' = Some (bk_access_key_id bc)"
    "map_of env ''AWS_SECRET_ACCESS_KEY'' = Some (bk_secret_access_key bc)" "map_of env ''MODE'' = Some ''restore''"
    "map_of env ''BACKUP_KEY'' = Some key"
proof -
  note defs = job_env_def container_env_def BuildRestoreJob_def kobj_of_def job_template_def job_container_def Let_def
    dbCredsEnv_def credentials_data_def BuildBackupCredsSecretData_def update_conv'
  show thesis
    using assms unfolding job_secrets_def by (intro that, simp add: defs) simp_all
qed

lemma loadDBCreds_Inr:
  assumes "map_of env ''DB_HOST'' = Some (dc_host creds)" "map_of env ''DB_PORT'' = Some (itoa (dc_port creds))"
    "map_of env ''DB_USER'' = Some (dc_user creds)" "map_of env ''DB_PASSWORD'' = Some (dc_password creds)"
    "map_of env ''DB_DATABASE'' = Some (dc_database creds)" "map_of env ''DB_SSLMODE'' = Some (dc_sslmode creds)"
    "[] \<notin> {dc_host creds, dc_user creds, dc_password creds, dc_database creds}"
  shows "loadDBCreds env = Inr (image_creds creds)"
  using assms by (simp add: loadDBCreds_def mustEnv_Some image_creds_def get0_def itoa_not_Nil)


lemma backup_job_runs_as:
  assumes "job_secrets req creds bucket bc secrets"
  obtains env where "job_env secrets (BuildBackupCronJob req) = Some env"
    "runBackup T env = bindA (readA (\<lambda>_. dumpCommand (ds_engine (dq_spec req)) (image_creds creds)))
       (upload_dump T (trim_slashes (bk_endpoint bc)) (bk_access_key_id bc) (bk_secret_access_key bc) bucket)"
    "get0 [] env ''MODE'' = []"
proof -
  obtain env where env: "job_env secrets (BuildBackupCronJob req) = Some env" "loadDBCreds env = Inr (image_creds creds)"
    "mustEnv env ''ENGINE'' = Inr (ds_engine (dq_spec req))" "mustEnv env ''BUCKET_ENDPOINT'' = Inr (trim_slashes (bk_endpoint bc))"
    "mustEnv env ''BUCKET_NAME'' = Inr bucket" "mustEnv env ''AWS_ACCESS_KEY_ID'' = Inr (bk_access_key_id bc)"
    "mustEnv env ''AWS_SECRET_ACCESS_KEY'' = Inr (bk_secret_access_key bc)" "get0 [] env ''MODE'' = []"
    by (rule job_env_backup [OF assms])
       (use assms in \<open>auto simp: job_secrets_def mustEnv_Some loadDBCreds_Inr get0_def\<close>)
  show thesis
    by (rule that [OF env(1)]) (simp_all add: env runBackup_def readA_const trim_slashes_idem split: sum.split)
qed


lemma restore_job_runs_as:
  assumes "job_secrets req creds bucket bc secrets" "key \<noteq> []"
  obtains env where "job_env secrets (BuildRestoreJob req key now) = Some env"
    "runRestore T env = replay_backup T (trim_slashes (bk_endpoint bc)) (bk_access_key_id bc) (bk_secret_access_key bc)
       bucket key (restoreCommand (ds_engine (dq_spec req)) (image_creds creds))"
    "get0 [] env ''MODE'' = ''restore''"
proof -
  obtain env where env: "job_env secrets (BuildRestoreJob req key now) = Some env" "loadDBCreds env = Inr (image_creds creds)"
    "mustEnv env ''ENGINE'' = Inr (ds_engine (dq_spec req))" "mustEnv env ''BUCKET_ENDPOINT'' = Inr (trim_slashes (bk_endpoint bc))"
    "mustEnv env ''BUCKET_NAME'' = Inr bucket" "mustEnv env ''AWS_ACCESS_KEY_ID'' = Inr (bk_access_key_id bc)"
    "mustEnv env ''AWS_SECRET_ACCESS_KEY'' = Inr (bk_secret_access_key bc)" "get0 [] env ''MODE'' = ''restore''"
    "mustEnv env ''BACKUP_KEY'' = Inr key"
    by (rule job_env_restore [OF assms(1), of key now])
       (use assms in \<open>auto simp: job_secrets_def mustEnv_Some loadDBCreds_Inr get0_def\<close>)
  show thesis
    by (rule that [OF env(1)]) (simp_all add: env runRestore_def readA_const trim_slashes_idem)
qed

definition run_job :: "'w db_tools \<Rightarrow> (string \<Rightarrow> string gomap option) \<Rightarrow> kobj \<Rightarrow> ('w, unit) act" where
  "run_job T secrets job = (case job_env secrets job of None \<Rightarrow> failA (ExtErr ''CreateContainerConfigError'') | Some env \<Rightarrow> db_run T env)"

lemma run_backup_job:
  assumes "job_secrets req creds bucket bc secrets" "dumpCommand (ds_engine (dq_spec req)) (image_creds creds) = Inr cmd"
  shows "run_job T secrets (BuildBackupCronJob req) = bindA (upload_dump T (trim_slashes (bk_endpoint bc))
    (bk_access_key_id bc) (bk_secret_access_key bc) bucket cmd) (\<lambda>_. retA ())"
  by (rule backup_job_runs_as [OF assms(1), of T]) (simp add: run_job_def db_run_def Let_def readA_const assms(2))

lemma run_restore_job:
  assumes "job_secrets req creds bucket bc secrets" "key \<noteq> []"
  shows "run_job T secrets (BuildRestoreJob req key now) = replay_backup T (trim_slashes (bk_endpoint bc))
    (bk_access_key_id bc) (bk_secret_access_key bc) bucket key (restoreCommand (ds_engine (dq_spec req)) (image_creds creds))"
  by (rule restore_job_runs_as [OF assms, of now T]) (simp add: run_job_def db_run_def Let_def)


section \<open>What the jobs do\<close>

text \<open>The upload of a backup job that dumped \<open>out\<close>: one request, signed for the region \<open>auto\<close>.\<close>

definition upload_request :: "'w db_tools \<Rightarrow> string \<Rightarrow> bucket_credentials \<Rightarrow> string \<Rightarrow> string \<Rightarrow> http_request" where
  "upload_request T bucket bc now out = SignUnsigned now
     \<lparr>hq_method = ''PUT'', hq_url = object_url (trim_slashes (bk_endpoint bc)) bucket (backup_key now), hq_headers = octets,
       hq_body = dt_gzip T out\<rparr> (bk_access_key_id bc) (bk_secret_access_key bc) ''auto''"

lemma upload_request_simps [simp]:
  "hq_method (upload_request T bucket bc now out) = ''PUT''"
  "hq_url (upload_request T bucket bc now out) = object_url (trim_slashes (bk_endpoint bc)) bucket (backup_key now)"
  "hq_body (upload_request T bucket bc now out) = dt_gzip T out"
  by (simp_all add: upload_request_def SignUnsigned_def)

lemma upload_dump_at:
  assumes "dt_dump T cmd w = (Inr out, w1)" "dt_gzip T out \<noteq> []"
  shows "upload_dump T (trim_slashes (bk_endpoint bc)) (bk_access_key_id bc) (bk_secret_access_key bc) bucket cmd w =
    (case s3_send (dt_s3 T) (upload_request T bucket bc (s3_amz_date (dt_s3 T) w1) out) w1 of
       (Inl e, w2) \<Rightarrow> (Inl (Wrapf (''upload '' @ bucket @ ''/'' @ backup_key (s3_amz_date (dt_s3 T) w1)) e), w2)
     | (Inr resp, w2) \<Rightarrow> (case accepted ''s3 put-stream'' resp of
           Inl e \<Rightarrow> (Inl (Wrapf (''upload '' @ bucket @ ''/'' @ backup_key (s3_amz_date (dt_s3 T) w1)) e), w2)
         | Inr _ \<Rightarrow> (Inr (backup_key (s3_amz_date (dt_s3 T) w1)), w2)))"
  using assms
  by (simp add: upload_dump_def runDumpToGzippedFile_def bindA_def wrapA_def retA_def readA_def thenA_def PutStream_def
      upload_request_def split: prod.split sum.split)

lemma backup_job_at:
  assumes secrets: "job_secrets req creds bucket bc secrets"
    and cmd: "dumpCommand (ds_engine (dq_spec req)) (image_creds creds) = Inr cmd"
    and dump: "dt_dump T cmd w = (Inr out, w1)" "dt_gzip T out \<noteq> []"
  shows "run_job T secrets (BuildBackupCronJob req) w = (Inr (), w2) \<longleftrightarrow>
    (\<exists>resp. s3_send (dt_s3 T) (upload_request T bucket bc (s3_amz_date (dt_s3 T) w1) out) w1 = (Inr resp, w2) \<and> hr_status resp < 300)"
  unfolding run_backup_job [OF secrets cmd] bindA_result upload_dump_at [OF dump]
  by (simp add: accepted_def retA_def split: prod.split sum.split)


text \<open> The cron job that nvoi writes for a database runs in its image: with the secrets the databases step
  writes, the container starts, and if the dump tool of the engine succeeds and the bucket accepts the one
  signed upload of the compressed dump, the job succeeds.
\<close>

theorem backup_job_uploads:
  assumes "job_secrets req creds bucket bc secrets"
    "dumpCommand (ds_engine (dq_spec req)) (image_creds creds) = Inr cmd"
    "dt_dump T cmd w = (Inr out, w1)" "dt_gzip T out \<noteq> []"
    "s3_send (dt_s3 T) (upload_request T bucket bc (s3_amz_date (dt_s3 T) w1) out) w1 = (Inr resp, w2)" "hr_status resp < 300"
  shows "run_job T secrets (BuildBackupCronJob req) w = (Inr (), w2)"
  using assms by (simp add: backup_job_at)

text \<open>The download of a restore job.\<close>

definition download_request :: "string \<Rightarrow> bucket_credentials \<Rightarrow> string \<Rightarrow> string \<Rightarrow> http_request" where
  "download_request bucket bc now key = Sign now
     \<lparr>hq_method = ''GET'', hq_url = object_url (trim_slashes (bk_endpoint bc)) bucket key, hq_headers = octets, hq_body = []\<rparr>
     (bk_access_key_id bc) (bk_secret_access_key bc) ''auto''"

lemma download_request_simps [simp]:
  "hq_method (download_request bucket bc now key) = ''GET''"
  "hq_url (download_request bucket bc now key) = object_url (trim_slashes (bk_endpoint bc)) bucket key"
  unfolding download_request_def Sign_def by simp_all

lemma wrapA_at: "m w = (Inr a, w') \<Longrightarrow> wrapA ctx m w = (Inr a, w')"
  by (simp add: wrapA_def)

lemma thenA_retA: "thenA m (retA ()) = m"
  by (rule ext) (simp add: thenA_def bindA_def retA_def split: prod.split sum.split)

lemma restore_replays:
  assumes secrets: "job_secrets req creds bucket bc secrets" "key \<noteq> []"
    and cmd: "restoreCommand (ds_engine (dq_spec req)) (image_creds creds) = Inr cmd"
    and answer: "s3_send (dt_s3 T) (download_request bucket bc (s3_amz_date (dt_s3 T) w) key) w = (Inr resp, w1)"
      "hr_status resp < 300" "dt_gunzip T (hr_body resp) = Inr (out, None)"
  shows "run_job T secrets (BuildRestoreJob req key now) w = wrapA ''restore tool exited'' (dt_replay T cmd out) w1"
proof -
  have "GetStream (dt_s3 T) (trim_slashes (bk_endpoint bc)) (bk_access_key_id bc) (bk_secret_access_key bc) bucket key w =
      (Inr (hr_body resp, get0 [] (hr_headers resp) ''Content-Type'', int (length (hr_body resp))), w1)"
    using answer(1,2)
    by (simp add: GetStream_def Get_def send_signed_def download_request_def bindA_def readA_def object_answer_def retA_def)
  then have got: "wrapA (''download '' @ bucket @ ''/'' @ key)
      (GetStream (dt_s3 T) (trim_slashes (bk_endpoint bc)) (bk_access_key_id bc) (bk_secret_access_key bc) bucket key) w =
      (Inr (hr_body resp, get0 [] (hr_headers resp) ''Content-Type'', int (length (hr_body resp))), w1)"
    by (rule wrapA_at)
  show ?thesis
    unfolding run_restore_job [OF secrets] replay_backup_def cmd bindA_result [of "wrapA _ _"]
    unfolding got by (simp add: answer(3) bindA_read_at wrapR_def thenA_retA)
qed

text \<open>What the round trip relies on: the bucket keeps an object it accepted, under its address.\<close>

definition keeps_objects :: "'w s3_env \<Rightarrow> bool" where
  "keeps_objects se \<longleftrightarrow> (\<forall>put get w resp w'. hq_method put = ''PUT'' \<longrightarrow> s3_send se put w = (Inr resp, w') \<longrightarrow> hr_status resp < 300 \<longrightarrow>
     hq_method get = ''GET'' \<longrightarrow> hq_url get = hq_url put \<longrightarrow>
     (\<exists>got. s3_send se get w' = (Inr got, w') \<and> hr_status got < 300 \<and> hr_body got = hq_body put))"

lemma keeps_objectsD:
  assumes "keeps_objects se" "s3_send se put w = (Inr resp, w')" "hr_status resp < 300"
    "hq_method put = ''PUT''" "hq_method get = ''GET''" "hq_url get = hq_url put"
  obtains got where "s3_send se get w' = (Inr got, w')" "hr_status got < 300" "hr_body got = hq_body put"
  using assms unfolding keeps_objects_def by blast


lemma mustEnv_region: "k \<noteq> ''AWS_REGION'' \<Longrightarrow> mustEnv (AList.update ''AWS_REGION'' region env) k = mustEnv env k"
  by (simp add: mustEnv_def get0_def update_conv')

lemma loadDBCreds_region: "loadDBCreds (AList.update ''AWS_REGION'' region env) = loadDBCreds env"
  by (simp add: loadDBCreds_def mustEnv_region get0_def update_conv')

text \<open> The region of the bucket plays no part: whatever \<open>AWS_REGION\<close> says, the same requests are sent,
  signed for the region \<open>auto\<close>.
\<close>

theorem upload_ignores_region: "runBackup T (AList.update ''AWS_REGION'' region env) = runBackup T env"
  unfolding runBackup_def by (simp add: mustEnv_region loadDBCreds_region)

text \<open>The check for an empty dump sees the compressed file, so that a dump of nothing is uploaded.\<close>

lemma empty_dump_uploaded:
  assumes "job_secrets req creds bucket bc secrets" "dumpCommand (ds_engine (dq_spec req)) (image_creds creds) = Inr cmd"
    "dt_dump T cmd w = (Inr [], w1)" "dt_gzip T [] \<noteq> []"
    "s3_send (dt_s3 T) (upload_request T bucket bc (s3_amz_date (dt_s3 T) w1) []) w1 = (Inr resp, w2)" "hr_status resp < 300"
  shows "run_job T secrets (BuildBackupCronJob req) w = (Inr (), w2)"
  using assms by (simp add: backup_job_at)

section \<open>A bucket that works\<close>

text \<open>The objects of a bucket by address; the tools of a database that is its dump.\<close>

definition kept_bucket :: "(string gomap \<times> string) s3_env" where
  "kept_bucket = \<lparr>s3_amz_date = (\<lambda>_. ''20250101T000000Z''),
     s3_send = (\<lambda>req (objects, db).
       if hq_method req = ''PUT''
       then (Inr \<lparr>hr_status = 200, hr_headers = [], hr_body = []\<rparr>, (AList.update (hq_url req) (hq_body req) objects, db))
       else (case map_of objects (hq_url req) of
           Some body \<Rightarrow> (Inr \<lparr>hr_status = 200, hr_headers = [], hr_body = body\<rparr>, (objects, db))
         | None \<Rightarrow> (Inr \<lparr>hr_status = 404, hr_headers = [], hr_body = []\<rparr>, (objects, db)))),
     s3_decode = (\<lambda>_. Inl (ExtErr ''no listing''))\<rparr>"

definition kept_tools :: "(string gomap \<times> string) db_tools" where
  "kept_tools = \<lparr>dt_dump = (\<lambda>_ (objects, db). (Inr db, (objects, db))), dt_replay = (\<lambda>_ sql (objects, _). (Inr (), (objects, sql))),
     dt_gzip = (\<lambda>s. CHR ''z'' # s), dt_gunzip = (\<lambda>s. if s = [] then Inl (ExtErr ''EOF'') else Inr (tl s, None)), dt_s3 = kept_bucket\<rparr>"

lemma kept_bucket_keeps: "keeps_objects kept_bucket"
  by (auto simp: keeps_objects_def kept_bucket_def update_conv' split: if_splits)

definition kept_creds :: database_credentials where
  "kept_creds = \<lparr>dc_url = ''postgres://u:p@db:5432/app'', dc_host = ''db'', dc_port = 5432, dc_user = ''u'', dc_password = ''p'',
     dc_database = ''app'', dc_sslmode = ''disable''\<rparr>"

definition kept_bucket_creds :: bucket_credentials where
  "kept_bucket_creds = \<lparr>bk_endpoint = ''https://s3.example/'', bk_access_key_id = ''id'', bk_secret_access_key = ''key'', bk_region = ''auto''\<rparr>"

definition kept_request :: "(string gomap \<times> string) database_request" where
  "kept_request = \<lparr>dq_name = ''app'', dq_full_name = ''nvoi-a-p-db-app'', dq_namespace = ''nvoi-a-p'', dq_pod_name = ''nvoi-a-p-db-app-0'',
     dq_pvc_name = ''nvoi-a-p-db-app'', dq_backup_name = ''nvoi-a-p-db-app-backup'', dq_credentials_secret = ''creds'',
     dq_backup_creds_secret = ''backup-creds'', dq_image = [], dq_labels = [],
     dq_spec = \<lparr>ds_engine = ''postgres'', ds_version = ''16'', ds_server = ''db'', ds_size = 10, ds_user = ''u'', ds_password = ''p'',
       ds_database = ''app'', ds_region = [], ds_backup = None\<rparr>,
     dq_bucket = None, dq_delete_volumes = False, dq_kube = None, dq_shell = None\<rparr>"

definition kept_secrets :: "string \<Rightarrow> string gomap option" where
  "kept_secrets s = (if s = ''creds'' then Some (credentials_data kept_creds)
     else if s = ''backup-creds'' then Some (BuildBackupCredsSecretData ''backups'' kept_bucket_creds) else None)"

definition kept_dump :: command where
  "kept_dump = \<lparr>cm_tool = ''pg_dump'', cm_args = [''--no-owner'', ''--no-acl'', ''--clean'', ''--if-exists''] @ pg_connection (image_creds kept_creds),
     cm_env = pgEnv (image_creds kept_creds)\<rparr>"

definition kept_restore :: command where
  "kept_restore = \<lparr>cm_tool = ''psql'', cm_args = [''-v'', ''ON_ERROR_STOP=1''] @ pg_connection (image_creds kept_creds),
     cm_env = pgEnv (image_creds kept_creds)\<rparr>"

lemma kept_facts:
  "job_secrets kept_request kept_creds ''backups'' kept_bucket_creds kept_secrets"
  "dumpCommand (ds_engine (dq_spec kept_request)) (image_creds kept_creds) = Inr kept_dump"
  "restoreCommand (ds_engine (dq_spec kept_request)) (image_creds kept_creds) = Inr kept_restore"
  "keeps_objects (dt_s3 kept_tools)"
  by (simp_all add: job_secrets_def kept_request_def kept_creds_def kept_bucket_creds_def kept_secrets_def trim_slashes_def
      dumpCommand_def restoreCommand_def kept_dump_def kept_restore_def kept_tools_def kept_bucket_keeps)

definition kept_put :: http_request where
  "kept_put = upload_request kept_tools ''backups'' kept_bucket_creds ''20250101T000000Z'' ''SELECT 1;''"

definition kept_world :: "string gomap \<times> string" where "kept_world = ([], ''SELECT 1;'')"
definition kept_after :: "string gomap \<times> string" where "kept_after = ([(hq_url kept_put, hq_body kept_put)], ''SELECT 1;'')"
definition kept_answer :: http_response where "kept_answer = \<lparr>hr_status = 200, hr_headers = [], hr_body = []\<rparr>"

lemma kept_clock: "s3_amz_date (dt_s3 kept_tools) w = ''20250101T000000Z''"
  by (simp add: kept_tools_def kept_bucket_def)

lemma kept_dumped: "dt_dump kept_tools kept_dump kept_world = (Inr ''SELECT 1;'', kept_world)"
  by (simp add: kept_tools_def kept_world_def)

lemma kept_zipped: "dt_gzip kept_tools out \<noteq> []" "dt_gunzip kept_tools (dt_gzip kept_tools out) = Inr (out, None)"
  by (simp_all add: kept_tools_def)

lemma kept_upload: "s3_send (dt_s3 kept_tools)
    (upload_request kept_tools ''backups'' kept_bucket_creds (s3_amz_date (dt_s3 kept_tools) kept_world) ''SELECT 1;'') kept_world =
  (Inr kept_answer, kept_after)" "hr_status kept_answer < 300"
proof -
  have send: "s3_send (dt_s3 kept_tools) req (objects, db) = (Inr kept_answer, (AList.update (hq_url req) (hq_body req) objects, db))"
    if "hq_method req = ''PUT''" for req objects db
    using that by (simp add: kept_tools_def kept_bucket_def kept_answer_def)
  show "s3_send (dt_s3 kept_tools)
      (upload_request kept_tools ''backups'' kept_bucket_creds (s3_amz_date (dt_s3 kept_tools) kept_world) ''SELECT 1;'') kept_world =
    (Inr kept_answer, kept_after)"
    unfolding kept_clock kept_world_def kept_after_def kept_put_def [symmetric]
    by (subst send) (simp_all add: kept_put_def)
qed (simp add: kept_answer_def)

lemma backup_job_uploads_witness:
  "run_job kept_tools kept_secrets (BuildBackupCronJob kept_request) kept_world = (Inr (), kept_after)"
  by (rule backup_job_uploads [OF kept_facts(1,2) kept_dumped kept_zipped(1) kept_upload])


end
