(* ===== verification/Xml.thy ===== *)
theory Xml
  imports Prelude
begin

text \<open>
  The part of \<open>encoding/xml\<close> that object storage travels through: elements and text, escaped as
  \<open>xml.EscapeText\<close> does, and read back. Attributes, comments and declarations are not read, and of the
  character references only those that the encoder writes.
\<close>

section \<open>Text\<close>

definition xml_escape_char :: "char \<Rightarrow> string" where
  "xml_escape_char c =
     (if c = CHR ''&'' then ''&amp;'' else if c = CHR ''<'' then ''&lt;'' else if c = CHR ''>'' then ''&gt;''
      else if c = CHR 0x22 then ''&#34;'' else if c = CHR 0x27 then ''&#39;'' else if c = CHR 0x09 then ''&#x9;''
      else if c = CHR 0x0A then ''&#xA;'' else if c = CHR 0x0D then ''&#xD;'' else [c])"

definition xml_escape :: "string \<Rightarrow> string" where
  "xml_escape s = concat (map xml_escape_char s)"

definition xml_entities :: "(string \<times> char) list" where
  "xml_entities = [(''amp;'', CHR ''&''), (''lt;'', CHR ''<''), (''gt;'', CHR ''>''), (''quot;'', CHR 0x22), (''apos;'', CHR 0x27),
     (''#34;'', CHR 0x22), (''#39;'', CHR 0x27), (''#x9;'', CHR 0x09), (''#xA;'', CHR 0x0A), (''#xD;'', CHR 0x0D)]"

text \<open>What follows an ampersand: the byte it stands for, and the rest.\<close>

definition xml_entity :: "string \<Rightarrow> (char \<times> string) option" where
  "xml_entity s = map_option (\<lambda>(e, c). (c, drop (length e) s)) (find (\<lambda>(e, c). has_prefix s e) xml_entities)"

lemma xml_entity_shorter: "xml_entity s = Some (c, r) \<Longrightarrow> length r < Suc (length s)"
  by (auto simp: xml_entity_def)

text \<open>Text up to the next tag; a carriage return is read as a newline.\<close>

function xml_text :: "string \<Rightarrow> (string \<times> string) option" where
  "xml_text s =
     (case s of
        [] \<Rightarrow> Some ([], [])
      | c # r \<Rightarrow>
          if c = CHR ''<'' then Some ([], s)
          else if c = CHR ''&''
          then (case xml_entity r of
              None \<Rightarrow> None
            | Some (d, r') \<Rightarrow> map_option (\<lambda>(t, rest). (d # t, rest)) (xml_text r'))
          else if c = CHR 0x0D
          then map_option (\<lambda>(t, rest). (CHR 0x0A # t, rest)) (xml_text (if has_prefix r [CHR 0x0A] then tl r else r))
          else map_option (\<lambda>(t, rest). (c # t, rest)) (xml_text r))"
  by pat_completeness auto
termination by (relation "measure length") (auto dest: xml_entity_shorter)

declare xml_text.simps [simp del]

text \<open>A text that ends at a tag or at the end of the input.\<close>

definition at_tag :: "string \<Rightarrow> bool" where
  "at_tag s \<longleftrightarrow> s = [] \<or> hd s = CHR ''<''"

lemma xml_text_at_tag: "at_tag rest \<Longrightarrow> xml_text rest = Some ([], rest)"
  by (cases rest) (auto simp: at_tag_def xml_text.simps [of "[]"] xml_text.simps [of "_ # _"])

lemma xml_text_char: "xml_text (xml_escape_char c @ s) = map_option (\<lambda>(t, r). (c # t, r)) (xml_text s)"
  by (auto simp: xml_escape_char_def xml_text.simps [of "_ # _"] xml_entity_def xml_entities_def has_prefix_def)

lemma xml_text_escape: "at_tag rest \<Longrightarrow> xml_text (xml_escape t @ rest) = Some (t, rest)"
  by (induction t) (simp_all add: xml_escape_def xml_text_at_tag xml_text_char)

text \<open>Text that needs no escaping.\<close>

definition xml_plain :: "string \<Rightarrow> bool" where
  "xml_plain k \<longleftrightarrow> k \<noteq> [] \<and> (\<forall>c \<in> set k. c \<noteq> CHR ''<'' \<and> c \<noteq> CHR ''&'' \<and> c \<noteq> CHR 0x0D)"

lemma xml_text_plain:
  assumes "xml_plain t" "at_tag rest"
  shows "xml_text (t @ rest) = Some (t, rest)"
proof -
  have "\<forall>c \<in> set s. c \<noteq> CHR ''<'' \<and> c \<noteq> CHR ''&'' \<and> c \<noteq> CHR 0x0D \<Longrightarrow> xml_text (s @ rest) = Some (s, rest)" for s
    by (induction s) (simp_all add: xml_text_at_tag assms(2) xml_text.simps [of "_ # _"])
  with assms(1) show ?thesis by (simp add: xml_plain_def)
qed

section \<open>Elements\<close>

datatype xml = Elem string "xml list" | Text string

definition end_tag :: "string \<Rightarrow> string" where "end_tag n = ''</'' @ n @ ''>''"

text \<open>What is written, with the way its text is written.\<close>

fun xml_write :: "(string \<Rightarrow> string) \<Rightarrow> xml \<Rightarrow> string" where
  "xml_write esc (Text t) = esc t"
| "xml_write esc (Elem n kids) = ''<'' @ n @ ''>'' @ concat (map (xml_write esc) kids) @ end_tag n"

definition tag_name :: "string \<Rightarrow> string" where
  "tag_name s = takeWhile (\<lambda>c. c \<noteq> CHR ''>'') (tl s)"

definition after_tag :: "string \<Rightarrow> string" where
  "after_tag s = tl (dropWhile (\<lambda>c. c \<noteq> CHR ''>'') (tl s))"

text \<open>
  The nodes up to an end tag or the end of the input, with a bound on the number of nodes; and as far as
  they can be read, whether what stopped the reading was an error or not.
\<close>

fun xml_nodes :: "nat \<Rightarrow> string \<Rightarrow> (xml list \<times> string) option" where
  "xml_nodes 0 s = None"
| "xml_nodes (Suc n) s =
     (if s = [] \<or> has_prefix s ''</'' then Some ([], s)
      else if hd s = CHR ''<'' then
        (case xml_nodes n (after_tag s) of
           None \<Rightarrow> None
         | Some (kids, r) \<Rightarrow>
             if has_prefix r (end_tag (tag_name s))
             then map_option (\<lambda>(more, r'). (Elem (tag_name s) kids # more, r')) (xml_nodes n (drop (length (end_tag (tag_name s))) r))
             else None)
      else
        (case xml_text s of
           None \<Rightarrow> None
         | Some (t, r) \<Rightarrow> map_option (\<lambda>(more, r'). (Text t # more, r')) (xml_nodes n r)))"

fun xml_readable :: "nat \<Rightarrow> string \<Rightarrow> xml list" where
  "xml_readable 0 s = []"
| "xml_readable (Suc n) s =
     (if s = [] \<or> has_prefix s ''</'' then []
      else if hd s = CHR ''<'' then
        (case xml_nodes n (after_tag s) of
           None \<Rightarrow> []
         | Some (kids, r) \<Rightarrow>
             if has_prefix r (end_tag (tag_name s))
             then Elem (tag_name s) kids # xml_readable n (drop (length (end_tag (tag_name s))) r) else [])
      else (case xml_text s of None \<Rightarrow> [] | Some (t, r) \<Rightarrow> Text t # xml_readable n r))"

text \<open>Nodes that are written and read back: names that can stand in a tag, texts that are not empty and not next to each other.\<close>

definition tag_ok :: "string \<Rightarrow> bool" where
  "tag_ok n \<longleftrightarrow> n \<noteq> [] \<and> hd n \<noteq> CHR ''/'' \<and> CHR ''>'' \<notin> set n"

fun xml_ok :: "(string \<Rightarrow> bool) \<Rightarrow> xml \<Rightarrow> bool" and xmls_ok :: "(string \<Rightarrow> bool) \<Rightarrow> xml list \<Rightarrow> bool" where
  "xml_ok good (Text t) = good t"
| "xml_ok good (Elem n kids) = (tag_ok n \<and> xmls_ok good kids)"
| "xmls_ok good [] = True"
| "xmls_ok good (x # xs) = (xml_ok good x \<and> xmls_ok good xs \<and> (case (x, xs) of (Text _, Text _ # _) \<Rightarrow> False | _ \<Rightarrow> True))"

fun xml_size :: "xml \<Rightarrow> nat" and xmls_size :: "xml list \<Rightarrow> nat" where
  "xml_size (Text t) = 1"
| "xml_size (Elem n kids) = Suc (xmls_size kids)"
| "xmls_size [] = 1"
| "xmls_size (x # xs) = Suc (xml_size x + xmls_size xs)"

definition at_end :: "string \<Rightarrow> bool" where
  "at_end s \<longleftrightarrow> s = [] \<or> has_prefix s ''</''"

text \<open>A way to write the texts that satisfy \<open>good\<close> so that they are read back.\<close>

definition writes :: "(string \<Rightarrow> bool) \<Rightarrow> (string \<Rightarrow> string) \<Rightarrow> bool" where
  "writes good esc \<longleftrightarrow> (\<forall>t rest. good t \<longrightarrow> at_tag rest \<longrightarrow>
     xml_text (esc t @ rest) = Some (t, rest) \<and> esc t \<noteq> [] \<and> hd (esc t) \<noteq> CHR ''<'')"

lemma writes_escape: "writes (\<lambda>t. t \<noteq> []) xml_escape"
proof -
  have "xml_escape_char c \<noteq> [] \<and> hd (xml_escape_char c) \<noteq> CHR ''<''" for c by (simp add: xml_escape_char_def)
  then have "xml_escape t \<noteq> [] \<and> hd (xml_escape t) \<noteq> CHR ''<''" if "t \<noteq> []" for t
    using that by (cases t) (auto simp: xml_escape_def)
  then show ?thesis by (simp add: writes_def xml_text_escape)
qed

lemma writes_plain: "writes xml_plain id"
  by (auto simp: writes_def xml_text_plain) (auto simp: xml_plain_def neq_Nil_conv)

lemma at_end_tag: "at_end rest \<Longrightarrow> at_tag rest"
  by (auto simp: at_end_def at_tag_def has_prefix_iff)

lemma start_tag:
  assumes "tag_ok n"
  shows "\<not> has_prefix (''<'' @ n @ ''>'' @ r) ''</''" "tag_name (''<'' @ n @ ''>'' @ r) = n" "after_tag (''<'' @ n @ ''>'' @ r) = r"
proof -
  have "takeWhile (\<lambda>c. c \<noteq> CHR ''>'') (n @ CHR ''>'' # r) = n" "dropWhile (\<lambda>c. c \<noteq> CHR ''>'') (n @ CHR ''>'' # r) = CHR ''>'' # r"
    if "CHR ''>'' \<notin> set n" for n using that by (induction n) auto
  then have stop: "takeWhile (\<lambda>c. c \<noteq> CHR ''>'') (n @ CHR ''>'' # r) = n" "dropWhile (\<lambda>c. c \<noteq> CHR ''>'') (n @ CHR ''>'' # r) = CHR ''>'' # r"
    using assms by (simp_all add: tag_ok_def)
  show "tag_name (''<'' @ n @ ''>'' @ r) = n" "after_tag (''<'' @ n @ ''>'' @ r) = r"
    by (simp_all add: tag_name_def after_tag_def stop)
  show "\<not> has_prefix (''<'' @ n @ ''>'' @ r) ''</''" using assms by (cases n) (auto simp: tag_ok_def has_prefix_def)
qed

lemma written_at_tag:
  assumes "xmls_ok good (Text t # more)" "at_end rest"
  shows "at_tag (concat (map (xml_write esc) more) @ rest)"
proof (cases more)
  case Nil
  then show ?thesis using at_end_tag [OF assms(2)] by simp
next
  case (Cons x xs)
  with assms(1) show ?thesis by (cases x) (auto simp: at_tag_def)
qed

lemma written_text:
  assumes "writes good esc" "xmls_ok good (Text t # more)" "at_end rest"
  shows "xml_text (esc t @ concat (map (xml_write esc) more) @ rest) = Some (t, concat (map (xml_write esc) more) @ rest)"
    and "esc t \<noteq> []" "hd (esc t) \<noteq> CHR ''<''" "\<not> has_prefix (esc t @ u) ''</''"
proof -
  from assms written_at_tag [OF assms(2,3), of esc]
  show t: "xml_text (esc t @ concat (map (xml_write esc) more) @ rest) = Some (t, concat (map (xml_write esc) more) @ rest)"
    "esc t \<noteq> []" "hd (esc t) \<noteq> CHR ''<''" unfolding writes_def by auto
  from t(2,3) show "\<not> has_prefix (esc t @ u) ''</''" by (cases "esc t") (auto simp: has_prefix_def)
qed

text \<open>What is written is read back.\<close>

lemma nodes_written:
  assumes "writes good esc"
  shows "xmls_ok good xs \<Longrightarrow> at_end rest \<Longrightarrow> xmls_size xs \<le> n \<Longrightarrow>
    xml_nodes n (concat (map (xml_write esc) xs) @ rest) = Some (xs, rest)"
proof (induction n arbitrary: xs rest)
  case 0
  then show ?case by (cases xs) simp_all
next
  case (Suc n)
  show ?case
  proof (cases xs)
    case Nil
    with Suc.prems(2) show ?thesis by (simp add: at_end_def)
  next
    case (Cons x more)
    with Suc.prems have more: "xml_nodes n (concat (map (xml_write esc) more) @ rest) = Some (more, rest)"
      by (intro Suc.IH) auto
    show ?thesis
    proof (cases x)
      case (Text t)
      from written_text [OF assms Suc.prems(1) [unfolded Cons Text] Suc.prems(2)] more show ?thesis by (simp add: Cons Text)
    next
      case (Elem nm kids)
      let ?r = "concat (map (xml_write esc) more) @ rest"
      from Suc.prems Cons Elem have ok: "tag_ok nm" "xmls_ok good kids" "xmls_size kids \<le> n" by auto
      have "xml_nodes n (concat (map (xml_write esc) kids) @ end_tag nm @ ?r) = Some (kids, end_tag nm @ ?r)"
        by (rule Suc.IH [OF ok(2) _ ok(3)]) (simp add: at_end_def end_tag_def has_prefix_def)
      with more start_tag [OF ok(1), of "concat (map (xml_write esc) kids) @ end_tag nm @ ?r"] show ?thesis
        by (simp add: Cons Elem)
    qed
  qed
qed

lemma readable_written:
  assumes "writes good esc"
  shows "xmls_ok good xs \<Longrightarrow> at_end rest \<Longrightarrow> xmls_size xs \<le> n \<Longrightarrow>
    xml_readable n (concat (map (xml_write esc) xs) @ rest) = xs"
proof (induction n arbitrary: xs rest)
  case 0
  then show ?case by (cases xs) simp_all
next
  case (Suc n)
  show ?case
  proof (cases xs)
    case Nil
    with Suc.prems(2) show ?thesis by (simp add: at_end_def)
  next
    case (Cons x more)
    with Suc.prems have more: "xml_readable n (concat (map (xml_write esc) more) @ rest) = more"
      by (intro Suc.IH) auto
    show ?thesis
    proof (cases x)
      case (Text t)
      from written_text [OF assms Suc.prems(1) [unfolded Cons Text] Suc.prems(2)] more show ?thesis by (simp add: Cons Text)
    next
      case (Elem nm kids)
      let ?r = "concat (map (xml_write esc) more) @ rest"
      from Suc.prems Cons Elem have ok: "tag_ok nm" "xmls_ok good kids" "xmls_size kids \<le> n" by auto
      have "xml_nodes n (concat (map (xml_write esc) kids) @ end_tag nm @ ?r) = Some (kids, end_tag nm @ ?r)"
        by (rule nodes_written [OF assms ok(2) _ ok(3)]) (simp add: at_end_def end_tag_def has_prefix_def)
      with more start_tag [OF ok(1), of "concat (map (xml_write esc) kids) @ end_tag nm @ ?r"] show ?thesis
        by (simp add: Cons Elem)
    qed
  qed
qed

end
