(* ===== verification/S3Ops.thy ===== *)
theory S3Ops
  imports S3 Xml
begin

text \<open>
  Operations on whole buckets (\<open>pkg/provider/s3ops\<close>): emptying one page by page, cross-origin rules and
  expiry. The locale \<open>s3_store\<close> states what emptying relies on: listings that show what is there, and
  deletions that reach the objects whose keys can stand in XML as they are.
\<close>

section \<open>Requests\<close>

definition bucket_request :: "string \<Rightarrow> bucket_credentials \<Rightarrow> string \<Rightarrow> string \<Rightarrow> string \<Rightarrow> http_request" where
  "bucket_request method creds bucket query body =
     \<lparr>hq_method = method, hq_url = bk_endpoint creds @ ''/'' @ bucket @ ''?'' @ query, hq_headers = xml_type, hq_body = body\<rparr>"

definition sign_with :: "bucket_credentials \<Rightarrow> string \<Rightarrow> http_request \<Rightarrow> http_request" where
  "sign_with creds amzDate req = Sign amzDate req (bk_access_key_id creds) (bk_secret_access_key creds) (bk_region creds)"

definition send_as :: "'w s3_env \<Rightarrow> bucket_credentials \<Rightarrow> http_request \<Rightarrow> ('w, http_response) act" where
  "send_as se creds req w = s3_send se (sign_with creds (s3_amz_date se w) req) w"

definition list_request :: "bucket_credentials \<Rightarrow> string \<Rightarrow> http_request" where
  "list_request creds bucket = bucket_request ''GET'' creds bucket ''list-type=2&max-keys=1000'' []"

text \<open>The keys are written into the body as they are.\<close>

definition delete_body :: "string list \<Rightarrow> string" where
  "delete_body keys = ''<Delete><Quiet>true</Quiet>'' @ concat (map (\<lambda>k. ''<Object><Key>'' @ k @ ''</Key></Object>'') keys) @ ''</Delete>''"

definition delete_request :: "bucket_credentials \<Rightarrow> string \<Rightarrow> string list \<Rightarrow> http_request" where
  "delete_request creds bucket keys = bucket_request ''POST'' creds bucket ''delete'' (delete_body keys)"

section \<open>Operations\<close>

partial_function (option) s3_EmptyBucket ::
    "'w s3_env \<Rightarrow> bucket_credentials \<Rightarrow> string \<Rightarrow> 'w \<Rightarrow> ((goerr + unit) \<times> 'w) option" where
  "s3_EmptyBucket se creds bucket w =
     (case send_as se creds (list_request creds bucket) w of
        (Inl e, w1) \<Rightarrow> Some (Inl e, w1)
      | (Inr resp, w1) \<Rightarrow>
          if hr_status resp = 404 then Some (Inr (), w1)
          else if hr_status resp \<ge> 300
          then Some (Inl (Errorf (''s3 list objects '' @ bucket) [itoa (hr_status resp), hr_body resp]), w1)
          else (case s3_decode se (hr_body resp) of
              Inl e \<Rightarrow> Some (Inl (Wrapf ''s3 parse list'' e), w1)
            | Inr l \<Rightarrow>
                if ls_objects l = [] then Some (Inr (), w1)
                else (case send_as se creds (delete_request creds bucket (map so_key (ls_objects l))) w1 of
                    (Inl e, w2) \<Rightarrow> Some (Inl e, w2)
                  | (Inr dresp, w2) \<Rightarrow>
                      if hr_status dresp \<ge> 300
                      then Some (Inl (Errorf (''s3 delete objects '' @ bucket) [itoa (hr_status dresp)]), w2)
                      else if \<not> ls_truncated l then Some (Inr (), w2)
                      else s3_EmptyBucket se creds bucket w2)))"

definition cors_body :: "string list \<Rightarrow> string list \<Rightarrow> string" where
  "cors_body origins methods =
     (let ms = (if methods = [] then [''GET'', ''PUT'', ''POST'', ''DELETE''] else methods)
      in ''<CORSConfiguration><CORSRule>''
         @ concat (map (\<lambda>o'. ''<AllowedOrigin>'' @ o' @ ''</AllowedOrigin>'') origins)
         @ concat (map (\<lambda>m. ''<AllowedMethod>'' @ m @ ''</AllowedMethod>'') ms)
         @ ''<AllowedHeader>*</AllowedHeader>'' @ ''<ExposeHeader>ETag</ExposeHeader>'' @ ''<MaxAgeSeconds>3600</MaxAgeSeconds>''
         @ ''</CORSRule></CORSConfiguration>'')"

definition bucket_done :: "string \<Rightarrow> string \<Rightarrow> (int \<Rightarrow> bool) \<Rightarrow> http_response \<Rightarrow> goerr + unit" where
  "bucket_done what bucket refused resp =
     (if refused (hr_status resp) then Inl (Errorf (what @ '' '' @ bucket) [itoa (hr_status resp), hr_body resp]) else Inr ())"

definition s3_SetCORS :: "'w s3_env \<Rightarrow> bucket_credentials \<Rightarrow> string \<Rightarrow> string list \<Rightarrow> string list \<Rightarrow> ('w, unit) act" where
  "s3_SetCORS se creds bucket origins methods =
     bindA (send_as se creds (bucket_request ''PUT'' creds bucket ''cors'' (cors_body origins methods))) (\<lambda>resp.
       readA (\<lambda>_. bucket_done ''s3 set cors'' bucket (\<lambda>s. s \<ge> 300) resp))"

definition s3_ClearCORS :: "'w s3_env \<Rightarrow> bucket_credentials \<Rightarrow> string \<Rightarrow> ('w, unit) act" where
  "s3_ClearCORS se creds bucket =
     bindA (send_as se creds (bucket_request ''DELETE'' creds bucket ''cors'' [])) (\<lambda>resp.
       readA (\<lambda>_. bucket_done ''s3 clear cors'' bucket (\<lambda>s. s \<ge> 300 \<and> s \<noteq> 404) resp))"

definition lifecycle_body :: "int \<Rightarrow> string" where
  "lifecycle_body expireDays = ''<LifecycleConfiguration>'' @ nl @ ''  <Rule>'' @ nl @ ''    <ID>nvoi-expire</ID>'' @ nl
     @ ''    <Status>Enabled</Status>'' @ nl @ ''    <Expiration><Days>'' @ itoa expireDays @ ''</Days></Expiration>'' @ nl
     @ ''  </Rule>'' @ nl @ ''</LifecycleConfiguration>''"

definition s3_SetLifecycle :: "'w s3_env \<Rightarrow> bucket_credentials \<Rightarrow> string \<Rightarrow> int \<Rightarrow> ('w, unit) act" where
  "s3_SetLifecycle se creds bucket expireDays =
     bindA (send_as se creds (bucket_request ''PUT'' creds bucket ''lifecycle'' (lifecycle_body expireDays))) (\<lambda>resp.
       readA (\<lambda>_. bucket_done ''s3 set lifecycle'' bucket (\<lambda>s. s \<ge> 300) resp))"

section \<open>Emptying\<close>

locale s3_store =
  fixes se :: "'w s3_env" and creds :: bucket_credentials and keys :: "string \<Rightarrow> 'w \<Rightarrow> string list option"
  assumes listed: "s3_send se (sign_with creds d (list_request creds b)) w = (r, w') \<Longrightarrow> keys b w' = keys b w"
    and listing: "s3_send se (sign_with creds d (list_request creds b)) w = (Inr resp, w') \<Longrightarrow> keys b w = Some ks \<Longrightarrow>
        hr_status resp \<noteq> 404 \<and>
        (hr_status resp < 300 \<longrightarrow> s3_decode se (hr_body resp) = Inr l \<longrightarrow>
           so_key ` set (ls_objects l) \<subseteq> set ks \<and> (ls_objects l = [] \<longrightarrow> ks = []) \<and>
           (\<not> ls_truncated l \<longrightarrow> so_key ` set (ls_objects l) = set ks))"
    and deleting: "s3_send se (sign_with creds d (delete_request creds b del)) w = (Inr resp, w') \<Longrightarrow> hr_status resp < 300 \<Longrightarrow>
        keys b w = Some ks \<Longrightarrow> (\<And>k. k \<in> set del \<Longrightarrow> xml_plain k) \<Longrightarrow>
        keys b w' = Some (filter (\<lambda>k. k \<notin> set del) ks)"
begin

text \<open>One turn of the loop: it returns, or goes on with fewer keys.\<close>

lemma turn:
  assumes "keys b w = Some ks" "\<forall>k \<in> set ks. xml_plain k"
  shows "(\<exists>r w'. s3_EmptyBucket se creds b w = Some (r, w') \<and> (r = Inr () \<longrightarrow> keys b w' = Some [])) \<or>
    (\<exists>w' ks'. s3_EmptyBucket se creds b w = s3_EmptyBucket se creds b w' \<and> keys b w' = Some ks' \<and>
       length ks' < length ks \<and> set ks' \<subseteq> set ks)"
proof -
  note unfold = s3_EmptyBucket.simps [of se creds b w]
  obtain r1 w1 where list: "send_as se creds (list_request creds b) w = (r1, w1)" by fastforce
  note list' = list [unfolded send_as_def]
  from listed [OF list'] assms(1) have k1: "keys b w1 = Some ks" by simp
  consider e where "r1 = Inl e" | resp where "r1 = Inr resp" "hr_status resp \<ge> 300"
    | resp e where "r1 = Inr resp" "hr_status resp < 300" "s3_decode se (hr_body resp) = Inl e"
    | resp l where "r1 = Inr resp" "hr_status resp < 300" "s3_decode se (hr_body resp) = Inr l" by (metis linorder_not_le sum.exhaust)
  then show ?thesis
  proof cases
    case (4 resp l)
    let ?del = "map so_key (ls_objects l)" and ?ks = "filter (\<lambda>k. k \<notin> set (map so_key (ls_objects l))) ks"
    from listing [OF list' [unfolded 4(1)] assms(1), of l] 4 have sub: "set ?del \<subseteq> set ks"
      and none: "ls_objects l = [] \<longrightarrow> ks = []" and all: "\<not> ls_truncated l \<longrightarrow> set ?del = set ks" and found: "hr_status resp \<noteq> 404" by auto
    obtain r2 w2 where del: "send_as se creds (delete_request creds b ?del) w1 = (r2, w2)" by fastforce
    consider "ls_objects l = []" | dresp where "ls_objects l \<noteq> []" "r2 = Inr dresp" "hr_status dresp < 300"
      | "ls_objects l \<noteq> []" "\<forall>dresp. r2 = Inr dresp \<longrightarrow> hr_status dresp \<ge> 300" by force
    then show ?thesis
    proof cases
      case 1
      with 4 found none k1 list show ?thesis by (subst unfold) simp
    next
      case (2 dresp)
      have "\<And>k. k \<in> set ?del \<Longrightarrow> xml_plain k" using sub assms(2) by blast
      from deleting [OF del [unfolded send_as_def 2(2)] 2(3) k1 this] have k2: "keys b w2 = Some ?ks" .
      obtain ob where "ob \<in> set (ls_objects l)" using 2(1) by (cases "ls_objects l") auto
      with sub have "length ?ks < length ks" by (intro length_filter_less [of "so_key ob"]) auto
      with 2 4 found list del k2 all show ?thesis
        by (cases "ls_truncated l") ((subst unfold, fastforce simp: filter_empty_conv)+)
    next
      case 3
      with 4 found list del show ?thesis by (subst unfold) (auto split: sum.splits)
    qed
  qed (use list listing [OF _ assms(1)] list' in \<open>subst unfold, auto\<close>)+
qed

lemma empties:
  assumes "keys b w = Some ks" "\<forall>k \<in> set ks. xml_plain k"
  shows "\<exists>r w'. s3_EmptyBucket se creds b w = Some (r, w') \<and> (r = Inr () \<longrightarrow> keys b w' = Some [])"
  using assms
proof (induction "length ks" arbitrary: ks w rule: less_induct)
  case less
  from turn [OF less.prems] show ?case
  proof (elim disjE exE conjE)
    fix w' ks'
    assume same: "s3_EmptyBucket se creds b w = s3_EmptyBucket se creds b w'" and k: "keys b w' = Some ks'"
      and len: "length ks' < length ks" and sub: "set ks' \<subseteq> set ks"
    from less.hyps [OF len k] sub less.prems(2) show ?thesis unfolding same by blast
  qed blast
qed

end

text \<open>
  A store that accepts deletions of objects it keeps, as one with retention does in quiet mode, and always
  has another page: the loop does not end.
\<close>

lemma retained_objects_loop:
  assumes "\<And>d. s3_send se (sign_with creds d (list_request creds b)) w = (Inr resp, w)" "hr_status resp < 300"
    and "s3_decode se (hr_body resp) = Inr l" "ls_objects l \<noteq> []" "ls_truncated l"
    and "\<And>d. s3_send se (sign_with creds d (delete_request creds b (map so_key (ls_objects l)))) w = (Inr dresp, w)"
    and "hr_status dresp < 300"
  shows "s3_EmptyBucket se creds b w = None"
proof -
  have "False" if run: "s3_EmptyBucket se creds b w = Some y" for y
  proof -
    have "\<not> (se = se \<and> creds = creds \<and> b = b \<and> w = w)"
    proof (rule s3_EmptyBucket.raw_induct [where P = "\<lambda>s c x v _. \<not> (s = se \<and> c = creds \<and> x = b \<and> v = w)", OF _ run], rule notI, goal_cases)
      case (1 loop s c x v z)
      from 1(3) have eq: "s = se" "c = creds" "x = b" "v = w" by auto
      from 1(2) [unfolded eq] assms have "loop se creds b w = Some z" by (simp add: send_as_def)
      with 1(1) show ?case by blast
    qed
    then show False by blast
  qed
  then show ?thesis by (cases "s3_EmptyBucket se creds b w") auto
qed

end
