(* ===== verification/Cloudflare.thy ===== *)
theory Cloudflare
  imports S3Ops Hetzner
begin

text \<open>
  Cloudflare behind the interfaces for DNS, buckets and tunnels (\<open>pkg/provider/cloudflare\<close>). The
  service is a record of its endpoints, as for Hetzner.
\<close>

section \<open>DNS\<close>

definition cf_NewAPI :: "string \<Rightarrow> api_client" where
  "cf_NewAPI label = \<lparr>ac_label = label, ac_classify = (\<lambda>_ _. None)\<rparr>"

record dns_record =
  dr_id :: string
  dr_type :: string
  dr_name :: string
  dr_content :: string
  dr_ttl :: int
  dr_proxied :: bool

text \<open>A listing of the records of a zone and a type, of one name or the first thousand.\<close>

record 'w zone_api =
  za_records :: "string \<Rightarrow> string \<Rightarrow> string option \<Rightarrow> 'w \<Rightarrow> api_fault + dns_record list"
  za_create :: "string \<Rightarrow> dns_record \<Rightarrow> ('w, unit) http"
  za_update :: "string \<Rightarrow> string \<Rightarrow> dns_record \<Rightarrow> ('w, unit) http"
  za_delete :: "string \<Rightarrow> string \<Rightarrow> ('w, unit) http"

record 'w dns_client =
  dn_api :: "'w zone_api"
  dn_key :: string
  dn_zone_id :: string
  dn_zone :: string

definition NewDNS :: "'w zone_api \<Rightarrow> string gomap \<Rightarrow> 'w dns_client" where
  "NewDNS api creds = \<lparr>dn_api = api, dn_key = get0 [] creds ''api_key'', dn_zone_id = get0 [] creds ''zone_id'', dn_zone = get0 [] creds ''zone''\<rparr>"

definition dns_http :: api_client where "dns_http = cf_NewAPI ''cloudflare dns''"

definition listed_name :: "'w dns_client \<Rightarrow> string \<Rightarrow> string" where
  "listed_name d name = (if name \<noteq> ''@'' \<and> name \<noteq> [] then name @ ''.'' @ dn_zone d else dn_zone d)"

definition listRecords :: "'w dns_client \<Rightarrow> string \<Rightarrow> string \<Rightarrow> 'w \<Rightarrow> goerr + dns_record list" where
  "listRecords d name rtype = get dns_http (za_records (dn_api d) (dn_zone_id d) rtype (Some (listed_name d name)))"

definition createRecord :: "'w dns_client \<Rightarrow> dns_record \<Rightarrow> ('w, unit) act" where
  "createRecord d r = send dns_http (za_create (dn_api d) (dn_zone_id d) r)"

definition updateRecord :: "'w dns_client \<Rightarrow> string \<Rightarrow> dns_record \<Rightarrow> ('w, unit) act" where
  "updateRecord d i r = send dns_http (za_update (dn_api d) (dn_zone_id d) i r)"

definition deleteRecord :: "'w dns_client \<Rightarrow> string \<Rightarrow> ('w, unit) act" where
  "deleteRecord d i = send dns_http (za_delete (dn_api d) (dn_zone_id d) i)"

definition dns_ValidateCredentials :: "'w dns_client \<Rightarrow> 'w \<Rightarrow> goerr + unit" where
  "dns_ValidateCredentials d w =
     (if dn_zone_id d = [] then Inl (Errorf ''cloudflare dns: zone_id is required'' [])
      else wrapR ''cloudflare dns'' (bindR (listRecords d ''@'' ''A'' w) (\<lambda>_. Inr ())))"

definition delete_all :: "'w dns_client \<Rightarrow> string \<Rightarrow> string \<Rightarrow> ('w, unit) act" where
  "delete_all d name rtype = bindA (readA (listRecords d name rtype)) (forA (\<lambda>r. deleteRecord d (dr_id r)))"

definition record_for :: "string \<Rightarrow> string \<Rightarrow> string \<Rightarrow> bool \<Rightarrow> dns_record" where
  "record_for rtype fqdn target proxied =
     \<lparr>dr_id = [], dr_type = rtype, dr_name = fqdn, dr_content = target, dr_ttl = 300, dr_proxied = proxied\<rparr>"

definition fqdn_of :: "'w dns_client \<Rightarrow> string \<Rightarrow> string" where
  "fqdn_of d name = (if name \<noteq> ''@'' then name @ ''.'' @ dn_zone d else dn_zone d)"

text \<open>Only the first of the records that exist is looked at.\<close>

definition dns_upsert :: "'w dns_client \<Rightarrow> string \<Rightarrow> string \<Rightarrow> string list \<Rightarrow> string \<Rightarrow> bool \<Rightarrow> ('w, unit) act" where
  "dns_upsert d name rtype conflicting target proxied =
     bindA (readA (listRecords d name rtype)) (\<lambda>existing.
       let wanted = record_for rtype (fqdn_of d name) target proxied in
       (case existing of
          rec # _ \<Rightarrow>
            if dr_content rec = target \<and> dr_proxied rec = proxied then retA ()
            else updateRecord d (dr_id rec) wanted
        | [] \<Rightarrow> thenA (forA (delete_all d name) conflicting) (createRecord d wanted)))"

definition ensureCNAME :: "'w dns_client \<Rightarrow> string \<Rightarrow> string \<Rightarrow> bool \<Rightarrow> ('w, unit) act" where
  "ensureCNAME d domain = dns_upsert d (RecordName domain (dn_zone d)) ''CNAME'' [''A'', ''AAAA'']"

definition ensureAddress :: "'w dns_client \<Rightarrow> string \<Rightarrow> string \<Rightarrow> bool \<Rightarrow> ('w, unit) act" where
  "ensureAddress d domain target = dns_upsert d (RecordName domain (dn_zone d)) (RecordType target) [''CNAME''] target"

definition RouteTo :: "'w dns_client \<Rightarrow> string \<Rightarrow> ingress_binding \<Rightarrow> ('w, unit) act" where
  "RouteTo d domain binding =
     (if ib_type binding \<in> {''A'', ''AAAA'', []} then ensureAddress d domain (ib_target binding) (ib_proxied binding)
      else if ib_type binding = ''CNAME'' then ensureCNAME d domain (ib_target binding) (ib_proxied binding)
      else failA (Errorf ''cloudflare dns: unsupported DNSType'' [ib_type binding]))"

definition Unroute :: "'w dns_client \<Rightarrow> string \<Rightarrow> ('w, unit) act" where
  "Unroute d domain = forA (delete_all d (RecordName domain (dn_zone d))) [''A'', ''AAAA'', ''CNAME'']"

definition zone_records :: "'w dns_client \<Rightarrow> string list \<Rightarrow> 'w \<Rightarrow> goerr + dns_record list" where
  "zone_records d types w =
     map_sum id concat (mapR (\<lambda>rtype. get dns_http (za_records (dn_api d) (dn_zone_id d) rtype None) w) types)"

definition ListBindings :: "'w dns_client \<Rightarrow> 'w \<Rightarrow> goerr + dns_binding list" where
  "ListBindings d w =
     map_sum id (map (\<lambda>r. \<lparr>db_domain = dr_name r, db_type = dr_type r, db_target = dr_content r\<rparr>)) (zone_records d [''A'', ''AAAA''] w)"

definition dns_ListResources :: "'w dns_client \<Rightarrow> 'w \<Rightarrow> goerr + resource_group list" where
  "dns_ListResources d w =
     map_sum id (\<lambda>rs. [\<lparr>rg_name = ''DNS Records'', rg_columns = [''Type'', ''Domain'', ''Target''],
       rg_rows = map (\<lambda>r. [dr_type r, dr_name r, dr_content r]) rs\<rparr>]) (zone_records d [''A'', ''AAAA'', ''CNAME''] w)"

definition cloudflare_dns :: "'w dns_client \<Rightarrow> 'w dns_provider" where
  "cloudflare_dns d = \<lparr>dp_route = RouteTo d, dp_unroute = Unroute d, dp_list = ListBindings d\<rparr>"

section \<open>Buckets\<close>

record 'w bucket_api =
  ba_token :: "'w \<Rightarrow> api_fault + string"
  ba_create :: "string \<Rightarrow> string \<Rightarrow> ('w, unit) http"
  ba_delete :: "string \<Rightarrow> string \<Rightarrow> ('w, unit) http"
  ba_list :: "string \<Rightarrow> 'w \<Rightarrow> api_fault + string list"

text \<open>\<open>bt_creds\<close> is what an earlier call has cached.\<close>

record 'w bucket_client =
  bt_api :: "'w bucket_api"
  bt_key :: string
  bt_account :: string
  bt_creds :: "bucket_credentials option"
  bt_endpoint :: string

definition NewBucket :: "'w bucket_api \<Rightarrow> string gomap \<Rightarrow> 'w bucket_client" where
  "NewBucket api creds = \<lparr>bt_api = api, bt_key = get0 [] creds ''api_key'', bt_account = get0 [] creds ''account_id'',
     bt_creds = None, bt_endpoint = []\<rparr>"

definition SetS3EndpointOverride :: "string \<Rightarrow> 'w bucket_client \<Rightarrow> 'w bucket_client" where
  "SetS3EndpointOverride url c = c\<lparr>bt_endpoint := url, bt_creds := None\<rparr>"

definition r2_http :: api_client where "r2_http = cf_NewAPI ''cloudflare r2''"

definition tokenVerify :: "'w bucket_client \<Rightarrow> 'w \<Rightarrow> goerr + string" where
  "tokenVerify c w = bindR (get r2_http (ba_token (bt_api c)) w) (\<lambda>i. if i = [] then Inl (Errorf ''invalid API token'' []) else Inr i)"

definition bucket_ValidateCredentials :: "'w bucket_client \<Rightarrow> 'w \<Rightarrow> goerr + unit" where
  "bucket_ValidateCredentials c w =
     (if bt_key c = [] then Inl (Errorf ''cloudflare r2: api_key is required'' [])
      else if bt_account c = [] then Inl (Errorf ''cloudflare r2: account_id is required'' [])
      else wrapR ''cloudflare r2'' (bindR (tokenVerify c w) (\<lambda>_. Inr ())))"

definition r2_endpoint :: "'w bucket_client \<Rightarrow> string" where
  "r2_endpoint c = (if bt_endpoint c \<noteq> [] then bt_endpoint c else ''https://'' @ bt_account c @ ''.r2.cloudflarestorage.com'')"

definition r2_credentials :: "'w bucket_client \<Rightarrow> string \<Rightarrow> bucket_credentials" where
  "r2_credentials c tokenID = \<lparr>bk_endpoint = r2_endpoint c, bk_access_key_id = tokenID, bk_secret_access_key = sha256_hex (bt_key c),
     bk_region = ''auto''\<rparr>"

definition Credentials :: "'w bucket_client \<Rightarrow> 'w \<Rightarrow> goerr + bucket_credentials" where
  "Credentials c w =
     (case bt_creds c of
        Some cr \<Rightarrow> Inr cr
      | None \<Rightarrow> bindR (wrapR ''cloudflare credentials'' (tokenVerify c w)) (\<lambda>tokenID. Inr (r2_credentials c tokenID)))"

definition EnsureBucket :: "'w bucket_client \<Rightarrow> string \<Rightarrow> ('w, unit) act" where
  "EnsureBucket c name w =
     (case ba_create (bt_api c) (bt_account c) name w of
        (Inl fault, w') \<Rightarrow>
          (case fault of
             Refused status body \<Rightarrow>
               if status = 409 then (Inr (), w') else (Inl (Wrapf (''create bucket '' @ name) (http_error r2_http fault)), w')
           | Transport e \<Rightarrow> (Inl (Wrapf (''create bucket '' @ name) (http_error r2_http fault)), w'))
      | (Inr _, w') \<Rightarrow> (Inr (), w'))"

definition DeleteBucket :: "'w bucket_client \<Rightarrow> string \<Rightarrow> ('w, unit) act" where
  "DeleteBucket c name w =
     (case send r2_http (ba_delete (bt_api c) (bt_account c) name) w of
        (Inl e, w') \<Rightarrow> (Inl (if IsNotFound e then ErrNotFound else Wrapf (''delete bucket '' @ name) e), w')
      | r \<Rightarrow> r)"

definition EmptyBucket :: "'w s3_env \<Rightarrow> 'w bucket_client \<Rightarrow> string \<Rightarrow> 'w \<Rightarrow> ((goerr + unit) \<times> 'w) option" where
  "EmptyBucket se c name w = (case Credentials c w of Inl e \<Rightarrow> Some (Inl e, w) | Inr cr \<Rightarrow> s3_EmptyBucket se cr name w)"

definition SetCORS :: "'w s3_env \<Rightarrow> 'w bucket_client \<Rightarrow> string \<Rightarrow> string list \<Rightarrow> string list \<Rightarrow> ('w, unit) act" where
  "SetCORS se c name origins methods = bindA (readA (Credentials c)) (\<lambda>cr. s3_SetCORS se cr name origins methods)"

definition ClearCORS :: "'w s3_env \<Rightarrow> 'w bucket_client \<Rightarrow> string \<Rightarrow> ('w, unit) act" where
  "ClearCORS se c name = bindA (readA (Credentials c)) (\<lambda>cr. s3_ClearCORS se cr name)"

definition SetLifecycle :: "'w s3_env \<Rightarrow> 'w bucket_client \<Rightarrow> string \<Rightarrow> int \<Rightarrow> ('w, unit) act" where
  "SetLifecycle se c name expireDays = bindA (readA (Credentials c)) (\<lambda>cr. s3_SetLifecycle se cr name expireDays)"

definition ListBuckets :: "'w bucket_client \<Rightarrow> 'w \<Rightarrow> goerr + string list" where
  "ListBuckets c = get r2_http (ba_list (bt_api c) (bt_account c))"

definition bucket_ListResources :: "'w bucket_client \<Rightarrow> 'w \<Rightarrow> goerr + resource_group list" where
  "bucket_ListResources c w =
     map_sum id (\<lambda>names. [\<lparr>rg_name = ''R2 Buckets'', rg_columns = [''Name''], rg_rows = map (\<lambda>n. [n]) names\<rparr>]) (ListBuckets c w)"

section \<open>Tunnels\<close>

record cf_tunnel =
  tu_id :: string
  tu_name :: string
  tu_status :: string

record ingress_rule =
  ir_hostname :: string
  ir_service :: string

text \<open>A listing of the tunnels that are not deleted, of one name or all; creation answers with the id.\<close>

record 'w tunnel_api =
  ta_list :: "string \<Rightarrow> string option \<Rightarrow> 'w \<Rightarrow> api_fault + cf_tunnel list"
  ta_create :: "string \<Rightarrow> string \<Rightarrow> string \<Rightarrow> ('w, string) http"
  ta_token :: "string \<Rightarrow> string \<Rightarrow> 'w \<Rightarrow> api_fault + string"
  ta_config :: "string \<Rightarrow> string \<Rightarrow> ingress_rule list \<Rightarrow> ('w, unit) http"
  ta_delete :: "string \<Rightarrow> string \<Rightarrow> ('w, unit) http"
  ta_disconnect :: "string \<Rightarrow> string \<Rightarrow> ('w, unit) http"

record 'w tunnel_client =
  tc_api :: "'w tunnel_api"
  tc_account :: string

definition NewClient :: "'w tunnel_api \<Rightarrow> string gomap \<Rightarrow> 'w tunnel_client" where
  "NewClient api creds = \<lparr>tc_api = api, tc_account = get0 [] creds ''account_id''\<rparr>"

definition tunnel_http :: api_client where "tunnel_http = cf_NewAPI ''cloudflare tunnel''"

definition tunnel_ValidateCredentials :: "'w tunnel_client \<Rightarrow> 'w \<Rightarrow> goerr + unit" where
  "tunnel_ValidateCredentials c w =
     (if tc_account c = [] then Inl (Errorf ''cloudflare tunnel: account_id is required'' [])
      else bindR (get tunnel_http (ta_list (tc_api c) (tc_account c) None) w) (\<lambda>_. Inr ()))"

definition findTunnel :: "'w tunnel_client \<Rightarrow> string \<Rightarrow> 'w \<Rightarrow> goerr + string" where
  "findTunnel c name w =
     bindR (get tunnel_http (ta_list (tc_api c) (tc_account c) (Some name)) w) (\<lambda>ts.
       Inr (case find (\<lambda>t. tu_name t = name) ts of Some t \<Rightarrow> tu_id t | None \<Rightarrow> []))"

definition createTunnel :: "'w tunnel_client \<Rightarrow> string \<Rightarrow> ('w, string) act" where
  "createTunnel c name = send tunnel_http (ta_create (tc_api c) (tc_account c) name ''cloudflare'')"

definition fetchToken :: "'w tunnel_client \<Rightarrow> string \<Rightarrow> 'w \<Rightarrow> goerr + string" where
  "fetchToken c i = get tunnel_http (ta_token (tc_api c) (tc_account c) i)"

definition ingress_rules :: "tunnel_route list \<Rightarrow> ingress_rule list" where
  "ingress_rules routes =
     map (\<lambda>r. \<lparr>ir_hostname = tr_hostname r,
       ir_service = (if tr_scheme r = [] then ''http'' else tr_scheme r) @ ''://'' @ tr_service r @ '':'' @ itoa (tr_port r)\<rparr>) routes
     @ [\<lparr>ir_hostname = [], ir_service = ''http_status:404''\<rparr>]"

definition pushConfig :: "'w tunnel_client \<Rightarrow> string \<Rightarrow> tunnel_route list \<Rightarrow> ('w, unit) act" where
  "pushConfig c i routes = send tunnel_http (ta_config (tc_api c) (tc_account c) i (ingress_rules routes))"

definition deleteConnections :: "'w tunnel_client \<Rightarrow> string \<Rightarrow> ('w, unit) act" where
  "deleteConnections c i = send tunnel_http (ta_disconnect (tc_api c) (tc_account c) i)"

definition cf_AgentImage :: string where "cf_AgentImage = ''cloudflare/cloudflared:2024.8.3''"
definition cf_AgentName :: string where "cf_AgentName = ''cloudflared''"
definition cf_AgentSecretName :: string where "cf_AgentSecretName = ''cloudflared-token''"
definition cf_agentReplicas :: "32 word" where "cf_agentReplicas = 2"

definition cf_buildSecret :: "string \<Rightarrow> string gomap \<Rightarrow> kobj" where
  "cf_buildSecret token labels = kobj_of cf_AgentSecretName [] labels (SecretBody [] [(''token'', token)])"

definition cf_agent :: pod_container where
  "cf_agent = \<lparr>ct_name = cf_AgentName, ct_image = cf_AgentImage, ct_command = [],
     ct_args = [''tunnel'', ''run'', ''--token'', ''$(TUNNEL_TOKEN)''],
     ct_env = [\<lparr>ev_name = ''TUNNEL_TOKEN'', ev_value = [], ev_secret_ref = Some (cf_AgentSecretName, ''token'')\<rparr>],
     ct_env_from = [], ct_ports = [], ct_mounts = [], ct_probe = None,
     ct_requests = [(''cpu'', ''50m''), (''memory'', ''64Mi'')], ct_limits = [(''cpu'', ''200m''), (''memory'', ''128Mi'')]\<rparr>"

definition cf_buildDeployment :: "string gomap \<Rightarrow> kobj" where
  "cf_buildDeployment labels = kobj_of cf_AgentName [] labels
     (DeploymentBody cf_agentReplicas DefaultStrategy [(LabelAppName, cf_AgentName)]
       \<lparr>pt_labels = [(LabelAppName, cf_AgentName)], pt_annotations = [],
         pt_spec = \<lparr>ps_restart_policy = [], ps_containers = [cf_agent], ps_volumes = [], ps_pull_secrets = [], ps_node_selector = [],
           ps_node_affinity = None,
           ps_preferred = [(100, [\<lparr>nr_key = LabelNvoiRole, nr_operator = ''In'', nr_values = [RoleMaster]\<rparr>])],
           ps_spread = [], ps_tolerations = []\<rparr>\<rparr>)"

definition cf_BuildWorkloads :: "string \<Rightarrow> string gomap \<Rightarrow> kobj list" where
  "cf_BuildWorkloads token labels = [cf_buildSecret token labels, cf_buildDeployment labels]"

text \<open>The bindings are a map: of two routes with one hostname there is one binding.\<close>

definition cname_target :: "string \<Rightarrow> string" where "cname_target i = i @ ''.cfargotunnel.com''"

definition cname_bindings :: "string \<Rightarrow> tunnel_route list \<Rightarrow> ingress_binding gomap" where
  "cname_bindings i routes =
     foldl (\<lambda>m r. AList.update (tr_hostname r) \<lparr>ib_type = ''CNAME'', ib_target = cname_target i, ib_proxied = True\<rparr> m) [] routes"

definition ensure_tunnel :: "'w tunnel_client \<Rightarrow> string \<Rightarrow> ('w, string) act" where
  "ensure_tunnel c name =
     bindA (wrapA ''cloudflare tunnel find'' (readA (findTunnel c name))) (\<lambda>i.
       if i = [] then wrapA ''cloudflare tunnel create'' (createTunnel c name) else retA i)"

definition tunnel_Reconcile :: "'w tunnel_client \<Rightarrow> tunnel_request \<Rightarrow> ('w, tunnel_plan) act" where
  "tunnel_Reconcile c req =
     bindA (ensure_tunnel c (tq_name req)) (\<lambda>i.
     bindA (wrapA ''cloudflare tunnel token'' (readA (fetchToken c i))) (\<lambda>token.
     thenA (wrapA ''cloudflare tunnel config'' (pushConfig c i (tq_routes req)))
       (retA \<lparr>tp_workloads = cf_BuildWorkloads token (tq_labels req), tp_bindings = cname_bindings i (tq_routes req)\<rparr>)))"

definition tunnel_Delete :: "'w tunnel_client \<Rightarrow> string \<Rightarrow> ('w, unit) act" where
  "tunnel_Delete c name =
     bindA (wrapA ''cloudflare tunnel find'' (readA (findTunnel c name))) (\<lambda>i.
       if i = [] then retA ()
       else thenA (wrapA ''cloudflare tunnel connections delete'' (tolerate IsNotFound (deleteConnections c i)))
            (wrapA ''cloudflare tunnel delete'' (tolerate IsNotFound (send tunnel_http (ta_delete (tc_api c) (tc_account c) i)))))"

definition tunnel_ListResources :: "'w tunnel_client \<Rightarrow> 'w \<Rightarrow> goerr + resource_group list" where
  "tunnel_ListResources c w =
     map_sum id (\<lambda>ts. [\<lparr>rg_name = ''Cloudflare Tunnels'', rg_columns = [''ID'', ''Name'', ''Status''],
       rg_rows = map (\<lambda>t. [tu_id t, tu_name t, tu_status t]) ts\<rparr>]) (get tunnel_http (ta_list (tc_api c) (tc_account c) None) w)"

definition cloudflare_tunnel :: "'w tunnel_client \<Rightarrow> 'w tunnel_provider" where
  "cloudflare_tunnel c = \<lparr>tn_reconcile = tunnel_Reconcile c, tn_delete = tunnel_Delete c\<rparr>"

end
