(* ===== verification/CloudflareLaws.thy ===== *)
theory CloudflareLaws
  imports Cloudflare
begin

text \<open>
  What routing a domain through Cloudflare leaves behind. The locale \<open>dns_zone\<close> states what the
  client relies on: listings by type and name, creations, updates in place and deletions.
\<close>

section \<open>Names\<close>

lemma RecordName_nonempty: "domain \<noteq> [] \<Longrightarrow> RecordName domain zone \<noteq> []"
  by (auto simp: RecordName_def Let_def)

lemma listed_fqdn: "name \<noteq> [] \<Longrightarrow> listed_name d name = fqdn_of d name"
  by (simp add: listed_name_def fqdn_of_def)

definition in_zone :: "string \<Rightarrow> string \<Rightarrow> bool" where
  "in_zone domain zone \<longleftrightarrow> domain = zone \<or> (\<exists>sub. domain = sub @ ''.'' @ zone \<and> sub \<notin> {[], ''@''})"

lemma fqdn_in_zone: "in_zone domain (dn_zone d) \<Longrightarrow> fqdn_of d (RecordName domain (dn_zone d)) = domain"
  by (auto simp: in_zone_def fqdn_of_def RecordName_sub simp del: append_Cons)

section \<open>The records of a zone\<close>

definition untimed :: "dns_record \<Rightarrow> dns_record" where "untimed r = r\<lparr>dr_ttl := 0\<rparr>"

lemma untimed_simps [simp]:
  "dr_id (untimed r) = dr_id r" "dr_type (untimed r) = dr_type r" "dr_name (untimed r) = dr_name r"
  "dr_content (untimed r) = dr_content r" "dr_proxied (untimed r) = dr_proxied r"
  by (simp_all add: untimed_def)

definition of_type :: "string list \<Rightarrow> string \<Rightarrow> dns_record \<Rightarrow> bool" where
  "of_type types n r \<longleftrightarrow> dr_name r = n \<and> dr_type r \<in> set types"

lemma filter_by_id:
  assumes "distinct (map f xs)"
  shows "filter (\<lambda>x. f x \<notin> f ` set (filter P xs)) xs = filter (\<lambda>x. \<not> P x) xs"
proof (rule filter_cong [OF refl])
  fix x assume "x \<in> set xs"
  with assms show "(f x \<notin> f ` set (filter P xs)) = (\<not> P x)" by (auto simp: distinct_map inj_on_def)
qed

lemma filter_replace_first:
  assumes "distinct (map f xs)" "filter P xs = y # ys" "P z" "f z = f y"
  shows "filter P (map (\<lambda>x. if f x = f y then z else x) xs) = z # ys"
    and "filter (\<lambda>x. \<not> P x) (map (\<lambda>x. if f x = f y then z else x) xs) = filter (\<lambda>x. \<not> P x) xs"
proof -
  obtain us vs where xs: "xs = us @ y # vs" "\<forall>u \<in> set us. \<not> P u" "P y" "ys = filter P vs"
    using assms(2) by (auto simp: filter_eq_Cons_iff)
  let ?g = "\<lambda>x. if f x = f y then z else x"
  have "map ?g us = us" "map ?g vs = vs" using assms(1) unfolding xs by (auto intro!: map_idI simp: image_iff)
  then show "filter P (map ?g xs) = z # ys" "filter (\<lambda>x. \<not> P x) (map ?g xs) = filter (\<lambda>x. \<not> P x) xs"
    using xs assms(3) by simp_all
qed

lemma of_type_Cons: "of_type (t # ts) n r \<longleftrightarrow> of_type [t] n r \<or> of_type ts n r"
  by (auto simp: of_type_def)

lemma single_of_type:
  assumes "length (filter (of_type (t # ts) n) xs) \<le> 1" "filter (of_type [t] n) xs = r # rs"
  shows "filter (of_type (t # ts) n) xs = [r]" "rs = []"
proof -
  have sub: "filter (of_type [t] n) (filter (of_type (t # ts) n) xs) = filter (of_type [t] n) xs"
    by (auto simp: of_type_Cons [of t ts] intro: filter_cong)
  with assms obtain x where "filter (of_type (t # ts) n) xs = [x]"
    by (cases "filter (of_type (t # ts) n) xs") auto
  with sub assms(2) show "filter (of_type (t # ts) n) xs = [r]" "rs = []" by (auto split: if_splits)
qed

text \<open>The type of record a binding gets, and the types that exclude it.\<close>

definition routed_type :: "ingress_binding \<Rightarrow> string" where
  "routed_type b = (if ib_type b = ''CNAME'' then ''CNAME'' else RecordType (ib_target b))"

definition rivals :: "ingress_binding \<Rightarrow> string list" where
  "rivals b = (if ib_type b = ''CNAME'' then [''A'', ''AAAA''] else [''CNAME''])"

lemma routed_type_not_rival: "routed_type b \<notin> set (rivals b)"
  by (simp add: routed_type_def rivals_def RecordType_def)

lemma routed_types_nonempty: "[] \<notin> set (routed_type b # rivals b)"
  by (simp add: routed_type_def rivals_def RecordType_def)

lemma RouteTo_upsert:
  assumes "RouteTo d domain b w = (Inr (), w')"
  shows "dns_upsert d (RecordName domain (dn_zone d)) (routed_type b) (rivals b) (ib_target b) (ib_proxied b) w = (Inr (), w')"
  using assms
  by (auto simp: RouteTo_def ensureAddress_def ensureCNAME_def routed_type_def rivals_def failA_def split: if_splits)

locale dns_zone =
  fixes d :: "'w dns_client" and records :: "'w \<Rightarrow> dns_record list"
  assumes listed: "za_records (dn_api d) (dn_zone_id d) t (Some n) w = Inr rs \<Longrightarrow> t \<noteq> [] \<Longrightarrow> n \<noteq> [] \<Longrightarrow>
      map untimed rs = filter (\<lambda>r. dr_type r = t \<and> dr_name r = n) (records w)"
    and created: "za_create (dn_api d) (dn_zone_id d) r w = (Inr (), w') \<Longrightarrow>
      \<exists>i. records w' = records w @ [r\<lparr>dr_id := i, dr_ttl := 0\<rparr>]"
    and updated: "za_update (dn_api d) (dn_zone_id d) i r w = (Inr (), w') \<Longrightarrow>
      records w' = map (\<lambda>x. if dr_id x = i then r\<lparr>dr_id := i, dr_ttl := 0\<rparr> else x) (records w)"
    and deleted: "za_delete (dn_api d) (dn_zone_id d) i w = (Inr (), w') \<Longrightarrow> records w' = filter (\<lambda>x. dr_id x \<noteq> i) (records w)"
begin

lemma deletes:
  "forA (\<lambda>r. deleteRecord d (dr_id r)) rs w = (Inr (), w') \<Longrightarrow>
    records w' = filter (\<lambda>x. dr_id x \<notin> dr_id ` set rs) (records w)"
proof (induction rs arbitrary: w)
  case (Cons r rs)
  from Cons.prems obtain w1 where "deleteRecord d (dr_id r) w = (Inr (), w1)"
    and rest: "forA (\<lambda>r. deleteRecord d (dr_id r)) rs w1 = (Inr (), w')" by (auto simp: thenA_Inr)
  then have "records w1 = filter (\<lambda>x. dr_id x \<noteq> dr_id r) (records w)" by (simp add: deleteRecord_def send_Inr deleted)
  with Cons.IH [OF rest] show ?case by (auto simp: intro: filter_cong)
qed simp

lemma found:
  "listRecords d name t w = Inr rs \<Longrightarrow> t \<noteq> [] \<Longrightarrow> listed_name d name \<noteq> [] \<Longrightarrow>
    map untimed rs = filter (of_type [t] (listed_name d name)) (records w)"
  unfolding listRecords_def get_Inr by (drule listed) (auto simp: of_type_def intro: filter_cong)

lemma deletes_type:
  assumes "delete_all d name t w = (Inr (), w')" "distinct (map dr_id (records w))" "t \<noteq> []" "listed_name d name \<noteq> []"
  shows "records w' = filter (\<lambda>r. \<not> of_type [t] (listed_name d name) r) (records w)"
proof -
  from assms(1) obtain rs where rs: "listRecords d name t w = Inr rs"
    and del: "forA (\<lambda>r. deleteRecord d (dr_id r)) rs w = (Inr (), w')"
    by (auto simp: delete_all_def bindA_read)
  have "dr_id ` set rs = dr_id ` set (map untimed rs)" by (simp add: image_image)
  with found [OF rs assms(3,4)] have "dr_id ` set rs = dr_id ` set (filter (of_type [t] (listed_name d name)) (records w))" by simp
  with deletes [OF del] filter_by_id [OF assms(2)] show ?thesis by simp
qed

lemma deletes_types:
  "forA (delete_all d name) ts w = (Inr (), w') \<Longrightarrow> distinct (map dr_id (records w)) \<Longrightarrow>
    [] \<notin> set ts \<Longrightarrow> listed_name d name \<noteq> [] \<Longrightarrow> records w' = filter (\<lambda>r. \<not> of_type ts (listed_name d name) r) (records w)"
proof (induction ts arbitrary: w)
  case Nil
  then show ?case by (simp add: of_type_def)
next
  case (Cons t ts)
  from Cons.prems(1) obtain w1 where one: "delete_all d name t w = (Inr (), w1)"
    and rest: "forA (delete_all d name) ts w1 = (Inr (), w')" by (auto simp: thenA_Inr)
  from Cons.prems(3) have "t \<noteq> []" "[] \<notin> set ts" by auto
  note w1 = deletes_type [OF one Cons.prems(2) this(1) Cons.prems(4)]
  with Cons.prems(2) have "distinct (map dr_id (records w1))" by (simp add: distinct_map_filter)
  from Cons.IH [OF rest this \<open>[] \<notin> set ts\<close> Cons.prems(4)] show ?case unfolding w1 by (auto simp: of_type_def intro: filter_cong)
qed


text \<open>
  The record a route asks for. Afterwards it is the first of its type under the name; where there was
  none, no record of a conflicting type is left; every other record is as it was.
\<close>

lemma upserted:
  assumes run: "dns_upsert d name rtype conflicting target proxied w = (Inr (), w')"
    and ids: "distinct (map dr_id (records w))" and name: "name \<noteq> []" "fqdn_of d name \<noteq> []"
    and types: "[] \<notin> set (rtype # conflicting)"
  defines "n \<equiv> fqdn_of d name"
  obtains (kept) r rs where "w' = w" "filter (of_type [rtype] n) (records w) = r # rs" "dr_content r = target" "dr_proxied r = proxied"
  | (replaced) r r' rs where "filter (of_type [rtype] n) (records w) = r # rs"
      "filter (of_type [rtype] n) (records w') = r' # rs" "dr_content r' = target" "dr_proxied r' = proxied"
      "filter (\<lambda>x. \<not> of_type [rtype] n x) (records w') = filter (\<lambda>x. \<not> of_type [rtype] n x) (records w)"
  | (added) r where "filter (of_type [rtype] n) (records w) = []" "of_type [rtype] n r" "dr_content r = target" "dr_proxied r = proxied"
      "records w' = filter (\<lambda>x. \<not> of_type conflicting n x) (records w) @ [r]"
proof -
  from run obtain existing where ex: "listRecords d name rtype w = Inr existing"
    and rest: "(case existing of rec # _ \<Rightarrow>
            if dr_content rec = target \<and> dr_proxied rec = proxied then retA ()
            else updateRecord d (dr_id rec) (record_for rtype n target proxied)
        | [] \<Rightarrow> thenA (forA (delete_all d name) conflicting) (createRecord d (record_for rtype n target proxied))) w = (Inr (), w')"
    using run unfolding dns_upsert_def bindA_read Let_def n_def by blast
  from types have "rtype \<noteq> []" "[] \<notin> set conflicting" by auto
  from found [OF ex this(1)] name have recs: "map untimed existing = filter (of_type [rtype] n) (records w)" by (simp add: listed_fqdn n_def)
  show thesis
  proof (cases existing)
    case Nil
    with rest obtain w1 where del: "forA (delete_all d name) conflicting w = (Inr (), w1)"
      and make: "createRecord d (record_for rtype n target proxied) w1 = (Inr (), w')" by (auto simp: thenA_Inr)
    from make have "za_create (dn_api d) (dn_zone_id d) (record_for rtype n target proxied) w1 = (Inr (), w')"
      by (simp add: createRecord_def send_Inr)
    from created [OF this] obtain i where "records w' = records w1 @ [(record_for rtype n target proxied)\<lparr>dr_id := i, dr_ttl := 0\<rparr>]"
 ..
    with deletes_types [OF del ids \<open>[] \<notin> set conflicting\<close>] name Nil recs show thesis
      by (intro added [of "(record_for rtype n target proxied)\<lparr>dr_id := i, dr_ttl := 0\<rparr>"])
         (simp_all add: listed_fqdn n_def record_for_def of_type_def)
  next
    case (Cons rec more)
    show thesis
    proof (cases "dr_content rec = target \<and> dr_proxied rec = proxied")
      case True
      with Cons rest recs show thesis by (intro kept [of "untimed rec" "map untimed more"]) auto
    next
      case False
      let ?r = "(record_for rtype n target proxied)\<lparr>dr_id := dr_id rec, dr_ttl := 0\<rparr>"
      from rest have "updateRecord d (dr_id rec) (record_for rtype n target proxied) w = (Inr (), w')"
        unfolding Cons list.case if_not_P [OF False] .
      then have upd: "records w' = map (\<lambda>x. if dr_id x = dr_id (untimed rec) then ?r else x) (records w)"
        by (simp add: updateRecord_def send_Inr updated)
      have first: "filter (of_type [rtype] n) (records w) = untimed rec # map untimed more" using recs Cons by simp
      note swap = filter_replace_first [OF ids first, of ?r, folded upd]
      show thesis by (rule replaced [OF first swap(1) _ _ swap(2)]) (simp_all add: record_for_def of_type_def)
    qed
  qed
qed


lemma route_once:
  assumes run: "RouteTo d domain b w = (Inr (), w')" and dom: "in_zone domain (dn_zone d)" "domain \<noteq> []"
    and ids: "distinct (map dr_id (records w))"
    and one: "length (filter (of_type (routed_type b # rivals b) domain) (records w)) \<le> 1"
  shows "\<exists>r. filter (of_type (routed_type b # rivals b) domain) (records w') = [r] \<and> dr_type r = routed_type b \<and>
      dr_content r = ib_target b \<and> dr_proxied r = ib_proxied b"
    and "filter (\<lambda>x. \<not> of_type (routed_type b # rivals b) domain x) (records w') =
      filter (\<lambda>x. \<not> of_type (routed_type b # rivals b) domain x) (records w)"
proof -
  let ?t = "routed_type b" and ?ts = "rivals b" and ?n = domain
  have name: "RecordName domain (dn_zone d) \<noteq> []" "fqdn_of d (RecordName domain (dn_zone d)) \<noteq> []"
    by (simp_all add: RecordName_nonempty fqdn_in_zone dom)
  note cases = upserted [OF RouteTo_upsert [OF run] ids name routed_types_nonempty, unfolded fqdn_in_zone [OF dom(1)]]
  have "(\<exists>r. filter (of_type (?t # ?ts) ?n) (records w') = [r] \<and> dr_type r = ?t \<and> dr_content r = ib_target b \<and> dr_proxied r = ib_proxied b) \<and>
      filter (\<lambda>x. \<not> of_type (?t # ?ts) ?n x) (records w') = filter (\<lambda>x. \<not> of_type (?t # ?ts) ?n x) (records w)"
  proof (rule cases, goal_cases)
    case (1 r rs)
    have "r \<in> set (filter (of_type [?t] ?n) (records w))" using 1 by simp
    then have "dr_type r = ?t" by (simp add: of_type_def)
    with single_of_type [OF one 1(2)] 1 show ?case by simp
  next
    case (2 r r' rs)
    note one' = single_of_type [OF one 2(1)]
    have none: "\<forall>x \<in> set (filter (\<lambda>x. \<not> of_type [?t] ?n x) (records w)). \<not> of_type ?ts ?n x"
    proof (rule ballI, rule notI)
      fix x assume that: "x \<in> set (filter (\<lambda>x. \<not> of_type [?t] ?n x) (records w))" and "of_type ?ts ?n x"
      then have "x \<in> set (filter (of_type (?t # ?ts) ?n) (records w))" by (simp add: of_type_Cons [of ?t ?ts])
      moreover have "r \<in> set (filter (of_type [?t] ?n) (records w))" using 2(1) by simp
      ultimately show False using one'(1) that by auto
    qed
    have same: "filter (of_type (?t # ?ts) ?n) (records w') = filter (of_type [?t] ?n) (records w')"
      using none unfolding 2(5) [symmetric] by (auto simp: of_type_Cons [of ?t ?ts] intro!: filter_cong)
    have other: "filter (\<lambda>x. \<not> of_type (?t # ?ts) ?n x) xs = filter (\<lambda>x. \<not> of_type ?ts ?n x) (filter (\<lambda>x. \<not> of_type [?t] ?n x) xs)" for xs
      by (auto simp: of_type_Cons [of ?t ?ts] intro: filter_cong)
    have "r' \<in> set (filter (of_type [?t] ?n) (records w'))" using 2(2) by simp
    then have "dr_type r' = ?t" by (simp add: of_type_def)
    with 2 one'(2) show ?case unfolding same other by simp
  next
    case (3 r)
    then have "filter (of_type (?t # ?ts) ?n) (records w') = [r]"
      by (auto simp: of_type_Cons [of ?t ?ts] filter_empty_conv)
    with 3 show ?case by (auto simp: of_type_Cons [of ?t ?ts] of_type_def intro: filter_cong)
  qed
  then show "\<exists>r. filter (of_type (?t # ?ts) ?n) (records w') = [r] \<and> dr_type r = ?t \<and> dr_content r = ib_target b \<and> dr_proxied r = ib_proxied b"
    and "filter (\<lambda>x. \<not> of_type (?t # ?ts) ?n x) (records w') = filter (\<lambda>x. \<not> of_type (?t # ?ts) ?n x) (records w)"
    by simp_all
qed


text \<open>Routing again changes nothing; only its listing may still fail.\<close>

lemma route_again:
  assumes run: "RouteTo d domain b w = (Inr (), w')" and dom: "in_zone domain (dn_zone d)" "domain \<noteq> []"
    and ids: "distinct (map dr_id (records w))"
  shows "RouteTo d domain b w' = (Inr (), w') \<or>
    (\<exists>e. listRecords d (RecordName domain (dn_zone d)) (routed_type b) w' = Inl e)"
proof -
  let ?name = "RecordName domain (dn_zone d)"
  let ?t = "routed_type b" and ?n = "fqdn_of d ?name"
  have name: "?name \<noteq> []" "?n \<noteq> []" by (simp_all add: RecordName_nonempty fqdn_in_zone dom)
  have "\<exists>r rs. filter (of_type [?t] ?n) (records w') = r # rs \<and> dr_content r = ib_target b \<and> dr_proxied r = ib_proxied b"
  proof (rule upserted [OF RouteTo_upsert [OF run] ids name routed_types_nonempty], goal_cases)
    case (3 r)
    then have "filter (of_type [?t] ?n) (records w') = [r]" by (auto simp: filter_empty_conv)
    with 3 show ?case by simp
  qed simp_all
  then obtain r rs where first: "filter (of_type [?t] ?n) (records w') = r # rs" "dr_content r = ib_target b" "dr_proxied r = ib_proxied b"
    by blast
  have same: "RouteTo d domain b = dns_upsert d ?name ?t (rivals b) (ib_target b) (ib_proxied b)"
    using run by (auto simp: RouteTo_def ensureAddress_def ensureCNAME_def routed_type_def rivals_def failA_def split: if_splits)
  show ?thesis
  proof (cases "listRecords d ?name ?t w'")
    case (Inl e)
    then show ?thesis by blast
  next
    case (Inr existing)
    have "?t \<noteq> []" using routed_types_nonempty [of b] by auto
    from found [OF Inr this] first(1) name have "map untimed existing = r # rs" by (simp add: listed_fqdn)
    then obtain rec more where "existing = rec # more" "untimed rec = r" by (cases existing) auto
    with first(2,3) Inr show ?thesis unfolding same by (auto simp: dns_upsert_def bindA_read_at)
  qed
qed

lemma unrouted:
  assumes "Unroute d domain w = (Inr (), w')" "in_zone domain (dn_zone d)" "domain \<noteq> []" "distinct (map dr_id (records w))"
  shows "records w' = filter (\<lambda>r. \<not> of_type [''A'', ''AAAA'', ''CNAME''] domain r) (records w)"
proof -
  have listed: "listed_name d (RecordName domain (dn_zone d)) = domain"
    by (simp add: listed_fqdn RecordName_nonempty fqdn_in_zone assms)
  from deletes_types [OF assms(1) [unfolded Unroute_def] assms(4)] assms(3) show ?thesis by (simp add: listed)
qed

end

text \<open>Of two records of the type, the second stays as it was, whatever it points to.\<close>

lemma second_address_stays:
  assumes "za_records (dn_api d) (dn_zone_id d) (RecordType target) (Some (fqdn_of d (RecordName domain (dn_zone d)))) w = Inr (first # others)"
    and "dr_content first = target" "dr_proxied first = proxied" "domain \<noteq> []"
  shows "RouteTo d domain \<lparr>ib_type = ''A'', ib_target = target, ib_proxied = proxied\<rparr> w = (Inr (), w)"
  using assms
  by (simp add: RouteTo_def ensureAddress_def dns_upsert_def bindA_read_at listRecords_def listed_fqdn RecordName_nonempty get_def)

end
