(* ===== verification/CloudflareFake.thy ===== *)
theory CloudflareFake
  imports CloudflareLaws
begin

text \<open>
  The stateful Cloudflare the repository tests its clients against (\<open>internal/testutil/cloudflarefake.go\<close>,
  \<open>cloudflaretunnelfake.go\<close>): DNS records, buckets and tunnels. Go maps are association lists in the
  order of creation; paths and JSON bodies are read by the typed endpoints, and what a fake records of a
  request that only reads is left out.
\<close>

section \<open>State\<close>

record cf_fake =
  cw_zone_id :: string
  cw_zone :: string
  cw_account :: string
  cw_token :: string
  cw_seq :: int
  cw_records :: "dns_record list"
  cw_buckets :: "(string \<times> string gomap) list"
  cw_ops :: "string list"
  cw_err_on :: "string gomap"

definition NewCloudflareFake :: cf_fake where
  "NewCloudflareFake = \<lparr>cw_zone_id = ''Z1'', cw_zone = ''myapp.com'', cw_account = ''testacct'', cw_token = ''test-token-id'',
     cw_seq = 0, cw_records = [], cw_buckets = [], cw_ops = [], cw_err_on = []\<rparr>"

definition cf_Record :: "string \<Rightarrow> cf_fake \<Rightarrow> string option \<times> cf_fake" where
  "cf_Record op f = (map_of (cw_err_on f) op, f\<lparr>cw_ops := cw_ops f @ [op]\<rparr>)"

definition cf_recorded :: "string \<Rightarrow> (cf_fake, 'a) http \<Rightarrow> (cf_fake, 'a) http" where
  "cf_recorded op h f = (case cf_Record op f of (Some err, f') \<Rightarrow> (Inl (Refused 500 err), f') | (None, f') \<Rightarrow> h f')"

section \<open>DNS\<close>

definition add_record :: "dns_record \<Rightarrow> cf_fake \<Rightarrow> cf_fake" where
  "add_record r f = f\<lparr>cw_seq := cw_seq f + 1, cw_records := cw_records f @ [r\<lparr>dr_id := ''rec-'' @ itoa (cw_seq f + 1)\<rparr>]\<rparr>"

definition SeedDNSRecord :: "string \<Rightarrow> string \<Rightarrow> string \<Rightarrow> cf_fake \<Rightarrow> cf_fake" where
  "SeedDNSRecord fqdn ip rtype =
     add_record \<lparr>dr_id = [], dr_type = rtype, dr_name = fqdn, dr_content = ip, dr_ttl = 0, dr_proxied = False\<rparr>"

definition handleDNSList :: "string \<Rightarrow> string \<Rightarrow> string \<Rightarrow> cf_fake \<Rightarrow> api_fault + dns_record list" where
  "handleDNSList zoneID rtype name f =
     Inr (filter (\<lambda>r. (name = [] \<or> dr_name r = name) \<and> (rtype = [] \<or> dr_type r = rtype)) (cw_records f))"

definition handleDNSCreate :: "string \<Rightarrow> dns_record \<Rightarrow> (cf_fake, unit) http" where
  "handleDNSCreate zoneID body = cf_recorded (''ensure-dns:'' @ dr_name body) (\<lambda>f. (Inr (), add_record body f))"

definition handleDNSUpdate :: "string \<Rightarrow> dns_record \<Rightarrow> (cf_fake, unit) http" where
  "handleDNSUpdate i body f =
     (if \<exists>r \<in> set (cw_records f). dr_id r = i
      then (Inr (), snd (cf_Record (''ensure-dns:'' @ dr_name body) (f\<lparr>cw_records :=
             map (\<lambda>r. if dr_id r = i
                      then r\<lparr>dr_type := dr_type body, dr_name := dr_name body, dr_content := dr_content body, dr_proxied := dr_proxied body\<rparr>
                      else r) (cw_records f)\<rparr>)))
      else (Inl (Refused 404 ''record not found''), f))"

definition handleDNSDelete :: "string \<Rightarrow> (cf_fake, unit) http" where
  "handleDNSDelete i f =
     (case find (\<lambda>r. dr_id r = i) (cw_records f) of
        None \<Rightarrow> (Inl (Refused 404 ''record not found''), f)
      | Some r \<Rightarrow> cf_recorded (''delete-dns:'' @ dr_name r)
          (\<lambda>f. (Inr (), f\<lparr>cw_records := filter (\<lambda>r. dr_id r \<noteq> i) (cw_records f)\<rparr>)) f)"

definition fake_zone_api :: "cf_fake zone_api" where
  "fake_zone_api = \<lparr>za_records = (\<lambda>z t n. handleDNSList z t (case n of None \<Rightarrow> [] | Some x \<Rightarrow> x)), za_create = handleDNSCreate,
     za_update = (\<lambda>z. handleDNSUpdate), za_delete = (\<lambda>z. handleDNSDelete)\<rparr>"

text \<open>\<open>RegisterDNS\<close>: the client that tests get, whose credentials override those of the fake.\<close>

definition put_over :: "string gomap \<Rightarrow> string gomap \<Rightarrow> string gomap" where
  "put_over defaults creds = foldl (\<lambda>m (k, v). AList.update k v m) defaults creds"

definition RegisterDNS_fake :: "cf_fake \<Rightarrow> string gomap \<Rightarrow> cf_fake dns_client" where
  "RegisterDNS_fake f creds =
     NewDNS fake_zone_api (put_over [(''api_key'', ''test''), (''zone_id'', cw_zone_id f), (''zone'', cw_zone f)] creds)"

definition fake_dns :: "string \<Rightarrow> cf_fake dns_client" where
  "fake_dns zone = \<lparr>dn_api = fake_zone_api, dn_key = ''test'', dn_zone_id = ''Z1'', dn_zone = zone\<rparr>"

lemma RegisterDNS_NewCloudflareFake: "RegisterDNS_fake NewCloudflareFake [] = fake_dns ''myapp.com''"
  by (simp add: RegisterDNS_fake_def NewDNS_def put_over_def NewCloudflareFake_def fake_dns_def get0_def)

definition untimed_records :: "cf_fake \<Rightarrow> dns_record list" where
  "untimed_records f = map untimed (cw_records f)"

interpretation cf: dns_zone "fake_dns zone" untimed_records for zone
proof
  show "za_update (dn_api (fake_dns zone)) (dn_zone_id (fake_dns zone)) i r w = (Inr (), w') \<Longrightarrow>
      untimed_records w' = map (\<lambda>x. if dr_id x = i then r\<lparr>dr_id := i, dr_ttl := 0\<rparr> else x) (untimed_records w)" for i r w w'
    by (auto simp: fake_dns_def fake_zone_api_def handleDNSUpdate_def cf_Record_def untimed_records_def untimed_def split: if_splits)
  show "za_delete (dn_api (fake_dns zone)) (dn_zone_id (fake_dns zone)) i w = (Inr (), w') \<Longrightarrow>
      untimed_records w' = filter (\<lambda>x. dr_id x \<noteq> i) (untimed_records w)" for i w w'
    by (auto simp: fake_dns_def fake_zone_api_def handleDNSDelete_def cf_recorded_def cf_Record_def untimed_records_def filter_map o_def
        split: option.splits)
  show "za_create (dn_api (fake_dns zone)) (dn_zone_id (fake_dns zone)) r w = (Inr (), w') \<Longrightarrow>
      \<exists>i. untimed_records w' = untimed_records w @ [r\<lparr>dr_id := i, dr_ttl := 0\<rparr>]" for r w w'
    by (auto simp: fake_dns_def fake_zone_api_def handleDNSCreate_def cf_recorded_def cf_Record_def untimed_records_def untimed_def
        add_record_def split: option.splits)
  show "za_records (dn_api (fake_dns zone)) (dn_zone_id (fake_dns zone)) t (Some n) w = Inr rs \<Longrightarrow>
      t \<noteq> [] \<Longrightarrow> n \<noteq> [] \<Longrightarrow> map untimed rs = filter (\<lambda>r. dr_type r = t \<and> dr_name r = n) (untimed_records w)" for t n w rs
    by (auto simp: fake_dns_def fake_zone_api_def handleDNSList_def untimed_records_def filter_map o_def conj_commute
        intro!: arg_cong [where f = "map untimed"] filter_cong)
qed

lemma of_type_untimed [simp]: "of_type ts n (untimed r) \<longleftrightarrow> of_type ts n r"
  by (simp add: of_type_def)

lemma filter_untimed: "filter (of_type ts n) (untimed_records f) = map untimed (filter (of_type ts n) (cw_records f))"
  by (simp add: untimed_records_def filter_map o_def)

lemma untimed_ids: "map dr_id (untimed_records f) = map dr_id (cw_records f)"
  by (simp add: untimed_records_def o_def)


lemma route_keeps_others:
  assumes "RouteTo (fake_dns zone) domain b f = (Inr (), f')" "in_zone domain zone" "domain \<noteq> []"
    and "distinct (map dr_id (cw_records f))" "length (filter (of_type (routed_type b # rivals b) domain) (cw_records f)) \<le> 1"
  shows "filter (\<lambda>x. \<not> of_type (routed_type b # rivals b) domain x) (untimed_records f') =
    filter (\<lambda>x. \<not> of_type (routed_type b # rivals b) domain x) (untimed_records f)"
proof -
  have "in_zone domain (dn_zone (fake_dns zone))" using assms(2) by (simp add: fake_dns_def)
  from cf.route_once(2) [OF assms(1) this assms(3)] assms(4,5) show ?thesis by (simp add: untimed_ids filter_untimed)
qed

text \<open> Routing a domain a second time succeeds and changes nothing, not even the log of the service.\<close>

theorem route_idempotent:
  assumes "RouteTo (fake_dns zone) domain b f = (Inr (), f')" "in_zone domain zone" "domain \<noteq> []"
    and "distinct (map dr_id (cw_records f))"
  shows "RouteTo (fake_dns zone) domain b f' = (Inr (), f')"
proof -
  have zone: "in_zone domain (dn_zone (fake_dns zone))" using assms(2) by (simp add: fake_dns_def)
  have never: "\<not> listRecords (fake_dns zone) n t f' = Inl e" for n t e
    by (simp add: listRecords_def fake_dns_def fake_zone_api_def handleDNSList_def)
  from cf.route_again [OF assms(1) zone assms(3)] assms(4) never show ?thesis by (auto simp: untimed_ids)
qed

text \<open> Taking a domain out of DNS leaves none of its records, and every other record as it was.\<close>

theorem unroute_clears_domain:
  assumes "Unroute (fake_dns zone) domain f = (Inr (), f')" "in_zone domain zone" "domain \<noteq> []"
    and "distinct (map dr_id (cw_records f))"
  shows "untimed_records f' = filter (\<lambda>r. \<not> of_type [''A'', ''AAAA'', ''CNAME''] domain r) (untimed_records f)"
  using cf.unrouted [OF assms(1)] assms(2-) by (simp add: untimed_ids fake_dns_def)

definition routed_fake :: cf_fake where
  "routed_fake = SeedDNSRecord ''api.myapp.com'' ''1.2.3.4'' ''A'' (SeedDNSRecord ''myapp.com'' ''1.2.3.4'' ''A'' NewCloudflareFake)"

definition tunnel_binding :: ingress_binding where
  "tunnel_binding = \<lparr>ib_type = ''CNAME'', ib_target = ''t1.cfargotunnel.com'', ib_proxied = True\<rparr>"

definition routed_fake' :: cf_fake where
  "routed_fake' = snd (RouteTo (fake_dns ''myapp.com'') ''api.myapp.com'' tunnel_binding routed_fake)"

lemma routed_fake_facts:
  "in_zone ''api.myapp.com'' ''myapp.com''" "''api.myapp.com'' \<noteq> []" "distinct (map dr_id (cw_records routed_fake))"
  "length (filter (of_type (routed_type tunnel_binding # rivals tunnel_binding) ''api.myapp.com'') (cw_records routed_fake)) \<le> 1"
  "RouteTo (fake_dns ''myapp.com'') ''api.myapp.com'' tunnel_binding routed_fake = (Inr (), routed_fake')"
  "Unroute (fake_dns ''myapp.com'') ''api.myapp.com'' routed_fake = (Inr (), snd (Unroute (fake_dns ''myapp.com'') ''api.myapp.com'' routed_fake))"
proof -
  show "in_zone ''api.myapp.com'' ''myapp.com''" unfolding in_zone_def by (intro disjI2 exI [of _ "''api''"]) simp
  show "''api.myapp.com'' \<noteq> []" "distinct (map dr_id (cw_records routed_fake))"
    "length (filter (of_type (routed_type tunnel_binding # rivals tunnel_binding) ''api.myapp.com'') (cw_records routed_fake)) \<le> 1"
    by code_simp+
  have "fst (RouteTo (fake_dns ''myapp.com'') ''api.myapp.com'' tunnel_binding routed_fake) = Inr ()" by code_simp
  then show "RouteTo (fake_dns ''myapp.com'') ''api.myapp.com'' tunnel_binding routed_fake = (Inr (), routed_fake')"
    by (simp add: routed_fake'_def prod_eq_iff)
  have "fst (Unroute (fake_dns ''myapp.com'') ''api.myapp.com'' routed_fake) = Inr ()" by code_simp
  then show "Unroute (fake_dns ''myapp.com'') ''api.myapp.com'' routed_fake =
      (Inr (), snd (Unroute (fake_dns ''myapp.com'') ''api.myapp.com'' routed_fake))"
    by (simp add: prod_eq_iff)
qed


lemma route_idempotent_witness:
  "RouteTo (fake_dns ''myapp.com'') ''api.myapp.com'' tunnel_binding routed_fake' = (Inr (), routed_fake')"
  by (rule route_idempotent [OF routed_fake_facts(5,1,2,3)])

lemma unroute_clears_domain_witness:
  "untimed_records (snd (Unroute (fake_dns ''myapp.com'') ''api.myapp.com'' routed_fake)) =
    filter (\<lambda>r. \<not> of_type [''A'', ''AAAA'', ''CNAME''] ''api.myapp.com'' r) (untimed_records routed_fake)"
  by (rule unroute_clears_domain [OF routed_fake_facts(6,1,2,3)])

end
