(* ===== verification/S3Fake.thy ===== *)
theory S3Fake
  imports CloudflareFake
begin

text \<open>
  The bucket side of the Cloudflare fake (\<open>internal/testutil/cloudflarefake.go\<close>): buckets, their objects
  and the XML that the S3 requests carry; and what emptying a bucket leaves.
\<close>

section \<open>Bodies\<close>

text \<open>The text of the last child of a name, which is what \<open>xml.Unmarshal\<close> leaves in a field.\<close>

definition text_of :: "xml list \<Rightarrow> string" where
  "text_of kids = concat (map (\<lambda>x. case x of Text t \<Rightarrow> t | Elem _ _ \<Rightarrow> []) kids)"

definition children :: "string \<Rightarrow> xml list \<Rightarrow> xml list list" where
  "children name kids = List.map_filter (\<lambda>x. case x of Elem n ks \<Rightarrow> if n = name then Some ks else None | Text _ \<Rightarrow> None) kids"

definition child_text :: "string \<Rightarrow> xml list \<Rightarrow> string" where
  "child_text name kids = (case children name kids of [] \<Rightarrow> [] | ks \<Rightarrow> text_of (last ks))"

definition xml_fuel :: "string \<Rightarrow> nat" where "xml_fuel s = 2 * length s + 1"

definition read_object :: "xml list \<Rightarrow> s3_object" where
  "read_object kids = \<lparr>so_key = child_text ''Key'' kids, so_last_modified = child_text ''LastModified'' kids,
     so_size = fst (atoi (child_text ''Size'' kids))\<rparr>"

definition read_listing :: "string \<Rightarrow> goerr + s3_listing" where
  "read_listing body =
     (case xml_nodes (xml_fuel body) body of
        Some (Elem root kids # _, _) \<Rightarrow>
          Inr \<lparr>ls_objects = map read_object (children ''Contents'' kids), ls_truncated = (child_text ''IsTruncated'' kids = ''true''),
               ls_continuation = child_text ''NextContinuationToken'' kids\<rparr>
      | _ \<Rightarrow> Inl (ExtErr ''EOF''))"

definition text_node :: "string \<Rightarrow> xml list" where "text_node t = (if t = [] then [] else [Text t])"

definition object_xml :: "string \<times> string \<Rightarrow> xml" where
  "object_xml = (\<lambda>(k, body). Elem ''Contents'' [Elem ''Key'' (text_node k), Elem ''Size'' [Text (itoa (int (length body)))],
     Elem ''LastModified'' [Text ''2024-01-01T00:00:00Z'']])"

definition listing_xml :: "string gomap \<Rightarrow> xml" where
  "listing_xml objects = Elem ''ListBucketResult'' (map object_xml objects @ [Elem ''IsTruncated'' [Text ''false'']])"

text \<open>The keys of a deletion, as far as its body can be read.\<close>

definition delete_keys :: "string \<Rightarrow> string list" where
  "delete_keys body =
     (if has_prefix body ''<Delete>''
      then map (child_text ''Key'') (children ''Object'' (xml_readable (xml_fuel body) (after_tag body)))
      else [])"

section \<open>Requests\<close>

definition answer :: "int \<Rightarrow> string \<Rightarrow> http_response" where
  "answer status body = \<lparr>hr_status = status, hr_headers = [], hr_body = body\<rparr>"

definition handleS3List :: "string \<Rightarrow> cf_fake \<Rightarrow> http_response \<times> cf_fake" where
  "handleS3List bucket f =
     (case cf_Record (''empty-bucket:'' @ bucket) f of
        (Some err, f') \<Rightarrow> (answer 500 (''<Error><Message>'' @ err @ ''</Message></Error>''), f')
      | (None, f') \<Rightarrow>
          (case map_of (cw_buckets f') bucket of
             None \<Rightarrow> (answer 404 [], f')
           | Some objects \<Rightarrow> (answer 200 (xml_write xml_escape (listing_xml objects)), f')))"

definition handleS3Delete :: "string \<Rightarrow> string \<Rightarrow> cf_fake \<Rightarrow> http_response \<times> cf_fake" where
  "handleS3Delete bucket body f =
     (case map_of (cw_buckets f) bucket of
        None \<Rightarrow> (answer 404 [], f)
      | Some objects \<Rightarrow>
          (answer 200 ''<DeleteResult/>'',
           f\<lparr>cw_buckets := AList.update bucket (filter (\<lambda>(k, _). k \<notin> set (delete_keys body)) objects) (cw_buckets f)\<rparr>))"

definition s3_noted :: "string \<Rightarrow> int \<Rightarrow> cf_fake \<Rightarrow> http_response \<times> cf_fake" where
  "s3_noted op status f = (answer status [], snd (cf_Record op f))"

text \<open>The S3 requests of \<open>serve\<close>; their paths match none of the paths before them.\<close>

definition s3_serve :: "http_request \<Rightarrow> cf_fake \<Rightarrow> http_response \<times> cf_fake" where
  "s3_serve req f =
     (let path = url_path (hq_url req);
          bucket = (if has_prefix path ''/'' then tl path else path);
          has = (\<lambda>op. op \<in> fst ` set (query_parse (url_raw_query (hq_url req)))) in
      if hq_method req = ''GET'' \<and> has_prefix path ''/'' \<and> length path > 1 \<and> CHR ''/'' \<notin> set (tl path) then handleS3List bucket f
      else if hq_method req = ''POST'' \<and> has_prefix path ''/'' \<and> has ''delete'' then handleS3Delete bucket (hq_body req) f
      else if hq_method req = ''PUT'' \<and> has ''cors'' then s3_noted (''set-cors:'' @ bucket) 200 f
      else if hq_method req = ''DELETE'' \<and> has ''cors'' then s3_noted (''clear-cors:'' @ bucket) 204 f
      else if hq_method req = ''PUT'' \<and> has ''lifecycle'' then s3_noted (''set-lifecycle:'' @ bucket) 200 f
      else (answer 404 (''cloudflarefake: unknown '' @ hq_method req @ '' '' @ hq_url req), f))"

definition fake_s3 :: "cf_fake s3_env" where
  "fake_s3 = \<lparr>s3_amz_date = (\<lambda>_. ''20240101T000000Z''), s3_send = (\<lambda>req f. case s3_serve req f of (resp, f') \<Rightarrow> (Inr resp, f')),
     s3_decode = read_listing\<rparr>"

definition handleR2Create :: "string \<Rightarrow> (cf_fake, unit) http" where
  "handleR2Create name = cf_recorded (''ensure-bucket:'' @ name) (\<lambda>f.
     if has_key (cw_buckets f) name then (Inl (Refused 409 ''bucket already exists''), f)
     else (Inr (), f\<lparr>cw_buckets := cw_buckets f @ [(name, [])]\<rparr>))"

definition handleR2List :: "cf_fake \<Rightarrow> api_fault + string list" where
  "handleR2List f = Inr (map fst (cw_buckets f))"

definition handleR2Delete :: "string \<Rightarrow> (cf_fake, unit) http" where
  "handleR2Delete name f =
     (if has_key (cw_buckets f) name
      then cf_recorded (''delete-bucket:'' @ name) (\<lambda>f. (Inr (), f\<lparr>cw_buckets := AList.delete name (cw_buckets f)\<rparr>)) f
      else (Inl (Refused 404 ''bucket not found''), f))"

definition fake_bucket_api :: "cf_fake bucket_api" where
  "fake_bucket_api = \<lparr>ba_token = (\<lambda>f. Inr (cw_token f)), ba_create = (\<lambda>_. handleR2Create), ba_delete = (\<lambda>_. handleR2Delete),
     ba_list = (\<lambda>_. handleR2List)\<rparr>"

definition fake_url :: string where "fake_url = ''http://127.0.0.1:8080''"

definition RegisterBucket_fake :: "cf_fake \<Rightarrow> string gomap \<Rightarrow> cf_fake bucket_client" where
  "RegisterBucket_fake f creds = SetS3EndpointOverride fake_url
     (NewBucket fake_bucket_api (put_over [(''api_key'', ''test''), (''account_id'', cw_account f)] creds))"

definition SeedBucket :: "string \<Rightarrow> cf_fake \<Rightarrow> cf_fake" where
  "SeedBucket name f = f\<lparr>cw_buckets := AList.update name [] (cw_buckets f)\<rparr>"

definition SeedBucketObject :: "string \<Rightarrow> string \<Rightarrow> string \<Rightarrow> cf_fake \<Rightarrow> cf_fake" where
  "SeedBucketObject bucket key body f =
     f\<lparr>cw_buckets := AList.update bucket (AList.update key body (get0 [] (cw_buckets f) bucket)) (cw_buckets f)\<rparr>"

definition HasBucket :: "string \<Rightarrow> cf_fake \<Rightarrow> bool" where "HasBucket name f = has_key (cw_buckets f) name"

definition BucketNames :: "cf_fake \<Rightarrow> string list" where "BucketNames f = map fst (cw_buckets f)"

section \<open>What the bodies say\<close>

lemma written_size:
  assumes "\<And>t. good t \<Longrightarrow> esc t \<noteq> []"
  shows "xml_ok good x \<Longrightarrow> xml_size x + 1 \<le> 2 * length (xml_write esc x)"
    and "xmls_ok good xs \<Longrightarrow> xmls_size xs \<le> 2 * length (concat (map (xml_write esc) xs)) + 1"
  using assms
proof (induction good x and good xs rule: xml_ok_xmls_ok.induct)
  case (1 good t)
  then have "esc t \<noteq> []" by simp
  then show ?case by (cases "esc t") simp_all
next
  case (2 good n kids)
  then show ?case by (simp add: end_tag_def)
next
  case (4 good x xs)
  then show ?case by simp
qed simp

lemma children_simps [simp]:
  "children n [] = []" "children n (Text t # xs) = children n xs"
  "children n (Elem m kids # xs) = (if m = n then kids # children n xs else children n xs)"
  by (simp_all add: children_def)

lemma children_append: "children n (xs @ ys) = children n xs @ children n ys"
proof (induction xs)
  case (Cons x xs)
  then show ?case by (cases x) simp_all
qed simp

lemma children_map [simp]: "children n (map (\<lambda>x. Elem m (f x)) xs) = (if m = n then map f xs else [])"
  by (induction xs) auto

lemma text_of_node [simp]: "text_of (text_node t) = t"
  by (simp add: text_of_def text_node_def)

lemma text_of_text [simp]: "text_of [Text t] = t"
  by (simp add: text_of_def)

definition object_kids :: "string \<times> string \<Rightarrow> xml list" where
  "object_kids = (\<lambda>(k, body). [Elem ''Key'' (text_node k), Elem ''Size'' [Text (itoa (int (length body)))],
     Elem ''LastModified'' [Text ''2024-01-01T00:00:00Z'']])"

lemma object_xml_kids: "object_xml x = Elem ''Contents'' (object_kids x)"
  by (cases x) (simp add: object_xml_def object_kids_def)

definition fake_object :: "string \<times> string \<Rightarrow> s3_object" where
  "fake_object x = read_object (object_kids x)"

lemma fake_object_key [simp]: "so_key (fake_object x) = fst x"
  by (cases x) (simp add: fake_object_def read_object_def object_kids_def child_text_def)

lemma fake_object_keys [simp]: "so_key \<circ> fake_object = fst"
  by (rule ext) simp

lemma xmls_ok_map: "(\<And>x. x \<in> set xs \<Longrightarrow> xml_ok good (Elem n (f x))) \<Longrightarrow> tag_ok m \<Longrightarrow> xmls_ok good kids \<Longrightarrow>
    xmls_ok good (map (\<lambda>x. Elem n (f x)) xs @ [Elem m kids])"
  by (induction xs) auto

lemma listing_read:
  "read_listing (xml_write xml_escape (listing_xml objects)) =
     Inr \<lparr>ls_objects = map fake_object objects, ls_truncated = False, ls_continuation = []\<rparr>"
proof -
  let ?good = "\<lambda>t. t \<noteq> ([] :: string)"
  let ?body = "xml_write xml_escape (listing_xml objects)"
  have "itoa n \<noteq> []" for n by (auto simp: itoa_def itoa_nat.simps)
  then have one: "xml_ok ?good (Elem ''Contents'' (object_kids x))" for x
    by (cases x) (simp add: object_kids_def text_node_def tag_ok_def)
  have ok: "xmls_ok ?good [listing_xml objects]"
    unfolding listing_xml_def object_xml_kids [abs_def] using xmls_ok_map [of objects ?good "''Contents''" object_kids "''IsTruncated''" "[Text ''false'']"] one
    by (simp add: tag_ok_def)
  have esc: "xml_escape t \<noteq> []" if "t \<noteq> []" for t
    using writes_escape that unfolding writes_def by (auto simp: at_tag_def)
  have "xmls_size [listing_xml objects] \<le> xml_fuel ?body"
    using written_size(2) [OF esc ok] by (simp add: xml_fuel_def)
  with nodes_written [OF writes_escape ok, of "[]" "xml_fuel ?body"]
  have "xml_nodes (xml_fuel ?body) ?body = Some ([listing_xml objects], [])" by (simp add: at_end_def)
  moreover have "children ''Contents'' (map object_xml objects) = map object_kids objects"
    by (simp add: object_xml_kids [abs_def])
  moreover have "children n (map object_xml objects) = []" if "n \<noteq> ''Contents''" for n
    using that by (simp add: object_xml_kids [abs_def])
  ultimately show ?thesis
    by (simp add: read_listing_def listing_xml_def children_append child_text_def fake_object_def)
qed

definition object_key_xml :: "string \<Rightarrow> xml" where
  "object_key_xml k = Elem ''Object'' [Elem ''Key'' [Text k]]"

lemma delete_body_xml:
  "delete_body keys = ''<Delete>'' @ concat (map (xml_write id) (Elem ''Quiet'' [Text ''true''] # map object_key_xml keys)) @ ''</Delete>''"
  by (simp add: delete_body_def object_key_xml_def end_tag_def comp_def)

lemma deletion_read:
  assumes "\<forall>k \<in> set keys. xml_plain k"
  shows "delete_keys (delete_body keys) = keys"
proof -
  let ?xs = "Elem ''Quiet'' [Text ''true''] # map object_key_xml keys"
  let ?body = "delete_body keys"
  have "xmls_ok xml_plain (map object_key_xml keys)"
    using assms by (induction keys) (auto simp: object_key_xml_def tag_ok_def)
  then have ok: "xmls_ok xml_plain ?xs" by (auto simp: tag_ok_def xml_plain_def)
  have "xmls_size ?xs \<le> 2 * length (concat (map (xml_write id) ?xs)) + 1"
    by (rule written_size(2) [OF _ ok]) (simp add: xml_plain_def)
  then have size: "xmls_size ?xs \<le> xml_fuel ?body" unfolding xml_fuel_def delete_body_xml by simp
  have "after_tag ?body = concat (map (xml_write id) ?xs) @ ''</Delete>''"
    unfolding delete_body_xml by (simp add: after_tag_def)
  moreover have "xml_readable (xml_fuel ?body) (concat (map (xml_write id) ?xs) @ ''</Delete>'') = ?xs"
    by (rule readable_written [OF writes_plain ok _ size]) (simp add: at_end_def has_prefix_def)
  moreover have "has_prefix ?body ''<Delete>''" unfolding delete_body_xml by (rule has_prefix_append)
  ultimately show ?thesis
    by (simp add: delete_keys_def object_key_xml_def [abs_def] child_text_def comp_def)
qed

section \<open>Emptying a bucket\<close>

definition bucket_name :: "string \<Rightarrow> bool" where
  "bucket_name b \<longleftrightarrow> b \<noteq> [] \<and> {CHR ''/'', CHR ''?'', CHR ''#'', CHR ''%''} \<inter> set b = {}"

definition fake_creds :: "string \<Rightarrow> string \<Rightarrow> bucket_credentials" where
  "fake_creds tokenID secret = \<lparr>bk_endpoint = fake_url, bk_access_key_id = tokenID, bk_secret_access_key = secret, bk_region = ''auto''\<rparr>"

definition fake_keys :: "string \<Rightarrow> cf_fake \<Rightarrow> string list option" where
  "fake_keys b f = (if bucket_name b then map_option (map fst) (map_of (cw_buckets f) b) else None)"

lemma fake_address:
  "after_scheme (fake_url @ ''/'' @ b @ ''?'' @ q) = ''127.0.0.1:8080/'' @ b @ ''?'' @ q"
  "CHR ''?'' \<notin> set b \<Longrightarrow> url_path (fake_url @ ''/'' @ b @ ''?'' @ q) = ''/'' @ b"
  "CHR ''?'' \<notin> set b \<Longrightarrow> url_raw_query (fake_url @ ''/'' @ b @ ''?'' @ q) = q"
proof -
  show scheme: "after_scheme (fake_url @ ''/'' @ b @ ''?'' @ q) = ''127.0.0.1:8080/'' @ b @ ''?'' @ q" for b
    by (simp add: after_scheme_def fake_url_def has_prefix_def)
  show "url_path (fake_url @ ''/'' @ b @ ''?'' @ q) = ''/'' @ b" if "CHR ''?'' \<notin> set b"
  proof -
    have "takeWhile (\<lambda>c. c \<noteq> CHR ''?'') (b @ CHR ''?'' # q) = b" using that by (induction b) auto
    then show ?thesis unfolding url_path_def scheme by simp
  qed
  show "url_raw_query (fake_url @ ''/'' @ b @ ''?'' @ q) = q" if "CHR ''?'' \<notin> set b"
  proof -
    have "CHR ''?'' \<notin> set (''127.0.0.1:8080/'' @ b)" using that by simp
    from cut_append [OF this, of q] show ?thesis unfolding url_raw_query_def scheme by simp
  qed
qed

lemma sign_with_simps [simp]:
  "hq_method (sign_with creds d req) = hq_method req" "hq_url (sign_with creds d req) = hq_url req" "hq_body (sign_with creds d req) = hq_body req"
  by (simp_all add: sign_with_def Sign_def)

lemma serve_list:
  assumes "bucket_name b"
  shows "s3_serve (sign_with (fake_creds i k) d (list_request (fake_creds i k) b)) f = handleS3List b f"
proof -
  have "CHR ''?'' \<notin> set b" "CHR ''/'' \<notin> set b" "b \<noteq> []" using assms by (simp_all add: bucket_name_def)
  then show ?thesis
    by (simp add: s3_serve_def list_request_def bucket_request_def fake_creds_def fake_address [simplified] has_prefix_def)
qed

lemma serve_delete:
  assumes "bucket_name b"
  shows "s3_serve (sign_with (fake_creds i k) d (delete_request (fake_creds i k) b ks)) f = handleS3Delete b (delete_body ks) f"
proof -
  have "CHR ''?'' \<notin> set b" using assms by (simp add: bucket_name_def)
  moreover have "''delete'' \<in> fst ` set (query_parse ''delete'')" by code_simp
  ultimately show ?thesis
    by (simp add: s3_serve_def delete_request_def bucket_request_def fake_creds_def fake_address [simplified] has_prefix_def)
qed

lemma list_keeps: "snd (handleS3List b f) = f\<lparr>cw_ops := cw_ops f @ [''empty-bucket:'' @ b]\<rparr>"
  by (simp add: handleS3List_def cf_Record_def split: option.split)

lemma send_fake_s3: "s3_send fake_s3 req f = (Inr (fst (s3_serve req f)), snd (s3_serve req f))"
  by (simp add: fake_s3_def split: prod.split)

lemma fake_keys_ops [simp]: "fake_keys b (f\<lparr>cw_ops := ops\<rparr>) = fake_keys b f"
  by (simp add: fake_keys_def)

lemma list_answer:
  assumes "fake_keys b f = Some ks" "handleS3List b f = (resp, f')"
  shows "hr_status resp \<noteq> 404"
    "hr_status resp < 300 \<Longrightarrow> \<exists>objects. map fst objects = ks \<and> read_listing (hr_body resp) =
       Inr \<lparr>ls_objects = map fake_object objects, ls_truncated = False, ls_continuation = []\<rparr>"
  using assms
  by (auto simp: fake_keys_def handleS3List_def cf_Record_def answer_def listing_read split: if_splits option.splits)

interpretation fs: s3_store fake_s3 "fake_creds i k" fake_keys for i k
proof
  fix d b and w w' :: cf_fake and r
  assume send: "s3_send fake_s3 (sign_with (fake_creds i k) d (list_request (fake_creds i k) b)) w = (r, w')"
  show "fake_keys b w' = fake_keys b w"
  proof (cases "bucket_name b")
    case True
    with send have "w' = snd (handleS3List b w)" by (simp add: send_fake_s3 serve_list)
    then show ?thesis by (simp add: list_keeps)
  qed (simp add: fake_keys_def)
next
  fix d b and w w' :: cf_fake and resp ks l
  assume send: "s3_send fake_s3 (sign_with (fake_creds i k) d (list_request (fake_creds i k) b)) w = (Inr resp, w')"
    and keys: "fake_keys b w = Some ks"
  from keys have "bucket_name b" by (auto simp: fake_keys_def split: if_splits)
  with send have served: "handleS3List b w = (resp, w')" by (simp add: send_fake_s3 serve_list prod_eq_iff)
  show "hr_status resp \<noteq> 404 \<and> (hr_status resp < 300 \<longrightarrow> s3_decode fake_s3 (hr_body resp) = Inr l \<longrightarrow>
      so_key ` set (ls_objects l) \<subseteq> set ks \<and> (ls_objects l = [] \<longrightarrow> ks = []) \<and>
      (\<not> ls_truncated l \<longrightarrow> so_key ` set (ls_objects l) = set ks))"
  proof (intro conjI impI)
    show "hr_status resp \<noteq> 404" by (rule list_answer(1) [OF keys served])
    assume ok: "hr_status resp < 300" and dec: "s3_decode fake_s3 (hr_body resp) = Inr l"
    from list_answer(2) [OF keys served ok] dec obtain objects where "map fst objects = ks"
      "ls_objects l = map fake_object objects" "\<not> ls_truncated l" by (auto simp: fake_s3_def)
    then show "so_key ` set (ls_objects l) \<subseteq> set ks" "so_key ` set (ls_objects l) = set ks"
      "ls_objects l = [] \<Longrightarrow> ks = []" by (simp_all add: image_image flip: set_map)
  qed
next
  fix d b del and w w' :: cf_fake and resp ks
  assume send: "s3_send fake_s3 (sign_with (fake_creds i k) d (delete_request (fake_creds i k) b del)) w = (Inr resp, w')"
    and keys: "fake_keys b w = Some ks" and plain: "\<And>x. x \<in> set del \<Longrightarrow> xml_plain x"
  from keys obtain objects where b: "bucket_name b" and objs: "map_of (cw_buckets w) b = Some objects" "ks = map fst objects"
    by (auto simp: fake_keys_def split: if_splits)
  from plain have "delete_keys (delete_body del) = del" by (simp add: deletion_read)
  with send b objs have "w' = w\<lparr>cw_buckets := AList.update b (filter (\<lambda>(x, _). x \<notin> set del) objects) (cw_buckets w)\<rparr>"
    by (auto simp: send_fake_s3 serve_delete handleS3Delete_def)
  with b objs show "fake_keys b w' = Some (filter (\<lambda>x. x \<notin> set del) ks)"
    by (simp add: fake_keys_def update_conv' filter_map comp_def case_prod_unfold)
qed

lemma EmptyBucket_fake:
  "EmptyBucket fake_s3 (RegisterBucket_fake f0 []) b f =
    (if cw_token f = [] then Some (Inl (Wrapf ''cloudflare credentials'' (Errorf ''invalid API token'' [])), f)
     else s3_EmptyBucket fake_s3 (fake_creds (cw_token f) (sha256_hex ''test'')) b f)"
  by (simp add: EmptyBucket_def Credentials_def RegisterBucket_fake_def SetS3EndpointOverride_def NewBucket_def tokenVerify_def get_def
      fake_bucket_api_def put_over_def get0_def r2_credentials_def r2_endpoint_def fake_creds_def wrapR_def fake_url_def)

text \<open>Without faults of the service, emptying a bucket is one listing and one deletion of what it lists.\<close>

lemma EmptyBucket_once:
  assumes "cw_err_on f = []" "cw_token f \<noteq> []" "bucket_name b" "map_of (cw_buckets f) b = Some objects"
  shows "EmptyBucket fake_s3 (RegisterBucket_fake f0 []) b f =
    Some (Inr (), let f1 = f\<lparr>cw_ops := cw_ops f @ [''empty-bucket:'' @ b]\<rparr> in
      if objects = [] then f1 else snd (handleS3Delete b (delete_body (map fst objects)) f1))"
proof -
  let ?c = "fake_creds (cw_token f) (sha256_hex ''test'')"
  define f1 where "f1 = f\<lparr>cw_ops := cw_ops f @ [''empty-bucket:'' @ b]\<rparr>"
  have f1: "map_of (cw_buckets f1) b = Some objects" by (simp add: f1_def assms)
  have list: "send_as fake_s3 ?c (list_request ?c b) f = (Inr (answer 200 (xml_write xml_escape (listing_xml objects))), f1)"
    using assms by (simp add: send_as_def send_fake_s3 serve_list handleS3List_def cf_Record_def f1_def)
  have del: "send_as fake_s3 ?c (delete_request ?c b ks) f1 = (Inr (answer 200 ''<DeleteResult/>''), snd (handleS3Delete b (delete_body ks) f1))" for ks
    using assms(3) f1 by (simp add: send_as_def send_fake_s3 serve_delete handleS3Delete_def)
  have decode: "s3_decode fake_s3 = read_listing" by (simp add: fake_s3_def)
  have "s3_EmptyBucket fake_s3 ?c b f = Some (Inr (), if objects = [] then f1 else snd (handleS3Delete b (delete_body (map fst objects)) f1))"
    unfolding s3_EmptyBucket.simps [of fake_s3 ?c b f] list prod.case sum.case
    by (simp add: decode listing_read answer_def del [unfolded answer_def])
  with assms(2) show ?thesis by (simp add: EmptyBucket_fake Let_def f1_def)
qed


definition stocked_fake :: cf_fake where
  "stocked_fake = SeedBucketObject ''backups'' ''20250102T000000Z.sql.gz'' ''two''
     (SeedBucketObject ''backups'' ''20250101T000000Z.sql.gz'' ''one'' (SeedBucket ''backups'' NewCloudflareFake))"


text \<open>
  An object whose key has an ampersand: the body of the deletion cannot be read, nothing is deleted, and
  emptying the bucket reports success.
\<close>

lemma unescaped_key_survives:
  assumes "f = SeedBucketObject ''media'' ''a&b.png'' ''x'' NewCloudflareFake"
  shows "\<exists>f'. EmptyBucket fake_s3 (RegisterBucket_fake f0 []) ''media'' f = Some (Inr (), f') \<and> fake_keys ''media'' f' = Some [''a&b.png'']"
proof -
  have "cw_err_on f = []" "cw_token f \<noteq> []" "bucket_name ''media''" "map_of (cw_buckets f) ''media'' = Some [(''a&b.png'', ''x'')]"
    unfolding assms by code_simp+
  note run = EmptyBucket_once [OF this, of f0]
  have "delete_keys (delete_body [''a&b.png'']) = []" by code_simp
  with \<open>bucket_name ''media''\<close> \<open>map_of (cw_buckets f) ''media'' = _\<close>
  have "fake_keys ''media'' (snd (handleS3Delete ''media'' (delete_body [''a&b.png'']) (f\<lparr>cw_ops := ops\<rparr>))) = Some [''a&b.png'']" for ops
    by (simp add: handleS3Delete_def fake_keys_def update_conv')
  with run show ?thesis by (simp add: Let_def)
qed

end
