(* ===== verification/TunnelFake.thy ===== *)
theory TunnelFake
  imports Cloudflare
begin

text \<open>
  The stateful tunnel service of the tests (\<open>internal/testutil/cloudflaretunnelfake.go\<close>), and what
  reconciling and deleting a tunnel leave on it. What the service records of requests that only read is
  left out.
\<close>

section \<open>The service\<close>

record fake_tunnel =
  ft_id :: string
  ft_name :: string
  ft_token :: string
  ft_config :: "ingress_rule list option"
  ft_connected :: bool

record cf_tunnel_fake =
  tk_seq :: int
  tk_tunnels :: "fake_tunnel list"
  tk_ops :: "string list"
  tk_err_on :: "string gomap"

definition NewCloudflareTunnelFake :: cf_tunnel_fake where
  "NewCloudflareTunnelFake = \<lparr>tk_seq = 0, tk_tunnels = [], tk_ops = [], tk_err_on = []\<rparr>"

definition tunnel_Record :: "string \<Rightarrow> cf_tunnel_fake \<Rightarrow> string option \<times> cf_tunnel_fake" where
  "tunnel_Record op f = (map_of (tk_err_on f) op, f\<lparr>tk_ops := tk_ops f @ [op]\<rparr>)"

definition SeedTunnel :: "string \<Rightarrow> string \<Rightarrow> string \<Rightarrow> cf_tunnel_fake \<Rightarrow> cf_tunnel_fake" where
  "SeedTunnel i name token f =
     f\<lparr>tk_tunnels := filter (\<lambda>t. ft_id t \<noteq> i) (tk_tunnels f) @
       [\<lparr>ft_id = i, ft_name = name, ft_token = token, ft_config = None, ft_connected = True\<rparr>]\<rparr>"

definition fake_tunnel_by_id :: "string \<Rightarrow> cf_tunnel_fake \<Rightarrow> fake_tunnel option" where
  "fake_tunnel_by_id i f = find (\<lambda>t. ft_id t = i) (tk_tunnels f)"

definition tunnel_missing :: "api_fault + 'a" where "tunnel_missing = Inl (Refused 404 ''tunnel not found'')"

definition handleList :: "string \<Rightarrow> cf_tunnel_fake \<Rightarrow> api_fault + cf_tunnel list" where
  "handleList name f =
     Inr (map (\<lambda>t. \<lparr>tu_id = ft_id t, tu_name = ft_name t, tu_status = ''active''\<rparr>)
       (filter (\<lambda>t. name = [] \<or> ft_name t = name) (tk_tunnels f)))"

definition created_tunnel :: "string \<Rightarrow> cf_tunnel_fake \<Rightarrow> fake_tunnel" where
  "created_tunnel name f = (let i = ''tunnel-'' @ itoa (tk_seq f + 1)
     in \<lparr>ft_id = i, ft_name = name, ft_token = ''tok-'' @ i, ft_config = None, ft_connected = False\<rparr>)"

definition handleCreate :: "string \<Rightarrow> (cf_tunnel_fake, string) http" where
  "handleCreate name f =
     (case tunnel_Record (''create-tunnel:'' @ name) f of
        (Some err, f') \<Rightarrow> (Inl (Refused 500 err), f')
      | (None, f') \<Rightarrow>
          (Inr (ft_id (created_tunnel name f')),
           f'\<lparr>tk_seq := tk_seq f' + 1, tk_tunnels := tk_tunnels f' @ [created_tunnel name f']\<rparr>))"

definition handleToken :: "string \<Rightarrow> cf_tunnel_fake \<Rightarrow> api_fault + string" where
  "handleToken i f = (case fake_tunnel_by_id i f of None \<Rightarrow> tunnel_missing | Some t \<Rightarrow> Inr (ft_token t))"

definition change_tunnel :: "string \<Rightarrow> (fake_tunnel \<Rightarrow> fake_tunnel) \<Rightarrow> cf_tunnel_fake \<Rightarrow> cf_tunnel_fake" where
  "change_tunnel i g f = f\<lparr>tk_tunnels := map (\<lambda>t. if ft_id t = i then g t else t) (tk_tunnels f)\<rparr>"

definition found_tunnel :: "string \<Rightarrow> cf_tunnel_fake \<Rightarrow> api_fault + unit" where
  "found_tunnel i f = (case fake_tunnel_by_id i f of None \<Rightarrow> tunnel_missing | Some _ \<Rightarrow> Inr ())"

definition handleConfig :: "string \<Rightarrow> ingress_rule list \<Rightarrow> (cf_tunnel_fake, unit) http" where
  "handleConfig i body f =
     (let f' = snd (tunnel_Record (''config:'' @ i) f) in (found_tunnel i f', change_tunnel i (\<lambda>t. t\<lparr>ft_config := Some body\<rparr>) f'))"

definition handleDelete :: "string \<Rightarrow> (cf_tunnel_fake, unit) http" where
  "handleDelete i f =
     (let f' = snd (tunnel_Record (''delete-tunnel:'' @ i) f)
      in case fake_tunnel_by_id i f' of
           None \<Rightarrow> (tunnel_missing, f')
         | Some t \<Rightarrow>
             if ft_connected t then (Inl (Refused 409 ''active connections must be deleted before tunnel delete''), f')
             else (Inr (), f'\<lparr>tk_tunnels := filter (\<lambda>t. ft_id t \<noteq> i) (tk_tunnels f')\<rparr>))"

definition handleDeleteConnections :: "string \<Rightarrow> (cf_tunnel_fake, unit) http" where
  "handleDeleteConnections i f =
     (let f' = snd (tunnel_Record (''delete-connections:'' @ i) f)
      in (found_tunnel i f', change_tunnel i (\<lambda>t. t\<lparr>ft_connected := False\<rparr>) f'))"

definition fake_tunnel_api :: "cf_tunnel_fake tunnel_api" where
  "fake_tunnel_api = \<lparr>ta_list = (\<lambda>_ name. handleList (case name of None \<Rightarrow> [] | Some n \<Rightarrow> n)), ta_create = (\<lambda>_ name _. handleCreate name),
     ta_token = (\<lambda>_. handleToken), ta_config = (\<lambda>_. handleConfig), ta_delete = (\<lambda>_. handleDelete),
     ta_disconnect = (\<lambda>_. handleDeleteConnections)\<rparr>"

definition fake_tunnels :: "cf_tunnel_fake tunnel_client" where
  "fake_tunnels = NewClient fake_tunnel_api [(''api_token'', ''test-token''), (''account_id'', ''test-account'')]"

definition HasTunnel :: "string \<Rightarrow> cf_tunnel_fake \<Rightarrow> bool" where
  "HasTunnel name f \<longleftrightarrow> (\<exists>t \<in> set (tk_tunnels f). ft_name t = name)"

definition TunnelCount :: "cf_tunnel_fake \<Rightarrow> int" where "TunnelCount f = int (length (tk_tunnels f))"

definition GetTunnelConfig :: "string \<Rightarrow> cf_tunnel_fake \<Rightarrow> ingress_rule list option" where
  "GetTunnelConfig i f = Option.bind (fake_tunnel_by_id i f) ft_config"

definition TunnelIDByName :: "string \<Rightarrow> cf_tunnel_fake \<Rightarrow> string" where
  "TunnelIDByName name f = (case find (\<lambda>t. ft_name t = name) (tk_tunnels f) of None \<Rightarrow> [] | Some t \<Rightarrow> ft_id t)"

section \<open>States of the service\<close>

definition tunnels_ok :: "cf_tunnel_fake \<Rightarrow> bool" where
  "tunnels_ok f \<longleftrightarrow> distinct (map ft_id (tk_tunnels f)) \<and> distinct (map ft_name (tk_tunnels f)) \<and> [] \<notin> ft_id ` set (tk_tunnels f)"

text \<open>The next id of the service is free.\<close>

definition fresh_tunnel :: "cf_tunnel_fake \<Rightarrow> bool" where
  "fresh_tunnel f \<longleftrightarrow> ''tunnel-'' @ itoa (tk_seq f + 1) \<notin> ft_id ` set (tk_tunnels f)"

lemmas tunnel_endpoints = fake_tunnels_def NewClient_def fake_tunnel_api_def

lemma find_by_key:
  assumes "distinct (map key xs)" "x \<in> set xs"
  shows "find (\<lambda>y. key y = key x) xs = Some x"
  using assms by (induction xs) (auto simp: image_iff)

lemma found_by_name:
  assumes "tunnels_ok f" "t \<in> set (tk_tunnels f)"
  shows "findTunnel fake_tunnels (ft_name t) f = Inr (ft_id t)"
proof -
  let ?g = "\<lambda>t. \<lparr>tu_id = ft_id t, tu_name = ft_name t, tu_status = ''active''\<rparr>"
  have "distinct (map tu_name (map ?g (tk_tunnels f)))" using assms(1) by (simp add: tunnels_ok_def o_def)
  then have "distinct (map tu_name (map ?g (filter (\<lambda>x. ft_name t = [] \<or> ft_name x = ft_name t) (tk_tunnels f))))"
    by (simp add: o_def distinct_map_filter)
  from find_by_key [OF this, of "?g t"] assms(2) show ?thesis
    by (simp add: findTunnel_def tunnel_endpoints handleList_def get_def)
qed

lemma not_found_by_name:
  assumes "\<not> HasTunnel name f"
  shows "findTunnel fake_tunnels name f = Inr []"
proof -
  have "find (\<lambda>t. tu_name t = name) (map (\<lambda>t. \<lparr>tu_id = ft_id t, tu_name = ft_name t, tu_status = ''active''\<rparr>)
      (filter (\<lambda>t. name = [] \<or> ft_name t = name) (tk_tunnels f))) = None"
    unfolding find_None_iff using assms by (auto simp: HasTunnel_def)
  then show ?thesis by (simp add: findTunnel_def tunnel_endpoints handleList_def get_def)
qed

lemma by_id: "tunnels_ok f \<Longrightarrow> t \<in> set (tk_tunnels f) \<Longrightarrow> fake_tunnel_by_id (ft_id t) f = Some t"
  unfolding fake_tunnel_by_id_def tunnels_ok_def by (rule find_by_key) simp_all

lemma filter_by_key:
  assumes "distinct (map key xs)" "x \<in> set xs"
  shows "filter (\<lambda>y. key y = key x) xs = [x]"
  using assms by (induction xs) (auto simp: filter_empty_conv image_iff)

lemma named_once: "tunnels_ok f \<Longrightarrow> t \<in> set (tk_tunnels f) \<Longrightarrow> filter (\<lambda>x. ft_name x = ft_name t) (tk_tunnels f) = [t]"
  unfolding tunnels_ok_def by (rule filter_by_key) simp_all

lemma same_id: "tunnels_ok f \<Longrightarrow> t \<in> set (tk_tunnels f) \<Longrightarrow> x \<in> set (tk_tunnels f) \<Longrightarrow> ft_id x = ft_id t \<Longrightarrow> x = t"
  unfolding tunnels_ok_def distinct_map inj_on_def by blast

text \<open>One tunnel changed, its id and name kept.\<close>

lemma changed_tunnel:
  assumes "tunnels_ok f" "t \<in> set (tk_tunnels f)" "\<And>x. ft_id (g x) = ft_id x" "\<And>x. ft_name (g x) = ft_name x"
  shows "tunnels_ok (change_tunnel (ft_id t) g f)" "g t \<in> set (tk_tunnels (change_tunnel (ft_id t) g f))"
proof -
  have "map ft_id (tk_tunnels (change_tunnel (ft_id t) g f)) = map ft_id (tk_tunnels f)"
    "map ft_name (tk_tunnels (change_tunnel (ft_id t) g f)) = map ft_name (tk_tunnels f)"
    by (simp_all add: change_tunnel_def assms(3,4))
  moreover from this(1) have "ft_id ` set (tk_tunnels (change_tunnel (ft_id t) g f)) = ft_id ` set (tk_tunnels f)"
    by (metis set_map)
  ultimately show "tunnels_ok (change_tunnel (ft_id t) g f)" using assms(1) by (simp add: tunnels_ok_def)
  show "g t \<in> set (tk_tunnels (change_tunnel (ft_id t) g f))"
    using assms(2) by (auto simp: change_tunnel_def image_iff intro!: bexI [of _ t])
qed

section \<open>What the operations leave\<close>

lemma ensured_tunnel:
  assumes ok: "tunnels_ok f" and fresh: "fresh_tunnel f" and errs: "tk_err_on f = []"
  obtains t f' where "ensure_tunnel fake_tunnels name f = (Inr (ft_id t), f')" "t \<in> set (tk_tunnels f')" "ft_name t = name" "tunnels_ok f'"
proof (cases "HasTunnel name f")
  case True
  then obtain t where t: "t \<in> set (tk_tunnels f)" "ft_name t = name" by (auto simp: HasTunnel_def)
  moreover from t(1) ok have "ft_id t \<noteq> []" by (force simp: tunnels_ok_def)
  ultimately show thesis using found_by_name [OF ok t(1)] ok
    by (intro that [of t f]) (simp_all add: ensure_tunnel_def bindA_def wrapA_def readA_def retA_def)
next
  case False
  let ?f = "f\<lparr>tk_ops := tk_ops f @ [''create-tunnel:'' @ name]\<rparr>"
  let ?t = "created_tunnel name ?f"
  let ?f' = "?f\<lparr>tk_seq := tk_seq f + 1, tk_tunnels := tk_tunnels f @ [?t]\<rparr>"
  have create: "createTunnel fake_tunnels name f = (Inr (ft_id ?t), ?f')"
    using errs by (simp add: createTunnel_def send_def tunnel_endpoints handleCreate_def tunnel_Record_def)
  have "tunnels_ok ?f'"
    using ok fresh False by (auto simp: tunnels_ok_def fresh_tunnel_def created_tunnel_def Let_def HasTunnel_def)
  then show thesis using create not_found_by_name [OF False]
    by (intro that [of ?t ?f']) (simp_all add: ensure_tunnel_def bindA_def wrapA_def readA_def created_tunnel_def Let_def)
qed

lemma cname_bindings_of:
  assumes "r \<in> set routes"
  shows "map_of (cname_bindings i routes) (tr_hostname r) = Some \<lparr>ib_type = ''CNAME'', ib_target = cname_target i, ib_proxied = True\<rparr>"
proof -
  let ?b = "\<lparr>ib_type = ''CNAME'', ib_target = cname_target i, ib_proxied = True\<rparr>"
  have "map_of (foldl (\<lambda>m r. AList.update (tr_hostname r) ?b m) m routes) h =
      (if h \<in> tr_hostname ` set routes then Some ?b else map_of m h)" for m h
    by (induction routes arbitrary: m) (auto simp: update_conv')
  with assms show ?thesis by (simp add: cname_bindings_def)
qed


lemma deleted_tunnel:
  assumes ok: "tunnels_ok f" and t: "t \<in> set (tk_tunnels f)"
  obtains f' where "tunnel_Delete fake_tunnels (ft_name t) f = (Inr (), f')"
    "tk_tunnels f' = filter (\<lambda>x. ft_id x \<noteq> ft_id t) (map (\<lambda>x. if ft_id x = ft_id t then x\<lparr>ft_connected := False\<rparr> else x) (tk_tunnels f))"
proof -
  let ?g = "\<lambda>x. x\<lparr>ft_connected := False\<rparr>"
  let ?f0 = "f\<lparr>tk_ops := tk_ops f @ [''delete-connections:'' @ ft_id t]\<rparr>"
  let ?f1 = "change_tunnel (ft_id t) ?g ?f0"
  let ?f2 = "?f1\<lparr>tk_ops := tk_ops ?f1 @ [''delete-tunnel:'' @ ft_id t]\<rparr>"
  have ok0: "tunnels_ok ?f0" "t \<in> set (tk_tunnels ?f0)" using ok t by (simp_all add: tunnels_ok_def)
  then have "deleteConnections fake_tunnels (ft_id t) f = (Inr (), ?f1)"
    using by_id [OF ok0] by (simp add: deleteConnections_def send_def tunnel_endpoints handleDeleteConnections_def tunnel_Record_def found_tunnel_def)
  moreover from changed_tunnel [OF ok0, of ?g] have "tunnels_ok ?f2" "?g t \<in> set (tk_tunnels ?f2)"
    by (simp_all add: tunnels_ok_def)
  from by_id [OF this] have "handleDelete (ft_id t) ?f1 = (Inr (), ?f2\<lparr>tk_tunnels := filter (\<lambda>x. ft_id x \<noteq> ft_id t) (tk_tunnels ?f2)\<rparr>)"
    by (simp add: handleDelete_def tunnel_Record_def Let_def)
  then have "send tunnel_http (ta_delete (tc_api fake_tunnels) (tc_account fake_tunnels) (ft_id t)) ?f1 =
      (Inr (), ?f2\<lparr>tk_tunnels := filter (\<lambda>x. ft_id x \<noteq> ft_id t) (tk_tunnels ?f2)\<rparr>)"
    by (simp add: send_def tunnel_endpoints)
  moreover from t ok have "ft_id t \<noteq> []" by (force simp: tunnels_ok_def)
  ultimately have "tunnel_Delete fake_tunnels (ft_name t) f = (Inr (), ?f2\<lparr>tk_tunnels := filter (\<lambda>x. ft_id x \<noteq> ft_id t) (tk_tunnels ?f2)\<rparr>)"
    by (simp add: tunnel_Delete_def found_by_name [OF ok t] bindA_def wrapA_def readA_def thenA_def tolerate_def)
  then show thesis by (rule that) (simp add: change_tunnel_def)
qed

text \<open> Deleting a tunnel succeeds, even while agents are connected to it and when it is already gone, and
  no tunnel of the name is left.
\<close>

theorem tunnel_deleted:
  assumes "tunnels_ok f"
  shows "\<exists>f'. tunnel_Delete fake_tunnels name f = (Inr (), f') \<and> \<not> HasTunnel name f'"
proof (cases "HasTunnel name f")
  case False
  then show ?thesis by (simp add: tunnel_Delete_def not_found_by_name bindA_def wrapA_def readA_def retA_def)
next
  case True
  then obtain t where t: "t \<in> set (tk_tunnels f)" "ft_name t = name" by (auto simp: HasTunnel_def)
  obtain f' where run: "tunnel_Delete fake_tunnels name f = (Inr (), f')" and left: "tk_tunnels f' =
      filter (\<lambda>x. ft_id x \<noteq> ft_id t) (map (\<lambda>x. if ft_id x = ft_id t then x\<lparr>ft_connected := False\<rparr> else x) (tk_tunnels f))"
    by (rule deleted_tunnel [OF assms t(1)]) (simp add: t(2))
  have "ft_name x \<noteq> name" if "x \<in> set (tk_tunnels f)" "ft_id x \<noteq> ft_id t" for x
  proof
    assume "ft_name x = name"
    then have "x \<in> set (filter (\<lambda>y. ft_name y = ft_name t) (tk_tunnels f))" using that t(2) by simp
    with named_once [OF assms t(1)] that(2) show False by simp
  qed
  then have "\<not> HasTunnel name f'" by (auto simp: HasTunnel_def left)
  with run show ?thesis by blast
qed

definition seeded_tunnels :: cf_tunnel_fake where
  "seeded_tunnels = SeedTunnel ''t9'' ''nvoi-b-prod'' ''tok'' (SeedTunnel ''t7'' ''nvoi-a-prod'' ''tok'' NewCloudflareTunnelFake)"

definition tunnel_req :: tunnel_request where
  "tunnel_req = \<lparr>tq_name = ''nvoi-c-prod'', tq_namespace = ''nvoi-c-prod'', tq_labels = [],
     tq_routes = [\<lparr>tr_hostname = ''api.c.com'', tr_service = ''api'', tr_port = 8080, tr_scheme = ''http''\<rparr>]\<rparr>"

lemma seeded_tunnels_ok: "tunnels_ok seeded_tunnels" "fresh_tunnel seeded_tunnels" "tk_err_on seeded_tunnels = []"
  by code_simp+


lemma tunnel_deleted_witness:
  "\<exists>f'. tunnel_Delete fake_tunnels ''nvoi-a-prod'' seeded_tunnels = (Inr (), f') \<and> \<not> HasTunnel ''nvoi-a-prod'' f'"
  by (rule tunnel_deleted [OF seeded_tunnels_ok(1)])

end
