(* ===== verification/Ngrok.thy ===== *)
theory Ngrok
  imports Hetzner
begin

text \<open>
  Tunnels of ngrok (\<open>pkg/provider/ngrok\<close>): a reserved domain for every host, and the agent in the
  cluster with its configuration; and the stateful service of the tests
  (\<open>internal/testutil/ngrokfake.go\<close>).
\<close>

section \<open>The client\<close>

record ngrok_domain =
  nd_id :: string
  nd_domain :: string
  nd_cname :: string
  nd_metadata :: string

record 'w ngrok_api =
  na_list :: "'w \<Rightarrow> api_fault + ngrok_domain list"
  na_create :: "string \<Rightarrow> string \<Rightarrow> ('w, ngrok_domain) http"
  na_delete :: "string \<Rightarrow> ('w, unit) http"

record 'w ngrok_client =
  ng_api :: "'w ngrok_api"
  ng_authtoken :: string

definition ngrok_NewClient :: "'w ngrok_api \<Rightarrow> string gomap \<Rightarrow> 'w ngrok_client" where
  "ngrok_NewClient api creds = \<lparr>ng_api = api, ng_authtoken = get0 [] creds ''authtoken''\<rparr>"

definition ngrok_http :: api_client where "ngrok_http = \<lparr>ac_label = ''ngrok tunnel'', ac_classify = (\<lambda>_ _. None)\<rparr>"

definition listDomains :: "'w ngrok_client \<Rightarrow> 'w \<Rightarrow> goerr + ngrok_domain list" where
  "listDomains c = get ngrok_http (na_list (ng_api c))"

definition ngrok_ValidateCredentials :: "'w ngrok_client \<Rightarrow> 'w \<Rightarrow> goerr + unit" where
  "ngrok_ValidateCredentials c w = bindR (listDomains c w) (\<lambda>_. Inr ())"

definition tunnelMetadata :: "string \<Rightarrow> string" where
  "tunnelMetadata name = ''managed-by=nvoi;tunnel='' @ name"

definition isExactHostname :: "string \<Rightarrow> bool" where
  "isExactHostname name \<longleftrightarrow> CHR ''.'' \<in> set name"

text \<open>A refused request with status 404; an error that wraps one is not seen.\<close>

definition ngrok_isNotFound :: "goerr \<Rightarrow> bool" where
  "ngrok_isNotFound e = (case e of Errorf key args \<Rightarrow> key = ''api error'' \<and> length args = 3 \<and> args ! 1 = ''404'' | _ \<Rightarrow> False)"

definition ensureDomain :: "'w ngrok_client \<Rightarrow> string \<Rightarrow> string \<Rightarrow> ('w, string) act" where
  "ensureDomain c tunnelName hostname =
     bindA (readA (listDomains c)) (\<lambda>ds.
       (case find (\<lambda>d. nd_domain d = hostname) ds of
          Some d \<Rightarrow> retA (nd_cname d)
        | None \<Rightarrow> bindA (send ngrok_http (na_create (ng_api c) hostname (tunnelMetadata tunnelName))) (\<lambda>d. retA (nd_cname d))))"

definition deleteDomain :: "'w ngrok_client \<Rightarrow> string \<Rightarrow> ('w, unit) act" where
  "deleteDomain c i = tolerate ngrok_isNotFound (send ngrok_http (na_delete (ng_api c) i))"

section \<open>The agent\<close>

definition ng_AgentImage :: string where "ng_AgentImage = ''ngrok/ngrok:3.20.0''"
definition ng_AgentName :: string where "ng_AgentName = ''ngrok''"
definition ng_AgentSecretName :: string where "ng_AgentSecretName = ''ngrok-authtoken''"
definition ng_AgentConfigName :: string where "ng_AgentConfigName = ''ngrok-config''"

definition ng_buildSecret :: "string \<Rightarrow> string gomap \<Rightarrow> kobj" where
  "ng_buildSecret authtoken labels = kobj_of ng_AgentSecretName [] labels (SecretBody [] [(''authtoken'', authtoken)])"

definition ng_tunnel_name :: "string \<Rightarrow> string" where
  "ng_tunnel_name hostname = replace_byte (CHR ''.'') (CHR ''-'') hostname"

definition ng_address :: "string \<Rightarrow> tunnel_route \<Rightarrow> string" where
  "ng_address namespace r = (if tr_scheme r = [] then ''http'' else tr_scheme r) @ ''://'' @ tr_service r @ ''.'' @ namespace
     @ ''.svc.cluster.local:'' @ itoa (tr_port r)"

definition buildConfig :: "string \<Rightarrow> tunnel_route list \<Rightarrow> string" where
  "buildConfig namespace routes =
     ''version: \"2\"'' @ nl @ ''tunnels:'' @ nl @
     concat (map (\<lambda>r. ''  '' @ ng_tunnel_name (tr_hostname r) @ '':'' @ nl @ ''    proto: http'' @ nl
       @ ''    addr: '' @ ng_address namespace r @ nl @ ''    hostname: '' @ tr_hostname r @ nl) routes)"

definition ng_buildConfigMap :: "string \<Rightarrow> string gomap \<Rightarrow> tunnel_route list \<Rightarrow> kobj" where
  "ng_buildConfigMap namespace labels routes =
     kobj_of ng_AgentConfigName [] labels (ConfigMapBody [(''ngrok.yml'', buildConfig namespace routes)])"

definition ng_agent :: pod_container where
  "ng_agent = \<lparr>ct_name = ng_AgentName, ct_image = ng_AgentImage, ct_command = [],
     ct_args = [''start'', ''--authtoken'', ''$(NGROK_AUTHTOKEN)'', ''--config'', ''/etc/ngrok.yml'', ''--all''],
     ct_env = [\<lparr>ev_name = ''NGROK_AUTHTOKEN'', ev_value = [], ev_secret_ref = Some (ng_AgentSecretName, ''authtoken'')\<rparr>],
     ct_env_from = [], ct_ports = [],
     ct_mounts = [\<lparr>volume_mount.vm_name = ''ngrok-config'', vm_path = ''/etc/ngrok.yml'', vm_read_only = False, vm_sub_path = ''ngrok.yml''\<rparr>],
     ct_probe = None, ct_requests = [], ct_limits = []\<rparr>"

definition ng_buildDeployment :: "string gomap \<Rightarrow> kobj" where
  "ng_buildDeployment labels = kobj_of ng_AgentName [] labels
     (DeploymentBody 2 DefaultStrategy [(LabelAppName, ng_AgentName)]
       \<lparr>pt_labels = [(LabelAppName, ng_AgentName)], pt_annotations = [],
         pt_spec = \<lparr>ps_restart_policy = [], ps_containers = [ng_agent],
           ps_volumes = [\<lparr>pv_name = ''ngrok-config'', pv_source = ConfigMapVolume ng_AgentConfigName\<rparr>], ps_pull_secrets = [],
           ps_node_selector = [], ps_node_affinity = None, ps_preferred = [], ps_spread = [], ps_tolerations = []\<rparr>\<rparr>)"

definition ng_BuildWorkloads :: "string \<Rightarrow> string \<Rightarrow> string gomap \<Rightarrow> tunnel_route list \<Rightarrow> kobj list" where
  "ng_BuildWorkloads namespace authtoken labels routes =
     [ng_buildSecret authtoken labels, ng_buildConfigMap namespace labels routes, ng_buildDeployment labels]"

section \<open>Operations\<close>

definition bind_host :: "'w ngrok_client \<Rightarrow> string \<Rightarrow> ingress_binding gomap \<Rightarrow> string \<Rightarrow> ('w, ingress_binding gomap) act" where
  "bind_host c name m hostname =
     bindA (wrapA (''ngrok ensure domain '' @ hostname) (ensureDomain c name hostname)) (\<lambda>target.
       retA (AList.update hostname \<lparr>ib_type = ''CNAME'', ib_target = target, ib_proxied = False\<rparr> m))"

definition ngrok_Reconcile :: "'w ngrok_client \<Rightarrow> tunnel_request \<Rightarrow> ('w, tunnel_plan) act" where
  "ngrok_Reconcile c req =
     bindA (foldA (bind_host c (tq_name req)) [] (remdups (map tr_hostname (tq_routes req)))) (\<lambda>bindings.
       retA \<lparr>tp_workloads = ng_BuildWorkloads (tq_namespace req) (ng_authtoken c) (tq_labels req) (tq_routes req),
             tp_bindings = bindings\<rparr>)"

definition named_by :: "string \<Rightarrow> ngrok_domain \<Rightarrow> bool" where
  "named_by name d = (if isExactHostname name then nd_domain d = name else nd_metadata d = tunnelMetadata name)"

definition ngrok_Delete :: "'w ngrok_client \<Rightarrow> string \<Rightarrow> ('w, unit) act" where
  "ngrok_Delete c name =
     bindA (wrapA ''ngrok list domains'' (readA (listDomains c))) (\<lambda>ds.
       forA (\<lambda>d. if named_by name d
                 then wrapA (''ngrok delete domain '' @ (if isExactHostname name then name else nd_domain d)) (deleteDomain c (nd_id d))
                 else retA ()) ds)"

definition ngrok_ListResources :: "'w ngrok_client \<Rightarrow> 'w \<Rightarrow> goerr + resource_group list" where
  "ngrok_ListResources c w =
     map_sum id (\<lambda>ds. [\<lparr>rg_name = ''ngrok Reserved Domains'', rg_columns = [''ID'', ''Name'', ''CNAME Target''],
       rg_rows = map (\<lambda>d. [nd_id d, nd_domain d, nd_cname d]) ds\<rparr>]) (listDomains c w)"

definition ngrok_tunnel :: "'w ngrok_client \<Rightarrow> 'w tunnel_provider" where
  "ngrok_tunnel c = \<lparr>tn_reconcile = ngrok_Reconcile c, tn_delete = ngrok_Delete c\<rparr>"

text \<open>Two hosts can share a name in the agent's configuration, which then has a key twice.\<close>

lemma tunnel_names_collide:
  "ng_tunnel_name ''a-b.example.com'' = ng_tunnel_name ''a.b.example.com''" "''a-b.example.com'' \<noteq> ''a.b.example.com''"
  by (simp_all add: ng_tunnel_name_def replace_byte_def)

section \<open>The service of the tests\<close>

record ngrok_fake =
  nf_seq :: int
  nf_domains :: "ngrok_domain list"
  nf_ops :: "string list"
  nf_err_on :: "string gomap"

definition NewNgrokFake :: ngrok_fake where
  "NewNgrokFake = \<lparr>nf_seq = 0, nf_domains = [], nf_ops = [], nf_err_on = []\<rparr>"

definition SeedDomainWithMetadata :: "string \<Rightarrow> string \<Rightarrow> string \<Rightarrow> string \<Rightarrow> ngrok_fake \<Rightarrow> ngrok_fake" where
  "SeedDomainWithMetadata i domain cname metadata f =
     f\<lparr>nf_domains := filter (\<lambda>d. nd_id d \<noteq> i) (nf_domains f) @
       [\<lparr>nd_id = i, nd_domain = domain, nd_cname = cname, nd_metadata = metadata\<rparr>]\<rparr>"

definition SeedDomain :: "string \<Rightarrow> string \<Rightarrow> string \<Rightarrow> ngrok_fake \<Rightarrow> ngrok_fake" where
  "SeedDomain i domain cname = SeedDomainWithMetadata i domain cname []"

definition ngrok_handleList :: "ngrok_fake \<Rightarrow> api_fault + ngrok_domain list" where
  "ngrok_handleList f = Inr (nf_domains f)"

definition ngrok_handleCreate :: "string \<Rightarrow> string \<Rightarrow> (ngrok_fake, ngrok_domain) http" where
  "ngrok_handleCreate domain metadata f =
     (let op = ''create-domain:'' @ domain; f' = f\<lparr>nf_ops := nf_ops f @ [op]\<rparr>
      in case map_of (nf_err_on f) op of
           Some err \<Rightarrow> (Inl (Refused 500 err), f')
         | None \<Rightarrow>
             let d = \<lparr>nd_id = ''rd-'' @ itoa (nf_seq f + 1), nd_domain = domain, nd_cname = domain @ ''.cname.ngrok.io'', nd_metadata = metadata\<rparr>
             in (Inr d, f'\<lparr>nf_seq := nf_seq f + 1, nf_domains := nf_domains f @ [d]\<rparr>))"

definition ngrok_handleDelete :: "string \<Rightarrow> (ngrok_fake, unit) http" where
  "ngrok_handleDelete i f =
     (case find (\<lambda>d. nd_id d = i) (nf_domains f) of
        None \<Rightarrow> (Inl (Refused 404 []), f)
      | Some d \<Rightarrow> (Inr (), f\<lparr>nf_domains := filter (\<lambda>d. nd_id d \<noteq> i) (nf_domains f), nf_ops := nf_ops f @ [''delete-domain:'' @ nd_domain d]\<rparr>))"

definition fake_ngrok :: "ngrok_fake ngrok_client" where
  "fake_ngrok = ngrok_NewClient \<lparr>na_list = ngrok_handleList, na_create = ngrok_handleCreate, na_delete = ngrok_handleDelete\<rparr>
     [(''api_key'', ''test-api-key''), (''authtoken'', ''test-authtoken'')]"

lemma fake_ngrok_simps [simp]:
  "listDomains fake_ngrok f = Inr (nf_domains f)" "ng_authtoken fake_ngrok = ''test-authtoken''"
  "na_create (ng_api fake_ngrok) = ngrok_handleCreate" "na_delete (ng_api fake_ngrok) = ngrok_handleDelete"
  by (simp_all add: fake_ngrok_def ngrok_NewClient_def listDomains_def get_def ngrok_handleList_def get0_def)

lemma deleteDomain_fake:
  "\<exists>f'. deleteDomain fake_ngrok i f = (Inr (), f') \<and> nf_domains f' = filter (\<lambda>d. nd_id d \<noteq> i) (nf_domains f)"
proof (cases "find (\<lambda>d. nd_id d = i) (nf_domains f)")
  case None
  then have "\<forall>d \<in> set (nf_domains f). nd_id d \<noteq> i" by (simp add: find_None_iff)
  moreover have "itoa 404 = ''404''" by code_simp
  ultimately show ?thesis using None
    by (simp add: deleteDomain_def tolerate_def send_def ngrok_handleDelete_def http_error_def ngrok_http_def refused_error_def
        ngrok_isNotFound_def)
next
  case (Some d)
  then show ?thesis by (simp add: deleteDomain_def tolerate_def send_def ngrok_handleDelete_def)
qed

text \<open>Deleting a tunnel always succeeds, and removes the domains it names and no other.\<close>

lemma ngrok_deleted:
  assumes "distinct (map nd_id (nf_domains f))"
  shows "\<exists>f'. ngrok_Delete fake_ngrok name f = (Inr (), f') \<and> nf_domains f' = filter (\<lambda>d. \<not> named_by name d) (nf_domains f)"
proof -
  let ?step = "\<lambda>d. if named_by name d
    then wrapA (''ngrok delete domain '' @ (if isExactHostname name then name else nd_domain d)) (deleteDomain fake_ngrok (nd_id d)) else retA ()"
  have "\<exists>f'. forA ?step ds f = (Inr (), f') \<and> nf_domains f' = filter (\<lambda>d. nd_id d \<notin> nd_id ` set (filter (named_by name) ds)) (nf_domains f)"
    for ds and f :: ngrok_fake
  proof (induction ds arbitrary: f)
    case (Cons d ds)
    show ?case
    proof (cases "named_by name d")
      case True
      obtain f1 where one: "deleteDomain fake_ngrok (nd_id d) f = (Inr (), f1)" "nf_domains f1 = filter (\<lambda>x. nd_id x \<noteq> nd_id d) (nf_domains f)"
        using deleteDomain_fake by blast
      obtain f' where rest: "forA ?step ds f1 = (Inr (), f')"
        "nf_domains f' = filter (\<lambda>d. nd_id d \<notin> nd_id ` set (filter (named_by name) ds)) (nf_domains f1)"
        using Cons.IH by blast
      have "forA ?step (d # ds) f = (Inr (), f')" using True one(1) rest(1) by (simp add: thenA_def bindA_def wrapA_def)
      then show ?thesis using True one(2) rest(2) by (auto intro: filter_cong)
    next
      case False
      obtain f' where "forA ?step ds f = (Inr (), f')"
        "nf_domains f' = filter (\<lambda>d. nd_id d \<notin> nd_id ` set (filter (named_by name) ds)) (nf_domains f)"
        using Cons.IH by blast
      with False show ?thesis by (simp add: thenA_def bindA_def retA_def)
    qed
  qed simp
  from this [of "nf_domains f" f] obtain f' where "forA ?step (nf_domains f) f = (Inr (), f')"
    "nf_domains f' = filter (\<lambda>d. nd_id d \<notin> nd_id ` set (filter (named_by name) (nf_domains f))) (nf_domains f)" by blast
  moreover have "nd_id d \<notin> nd_id ` set (filter (named_by name) (nf_domains f)) \<longleftrightarrow> \<not> named_by name d" if "d \<in> set (nf_domains f)" for d
    using assms that by (auto simp: distinct_map inj_on_def)
  ultimately show ?thesis by (simp add: ngrok_Delete_def bindA_def wrapA_def readA_def cong: filter_cong)
qed

end
