(* ===== verification/Resources.thy ===== *)
theory Resources
  imports Cloudflare Ngrok
begin

text \<open>
  What \<open>nvoi resources\<close> lists, and which of it the configuration owns (\<open>pkg/core/resources.go\<close>). The
  registries hold, for each provider, its listing.
\<close>

section \<open>Scopes\<close>

text \<open>\<open>strings.EqualFold\<close> on ASCII.\<close>

definition equal_fold :: "string \<Rightarrow> string \<Rightarrow> bool" where
  "equal_fold s t \<longleftrightarrow> to_lower s = to_lower t"

definition expectedSetFor :: "string \<Rightarrow> ownership option \<Rightarrow> string list option" where
  "expectedSetFor groupName ctx =
     (let pick = (\<lambda>names. Some (case ctx of None \<Rightarrow> [] | Some own \<Rightarrow> names own)) in
      if groupName \<in> {''Servers'', ''Instances''} then pick ExpectedServers
      else if groupName \<in> {''Firewalls'', ''Security Groups''} then pick ExpectedFirewalls
      else if groupName \<in> {''Networks'', ''VPCs'', ''Private Networks''} then pick ExpectedNetworks
      else if groupName \<in> {''Volumes'', ''EBS Volumes'', ''Block Volumes''} then pick ExpectedVolumes
      else if groupName = ''DNS Records'' then pick ExpectedDNS
      else if groupName \<in> {''R2 Buckets'', ''S3 Buckets'', ''Scaleway Buckets''} then pick ExpectedBuckets
      else if groupName \<in> {''Cloudflare Tunnels'', ''ngrok Reserved Domains''} then pick ExpectedTunnels
      else None)"

fun nameColumnIndex :: "string list \<Rightarrow> nat option" where
  "nameColumnIndex [] = None"
| "nameColumnIndex (c # cols) =
     (if equal_fold c ''Name'' \<or> equal_fold c ''Domain'' then Some 0 else map_option Suc (nameColumnIndex cols))"

definition row_scope :: "nat \<Rightarrow> string list \<Rightarrow> string list \<Rightarrow> scope" where
  "row_scope i expected row = ClassifyScope (if i < length row then row ! i else []) expected"

text \<open>A group with the scopes of its rows, where it has a scope column.\<close>

definition classify_group :: "ownership option \<Rightarrow> resource_group \<Rightarrow> resource_group \<times> scope list option" where
  "classify_group ctx g =
     (case (expectedSetFor (rg_name g) ctx, nameColumnIndex (rg_columns g)) of
        (Some expected, Some i) \<Rightarrow> (g, Some (map (row_scope i expected) (rg_rows g)))
      | _ \<Rightarrow> (g, None))"

definition Classify :: "resource_group list \<Rightarrow> ownership option \<Rightarrow> (resource_group \<times> scope list option) list" where
  "Classify groups ctx = map (classify_group ctx) groups"

section \<open>Listing\<close>

type_synonym 'w lister = "'w \<Rightarrow> goerr + resource_group list"

record 'w resources_request =
  rq_infra :: provider_ref
  rq_dns :: provider_ref
  rq_storage :: provider_ref
  rq_tunnel :: provider_ref
  rq_owner :: "ownership option"

record 'w listers =
  ll_infra :: "'w lister provider_registry"
  ll_dns :: "'w lister provider_registry"
  ll_storage :: "'w lister provider_registry"
  ll_tunnel :: "'w lister provider_registry"

definition list_provider :: "string \<Rightarrow> 'w lister provider_registry \<Rightarrow> provider_ref \<Rightarrow> 'w \<Rightarrow> goerr + resource_group list" where
  "list_provider what reg ref w =
     (if rf_name ref = [] then Inr []
      else bindR (wrapR (what @ '' '' @ rf_name ref) (resolve reg (rf_name ref) (rf_creds ref))) (\<lambda>ls.
           wrapR (what @ '' '' @ rf_name ref @ '' list'') (ls w)))"

definition Resources :: "'w listers \<Rightarrow> 'w resources_request \<Rightarrow> 'w \<Rightarrow> goerr + (resource_group \<times> scope list option) list" where
  "Resources L req w =
     bindR (list_provider ''infra'' (ll_infra L) (rq_infra req) w) (\<lambda>infra.
     bindR (list_provider ''dns'' (ll_dns L) (rq_dns req) w) (\<lambda>dns.
     bindR (list_provider ''storage'' (ll_storage L) (rq_storage req) w) (\<lambda>storage.
     bindR (list_provider ''tunnel'' (ll_tunnel L) (rq_tunnel req) w) (\<lambda>tunnel.
       Inr (Classify (infra @ dns @ storage @ tunnel) (rq_owner req))))))"

section \<open>Which listings are classified\<close>

text \<open>Every group that the providers list has a scope for each of its rows.\<close>

lemma name_columns [simp]:
  "nameColumnIndex [''ID'', ''Name'', ''Status'', ''IPv4'', ''Private IP''] = Some 1"
  "nameColumnIndex [''ID'', ''Name''] = Some 1" "nameColumnIndex [''ID'', ''Name'', ''Size'', ''Server'', ''Device''] = Some 1"
  "nameColumnIndex [''Type'', ''Domain'', ''Target''] = Some 1" "nameColumnIndex [''Name''] = Some 0"
  "nameColumnIndex [''ID'', ''Name'', ''Status''] = Some 1" "nameColumnIndex [''ID'', ''Name'', ''CNAME Target''] = Some 1"
  by code_simp+

declare nameColumnIndex.simps [simp del]

lemma map_sum_Inr: "map_sum id f r = Inr b \<longleftrightarrow> (\<exists>a. r = Inr a \<and> b = f a)"
  by (cases r) auto

lemma classified: "nameColumnIndex (rg_columns g) = Some i \<Longrightarrow> expectedSetFor (rg_name g) ctx = Some expected \<Longrightarrow>
    snd (classify_group ctx g) = Some (map (row_scope i expected) (rg_rows g))"
  by (simp add: classify_group_def)

lemma expected_sets:
  "n \<in> {''Servers'', ''Firewalls'', ''Networks'', ''Volumes'', ''DNS Records'', ''Cloudflare Tunnels''} \<Longrightarrow> \<exists>e. expectedSetFor n ctx = Some e"
  by (elim insertE emptyE) (simp_all add: expectedSetFor_def Let_def)

lemma hetzner_groups_classified:
  assumes "ListResources api w = Inr groups" "g \<in> set groups"
  shows "\<exists>expected. snd (classify_group ctx g) = Some (map (row_scope 1 expected) (rg_rows g))"
proof -
  from assms have "rg_name g \<in> {''Servers'', ''Firewalls'', ''Networks'', ''Volumes''} \<and> nameColumnIndex (rg_columns g) = Some 1"
    unfolding ListResources_def bindR_eq_Inr named_rows_def by auto
  then obtain e where "expectedSetFor (rg_name g) ctx = Some e" "nameColumnIndex (rg_columns g) = Some 1"
    using expected_sets [of "rg_name g" ctx] by auto
  from classified [OF this(2,1)] show ?thesis by blast
qed

lemma cloudflare_groups_classified:
  assumes "dns_ListResources d w = Inr groups \<or> tunnel_ListResources c w = Inr groups" "g \<in> set groups"
  shows "\<exists>expected. snd (classify_group ctx g) = Some (map (row_scope 1 expected) (rg_rows g))"
proof -
  from assms have "rg_name g \<in> {''DNS Records'', ''Cloudflare Tunnels''} \<and> nameColumnIndex (rg_columns g) = Some 1"
    unfolding dns_ListResources_def tunnel_ListResources_def map_sum_Inr by auto
  then obtain e where "expectedSetFor (rg_name g) ctx = Some e" "nameColumnIndex (rg_columns g) = Some 1"
    using expected_sets [of "rg_name g" ctx] by auto
  from classified [OF this(2,1)] show ?thesis by blast
qed

text \<open>
  The domains reserved at ngrok are hosts, the set they are compared with has the name of the cluster:
  none is ever owned.
\<close>

lemma ngrok_domains_never_owned:
  assumes "ngrok_ListResources c w = Inr [g]" "BuildOwnershipContext (Some cfg) = Some own"
    and "CHR ''.'' \<notin> set (cfg_app cfg)" "CHR ''.'' \<notin> set (cfg_env cfg)"
    and "\<forall>row \<in> set (rg_rows g). CHR ''.'' \<in> set (row ! 1)"
  shows "snd (classify_group (Some own) g) = Some (map (\<lambda>_. ScopeExternal) (rg_rows g))"
proof -
  from assms(2) obtain names where names: "NewNames (cfg_app cfg) (cfg_env cfg) = Inr names"
    by (cases "NewNames (cfg_app cfg) (cfg_env cfg)") (simp_all add: BuildOwnershipContext_def)
  with assms(2) have tunnels: "set (ExpectedTunnels own) \<subseteq> {Base names}"
    by (auto simp: BuildOwnershipContext_def Let_def)
  from names have "names = \<lparr>nm_app = cfg_app cfg, nm_env = cfg_env cfg\<rparr>"
    unfolding NewNames_def by (auto split: if_splits option.splits)
  with assms(3,4) have "CHR ''.'' \<notin> set (Base names)" by (simp add: Base_def)
  with tunnels have none: "CHR ''.'' \<notin> set n" if "n \<in> set (ExpectedTunnels own)" for n
    using that by blast
  from assms(1) obtain ds :: "ngrok_domain list" where g: "g = \<lparr>rg_name = ''ngrok Reserved Domains'', rg_columns = [''ID'', ''Name'', ''CNAME Target''],
      rg_rows = map (\<lambda>d. [nd_id d, nd_domain d, nd_cname d]) ds\<rparr>"
    unfolding ngrok_ListResources_def map_sum_Inr by auto
  have "row_scope 1 (ExpectedTunnels own) row = ScopeExternal" if "row \<in> set (rg_rows g)" for row
    using that assms(5) none by (auto simp: g row_scope_def ClassifyScope_def)
  then show ?thesis by (simp add: g classify_group_def expectedSetFor_def Let_def)
qed

end
